(* ===== verification/Prelude.thy ===== *)
theory Prelude
  imports Main "HOL-Library.Word" "HOL-Library.Char_ord" "HOL-Library.List_Lexorder"
begin

text \<open>
  What every component of the development shares: the results of operations that may raise
  an exception, the tables of the database, the Python string routines the sources use,
  identifiers, instants of time, and the collections of facts the component proofs draw on.

  Strings are lists of characters whose codes are read as Unicode code points below 256. A
  routine whose result depends on the alphabet beyond ASCII (upper casing) is modelled on
  ASCII text, and says so.
\<close>

named_theorems op_simps \<open>equations that run an operation on a result or on a state\<close>
named_theorems table_simps \<open>look-ups in updated and extended tables\<close>

section \<open>Exceptions and results\<close>

text \<open>
  The exception classes the modelled sources raise, with the message or the code where a
  caller can see it. \<open>RevisionConflict\<close> carries its metadata: the current revision number, the
  status, the time, the editor and the changed fields of that revision. \<open>ApiError\<close> carries the code and the HTTP status. \<open>OutOfDraws\<close> is no
  exception: it marks a loop over random draws that has not returned on the draws given.
\<close>

datatype exn =
    ValueError string
  | TypeError
  | KeyError
  | AttributeError
  | LookupError string
  | RuntimeError string
  | PermissionError
  | PinPolicyError string
  | InvalidCredentials
  | SessionReauthenticationRequired
  | LastActiveAdminError
  | DuplicateEmployeeNumberError
  | AccountAlreadyExistsError
  | AccountConflictError
  | InitialAdminBootstrapRefused
  | AdminElevationRequired
  | StepUpRequired
  | BrowserAdminStepUpRequired
  | HandoffInvalid
  | BrowserSessionInvalid
  | BrowserCsrfInvalid
  | IdempotencyConflict
  | RequestInProgress
  | JobNotFound
  | StaleJobClaim
  | IncidentNotFound
  | IncidentRevisionNotFound
  | ReportNotFound
  | ReportRevisionNotFound
  | RevisionTargetMissing
  | RevisionConflict int "string option" "int option" "string option" "string list"
  | InvalidJobResultReference
  | TerminalJobFailure string
  | TransientJobFailure
  | InvalidCursor
  | IntegrityError string
  | CountSheetValidationError string
  | PaperworkNotFound
  | PaperworkRevisionNotFound
  | PaperworkRevisionConflict int
  | PaperworkAlreadyExists "128 word"
  | PacketNotFound
  | PacketRevisionConflict int
  | PacketMutationNotAllowed string
  | PacketConfigurationError string
  | PhysicalPaperworkNotFound
  | PhysicalPaperworkNotAllowed string
  | DocumentActionNotFound
  | DocumentActionNotAllowed string
  | FormPopulationConfigurationError string
  | FormPopulationNotFound
  | FormPopulationNotAllowed string
  | FormPopulationNotReady string
  | CatalogConfigurationError string
  | FormLibraryNotFound
  | FormLibrarySelectionInvalid string
  | ApiError string nat
  | OutOfDraws

text \<open>\<open>except ValueError\<close> also catches the subclasses of \<open>ValueError\<close>.\<close>

fun is_ValueError :: "exn \<Rightarrow> bool" where
  "is_ValueError (ValueError _) = True"
| "is_ValueError (PinPolicyError _) = True"
| "is_ValueError InvalidCredentials = True"
| "is_ValueError SessionReauthenticationRequired = True"
| "is_ValueError LastActiveAdminError = True"
| "is_ValueError DuplicateEmployeeNumberError = True"
| "is_ValueError AccountAlreadyExistsError = True"
| "is_ValueError AccountConflictError = True"
| "is_ValueError BrowserCsrfInvalid = True"
| "is_ValueError IdempotencyConflict = True"
| "is_ValueError RequestInProgress = True"
| "is_ValueError StaleJobClaim = True"
| "is_ValueError InvalidJobResultReference = True"
| "is_ValueError (CountSheetValidationError _) = True"
| "is_ValueError (PaperworkRevisionConflict _) = True"
| "is_ValueError (PaperworkAlreadyExists _) = True"
| "is_ValueError (PacketMutationNotAllowed _) = True"
| "is_ValueError (PhysicalPaperworkNotAllowed _) = True"
| "is_ValueError (DocumentActionNotAllowed _) = True"
| "is_ValueError (FormPopulationConfigurationError _) = True"
| "is_ValueError (FormPopulationNotAllowed _) = True"
| "is_ValueError (CatalogConfigurationError _) = True"
| "is_ValueError (FormLibrarySelectionInvalid _) = True"
| "is_ValueError InvalidCursor = True"
| "is_ValueError _ = False"

type_synonym 'a result = "exn + 'a"

definition is_ok :: "'a result \<Rightarrow> bool" where
  "is_ok r \<longleftrightarrow> (case r of Inl _ \<Rightarrow> False | Inr _ \<Rightarrow> True)"

lemma is_ok_simps [simp]: "\<not> is_ok (Inl e)" "is_ok (Inr x)"
  by (simp_all add: is_ok_def)

text \<open>
  An operation on a database session returns its result and the state the session is left
  in, also when it raises: whether that state is kept is decided by the transaction around
  it. \<open>and_then\<close> runs the next step unless the one before raised.
\<close>

definition and_then :: "'a result \<times> 's \<Rightarrow> ('a \<Rightarrow> 's \<Rightarrow> 'b result \<times> 's) \<Rightarrow> 'b result \<times> 's" where
  "and_then rs f = (case rs of (Inl e, s) \<Rightarrow> (Inl e, s) | (Inr x, s) \<Rightarrow> f x s)"

lemma and_then_simps [simp, op_simps]:
  "and_then (Inl e, s) f = (Inl e, s)"
  "and_then (Inr x, s) f = f x s"
  by (simp_all add: and_then_def)

lemma and_then_eq_Inr:
  "and_then rs f = (Inr y, s') \<longleftrightarrow> (\<exists>x s. rs = (Inr x, s) \<and> f x s = (Inr y, s'))"
  by (cases rs; cases "fst rs") (auto simp: and_then_def)

lemma and_then_split:
  "P (and_then rs f) \<longleftrightarrow>
     (\<forall>e s. rs = (Inl e, s) \<longrightarrow> P (Inl e, s)) \<and> (\<forall>x s. rs = (Inr x, s) \<longrightarrow> P (f x s))"
  by (cases rs; cases "fst rs") (auto simp: and_then_def)

lemma case_result_eq_Inr:
  "(case r of Inl e \<Rightarrow> (Inl e, s) | Inr x \<Rightarrow> f x) = (Inr y, s') \<longleftrightarrow> (\<exists>x. r = Inr x \<and> f x = (Inr y, s'))"
  by (cases r) auto

text \<open>Results without state: sequencing, guards, and a loop that stops at the first exception.\<close>

definition bind_result :: "'a result \<Rightarrow> ('a \<Rightarrow> 'b result) \<Rightarrow> 'b result" where
  "bind_result r f = (case r of Inl e \<Rightarrow> Inl e | Inr x \<Rightarrow> f x)"

lemma bind_result_simps [simp]: "bind_result (Inl e) f = Inl e" "bind_result (Inr x) f = f x"
  by (simp_all add: bind_result_def)

lemma bind_result_eq_Inr [simp]:
  "bind_result r f = Inr y \<longleftrightarrow> (\<exists>x. r = Inr x \<and> f x = Inr y)"
  by (cases r) simp_all

definition require :: "bool \<Rightarrow> exn \<Rightarrow> unit result" where
  "require b e = (if b then Inr () else Inl e)"

lemma require_simps [simp]:
  "require True e = Inr ()" "require False e = Inl e" "require b e = Inr u \<longleftrightarrow> b"
  by (simp_all add: require_def)

fun for_each :: "('a \<Rightarrow> unit result) \<Rightarrow> 'a list \<Rightarrow> unit result" where
  "for_each f [] = Inr ()"
| "for_each f (x # xs) = bind_result (f x) (\<lambda>_. for_each f xs)"

lemma for_each_Inr: "for_each f xs = Inr u \<longleftrightarrow> (\<forall>x \<in> set xs. f x = Inr ())"
  by (induction xs) auto

section \<open>Tables\<close>

text \<open>
  A table is the list of its rows in insertion order. \<open>find_row\<close> is a query that returns
  at most one row (a filter on a unique column), \<open>update_rows\<close> the assignment of columns
  of the rows that satisfy a condition.
\<close>

definition find_row :: "('r \<Rightarrow> 'k) \<Rightarrow> 'k \<Rightarrow> 'r list \<Rightarrow> 'r option" where
  "find_row key k rows = find (\<lambda>r. key r = k) rows"

definition update_rows :: "('r \<Rightarrow> bool) \<Rightarrow> ('r \<Rightarrow> 'r) \<Rightarrow> 'r list \<Rightarrow> 'r list" where
  "update_rows p f rows = map (\<lambda>r. if p r then f r else r) rows"

lemma find_row_Nil [simp]: "find_row key k [] = None"
  by (simp add: find_row_def)

lemma find_row_Cons [simp]:
  "find_row key k (r # rows) = (if key r = k then Some r else find_row key k rows)"
  by (simp add: find_row_def)

lemma find_row_append [table_simps]:
  "find_row key k (rows @ new) =
     (case find_row key k rows of None \<Rightarrow> find_row key k new | Some r \<Rightarrow> Some r)"
  by (induction rows) simp_all

lemma find_row_SomeD: "find_row key k rows = Some r \<Longrightarrow> r \<in> set rows \<and> key r = k"
  by (induction rows) (auto split: if_splits)

lemma find_row_NoneD: "find_row key k rows = None \<Longrightarrow> r \<in> set rows \<Longrightarrow> key r \<noteq> k"
  by (induction rows) (auto split: if_splits)

lemma find_row_None_iff: "find_row key k rows = None \<longleftrightarrow> (\<forall>r \<in> set rows. key r \<noteq> k)"
  by (induction rows) auto

lemma find_row_distinct:
  "distinct (map key rows) \<Longrightarrow> r \<in> set rows \<Longrightarrow> find_row key (key r) rows = Some r"
  by (induction rows) force+

lemma update_rows_Nil [simp]: "update_rows p f [] = []"
  by (simp add: update_rows_def)

lemma update_rows_Cons [simp]:
  "update_rows p f (r # rows) = (if p r then f r else r) # update_rows p f rows"
  by (simp add: update_rows_def)

lemma length_update_rows [simp]: "length (update_rows p f rows) = length rows"
  by (simp add: update_rows_def)

lemma set_update_rows: "set (update_rows p f rows) = (\<lambda>r. if p r then f r else r) ` set rows"
  by (simp add: update_rows_def)

lemma map_update_rows [table_simps]:
  "(\<And>r. p r \<Longrightarrow> g (f r) = g r) \<Longrightarrow> map g (update_rows p f rows) = map g rows"
  by (induction rows) auto

lemma find_update_rows [table_simps]:
  "(\<And>r. p r \<Longrightarrow> key (f r) = key r) \<Longrightarrow>
   find_row key k (update_rows p f rows) =
     map_option (\<lambda>r. if p r then f r else r) (find_row key k rows)"
  by (induction rows) auto

lemma update_rows_other: "(\<And>r. r \<in> set rows \<Longrightarrow> \<not> p r) \<Longrightarrow> update_rows p f rows = rows"
  by (induction rows) auto

end
