(* ===== verification/Text.thy ===== *)
theory Text
  imports Prelude "HOL-Library.Multiset"
begin

text \<open>
  The Python values the sources build and inspect: text (\<open>str.strip\<close>, \<open>str.split\<close>,
  \<open>str.join\<close>, \<open>str.upper\<close> on ASCII text, \<open>str(int)\<close>), UUIDs and their text, and
  JSON values with \<open>json.dumps(value, sort_keys=True, separators=(",", ":"))\<close>.
\<close>

section \<open>Characters and text\<close>

abbreviation code :: "char \<Rightarrow> nat" where
  "code c \<equiv> of_char c"

definition in_range :: "char \<Rightarrow> char \<Rightarrow> char \<Rightarrow> bool" where
  "in_range lo hi c \<longleftrightarrow> code lo \<le> code c \<and> code c \<le> code hi"

definition is_upper_ascii :: "char \<Rightarrow> bool" where
  "is_upper_ascii c \<longleftrightarrow> in_range (CHR ''A'') (CHR ''Z'') c"

definition is_lower_ascii :: "char \<Rightarrow> bool" where
  "is_lower_ascii c \<longleftrightarrow> in_range (CHR ''a'') (CHR ''z'') c"

definition is_digit :: "char \<Rightarrow> bool" where
  "is_digit c \<longleftrightarrow> in_range (CHR ''0'') (CHR ''9'') c"

definition is_hex_lower :: "char \<Rightarrow> bool" where
  "is_hex_lower c \<longleftrightarrow> is_digit c \<or> in_range (CHR ''a'') (CHR ''f'') c"

definition is_space :: "char \<Rightarrow> bool" where
  "is_space c \<longleftrightarrow> code c \<in> {9, 10, 11, 12, 13, 28, 29, 30, 31, 32, 133, 160}"

definition upper_char :: "char \<Rightarrow> char" where
  "upper_char c = (if is_lower_ascii c then char_of (code c - 32) else c)"

definition lower_char :: "char \<Rightarrow> char" where
  "lower_char c = (if is_upper_ascii c then char_of (code c + 32) else c)"

definition upper :: "string \<Rightarrow> string" where
  "upper s = map upper_char s"

definition lower :: "string \<Rightarrow> string" where
  "lower s = map lower_char s"

definition lstrip :: "string \<Rightarrow> string" where
  "lstrip s = dropWhile is_space s"

definition strip :: "string \<Rightarrow> string" where
  "strip s = rev (lstrip (rev (lstrip s)))"

text \<open>\<open>s.split()\<close> with no argument: the maximal runs of characters that are no space.\<close>

fun split_words :: "string \<Rightarrow> string \<Rightarrow> string list" where
  "split_words [] w = (if w = [] then [] else [rev w])"
| "split_words (c # s) w =
     (if is_space c then (if w = [] then split_words s [] else rev w # split_words s [])
      else split_words s (c # w))"

definition split :: "string \<Rightarrow> string list" where
  "split s = split_words s []"

fun join :: "string \<Rightarrow> string list \<Rightarrow> string" where
  "join sep [] = []"
| "join sep [x] = x"
| "join sep (x # y # xs) = x @ sep @ join sep (y # xs)"

text \<open>\<open>s in t\<close> for text: \<open>s\<close> is a contiguous part of \<open>t\<close>.\<close>

fun is_prefix :: "'a list \<Rightarrow> 'a list \<Rightarrow> bool" where
  "is_prefix [] t = True"
| "is_prefix (x # s) [] = False"
| "is_prefix (x # s) (y # t) = (x = y \<and> is_prefix s t)"

fun is_substring :: "'a list \<Rightarrow> 'a list \<Rightarrow> bool" where
  "is_substring s [] = (s = [])"
| "is_substring s (y # t) = (is_prefix s (y # t) \<or> is_substring s t)"

lemma is_prefix_iff: "is_prefix s t \<longleftrightarrow> (\<exists>v. t = s @ v)"
  by (induction s t rule: is_prefix.induct) auto

lemma is_substring_iff: "is_substring s t \<longleftrightarrow> (\<exists>u v. t = u @ s @ v)"
proof (induction t)
  case Nil
  show ?case by simp
next
  case (Cons y t)
  have "(\<exists>u v. y # t = u @ s @ v) \<longleftrightarrow> (\<exists>v. y # t = s @ v) \<or> (\<exists>u v. t = u @ s @ v)"
    by (auto simp: Cons_eq_append_conv)
  with Cons show ?case by (simp add: is_prefix_iff)
qed

lemma strip_no_outer_space:
  "strip s = [] \<or> (\<not> is_space (hd (strip s)) \<and> \<not> is_space (last (strip s)))"
proof -
  have h: "dropWhile P xs = [] \<or> \<not> P (hd (dropWhile P xs))" for P and xs :: "char list"
    using hd_dropWhile by blast
  have l: "dropWhile P xs \<noteq> [] \<Longrightarrow> last (dropWhile P xs) = last xs" for P and xs :: "char list"
    by (metis append_is_Nil_conv last_appendR takeWhile_dropWhile_id)
  let ?u = "dropWhile is_space s" and ?v = "dropWhile is_space (rev (dropWhile is_space s))"
  show ?thesis
  proof (cases "?v = []")
    case True
    then show ?thesis by (simp add: strip_def lstrip_def)
  next
    case False
    then have "?u \<noteq> []" by (metis dropWhile.simps(1) rev.simps(1))
    with False h [of is_space s] h [of is_space "rev ?u"] l [OF False] show ?thesis
      by (simp add: strip_def lstrip_def hd_rev last_rev del: dropWhile_eq_Nil_conv)
  qed
qed

lemma set_strip: "set (strip s) \<subseteq> set s"
proof -
  have "set (dropWhile is_space xs) \<subseteq> set xs" for xs
    by (auto dest: set_dropWhileD)
  from this [of "rev (lstrip s)"] this [of s] show ?thesis
    by (simp add: strip_def lstrip_def)
qed

lemma strip_id: "(\<And>c. c \<in> set s \<Longrightarrow> \<not> is_space c) \<Longrightarrow> strip s = s"
proof -
  assume no: "\<And>c. c \<in> set s \<Longrightarrow> \<not> is_space c"
  have "dropWhile is_space xs = xs" if "set xs = set s" for xs
    using that no by (cases xs) auto
  then show ?thesis by (simp add: strip_def lstrip_def)
qed

lemma upper_idem [simp]: "upper (upper s) = upper s"
proof -
  have "upper_char (upper_char c) = upper_char c" for c
    by (auto simp: upper_char_def is_lower_ascii_def in_range_def)
  then show ?thesis by (simp add: upper_def)
qed

lemma length_upper [simp]: "length (upper s) = length s"
  by (simp add: upper_def)

section \<open>Numerals\<close>

definition digit_char :: "nat \<Rightarrow> char" where
  "digit_char d = (if d < 10 then char_of (48 + d) else char_of (87 + d))"

fun nat_str :: "nat \<Rightarrow> string" where
  "nat_str n = (if n < 10 then [digit_char n] else nat_str (n div 10) @ [digit_char (n mod 10)])"

declare nat_str.simps [simp del]

definition int_str :: "int \<Rightarrow> string" where
  "int_str i = (if i < 0 then CHR ''-'' # nat_str (nat (- i)) else nat_str (nat i))"

text \<open>The lower-case hexadecimal text of \<open>n\<close>, \<open>w\<close> digits wide.\<close>

fun hex_str :: "nat \<Rightarrow> nat \<Rightarrow> string" where
  "hex_str 0 n = []"
| "hex_str (Suc w) n = hex_str w (n div 16) @ [digit_char (n mod 16)]"

lemma length_hex_str [simp]: "length (hex_str w n) = w"
  by (induction w arbitrary: n) simp_all

section \<open>UUIDs\<close>

type_synonym uuid = "128 word"

text \<open>\<open>str(uuid)\<close>: 32 hexadecimal digits in groups of 8, 4, 4, 4 and 12.\<close>

definition uuid_str :: "uuid \<Rightarrow> string" where
  "uuid_str u =
     (let h = hex_str 32 (unat u)
      in take 8 h @ ''-'' @ take 4 (drop 8 h) @ ''-'' @ take 4 (drop 12 h) @ ''-''
         @ take 4 (drop 16 h) @ ''-'' @ drop 20 h)"

definition hex_value :: "char \<Rightarrow> nat" where
  "hex_value c = (if is_digit c then code c - 48 else code c - 87)"

definition hex_nat :: "string \<Rightarrow> nat" where
  "hex_nat s = foldl (\<lambda>n c. 16 * n + hex_value c) 0 s"

text \<open>
  The UUID whose text is \<open>s\<close>, if there is one. The sources parse with \<open>UUID(value)\<close>, which
  accepts more spellings (braces, missing or misplaced dashes, upper case), and then compare
  \<open>str(parsed)\<close> with the text where the spelling matters.
\<close>

definition uuid_of_str :: "string \<Rightarrow> uuid option" where
  "uuid_of_str s =
     (let u = word_of_nat (hex_nat (filter (\<lambda>c. c \<noteq> CHR ''-'') s))
      in if uuid_str u = s then Some u else None)"

lemma hex_value_digit_char: "d < 16 \<Longrightarrow> hex_value (digit_char d) = d"
  by (auto simp: hex_value_def digit_char_def is_digit_def in_range_def)

lemma digit_char_no_dash: "d < 16 \<Longrightarrow> digit_char d \<noteq> CHR ''-''"
proof -
  assume "d < 16"
  then have "hex_value (digit_char d) = d" by (rule hex_value_digit_char)
  moreover have "code (digit_char d) \<noteq> 45" using \<open>d < 16\<close> by (auto simp: digit_char_def)
  ultimately show ?thesis by auto
qed

lemma hex_nat_append: "hex_nat (s @ [c]) = 16 * hex_nat s + hex_value c"
  by (simp add: hex_nat_def)

lemma hex_nat_hex_str: "hex_nat (hex_str w n) = n mod 16 ^ w"
proof (induction w arbitrary: n)
  case 0
  show ?case by (simp add: hex_nat_def)
next
  case (Suc w)
  have "n mod 16 ^ Suc w = 16 * (n div 16 mod 16 ^ w) + n mod 16"
    by (simp add: mod_mult2_eq)
  with Suc show ?case
    by (simp add: hex_nat_append hex_value_digit_char)
qed

lemma hex_str_no_dash: "CHR ''-'' \<notin> set (hex_str w n)"
proof (induction w arbitrary: n)
  case (Suc w)
  have "n mod 16 < 16" by simp
  with Suc show ?case by (metis Un_iff digit_char_no_dash hex_str.simps(2) list.set(1) list.set(2)
        insert_iff set_append singletonD)
qed simp

lemma uuid_str_groups:
  "h = take 8 h @ take 4 (drop 8 h) @ take 4 (drop 12 h) @ take 4 (drop 16 h) @ drop 20 h"
proof -
  have step: "drop i h = take k (drop i h) @ drop (i + k) h" for i k
    by (metis append_take_drop_id drop_drop add.commute)
  have "h = take 8 h @ drop 8 h" by simp
  also have "drop 8 h = take 4 (drop 8 h) @ drop 12 h" using step [of 8 4] by simp
  also have "drop 12 h = take 4 (drop 12 h) @ drop 16 h" using step [of 12 4] by simp
  also have "drop 16 h = take 4 (drop 16 h) @ drop 20 h" using step [of 16 4] by simp
  finally show ?thesis .
qed

lemma filter_uuid_str: "filter (\<lambda>c. c \<noteq> CHR ''-'') (uuid_str u) = hex_str 32 (unat u)"
proof -
  define h where "h = hex_str 32 (unat u)"
  have "CHR ''-'' \<notin> set h" by (simp add: h_def hex_str_no_dash)
  then have f: "filter (\<lambda>c. c \<noteq> CHR ''-'') xs = xs" if "set xs \<subseteq> set h" for xs
    using that by (auto simp: filter_id_conv)
  have "filter (\<lambda>c. c \<noteq> CHR ''-'') (uuid_str u)
      = take 8 h @ take 4 (drop 8 h) @ take 4 (drop 12 h) @ take 4 (drop 16 h) @ drop 20 h"
    by (simp add: uuid_str_def Let_def h_def [symmetric] f set_take_subset set_drop_subset
        subset_trans [OF set_take_subset set_drop_subset])
  then show ?thesis using uuid_str_groups [of h] by (simp add: h_def)
qed

theorem uuid_round_trip: "uuid_of_str (uuid_str u) = Some u"
proof -
  have "hex_nat (hex_str 32 (unat u)) = unat u mod 16 ^ 32" by (rule hex_nat_hex_str)
  also have "\<dots> = unat u" using unsigned_less [of u, where 'a = nat] by simp
  finally show ?thesis by (simp add: uuid_of_str_def filter_uuid_str Let_def)
qed

lemma uuid_of_str_Some [simp]: "uuid_of_str s = Some u \<longleftrightarrow> s = uuid_str u"
proof
  assume "uuid_of_str s = Some u"
  then show "s = uuid_str u" by (auto simp: uuid_of_str_def Let_def split: if_splits)
qed (simp add: uuid_round_trip)

lemma uuid_str_inject [simp]: "uuid_str u = uuid_str v \<longleftrightarrow> u = v"
  using uuid_round_trip by (metis option.inject)

lemma length_uuid_str [simp]: "length (uuid_str u) = 36"
  by (simp add: uuid_str_def Let_def)

section \<open>JSON values\<close>

text \<open>
  The Python values that cross an interface: what \<open>json.loads\<close> returns. A float is kept as
  its text. A dictionary is the list of its items in insertion order.
\<close>

datatype json =
    JNull
  | JBool bool
  | JInt int
  | JFloat string
  | JStr string
  | JArr "json list"
  | JObj "(string \<times> json) list"

definition escape_char :: "bool \<Rightarrow> char \<Rightarrow> string" where
  "escape_char ascii c =
     (let n = code c
      in if n = 34 then [CHR 0x5C, CHR 0x22]
         else if n = 92 then [CHR 0x5C, CHR 0x5C]
         else if n = 10 then [CHR 0x5C, CHR ''n'']
         else if n = 13 then [CHR 0x5C, CHR ''r'']
         else if n = 9 then [CHR 0x5C, CHR ''t'']
         else if n = 8 then [CHR 0x5C, CHR ''b'']
         else if n = 12 then [CHR 0x5C, CHR ''f'']
         else if n < 32 \<or> (ascii \<and> 126 < n) then [CHR 0x5C, CHR ''u''] @ hex_str 4 n
         else [c])"

definition quote :: "bool \<Rightarrow> string \<Rightarrow> string" where
  "quote ascii s = [CHR 0x22] @ concat (map (escape_char ascii) s) @ [CHR 0x22]"

text \<open>
  \<open>json.dumps(v, sort_keys=True, separators=(",", ":"), ensure_ascii=ascii)\<close>; keys are sorted
  by their code points.
\<close>

fun dumps :: "bool \<Rightarrow> json \<Rightarrow> string" where
  "dumps ascii JNull = ''null''"
| "dumps ascii (JBool b) = (if b then ''true'' else ''false'')"
| "dumps ascii (JInt i) = int_str i"
| "dumps ascii (JFloat s) = s"
| "dumps ascii (JStr s) = quote ascii s"
| "dumps ascii (JArr vs) = ''['' @ join '','' (map (dumps ascii) vs) @ '']''"
| "dumps ascii (JObj kvs) =
     ''{'' @ join '',''
       (map (\<lambda>(k, t). quote ascii k @ '':'' @ t)
         (sort_key fst (map (\<lambda>(k, v). (k, dumps ascii v)) kvs))) @ ''}''"

definition obj_get :: "string \<Rightarrow> (string \<times> json) list \<Rightarrow> json option" where
  "obj_get k kvs = map_of kvs k"

definition obj_keys :: "(string \<times> json) list \<Rightarrow> string list" where
  "obj_keys kvs = map fst kvs"

lemma obj_keys_simps [simp]: "obj_keys [] = []" "obj_keys ((k, v) # kvs) = k # obj_keys kvs"
  by (simp_all add: obj_keys_def)

text \<open>Bounds on the length of what \<open>dumps\<close> writes, for the size limits of stored metadata.\<close>

definition join_len :: "string list \<Rightarrow> nat" where
  "join_len ts = sum_list (map length ts) + length ts"

lemma length_join: "length (join '','' ts) \<le> join_len ts"
  by (induction "'',''::string" ts rule: join.induct) (auto simp: join_len_def)

lemma length_quote_plain:
  "(\<And>c. c \<in> set s \<Longrightarrow> 32 \<le> code c \<and> code c < 127 \<and> code c \<noteq> 34 \<and> code c \<noteq> 92) \<Longrightarrow>
   length (quote ascii s) = length s + 2"
proof -
  assume plain: "\<And>c. c \<in> set s \<Longrightarrow> 32 \<le> code c \<and> code c < 127 \<and> code c \<noteq> 34 \<and> code c \<noteq> 92"
  have "concat (map (escape_char ascii) xs) = xs" if "set xs \<subseteq> set s" for xs
    using that
  proof (induction xs)
    case (Cons c xs)
    then have "32 \<le> code c \<and> code c < 127 \<and> code c \<noteq> 34 \<and> code c \<noteq> 92" using plain by simp
    with Cons show ?case by (simp add: escape_char_def Let_def)
  qed simp
  then show ?thesis by (simp add: quote_def)
qed

lemma length_dumps_obj:
  "length (dumps ascii (JObj kvs)) \<le>
     2 + sum_list (map (\<lambda>(k, v). length (quote ascii k) + 2 + length (dumps ascii v)) kvs)"
proof -
  let ?item = "\<lambda>(k, t). quote ascii k @ '':'' @ t"
  let ?kts = "map (\<lambda>(k, v). (k, dumps ascii v)) kvs"
  have len: "length (join '','' ts) \<le> sum_list (map (\<lambda>t. length t + 1) ts)" for ts
    using length_join [of ts] sum_list_addf [of length "\<lambda>_. 1::nat" ts]
    by (simp add: join_len_def sum_list_triv)
  have perm: "sum_list (map g (sort_key fst xs)) = sum_list (map g xs)"
    for g :: "string \<times> string \<Rightarrow> nat" and xs
    by (metis mset_map mset_sort sum_mset_sum_list)
  have "length (join '','' (map ?item (sort_key fst ?kts)))
      \<le> sum_list (map (\<lambda>t. length t + 1) (map ?item (sort_key fst ?kts)))"
    by (rule len)
  also have "\<dots> = sum_list (map (\<lambda>p. length (?item p) + 1) ?kts)"
    using perm [of "\<lambda>p. length (?item p) + 1" ?kts] by (simp add: comp_def)
  finally show ?thesis by (simp add: comp_def case_prod_unfold)
qed

end
