(* ===== verification/Persistence.thy ===== *)
theory Persistence
  imports Text
begin

text \<open>
  The rows of the database (\<open>src/backend/persistence/models\<close>) and the state of a database
  session: one list of rows per table. Columns keep their names, with a prefix where two
  tables share one. A column with a check constraint to a closed set of values is a datatype.
  Digests (\<open>LargeBinary(32)\<close>) are byte strings. Instants are microseconds since an epoch, the
  resolution of \<open>datetime\<close> and of \<open>timestamptz\<close>; \<open>timedelta(seconds=s)\<close> is \<open>seconds s\<close>.
\<close>

section \<open>Instants\<close>

type_synonym time = int

definition seconds :: "int \<Rightarrow> time" where
  "seconds s = s * 1000000"

definition minutes :: "int \<Rightarrow> time" where
  "minutes m = seconds (60 * m)"

definition hours :: "int \<Rightarrow> time" where
  "hours h = minutes (60 * h)"

lemma time_pos [simp]: "0 < seconds s \<longleftrightarrow> 0 < s" "0 < minutes s \<longleftrightarrow> 0 < s" "0 < hours s \<longleftrightarrow> 0 < s"
  by (simp_all add: seconds_def minutes_def hours_def)

type_synonym bytes = string

section \<open>Identity: \<open>models/identity.py\<close>\<close>

datatype role = User | Admin

datatype account_status = Active | Locked | Deactivated

record staff_member =
  st_id :: uuid
  st_employee_number :: string
  st_rank :: string
  st_first_name :: string
  st_last_name :: string
  st_shift :: string
  st_is_active :: bool
  st_created_at :: time
  st_updated_at :: time

record account =
  ac_id :: uuid
  ac_staff_member_id :: uuid
  ac_role :: role
  ac_status :: account_status
  ac_pin_hash :: string
  ac_must_change_pin :: bool
  ac_temporary_pin_expires_at :: "time option"
  ac_failed_attempts :: nat
  ac_lock_cycle :: nat
  ac_locked_until :: "time option"
  ac_auth_version :: nat
  ac_last_login_at :: "time option"
  ac_created_at :: time
  ac_updated_at :: time
  ac_deactivated_at :: "time option"

section \<open>Sessions: \<open>models/sessions.py\<close>, \<open>models/browser.py\<close>\<close>

record access_session =
  se_id :: uuid
  se_account_id :: uuid
  se_auth_version :: nat
  se_access_token_hash :: bytes
  se_access_expires_at :: time
  se_renewal_token_hash :: bytes
  se_renewal_expires_at :: time
  se_renewal_family_id :: uuid
  se_device_id_hash :: bytes
  se_device_label :: string
  se_persistent :: bool
  se_last_used_at :: time
  se_created_at :: time
  se_revoked_at :: "time option"
  se_revoke_reason :: "string option"

record renewal_token_history =
  rh_session_id :: uuid
  rh_renewal_family_id :: uuid
  rh_token_hash :: bytes
  rh_rotated_at :: time
  rh_expires_at :: time
  rh_reuse_detected_at :: "time option"

record admin_elevation =
  el_session_id :: uuid
  el_issued_at :: time
  el_last_used_at :: time
  el_idle_expires_at :: time
  el_revoked_at :: "time option"

record admin_step_up_token =
  su_session_id :: uuid
  su_token_hash :: bytes
  su_purpose :: string
  su_issued_at :: time
  su_expires_at :: time
  su_used_at :: "time option"
  su_revoked_at :: "time option"

record browser_session_binding =
  bb_session_id :: uuid
  bb_csrf_token_hash :: bytes
  bb_created_at :: time
  bb_rotated_at :: time

section \<open>Security: \<open>models/security.py\<close>\<close>

record browser_handoff =
  bh_id :: uuid
  bh_account_id :: uuid
  bh_session_id :: uuid
  bh_token_hash :: bytes
  bh_purpose :: string
  bh_expires_at :: time
  bh_redeemed_at :: "time option"
  bh_revoked_at :: "time option"
  bh_created_at :: time

record browser_session =
  bs_id :: uuid
  bs_account_id :: uuid
  bs_issuing_session_id :: uuid
  bs_token_hash :: bytes
  bs_purpose :: string
  bs_last_used_at :: time
  bs_expires_at :: time
  bs_created_at :: time
  bs_revoked_at :: "time option"

record auth_rate_limit =
  rl_dimension :: string
  rl_subject_hash :: bytes
  rl_window_started_at :: time
  rl_hit_count :: int
  rl_updated_at :: time

datatype audit_result = Success | Denied | Failed

record audit_event =
  actor_account_id :: "uuid option"
  actor_staff_member_id :: "uuid option"
  action :: string
  ae_result :: audit_result
  request_id :: string
  target_type :: string
  target_id :: "uuid option"
  details :: json
  client_version :: "string option"
  device_id_hash :: "bytes option"
  network_hash :: "bytes option"

datatype idempotency_status = InProgress | Completed

record idempotency_record =
  id_id :: uuid
  id_actor_account_id :: uuid
  id_action :: string
  id_idempotency_key :: string
  id_request_sha256 :: bytes
  id_status :: idempotency_status
  id_response_status :: "int option"
  id_response_reference :: json
  id_created_at :: time
  id_completed_at :: "time option"
  id_expires_at :: time

section \<open>The state of a database session\<close>

record db =
  staff_members :: "staff_member list"
  accounts :: "account list"
  sessions :: "access_session list"
  renewal_history :: "renewal_token_history list"
  admin_elevations :: "admin_elevation list"
  step_up_tokens :: "admin_step_up_token list"
  session_bindings :: "browser_session_binding list"
  browser_handoffs :: "browser_handoff list"
  browser_sessions :: "browser_session list"
  rate_limits :: "auth_rate_limit list"
  audit_events :: "audit_event list"
  idempotency_records :: "idempotency_record list"

definition empty_db :: db where
  "empty_db = \<lparr>staff_members = [], accounts = [], sessions = [], renewal_history = [],
     admin_elevations = [], step_up_tokens = [], session_bindings = [], browser_handoffs = [],
     browser_sessions = [], rate_limits = [], audit_events = [], idempotency_records = []\<rparr>"

text \<open>
  \<open>session_scope\<close> (\<open>persistence/database.py\<close>) around a body: what the body did is committed
  when it returns and rolled back when an exception leaves it.
\<close>

definition session_scope :: "('s \<Rightarrow> 'a result \<times> 's) \<Rightarrow> 's \<Rightarrow> 'a result \<times> 's" where
  "session_scope body s =
     (case body s of (Inl e, _) \<Rightarrow> (Inl e, s) | (Inr x, s') \<Rightarrow> (Inr x, s'))"

lemma session_scope_simps [op_simps]:
  "body db = (Inl e, db') \<Longrightarrow> session_scope body db = (Inl e, db)"
  "body db = (Inr x, db') \<Longrightarrow> session_scope body db = (Inr x, db')"
  by (simp_all add: session_scope_def)

lemma session_scope_raised: "session_scope body db = (Inl e, db') \<Longrightarrow> db' = db"
  by (auto simp: session_scope_def split: prod.splits sum.splits)

section \<open>Queries on unique columns\<close>

abbreviation find_staff :: "uuid \<Rightarrow> db \<Rightarrow> staff_member option" where
  "find_staff i db \<equiv> find_row st_id i (staff_members db)"

abbreviation find_account :: "uuid \<Rightarrow> db \<Rightarrow> account option" where
  "find_account i db \<equiv> find_row ac_id i (accounts db)"

abbreviation find_session :: "uuid \<Rightarrow> db \<Rightarrow> access_session option" where
  "find_session i db \<equiv> find_row se_id i (sessions db)"

definition set_account :: "uuid \<Rightarrow> (account \<Rightarrow> account) \<Rightarrow> db \<Rightarrow> db" where
  "set_account i f db = db\<lparr>accounts := update_rows (\<lambda>a. ac_id a = i) f (accounts db)\<rparr>"

definition set_session :: "uuid \<Rightarrow> (access_session \<Rightarrow> access_session) \<Rightarrow> db \<Rightarrow> db" where
  "set_session i f db = db\<lparr>sessions := update_rows (\<lambda>s. se_id s = i) f (sessions db)\<rparr>"

definition set_staff :: "uuid \<Rightarrow> (staff_member \<Rightarrow> staff_member) \<Rightarrow> db \<Rightarrow> db" where
  "set_staff i f db = db\<lparr>staff_members := update_rows (\<lambda>s. st_id s = i) f (staff_members db)\<rparr>"

text \<open>An ORM object that has been changed: its row takes the values of the object.\<close>

abbreviation put_account :: "account \<Rightarrow> db \<Rightarrow> db" where
  "put_account a \<equiv> set_account (ac_id a) (\<lambda>_. a)"

abbreviation put_session :: "access_session \<Rightarrow> db \<Rightarrow> db" where
  "put_session s \<equiv> set_session (se_id s) (\<lambda>_. s)"

abbreviation put_staff :: "staff_member \<Rightarrow> db \<Rightarrow> db" where
  "put_staff s \<equiv> set_staff (st_id s) (\<lambda>_. s)"

section \<open>Cryptography\<close>

text \<open>
  The digests of \<open>hashlib\<close> and \<open>hmac\<close> and the Argon2 hasher of the third-party package
  \<open>argon2\<close> are parameters of the model. \<open>argon_verify h p\<close> is false where \<open>HASHER.verify\<close>
  raises \<open>VerifyMismatchError\<close> or \<open>InvalidHashError\<close>; \<open>argon_needs_rehash h\<close> is \<open>None\<close> where
  \<open>check_needs_rehash\<close> raises \<open>InvalidHashError\<close>. The salt of a hash is an argument, as are the
  random values of \<open>secrets\<close> and \<open>uuid4\<close> where an operation draws them.
\<close>

record crypto =
  sha256 :: "string \<Rightarrow> bytes"
  hmac256 :: "string \<Rightarrow> string \<Rightarrow> bytes"
  argon_hash :: "string \<Rightarrow> string \<Rightarrow> string"
  argon_verify :: "string \<Rightarrow> string \<Rightarrow> bool"
  argon_needs_rehash :: "string \<Rightarrow> bool option"

text \<open>
  What the documentation of \<open>argon2\<close> promises: a hash verifies exactly the password it was
  made from.
\<close>

definition argon_sound :: "crypto \<Rightarrow> bool" where
  "argon_sound C \<longleftrightarrow> (\<forall>salt p q. argon_verify C (argon_hash C salt p) q \<longleftrightarrow> p = q)"

text \<open>A concrete instance, for examples: a hash is its own input.\<close>

definition plain_crypto :: crypto where
  "plain_crypto = \<lparr>sha256 = (\<lambda>s. s), hmac256 = (\<lambda>k s. k @ ''|'' @ s),
     argon_hash = (\<lambda>salt p. p), argon_verify = (\<lambda>h p. h = p),
     argon_needs_rehash = (\<lambda>h. Some False)\<rparr>"

lemma plain_crypto_sound: "argon_sound plain_crypto"
  by (simp add: argon_sound_def plain_crypto_def)

end
