(* ===== verification/AuditLog.thy ===== *)
theory AuditLog
  imports Persistence
begin

text \<open>
  The audit log (\<open>src/backend/identity/audit.py\<close>): the closed table of actions and of the
  detail fields each may carry, the validation of an event, and the append. The lemmas show
  that a stored event carries metadata only, and that every operation that writes audit
  events through this interface leaves the events already written alone.
\<close>

section \<open>The tables of the validator\<close>

definition AUDIT_ACTION_FIELDS :: "(string \<times> string list) list" where
  "AUDIT_ACTION_FIELDS = [
     (''auth.login_succeeded'', [''persistent'']), (''auth.login_failed'', [''reason'']),
     (''auth.locked'', [''lock_minutes'']), (''auth.session_renewed'', [''persistent'']),
     (''auth.session_revoked'', [''reason'']), (''auth.logout_all'', [''session_count'']),
     (''auth.pin_changed'', []), (''auth.pin_reset'', [''target_account_id'']),
     (''auth.step_up_succeeded'', [''purpose'']),
     (''auth.step_up_failed'', [''purpose'', ''reason'']),
     (''admin.staff_created'', [''target_staff_id'']),
     (''admin.staff_updated'', [''target_staff_id'', ''changed_fields'']),
     (''admin.account_created'', [''target_account_id'', ''role'']),
     (''admin.account_role_changed'', [''target_account_id'', ''old_role'', ''new_role'']),
     (''admin.account_deactivated'', [''target_account_id'']),
     (''admin.account_reactivated'', [''target_account_id'']),
     (''admin.account_unlocked'', [''target_account_id'']),
     (''admin.review_lab_handoff_issued'', [''handoff_id'']),
     (''admin.review_lab_handoff_redeemed'', [''handoff_id'', ''browser_session_id'']),
     (''system.initial_admin_bootstrapped'', [''operation_id'', ''approval_reference_sha256'']),
     (''incident.created'', [''incident_id'']),
     (''incident.saved'', [''incident_id'', ''revision_number'', ''changed_fields'', ''reason'']),
     (''incident.restored'', [''incident_id'', ''revision_number'', ''source_revision_number'']),
     (''incident.status_changed'', [''incident_id'', ''old_status'', ''new_status'']),
     (''report.created'', [''report_id'', ''incident_id'', ''report_type'']),
     (''report.viewed_by_admin'', [''report_id'']),
     (''report.saved'', [''report_id'', ''revision_number'', ''changed_fields'', ''reason'']),
     (''report.restored'', [''report_id'', ''revision_number'', ''source_revision_number'']),
     (''report.recovery_created'', [''report_id'', ''revision_number'', ''source_revision_number'']),
     (''report.status_changed'', [''report_id'', ''old_status'', ''new_status'']),
     (''report.ownership_transferred'', [''report_id'', ''old_owner_staff_id'', ''new_owner_staff_id'']),
     (''report.exported'', [''report_id'', ''export_id'', ''export_format'']),
     (''report.exported_by_admin'', [''report_id'', ''export_id'', ''export_format'']),
     (''document.action_recorded'', [''incident_id'', ''incident_revision_number'', ''packet_item_id'', ''report_id'', ''document_action'']),
     (''physical_paperwork.acknowledged'', [''incident_id'', ''incident_revision_number'', ''packet_item_id'']),
     (''physical_paperwork.cleared'', [''incident_id'', ''incident_revision_number'', ''packet_item_id'']),
     (''paperwork.created'', [''record_id'', ''kind'', ''revision_number'']),
     (''paperwork.saved'', [''record_id'', ''kind'', ''revision_number'', ''changed_fields'', ''reason'']),
     (''paperwork.restored'', [''record_id'', ''kind'', ''revision_number'', ''source_revision_number'']),
     (''paperwork.action_recorded'', [''record_id'', ''kind'', ''revision_number'', ''paperwork_action'']),
     (''print_template.action_recorded'', [''template_codes'', ''print_template_action'']),
     (''ai.job_submitted'', [''job_id'', ''job_type'', ''incident_id'']),
     (''ai.job_succeeded'', [''job_id'', ''job_type'', ''latency_ms'']),
     (''ai.job_failed'', [''job_id'', ''job_type'', ''result_code'']),
     (''policy.question_answered'', [''question_sha256'', ''document_count'', ''latency_ms'']),
     (''admin.report_search'', [''filters'', ''result_count'']),
     (''admin.bulk_exported'', [''export_id'', ''report_count'']),
     (''admin.audit_exported'', [''export_id'', ''event_count'']), (''admin.health_viewed'', [])]"

definition AUDIT_NAME_LIST_FIELDS :: "string list" where
  "AUDIT_NAME_LIST_FIELDS = [''changed_fields'', ''filters'', ''template_codes'']"

definition ends_with :: "string \<Rightarrow> string \<Rightarrow> bool" where
  "ends_with suffix s \<longleftrightarrow> is_prefix (rev suffix) (rev s)"

definition audit_fields :: "string list" where
  "audit_fields = concat (map snd AUDIT_ACTION_FIELDS)"

definition AUDIT_UUID_FIELDS :: "string list" where
  "AUDIT_UUID_FIELDS = filter (ends_with ''_id'') audit_fields"

definition AUDIT_SHA256_FIELDS :: "string list" where
  "AUDIT_SHA256_FIELDS = filter (ends_with ''_sha256'') audit_fields"

definition AUDIT_INTEGER_FIELDS :: "string list" where
  "AUDIT_INTEGER_FIELDS = [
     ''lock_minutes'', ''session_count'', ''revision_number'', ''source_revision_number'',
     ''incident_revision_number'', ''latency_ms'', ''document_count'', ''result_count'',
     ''report_count'', ''event_count'']"

definition AUDIT_ENUM_FIELDS :: "(string \<times> string list) list" where
  "AUDIT_ENUM_FIELDS = [
     (''role'', [''user'', ''admin'']), (''old_role'', [''user'', ''admin'']),
     (''new_role'', [''user'', ''admin'']),
     (''old_status'', [''in_progress'', ''completed'', ''archived'']),
     (''new_status'', [''in_progress'', ''completed'', ''archived'']),
     (''report_type'', [''first_person'', ''supervisor_summary'', ''cover_letter'', ''disciplinary'', ''investigation'', ''form_005'']),
     (''export_format'', [''docx'']),
     (''job_type'', [''classify'', ''extract'', ''generate'', ''disciplinary'']),
     (''document_action'', [''preview'', ''print'', ''download_word'', ''download_pdf'', ''copy_text'']),
     (''kind'', [''count_sheet'', ''assignment_roster'', ''uniform_inspection'', ''metal_detector_test'', ''perimeter_check'', ''random_search_log'', ''detector_sign_out'']),
     (''paperwork_action'', [''preview'', ''print'', ''download_pdf'']),
     (''print_template_action'', [''preview'', ''print''])]"

definition AUDIT_PRINT_TEMPLATE_CODES :: "string list" where
  "AUDIT_PRINT_TEMPLATE_CODES = [
     ''monthly_windows_bars_doors'', ''monthly_chemical_agents'',
     ''monthly_contraband_standard'', ''monthly_contraband_expanded'']"

definition AUDIT_CHANGED_FIELDS :: "(string \<times> string list) list" where
  "AUDIT_CHANGED_FIELDS = [

     (''incident.saved'', [''incident_number'', ''incident_name'', ''field_notes'', ''incident_date'', ''incident_time'', ''facility'', ''shift'', ''location'', ''category'', ''classification'', ''extracted_facts'', ''gap_answers'', ''charges'', ''validation'', ''warnings'']),
     (''report.saved'', [''narrative'', ''editable_fields'', ''validation'', ''warnings'']),
     (''admin.staff_updated'', [''employee_number'', ''rank'', ''first_name'', ''last_name'', ''shift'', ''is_active''])]"

definition AUDIT_FILTER_FIELDS :: "string list" where
  "AUDIT_FILTER_FIELDS = [
     ''report_id'', ''incident_id'', ''reporting_staff_id'', ''preparer_staff_id'',
     ''incident_date_from'', ''incident_date_to'', ''created_at_from'', ''created_at_to'',
     ''inmate_first_name'', ''inmate_middle_name'', ''inmate_last_name'', ''inmate_adc_number'',
     ''category'', ''facility'', ''location'', ''shift'', ''status'', ''last_editor_staff_id'',
     ''modified_at_from'', ''modified_at_to'']"

definition AUDIT_CODE_VALUES :: "((string \<times> string) \<times> string list) list" where
  "AUDIT_CODE_VALUES = [

     ((''auth.login_failed'', ''reason''), [''invalid_credentials'', ''account_locked_or_deactivated'', ''staff_inactive'', ''temporary_pin_expired'', ''invalid_pin'']),
     ((''auth.session_revoked'', ''reason''), [''renewal_reuse'', ''user_revoked'', ''admin_action'']),
     ((''auth.step_up_failed'', ''reason''), [''invalid_confirmation'']),
     ((''incident.saved'', ''reason''), [''autosave'', ''manual_save'', ''ai_result'']),
     ((''report.saved'', ''reason''), [''autosave'', ''manual_save'', ''ai_result'', ''admin_edit'']),
     ((''paperwork.saved'', ''reason''), [''autosave'', ''manual_save'', ''recovery''])]"

definition AUDIT_PURPOSES :: "string list" where
  "AUDIT_PURPOSES = [
     ''admin_center'', ''staff_write'', ''account_create'', ''account_role_status'',
     ''account_reset_pin'', ''account_unlock'', ''account_revoke_sessions'', ''report_restore'',
     ''report_transfer'', ''bulk_export'', ''audit_export'', ''review_lab_handoff'']"

definition MAX_AUDIT_NAME_LIST :: nat where "MAX_AUDIT_NAME_LIST = 100"
definition MAX_AUDIT_NAME_LENGTH :: nat where "MAX_AUDIT_NAME_LENGTH = 128"
definition MAX_AUDIT_NUMBER :: int where "MAX_AUDIT_NUMBER = 1000000000"

section \<open>Patterns\<close>

fun split_on :: "char \<Rightarrow> string \<Rightarrow> string list" where
  "split_on d [] = [[]]"
| "split_on d (c # s) =
     (if c = d then [] # split_on d s
      else case split_on d s of [] \<Rightarrow> [[c]] | w # ws \<Rightarrow> (c # w) # ws)"

text \<open>\<open>[a-z][a-z0-9_]{0,63}\<close>, and up to four such segments separated by dots.\<close>

definition is_name_char :: "char \<Rightarrow> bool" where
  "is_name_char c \<longleftrightarrow> is_lower_ascii c \<or> is_digit c \<or> c = CHR ''_''"

definition is_name_segment :: "string \<Rightarrow> bool" where
  "is_name_segment s \<longleftrightarrow>
     s \<noteq> [] \<and> is_lower_ascii (hd s) \<and> list_all is_name_char (tl s) \<and> length s \<le> 64"

definition AUDIT_NAME_PATTERN :: "string \<Rightarrow> bool" where
  "AUDIT_NAME_PATTERN s \<longleftrightarrow>
     (let segments = split_on (CHR ''.'') s
      in length segments \<le> 4 \<and> list_all is_name_segment segments)"

definition AUDIT_SHA256_PATTERN :: "string \<Rightarrow> bool" where
  "AUDIT_SHA256_PATTERN s \<longleftrightarrow> length s = 64 \<and> list_all is_hex_lower s"

section \<open>Validation\<close>

abbreviation invalid_details :: exn where
  "invalid_details \<equiv> ValueError ''audit details are invalid''"

text \<open>
  \<open>value in frozenset\<close>: a list or a dictionary is not hashable, so the test itself raises
  \<open>TypeError\<close>; other values than text equal no element.
\<close>

fun in_codes :: "json \<Rightarrow> string list \<Rightarrow> bool result" where
  "in_codes (JStr s) codes = Inr (s \<in> set codes)"
| "in_codes (JArr _) codes = Inl TypeError"
| "in_codes (JObj _) codes = Inl TypeError"
| "in_codes _ codes = Inr False"

definition require_code :: "json \<Rightarrow> string list \<Rightarrow> unit result" where
  "require_code v codes = bind_result (in_codes v codes) (\<lambda>b. require b invalid_details)"

fun is_audit_name :: "json \<Rightarrow> bool" where
  "is_audit_name (JStr s) \<longleftrightarrow> length s \<le> MAX_AUDIT_NAME_LENGTH \<and> AUDIT_NAME_PATTERN s"
| "is_audit_name _ \<longleftrightarrow> False"

fun text_of :: "json \<Rightarrow> string" where
  "text_of (JStr s) = s"
| "text_of _ = []"

definition validate_name_list :: "string \<Rightarrow> string \<Rightarrow> json \<Rightarrow> unit result" where
  "validate_name_list act key v =
     (case v of
        JArr vs \<Rightarrow>
          if length vs > MAX_AUDIT_NAME_LIST \<or> \<not> list_all is_audit_name vs
             \<or> \<not> distinct (map text_of vs)
          then Inl invalid_details
          else let names = map text_of vs in
            if key = ''changed_fields'' then
              (case map_of AUDIT_CHANGED_FIELDS act of
                 Some allowed \<Rightarrow> require (set names \<subseteq> set allowed) invalid_details
               | None \<Rightarrow> Inr ())
            else if key = ''filters'' \<and> \<not> set names \<subseteq> set AUDIT_FILTER_FIELDS then
              Inl invalid_details
            else if key = ''filters'' then Inr ()
            else if key = ''template_codes'' \<and>
                (\<not> (1 \<le> length vs \<and> length vs \<le> 20)
                 \<or> \<not> set names \<subseteq> set AUDIT_PRINT_TEMPLATE_CODES) then
              Inl invalid_details
            else Inr ()
      | _ \<Rightarrow> Inl invalid_details)"

definition validate_detail_value :: "string \<Rightarrow> string \<Rightarrow> json \<Rightarrow> unit result" where
  "validate_detail_value act key v =
     (case map_of AUDIT_CODE_VALUES (act, key) of
        Some codes \<Rightarrow> require_code v codes
      | None \<Rightarrow>
          if key = ''purpose'' then require_code v AUDIT_PURPOSES
          else if key \<in> set AUDIT_UUID_FIELDS then
            (case v of JStr s \<Rightarrow> require (uuid_of_str (lower s) \<noteq> None) invalid_details
             | _ \<Rightarrow> Inl invalid_details)
          else if key \<in> set AUDIT_SHA256_FIELDS then
            (case v of JStr s \<Rightarrow> require (AUDIT_SHA256_PATTERN s) invalid_details
             | _ \<Rightarrow> Inl invalid_details)
          else if key \<in> set AUDIT_INTEGER_FIELDS then
            (case v of JInt i \<Rightarrow> require (0 \<le> i \<and> i \<le> MAX_AUDIT_NUMBER) invalid_details
             | _ \<Rightarrow> Inl invalid_details)
          else if key = ''persistent'' then
            (case v of JBool _ \<Rightarrow> Inr () | _ \<Rightarrow> Inl invalid_details)
          else case map_of AUDIT_ENUM_FIELDS key of
            Some codes \<Rightarrow> require_code v codes
          | None \<Rightarrow>
              if key \<in> set [''reason'', ''purpose'', ''result_code''] then
                (case v of JStr s \<Rightarrow> require (AUDIT_NAME_PATTERN s) invalid_details
                 | _ \<Rightarrow> Inl invalid_details)
              else Inr ())"

definition validate_details :: "string \<Rightarrow> json \<Rightarrow> json result" where
  "validate_details act dts =
     (case (map_of AUDIT_ACTION_FIELDS act, dts) of
        (Some allowed, JObj kvs) \<Rightarrow>
          if \<not> set (obj_keys kvs) \<subseteq> set allowed then Inl invalid_details
          else if act = ''system.initial_admin_bootstrapped''
               \<and> set (obj_keys kvs) \<noteq> set allowed then Inl invalid_details
          else if length (dumps True dts) > 4096 then
            Inl (ValueError ''audit details are too large'')
          else
            bind_result (for_each (\<lambda>(k, v). if k \<in> set AUDIT_NAME_LIST_FIELDS
                                            then validate_name_list act k v else Inr ()) kvs)
              (\<lambda>_. bind_result (for_each (\<lambda>(k, v). if k \<in> set AUDIT_NAME_LIST_FIELDS
                                            then Inr () else validate_detail_value act k v) kvs)
                (\<lambda>_. Inr (JObj kvs)))
      | _ \<Rightarrow> Inl invalid_details)"

definition validate_actor_attribution :: "audit_event \<Rightarrow> unit result" where
  "validate_actor_attribution ev =
     (let has_account = actor_account_id ev \<noteq> None;
          has_staff = actor_staff_member_id ev \<noteq> None;
          invalid = ValueError ''audit actor attribution is invalid''
      in if has_account \<noteq> has_staff then Inl invalid
         else if action ev = ''system.initial_admin_bootstrapped'' then require (\<not> has_account) invalid
         else require (has_account \<or> action ev = ''auth.login_failed'') invalid)"

definition hash_length_ok :: "bytes option \<Rightarrow> bool" where
  "hash_length_ok h = (case h of None \<Rightarrow> True | Some b \<Rightarrow> length b = 32)"

text \<open>
  \<open>PostgresAuditWriter.append\<close>. The stored function \<open>append_audit_event\<close> inserts the row it is
  given; that the database accepts the row (its own checks of action, result and size) is
  taken for granted.
\<close>

definition append_audit :: "audit_event \<Rightarrow> db \<Rightarrow> unit result \<times> db" where
  "append_audit ev db =
     (case bind_result (validate_actor_attribution ev)
             (\<lambda>_. validate_details (action ev) (details ev)) of
        Inl e \<Rightarrow> (Inl e, db)
      | Inr dts \<Rightarrow>
          if \<not> hash_length_ok (device_id_hash ev) \<or> \<not> hash_length_ok (network_hash ev)
          then (Inl (ValueError ''audit hash is invalid''), db)
          else if (case client_version ev of None \<Rightarrow> False | Some v \<Rightarrow> length v > 64)
          then (Inl (ValueError ''audit client version is invalid''), db)
          else (Inr (), db\<lparr>audit_events := audit_events db @ [ev\<lparr>details := dts\<rparr>]\<rparr>))"

text \<open>The constructor call \<open>AuditEventInput(actor, staff, action, result, request, type, id, details)\<close>.\<close>

definition AuditEventInput ::
  "uuid option \<Rightarrow> uuid option \<Rightarrow> string \<Rightarrow> audit_result \<Rightarrow> string \<Rightarrow> string \<Rightarrow> uuid option
   \<Rightarrow> (string \<times> json) list \<Rightarrow> audit_event" where
  "AuditEventInput actor staff act res req ttype tid dts =
     \<lparr>actor_account_id = actor, actor_staff_member_id = staff, action = act, ae_result = res,
      request_id = req, target_type = ttype, target_id = tid, details = JObj dts,
      client_version = None, device_id_hash = None, network_hash = None\<rparr>"

section \<open>An event carries metadata only\<close>

definition is_metadata_char :: "char \<Rightarrow> bool" where
  "is_metadata_char c \<longleftrightarrow>
     is_lower_ascii c \<or> is_upper_ascii c \<or> is_digit c \<or> c \<in> {CHR ''_'', CHR ''.'', CHR ''-''}"

definition metadata_text :: "string \<Rightarrow> bool" where
  "metadata_text s \<longleftrightarrow> length s \<le> 259 \<and> list_all is_metadata_char s"

fun metadata_value :: "json \<Rightarrow> bool" where
  "metadata_value (JBool b) \<longleftrightarrow> True"
| "metadata_value (JInt i) \<longleftrightarrow> 0 \<le> i \<and> i \<le> MAX_AUDIT_NUMBER"
| "metadata_value (JStr s) \<longleftrightarrow> metadata_text s"
| "metadata_value (JArr vs) \<longleftrightarrow>
     length vs \<le> MAX_AUDIT_NAME_LIST \<and> list_all (\<lambda>v. \<exists>s. v = JStr s \<and> metadata_text s) vs"
| "metadata_value _ \<longleftrightarrow> False"

definition metadata_details :: "json \<Rightarrow> bool" where
  "metadata_details dts \<longleftrightarrow> (\<exists>kvs. dts = JObj kvs \<and> (\<forall>(k, v) \<in> set kvs. metadata_value v))"

lemma split_on_length: "length s + 1 = sum_list (map (\<lambda>w. length w + 1) (split_on d s))"
  by (induction s) (auto split: list.splits)

lemma split_on_nonempty: "split_on d s \<noteq> []"
  by (induction s) (auto split: list.splits)

lemma split_on_chars: "c \<in> set s \<Longrightarrow> c \<noteq> d \<Longrightarrow> \<exists>w \<in> set (split_on d s). c \<in> set w"
proof (induction s)
  case (Cons x s)
  then show ?case using split_on_nonempty [of d s] by (cases "split_on d s") auto
qed simp

lemma sum_list_bound: "(\<And>x. x \<in> set xs \<Longrightarrow> f x \<le> k) \<Longrightarrow> sum_list (map f xs) \<le> k * length xs"
  for f :: "'a \<Rightarrow> nat"
  by (induction xs) (auto simp: add_mono)

lemma segment_chars: "is_name_segment w \<Longrightarrow> c \<in> set w \<Longrightarrow> is_name_char c"
  by (cases w) (auto simp: is_name_segment_def list_all_iff is_name_char_def)

lemma name_pattern_metadata: "AUDIT_NAME_PATTERN s \<Longrightarrow> metadata_text s"
proof -
  assume pat: "AUDIT_NAME_PATTERN s"
  let ?ws = "split_on (CHR ''.'') s"
  have n: "length ?ws \<le> 4" and ws: "\<And>w. w \<in> set ?ws \<Longrightarrow> is_name_segment w"
    using pat by (auto simp: AUDIT_NAME_PATTERN_def Let_def list_all_iff)
  have "length s + 1 \<le> 65 * length ?ws"
    unfolding split_on_length [of s "CHR ''.''"]
    by (rule sum_list_bound) (use ws in \<open>auto simp: is_name_segment_def\<close>)
  with n have "length s \<le> 259" by simp
  moreover have "is_metadata_char c" if "c \<in> set s" for c
    using split_on_chars [OF that, of "CHR ''.''"] ws segment_chars
    by (cases "c = CHR ''.''") (auto simp: is_metadata_char_def is_name_char_def)
  ultimately show ?thesis by (simp add: metadata_text_def list_all_iff)
qed

lemma sha256_pattern_metadata: "AUDIT_SHA256_PATTERN s \<Longrightarrow> metadata_text s"
  by (auto simp: AUDIT_SHA256_PATTERN_def metadata_text_def list_all_iff is_metadata_char_def
      is_hex_lower_def is_lower_ascii_def in_range_def)

lemma digit_char_cases: "d < 16 \<Longrightarrow> is_digit (digit_char d) \<or> is_lower_ascii (digit_char d)"
  by (auto simp: digit_char_def is_digit_def is_lower_ascii_def in_range_def)

lemma hex_str_chars: "c \<in> set (hex_str w n) \<Longrightarrow> is_digit c \<or> is_lower_ascii c"
proof (induction w arbitrary: n)
  case (Suc w)
  have "n mod 16 < 16" by simp
  with Suc show ?case using digit_char_cases [of "n mod 16"] by (auto simp del: of_char_of)
qed simp

lemma uuid_str_chars: "c \<in> set (uuid_str u) \<Longrightarrow> c = CHR ''-'' \<or> is_digit c \<or> is_lower_ascii c"
  by (auto simp: uuid_str_def Let_def dest!: in_set_takeD in_set_dropD hex_str_chars)

lemma lower_char_metadata: "is_metadata_char (lower_char c) \<Longrightarrow> is_metadata_char c"
  by (auto simp: lower_char_def is_metadata_char_def split: if_splits)

lemma uuid_text_metadata: "lower s = uuid_str u \<Longrightarrow> metadata_text s"
proof -
  assume low: "lower s = uuid_str u"
  have "length s = 36" using arg_cong [OF low, of length] by (simp add: lower_def)
  moreover have "is_metadata_char c" if "c \<in> set s" for c
  proof -
    have "lower_char c \<in> set (uuid_str u)" using that by (simp add: low [symmetric] lower_def)
    then have "is_metadata_char (lower_char c)"
      using uuid_str_chars by (auto simp: is_metadata_char_def)
    then show ?thesis by (rule lower_char_metadata)
  qed
  ultimately show ?thesis by (simp add: metadata_text_def list_all_iff)
qed

text \<open>Every code a value is compared with is metadata text, and every field has a rule.\<close>

lemma codes_metadata:
  "list_all (\<lambda>(k, cs). list_all metadata_text cs) AUDIT_CODE_VALUES"
  "list_all (\<lambda>(k, cs). list_all metadata_text cs) AUDIT_ENUM_FIELDS"
  "list_all metadata_text AUDIT_PURPOSES"
  by (simp_all add: AUDIT_CODE_VALUES_def AUDIT_ENUM_FIELDS_def AUDIT_PURPOSES_def metadata_text_def
      is_metadata_char_def is_lower_ascii_def is_digit_def in_range_def)

definition has_rule :: "string \<Rightarrow> string \<Rightarrow> bool" where
  "has_rule act k \<longleftrightarrow>
     k \<in> set AUDIT_NAME_LIST_FIELDS \<or> ends_with ''_id'' k \<or> ends_with ''_sha256'' k
     \<or> k \<in> set [''persistent'', ''reason'', ''purpose'', ''result_code'']
     \<or> k \<in> set AUDIT_INTEGER_FIELDS \<or> k \<in> set (map fst AUDIT_ENUM_FIELDS)"

lemma all_fields_have_rules: "list_all (\<lambda>(act, ks). list_all (has_rule act) ks) AUDIT_ACTION_FIELDS"
  by code_simp

lemma audit_fields_member:
  "map_of AUDIT_ACTION_FIELDS act = Some ks \<Longrightarrow> k \<in> set ks \<Longrightarrow> k \<in> set audit_fields \<and> has_rule act k"
  using all_fields_have_rules by (force simp: audit_fields_def list_all_iff dest!: map_of_SomeD)

lemma AUDIT_suffix_fields [simp]:
  "k \<in> set AUDIT_UUID_FIELDS \<longleftrightarrow> k \<in> set audit_fields \<and> ends_with ''_id'' k"
  "k \<in> set AUDIT_SHA256_FIELDS \<longleftrightarrow> k \<in> set audit_fields \<and> ends_with ''_sha256'' k"
  by (auto simp: AUDIT_UUID_FIELDS_def AUDIT_SHA256_FIELDS_def)

lemma require_code_metadata:
  "require_code v codes = Inr () \<Longrightarrow> list_all metadata_text codes \<Longrightarrow> metadata_value v"
  by (cases v) (auto simp: require_code_def list_all_iff)

lemma name_list_metadata: "validate_name_list act k v = Inr () \<Longrightarrow> metadata_value v"
proof -
  assume ok: "validate_name_list act k v = Inr ()"
  then obtain vs where v: "v = JArr vs" and len: "length vs \<le> MAX_AUDIT_NAME_LIST"
    and names: "list_all is_audit_name vs"
    by (cases v) (auto simp: validate_name_list_def split: if_splits)
  have "\<exists>s. w = JStr s \<and> metadata_text s" if "w \<in> set vs" for w
    using names that by (cases w) (auto simp: list_all_iff name_pattern_metadata)
  with len v show ?thesis by (simp add: list_all_iff)
qed

text \<open>The forms in which a detail value is accepted.\<close>

lemma detail_value_cases:
  assumes ok: "validate_detail_value act k v = Inr ()" and rule: "has_rule act k"
    and field: "k \<in> set audit_fields" and not_list: "k \<notin> set AUDIT_NAME_LIST_FIELDS"
  obtains (codes) codes where "list_all metadata_text codes" "require_code v codes = Inr ()"
    | (uuid) s where "v = JStr s" "uuid_of_str (lower s) \<noteq> None"
    | (digest) s where "v = JStr s" "AUDIT_SHA256_PATTERN s"
    | (number) i where "v = JInt i" "0 \<le> i" "i \<le> MAX_AUDIT_NUMBER"
    | (flag) b where "v = JBool b"
    | (name) s where "v = JStr s" "AUDIT_NAME_PATTERN s"
proof (cases "map_of AUDIT_CODE_VALUES (act, k)")
  case (Some cs)
  then have "list_all metadata_text cs"
    using codes_metadata(1) by (auto simp: list_all_iff dest!: map_of_SomeD)
  with ok Some show thesis by (intro codes) (simp_all add: validate_detail_value_def)
next
  case None
  note run = ok [unfolded validate_detail_value_def None option.case]
  show thesis
  proof (cases "k = ''purpose''")
    case True
    with run codes_metadata(3) show thesis by (intro codes) simp_all
  next
    case not_purpose: False
    note run = run [unfolded if_not_P [OF not_purpose]]
    consider (u) "k \<in> set AUDIT_UUID_FIELDS"
      | (d) "k \<notin> set AUDIT_UUID_FIELDS" "k \<in> set AUDIT_SHA256_FIELDS"
      | (n) "k \<notin> set AUDIT_UUID_FIELDS" "k \<notin> set AUDIT_SHA256_FIELDS" "k \<in> set AUDIT_INTEGER_FIELDS"
      | (r) "k \<notin> set AUDIT_UUID_FIELDS" "k \<notin> set AUDIT_SHA256_FIELDS" "k \<notin> set AUDIT_INTEGER_FIELDS"
      by blast
    then show thesis
    proof cases
      case u
      then show thesis using run by (cases v) (simp_all add: uuid del: AUDIT_suffix_fields uuid_of_str_Some)
    next
      case d
      then show thesis using run by (cases v) (simp_all add: digest del: AUDIT_suffix_fields)
    next
      case n
      then show thesis using run by (cases v) (simp_all add: number del: AUDIT_suffix_fields)
    next
      case r
      note run = run [unfolded if_not_P [OF r(1)] if_not_P [OF r(2)] if_not_P [OF r(3)]]
      show thesis
      proof (cases "k = ''persistent''")
        case True
        then show thesis using run by (cases v) (simp_all add: flag)
      next
        case not_persistent: False
        note run = run [unfolded if_not_P [OF not_persistent]]
        show thesis
        proof (cases "map_of AUDIT_ENUM_FIELDS k")
          case (Some cs)
          then have "list_all metadata_text cs"
            using codes_metadata(2) by (auto simp: list_all_iff dest!: map_of_SomeD)
          with run Some show thesis by (intro codes) simp_all
        next
          case None
          then have "k \<notin> set (map fst AUDIT_ENUM_FIELDS)" by (simp add: map_of_eq_None_iff)
          with r rule field not_list not_persistent
          have last: "k \<in> set [''reason'', ''purpose'', ''result_code'']"
            unfolding has_rule_def by (simp only: AUDIT_suffix_fields list.set insert_iff) blast
          then show thesis using run None by (cases v) (simp_all add: name)
        qed
      qed
    qed
  qed
qed

lemma detail_value_metadata:
  assumes "validate_detail_value act k v = Inr ()" "has_rule act k"
    "k \<in> set audit_fields" "k \<notin> set AUDIT_NAME_LIST_FIELDS"
  shows "metadata_value v"
  using assms
  by (cases rule: detail_value_cases)
    (auto simp: require_code_metadata uuid_text_metadata sha256_pattern_metadata
      name_pattern_metadata)

lemma validate_details_Inr:
  assumes "validate_details act dts = Inr dts'"
  obtains allowed kvs where "map_of AUDIT_ACTION_FIELDS act = Some allowed" "dts = JObj kvs"
    "dts' = JObj kvs" "set (obj_keys kvs) \<subseteq> set allowed"
    "\<And>k v. (k, v) \<in> set kvs \<Longrightarrow> k \<in> set AUDIT_NAME_LIST_FIELDS \<Longrightarrow> validate_name_list act k v = Inr ()"
    "\<And>k v. (k, v) \<in> set kvs \<Longrightarrow> k \<notin> set AUDIT_NAME_LIST_FIELDS \<Longrightarrow>
       validate_detail_value act k v = Inr ()"
proof -
  from assms obtain allowed kvs where act: "map_of AUDIT_ACTION_FIELDS act = Some allowed"
    and dts: "dts = JObj kvs"
    by (auto simp: validate_details_def split: option.splits json.splits)
  with assms have run:
    "set (obj_keys kvs) \<subseteq> set allowed" "dts' = JObj kvs"
    "for_each (\<lambda>(k, v). if k \<in> set AUDIT_NAME_LIST_FIELDS
        then validate_name_list act k v else Inr ()) kvs = Inr ()"
    "for_each (\<lambda>(k, v). if k \<in> set AUDIT_NAME_LIST_FIELDS
        then Inr () else validate_detail_value act k v) kvs = Inr ()"
    by (auto simp: validate_details_def simp del: dumps.simps split: if_splits)
  show ?thesis
    by (rule that [OF act dts run(2,1)]) (use run(3,4) in \<open>force simp: for_each_Inr\<close>)+
qed

lemma validate_details_metadata:
  assumes "validate_details act dts = Inr dts'"
  shows "dts' = dts \<and> metadata_details dts"
  using assms
proof (rule validate_details_Inr)
  fix allowed kvs
  assume act: "map_of AUDIT_ACTION_FIELDS act = Some allowed"
    and dts: "dts = JObj kvs" and same: "dts' = JObj kvs" and keys: "set (obj_keys kvs) \<subseteq> set allowed"
    and lists: "\<And>k v. (k, v) \<in> set kvs \<Longrightarrow> k \<in> set AUDIT_NAME_LIST_FIELDS \<Longrightarrow>
                  validate_name_list act k v = Inr ()"
    and vals: "\<And>k v. (k, v) \<in> set kvs \<Longrightarrow> k \<notin> set AUDIT_NAME_LIST_FIELDS \<Longrightarrow>
                  validate_detail_value act k v = Inr ()"
  have rule: "k \<in> set audit_fields \<and> has_rule act k" if "(k, v) \<in> set kvs" for k v
    using keys that by (intro audit_fields_member [OF act]) (force simp: obj_keys_def)
  have "metadata_value v" if kv: "(k, v) \<in> set kvs" for k v
    using lists [OF kv] vals [OF kv] rule [OF kv] name_list_metadata detail_value_metadata
    by (cases "k \<in> set AUDIT_NAME_LIST_FIELDS") blast+
  with dts same show "dts' = dts \<and> metadata_details dts" by (auto simp: metadata_details_def)
qed

section \<open>The append\<close>

lemma append_audit_Inl: "append_audit ev db = (Inl e, db') \<Longrightarrow> db' = db"
  by (auto simp: append_audit_def split: sum.splits if_splits)

lemma append_audit_Inr:
  "append_audit ev db = (Inr u, db') \<Longrightarrow>
   db' = db\<lparr>audit_events := audit_events db @ [ev]\<rparr> \<and> metadata_details (details ev)
   \<and> validate_actor_attribution ev = Inr ()"
  by (auto simp: append_audit_def dest!: validate_details_metadata split: sum.splits if_splits)

lemma append_audit_fields:
  assumes "append_audit ev db = (Inr u, db')"
  shows "\<exists>kvs allowed. details ev = JObj kvs \<and> map_of AUDIT_ACTION_FIELDS (action ev) = Some allowed
    \<and> set (obj_keys kvs) \<subseteq> set allowed"
proof -
  from assms obtain dts where "validate_details (action ev) (details ev) = Inr dts"
    by (auto simp: append_audit_def split: sum.splits if_splits)
  then show ?thesis by (rule validate_details_Inr) blast
qed

lemma append_audit_cases:
  obtains (raised) e where "append_audit ev db = (Inl e, db)"
  | (stored) "append_audit ev db = (Inr (), db\<lparr>audit_events := audit_events db @ [ev]\<rparr>)"
      "metadata_details (details ev)"
proof (cases "append_audit ev db")
  case (Pair r db')
  with raised stored show thesis
    by (cases r) (auto dest!: append_audit_Inl append_audit_Inr)
qed

text \<open>
  What a caller of \<open>append_audit\<close> can tell about the state afterwards: at most the table of
  events has changed, and it has only grown.
\<close>

definition log_grows :: "db \<Rightarrow> db \<Rightarrow> bool" where
  "log_grows db db' \<longleftrightarrow> (\<exists>new. audit_events db' = audit_events db @ new
     \<and> (\<forall>ev \<in> set new. metadata_details (details ev)))"

lemma log_grows_refl [simp, intro]: "log_grows db db"
  by (simp add: log_grows_def)

lemma log_grows_trans [trans]: "log_grows a b \<Longrightarrow> log_grows b c \<Longrightarrow> log_grows a c"
  by (auto simp: log_grows_def)

lemma log_grows_same: "audit_events db' = audit_events db \<Longrightarrow> log_grows db db'"
  by (simp add: log_grows_def)

lemma log_grows_append: "append_audit ev db = (r, db') \<Longrightarrow> log_grows db db'"
  by (cases rule: append_audit_cases [of ev db]) (auto simp: log_grows_def)

text \<open>
  C1. Whatever event a caller submits, the log either is left as it was and an exception is
  raised, or grows by exactly that event. Then its action is one of the table, its details are
  an object with no field but those the table lists for this action, and every value is a flag,
  a number between 0 and \<open>MAX_AUDIT_NUMBER\<close>, a text of at most 259 letters, digits, \<open>_\<close>, \<open>.\<close> and \<open>-\<close> (so
  without a space or any other punctuation), or a list of at most 100 such texts. The event is
  attributed to an account together with its staff member, or, for a failed login and for the
  bootstrap of the first administrator only, to nobody; the bootstrap is always anonymous.
\<close>

theorem append_audit_metadata_only:
  "(case append_audit ev db of
      (Inl e, db') \<Rightarrow> db' = db
    | (Inr u, db') \<Rightarrow>
        db' = db\<lparr>audit_events := audit_events db @ [ev]\<rparr> \<and> metadata_details (details ev)
        \<and> (\<exists>kvs allowed. details ev = JObj kvs \<and> map_of AUDIT_ACTION_FIELDS (action ev) = Some allowed
             \<and> set (obj_keys kvs) \<subseteq> set allowed)
        \<and> (actor_account_id ev = None) = (actor_staff_member_id ev = None)
        \<and> (if actor_account_id ev = None
           then action ev \<in> {''system.initial_admin_bootstrapped'', ''auth.login_failed''}
           else action ev \<noteq> ''system.initial_admin_bootstrapped''))"
proof (cases "append_audit ev db")
  case (Pair r db')
  show ?thesis
  proof (cases r)
    case Inl
    with Pair show ?thesis by (simp add: append_audit_Inl)
  next
    case (Inr u)
    with Pair append_audit_Inr [of ev db u db'] append_audit_fields [of ev db u db'] show ?thesis
      by (auto simp: validate_actor_attribution_def Let_def split: if_splits)
  qed
qed

end
