(* ===== verification/Pins.thy ===== *)
theory Pins
  imports Persistence
begin

text \<open>
  Normalisation, the PIN policy and the credentials of the identity package
  (\<open>normalization.py\<close>, \<open>pins.py\<close>, \<open>tokens.py\<close>). The lemmas characterise the accepted PINs,
  bound the number of draws the generator of temporary PINs can reject, and show that hashing
  and verification agree.
\<close>

section \<open>Normalisation: \<open>normalization.py\<close>\<close>

definition is_employee_char :: "char \<Rightarrow> bool" where
  "is_employee_char c \<longleftrightarrow> is_upper_ascii c \<or> is_digit c \<or> c = CHR ''_'' \<or> c = CHR ''-''"

definition normalize_employee_number :: "string \<Rightarrow> string result" where
  "normalize_employee_number value =
     (let normalized = upper (strip value)
      in if normalized = [] then Inl (ValueError ''employee number is required'')
         else if length normalized > 64 \<or> \<not> list_all is_employee_char normalized
         then Inl (ValueError ''employee number is invalid'')
         else Inr normalized)"

definition normalize_device_label :: "string \<Rightarrow> string" where
  "normalize_device_label value = take 120 (join '' '' (split value))"

section \<open>PINs: \<open>pins.py\<close>\<close>

abbreviation ascii_uppercase :: string where
  "ascii_uppercase \<equiv> ''ABCDEFGHIJKLMNOPQRSTUVWXYZ''"

abbreviation digits :: string where
  "digits \<equiv> ''0123456789''"

definition ALPHABET :: string where
  "ALPHABET = ascii_uppercase @ digits"

definition SEQUENCES :: "string list" where
  "SEQUENCES = [digits, ascii_uppercase]"

definition is_pin_char :: "char \<Rightarrow> bool" where
  "is_pin_char c \<longleftrightarrow> is_upper_ascii c \<or> is_lower_ascii c \<or> is_digit c"

definition normalize_pin :: "string \<Rightarrow> string result" where
  "normalize_pin pin =
     (if 4 \<le> length pin \<and> length pin \<le> 8 \<and> list_all is_pin_char pin then Inr (upper pin)
      else Inl (PinPolicyError ''PIN must contain 4 through 8 ASCII letters or digits''))"

text \<open>\<open>len(set(pin)) == 1\<close>.\<close>

definition is_obvious :: "string \<Rightarrow> bool" where
  "is_obvious pin \<longleftrightarrow>
     length (remdups pin) = 1
     \<or> list_ex (\<lambda>s. is_substring pin s \<or> is_substring pin (rev s)) SEQUENCES"

definition validate_new_pin :: "string \<Rightarrow> string \<Rightarrow> string result" where
  "validate_new_pin pin employee_number =
     bind_result (normalize_pin pin) (\<lambda>normalized.
     bind_result (normalize_employee_number employee_number) (\<lambda>number.
       if normalized = number then Inl (PinPolicyError ''PIN cannot equal the employee number'')
       else if is_obvious normalized then Inl (PinPolicyError ''PIN is too easy to guess'')
       else Inr normalized))"

definition hash_pin :: "crypto \<Rightarrow> string \<Rightarrow> string \<Rightarrow> string result" where
  "hash_pin C salt pin = bind_result (normalize_pin pin) (\<lambda>p. Inr (argon_hash C salt p))"

definition verify_pin :: "crypto \<Rightarrow> string \<Rightarrow> string \<Rightarrow> bool" where
  "verify_pin C encoded_hash pin =
     (case normalize_pin pin of Inl e \<Rightarrow> False | Inr p \<Rightarrow> argon_verify C encoded_hash p)"

definition needs_rehash :: "crypto \<Rightarrow> string \<Rightarrow> bool" where
  "needs_rehash C encoded_hash =
     (case argon_needs_rehash C encoded_hash of None \<Rightarrow> True | Some b \<Rightarrow> b)"

text \<open>
  The loop of \<open>generate_temporary_pin\<close> over the candidates it draws, eight characters of
  \<open>ALPHABET\<close> each: a \<open>PinPolicyError\<close> continues with the next one, any other exception leaves
  the loop.
\<close>

fun generate_temporary_pin :: "string list \<Rightarrow> string \<Rightarrow> string result" where
  "generate_temporary_pin [] employee_number = Inl OutOfDraws"
| "generate_temporary_pin (candidate # draws) employee_number =
     (case validate_new_pin candidate employee_number of
        Inl (PinPolicyError m) \<Rightarrow> generate_temporary_pin draws employee_number
      | r \<Rightarrow> r)"

section \<open>Credentials: \<open>tokens.py\<close>\<close>

definition hash_token :: "crypto \<Rightarrow> string \<Rightarrow> bytes result" where
  "hash_token C raw =
     (if raw = [] then Inl (ValueError ''token is invalid'') else Inr (sha256 C raw))"

record opaque_credential =
  raw :: string
  digest :: bytes

text \<open>The random text of \<open>token_urlsafe(32)\<close> is the argument.\<close>

definition issue_credential :: "crypto \<Rightarrow> string \<Rightarrow> opaque_credential result" where
  "issue_credential C drawn =
     bind_result (hash_token C drawn) (\<lambda>d. Inr \<lparr>raw = drawn, digest = d\<rparr>)"

definition DEVICE_ID_PATTERN :: "string \<Rightarrow> bool" where
  "DEVICE_ID_PATTERN s \<longleftrightarrow>
     16 \<le> length s \<and> length s \<le> 256 \<and> list_all (\<lambda>c. 33 \<le> code c \<and> code c \<le> 126) s"

definition hash_device_id :: "crypto \<Rightarrow> string \<Rightarrow> string \<Rightarrow> bytes result" where
  "hash_device_id C device_id pepper =
     (if \<not> DEVICE_ID_PATTERN device_id then Inl (ValueError ''device id is invalid'')
      else if pepper = [] then Inl (ValueError ''device hash pepper is unavailable'')
      else Inr (hmac256 C pepper device_id))"

section \<open>What is accepted\<close>

lemma normalize_employee_number_Inr:
  "normalize_employee_number v = Inr n \<Longrightarrow>
   n = upper (strip v) \<and> n \<noteq> [] \<and> length n \<le> 64 \<and> list_all is_employee_char n"
  by (auto simp: normalize_employee_number_def Let_def split: if_splits)

lemma employee_char_no_space: "is_employee_char c \<Longrightarrow> \<not> is_space c"
  by (auto simp: is_employee_char_def is_space_def is_upper_ascii_def is_digit_def in_range_def)

lemma normalize_employee_number_idem:
  "normalize_employee_number v = Inr n \<Longrightarrow> normalize_employee_number n = Inr n"
proof -
  assume ok: "normalize_employee_number v = Inr n"
  note n = normalize_employee_number_Inr [OF ok]
  then have "strip n = n"
    by (intro strip_id) (auto simp: list_all_iff employee_char_no_space)
  moreover have "upper n = n" using n by simp
  ultimately show ?thesis
    using n by (auto simp: normalize_employee_number_def Let_def)
qed

lemma normalize_pin_Inr:
  "normalize_pin pin = Inr p \<Longrightarrow> p = upper pin \<and> 4 \<le> length p \<and> length p \<le> 8"
  by (auto simp: normalize_pin_def split: if_splits)

lemma pin_char_upper: "is_pin_char c \<Longrightarrow> is_pin_char (upper_char c)"
  by (auto simp: is_pin_char_def upper_char_def is_upper_ascii_def is_lower_ascii_def in_range_def)

lemma pin_chars_upper: "list_all is_pin_char s \<Longrightarrow> list_all is_pin_char (upper s)"
  by (auto simp: upper_def list_all_iff pin_char_upper)

lemma normalize_pin_idem: "normalize_pin pin = Inr p \<Longrightarrow> normalize_pin p = Inr p"
  by (auto simp: normalize_pin_def pin_chars_upper split: if_splits)

lemma normalize_pin_upper_eq: "upper pin = upper q \<Longrightarrow> list_all is_pin_char pin \<Longrightarrow>
   list_all is_pin_char q \<Longrightarrow> normalize_pin pin = normalize_pin q"
  using length_upper [of pin] length_upper [of q] by (simp add: normalize_pin_def)

lemma validate_new_pin_Inr:
  "validate_new_pin pin emp = Inr p \<longleftrightarrow>
   normalize_pin pin = Inr p \<and> (\<exists>n. normalize_employee_number emp = Inr n \<and> p \<noteq> n)
   \<and> \<not> is_obvious p"
  by (auto simp: validate_new_pin_def split: if_splits)

lemma validate_new_pin_normal: "validate_new_pin pin emp = Inr p \<Longrightarrow> normalize_pin p = Inr p"
  by (auto simp: validate_new_pin_Inr normalize_pin_idem)

lemma generate_temporary_pin_Inr:
  "generate_temporary_pin draws emp = Inr p \<Longrightarrow> \<exists>d \<in> set draws. validate_new_pin d emp = Inr p"
  by (induction draws) (auto split: sum.splits exn.splits)

lemma generate_temporary_pin_normal:
  "generate_temporary_pin draws emp = Inr p \<Longrightarrow> normalize_pin p = Inr p"
  by (auto dest!: generate_temporary_pin_Inr intro: validate_new_pin_normal)

section \<open>Hashing and verification agree\<close>

lemma verify_hash_pin:
  "argon_sound C \<Longrightarrow> hash_pin C salt pin = Inr h \<Longrightarrow>
   verify_pin C h q \<longleftrightarrow> normalize_pin q = normalize_pin pin"
  by (auto simp: hash_pin_def verify_pin_def argon_sound_def split: sum.splits)

section \<open>The generator returns\<close>

text \<open>The substrings of length \<open>n\<close>, and all obvious candidates of eight characters.\<close>

definition windows :: "nat \<Rightarrow> string \<Rightarrow> string list" where
  "windows n s = map (\<lambda>i. take n (drop i s)) [0..<Suc (length s) - n]"

lemma substring_window: "is_substring p s \<Longrightarrow> p \<in> set (windows (length p) s)"
proof -
  assume "is_substring p s"
  then obtain u v where s: "s = u @ p @ v" by (auto simp: is_substring_iff)
  then have "p = take (length p) (drop (length u) s)" "length u < Suc (length s) - length p" by simp_all
  then show ?thesis unfolding windows_def by force
qed

definition obvious_draws :: "string list" where
  "obvious_draws =
     map (\<lambda>c. replicate 8 c) ALPHABET
     @ concat (map (\<lambda>s. windows 8 s @ windows 8 (rev s)) SEQUENCES)"

lemma length_obvious_draws: "length obvious_draws = 80"
  by code_simp

lemma one_char: "length (remdups p) = Suc 0 \<Longrightarrow> p = replicate (length p) (hd p)"
proof -
  assume "length (remdups p) = Suc 0"
  then obtain c where "remdups p = [c]" by (auto simp: length_Suc_conv)
  then have c: "set p = {c}" by (metis list.set(1) list.simps(15) set_remdups)
  then have "hd p = c" by (cases p) auto
  with c show ?thesis by (intro replicate_eqI) auto
qed

lemma obvious_in_draws:
  assumes len: "length p = 8" and chars: "set p \<subseteq> set ALPHABET" and obv: "is_obvious p"
  shows "p \<in> set obvious_draws"
proof (cases "length (remdups p) = Suc 0")
  case True
  from one_char [OF this] len have p: "p = replicate 8 (hd p)" by simp
  have "hd p \<in> set ALPHABET" using len chars by (cases p) auto
  then have "replicate 8 (hd p) \<in> set obvious_draws" by (auto simp: obvious_draws_def)
  with p show ?thesis by simp
next
  case False
  with obv obtain s where s: "s \<in> set SEQUENCES" "is_substring p s \<or> is_substring p (rev s)"
    by (auto simp: is_obvious_def list_ex_iff)
  then have "p \<in> set (windows 8 s @ windows 8 (rev s))"
    using substring_window [of p s] substring_window [of p "rev s"] len by auto
  with s(1) show ?thesis by (auto simp: obvious_draws_def)
qed

definition is_candidate :: "string \<Rightarrow> bool" where
  "is_candidate d \<longleftrightarrow> length d = 8 \<and> set d \<subseteq> set ALPHABET"

lemma alphabet_char: "c \<in> set ALPHABET \<Longrightarrow> is_pin_char c \<and> upper_char c = c"
proof -
  have "list_all (\<lambda>c. is_pin_char c \<and> upper_char c = c) ALPHABET" by code_simp
  then show "c \<in> set ALPHABET \<Longrightarrow> ?thesis" by (simp add: list_all_iff)
qed

lemma normalize_candidate: "is_candidate d \<Longrightarrow> normalize_pin d = Inr d"
proof -
  assume d: "is_candidate d"
  then have "\<And>c. c \<in> set d \<Longrightarrow> is_pin_char c \<and> upper_char c = c"
    by (auto simp: is_candidate_def dest: alphabet_char)
  moreover from this have "upper d = d" by (simp add: upper_def map_idI)
  ultimately show ?thesis using d by (simp add: normalize_pin_def is_candidate_def list_all_iff)
qed

lemma rejected_candidate:
  assumes d: "is_candidate d" and emp: "normalize_employee_number emp = Inr n"
    and "d \<notin> set (n # obvious_draws)"
  shows "validate_new_pin d emp = Inr d"
  using assms obvious_in_draws [of d]
  by (auto simp: validate_new_pin_Inr normalize_candidate is_candidate_def)

lemma generate_skips:
  "\<lbrakk>d \<in> set draws; validate_new_pin d emp = Inr d; normalize_employee_number emp = Inr n;
    \<forall>c \<in> set draws. is_candidate c\<rbrakk> \<Longrightarrow> \<exists>p. generate_temporary_pin draws emp = Inr p"
proof (induction draws)
  case (Cons c draws)
  then show ?case
    by (cases "validate_new_pin c emp")
      (auto simp: validate_new_pin_def normalize_candidate split: if_splits)
qed simp

text \<open>
  C2. The generator of temporary PINs can reject at most 81 of the candidates it draws (80
  obvious ones and the employee number itself): once 82 different ones have been drawn it has
  returned, and what it returns passes the PIN policy and can be typed as it is.
\<close>

theorem generate_temporary_pin_returns:
  assumes emp: "normalize_employee_number emp = Inr n"
    and cands: "\<forall>c \<in> set draws. is_candidate c" and many: "82 \<le> card (set draws)"
  shows "\<exists>p. generate_temporary_pin draws emp = Inr p \<and> validate_new_pin p emp = Inr p
           \<and> p \<noteq> n \<and> \<not> is_obvious p \<and> normalize_pin p = Inr p"
proof -
  have "card (set (n # obvious_draws)) \<le> 81"
    using card_length [of "n # obvious_draws"] by (simp add: length_obvious_draws)
  with many have "\<not> set draws \<subseteq> set (n # obvious_draws)"
    using card_mono [of "set (n # obvious_draws)" "set draws"] by fastforce
  then obtain d where d: "d \<in> set draws" "d \<notin> set (n # obvious_draws)" by blast
  then have "validate_new_pin d emp = Inr d" using cands emp by (blast intro: rejected_candidate)
  then obtain p where p: "generate_temporary_pin draws emp = Inr p"
    using generate_skips [OF d(1) _ emp cands] by blast
  then obtain c where "validate_new_pin c emp = Inr p" by (auto dest!: generate_temporary_pin_Inr)
  then have "normalize_pin p = Inr p" "p \<noteq> n" "\<not> is_obvious p"
    using emp by (auto simp: validate_new_pin_Inr normalize_pin_idem)
  with p emp show ?thesis by (simp add: validate_new_pin_Inr)
qed

definition example_draws :: "string list" where
  "example_draws = concat (map (\<lambda>c. map (\<lambda>d. ''A7QZ2K'' @ [c, d]) ''ABC'') ALPHABET)"

lemma generate_temporary_pin_returns_witness:
  "\<exists>p. generate_temporary_pin example_draws ''E-100'' = Inr p
     \<and> validate_new_pin p ''E-100'' = Inr p"
proof -
  have "normalize_employee_number ''E-100'' = Inr ''E-100''" by code_simp
  moreover have "list_all is_candidate example_draws" by code_simp
  moreover have "card (set example_draws) = length (remdups example_draws)"
    by (simp add: length_remdups_card_conv)
  moreover have "length (remdups example_draws) = 108" by code_simp
  ultimately show ?thesis
    using generate_temporary_pin_returns [of "''E-100''" "''E-100''" example_draws]
    by (auto simp: list_all_iff)
qed

text \<open>
  A stored PIN verifies exactly the PINs that normalise to the one it was made from: the
  comparison ignores letter case and accepts nothing the policy's alphabet and length exclude.
\<close>

theorem verify_pin_exact:
  assumes "argon_sound C" "hash_pin C salt pin = Inr h"
  shows "verify_pin C h q \<longleftrightarrow>
    4 \<le> length q \<and> length q \<le> 8 \<and> list_all is_pin_char q \<and> upper q = upper pin"
  using assms by (auto simp: verify_hash_pin hash_pin_def normalize_pin_def split: if_splits)

lemma verify_pin_exact_witness:
  "hash_pin plain_crypto ''s'' ''ab12'' = Inr ''AB12'' \<and> verify_pin plain_crypto ''AB12'' ''Ab12''
   \<and> \<not> verify_pin plain_crypto ''AB12'' ''Ab13''"
proof -
  have h: "hash_pin plain_crypto ''s'' ''ab12'' = Inr ''AB12''" by code_simp
  show ?thesis
    unfolding verify_pin_exact [OF plain_crypto_sound h] using h by (intro conjI) code_simp+
qed

end
