(* ===== verification/Accounts.thy ===== *)
theory Accounts
  imports AuditLog Pins
begin

text \<open>
  Accounts and the login decision (\<open>src/backend/identity/accounts.py\<close>): the lockout counters,
  creation, role and status changes, resets, unlocking and session revocation by an Admin, and
  \<open>verify_login_pin\<close>. Where the source draws an identifier, a salt or PIN candidates the model
  takes them as arguments; \<open>db_now\<close> is the database's \<open>CURRENT_TIMESTAMP\<close>.
\<close>

section \<open>Roles and codes\<close>

fun role_str :: "role \<Rightarrow> string" where
  "role_str User = ''user''"
| "role_str Admin = ''admin''"

fun status_str :: "account_status \<Rightarrow> string" where
  "status_str Active = ''active''"
| "status_str Locked = ''locked''"
| "status_str Deactivated = ''deactivated''"

definition parse_role :: "string \<Rightarrow> role option" where
  "parse_role s = (if s = ''user'' then Some User else if s = ''admin'' then Some Admin else None)"

record actor =
  account_id :: uuid
  staff_member_id :: uuid

record temporary_pin_result =
  tp_account_id :: uuid
  temporary_pin :: string
  tp_expires_at :: time

definition audit_admin ::
  "actor \<Rightarrow> string \<Rightarrow> string \<Rightarrow> uuid \<Rightarrow> (string \<times> json) list \<Rightarrow> string \<Rightarrow> db \<Rightarrow> unit result \<times> db" where
  "audit_admin who act ttype tid dts req =
     append_audit (AuditEventInput (Some (account_id who)) (Some (staff_member_id who)) act Success
       req ttype (Some tid) dts)"

section \<open>Lockout\<close>

definition lock_minutes :: "nat \<Rightarrow> int" where
  "lock_minutes lock_cycle = min (15 * 2 ^ (lock_cycle - 1)) (24 * 60)"

definition reset_failed_attempts :: "account \<Rightarrow> account" where
  "reset_failed_attempts a = a\<lparr>ac_failed_attempts := 0, ac_lock_cycle := 0, ac_locked_until := None,
     ac_status := if ac_status a = Locked then Active else ac_status a\<rparr>"

definition record_failed_attempt :: "account \<Rightarrow> time \<Rightarrow> int option \<times> account" where
  "record_failed_attempt a now =
     (let a1 = a\<lparr>ac_failed_attempts := ac_failed_attempts a + 1\<rparr>
      in if ac_failed_attempts a1 < 5 then (None, a1)
         else let a2 = a1\<lparr>ac_lock_cycle := ac_lock_cycle a1 + 1\<rparr>;
                  m = lock_minutes (ac_lock_cycle a2)
              in (Some m, a2\<lparr>ac_status := Locked, ac_locked_until := Some (now + minutes m)\<rparr>))"

definition unlock_admin_account :: "account \<Rightarrow> account" where
  "unlock_admin_account a = a\<lparr>ac_status := Active, ac_failed_attempts := 0, ac_lock_cycle := 0,
     ac_locked_until := None\<rparr>"

section \<open>Staff\<close>

text \<open>
  \<open>str(value or "")\<close> of a request value. The text of a non-empty list or object is abbreviated
  to its brackets: the normalisation refuses it for them.
\<close>

fun text_or_empty :: "json \<Rightarrow> string" where
  "text_or_empty JNull = []"
| "text_or_empty (JBool b) = (if b then ''True'' else [])"
| "text_or_empty (JInt i) = (if i = 0 then [] else int_str i)"
| "text_or_empty (JFloat s) = (if s = ''0.0'' \<or> s = ''-0.0'' then [] else s)"
| "text_or_empty (JStr s) = s"
| "text_or_empty (JArr vs) = (if vs = [] then [] else ''[]'')"
| "text_or_empty (JObj kvs) = (if kvs = [] then [] else ''{}'')"

fun is_text :: "json \<Rightarrow> bool" where
  "is_text (JStr s) \<longleftrightarrow> True"
| "is_text _ \<longleftrightarrow> False"

definition payload_value :: "(string \<times> json) list \<Rightarrow> string \<Rightarrow> json" where
  "payload_value payload k = (case obj_get k payload of Some v \<Rightarrow> v | None \<Rightarrow> JNull)"

definition staff_fields :: "string list" where
  "staff_fields = [''employee_number'', ''rank'', ''first_name'', ''last_name'', ''shift'']"

abbreviation invalid_staff :: exn where
  "invalid_staff \<equiv> ValueError ''staff payload is invalid''"

definition create_staff ::
  "actor \<Rightarrow> (string \<times> json) list \<Rightarrow> time \<Rightarrow> string \<Rightarrow> uuid \<Rightarrow> db \<Rightarrow> staff_member result \<times> db" where
  "create_staff who payload now req new_id db =
     (if set (obj_keys payload) \<noteq> set staff_fields then (Inl invalid_staff, db)
      else case normalize_employee_number (text_or_empty (payload_value payload ''employee_number'')) of
        Inl e \<Rightarrow> (Inl e, db)
      | Inr number \<Rightarrow>
          if find_row st_employee_number number (staff_members db) \<noteq> None
          then (Inl DuplicateEmployeeNumberError, db)
          else if \<not> list_all (\<lambda>k. is_text (payload_value payload k)) staff_fields
          then (Inl invalid_staff, db)
          else
            let get = (\<lambda>k. strip (text_or_empty (payload_value payload k)));
                staff = \<lparr>st_id = new_id, st_employee_number = number, st_rank = get ''rank'',
                  st_first_name = get ''first_name'', st_last_name = get ''last_name'',
                  st_shift = get ''shift'', st_is_active = True, st_created_at = now,
                  st_updated_at = now\<rparr>
            in if st_first_name staff = [] \<or> st_last_name staff = [] \<or> st_shift staff = []
               then (Inl invalid_staff, db)
               else if length number > 64 \<or> length (st_rank staff) > 64
                  \<or> length (st_first_name staff) > 100 \<or> length (st_last_name staff) > 100
                  \<or> length (st_shift staff) > 16
               then (Inl invalid_staff, db)
               else
                 and_then (audit_admin who ''admin.staff_created'' ''staff_member'' new_id
                     [(''target_staff_id'', JStr (uuid_str new_id))] req
                     (db\<lparr>staff_members := staff_members db @ [staff]\<rparr>))
                   (\<lambda>_ db. (Inr staff, db)))"

text \<open>\<open>getattr\<close> and \<open>setattr\<close> of the columns a staff update may name.\<close>

definition staff_get :: "string \<Rightarrow> staff_member \<Rightarrow> json" where
  "staff_get k s =
     (if k = ''employee_number'' then JStr (st_employee_number s)
      else if k = ''rank'' then JStr (st_rank s)
      else if k = ''first_name'' then JStr (st_first_name s)
      else if k = ''last_name'' then JStr (st_last_name s)
      else if k = ''shift'' then JStr (st_shift s)
      else JBool (st_is_active s))"

definition staff_set :: "string \<Rightarrow> json \<Rightarrow> staff_member \<Rightarrow> staff_member" where
  "staff_set k v s =
     (if k = ''employee_number'' then s\<lparr>st_employee_number := text_or_empty v\<rparr>
      else if k = ''rank'' then s\<lparr>st_rank := text_or_empty v\<rparr>
      else if k = ''first_name'' then s\<lparr>st_first_name := text_or_empty v\<rparr>
      else if k = ''last_name'' then s\<lparr>st_last_name := text_or_empty v\<rparr>
      else if k = ''shift'' then s\<lparr>st_shift := text_or_empty v\<rparr>
      else s\<lparr>st_is_active := (v = JBool True)\<rparr>)"

definition staff_bounds :: "(string \<times> nat) list" where
  "staff_bounds = [(''rank'', 64), (''first_name'', 100), (''last_name'', 100), (''shift'', 16)]"

definition normalize_staff_value :: "string \<Rightarrow> json \<Rightarrow> json result" where
  "normalize_staff_value k v =
     (if k = ''is_active'' then
        (case v of JBool b \<Rightarrow> Inr v | _ \<Rightarrow> Inl invalid_staff)
      else case v of
        JStr s \<Rightarrow>
          bind_result (if k = ''employee_number'' then normalize_employee_number s else Inr s)
            (\<lambda>n. if k = ''employee_number'' \<and> length n > 64 then Inl invalid_staff
                 else case map_of staff_bounds k of
                   Some bound \<Rightarrow>
                     if length n > bound \<or> (k \<noteq> ''rank'' \<and> n = []) then Inl invalid_staff
                     else Inr (JStr n)
                 | None \<Rightarrow> Inr (JStr n))
      | _ \<Rightarrow> Inl invalid_staff)"

fun update_staff_fields ::
  "(string \<times> json) list \<Rightarrow> string list \<Rightarrow> staff_member \<Rightarrow> string list result \<times> staff_member" where
  "update_staff_fields [] changed s = (Inr changed, s)"
| "update_staff_fields ((k, v) # items) changed s =
     (case normalize_staff_value k v of
        Inl e \<Rightarrow> (Inl e, s)
      | Inr n \<Rightarrow>
          if staff_get k s \<noteq> n
          then update_staff_fields items (changed @ [k]) (staff_set k n s)
          else update_staff_fields items changed s)"

definition update_staff ::
  "actor \<Rightarrow> uuid \<Rightarrow> (string \<times> json) list \<Rightarrow> time \<Rightarrow> string \<Rightarrow> db \<Rightarrow> staff_member result \<times> db" where
  "update_staff who sid payload now req db =
     (if payload = [] \<or> \<not> set (obj_keys payload) \<subseteq> set staff_fields \<union> {''is_active''}
      then (Inl invalid_staff, db)
      else case find_staff sid db of
        None \<Rightarrow> (Inl (LookupError ''staff member not found''), db)
      | Some old \<Rightarrow>
          (case update_staff_fields payload [] old of
             (Inl e, partial) \<Rightarrow> (Inl e, put_staff partial db)
           | (Inr changed, new) \<Rightarrow>
               let staff = new\<lparr>st_updated_at := now\<rparr>
               in if list_ex (\<lambda>s. st_id s \<noteq> sid \<and> st_employee_number s = st_employee_number staff)
                    (staff_members db)
                  then (Inl DuplicateEmployeeNumberError, db)
                  else and_then
                    (audit_admin who ''admin.staff_updated'' ''staff_member'' sid
                       [(''target_staff_id'', JStr (uuid_str sid)),
                        (''changed_fields'', JArr (map JStr (sort changed)))] req
                       (put_staff staff db))
                    (\<lambda>_ db. (Inr staff, db))))"

section \<open>Creating accounts\<close>

definition new_account ::
  "crypto \<Rightarrow> staff_member \<Rightarrow> string \<Rightarrow> time \<Rightarrow> uuid \<Rightarrow> string \<Rightarrow> string list \<Rightarrow> time
   \<Rightarrow> (account \<times> temporary_pin_result) result" where
  "new_account C staff role_name now new_id salt draws db_now =
     (case parse_role role_name of
        None \<Rightarrow> Inl (ValueError ''account role is invalid'')
      | Some rl \<Rightarrow>
          bind_result (generate_temporary_pin draws (st_employee_number staff)) (\<lambda>pin.
          bind_result (hash_pin C salt pin) (\<lambda>h.
            let expires = now + hours 24
            in Inr (\<lparr>ac_id = new_id, ac_staff_member_id = st_id staff, ac_role = rl,
                     ac_status = Active, ac_pin_hash = h, ac_must_change_pin = True,
                     ac_temporary_pin_expires_at = Some expires, ac_failed_attempts = 0,
                     ac_lock_cycle = 0, ac_locked_until = None, ac_auth_version = 1,
                     ac_last_login_at = None, ac_created_at = db_now, ac_updated_at = db_now,
                     ac_deactivated_at = None\<rparr>,
                    \<lparr>tp_account_id = new_id, temporary_pin = pin, tp_expires_at = expires\<rparr>))))"

definition create_account ::
  "crypto \<Rightarrow> actor \<Rightarrow> uuid \<Rightarrow> string \<Rightarrow> time \<Rightarrow> string \<Rightarrow> uuid \<Rightarrow> string \<Rightarrow> string list \<Rightarrow> time \<Rightarrow> db
   \<Rightarrow> temporary_pin_result result \<times> db" where
  "create_account C who sid role_name now req new_id salt draws db_now db =
     (case find_staff sid db of
        None \<Rightarrow> (Inl (ValueError ''active staff member is required''), db)
      | Some staff \<Rightarrow>
          if \<not> st_is_active staff
          then (Inl (ValueError ''active staff member is required''), db)
          else if find_row ac_staff_member_id sid (accounts db) \<noteq> None
          then (Inl (ValueError ''staff member already has an account''), db)
          else case new_account C staff role_name now new_id salt draws db_now of
            Inl e \<Rightarrow> (Inl e, db)
          | Inr (a, pending) \<Rightarrow>
              and_then (audit_admin who ''admin.account_created'' ''account'' new_id
                  [(''target_account_id'', JStr (uuid_str new_id)), (''role'', JStr role_name)] req
                  (db\<lparr>accounts := accounts db @ [a]\<rparr>))
                (\<lambda>_ db. (Inr pending, db)))"

definition create_account_for_staff ::
  "crypto \<Rightarrow> actor \<Rightarrow> uuid \<Rightarrow> string \<Rightarrow> time \<Rightarrow> string \<Rightarrow> uuid \<Rightarrow> string \<Rightarrow> string list \<Rightarrow> time \<Rightarrow> db
   \<Rightarrow> temporary_pin_result result \<times> db" where
  "create_account_for_staff C who sid role_name now req new_id salt draws db_now db =
     (case find_staff sid db of
        None \<Rightarrow> (Inl (LookupError ''staff member not found''), db)
      | Some staff \<Rightarrow>
          if find_row ac_staff_member_id sid (accounts db) \<noteq> None
          then (Inl AccountAlreadyExistsError, db)
          else session_scope
            (create_account C who sid role_name now req new_id salt draws db_now) db)"

definition bootstrap_first_admin ::
  "crypto \<Rightarrow> uuid \<Rightarrow> time \<Rightarrow> uuid \<Rightarrow> string \<Rightarrow> uuid \<Rightarrow> string \<Rightarrow> string list \<Rightarrow> time \<Rightarrow> db
   \<Rightarrow> temporary_pin_result result \<times> db" where
  "bootstrap_first_admin C sid now operation_id approval new_id salt draws db_now db =
     (if \<not> (length approval = 64 \<and> list_all is_hex_lower approval)
      then (Inl (ValueError ''approval reference SHA-256 must be lowercase 64-hex''), db)
      else if accounts db \<noteq> [] then (Inl InitialAdminBootstrapRefused, db)
      else case find_staff sid db of
        None \<Rightarrow> (Inl InitialAdminBootstrapRefused, db)
      | Some staff \<Rightarrow>
          if \<not> st_is_active staff then (Inl InitialAdminBootstrapRefused, db)
          else case new_account C staff ''admin'' now new_id salt draws db_now of
            Inl e \<Rightarrow> (Inl e, db)
          | Inr (a, pending) \<Rightarrow>
              and_then (append_audit (AuditEventInput None None ''system.initial_admin_bootstrapped''
                    Success (uuid_str operation_id) ''account'' (Some new_id)
                    [(''operation_id'', JStr (uuid_str operation_id)),
                     (''approval_reference_sha256'', JStr approval)])
                  (db\<lparr>accounts := [a]\<rparr>))
                (\<lambda>_ db. (Inr pending, db)))"

section \<open>Changing accounts\<close>

definition revoke_live_sessions :: "uuid \<Rightarrow> time \<Rightarrow> string \<Rightarrow> db \<Rightarrow> db" where
  "revoke_live_sessions aid now reason db =
     db\<lparr>sessions := update_rows (\<lambda>s. se_account_id s = aid \<and> se_revoked_at s = None)
         (\<lambda>s. s\<lparr>se_revoked_at := Some now, se_revoke_reason := Some reason\<rparr>) (sessions db)\<rparr>"

definition lock_active_admins :: "db \<Rightarrow> account list" where
  "lock_active_admins db =
     sort_key ac_id (filter (\<lambda>a. ac_role a = Admin \<and> ac_status a = Active) (accounts db))"

definition ensure_not_last_active_admin ::
  "account \<Rightarrow> account list \<Rightarrow> role \<Rightarrow> account_status \<Rightarrow> unit result" where
  "ensure_not_last_active_admin target admins rl st =
     (let removes = ac_role target = Admin \<and> ac_status target = Active \<and> (rl \<noteq> Admin \<or> st \<noteq> Active)
      in if removes \<and> \<not> list_ex (\<lambda>i. ac_id i \<noteq> ac_id target) admins then Inl LastActiveAdminError
         else Inr ())"

text \<open>The requested status is one of two codes.\<close>

definition parse_target_status :: "string \<Rightarrow> account_status option" where
  "parse_target_status s =
     (if s = ''active'' then Some Active else if s = ''deactivated'' then Some Deactivated else None)"

definition change_account_role_or_status ::
  "actor \<Rightarrow> uuid \<Rightarrow> string \<Rightarrow> string \<Rightarrow> time \<Rightarrow> string \<Rightarrow> db \<Rightarrow> account result \<times> db" where
  "change_account_role_or_status who aid role_name status_name now req db =
     (case (parse_role role_name, parse_target_status status_name) of
        (Some rl, Some st) \<Rightarrow>
          let admins = lock_active_admins db;
              found = (case find (\<lambda>a. ac_id a = aid) admins of
                         Some a \<Rightarrow> Some a | None \<Rightarrow> find_account aid db)
          in (case found of
                None \<Rightarrow> (Inl (LookupError ''account not found''), db)
              | Some target \<Rightarrow>
                  (case (if ac_role target = Admin \<and> ac_status target = Active
                            \<and> (rl \<noteq> Admin \<or> st \<noteq> Active)
                         then ensure_not_last_active_admin target admins rl st else Inr ()) of
                     Inl e \<Rightarrow> (Inl e, db)
                   | Inr _ \<Rightarrow>
                       if ac_status target = Locked \<and> st = Active then (Inl AccountConflictError, db)
                       else if (ac_role target, ac_status target) = (rl, st)
                       then (Inl AccountConflictError, db)
                       else
                         let target' = target\<lparr>ac_role := rl, ac_status := st,
                               ac_deactivated_at := if st = Deactivated then Some now else None,
                               ac_updated_at := now, ac_auth_version := ac_auth_version target + 1\<rparr>;
                             db1 = put_account target' db;
                             db2 = (if ac_role target \<noteq> rl \<or> st = Deactivated
                                    then revoke_live_sessions aid now ''admin_action'' db1 else db1);
                             tid = (''target_account_id'', JStr (uuid_str aid));
                             (act, dts) =
                               (if ac_role target \<noteq> rl then
                                  (''admin.account_role_changed'',
                                   [tid, (''old_role'', JStr (role_str (ac_role target))),
                                    (''new_role'', JStr (role_str rl))])
                                else if st = Deactivated then (''admin.account_deactivated'', [tid])
                                else (''admin.account_reactivated'', [tid]))
                         in and_then (audit_admin who act ''account'' aid dts req db2)
                              (\<lambda>_ db. (Inr target', db))))
      | _ \<Rightarrow> (Inl (ValueError ''account role or status is invalid''), db))"

definition reset_account_pin ::
  "crypto \<Rightarrow> actor \<Rightarrow> uuid \<Rightarrow> time \<Rightarrow> string \<Rightarrow> string \<Rightarrow> string list \<Rightarrow> db
   \<Rightarrow> temporary_pin_result result \<times> db" where
  "reset_account_pin C who aid now req salt draws db =
     (case find_account aid db of
        None \<Rightarrow> (Inl (LookupError ''account not found''), db)
      | Some a \<Rightarrow>
          (case find_staff (ac_staff_member_id a) db of
             None \<Rightarrow> (Inl AttributeError, db)
           | Some staff \<Rightarrow>
               (case bind_result (generate_temporary_pin draws (st_employee_number staff))
                       (\<lambda>pin. bind_result (hash_pin C salt pin) (\<lambda>h. Inr (pin, h))) of
                  Inl e \<Rightarrow> (Inl e, db)
                | Inr (pin, h) \<Rightarrow>
                    let expires = now + hours 24;
                        a' = reset_failed_attempts (a\<lparr>ac_pin_hash := h, ac_must_change_pin := True,
                               ac_temporary_pin_expires_at := Some expires, ac_updated_at := now,
                               ac_auth_version := ac_auth_version a + 1\<rparr>)
                    in and_then (audit_admin who ''auth.pin_reset'' ''account'' aid
                           [(''target_account_id'', JStr (uuid_str aid))] req
                           (revoke_live_sessions aid now ''admin_action'' (put_account a' db)))
                         (\<lambda>_ db. (Inr \<lparr>tp_account_id = aid, temporary_pin = pin,
                                         tp_expires_at = expires\<rparr>, db)))))"

text \<open>\<open>unlock_account\<close> as the Admin routes call it, with an actor.\<close>

definition unlock_account :: "actor \<Rightarrow> uuid \<Rightarrow> time \<Rightarrow> string \<Rightarrow> db \<Rightarrow> account result \<times> db" where
  "unlock_account who aid now req db =
     (case find_account aid db of
        None \<Rightarrow> (Inl (LookupError ''account not found''), db)
      | Some a \<Rightarrow>
          if ac_status a \<noteq> Locked then (Inl AccountConflictError, db)
          else let a' = unlock_admin_account
                     (a\<lparr>ac_auth_version := ac_auth_version a + 1, ac_updated_at := now\<rparr>)
               in and_then (audit_admin who ''admin.account_unlocked'' ''account'' aid
                      [(''target_account_id'', JStr (uuid_str aid))] req
                      (revoke_live_sessions aid now ''admin_action'' (put_account a' db)))
                    (\<lambda>_ db. (Inr a', db)))"

fun revoke_each :: "actor \<Rightarrow> time \<Rightarrow> string \<Rightarrow> uuid list \<Rightarrow> db \<Rightarrow> unit result \<times> db" where
  "revoke_each who now req [] db = (Inr (), db)"
| "revoke_each who now req (i # ids) db =
     and_then (audit_admin who ''auth.session_revoked'' ''session'' i
         [(''reason'', JStr ''admin_action'')] req
         (set_session i (\<lambda>s. s\<lparr>se_revoked_at := Some now,
                                se_revoke_reason := Some ''admin_action''\<rparr>) db))
       (\<lambda>_ db. revoke_each who now req ids db)"

definition revocation_targets :: "uuid \<Rightarrow> string \<Rightarrow> uuid option \<Rightarrow> db \<Rightarrow> uuid list result" where
  "revocation_targets aid scope target_session_id db =
     (if scope = ''one'' \<and> target_session_id \<noteq> None then
        (case find_session (the target_session_id) db of
           None \<Rightarrow> Inl (LookupError ''session not found'')
         | Some s \<Rightarrow>
             if se_account_id s \<noteq> aid then Inl (LookupError ''session not found'')
             else if se_revoked_at s \<noteq> None then Inl AccountConflictError
             else Inr [se_id s])
      else if scope \<noteq> ''all'' \<or> target_session_id \<noteq> None
      then Inl (ValueError ''session revocation scope is invalid'')
      else Inr (sort (map se_id (filter
             (\<lambda>s. se_account_id s = aid \<and> se_revoked_at s = None) (sessions db)))))"

definition revoke_account_sessions ::
  "actor \<Rightarrow> uuid \<Rightarrow> string \<Rightarrow> uuid option \<Rightarrow> time \<Rightarrow> string \<Rightarrow> db \<Rightarrow> uuid list result \<times> db" where
  "revoke_account_sessions who aid scope target_session_id now req db =
     (case find_account aid db of
        None \<Rightarrow> (Inl (LookupError ''account not found''), db)
      | Some a \<Rightarrow>
          (case revocation_targets aid scope target_session_id db of
             Inl e \<Rightarrow> (Inl e, db)
           | Inr ids \<Rightarrow>
               and_then (revoke_each who now req ids db) (\<lambda>_ db1.
                 if scope = ''all'' then
                   and_then (audit_admin who ''auth.logout_all'' ''account'' aid
                       [(''session_count'', JInt (int (length ids)))] req
                       (set_account aid (\<lambda>a. a\<lparr>ac_auth_version := ac_auth_version a + 1\<rparr>) db1))
                     (\<lambda>_ db2. (Inr ids, db2))
                 else (Inr ids, db1))))"

section \<open>The login decision\<close>

definition audit_failure :: "account option \<Rightarrow> string \<Rightarrow> string \<Rightarrow> db \<Rightarrow> unit result \<times> db" where
  "audit_failure a req reason db =
     append_audit (AuditEventInput (map_option ac_id a)
       (case a of None \<Rightarrow> None | Some x \<Rightarrow> map_option st_id (find_staff (ac_staff_member_id x) db))
       ''auth.login_failed'' Failed req ''account'' (map_option ac_id a)
       [(''reason'', JStr reason)]) db"

text \<open>The join of \<open>_login_account_statement\<close>; both join columns are unique.\<close>

definition login_account :: "string \<Rightarrow> db \<Rightarrow> (account \<times> staff_member) option" where
  "login_account number db =
     (case find_row st_employee_number number (staff_members db) of
        None \<Rightarrow> None
      | Some staff \<Rightarrow>
          map_option (\<lambda>a. (a, staff)) (find_row ac_staff_member_id (st_id staff) (accounts db)))"

definition expired :: "time option \<Rightarrow> time \<Rightarrow> bool" where
  "expired t now = (case t of None \<Rightarrow> False | Some u \<Rightarrow> u \<le> now)"

definition thaw :: "time \<Rightarrow> account \<Rightarrow> account" where
  "thaw now a =
     (if ac_status a = Locked \<and> expired (ac_locked_until a) now
      then a\<lparr>ac_status := Active, ac_failed_attempts := 0, ac_locked_until := None\<rparr> else a)"

definition refuse_login :: "account option \<Rightarrow> string \<Rightarrow> string \<Rightarrow> db \<Rightarrow> account result \<times> db" where
  "refuse_login a req reason db =
     and_then (audit_failure a req reason db) (\<lambda>_ db. (Inl InvalidCredentials, db))"

text \<open>The two ends of the login: a wrong PIN is counted, a right one resets the counters.\<close>

definition wrong_pin :: "account \<Rightarrow> string \<Rightarrow> time \<Rightarrow> db \<Rightarrow> account result \<times> db" where
  "wrong_pin a req now db =
     (case record_failed_attempt a now of (locked, a') \<Rightarrow>
        and_then (audit_failure (Some a') req ''invalid_pin'' (put_account a' db))
          (\<lambda>_ db2. case locked of
             None \<Rightarrow> (Inl InvalidCredentials, db2)
           | Some m \<Rightarrow>
               and_then (append_audit (AuditEventInput (Some (ac_id a'))
                   (Some (ac_staff_member_id a')) ''auth.locked'' Failed req ''account''
                   (Some (ac_id a')) [(''lock_minutes'', JInt m)]) db2)
                 (\<lambda>_ db3. (Inl InvalidCredentials, db3))))"

definition right_pin :: "crypto \<Rightarrow> account \<Rightarrow> string \<Rightarrow> time \<Rightarrow> string \<Rightarrow> db \<Rightarrow> account result \<times> db" where
  "right_pin C a pin now salt db =
     (let a' = (reset_failed_attempts a)\<lparr>ac_last_login_at := Some now\<rparr>
      in if needs_rehash C (ac_pin_hash a')
         then (case hash_pin C salt (upper pin) of
                 Inl e \<Rightarrow> (Inl e, put_account a' db)
               | Inr h \<Rightarrow> (Inr (a'\<lparr>ac_pin_hash := h\<rparr>), put_account (a'\<lparr>ac_pin_hash := h\<rparr>) db))
         else (Inr a', put_account a' db))"

definition verify_login_pin ::
  "crypto \<Rightarrow> string \<Rightarrow> string \<Rightarrow> time \<Rightarrow> string \<Rightarrow> string \<Rightarrow> db \<Rightarrow> account result \<times> db" where
  "verify_login_pin C employee_number pin now req salt db =
     (let number = (case normalize_employee_number employee_number of Inl _ \<Rightarrow> [] | Inr n \<Rightarrow> n)
      in case login_account number db of
        None \<Rightarrow> refuse_login None req ''invalid_credentials'' db
      | Some (stored, staff) \<Rightarrow>
          let pin_valid = verify_pin C (ac_pin_hash stored) pin;
              a = thaw now stored;
              db1 = put_account a db
          in if ac_status a \<noteq> Active
             then refuse_login (Some a) req ''account_locked_or_deactivated'' db1
             else if \<not> st_is_active staff then refuse_login (Some a) req ''staff_inactive'' db1
             else if ac_must_change_pin a \<and> expired (ac_temporary_pin_expires_at a) now
             then refuse_login (Some a) req ''temporary_pin_expired'' db1
             else if \<not> pin_valid then wrong_pin a req now db1
             else right_pin C a pin now salt db1)"

end
