(* ===== verification/Sessions.thy ===== *)
theory Sessions
  imports Accounts
begin

text \<open>
  Access sessions (\<open>src/backend/identity/sessions.py\<close>) and the settings they read
  (\<open>config.py\<close>): login, rotation of the renewal token and detection of its reuse, resolution of
  an access token, revocation, logout everywhere, and the PIN change. Raw tokens, new
  identifiers and salts are arguments.
\<close>

section \<open>Settings: \<open>IdentitySettings\<close>\<close>

record identity_settings =
  identity_hash_pepper :: "string option"
  access_ttl_seconds :: int
  nonpersistent_renewal_ttl_seconds :: int
  persistent_renewal_ttl_seconds :: int
  step_up_ttl_seconds :: int
  admin_elevation_idle_seconds :: int
  browser_handoff_ttl_seconds :: int
  browser_session_idle_seconds :: int

definition default_settings :: "string \<Rightarrow> identity_settings" where
  "default_settings pepper = \<lparr>identity_hash_pepper = Some pepper, access_ttl_seconds = 15 * 60,
     nonpersistent_renewal_ttl_seconds = 12 * 60 * 60,
     persistent_renewal_ttl_seconds = 30 * 24 * 60 * 60, step_up_ttl_seconds = 5 * 60,
     admin_elevation_idle_seconds = 15 * 60, browser_handoff_ttl_seconds = 60,
     browser_session_idle_seconds = 30 * 60\<rparr>"

definition pepper_of :: "identity_settings \<Rightarrow> string" where
  "pepper_of cfg = (case identity_hash_pepper cfg of None \<Rightarrow> [] | Some p \<Rightarrow> p)"

section \<open>Token pairs and summaries\<close>

record session_token_pair =
  sp_session_id :: uuid
  access_token :: string
  renewal_token :: string
  access_expires_at :: time
  renewal_expires_at :: time
  persistent :: bool
  requires_pin_change :: bool
  profile :: "(string \<times> string) list"

record session_summary =
  ss_session_id :: uuid
  ss_device_label :: string
  ss_persistent :: bool
  ss_created_at :: time
  ss_last_used_at :: time
  ss_renewal_expires_at :: time
  ss_current :: bool

definition profile_of :: "account \<Rightarrow> staff_member \<Rightarrow> (string \<times> string) list" where
  "profile_of a staff =
     [(''staff_id'', uuid_str (st_id staff)), (''employee_number'', st_employee_number staff),
      (''display_name'', join '' '' (filter (\<lambda>part. part \<noteq> [])
          [st_rank staff, st_first_name staff, st_last_name staff])),
      (''rank'', st_rank staff), (''shift'', st_shift staff),
      (''role'', role_str (ac_role a)), (''status'', status_str (ac_status a))]"

definition token_pair :: "access_session \<Rightarrow> account \<Rightarrow> staff_member \<Rightarrow> string \<Rightarrow> string \<Rightarrow> session_token_pair"
where
  "token_pair s a staff access renewal =
     \<lparr>sp_session_id = se_id s, access_token = access, renewal_token = renewal,
      access_expires_at = se_access_expires_at s, renewal_expires_at = se_renewal_expires_at s,
      persistent = se_persistent s, requires_pin_change = ac_must_change_pin a,
      profile = profile_of a staff\<rparr>"

text \<open>
  \<open>_require_active\<close> on an account object and the staff member it refers to: the staff member is
  returned for the profile. A dangling reference is the \<open>AttributeError\<close> of Python.
\<close>

definition require_active :: "account \<Rightarrow> db \<Rightarrow> staff_member result" where
  "require_active a db =
     (if ac_status a \<noteq> Active then Inl SessionReauthenticationRequired
      else case find_staff (ac_staff_member_id a) db of
        None \<Rightarrow> Inl AttributeError
      | Some staff \<Rightarrow>
          if st_is_active staff then Inr staff else Inl SessionReauthenticationRequired)"

section \<open>Login\<close>

text \<open>What a login draws: raw tokens, the session's id, its renewal family, and a salt.\<close>

record session_draws =
  dr_access :: string
  dr_renewal :: string
  dr_session_id :: uuid
  dr_family :: uuid
  dr_salt :: string

definition new_session ::
  "identity_settings \<Rightarrow> account \<Rightarrow> bool \<Rightarrow> time \<Rightarrow> session_draws \<Rightarrow> bytes \<Rightarrow> bytes \<Rightarrow> bytes \<Rightarrow> string
   \<Rightarrow> access_session" where
  "new_session cfg a persist now dr access renewal dev label =
     \<lparr>se_id = dr_session_id dr, se_account_id = ac_id a, se_auth_version = ac_auth_version a,
      se_access_token_hash = access,
      se_access_expires_at = now + seconds (access_ttl_seconds cfg),
      se_renewal_token_hash = renewal,
      se_renewal_expires_at = now + seconds (if persist then persistent_renewal_ttl_seconds cfg
        else nonpersistent_renewal_ttl_seconds cfg),
      se_renewal_family_id = dr_family dr, se_device_id_hash = dev,
      se_device_label = normalize_device_label label, se_persistent = persist,
      se_last_used_at = now, se_created_at = now, se_revoked_at = None, se_revoke_reason = None\<rparr>"

definition create_session ::
  "crypto \<Rightarrow> identity_settings \<Rightarrow> account \<Rightarrow> string \<Rightarrow> string \<Rightarrow> bool \<Rightarrow> time \<Rightarrow> session_draws \<Rightarrow> db
   \<Rightarrow> session_token_pair result \<times> db" where
  "create_session C cfg a device_id device_label persist now dr db =
     (case bind_result (require_active a db) (\<lambda>staff.
           bind_result (issue_credential C (dr_access dr)) (\<lambda>access.
           bind_result (issue_credential C (dr_renewal dr)) (\<lambda>renewal.
           bind_result (hash_device_id C device_id (pepper_of cfg)) (\<lambda>dev.
             Inr (staff, access, renewal, dev))))) of
        Inl e \<Rightarrow> (Inl e, db)
      | Inr (staff, access, renewal, dev) \<Rightarrow>
          let s = new_session cfg a persist now dr (digest access) (digest renewal) dev device_label
          in (Inr (token_pair s a staff (raw access) (raw renewal)),
              db\<lparr>sessions := sessions db @ [s]\<rparr>))"

definition login ::
  "crypto \<Rightarrow> identity_settings \<Rightarrow> string \<Rightarrow> string \<Rightarrow> string \<Rightarrow> string \<Rightarrow> bool \<Rightarrow> time \<Rightarrow> string
   \<Rightarrow> session_draws \<Rightarrow> db \<Rightarrow> session_token_pair result \<times> db" where
  "login C cfg employee_number pin device_id device_label persist now req dr db =
     and_then (verify_login_pin C employee_number pin now req (dr_salt dr) db) (\<lambda>a db1.
     and_then (create_session C cfg a device_id device_label persist now dr db1) (\<lambda>pair db2.
     and_then (append_audit (AuditEventInput (Some (ac_id a)) (Some (ac_staff_member_id a))
         ''auth.login_succeeded'' Success req ''session'' (Some (sp_session_id pair))
         [(''persistent'', JBool persist)]) db2)
       (\<lambda>_ db3. (Inr pair, db3))))"

section \<open>Families\<close>

definition account_for_session :: "access_session \<Rightarrow> db \<Rightarrow> account option" where
  "account_for_session s db =
     (case find_account (se_account_id s) db of
        None \<Rightarrow> None
      | Some a \<Rightarrow> if find_staff (ac_staff_member_id a) db = None then None else Some a)"

definition mark_revoked :: "time \<Rightarrow> string \<Rightarrow> access_session \<Rightarrow> access_session" where
  "mark_revoked now reason s = s\<lparr>se_revoked_at := Some now, se_revoke_reason := Some reason\<rparr>"

definition live_in_family :: "uuid \<Rightarrow> access_session \<Rightarrow> bool" where
  "live_in_family fam s \<longleftrightarrow> se_renewal_family_id s = fam \<and> se_revoked_at s = None"

definition revoke_family :: "access_session \<Rightarrow> time \<Rightarrow> string \<Rightarrow> db \<Rightarrow> nat \<times> db" where
  "revoke_family current now reason db =
     (let fam = se_renewal_family_id current
      in (length (filter (live_in_family fam) (sessions db)),
          db\<lparr>sessions := update_rows (live_in_family fam) (mark_revoked now reason) (sessions db)\<rparr>))"

section \<open>Renewal\<close>

text \<open>The branch of \<open>renew_session\<close> for a token that is no session's current one.\<close>

definition renewal_reused ::
  "bytes \<Rightarrow> time \<Rightarrow> string \<Rightarrow> db \<Rightarrow> session_token_pair result \<times> db" where
  "renewal_reused h now req db =
     (case find_row rh_token_hash h (renewal_history db) of
        None \<Rightarrow> (Inl SessionReauthenticationRequired, db)
      | Some hist \<Rightarrow>
          (case find_session (rh_session_id hist) db of
             None \<Rightarrow> (Inl SessionReauthenticationRequired, db)
           | Some current \<Rightarrow>
               let acct = account_for_session current db;
                   db1 = db\<lparr>renewal_history := update_rows (\<lambda>r. rh_token_hash r = h)
                       (\<lambda>r. r\<lparr>rh_reuse_detected_at :=
                          (case rh_reuse_detected_at r of None \<Rightarrow> Some now | Some t \<Rightarrow> Some t)\<rparr>)
                       (renewal_history db)\<rparr>;
                   db2 = snd (revoke_family current now ''renewal_reuse'' db1)
               in (case acct of
                     None \<Rightarrow> (Inl SessionReauthenticationRequired, db2)
                   | Some a \<Rightarrow>
                       and_then (append_audit (AuditEventInput (Some (ac_id a))
                           (Some (ac_staff_member_id a)) ''auth.session_revoked'' Failed req
                           ''session'' (Some (se_id current)) [(''reason'', JStr ''renewal_reuse'')]) db2)
                         (\<lambda>_ db3. (Inl SessionReauthenticationRequired, db3)))))"

text \<open>New tokens for a session: the old renewal token goes to the history.\<close>

definition rotate_tokens ::
  "identity_settings \<Rightarrow> access_session \<Rightarrow> nat \<Rightarrow> bytes \<Rightarrow> bytes \<Rightarrow> time \<Rightarrow> access_session" where
  "rotate_tokens cfg s version access renewal now =
     s\<lparr>se_auth_version := version, se_access_token_hash := access, se_renewal_token_hash := renewal,
       se_access_expires_at := now + seconds (access_ttl_seconds cfg), se_last_used_at := now,
       se_renewal_expires_at := if se_persistent s
         then now + seconds (persistent_renewal_ttl_seconds cfg) else se_renewal_expires_at s\<rparr>"

definition remember_renewal :: "access_session \<Rightarrow> time \<Rightarrow> db \<Rightarrow> db" where
  "remember_renewal s now db = db\<lparr>renewal_history := renewal_history db @
     [\<lparr>rh_session_id = se_id s, rh_renewal_family_id = se_renewal_family_id s,
       rh_token_hash = se_renewal_token_hash s, rh_rotated_at = now,
       rh_expires_at = se_renewal_expires_at s, rh_reuse_detected_at = None\<rparr>]\<rparr>"

definition renew_session ::
  "crypto \<Rightarrow> identity_settings \<Rightarrow> string \<Rightarrow> string \<Rightarrow> time \<Rightarrow> string \<Rightarrow> session_draws \<Rightarrow> db
   \<Rightarrow> session_token_pair result \<times> db" where
  "renew_session C cfg supplied device_id now req dr db =
     (case hash_token C supplied of
        Inl e \<Rightarrow> (Inl e, db)
      | Inr h \<Rightarrow>
          (case find_row se_renewal_token_hash h (sessions db) of
             None \<Rightarrow> renewal_reused h now req db
           | Some current \<Rightarrow>
               (case account_for_session current db of
                  None \<Rightarrow> (Inl SessionReauthenticationRequired, db)
                | Some a \<Rightarrow>
                    (case bind_result (hash_device_id C device_id (pepper_of cfg)) (\<lambda>dev.
                          if se_revoked_at current \<noteq> None \<or> se_renewal_expires_at current \<le> now
                             \<or> se_device_id_hash current \<noteq> dev
                             \<or> se_auth_version current \<noteq> ac_auth_version a
                          then Inl SessionReauthenticationRequired
                          else bind_result (require_active a db) (\<lambda>staff.
                               bind_result (issue_credential C (dr_access dr)) (\<lambda>access.
                               bind_result (issue_credential C (dr_renewal dr)) (\<lambda>renewal.
                                 Inr (staff, access, renewal))))) of
                       Inl e \<Rightarrow> (Inl e, db)
                     | Inr (staff, access, renewal) \<Rightarrow>
                         let new = rotate_tokens cfg current (se_auth_version current)
                               (digest access) (digest renewal) now
                         in and_then (append_audit (AuditEventInput (Some (ac_id a))
                                (Some (ac_staff_member_id a)) ''auth.session_renewed'' Success req
                                ''session'' (Some (se_id current))
                                [(''persistent'', JBool (se_persistent current))])
                                (put_session new (remember_renewal current now db)))
                              (\<lambda>_ db1. (Inr (token_pair new a staff (raw access) (raw renewal)), db1))))))"

section \<open>Resolution and revocation\<close>

definition resolve_access_session ::
  "crypto \<Rightarrow> string \<Rightarrow> time \<Rightarrow> db \<Rightarrow> (access_session \<times> account) result" where
  "resolve_access_session C token now db =
     bind_result (hash_token C token) (\<lambda>h.
       case find_row se_access_token_hash h (sessions db) of
         None \<Rightarrow> Inl SessionReauthenticationRequired
       | Some s \<Rightarrow>
           (case account_for_session s db of
              None \<Rightarrow> Inl SessionReauthenticationRequired
            | Some a \<Rightarrow>
                if se_revoked_at s \<noteq> None \<or> se_access_expires_at s \<le> now
                   \<or> se_auth_version s \<noteq> ac_auth_version a
                then Inl SessionReauthenticationRequired
                else bind_result (require_active a db) (\<lambda>_. Inr (s, a))))"

definition revoke_session ::
  "uuid \<Rightarrow> uuid \<Rightarrow> time \<Rightarrow> string \<Rightarrow> db \<Rightarrow> nat result \<times> db" where
  "revoke_session actor_id session_id now req db =
     (case find_session session_id db of
        None \<Rightarrow> (Inl SessionReauthenticationRequired, db)
      | Some target \<Rightarrow>
          if se_account_id target \<noteq> actor_id then (Inl SessionReauthenticationRequired, db)
          else case account_for_session target db of
            None \<Rightarrow> (Inl SessionReauthenticationRequired, db)
          | Some a \<Rightarrow>
              (case revoke_family target now ''user_revoked'' db of (revoked, db1) \<Rightarrow>
                 and_then (append_audit (AuditEventInput (Some actor_id)
                     (Some (ac_staff_member_id a)) ''auth.session_revoked'' Success req ''session''
                     (Some (se_id target)) [(''reason'', JStr ''user_revoked'')]) db1)
                   (\<lambda>_ db2. (Inr revoked, db2))))"

definition logout_all :: "uuid \<Rightarrow> time \<Rightarrow> string \<Rightarrow> db \<Rightarrow> nat result \<times> db" where
  "logout_all aid now req db =
     (case find_account aid db of
        None \<Rightarrow> (Inl SessionReauthenticationRequired, db)
      | Some a \<Rightarrow>
          let revoked = length (filter (\<lambda>s. se_account_id s = aid \<and> se_revoked_at s = None) (sessions db));
              db1 = revoke_live_sessions aid now ''logout_all''
                (put_account (a\<lparr>ac_auth_version := ac_auth_version a + 1\<rparr>) db)
          in and_then (append_audit (AuditEventInput (Some (ac_id a)) (Some (ac_staff_member_id a))
                 ''auth.logout_all'' Success req ''account'' (Some (ac_id a))
                 [(''session_count'', JInt (int revoked))]) db1)
               (\<lambda>_ db2. (Inr revoked, db2)))"

section \<open>PIN change\<close>

definition change_pin ::
  "crypto \<Rightarrow> identity_settings \<Rightarrow> uuid \<Rightarrow> uuid \<Rightarrow> string \<Rightarrow> string \<Rightarrow> string \<Rightarrow> time \<Rightarrow> string
   \<Rightarrow> session_draws \<Rightarrow> db \<Rightarrow> session_token_pair result \<times> db" where
  "change_pin C cfg aid sid current_pin new_pin device_id now req dr db =
     (case (find_account aid db, case find_session sid db of
              None \<Rightarrow> None | Some s \<Rightarrow> if se_account_id s = aid then Some s else None) of
        (Some a, Some current) \<Rightarrow>
          (case bind_result (hash_device_id C device_id (pepper_of cfg)) (\<lambda>dev.
                if se_revoked_at current \<noteq> None \<or> se_renewal_expires_at current \<le> now
                   \<or> se_auth_version current \<noteq> ac_auth_version a \<or> se_device_id_hash current \<noteq> dev
                then Inl SessionReauthenticationRequired
                else bind_result (require_active a db) (\<lambda>staff.
                     if \<not> verify_pin C (ac_pin_hash a) current_pin then Inl InvalidCredentials
                     else bind_result (validate_new_pin new_pin (st_employee_number staff)) (\<lambda>pin.
                          bind_result (hash_pin C (dr_salt dr) pin) (\<lambda>h.
                          bind_result (issue_credential C (dr_access dr)) (\<lambda>access.
                          bind_result (issue_credential C (dr_renewal dr)) (\<lambda>renewal.
                            Inr (staff, h, access, renewal))))))) of
             Inl e \<Rightarrow> (Inl e, db)
           | Inr (staff, h, access, renewal) \<Rightarrow>
               let a' = a\<lparr>ac_pin_hash := h, ac_must_change_pin := False,
                          ac_temporary_pin_expires_at := None,
                          ac_auth_version := ac_auth_version a + 1\<rparr>;
                   new = rotate_tokens cfg current (ac_auth_version a') (digest access)
                     (digest renewal) now;
                   others = update_rows
                     (\<lambda>s. se_account_id s = aid \<and> se_id s \<noteq> sid \<and> se_revoked_at s = None)
                     (mark_revoked now ''pin_changed'') (sessions db)
               in and_then (append_audit (AuditEventInput (Some (ac_id a)) (Some (ac_staff_member_id a))
                      ''auth.pin_changed'' Success req ''account'' (Some (ac_id a)) [])
                      (put_session new
                         (remember_renewal current now (put_account a' (db\<lparr>sessions := others\<rparr>)))))
                    (\<lambda>_ db1. (Inr (token_pair new a' staff (raw access) (raw renewal)), db1)))
      | _ \<Rightarrow> (Inl SessionReauthenticationRequired, db))"

definition list_sessions :: "uuid \<Rightarrow> uuid \<Rightarrow> db \<Rightarrow> session_summary list" where
  "list_sessions aid current_id db =
     map (\<lambda>s. \<lparr>ss_session_id = se_id s, ss_device_label = se_device_label s,
               ss_persistent = se_persistent s, ss_created_at = se_created_at s,
               ss_last_used_at = se_last_used_at s, ss_renewal_expires_at = se_renewal_expires_at s,
               ss_current = (se_id s = current_id)\<rparr>)
       (filter (\<lambda>s. se_revoked_at s = None)
         (sort_key (\<lambda>s. - se_created_at s)
           (sort_key se_id (filter (\<lambda>s. se_account_id s = aid) (sessions db)))))"

end
