(* ===== verification/AuditEvents.thy ===== *)
theory AuditEvents
  imports AuditLog
begin

text \<open>
  The events the identity operations write are accepted by the validator of the audit log: an
  operation that reaches its audit call does not fail there. Every lemma of the collection
  \<open>event_ok\<close> covers one action with the details the code gives it.
\<close>

named_theorems event_simps \<open>events the validator accepts\<close>

definition event_ok :: "string \<Rightarrow> (string \<times> json) list \<Rightarrow> bool" where
  "event_ok act kvs \<longleftrightarrow> validate_details act (JObj kvs) = Inr (JObj kvs)"

definition log_event :: "audit_event \<Rightarrow> db \<Rightarrow> db" where
  "log_event ev db = db\<lparr>audit_events := audit_events db @ [ev]\<rparr>"

lemma log_event_simps [simp]:
  "staff_members (log_event ev db) = staff_members db"
  "accounts (log_event ev db) = accounts db"
  "sessions (log_event ev db) = sessions db"
  "renewal_history (log_event ev db) = renewal_history db"
  "admin_elevations (log_event ev db) = admin_elevations db"
  "step_up_tokens (log_event ev db) = step_up_tokens db"
  "session_bindings (log_event ev db) = session_bindings db"
  "browser_handoffs (log_event ev db) = browser_handoffs db"
  "browser_sessions (log_event ev db) = browser_sessions db"
  "rate_limits (log_event ev db) = rate_limits db"
  "audit_events (log_event ev db) = audit_events db @ [ev]"
  "idempotency_records (log_event ev db) = idempotency_records db"
  by (simp_all add: log_event_def)

lemma details_AuditEventInput [simp]: "details (AuditEventInput a s act r q tt tid kvs) = JObj kvs"
  by (simp add: AuditEventInput_def)

lemma append_event:
  assumes "event_ok act kvs"
    "(a \<noteq> None) = (s \<noteq> None)"
    "if a = None then act = ''system.initial_admin_bootstrapped'' \<or> act = ''auth.login_failed''
     else act \<noteq> ''system.initial_admin_bootstrapped''"
  shows "append_audit (AuditEventInput a s act r q tt tid kvs) db
    = (Inr (), log_event (AuditEventInput a s act r q tt tid kvs) db)"
  using assms
  by (auto simp: append_audit_def AuditEventInput_def event_ok_def validate_actor_attribution_def
      Let_def hash_length_ok_def log_event_def split: if_splits)

section \<open>The size of the details\<close>

lemma metadata_char_plain:
  "is_metadata_char c \<Longrightarrow> 32 \<le> code c \<and> code c < 127 \<and> code c \<noteq> 34 \<and> code c \<noteq> 92"
  by (auto simp: is_metadata_char_def is_lower_ascii_def is_upper_ascii_def is_digit_def in_range_def)

lemma metadata_text_quote: "metadata_text s \<Longrightarrow> length (quote b s) \<le> 261"
  using length_quote_plain [of s b] metadata_char_plain
  by (auto simp: metadata_text_def list_all_iff)

lemma length_nat_str: "n < 10 ^ w \<Longrightarrow> 0 < w \<Longrightarrow> length (nat_str n) \<le> w"
proof (induction n arbitrary: w rule: nat_str.induct)
  case (1 n)
  show ?case
  proof (cases "n < 10")
    case True
    with 1 show ?thesis by (subst nat_str.simps) simp
  next
    case False
    with 1 obtain v where w: "w = Suc v" "0 < v" by (cases w; cases "w - 1") auto
    with 1 False have "length (nat_str (n div 10)) \<le> v" by (auto simp: less_mult_imp_div_less)
    with False w show ?thesis by (subst nat_str.simps) simp
  qed
qed

fun is_array :: "json \<Rightarrow> bool" where
  "is_array (JArr vs) \<longleftrightarrow> True"
| "is_array _ \<longleftrightarrow> False"

lemma metadata_value_short:
  "metadata_value v \<Longrightarrow> \<not> is_array v \<Longrightarrow> length (dumps b v) \<le> 300"
proof (cases v)
  case (JInt i)
  moreover assume "metadata_value v"
  ultimately have "0 \<le> i" "nat i < 10 ^ 10" by (auto simp: MAX_AUDIT_NUMBER_def)
  with JInt length_nat_str [of "nat i" 10] show ?thesis by (simp add: int_str_def)
qed (auto dest: metadata_text_quote [of _ b])

definition detail_ok :: "string \<Rightarrow> string \<times> json \<Rightarrow> bool" where
  "detail_ok act kv \<longleftrightarrow>
     (let (k, v) = kv in
        if k \<in> set AUDIT_NAME_LIST_FIELDS
        then validate_name_list act k v = Inr () \<and> length (dumps True v) \<le> 500
        else validate_detail_value act k v = Inr () \<and> \<not> is_array v)"

lemma length_escape_char: "length (escape_char b c) \<le> 6"
  by (simp add: escape_char_def Let_def)

lemma length_quote: "length (quote b s) \<le> 6 * length s + 2"
  using sum_list_bound [of s "\<lambda>c. length (escape_char b c)" 6]
  by (simp add: quote_def length_concat comp_def length_escape_char)

lemma field_names_short: "list_all (\<lambda>k. length k \<le> 30) audit_fields"
  by code_simp

lemma event_okI:
  assumes act: "map_of AUDIT_ACTION_FIELDS act = Some allowed"
    and keys: "set (obj_keys kvs) \<subseteq> set allowed" and few: "length kvs \<le> 5"
    and boot: "act = ''system.initial_admin_bootstrapped'' \<Longrightarrow> set (obj_keys kvs) = set allowed"
    and ok: "list_all (detail_ok act) kvs"
  shows "event_ok act kvs"
proof -
  let ?item = "\<lambda>(k, v). length (quote True k) + 2 + length (dumps True v)"
  have item: "?item kv \<le> 700" if "kv \<in> set kvs" for kv
  proof -
    obtain k v where kv: "kv = (k, v)" by fastforce
    then have "k \<in> set allowed" using that keys by (force simp: obj_keys_def)
    then have k: "k \<in> set audit_fields" "has_rule act k" using audit_fields_member [OF act] by auto
    then have "length k \<le> 30" using field_names_short by (simp add: list_all_iff)
    then have "length (quote True k) \<le> 182" using length_quote [of True k] by simp
    moreover have "length (dumps True v) \<le> 500"
    proof (cases "k \<in> set AUDIT_NAME_LIST_FIELDS")
      case True
      with ok that kv show ?thesis by (auto simp: list_all_iff detail_ok_def)
    next
      case False
      with ok that kv have v: "validate_detail_value act k v = Inr ()" "\<not> is_array v"
        by (auto simp: list_all_iff detail_ok_def)
      from detail_value_metadata [OF v(1) k(2,1) False] v(2) show ?thesis
        using metadata_value_short [of v True] by simp
    qed
    ultimately show ?thesis by (simp add: kv)
  qed
  have "length (dumps True (JObj kvs)) \<le> 2 + sum_list (map ?item kvs)" by (rule length_dumps_obj)
  also have "\<dots> \<le> 2 + 700 * length kvs" using sum_list_bound [of kvs ?item 700] item by simp
  finally have size: "length (dumps True (JObj kvs)) \<le> 4096" using few by simp
  have "for_each (\<lambda>(k, v). if k \<in> set AUDIT_NAME_LIST_FIELDS
          then validate_name_list act k v else Inr ()) kvs = Inr ()"
    and "for_each (\<lambda>(k, v). if k \<in> set AUDIT_NAME_LIST_FIELDS
          then Inr () else validate_detail_value act k v) kvs = Inr ()"
    using ok by (auto simp: for_each_Inr list_all_iff detail_ok_def split: if_splits)
  then show ?thesis
    using act keys boot size
    by (simp add: event_ok_def validate_details_def del: dumps.simps)
qed

section \<open>Detail values\<close>

definition takes_uuid :: "string \<Rightarrow> string \<Rightarrow> bool" where
  "takes_uuid act k \<longleftrightarrow> map_of AUDIT_CODE_VALUES (act, k) = None \<and> k \<noteq> ''purpose''
     \<and> k \<in> set AUDIT_UUID_FIELDS \<and> k \<notin> set AUDIT_NAME_LIST_FIELDS"

definition takes_number :: "string \<Rightarrow> string \<Rightarrow> bool" where
  "takes_number act k \<longleftrightarrow> map_of AUDIT_CODE_VALUES (act, k) = None \<and> k \<noteq> ''purpose''
     \<and> k \<notin> set AUDIT_UUID_FIELDS \<and> k \<notin> set AUDIT_SHA256_FIELDS \<and> k \<in> set AUDIT_INTEGER_FIELDS
     \<and> k \<notin> set AUDIT_NAME_LIST_FIELDS"

lemma digit_char_lower: "d < 16 \<Longrightarrow> lower_char (digit_char d) = digit_char d"
  using digit_char_cases [of d]
  by (auto simp: lower_char_def is_upper_ascii_def is_digit_def is_lower_ascii_def in_range_def)

lemma lower_char_id: "is_digit c \<or> is_lower_ascii c \<or> c = CHR ''-'' \<Longrightarrow> lower_char c = c"
  by (auto simp: lower_char_def is_upper_ascii_def is_digit_def is_lower_ascii_def in_range_def)

lemma lower_uuid_str [simp]: "lower (uuid_str u) = uuid_str u"
  unfolding lower_def by (rule map_idI) (auto dest!: uuid_str_chars intro: lower_char_id)

lemma detail_ok_uuid: "takes_uuid act k \<Longrightarrow> detail_ok act (k, JStr (uuid_str u))"
  by (simp add: takes_uuid_def detail_ok_def validate_detail_value_def del: AUDIT_suffix_fields)

lemma detail_ok_number:
  "takes_number act k \<Longrightarrow> 0 \<le> i \<Longrightarrow> i \<le> MAX_AUDIT_NUMBER \<Longrightarrow> detail_ok act (k, JInt i)"
  by (simp add: takes_number_def detail_ok_def validate_detail_value_def del: AUDIT_suffix_fields)

text \<open>An action whose only detail is an identifier or a number.\<close>

definition uuid_action :: "string \<Rightarrow> string \<Rightarrow> bool" where
  "uuid_action act k \<longleftrightarrow> map_of AUDIT_ACTION_FIELDS act = Some [k] \<and> takes_uuid act k
     \<and> act \<noteq> ''system.initial_admin_bootstrapped''"

lemma event_ok_uuid: "uuid_action act k \<Longrightarrow> event_ok act [(k, JStr (uuid_str u))]"
  by (rule event_okI) (auto simp: uuid_action_def detail_ok_uuid)

lemma uuid_actions [event_simps]:
  "event_ok ''admin.staff_created'' [(''target_staff_id'', JStr (uuid_str u))]"
  "event_ok ''admin.account_deactivated'' [(''target_account_id'', JStr (uuid_str u))]"
  "event_ok ''admin.account_reactivated'' [(''target_account_id'', JStr (uuid_str u))]"
  "event_ok ''admin.account_unlocked'' [(''target_account_id'', JStr (uuid_str u))]"
  "event_ok ''auth.pin_reset'' [(''target_account_id'', JStr (uuid_str u))]"
  "event_ok ''admin.review_lab_handoff_issued'' [(''handoff_id'', JStr (uuid_str u))]"
  by (rule event_ok_uuid, code_simp)+

definition number_action :: "string \<Rightarrow> string \<Rightarrow> bool" where
  "number_action act k \<longleftrightarrow> map_of AUDIT_ACTION_FIELDS act = Some [k] \<and> takes_number act k
     \<and> act \<noteq> ''system.initial_admin_bootstrapped''"

lemma event_ok_number:
  "number_action act k \<Longrightarrow> 0 \<le> i \<Longrightarrow> i \<le> MAX_AUDIT_NUMBER \<Longrightarrow> event_ok act [(k, JInt i)]"
  by (rule event_okI) (auto simp: number_action_def detail_ok_number)

lemma number_actions [event_simps]:
  "0 \<le> i \<Longrightarrow> i \<le> MAX_AUDIT_NUMBER \<Longrightarrow> event_ok ''auth.locked'' [(''lock_minutes'', JInt i)]"
  "0 \<le> i \<Longrightarrow> i \<le> MAX_AUDIT_NUMBER \<Longrightarrow> event_ok ''auth.logout_all'' [(''session_count'', JInt i)]"
  by (rule event_ok_number, code_simp, assumption, assumption)+

text \<open>Events whose details are codes or flags.\<close>

definition code_action :: "string \<Rightarrow> (string \<times> json) list \<Rightarrow> bool" where
  "code_action act kvs \<longleftrightarrow>
     (case map_of AUDIT_ACTION_FIELDS act of None \<Rightarrow> False
      | Some allowed \<Rightarrow> list_all (\<lambda>k. k \<in> set allowed) (obj_keys kvs))
     \<and> length kvs \<le> 5 \<and> act \<noteq> ''system.initial_admin_bootstrapped'' \<and> list_all (detail_ok act) kvs"

lemma event_ok_code: "code_action act kvs \<Longrightarrow> event_ok act kvs"
  by (auto simp: code_action_def list_all_iff split: option.splits intro!: event_okI)

lemma login_failed_reasons [event_simps]:
  "event_ok ''auth.login_failed'' [(''reason'', JStr ''invalid_credentials'')]"
  "event_ok ''auth.login_failed'' [(''reason'', JStr ''account_locked_or_deactivated'')]"
  "event_ok ''auth.login_failed'' [(''reason'', JStr ''staff_inactive'')]"
  "event_ok ''auth.login_failed'' [(''reason'', JStr ''temporary_pin_expired'')]"
  "event_ok ''auth.login_failed'' [(''reason'', JStr ''invalid_pin'')]"
  by (rule event_ok_code, code_simp)+

lemma session_events [event_simps]:
  "event_ok ''auth.session_revoked'' [(''reason'', JStr ''renewal_reuse'')]"
  "event_ok ''auth.session_revoked'' [(''reason'', JStr ''user_revoked'')]"
  "event_ok ''auth.session_revoked'' [(''reason'', JStr ''admin_action'')]"
  "event_ok ''auth.pin_changed'' []"
  by (rule event_ok_code, code_simp)+

lemma persistent_events [event_simps]:
  "event_ok ''auth.login_succeeded'' [(''persistent'', JBool b)]"
  "event_ok ''auth.session_renewed'' [(''persistent'', JBool b)]"
proof -
  have "code_action ''auth.login_succeeded'' [(''persistent'', JBool True)]"
    "code_action ''auth.login_succeeded'' [(''persistent'', JBool False)]"
    "code_action ''auth.session_renewed'' [(''persistent'', JBool True)]"
    "code_action ''auth.session_renewed'' [(''persistent'', JBool False)]"
    by code_simp+
  then show "event_ok ''auth.login_succeeded'' [(''persistent'', JBool b)]"
    "event_ok ''auth.session_renewed'' [(''persistent'', JBool b)]"
    by (cases b; simp add: event_ok_code)+
qed

text \<open>Details that combine an identifier with codes.\<close>

lemma role_details:
  "detail_ok ''admin.account_created'' (''role'', JStr ''user'')"
  "detail_ok ''admin.account_created'' (''role'', JStr ''admin'')"
  "detail_ok ''admin.account_role_changed'' (''old_role'', JStr ''user'')"
  "detail_ok ''admin.account_role_changed'' (''old_role'', JStr ''admin'')"
  "detail_ok ''admin.account_role_changed'' (''new_role'', JStr ''user'')"
  "detail_ok ''admin.account_role_changed'' (''new_role'', JStr ''admin'')"
  by code_simp+

lemma uuid_details:
  "takes_uuid ''admin.account_created'' ''target_account_id''"
  "takes_uuid ''admin.account_role_changed'' ''target_account_id''"
  "takes_uuid ''admin.staff_updated'' ''target_staff_id''"
  "takes_uuid ''system.initial_admin_bootstrapped'' ''operation_id''"
  "takes_uuid ''admin.review_lab_handoff_redeemed'' ''handoff_id''"
  "takes_uuid ''admin.review_lab_handoff_redeemed'' ''browser_session_id''"
  by code_simp+

lemma action_fields:
  "map_of AUDIT_ACTION_FIELDS ''admin.account_created'' = Some [''target_account_id'', ''role'']"
  "map_of AUDIT_ACTION_FIELDS ''admin.account_role_changed''
     = Some [''target_account_id'', ''old_role'', ''new_role'']"
  "map_of AUDIT_ACTION_FIELDS ''admin.staff_updated'' = Some [''target_staff_id'', ''changed_fields'']"
  "map_of AUDIT_ACTION_FIELDS ''system.initial_admin_bootstrapped''
     = Some [''operation_id'', ''approval_reference_sha256'']"
  "map_of AUDIT_ACTION_FIELDS ''admin.review_lab_handoff_redeemed''
     = Some [''handoff_id'', ''browser_session_id'']"
  by code_simp+

lemma account_created_event [event_simps]:
  "r \<in> {''user'', ''admin''} \<Longrightarrow>
   event_ok ''admin.account_created'' [(''target_account_id'', JStr (uuid_str u)), (''role'', JStr r)]"
  by (rule event_okI [OF action_fields(1)])
    (auto intro: detail_ok_uuid uuid_details role_details)

lemma role_changed_event [event_simps]:
  "r \<in> {''user'', ''admin''} \<Longrightarrow> q \<in> {''user'', ''admin''} \<Longrightarrow>
   event_ok ''admin.account_role_changed'' [(''target_account_id'', JStr (uuid_str u)),
     (''old_role'', JStr r), (''new_role'', JStr q)]"
  by (rule event_okI [OF action_fields(2)])
    (auto intro: detail_ok_uuid uuid_details role_details)

lemma handoff_redeemed_event [event_simps]:
  "event_ok ''admin.review_lab_handoff_redeemed'' [(''handoff_id'', JStr (uuid_str u)),
     (''browser_session_id'', JStr (uuid_str v))]"
  by (rule event_okI [OF action_fields(5)]) (auto intro: detail_ok_uuid uuid_details)

lemma bootstrap_event [event_simps]:
  assumes "length h = 64" "list_all is_hex_lower h"
  shows "event_ok ''system.initial_admin_bootstrapped''
    [(''operation_id'', JStr (uuid_str u)), (''approval_reference_sha256'', JStr h)]"
proof (rule event_okI [OF action_fields(4)])
  have key: "map_of AUDIT_CODE_VALUES (''system.initial_admin_bootstrapped'', ''approval_reference_sha256'') = None"
    "''approval_reference_sha256'' \<notin> set AUDIT_UUID_FIELDS"
    "''approval_reference_sha256'' \<in> set AUDIT_SHA256_FIELDS"
    "''approval_reference_sha256'' \<notin> set AUDIT_NAME_LIST_FIELDS"
    by code_simp+
  then have "detail_ok ''system.initial_admin_bootstrapped'' (''approval_reference_sha256'', JStr h)"
    using assms by (simp add: detail_ok_def validate_detail_value_def AUDIT_SHA256_PATTERN_def
        del: AUDIT_suffix_fields)
  then show "list_all (detail_ok ''system.initial_admin_bootstrapped'')
    [(''operation_id'', JStr (uuid_str u)), (''approval_reference_sha256'', JStr h)]"
    by (simp add: detail_ok_uuid uuid_details)
qed auto

text \<open>The names of changed staff columns: at most six different ones.\<close>

definition staff_columns :: "string list" where
  "staff_columns = [''employee_number'', ''rank'', ''first_name'', ''last_name'', ''shift'', ''is_active'']"

lemma staff_columns_names: "list_all (\<lambda>s. is_audit_name (JStr s) \<and> length s \<le> 20) staff_columns"
  "map_of AUDIT_CHANGED_FIELDS ''admin.staff_updated'' = Some staff_columns"
  "''changed_fields'' \<in> set AUDIT_NAME_LIST_FIELDS"
  by code_simp+

lemma changed_fields_detail:
  assumes d: "distinct ks" and sub: "set ks \<subseteq> set cols"
    and cols: "length cols \<le> 15" "list_all (\<lambda>s. is_audit_name (JStr s) \<and> length s \<le> 20) cols"
      "map_of AUDIT_CHANGED_FIELDS act = Some cols"
  shows "detail_ok act (''changed_fields'', JArr (map JStr ks))"
proof -
  have few: "length ks \<le> 15"
    using card_mono [OF _ sub] d card_length [of cols] cols(1) by (simp add: distinct_card)
  have names: "\<And>k. k \<in> set ks \<Longrightarrow> is_audit_name (JStr k) \<and> length k \<le> 20"
    using cols(2) sub by (auto simp: list_all_iff simp del: is_audit_name.simps)
  then have "validate_name_list act ''changed_fields'' (JArr (map JStr ks)) = Inr ()"
    using few sub d by (auto simp: validate_name_list_def list_all_iff MAX_AUDIT_NAME_LIST_def
        comp_def Let_def cols(3) simp del: is_audit_name.simps)
  moreover have "length (dumps True (JArr (map JStr ks))) \<le> 500"
  proof -
    have "length (join '','' (map (quote True) ks)) \<le> sum_list (map (\<lambda>k. length (quote True k) + 1) ks)"
      using length_join [of "map (quote True) ks"] sum_list_addf [of "\<lambda>k. length (quote True k)" "\<lambda>_. 1::nat" ks]
      by (simp add: join_len_def sum_list_triv comp_def)
    also have "\<dots> \<le> 30 * length ks"
    proof (rule sum_list_bound)
      fix k assume "k \<in> set ks"
      then have "is_audit_name (JStr k)" "length k \<le> 20" using names by blast+
      then have "\<And>c. c \<in> set k \<Longrightarrow> is_metadata_char c"
        using name_pattern_metadata [of k] by (auto simp: metadata_text_def list_all_iff)
      then have "length (quote True k) = length k + 2"
        by (intro length_quote_plain metadata_char_plain)
      then show "length (quote True k) + 1 \<le> 30" using \<open>length k \<le> 20\<close> by simp
    qed
    also have "\<dots> \<le> 450" using few by simp
    finally show ?thesis by (simp add: comp_def)
  qed
  ultimately show ?thesis
    by (simp add: detail_ok_def staff_columns_names(3))
qed

lemma staff_updated_event [event_simps]:
  assumes "distinct ks" "set ks \<subseteq> set staff_columns"
  shows "event_ok ''admin.staff_updated'' [(''target_staff_id'', JStr (uuid_str u)),
    (''changed_fields'', JArr (map JStr ks))]"
proof (rule event_okI [OF action_fields(3)])
  have "length staff_columns \<le> 15" by (simp add: staff_columns_def)
  with assms have "detail_ok ''admin.staff_updated'' (''changed_fields'', JArr (map JStr ks))"
    using staff_columns_names by (intro changed_fields_detail [of ks staff_columns])
  then show "list_all (detail_ok ''admin.staff_updated'') [(''target_staff_id'', JStr (uuid_str u)),
    (''changed_fields'', JArr (map JStr ks))]"
    by (simp add: detail_ok_uuid uuid_details)
qed auto

section \<open>Events of the reports\<close>

lemma report_columns_names:
  "list_all (\<lambda>s. is_audit_name (JStr s) \<and> length s \<le> 20) [''narrative'', ''editable_fields'', ''validation'', ''warnings'']"
  "map_of AUDIT_CHANGED_FIELDS ''report.saved'' = Some [''narrative'', ''editable_fields'', ''validation'', ''warnings'']"
  by code_simp+

lemma report_details:
  "takes_uuid ''report.saved'' ''report_id''" "takes_number ''report.saved'' ''revision_number''"
  "takes_uuid ''report.restored'' ''report_id''" "takes_number ''report.restored'' ''revision_number''"
  "takes_number ''report.restored'' ''source_revision_number''"
  by code_simp+

lemma report_reasons:
  "detail_ok ''report.saved'' (''reason'', JStr ''autosave'')"
  "detail_ok ''report.saved'' (''reason'', JStr ''manual_save'')"
  "detail_ok ''report.saved'' (''reason'', JStr ''ai_result'')"
  "detail_ok ''report.saved'' (''reason'', JStr ''admin_edit'')"
  by code_simp+

lemma report_action_fields:
  "map_of AUDIT_ACTION_FIELDS ''report.saved'' = Some [''report_id'', ''revision_number'', ''changed_fields'', ''reason'']"
  "map_of AUDIT_ACTION_FIELDS ''report.restored'' = Some [''report_id'', ''revision_number'', ''source_revision_number'']"
  by code_simp+

lemma report_saved_event [event_simps]:
  assumes "distinct ks" "set ks \<subseteq> {''narrative'', ''editable_fields'', ''validation'', ''warnings''}"
    and n: "0 \<le> n" "n \<le> MAX_AUDIT_NUMBER"
    and r: "r \<in> {''autosave'', ''manual_save'', ''ai_result'', ''admin_edit''}"
  shows "event_ok ''report.saved'' [(''report_id'', JStr (uuid_str u)), (''revision_number'', JInt n),
    (''changed_fields'', JArr (map JStr ks)), (''reason'', JStr r)]"
proof (rule event_okI [OF report_action_fields(1)])
  have "detail_ok ''report.saved'' (''changed_fields'', JArr (map JStr ks))"
    by (rule changed_fields_detail [OF assms(1) _ _ report_columns_names]) (use assms(2) in simp_all)
  moreover have "detail_ok ''report.saved'' (''reason'', JStr r)" using r report_reasons by auto
  ultimately show "list_all (detail_ok ''report.saved'') [(''report_id'', JStr (uuid_str u)), (''revision_number'', JInt n),
    (''changed_fields'', JArr (map JStr ks)), (''reason'', JStr r)]"
    using n by (simp add: detail_ok_uuid detail_ok_number report_details)
qed auto

lemma report_restored_event [event_simps]:
  "0 \<le> n \<Longrightarrow> n \<le> MAX_AUDIT_NUMBER \<Longrightarrow> 0 \<le> m \<Longrightarrow> m \<le> MAX_AUDIT_NUMBER \<Longrightarrow>
   event_ok ''report.restored'' [(''report_id'', JStr (uuid_str u)), (''revision_number'', JInt n),
    (''source_revision_number'', JInt m)]"
  by (rule event_okI [OF report_action_fields(2)]) (auto intro: detail_ok_uuid detail_ok_number report_details)

end
