(* ===== verification/LoginRules.thy ===== *)
theory LoginRules
  imports Accounts AuditEvents
begin

text \<open>
  The login decision and the lockout. \<open>verify_login_pin_cases\<close> splits a run of
  \<open>verify_login_pin\<close> into its four outcomes; the step relation \<open>guessing\<close> describes an attacker
  who tries wrong PINs, and bounds the number of PINs that are ever compared.
\<close>

section \<open>Rows of accounts\<close>

lemma set_account_simps [simp]:
  "staff_members (set_account i f db) = staff_members db"
  "accounts (set_account i f db) = update_rows (\<lambda>a. ac_id a = i) f (accounts db)"
  "sessions (set_account i f db) = sessions db"
  "renewal_history (set_account i f db) = renewal_history db"
  "admin_elevations (set_account i f db) = admin_elevations db"
  "step_up_tokens (set_account i f db) = step_up_tokens db"
  "session_bindings (set_account i f db) = session_bindings db"
  "browser_handoffs (set_account i f db) = browser_handoffs db"
  "browser_sessions (set_account i f db) = browser_sessions db"
  "rate_limits (set_account i f db) = rate_limits db"
  "audit_events (set_account i f db) = audit_events db"
  "idempotency_records (set_account i f db) = idempotency_records db"
  by (simp_all add: set_account_def)

lemma put_account_twice [simp]: "ac_id a = ac_id b \<Longrightarrow> put_account b (put_account a db) = put_account b db"
  by (simp add: set_account_def update_rows_def comp_def cong: if_cong)

lemma set_account_twice [simp]:
  "ac_id a = i \<Longrightarrow> set_account i (\<lambda>_. b) (set_account i (\<lambda>_. a) db) = set_account i (\<lambda>_. b) db"
  by (simp add: set_account_def update_rows_def comp_def cong: if_cong)

lemma find_put_account:
  "find_account i (put_account a db) =
     (if ac_id a = i then map_option (\<lambda>_. a) (find_account i db) else find_account i db)"
  by (cases "find_account i db")
    (auto simp: find_update_rows dest!: find_row_SomeD)

lemma thaw_simps [simp]:
  "ac_id (thaw now a) = ac_id a" "ac_staff_member_id (thaw now a) = ac_staff_member_id a"
  "ac_role (thaw now a) = ac_role a" "ac_pin_hash (thaw now a) = ac_pin_hash a"
  "ac_lock_cycle (thaw now a) = ac_lock_cycle a" "ac_auth_version (thaw now a) = ac_auth_version a"
  "ac_must_change_pin (thaw now a) = ac_must_change_pin a"
  "ac_temporary_pin_expires_at (thaw now a) = ac_temporary_pin_expires_at a"
  by (simp_all add: thaw_def)

lemma reset_failed_attempts_simps [simp]:
  "ac_id (reset_failed_attempts a) = ac_id a"
  "ac_staff_member_id (reset_failed_attempts a) = ac_staff_member_id a"
  "ac_role (reset_failed_attempts a) = ac_role a"
  "ac_pin_hash (reset_failed_attempts a) = ac_pin_hash a"
  "ac_auth_version (reset_failed_attempts a) = ac_auth_version a"
  "ac_status (reset_failed_attempts a) = (if ac_status a = Locked then Active else ac_status a)"
  by (simp_all add: reset_failed_attempts_def)

lemma record_failed_attempt_simps [simp]:
  "ac_id (snd (record_failed_attempt a now)) = ac_id a"
  "ac_staff_member_id (snd (record_failed_attempt a now)) = ac_staff_member_id a"
  "ac_pin_hash (snd (record_failed_attempt a now)) = ac_pin_hash a"
  "ac_role (snd (record_failed_attempt a now)) = ac_role a"
  "ac_auth_version (snd (record_failed_attempt a now)) = ac_auth_version a"
  by (simp_all add: record_failed_attempt_def Let_def)

lemma login_account_Some:
  "login_account number db = Some (a, staff) \<Longrightarrow>
   a \<in> set (accounts db) \<and> staff \<in> set (staff_members db) \<and> st_employee_number staff = number
   \<and> ac_staff_member_id a = st_id staff"
  by (auto simp: login_account_def dest!: find_row_SomeD split: option.splits)

section \<open>Bounds of a lock\<close>

lemma lock_minutes_bounds: "15 \<le> lock_minutes c" "lock_minutes c \<le> 24 * 60"
proof -
  have "(1::int) \<le> 2 ^ (c - 1)" by simp
  then show "15 \<le> lock_minutes c" "lock_minutes c \<le> 24 * 60" by (simp_all add: lock_minutes_def)
qed

lemma lock_minutes_mono: "c \<le> d \<Longrightarrow> lock_minutes c \<le> lock_minutes d"
proof -
  assume "c \<le> d"
  then have "(2::int) ^ (c - 1) \<le> 2 ^ (d - 1)" by (intro power_increasing) auto
  then show ?thesis unfolding lock_minutes_def by linarith
qed

text \<open>
  A lock lasts at least fifteen minutes and at most a day, never gets shorter from one
  cycle to the next, and doubles until the cap is reached.
\<close>

theorem lock_minutes_schedule:
  "15 \<le> lock_minutes c \<and> lock_minutes c \<le> 1440 \<and> lock_minutes c \<le> lock_minutes (Suc c)
   \<and> lock_minutes (Suc (Suc c)) = min (2 * lock_minutes (Suc c)) 1440
   \<and> (8 \<le> c) = (lock_minutes c = 1440)"
proof -
  have small: "15 * 2 ^ (c - 1) < (1440::int)" if "c < 8"
  proof -
    have "(2::int) ^ (c - 1) \<le> 2 ^ 6" using that by (intro power_increasing) auto
    then show ?thesis by simp
  qed
  have large: "(1440::int) \<le> 15 * 2 ^ (c - 1)" if "8 \<le> c"
  proof -
    have "(2::int) ^ 7 \<le> 2 ^ (c - 1)" using that by (intro power_increasing) auto
    then show ?thesis by simp
  qed
  have "(8 \<le> c) = (lock_minutes c = 1440)"
    using small large by (cases "8 \<le> c") (auto simp: lock_minutes_def)
  moreover have "lock_minutes (Suc (Suc c)) = min (2 * lock_minutes (Suc c)) 1440"
    by (simp add: lock_minutes_def)
  ultimately show ?thesis
    using lock_minutes_bounds [of c] lock_minutes_mono [of c "Suc c"] by simp
qed

section \<open>The four outcomes\<close>

text \<open>
  \<open>judged\<close> states, independently of the code, when a login gets as far as the PIN: the account
  is active, or its lock has an end that has come; the staff member is active; and a PIN that
  must be changed has not passed its end.
\<close>

definition judged :: "account \<Rightarrow> staff_member \<Rightarrow> time \<Rightarrow> bool" where
  "judged stored staff now \<longleftrightarrow>
     (ac_status stored = Active
       \<or> ac_status stored = Locked \<and> (\<exists>u. ac_locked_until stored = Some u \<and> u \<le> now))
     \<and> st_is_active staff
     \<and> \<not> (ac_must_change_pin stored
          \<and> (\<exists>u. ac_temporary_pin_expires_at stored = Some u \<and> u \<le> now))"

lemma judged_thaw:
  "judged stored staff now \<longleftrightarrow>
     ac_status (thaw now stored) = Active \<and> st_is_active staff
     \<and> \<not> (ac_must_change_pin stored \<and> expired (ac_temporary_pin_expires_at stored) now)"
  by (auto simp: judged_def thaw_def expired_def split: option.splits)

lemma judged_code [code]:
  "judged stored staff now \<longleftrightarrow>
     (ac_status stored = Active
       \<or> ac_status stored = Locked \<and> pred_option (\<lambda>u. u \<le> now) (ac_locked_until stored)
           \<and> ac_locked_until stored \<noteq> None)
     \<and> st_is_active staff
     \<and> \<not> (ac_must_change_pin stored
          \<and> pred_option (\<lambda>u. u \<le> now) (ac_temporary_pin_expires_at stored)
          \<and> ac_temporary_pin_expires_at stored \<noteq> None)"
  by (auto simp: judged_def pred_option_def)

definition normal_number :: "string \<Rightarrow> string" where
  "normal_number s = (case normalize_employee_number s of Inl _ \<Rightarrow> [] | Inr n \<Rightarrow> n)"

lemma audit_failure_None:
  "event_ok ''auth.login_failed'' [(''reason'', JStr reason)] \<Longrightarrow>
   \<exists>ev. audit_failure None req reason db = (Inr (), log_event ev db) \<and> metadata_details (details ev)"
  using append_event [of "''auth.login_failed''" "[(''reason'', JStr reason)]" None None]
    append_audit_Inr
  by (fastforce simp: audit_failure_def)

lemma append_event_exists:
  assumes "event_ok act kvs" "act \<noteq> ''system.initial_admin_bootstrapped''"
  shows "\<exists>ev. append_audit (AuditEventInput (Some a) (Some s) act r q tt tid kvs) db
      = (Inr (), log_event ev db) \<and> metadata_details (details ev)"
  using append_event [OF assms(1), of "Some a" "Some s"] assms(2) append_audit_Inr
  by fastforce

lemma audit_failure_Some:
  assumes "event_ok ''auth.login_failed'' [(''reason'', JStr reason)]"
    "find_staff (ac_staff_member_id a) db = Some staff"
  shows "\<exists>ev. audit_failure (Some a) req reason db = (Inr (), log_event ev db)
      \<and> metadata_details (details ev)"
  using append_event_exists [OF assms(1)] assms(2) by (simp add: audit_failure_def)

lemma audit_admin_ok:
  "event_ok act kvs \<Longrightarrow> act \<noteq> ''system.initial_admin_bootstrapped'' \<Longrightarrow>
   \<exists>ev. audit_admin who act tt tid kvs req db = (Inr (), log_event ev db)
      \<and> metadata_details (details ev)"
  unfolding audit_admin_def by (rule append_event_exists)

text \<open>The account of a login with the row of its staff member.\<close>

lemma login_staff_exists:
  assumes "login_account number db = Some (a, staff)" "ac_staff_member_id b = ac_staff_member_id a"
  shows "\<exists>s. find_staff (ac_staff_member_id b) (put_account c db) = Some s"
  using login_account_Some [OF assms(1)] assms(2)
  by (cases "find_staff (ac_staff_member_id b) db") (auto simp: find_row_None_iff)

lemma log_grows_event: "metadata_details (details ev) \<Longrightarrow> log_grows db (log_event ev db)"
  by (simp add: log_grows_def)

text \<open>A failed login touches one account row and the log.\<close>

definition refused :: "account list \<Rightarrow> db \<Rightarrow> db \<Rightarrow> bool" where
  "refused accs db db' \<longleftrightarrow>
     (\<exists>evs. db' = db\<lparr>accounts := accs, audit_events := audit_events db @ evs\<rparr>
        \<and> evs \<noteq> [] \<and> (\<forall>ev \<in> set evs. metadata_details (details ev)))"

lemma refusedI1:
  "metadata_details (details ev) \<Longrightarrow> refused (accounts (set_account i f db)) db (log_event ev (set_account i f db))"
  unfolding refused_def
  by (rule exI [of _ "[ev]"]) (simp add: log_event_def set_account_def)

lemma refusedI2:
  "metadata_details (details ev1) \<Longrightarrow> metadata_details (details ev2) \<Longrightarrow>
   refused (accounts (set_account i f db)) db (log_event ev2 (log_event ev1 (set_account i f db)))"
  unfolding refused_def
  by (rule exI [of _ "[ev1, ev2]"]) (simp add: log_event_def set_account_def)

lemma refuse_login_ok:
  assumes "event_ok ''auth.login_failed'' [(''reason'', JStr reason)]"
    "login_account number db = Some (a, staff)" "ac_staff_member_id b = ac_staff_member_id a"
  shows "\<exists>db'. refuse_login (Some b) req reason (put_account c db) = (Inl InvalidCredentials, db')
    \<and> refused (accounts (put_account c db)) db db'"
proof -
  obtain s where "find_staff (ac_staff_member_id b) (put_account c db) = Some s"
    using login_staff_exists [OF assms(2,3)] by blast
  from audit_failure_Some [OF assms(1) this, of req] obtain ev
    where "audit_failure (Some b) req reason (put_account c db)
      = (Inr (), log_event ev (put_account c db))" "metadata_details (details ev)"
    by blast
  then show ?thesis using refusedI1 [of ev "ac_id c" "\<lambda>_. c" db] by (simp add: refuse_login_def)
qed

lemma wrong_pin_ok:
  assumes "login_account number db = Some (stored, staff)"
    "ac_staff_member_id a = ac_staff_member_id stored" "ac_id a = ac_id c"
  shows "\<exists>db'. wrong_pin a req now (put_account c db) = (Inl InvalidCredentials, db')
    \<and> refused (accounts (put_account (snd (record_failed_attempt a now)) db)) db db'"
proof -
  obtain locked a' where rec: "record_failed_attempt a now = (locked, a')" by fastforce
  then have a': "ac_id a' = ac_id c" "ac_staff_member_id a' = ac_staff_member_id stored"
    using record_failed_attempt_simps(1,2) [of a now] assms by simp_all
  have put: "put_account a' (put_account c db) = put_account a' db" using a' by simp
  obtain s where "find_staff (ac_staff_member_id a') (put_account a' db) = Some s"
    using login_staff_exists [OF assms(1) a'(2)] by blast
  from audit_failure_Some [OF login_failed_reasons(5) this, of req] obtain ev
    where ev: "audit_failure (Some a') req ''invalid_pin'' (put_account a' db)
      = (Inr (), log_event ev (put_account a' db))" "metadata_details (details ev)"
    by blast
  show ?thesis
  proof (cases locked)
    case None
    then show ?thesis using ev refusedI1 [of ev "ac_id a'" "\<lambda>_. a'" db]
      by (simp add: wrong_pin_def rec put)
  next
    case (Some m)
    then have "m = lock_minutes (ac_lock_cycle a')"
      using rec by (auto simp: record_failed_attempt_def Let_def split: if_splits)
    then have "0 \<le> m" "m \<le> MAX_AUDIT_NUMBER"
      using lock_minutes_bounds [of "ac_lock_cycle a'"] by (simp_all add: MAX_AUDIT_NUMBER_def)
    then have "event_ok ''auth.locked'' [(''lock_minutes'', JInt m)]" by (rule event_simps)
    from append_event_exists [OF this, of "ac_id a'" "ac_staff_member_id a'" Failed req "''account''"
        "Some (ac_id a')"] obtain ev2
      where "append_audit (AuditEventInput (Some (ac_id a')) (Some (ac_staff_member_id a'))
          ''auth.locked'' Failed req ''account'' (Some (ac_id a')) [(''lock_minutes'', JInt m)])
          (log_event ev (put_account a' db)) = (Inr (), log_event ev2 (log_event ev (put_account a' db)))"
        "metadata_details (details ev2)"
      by (auto simp del: log_event_simps)
    then show ?thesis
      using ev Some refusedI2 [of ev ev2 "ac_id a'" "\<lambda>_. a'" db] by (simp add: wrong_pin_def rec put)
  qed
qed

lemma right_pin_ok:
  assumes "verify_pin C (ac_pin_hash a) pin" "ac_id a = ac_id c"
  shows "\<exists>h. right_pin C a pin now salt (put_account c db) =
      (let b = (reset_failed_attempts a)\<lparr>ac_last_login_at := Some now, ac_pin_hash := h\<rparr>
       in (Inr b, put_account b db))
    \<and> (h = ac_pin_hash a \<or> hash_pin C salt (upper pin) = Inr h)"
proof -
  from assms(1) obtain p where "normalize_pin pin = Inr p"
    by (auto simp: verify_pin_def split: sum.splits)
  then have "normalize_pin (upper pin) = Inr p"
    using normalize_pin_Inr normalize_pin_idem by metis
  then have h: "hash_pin C salt (upper pin) = Inr (argon_hash C salt p)" by (simp add: hash_pin_def)
  show ?thesis
  proof (cases "needs_rehash C (ac_pin_hash a)")
    case True
    then show ?thesis using h assms(2)
      by (intro exI [of _ "argon_hash C salt p"]) (simp add: right_pin_def Let_def)
  next
    case False
    have "(reset_failed_attempts a)\<lparr>ac_last_login_at := Some now, ac_pin_hash := ac_pin_hash a\<rparr>
        = (reset_failed_attempts a)\<lparr>ac_last_login_at := Some now\<rparr>"
      by (simp add: reset_failed_attempts_def)
    then show ?thesis using assms(2) False
      by (intro exI [of _ "ac_pin_hash a"])
        (simp only: right_pin_def Let_def, simp add: reset_failed_attempts_def)
  qed
qed

lemma verify_login_pin_cases:
  obtains
    (unknown) db' where "login_account (normal_number emp) db = None"
      "verify_login_pin C emp pin now req salt db = (Inl InvalidCredentials, db')"
      "refused (accounts db) db db'"
  | (barred) stored staff db' where "login_account (normal_number emp) db = Some (stored, staff)"
      "\<not> judged stored staff now"
      "verify_login_pin C emp pin now req salt db = (Inl InvalidCredentials, db')"
      "refused (accounts (put_account (thaw now stored) db)) db db'"
  | (wrong) stored staff db' where "login_account (normal_number emp) db = Some (stored, staff)"
      "judged stored staff now" "\<not> verify_pin C (ac_pin_hash stored) pin"
      "verify_login_pin C emp pin now req salt db = (Inl InvalidCredentials, db')"
      "refused (accounts (put_account (snd (record_failed_attempt (thaw now stored) now)) db)) db db'"
  | (right) stored staff a where "login_account (normal_number emp) db = Some (stored, staff)"
      "judged stored staff now" "verify_pin C (ac_pin_hash stored) pin"
      "verify_login_pin C emp pin now req salt db = (Inr a, put_account a db)"
      "\<exists>h. a = (reset_failed_attempts (thaw now stored))\<lparr>ac_last_login_at := Some now, ac_pin_hash := h\<rparr>
        \<and> (h = ac_pin_hash stored \<or> hash_pin C salt (upper pin) = Inr h)"
proof (cases "login_account (normal_number emp) db")
  case None
  then obtain ev where "refuse_login None req ''invalid_credentials'' db
      = (Inl InvalidCredentials, log_event ev db)" "metadata_details (details ev)"
    using audit_failure_None [OF login_failed_reasons(1), of req db] by (auto simp: refuse_login_def)
  then show thesis
    using None by (intro unknown) (auto simp: verify_login_pin_def Let_def normal_number_def refused_def log_event_def
      intro!: exI [of _ "[ev]"])
next
  case (Some p)
  obtain stored staff where p: "p = (stored, staff)" by fastforce
  note la = Some [unfolded p]
  let ?a = "thaw now stored"
  have run: "verify_login_pin C emp pin now req salt db =
     (if ac_status ?a \<noteq> Active
      then refuse_login (Some ?a) req ''account_locked_or_deactivated'' (put_account ?a db)
      else if \<not> st_is_active staff then refuse_login (Some ?a) req ''staff_inactive'' (put_account ?a db)
      else if ac_must_change_pin stored \<and> expired (ac_temporary_pin_expires_at stored) now
      then refuse_login (Some ?a) req ''temporary_pin_expired'' (put_account ?a db)
      else if \<not> verify_pin C (ac_pin_hash stored) pin then wrong_pin ?a req now (put_account ?a db)
      else right_pin C ?a pin now salt (put_account ?a db))"
    using la by (simp add: verify_login_pin_def normal_number_def Let_def)
  show thesis
  proof (cases "judged stored staff now")
    case False
    then obtain reason where "event_ok ''auth.login_failed'' [(''reason'', JStr reason)]"
      "verify_login_pin C emp pin now req salt db
         = refuse_login (Some ?a) req reason (put_account ?a db)"
      using run login_failed_reasons(2-4) by (auto simp: judged_thaw split: if_splits)
    with refuse_login_ok [OF _ la, of reason ?a req ?a] show thesis
      by (auto intro: barred [OF la False])
  next
    case True
    note judged = this
    show thesis
    proof (cases "verify_pin C (ac_pin_hash stored) pin")
      case False
      with True run have "verify_login_pin C emp pin now req salt db
          = wrong_pin ?a req now (put_account ?a db)" by (auto simp: judged_thaw)
      with wrong_pin_ok [OF la, of ?a ?a req now] show thesis
        by (auto intro: wrong [OF la judged False])
    next
      case True
      with judged run have "verify_login_pin C emp pin now req salt db
          = right_pin C ?a pin now salt (put_account ?a db)" by (auto simp: judged_thaw)
      with right_pin_ok [of C ?a pin ?a now salt db] True show thesis
        by (auto simp: Let_def intro!: right [OF la judged True])
    qed
  qed
qed

section \<open>What a login returns\<close>

lemma verify_login_pin_Inr:
  assumes "verify_login_pin C emp pin now req salt db = (Inr a, db')"
  obtains stored staff h where "login_account (normal_number emp) db = Some (stored, staff)"
    "judged stored staff now" "verify_pin C (ac_pin_hash stored) pin" "db' = put_account a db"
    "a = (reset_failed_attempts (thaw now stored))\<lparr>ac_last_login_at := Some now, ac_pin_hash := h\<rparr>"
    "h = ac_pin_hash stored \<or> hash_pin C salt (upper pin) = Inr h"
  by (rule verify_login_pin_cases [of emp db C pin now req salt]) (use assms in auto)

text \<open>
  C4. A login succeeds exactly when the number names an account that is active (or is locked
  until a time that has come), whose staff member is active, whose PIN, where it must be
  changed, has not passed its expiry, and whose hash verifies the PIN given. Success makes the
  account active, resets its counters and its lock and writes that account's row only; every
  refusal is the same exception, and leaves at least one event in the log.
\<close>

theorem login_decision:
  "(case verify_login_pin C emp pin now req salt db of
      (Inr a, db') \<Rightarrow>
        (\<exists>stored staff. login_account (normal_number emp) db = Some (stored, staff)
           \<and> judged stored staff now \<and> verify_pin C (ac_pin_hash stored) pin \<and> ac_id a = ac_id stored)
        \<and> ac_status a = Active \<and> ac_failed_attempts a = 0 \<and> ac_lock_cycle a = 0
        \<and> ac_locked_until a = None \<and> ac_last_login_at a = Some now \<and> db' = put_account a db
    | (Inl e, db') \<Rightarrow>
        e = InvalidCredentials \<and> length (audit_events db) < length (audit_events db')
        \<and> \<not> (\<exists>stored staff. login_account (normal_number emp) db = Some (stored, staff)
           \<and> judged stored staff now \<and> verify_pin C (ac_pin_hash stored) pin))"
proof (rule verify_login_pin_cases [of emp db C pin now req salt], goal_cases)
  case (4 stored staff a)
  then have "ac_status a = Active"
    by (auto simp: judged_thaw reset_failed_attempts_def)
  with 4 show ?case by (auto simp: reset_failed_attempts_def)
qed (auto simp: refused_def)

section \<open>Guessing\<close>

definition guess_counts :: "string \<Rightarrow> uuid \<Rightarrow> time \<Rightarrow> db \<Rightarrow> bool" where
  "guess_counts emp aid now db \<longleftrightarrow>
     (case login_account (normal_number emp) db of
        None \<Rightarrow> False | Some (a, staff) \<Rightarrow> ac_id a = aid \<and> judged a staff now)"

text \<open>
  \<open>guessing C aid t0 t n db\<close>: from an account without failures at \<open>t0\<close>, logins with PINs that
  are wrong for it, under any employee numbers, have led to \<open>db\<close> at time \<open>t\<close>, and \<open>n\<close> of them
  had their PIN judged (a right one would have been let in). Each login starts from the
  database the one before left, so the writes of a refused login count as committed.
\<close>

inductive guessing :: "crypto \<Rightarrow> uuid \<Rightarrow> time \<Rightarrow> time \<Rightarrow> nat \<Rightarrow> db \<Rightarrow> bool" for C aid t0 where
  start: "\<lbrakk>distinct (map ac_id (accounts db)); find_account aid db = Some a; ac_status a = Active;
      ac_failed_attempts a = 0; ac_lock_cycle a = 0\<rbrakk> \<Longrightarrow> guessing C aid t0 t0 0 db"
| guess: "\<lbrakk>guessing C aid t0 t n db; t \<le> now; find_account aid db = Some a;
      \<not> verify_pin C (ac_pin_hash a) pin; verify_login_pin C emp pin now req salt db = (r, db')\<rbrakk> \<Longrightarrow>
    guessing C aid t0 now (if guess_counts emp aid now db then Suc n else n) db'"

inductive_cases guessing_none: "guessing C aid t0 t 0 db"

definition lock_total :: "nat \<Rightarrow> time" where
  "lock_total c = (\<Sum>i = 1..c. minutes (min (15 * 2 ^ (i - 1)) (24 * 60)))"

lemma lock_total_simps [simp]:
  "lock_total 0 = 0" "lock_total (Suc c) = lock_total c + minutes (lock_minutes (Suc c))"
  by (simp_all add: lock_total_def lock_minutes_def)

lemma lock_total_mono: "c \<le> d \<Longrightarrow> lock_total c \<le> lock_total d"
proof (induction rule: dec_induct)
  case (step n)
  then show ?case
    using lock_minutes_bounds(1) [of "Suc n"] by (simp add: minutes_def seconds_def)
qed simp

definition lock_inv :: "time \<Rightarrow> time \<Rightarrow> nat \<Rightarrow> account \<Rightarrow> bool" where
  "lock_inv t0 t n a \<longleftrightarrow>
     (ac_status a = Active \<and> ac_failed_attempts a < 5 \<and> n = 5 * ac_lock_cycle a + ac_failed_attempts a
       \<and> t0 + lock_total (ac_lock_cycle a) \<le> t)
     \<or> (ac_status a = Locked \<and> n = 5 * ac_lock_cycle a \<and> 0 < ac_lock_cycle a
       \<and> t0 + lock_total (ac_lock_cycle a - 1) \<le> t
       \<and> (\<exists>u. ac_locked_until a = Some u \<and> t0 + lock_total (ac_lock_cycle a) \<le> u))"

lemma lock_inv_later: "lock_inv t0 t n a \<Longrightarrow> t \<le> now \<Longrightarrow> lock_inv t0 now n a"
  by (auto simp: lock_inv_def)

lemma lock_inv_thaw: "lock_inv t0 now n a \<Longrightarrow> lock_inv t0 now n (thaw now a)"
  by (auto simp: lock_inv_def thaw_def expired_def)

lemma lock_inv_wrong:
  assumes "lock_inv t0 now n a" "ac_status a = Active"
  shows "lock_inv t0 now (Suc n) (snd (record_failed_attempt a now))"
proof (cases "ac_failed_attempts a = 4")
  case True
  with assms show ?thesis by (auto simp: lock_inv_def record_failed_attempt_def Let_def)
next
  case False
  with assms show ?thesis by (auto simp: lock_inv_def record_failed_attempt_def Let_def)
qed

lemma distinct_account:
  "\<lbrakk>distinct (map ac_id (accounts db)); find_account i db = Some a; b \<in> set (accounts db); ac_id b = i\<rbrakk>
   \<Longrightarrow> b = a"
  using find_row_distinct [of ac_id "accounts db" b] by simp

lemma map_id_put_account: "map ac_id (accounts (put_account a db)) = map ac_id (accounts db)"
  by (simp add: map_update_rows)

lemma find_after_refusal:
  assumes "refused (accounts (put_account b db)) db db'" "ac_id b = ac_id stored"
  shows "map ac_id (accounts db') = map ac_id (accounts db)"
    "find_account aid db' = (if ac_id stored = aid then map_option (\<lambda>_. b) (find_account aid db)
       else find_account aid db)"
proof -
  from assms(1) have eq: "accounts db' = accounts (put_account b db)" by (auto simp: refused_def)
  show "map ac_id (accounts db') = map ac_id (accounts db)" unfolding eq by (rule map_id_put_account)
  show "find_account aid db' = (if ac_id stored = aid then map_option (\<lambda>_. b) (find_account aid db)
       else find_account aid db)"
    using find_put_account [of aid b db] assms(2) by (simp only: eq)
qed

lemma guessing_inv:
  "guessing C aid t0 t n db \<Longrightarrow>
   distinct (map ac_id (accounts db)) \<and> (\<exists>a. find_account aid db = Some a \<and> lock_inv t0 t n a)"
proof (induction rule: guessing.induct)
  case (start db a)
  then show ?case by (auto simp: lock_inv_def)
next
  case (guess t n db now a pin emp req salt r db')
  then have d: "distinct (map ac_id (accounts db))" and inv: "lock_inv t0 now n a"
    by (auto intro: lock_inv_later)
  have same: "stored = a"
    if "login_account (normal_number emp) db = Some (stored, staff)" "ac_id stored = aid" for stored staff
    using distinct_account [OF d guess.hyps(3)] login_account_Some [OF that(1)] that(2) by blast
  show ?case
  proof (rule verify_login_pin_cases [of emp db C pin now req salt])
    fix db1 assume "login_account (normal_number emp) db = None"
      "verify_login_pin C emp pin now req salt db = (Inl InvalidCredentials, db1)"
      "refused (accounts db) db db1"
    then show ?thesis using guess.hyps inv d by (auto simp: guess_counts_def refused_def)
  next
    fix stored staff db1 assume la: "login_account (normal_number emp) db = Some (stored, staff)"
      and "\<not> judged stored staff now"
        "verify_login_pin C emp pin now req salt db = (Inl InvalidCredentials, db1)"
      and ref: "refused (accounts (put_account (thaw now stored) db)) db db1"
    then have "\<not> guess_counts emp aid now db" "db' = db1"
      using guess.hyps by (auto simp: guess_counts_def)
    then show ?thesis
      using find_after_refusal [OF ref, of stored] same [OF la] d inv lock_inv_thaw [of t0 now n a]
        guess.hyps(3) by auto
  next
    fix stored staff db1 assume la: "login_account (normal_number emp) db = Some (stored, staff)"
      and j: "judged stored staff now"
      and "verify_login_pin C emp pin now req salt db = (Inl InvalidCredentials, db1)"
      and ref: "refused (accounts (put_account (snd (record_failed_attempt (thaw now stored) now)) db)) db db1"
    then have "guess_counts emp aid now db = (ac_id stored = aid)" "db' = db1"
      using guess.hyps by (auto simp: guess_counts_def)
    moreover have "lock_inv t0 now (Suc n) (snd (record_failed_attempt (thaw now stored) now))"
      if "ac_id stored = aid"
      using lock_inv_wrong [OF lock_inv_thaw [OF inv]] j same [OF la that] by (simp add: judged_thaw)
    ultimately show ?thesis
      using find_after_refusal [OF ref, of stored] d inv guess.hyps(3) by auto
  next
    fix stored staff b assume la: "login_account (normal_number emp) db = Some (stored, staff)"
      and "verify_pin C (ac_pin_hash stored) pin"
        "verify_login_pin C emp pin now req salt db = (Inr b, put_account b db)"
        "\<exists>h. b = (reset_failed_attempts (thaw now stored))\<lparr>ac_last_login_at := Some now, ac_pin_hash := h\<rparr>
          \<and> (h = ac_pin_hash stored \<or> hash_pin C salt (upper pin) = Inr h)"
    then have "ac_id b = ac_id stored" "ac_id stored \<noteq> aid" "db' = put_account b db"
      using guess.hyps(4,5) same [OF la] by auto
    then show ?thesis
      using guess.hyps(3) d inv la find_put_account [of aid b db] map_id_put_account [of b db]
      by (auto simp: guess_counts_def simp del: set_account_simps)
  qed
qed

text \<open>
  C5. Where each refused login is committed, as the Access API route does (C16), the \<open>n\<close>-th
  guess at an account's PIN is judged only after the locks of the first \<open>(n - 1) div 5\<close> cycles
  have run out in full, whatever the pace and the interleaving with other accounts. The first
  lock lasts fifteen minutes, each next one twice as long up to a day: five guesses, a quarter
  of an hour; ten, three quarters; and so on, up to five guesses a day. The bound does not hold
  for the browser route, which rolls a refused login back (C17).
\<close>

theorem guess_bound:
  assumes "guessing C aid t0 t n db"
  shows "lock_total ((n - 1) div 5) \<le> t - t0"
proof -
  from guessing_inv [OF assms] obtain a where inv: "lock_inv t0 t n a" by blast
  have "(n - 1) div 5 \<le> ac_lock_cycle a" "ac_status a = Locked \<longrightarrow> (n - 1) div 5 \<le> ac_lock_cycle a - 1"
    using inv by (auto simp: lock_inv_def)
  then have "lock_total ((n - 1) div 5) \<le> lock_total (ac_lock_cycle a)"
    "ac_status a = Locked \<longrightarrow> lock_total ((n - 1) div 5) \<le> lock_total (ac_lock_cycle a - 1)"
    by (auto intro: lock_total_mono)
  with inv show ?thesis by (auto simp: lock_inv_def)
qed

section \<open>An example account\<close>

definition example_staff :: staff_member where
  "example_staff = \<lparr>st_id = 1, st_employee_number = ''E-100'', st_rank = ''SGT'', st_first_name = ''A'',
     st_last_name = ''B'', st_shift = ''Day'', st_is_active = True, st_created_at = 0, st_updated_at = 0\<rparr>"

definition example_account :: account where
  "example_account = \<lparr>ac_id = 2, ac_staff_member_id = 1, ac_role = Admin, ac_status = Active,
     ac_pin_hash = ''Q7RT'', ac_must_change_pin = False, ac_temporary_pin_expires_at = None,
     ac_failed_attempts = 0, ac_lock_cycle = 0, ac_locked_until = None, ac_auth_version = 1,
     ac_last_login_at = None, ac_created_at = 0, ac_updated_at = 0, ac_deactivated_at = None\<rparr>"

definition example_db :: db where
  "example_db = empty_db\<lparr>staff_members := [example_staff], accounts := [example_account]\<rparr>"

lemma guess_bound_witness:
  "guessing plain_crypto 2 0 5 1 (snd (verify_login_pin plain_crypto ''E-100'' ''WXYZ'' 5 ''r'' ''s'' example_db))
   \<and> lock_total 0 \<le> 5"
proof -
  have found: "find_account 2 example_db = Some example_account"
    by (simp add: example_db_def example_account_def)
  have start: "guessing plain_crypto 2 0 0 0 example_db"
    by (rule guessing.start [OF _ found]) (simp_all add: example_db_def example_account_def)
  have wrong: "\<not> verify_pin plain_crypto (ac_pin_hash example_account) ''WXYZ''" by code_simp
  have counts: "guess_counts ''E-100'' 2 5 example_db" by code_simp
  obtain r db' where run: "verify_login_pin plain_crypto ''E-100'' ''WXYZ'' 5 ''r'' ''s'' example_db = (r, db')"
    by fastforce
  from guessing.guess [OF start _ found wrong run] counts
  have "guessing plain_crypto 2 0 5 1 db'" by simp
  with guess_bound [OF this] run show ?thesis by simp
qed

end
