(* ===== verification/AccountRules.thy ===== *)
theory AccountRules
  imports LoginRules
begin

text \<open>
  The Admin operations on staff and accounts. Each has an elimination rule that says which
  rows a successful run writes; from these follow the integrity of the identity tables
  (\<open>identity_wf\<close>, kept by every step of \<open>account_step\<close>) and the rule that an Admin action never
  removes the last active Admin.
\<close>

section \<open>Integrity of the identity tables\<close>

text \<open>The unique columns and the foreign key of \<open>models/identity.py\<close>.\<close>

definition identity_wf :: "db \<Rightarrow> bool" where
  "identity_wf db \<longleftrightarrow>
     distinct (map st_id (staff_members db)) \<and> distinct (map st_employee_number (staff_members db))
     \<and> distinct (map ac_id (accounts db)) \<and> distinct (map ac_staff_member_id (accounts db))
     \<and> set (map ac_staff_member_id (accounts db)) \<subseteq> set (map st_id (staff_members db))"

lemma identity_wf_keys:
  "\<lbrakk>map st_id (staff_members db') = map st_id (staff_members db);
    map st_employee_number (staff_members db') = map st_employee_number (staff_members db);
    map ac_id (accounts db') = map ac_id (accounts db);
    map ac_staff_member_id (accounts db') = map ac_staff_member_id (accounts db)\<rbrakk>
   \<Longrightarrow> identity_wf db' = identity_wf db"
  by (simp add: identity_wf_def)

lemma identity_wf_log [simp]: "identity_wf (log_event ev db) = identity_wf db"
  by (rule identity_wf_keys) simp_all

lemma identity_wf_sessions [simp]: "identity_wf (db\<lparr>sessions := ss\<rparr>) = identity_wf db"
  by (rule identity_wf_keys) simp_all

lemma identity_wf_revoke [simp]: "identity_wf (revoke_live_sessions i now r db) = identity_wf db"
  by (simp add: revoke_live_sessions_def)

lemma identity_wf_set_session [simp]: "identity_wf (set_session i f db) = identity_wf db"
  by (simp add: set_session_def)

lemma identity_wf_set_account:
  "(\<And>a. ac_id a = i \<Longrightarrow> a \<in> set (accounts db) \<Longrightarrow>
      ac_id (f a) = i \<and> ac_staff_member_id (f a) = ac_staff_member_id a) \<Longrightarrow>
   identity_wf (set_account i f db) = identity_wf db"
  by (rule identity_wf_keys) (auto simp: update_rows_def)

lemma identity_wf_put_account:
  assumes "identity_wf db" "find_account (ac_id b) db = Some a"
    "ac_staff_member_id b = ac_staff_member_id a"
  shows "identity_wf (put_account b db)"
proof -
  have "c = a" if "c \<in> set (accounts db)" "ac_id c = ac_id b" for c
    using assms(1,2) that by (auto simp: identity_wf_def intro: distinct_account)
  then have "identity_wf (put_account b db) = identity_wf db"
    using assms(3) by (intro identity_wf_set_account) auto
  with assms(1) show ?thesis by simp
qed

lemma identity_wf_put_found:
  "\<lbrakk>identity_wf db; find_account i db = Some a; ac_id b = i; ac_staff_member_id b = ac_staff_member_id a\<rbrakk>
   \<Longrightarrow> identity_wf (set_account i (\<lambda>_. b) db)"
  using identity_wf_put_account [of db b a] by simp

lemma identity_wf_add_account:
  "identity_wf db \<Longrightarrow> ac_id a \<notin> ac_id ` set (accounts db) \<Longrightarrow>
   ac_staff_member_id a \<notin> ac_staff_member_id ` set (accounts db) \<Longrightarrow>
   ac_staff_member_id a \<in> st_id ` set (staff_members db) \<Longrightarrow>
   identity_wf (db\<lparr>accounts := accounts db @ [a]\<rparr>)"
  by (auto simp: identity_wf_def)

lemma identity_wf_add_staff:
  "identity_wf db \<Longrightarrow> st_id s \<notin> st_id ` set (staff_members db) \<Longrightarrow>
   st_employee_number s \<notin> st_employee_number ` set (staff_members db) \<Longrightarrow>
   identity_wf (db\<lparr>staff_members := staff_members db @ [s]\<rparr>)"
  by (auto simp: identity_wf_def)

section \<open>Successful runs\<close>

lemma audit_admin_Inr:
  "audit_admin who act tt tid kvs req db = (Inr u, db') \<Longrightarrow> \<exists>ev. db' = log_event ev db"
  by (auto simp: audit_admin_def log_event_def dest!: append_audit_Inr)

lemma revoke_live_sessions_simps [simp]:
  "accounts (revoke_live_sessions i now r db) = accounts db"
  "staff_members (revoke_live_sessions i now r db) = staff_members db"
  "audit_events (revoke_live_sessions i now r db) = audit_events db"
  by (simp_all add: revoke_live_sessions_def)

lemma create_staff_Inr:
  assumes "create_staff who payload now req i db = (Inr s, db')"
  shows "\<exists>ev. db' = log_event ev (db\<lparr>staff_members := staff_members db @ [s]\<rparr>) \<and> st_id s = i
    \<and> st_employee_number s \<notin> st_employee_number ` set (staff_members db)"
  using assms
  by (auto simp: create_staff_def Let_def and_then_eq_Inr find_row_None_iff
      dest!: audit_admin_Inr split: if_splits sum.splits)

lemma staff_set_id [simp]: "st_id (staff_set k v s) = st_id s"
  by (simp add: staff_set_def)

lemma update_staff_fields_id:
  "st_id (snd (update_staff_fields items changed s)) = st_id s"
  by (induction items changed s rule: update_staff_fields.induct) (auto split: sum.splits)

lemma update_staff_Inr:
  assumes "update_staff who sid payload now req db = (Inr s, db')"
  obtains ev old where "db' = log_event ev (put_staff s db)" "st_id s = sid" "find_staff sid db = Some old"
    "\<And>x. x \<in> set (staff_members db) \<Longrightarrow> st_id x \<noteq> sid \<Longrightarrow> st_employee_number x \<noteq> st_employee_number s"
proof -
  from assms obtain old changed new u where found: "find_staff sid db = Some old"
    and run: "update_staff_fields payload [] old = (Inr changed, new)"
    and uniq: "\<not> list_ex (\<lambda>x. st_id x \<noteq> sid \<and> st_employee_number x = st_employee_number new) (staff_members db)"
    and aud: "audit_admin who ''admin.staff_updated'' ''staff_member'' sid
       [(''target_staff_id'', JStr (uuid_str sid)), (''changed_fields'', JArr (map JStr (sort changed)))]
       req (put_staff (new\<lparr>st_updated_at := now\<rparr>) db) = (Inr u, db')"
    and s: "s = new\<lparr>st_updated_at := now\<rparr>"
    by (auto simp: update_staff_def Let_def and_then_eq_Inr split: if_splits option.splits prod.splits sum.splits)
  have "st_id new = sid"
    using update_staff_fields_id [of payload "[]" old] run found by (auto dest: find_row_SomeD)
  with that found uniq audit_admin_Inr [OF aud] s show thesis
    by (auto simp: list_ex_iff)
qed

lemma new_account_Inr:
  "new_account C staff r now i salt draws t = Inr (a, tp) \<Longrightarrow>
   ac_id a = i \<and> ac_staff_member_id a = st_id staff \<and> ac_status a = Active \<and> tp_account_id tp = i
   \<and> ac_must_change_pin a \<and> ac_temporary_pin_expires_at a = Some (now + hours 24) \<and> ac_auth_version a = 1
   \<and> parse_role r = Some (ac_role a) \<and> tp_expires_at tp = now + hours 24
   \<and> generate_temporary_pin draws (st_employee_number staff) = Inr (temporary_pin tp)
   \<and> hash_pin C salt (temporary_pin tp) = Inr (ac_pin_hash a)"
  by (auto simp: new_account_def Let_def split: option.splits)

lemma create_account_Inr:
  assumes "create_account C who sid r now req i salt draws t db = (Inr tp, db')"
  obtains ev staff a where "db' = log_event ev (db\<lparr>accounts := accounts db @ [a]\<rparr>)"
    "find_staff sid db = Some staff" "st_is_active staff" "find_row ac_staff_member_id sid (accounts db) = None"
    "new_account C staff r now i salt draws t = Inr (a, tp)"
  using assms
  by (auto simp: create_account_def and_then_eq_Inr dest!: audit_admin_Inr
      split: option.splits if_splits sum.splits prod.splits)

lemma create_account_for_staff_Inr:
  "create_account_for_staff C who sid r now req i salt draws t db = (Inr tp, db') \<Longrightarrow>
   create_account C who sid r now req i salt draws t db = (Inr tp, db')"
  by (auto simp: create_account_for_staff_def session_scope_def
      split: option.splits if_splits sum.splits prod.splits)

lemma bootstrap_Inr:
  assumes "bootstrap_first_admin C sid now op h i salt draws t db = (Inr tp, db')"
  obtains ev staff a where "accounts db = []" "db' = log_event ev (db\<lparr>accounts := [a]\<rparr>)"
    "find_staff sid db = Some staff" "st_is_active staff"
    "new_account C staff ''admin'' now i salt draws t = Inr (a, tp)"
  using assms
  by (auto simp: bootstrap_first_admin_def and_then_eq_Inr log_event_def dest!: append_audit_Inr
      split: option.splits if_splits sum.splits prod.splits)

lemma reset_account_pin_Inr:
  assumes "reset_account_pin C who aid now req salt draws db = (Inr tp, db')"
  obtains ev a staff h where "find_account aid db = Some a" "find_staff (ac_staff_member_id a) db = Some staff"
    "generate_temporary_pin draws (st_employee_number staff) = Inr (temporary_pin tp)"
    "hash_pin C salt (temporary_pin tp) = Inr h" "tp_expires_at tp = now + hours 24" "tp_account_id tp = aid"
    "db' = log_event ev (revoke_live_sessions aid now ''admin_action''
       (put_account (reset_failed_attempts (a\<lparr>ac_pin_hash := h, ac_must_change_pin := True,
          ac_temporary_pin_expires_at := Some (now + hours 24), ac_updated_at := now,
          ac_auth_version := ac_auth_version a + 1\<rparr>)) db))"
proof -
  from assms obtain a staff pin h u where
    f: "find_account aid db = Some a" "find_staff (ac_staff_member_id a) db = Some staff"
    and g: "generate_temporary_pin draws (st_employee_number staff) = Inr pin" "hash_pin C salt pin = Inr h"
    and aud: "audit_admin who ''auth.pin_reset'' ''account'' aid [(''target_account_id'', JStr (uuid_str aid))] req
      (revoke_live_sessions aid now ''admin_action''
       (put_account (reset_failed_attempts (a\<lparr>ac_pin_hash := h, ac_must_change_pin := True,
          ac_temporary_pin_expires_at := Some (now + hours 24), ac_updated_at := now,
          ac_auth_version := ac_auth_version a + 1\<rparr>)) db)) = (Inr u, db')"
    and tp: "tp = \<lparr>tp_account_id = aid, temporary_pin = pin, tp_expires_at = now + hours 24\<rparr>"
    by (auto simp: reset_account_pin_def Let_def and_then_eq_Inr split: option.splits sum.splits)
  from audit_admin_Inr [OF aud] obtain ev where "db' = log_event ev (revoke_live_sessions aid now ''admin_action''
       (put_account (reset_failed_attempts (a\<lparr>ac_pin_hash := h, ac_must_change_pin := True,
          ac_temporary_pin_expires_at := Some (now + hours 24), ac_updated_at := now,
          ac_auth_version := ac_auth_version a + 1\<rparr>)) db))" ..
  from that [OF f _ _ _ _ this] g tp show thesis by simp
qed

lemma unlock_account_Inr:
  assumes "unlock_account who aid now req db = (Inr b, db')"
  obtains ev a where "find_account aid db = Some a" "ac_status a = Locked"
    "b = unlock_admin_account (a\<lparr>ac_auth_version := ac_auth_version a + 1, ac_updated_at := now\<rparr>)"
    "db' = log_event ev (revoke_live_sessions aid now ''admin_action'' (put_account b db))"
  using assms
  by (auto simp: unlock_account_def Let_def and_then_eq_Inr dest!: audit_admin_Inr
      split: option.splits if_splits)

definition change_found :: "uuid \<Rightarrow> db \<Rightarrow> account option" where
  "change_found aid db = (case find (\<lambda>a. ac_id a = aid) (lock_active_admins db) of
     Some a \<Rightarrow> Some a | None \<Rightarrow> find_account aid db)"

lemma find_Some_set: "find p xs = Some x \<Longrightarrow> x \<in> set xs \<and> p x"
  by (induction xs) (auto split: if_splits)

lemma change_found_eq: "distinct (map ac_id (accounts db)) \<Longrightarrow> change_found aid db = find_account aid db"
  using find_row_distinct [of ac_id "accounts db"]
  by (auto simp: change_found_def lock_active_admins_def dest!: find_Some_set split: option.splits)

definition retarget :: "account \<Rightarrow> role \<Rightarrow> account_status \<Rightarrow> time \<Rightarrow> account" where
  "retarget a rl st now = a\<lparr>ac_role := rl, ac_status := st,
     ac_deactivated_at := if st = Deactivated then Some now else None,
     ac_updated_at := now, ac_auth_version := ac_auth_version a + 1\<rparr>"

lemma retarget_simps [simp]:
  "ac_id (retarget a rl st now) = ac_id a"
  "ac_staff_member_id (retarget a rl st now) = ac_staff_member_id a"
  "ac_role (retarget a rl st now) = rl" "ac_status (retarget a rl st now) = st"
  "ac_auth_version (retarget a rl st now) = Suc (ac_auth_version a)"
  by (simp_all add: retarget_def)

lemma change_account_Inr:
  assumes "change_account_role_or_status who aid role_name status_name now req db = (Inr b, db')"
  obtains ev a rl st db1 where "parse_role role_name = Some rl" "parse_target_status status_name = Some st"
    "change_found aid db = Some a" "b = retarget a rl st now" "(ac_role a, ac_status a) \<noteq> (rl, st)"
    "\<not> (ac_status a = Locked \<and> st = Active)"
    "ac_role a = Admin \<and> ac_status a = Active \<Longrightarrow>
       list_ex (\<lambda>i. ac_id i \<noteq> ac_id a) (lock_active_admins db)"
    "db1 = (if ac_role a \<noteq> rl \<or> st = Deactivated
       then revoke_live_sessions aid now ''admin_action'' (put_account b db) else put_account b db)"
    "db' = log_event ev db1"
proof -
  from assms obtain rl st where parse: "parse_role role_name = Some rl"
      "parse_target_status status_name = Some st"
    by (auto simp: change_account_role_or_status_def split: option.splits)
  from assms obtain a where a: "change_found aid db = Some a"
    by (auto simp: change_account_role_or_status_def parse change_found_def Let_def split: option.splits)
  note run = assms [unfolded change_account_role_or_status_def parse Let_def, simplified,
      folded change_found_def, unfolded a, simplified]
  let ?db1 = "if ac_role a \<noteq> rl \<or> st = Deactivated
     then revoke_live_sessions aid now ''admin_action'' (put_account (retarget a rl st now) db)
     else put_account (retarget a rl st now) db"
  have "\<exists>ev. db' = log_event ev ?db1" "b = retarget a rl st now" "(ac_role a, ac_status a) \<noteq> (rl, st)"
    "\<not> (ac_status a = Locked \<and> st = Active)"
    "ac_role a = Admin \<and> ac_status a = Active \<Longrightarrow>
       list_ex (\<lambda>i. ac_id i \<noteq> ac_id a) (lock_active_admins db)"
    using run
    by (auto simp: and_then_eq_Inr ensure_not_last_active_admin_def Let_def retarget_def
        dest!: audit_admin_Inr split: if_splits sum.splits prod.splits)
  with that parse a show thesis by blast
qed

lemma audit_admin_accounts:
  "audit_admin who act tt tid kvs req db = (Inr u, db') \<Longrightarrow>
   accounts db' = accounts db \<and> staff_members db' = staff_members db \<and> sessions db' = sessions db"
  by (auto dest: audit_admin_Inr)

lemma revoke_each_Inr:
  "revoke_each who now req ids db = (Inr u, db') \<Longrightarrow>
   accounts db' = accounts db \<and> staff_members db' = staff_members db
   \<and> sessions db' = update_rows (\<lambda>s. se_id s \<in> set ids)
       (\<lambda>s. s\<lparr>se_revoked_at := Some now, se_revoke_reason := Some ''admin_action''\<rparr>) (sessions db)"
proof (induction ids arbitrary: db)
  case Nil
  then show ?case by (simp add: update_rows_def)
next
  case (Cons i ids)
  let ?f = "\<lambda>s. s\<lparr>se_revoked_at := Some now, se_revoke_reason := Some ''admin_action''\<rparr>"
  from Cons.prems obtain db2 where aud: "audit_admin who ''auth.session_revoked'' ''session'' i
      [(''reason'', JStr ''admin_action'')] req (set_session i ?f db) = (Inr (), db2)"
    and rest: "revoke_each who now req ids db2 = (Inr u, db')"
    by (auto simp: and_then_eq_Inr)
  have "update_rows (\<lambda>s. se_id s \<in> set ids) ?f (update_rows (\<lambda>s. se_id s = i) ?f rows)
      = update_rows (\<lambda>s. se_id s \<in> set (i # ids)) ?f rows" for rows
    by (induction rows) simp_all
  then show ?case
    using Cons.IH [OF rest] audit_admin_accounts [OF aud] by (simp add: set_session_def)
qed

lemma revocation_targets_Inr:
  "revocation_targets aid scope target db = Inr ids \<Longrightarrow> scope = ''one'' \<or> scope = ''all''"
  "revocation_targets aid ''all'' target db = Inr ids \<Longrightarrow>
   i \<in> set ids \<longleftrightarrow> (\<exists>s \<in> set (sessions db). se_id s = i \<and> se_account_id s = aid \<and> se_revoked_at s = None)"
  by (auto simp: revocation_targets_def split: if_splits option.splits)

lemma revoke_account_sessions_Inr:
  assumes run: "revoke_account_sessions who aid scope target now req db = (Inr ids, db')"
  obtains db1 where "revoke_each who now req ids db = (Inr (), db1)" "find_account aid db \<noteq> None"
    "revocation_targets aid scope target db = Inr ids"
    "accounts db' = (if scope = ''all'' then update_rows (\<lambda>a. ac_id a = aid)
        (\<lambda>a. a\<lparr>ac_auth_version := ac_auth_version a + 1\<rparr>) (accounts db) else accounts db)"
    "sessions db' = sessions db1" "staff_members db' = staff_members db"
proof -
  from run obtain a db1 where a: "find_account aid db = Some a"
    and targets: "revocation_targets aid scope target db = Inr ids"
    and each: "revoke_each who now req ids db = (Inr (), db1)"
    and last: "(if scope = ''all'' then
        and_then (audit_admin who ''auth.logout_all'' ''account'' aid
            [(''session_count'', JInt (int (length ids)))] req
            (set_account aid (\<lambda>a. a\<lparr>ac_auth_version := ac_auth_version a + 1\<rparr>) db1))
          (\<lambda>_ db2. (Inr ids, db2))
      else (Inr ids, db1)) = (Inr ids, db')"
    by (auto simp: revoke_account_sessions_def and_then_eq_Inr split: option.splits sum.splits if_splits)
  note keep = revoke_each_Inr [OF each]
  from last have "accounts db' = (if scope = ''all'' then update_rows (\<lambda>a. ac_id a = aid)
        (\<lambda>a. a\<lparr>ac_auth_version := ac_auth_version a + 1\<rparr>) (accounts db1) else accounts db1)
      \<and> sessions db' = sessions db1 \<and> staff_members db' = staff_members db1"
    by (auto simp: and_then_eq_Inr dest!: audit_admin_accounts split: if_splits)
  with that a targets each keep show thesis by simp
qed

section \<open>The identity tables stay well formed\<close>

text \<open>
  The committed steps. An Admin action is an operation that returned; a login is committed
  whether it was accepted or refused. New identifiers are fresh, as primary keys are.
\<close>

inductive admin_step :: "crypto \<Rightarrow> db \<Rightarrow> db \<Rightarrow> bool" for C where
  staff_created: "create_staff who payload now req i db = (Inr s, db') \<Longrightarrow>
    i \<notin> st_id ` set (staff_members db) \<Longrightarrow> admin_step C db db'"
| staff_updated: "update_staff who sid payload now req db = (Inr s, db') \<Longrightarrow> admin_step C db db'"
| account_created: "create_account_for_staff C who sid r now req i salt draws t db = (Inr tp, db') \<Longrightarrow>
    i \<notin> ac_id ` set (accounts db) \<Longrightarrow> admin_step C db db'"
| bootstrapped: "bootstrap_first_admin C sid now opid h i salt draws t db = (Inr tp, db') \<Longrightarrow>
    admin_step C db db'"
| changed: "change_account_role_or_status who aid r st now req db = (Inr b, db') \<Longrightarrow> admin_step C db db'"
| pin_reset: "reset_account_pin C who aid now req salt draws db = (Inr tp, db') \<Longrightarrow> admin_step C db db'"
| unlocked: "unlock_account who aid now req db = (Inr b, db') \<Longrightarrow> admin_step C db db'"
| sessions_revoked: "revoke_account_sessions who aid scope target now req db = (Inr ids, db') \<Longrightarrow>
    admin_step C db db'"

inductive account_step :: "crypto \<Rightarrow> db \<Rightarrow> db \<Rightarrow> bool" for C where
  action: "admin_step C db db' \<Longrightarrow> account_step C db db'"
| login: "verify_login_pin C emp pin now req salt db = (r, db') \<Longrightarrow> account_step C db db'"

inductive_simps account_step_iff: "account_step C db db'"

lemma identity_wf_found:
  "identity_wf db \<Longrightarrow> a \<in> set (accounts db) \<Longrightarrow> find_account (ac_id a) db = Some a"
  by (simp add: identity_wf_def find_row_distinct)

lemma identity_wf_update_staff:
  assumes wf: "identity_wf db" and sid: "st_id s = sid"
    and uniq: "\<And>x. x \<in> set (staff_members db) \<Longrightarrow> st_id x \<noteq> sid \<Longrightarrow> st_employee_number x \<noteq> st_employee_number s"
  shows "identity_wf (put_staff s db)"
proof -
  have keys: "map st_id (staff_members (put_staff s db)) = map st_id (staff_members db)"
    using sid by (auto simp: set_staff_def map_update_rows)
  have "distinct (map st_id rows) \<Longrightarrow> distinct (map st_employee_number rows) \<Longrightarrow>
      (\<And>x. x \<in> set rows \<Longrightarrow> st_id x \<noteq> sid \<Longrightarrow> st_employee_number x \<noteq> st_employee_number s) \<Longrightarrow>
      distinct (map st_employee_number (update_rows (\<lambda>x. st_id x = sid) (\<lambda>_. s) rows))" for rows
  proof (induction rows)
    case (Cons x rows)
    show ?case
    proof (cases "st_id x = sid")
      case True
      have other: "st_id y \<noteq> sid" if "y \<in> set rows" for y
        using imageI [OF that, of st_id] Cons.prems(1) True by auto
      then have "update_rows (\<lambda>x. st_id x = sid) (\<lambda>_. s) rows = rows" by (intro update_rows_other)
      moreover have "st_employee_number s \<notin> st_employee_number ` set rows"
        using Cons.prems(3) other by force
      ultimately show ?thesis using True Cons.prems(2) by simp
    next
      case False
      then have "st_employee_number x \<notin> st_employee_number ` set (update_rows (\<lambda>x. st_id x = sid) (\<lambda>_. s) rows)"
        using Cons.prems(2) Cons.prems(3) [of x] by (auto simp: set_update_rows)
      with False Cons show ?thesis by simp
    qed
  qed simp
  then have "distinct (map st_employee_number (staff_members (put_staff s db)))"
    using wf uniq sid by (simp add: identity_wf_def set_staff_def)
  then show ?thesis
    using wf keys by (auto simp: identity_wf_def set_staff_def)
qed

lemma identity_wf_refused:
  "refused (accounts db1) db db' \<Longrightarrow> identity_wf (db\<lparr>accounts := accounts db1\<rparr>) \<Longrightarrow> identity_wf db'"
proof -
  assume "refused (accounts db1) db db'" and wf: "identity_wf (db\<lparr>accounts := accounts db1\<rparr>)"
  then have "identity_wf db' = identity_wf (db\<lparr>accounts := accounts db1\<rparr>)"
    by (intro identity_wf_keys) (auto simp: refused_def)
  with wf show ?thesis by simp
qed

lemma identity_wf_refused_put:
  "refused (accounts (put_account b db)) db db' \<Longrightarrow> identity_wf (put_account b db) \<Longrightarrow> identity_wf db'"
  using identity_wf_refused [of "put_account b db" db db']
  by (simp add: set_account_def)

lemma identity_wf_login:
  assumes wf: "identity_wf db" and run: "verify_login_pin C emp pin now req salt db = (r, db')"
  shows "identity_wf db'"
proof -
  have put: "identity_wf (put_account b db)"
    if "login_account n db = Some (a, staff)" "ac_id b = ac_id a" "ac_staff_member_id b = ac_staff_member_id a"
    for n a staff b
    using identity_wf_put_account [OF wf, of b a] identity_wf_found [OF wf] login_account_Some [OF that(1)] that
    by simp
  show ?thesis
  proof (rule verify_login_pin_cases [of emp db C pin now req salt], goal_cases)
    case (1 db1)
    with run wf show ?thesis by (auto intro: identity_wf_refused [of db db])
  next
    case (2 stored staff db1)
    then show ?thesis using run put [OF 2(1), of "thaw now stored"] identity_wf_refused_put [OF 2(4)]
      by simp
  next
    case (3 stored staff db1)
    then show ?thesis using run identity_wf_refused_put [OF 3(5)]
        put [OF 3(1), of "snd (record_failed_attempt (thaw now stored) now)"] by simp
  next
    case (4 stored staff b)
    then show ?thesis using run put [OF 4(1), of b] by auto
  qed
qed

lemma admin_step_identity_wf: "admin_step C db db' \<Longrightarrow> identity_wf db \<Longrightarrow> identity_wf db'"
proof (induction rule: admin_step.induct)
  case (staff_created who payload now req i db s db')
  then show ?case by (auto dest!: create_staff_Inr intro!: identity_wf_add_staff)
next
  case (staff_updated who sid payload now req db s db')
  then show ?case by (auto elim!: update_staff_Inr intro!: identity_wf_update_staff)
next
  case (account_created who sid r now req i salt draws t db tp db')
  show ?case
  proof (rule create_account_Inr [OF create_account_for_staff_Inr [OF account_created(1)]])
    fix ev staff a
    assume "db' = log_event ev (db\<lparr>accounts := accounts db @ [a]\<rparr>)" "find_staff sid db = Some staff"
      "find_row ac_staff_member_id sid (accounts db) = None"
      "new_account C staff r now i salt draws t = Inr (a, tp)"
    then show "identity_wf db'"
      using account_created(2,3)
      by (auto simp: find_row_None_iff dest!: new_account_Inr find_row_SomeD intro!: identity_wf_add_account)
  qed
next
  case (bootstrapped sid now opid h i salt draws t db tp db')
  then show ?case
    by (auto simp: identity_wf_def dest!: new_account_Inr find_row_SomeD elim!: bootstrap_Inr)
next
  case (changed who aid r st now req db b db')
  show ?case
  proof (rule change_account_Inr [OF changed(1)])
    fix ev a rl st' db1
    assume a: "change_found aid db = Some a" "b = retarget a rl st' now"
      and db': "db1 = (if ac_role a \<noteq> rl \<or> st' = Deactivated
          then revoke_live_sessions aid now ''admin_action'' (put_account b db) else put_account b db)"
        "db' = log_event ev db1"
    have "find_account aid db = Some a"
      using a changed(2) by (simp add: change_found_eq identity_wf_def)
    moreover from this have "ac_id a = aid" by (auto dest: find_row_SomeD)
    ultimately have "identity_wf (put_account b db)"
      using identity_wf_put_account [OF changed(2), of b a] a by simp
    with db' show "identity_wf db'" by (simp split: if_splits)
  qed
next
  case (pin_reset who aid now req salt draws db tp db')
  show ?case
  proof (rule reset_account_pin_Inr [OF pin_reset(1)], goal_cases)
    case (1 ev a staff h)
    then have "ac_id a = aid" by (auto dest: find_row_SomeD)
    with 1 show ?case by (auto intro!: identity_wf_put_found [OF pin_reset(2)])
  qed
next
  case (unlocked who aid now req db b db')
  show ?case
  proof (rule unlock_account_Inr [OF unlocked(1)], goal_cases)
    case (1 ev a)
    then have "ac_id a = aid" by (auto dest: find_row_SomeD)
    with 1 show ?case
      by (auto simp: unlock_admin_account_def intro!: identity_wf_put_found [OF unlocked(2)])
  qed
next
  case (sessions_revoked who aid scope target now req db ids db')
  show ?case
  proof (rule revoke_account_sessions_Inr [OF sessions_revoked(1)], goal_cases)
    case (1 db1)
    then have "identity_wf db' = identity_wf db"
      by (intro identity_wf_keys) (simp_all add: map_update_rows)
    with sessions_revoked show ?case by simp
  qed
qed

lemma identity_wf_account_step: "account_step C db db' \<Longrightarrow> identity_wf db \<Longrightarrow> identity_wf db'"
  unfolding account_step_iff by (auto intro: admin_step_identity_wf identity_wf_login)

text \<open>
  C6. Every committed identity operation keeps the tables well formed: identifiers, employee
  numbers and the staff member of an account stay unique, and every account still belongs to
  a staff member.
\<close>

theorem account_step_identity_wf: "account_step C db db' \<Longrightarrow> identity_wf db \<Longrightarrow> identity_wf db'"
  by (rule identity_wf_account_step)

lemma example_identity_wf: "identity_wf example_db"
  by (simp add: identity_wf_def example_db_def example_staff_def example_account_def empty_db_def)

lemma unlock_account_succeeds:
  assumes "find_account aid db = Some a" "ac_status a = Locked"
  shows "\<exists>b db'. unlock_account who aid now req db = (Inr b, db')"
proof -
  have "\<exists>ev. audit_admin who ''admin.account_unlocked'' ''account'' aid
      [(''target_account_id'', JStr (uuid_str aid))] req s = (Inr (), log_event ev s)" for s
    using audit_admin_ok [OF uuid_actions(4), of who "''account''" aid aid req s] by auto
  then obtain f where "audit_admin who ''admin.account_unlocked'' ''account'' aid
      [(''target_account_id'', JStr (uuid_str aid))] req s = (Inr (), log_event (f s) s)" for s
    by metis
  then show ?thesis using assms by (simp add: unlock_account_def Let_def)
qed

definition locked_db :: db where
  "locked_db = example_db\<lparr>accounts := [example_account\<lparr>ac_status := Locked\<rparr>]\<rparr>"

lemma account_step_identity_wf_witness:
  "\<exists>b db'. unlock_account \<lparr>account_id = 2, staff_member_id = 1\<rparr> 2 7 ''r'' locked_db = (Inr b, db')
     \<and> identity_wf db'"
proof -
  have wf: "identity_wf locked_db"
    by (simp add: identity_wf_def locked_db_def example_db_def example_staff_def example_account_def empty_db_def)
  have "find_account 2 locked_db = Some (example_account\<lparr>ac_status := Locked\<rparr>)"
    by (simp add: locked_db_def example_account_def)
  then obtain b db' where run: "unlock_account \<lparr>account_id = 2, staff_member_id = 1\<rparr> 2 7 ''r'' locked_db = (Inr b, db')"
    using unlock_account_succeeds [of 2 locked_db] by fastforce
  from account_step_identity_wf [OF action [OF unlocked [OF run]] wf] run show ?thesis by blast
qed

section \<open>The last active Admin\<close>

definition active_admin :: "account \<Rightarrow> bool" where
  "active_admin a \<longleftrightarrow> ac_role a = Admin \<and> ac_status a = Active"

definition has_active_admin :: "db \<Rightarrow> bool" where
  "has_active_admin db \<longleftrightarrow> (\<exists>a \<in> set (accounts db). active_admin a)"

lemma has_active_admin_simps [simp]:
  "has_active_admin (log_event ev db) = has_active_admin db"
  "has_active_admin (revoke_live_sessions i now r db) = has_active_admin db"
  "has_active_admin (db\<lparr>staff_members := ss\<rparr>) = has_active_admin db"
  "has_active_admin (set_staff sid f db) = has_active_admin db"
  by (simp_all add: has_active_admin_def set_staff_def)

lemma has_active_admin_keep:
  "has_active_admin db \<Longrightarrow> (\<And>a. a \<in> set (accounts db) \<Longrightarrow> p a \<Longrightarrow> active_admin a \<Longrightarrow> active_admin (f a)) \<Longrightarrow>
   accounts db' = update_rows p f (accounts db) \<Longrightarrow> has_active_admin db'"
proof -
  assume has: "has_active_admin db"
    and keep: "\<And>a. a \<in> set (accounts db) \<Longrightarrow> p a \<Longrightarrow> active_admin a \<Longrightarrow> active_admin (f a)"
    and rows: "accounts db' = update_rows p f (accounts db)"
  from has obtain a where "a \<in> set (accounts db)" "active_admin a" by (auto simp: has_active_admin_def)
  with keep rows have "(if p a then f a else a) \<in> set (accounts db')"
    "active_admin (if p a then f a else a)" by (auto simp: set_update_rows)
  then show ?thesis unfolding has_active_admin_def by blast
qed

lemma has_active_admin_put:
  assumes "has_active_admin db" "identity_wf db" "find_account i db = Some a"
    "active_admin a \<Longrightarrow> active_admin b"
  shows "has_active_admin (set_account i (\<lambda>_. b) db)"
proof (rule has_active_admin_keep [OF assms(1) _ set_account_simps(2)])
  fix c assume "c \<in> set (accounts db)" "ac_id c = i" "active_admin c"
  moreover from this have "c = a"
    using assms(2) distinct_account [OF _ assms(3)] by (simp add: identity_wf_def)
  ultimately show "active_admin b" using assms(4) by simp
qed

text \<open>
  C7. No Admin action leaves the installation without an active Admin: a role change or a
  deactivation of the last one is refused, and no other action takes the role or the status
  away. (A run of wrong PINs may still lock the account; that is not an Admin action.)
\<close>

theorem last_active_admin_kept:
  assumes "admin_step C db db'" "identity_wf db" "has_active_admin db"
  shows "has_active_admin db'"
  using assms
proof (induction rule: admin_step.induct)
  case (staff_created who payload now req i db s db')
  then show ?case by (auto dest!: create_staff_Inr)
next
  case (staff_updated who sid payload now req db s db')
  then show ?case by (auto elim!: update_staff_Inr)
next
  case (account_created who sid r now req i salt draws t db tp db')
  then show ?case
    by (auto dest!: create_account_for_staff_Inr elim!: create_account_Inr simp: has_active_admin_def)
next
  case (bootstrapped sid now opid h i salt draws t db tp db')
  then show ?case by (auto elim!: bootstrap_Inr simp: has_active_admin_def)
next
  case (changed who aid r st now req db b db')
  show ?case
  proof (rule change_account_Inr [OF changed(1)])
    fix ev a rl st' db1
    assume a: "change_found aid db = Some a" "b = retarget a rl st' now"
      and new: "(ac_role a, ac_status a) \<noteq> (rl, st')"
      and others: "ac_role a = Admin \<and> ac_status a = Active \<Longrightarrow>
         list_ex (\<lambda>i. ac_id i \<noteq> ac_id a) (lock_active_admins db)"
      and db': "db1 = (if ac_role a \<noteq> rl \<or> st' = Deactivated
          then revoke_live_sessions aid now ''admin_action'' (put_account b db) else put_account b db)"
        "db' = log_event ev db1"
    have wf: "distinct (map ac_id (accounts db))" using changed(2) by (simp add: identity_wf_def)
    have found: "find_account aid db = Some a" using a change_found_eq [OF wf] by simp
    have "\<exists>x \<in> set (accounts db). active_admin x \<and> ac_id x \<noteq> ac_id a"
    proof (cases "active_admin a")
      case True
      with others show ?thesis
        by (auto simp: active_admin_def lock_active_admins_def list_ex_iff)
    next
      case False
      with changed(3) show ?thesis
        using distinct_account [OF wf found] found by (auto simp: has_active_admin_def dest!: find_row_SomeD)
    qed
    then have "has_active_admin (put_account b db)"
      using a(2) by (force simp: has_active_admin_def set_update_rows)
    with db' show "has_active_admin db'" by (simp split: if_splits)
  qed
next
  case (pin_reset who aid now req salt draws db tp db')
  show ?case
  proof (rule reset_account_pin_Inr [OF pin_reset(1)], goal_cases)
    case (1 ev a staff h)
    then have "ac_id a = aid" by (auto dest: find_row_SomeD)
    have "has_active_admin (set_account aid (\<lambda>_. reset_failed_attempts (a\<lparr>ac_pin_hash := h,
        ac_must_change_pin := True, ac_temporary_pin_expires_at := Some (now + hours 24),
        ac_updated_at := now, ac_auth_version := ac_auth_version a + 1\<rparr>)) db)"
      by (rule has_active_admin_put [OF pin_reset(3,2) 1(1)]) (simp add: active_admin_def)
    with 1(7) \<open>ac_id a = aid\<close> show ?case by simp
  qed
next
  case (unlocked who aid now req db b db')
  show ?case
  proof (rule unlock_account_Inr [OF unlocked(1)], goal_cases)
    case (1 ev a)
    then have id: "ac_id b = aid" by (auto dest: find_row_SomeD simp: unlock_admin_account_def)
    have "has_active_admin (set_account aid (\<lambda>_. b) db)"
      by (rule has_active_admin_put [OF unlocked(3,2) 1(1)]) (simp add: active_admin_def 1(2))
    with 1(4) id show ?case by simp
  qed
next
  case (sessions_revoked who aid scope target now req db ids db')
  show ?case
  proof (rule revoke_account_sessions_Inr [OF sessions_revoked(1)], goal_cases)
    case (1 db1)
    show ?case
    proof (cases "scope = ''all''")
      case True
      with 1(4) show ?thesis
        by (intro has_active_admin_keep [OF sessions_revoked(3)]) (simp_all add: active_admin_def)
    next
      case False
      with 1(4) sessions_revoked(3) show ?thesis by (simp add: has_active_admin_def)
    qed
  qed
qed

lemma last_active_admin_kept_witness:
  "\<exists>b db'. unlock_account \<lparr>account_id = 2, staff_member_id = 1\<rparr> 2 7 ''r''
       (locked_db\<lparr>accounts := accounts locked_db @ [example_account\<lparr>ac_id := 3, ac_staff_member_id := 4\<rparr>],
          staff_members := [example_staff, example_staff\<lparr>st_id := 4, st_employee_number := ''E-101''\<rparr>]\<rparr>)
     = (Inr b, db') \<and> has_active_admin db'"
proof -
  let ?who = "\<lparr>account_id = 2, staff_member_id = 1\<rparr>"
  let ?db = "locked_db\<lparr>accounts := accounts locked_db @ [example_account\<lparr>ac_id := 3, ac_staff_member_id := 4\<rparr>],
     staff_members := [example_staff, example_staff\<lparr>st_id := 4, st_employee_number := ''E-101''\<rparr>]\<rparr>"
  have wf: "identity_wf ?db"
    by (simp add: identity_wf_def locked_db_def example_db_def example_staff_def example_account_def)
  have has: "has_active_admin ?db"
    by (simp add: has_active_admin_def active_admin_def locked_db_def example_account_def)
  have "find_account 2 ?db = Some (example_account\<lparr>ac_status := Locked\<rparr>)"
    by (simp add: locked_db_def example_account_def)
  then obtain b db' where run: "unlock_account ?who 2 7 ''r'' ?db = (Inr b, db')"
    using unlock_account_succeeds [of 2 ?db] by fastforce
  from last_active_admin_kept [OF unlocked [OF run] wf has] run show ?thesis by blast
qed

end
