(* ===== verification/SessionRules.thy ===== *)
theory SessionRules
  imports Sessions AccountRules
begin

text \<open>
  What the session operations guarantee: a login yields a token that resolves to it until it
  expires, a renewal retires the old tokens, a second use of a retired renewal token ends the
  whole family, and the operations that bump an account's version end its sessions. Raw tokens
  are assumed to be fresh where a theorem says so: their digests differ from all stored ones.
\<close>

lemma set_session_simps [simp]:
  "staff_members (set_session i f db) = staff_members db"
  "accounts (set_session i f db) = accounts db"
  "sessions (set_session i f db) = update_rows (\<lambda>s. se_id s = i) f (sessions db)"
  "renewal_history (set_session i f db) = renewal_history db"
  "audit_events (set_session i f db) = audit_events db"
  by (simp_all add: set_session_def)

lemma remember_renewal_simps [simp]:
  "staff_members (remember_renewal s now db) = staff_members db"
  "accounts (remember_renewal s now db) = accounts db"
  "sessions (remember_renewal s now db) = sessions db"
  "audit_events (remember_renewal s now db) = audit_events db"
  by (simp_all add: remember_renewal_def)

lemma rotate_tokens_simps [simp]:
  "se_id (rotate_tokens cfg s v a r now) = se_id s"
  "se_account_id (rotate_tokens cfg s v a r now) = se_account_id s"
  "se_renewal_family_id (rotate_tokens cfg s v a r now) = se_renewal_family_id s"
  "se_access_token_hash (rotate_tokens cfg s v a r now) = a"
  "se_renewal_token_hash (rotate_tokens cfg s v a r now) = r"
  "se_auth_version (rotate_tokens cfg s v a r now) = v"
  "se_revoked_at (rotate_tokens cfg s v a r now) = se_revoked_at s"
  by (simp_all add: rotate_tokens_def)

lemma mark_revoked_simps [simp]:
  "se_id (mark_revoked now r s) = se_id s" "se_account_id (mark_revoked now r s) = se_account_id s"
  "se_access_token_hash (mark_revoked now r s) = se_access_token_hash s"
  "se_renewal_token_hash (mark_revoked now r s) = se_renewal_token_hash s"
  "se_renewal_family_id (mark_revoked now r s) = se_renewal_family_id s"
  "se_auth_version (mark_revoked now r s) = se_auth_version s"
  "se_revoked_at (mark_revoked now r s) = Some now"
  by (simp_all add: mark_revoked_def)

lemma issue_credential_Inr [simp]:
  "issue_credential C d = Inr c \<longleftrightarrow> d \<noteq> [] \<and> c = \<lparr>raw = d, digest = sha256 C d\<rparr>"
  by (auto simp: issue_credential_def hash_token_def)

lemma hash_token_Inr [simp]: "hash_token C t = Inr h \<longleftrightarrow> t \<noteq> [] \<and> h = sha256 C t"
  by (auto simp: hash_token_def)

lemma credentials_eval [simp]:
  "d \<noteq> [] \<Longrightarrow> issue_credential C d = Inr \<lparr>raw = d, digest = sha256 C d\<rparr>"
  "d \<noteq> [] \<Longrightarrow> hash_token C d = Inr (sha256 C d)"
  by simp_all

lemma in_update_rowsE:
  assumes "x \<in> set (update_rows p f rows)"
  obtains r where "r \<in> set rows" "x = (if p r then f r else r)"
  using assms unfolding set_update_rows by (elim imageE) blast

section \<open>Elimination rules\<close>

lemma account_for_session_Some:
  "account_for_session s db = Some a \<longleftrightarrow>
   find_account (se_account_id s) db = Some a \<and> (\<exists>staff. find_staff (ac_staff_member_id a) db = Some staff)"
  by (auto simp: account_for_session_def split: option.splits)

lemma require_active_Inr [simp]:
  "require_active a db = Inr staff \<longleftrightarrow>
   ac_status a = Active \<and> find_staff (ac_staff_member_id a) db = Some staff \<and> st_is_active staff"
  by (auto simp: require_active_def split: option.splits)

lemma require_active_eval [simp]:
  "\<lbrakk>ac_status a = Active; find_staff (ac_staff_member_id a) db = Some staff; st_is_active staff\<rbrakk>
   \<Longrightarrow> require_active a db = Inr staff"
  by simp

lemma resolve_Inr:
  assumes "resolve_access_session C token now db = Inr (s, a)"
  shows "token \<noteq> []" "find_row se_access_token_hash (sha256 C token) (sessions db) = Some s"
    "s \<in> set (sessions db)" "find_account (se_account_id s) db = Some a" "ac_id a = se_account_id s"
    "se_revoked_at s = None" "now < se_access_expires_at s" "se_auth_version s = ac_auth_version a"
    "ac_status a = Active"
proof -
  from assms have run: "token \<noteq> [] \<and> find_row se_access_token_hash (sha256 C token) (sessions db) = Some s
    \<and> find_account (se_account_id s) db = Some a \<and> se_revoked_at s = None \<and> now < se_access_expires_at s
    \<and> se_auth_version s = ac_auth_version a \<and> ac_status a = Active"
    by (auto simp: resolve_access_session_def account_for_session_Some split: option.splits if_splits)
  then show "token \<noteq> []" "find_row se_access_token_hash (sha256 C token) (sessions db) = Some s"
    "find_account (se_account_id s) db = Some a"
    "se_revoked_at s = None" "now < se_access_expires_at s" "se_auth_version s = ac_auth_version a"
    "ac_status a = Active"
    by blast+
  show "s \<in> set (sessions db)" "ac_id a = se_account_id s" 
    using run find_row_SomeD [of se_access_token_hash "sha256 C token" "sessions db" s]
      find_row_SomeD [of ac_id "se_account_id s" "accounts db" a] by simp_all
qed

lemma resolve_ok:
  assumes "token \<noteq> []" "find_row se_access_token_hash (sha256 C token) (sessions db) = Some s"
    "find_account (se_account_id s) db = Some a" "find_staff (ac_staff_member_id a) db = Some staff"
    "se_revoked_at s = None" "now < se_access_expires_at s" "se_auth_version s = ac_auth_version a"
    "ac_status a = Active" "st_is_active staff"
  shows "resolve_access_session C token now db = Inr (s, a)"
proof -
  have "account_for_session s db = Some a" "require_active a db = Inr staff" "hash_token C token = Inr (sha256 C token)"
    using assms by (simp_all add: account_for_session_Some)
  with assms show ?thesis by (simp add: resolve_access_session_def del: require_active_Inr)
qed

lemma new_session_simps [simp]:
  "se_id (new_session cfg a per now dr x y dev lab) = dr_session_id dr"
  "se_account_id (new_session cfg a per now dr x y dev lab) = ac_id a"
  "se_auth_version (new_session cfg a per now dr x y dev lab) = ac_auth_version a"
  "se_access_token_hash (new_session cfg a per now dr x y dev lab) = x"
  "se_renewal_token_hash (new_session cfg a per now dr x y dev lab) = y"
  "se_revoked_at (new_session cfg a per now dr x y dev lab) = None"
  "se_renewal_family_id (new_session cfg a per now dr x y dev lab) = dr_family dr"
  "se_device_id_hash (new_session cfg a per now dr x y dev lab) = dev"
  "se_access_expires_at (new_session cfg a per now dr x y dev lab)
     = now + seconds (access_ttl_seconds cfg)"
  by (simp_all add: new_session_def)

lemma create_session_Inr:
  assumes "create_session C cfg a dev lab per now dr db = (Inr pair, db')"
  obtains staff h s where "find_staff (ac_staff_member_id a) db = Some staff" "st_is_active staff"
    "ac_status a = Active" "hash_device_id C dev (pepper_of cfg) = Inr h" "dr_access dr \<noteq> []" "dr_renewal dr \<noteq> []"
    "s = new_session cfg a per now dr (sha256 C (dr_access dr)) (sha256 C (dr_renewal dr)) h lab"
    "db' = db\<lparr>sessions := sessions db @ [s]\<rparr>" "pair = token_pair s a staff (dr_access dr) (dr_renewal dr)"
proof -
  let ?pre = "bind_result (require_active a db) (\<lambda>staff.
     bind_result (issue_credential C (dr_access dr)) (\<lambda>access.
     bind_result (issue_credential C (dr_renewal dr)) (\<lambda>renewal.
     bind_result (hash_device_id C dev (pepper_of cfg)) (\<lambda>h. Inr (staff, access, renewal, h)))))"
  obtain p where p: "?pre = Inr p"
    using assms by (cases ?pre) (simp_all add: create_session_def)
  then obtain staff h where pre: "ac_status a = Active" "find_staff (ac_staff_member_id a) db = Some staff"
    "st_is_active staff" "dr_access dr \<noteq> []" "dr_renewal dr \<noteq> []" "hash_device_id C dev (pepper_of cfg) = Inr h"
    "p = (staff, \<lparr>raw = dr_access dr, digest = sha256 C (dr_access dr)\<rparr>,
      \<lparr>raw = dr_renewal dr, digest = sha256 C (dr_renewal dr)\<rparr>, h)"
    by auto
  with assms p that show thesis by (simp add: create_session_def Let_def)
qed

lemma log_after:
  "append_audit ev db = (Inr u, db') \<Longrightarrow> db' = log_event ev db"
  by (auto simp: log_event_def dest: append_audit_Inr)

lemma login_Inr:
  assumes "login C cfg emp pin dev lab per now req dr db = (Inr pair, db')"
  obtains a db1 db2 ev where "verify_login_pin C emp pin now req (dr_salt dr) db = (Inr a, db1)"
    "create_session C cfg a dev lab per now dr db1 = (Inr pair, db2)" "db' = log_event ev db2"
  using assms by (auto simp: login_def and_then_eq_Inr dest!: log_after)

lemma renew_Inr:
  assumes "renew_session C cfg token dev now req dr db = (Inr pair, db')"
  obtains current a staff ev new where "token \<noteq> []" "dr_access dr \<noteq> []" "dr_renewal dr \<noteq> []"
    "find_row se_renewal_token_hash (sha256 C token) (sessions db) = Some current"
    "find_account (se_account_id current) db = Some a" "find_staff (ac_staff_member_id a) db = Some staff"
    "st_is_active staff" "ac_status a = Active" "se_revoked_at current = None" "now < se_renewal_expires_at current"
    "hash_device_id C dev (pepper_of cfg) = Inr (se_device_id_hash current)"
    "se_auth_version current = ac_auth_version a"
    "new = rotate_tokens cfg current (se_auth_version current) (sha256 C (dr_access dr)) (sha256 C (dr_renewal dr)) now"
    "db' = log_event ev (put_session new (remember_renewal current now db))"
    "pair = token_pair new a staff (dr_access dr) (dr_renewal dr)"
proof -
  have no_reuse: "fst (renewal_reused h now req db) \<noteq> Inr pair" for h
    by (auto simp: renewal_reused_def Let_def and_then_def split: option.splits prod.splits sum.splits)
  from assms have "token \<noteq> []" by (auto simp: renew_session_def hash_token_def)
  moreover from assms this no_reuse obtain current
    where cur: "find_row se_renewal_token_hash (sha256 C token) (sessions db) = Some current"
    by (cases "find_row se_renewal_token_hash (sha256 C token) (sessions db)")
      (auto simp: renew_session_def hash_token_def, metis fst_conv)
  ultimately show thesis
    using assms
    by (auto simp: renew_session_def hash_token_def Let_def and_then_eq_Inr account_for_session_Some
        dest!: log_after split: option.splits sum.splits if_splits intro!: that)
qed

lemma change_pin_Inr:
  assumes "change_pin C cfg aid sid pin new_pin dev now req dr db = (Inr pair, db')"
  obtains a current staff h ev a' new p where "find_account aid db = Some a" "find_session sid db = Some current"
    "se_account_id current = aid" "find_staff (ac_staff_member_id a) db = Some staff"
    "verify_pin C (ac_pin_hash a) pin" "validate_new_pin new_pin (st_employee_number staff) = Inr p"
    "hash_pin C (dr_salt dr) p = Inr h" "se_revoked_at current = None"
    "se_auth_version current = ac_auth_version a" "dr_access dr \<noteq> []" "dr_renewal dr \<noteq> []"
    "a' = a\<lparr>ac_pin_hash := h, ac_must_change_pin := False, ac_temporary_pin_expires_at := None,
       ac_auth_version := Suc (ac_auth_version a)\<rparr>"
    "new = rotate_tokens cfg current (ac_auth_version a') (sha256 C (dr_access dr)) (sha256 C (dr_renewal dr)) now"
    "db' = log_event ev (put_session new (remember_renewal current now (put_account a'
       (db\<lparr>sessions := update_rows (\<lambda>s. se_account_id s = aid \<and> se_id s \<noteq> sid \<and> se_revoked_at s = None)
            (mark_revoked now ''pin_changed'') (sessions db)\<rparr>))))"
    "pair = token_pair new a' staff (dr_access dr) (dr_renewal dr)"
proof -
  from assms obtain a current where
    "find_account aid db = Some a" "find_session sid db = Some current" "se_account_id current = aid"
    by (auto simp: change_pin_def split: option.splits if_splits)
  with assms show thesis
    by (auto simp: change_pin_def Let_def and_then_eq_Inr dest!: log_after
        split: sum.splits if_splits intro!: that)
qed

lemma logout_all_Inr:
  assumes "logout_all aid now req db = (Inr n, db')"
  obtains a ev where "find_account aid db = Some a"
    "db' = log_event ev (revoke_live_sessions aid now ''logout_all''
       (put_account (a\<lparr>ac_auth_version := Suc (ac_auth_version a)\<rparr>) db))"
    "n = length (filter (\<lambda>s. se_account_id s = aid \<and> se_revoked_at s = None) (sessions db))"
  using assms
  by (auto simp: logout_all_def Let_def and_then_eq_Inr dest!: log_after split: option.splits)

section \<open>Fresh tokens\<close>

definition renewal_hashes :: "db \<Rightarrow> bytes list" where
  "renewal_hashes db = map se_renewal_token_hash (sessions db) @ map rh_token_hash (renewal_history db)"

text \<open>The unique columns of \<open>models/sessions.py\<close>; a renewal token is never issued twice.\<close>

definition tokens_wf :: "db \<Rightarrow> bool" where
  "tokens_wf db \<longleftrightarrow> distinct (map se_id (sessions db)) \<and> distinct (map se_access_token_hash (sessions db))
     \<and> distinct (renewal_hashes db)"

definition fresh_draws :: "crypto \<Rightarrow> session_draws \<Rightarrow> db \<Rightarrow> bool" where
  "fresh_draws C dr db \<longleftrightarrow> dr_session_id dr \<notin> se_id ` set (sessions db)
     \<and> sha256 C (dr_access dr) \<notin> se_access_token_hash ` set (sessions db)
     \<and> sha256 C (dr_renewal dr) \<notin> set (renewal_hashes db)"

lemma find_row_fresh: "key s = k \<Longrightarrow> k \<notin> key ` set rows \<Longrightarrow> find_row key k (rows @ [s]) = Some s"
  by (induction rows) auto

lemma find_row_map_key: "map key rows' = map key rows \<Longrightarrow> k \<in> key ` set rows \<Longrightarrow> \<exists>r. find_row key k rows' = Some r"
proof -
  assume same: "map key rows' = map key rows" and k: "k \<in> key ` set rows"
  have "k \<in> set (map key rows')" using k by (simp add: same)
  then show ?thesis by (cases "find_row key k rows'") (auto simp: find_row_None_iff)
qed

text \<open>Replacing the one row with a given identifier.\<close>

lemma find_row_replace:
  assumes d: "distinct (map key rows)" "distinct (map key2 rows)" and r: "r \<in> set rows" "key r = i"
    and new: "key2 n = k" "k \<notin> key2 ` set rows"
  shows "find_row key2 k (update_rows (\<lambda>x. key x = i) (\<lambda>_. n) rows) = Some n"
  using d r new
proof (induction rows)
  case (Cons x rows)
  show ?case
  proof (cases "key x = i")
    case True
    with Cons.prems show ?thesis by simp
  next
    case False
    with Cons show ?thesis by auto
  qed
qed simp

lemma set_replace:
  assumes "distinct (map key rows)" "r \<in> set rows" "key r = i"
  shows "set (update_rows (\<lambda>x. key x = i) (\<lambda>_. n) rows) = insert n (set rows - {r})"
proof -
  have "x = r" if "x \<in> set rows" "key x = i" for x
    using assms that by (auto simp: distinct_map dest: inj_onD)
  with assms(2,3) show ?thesis by (fastforce simp: set_update_rows image_iff)
qed

lemma map_replace_distinct:
  assumes "distinct (map key rows)" "distinct (map key2 rows @ ys)" "key2 n \<notin> set (map key2 rows @ ys)"
    and r: "r \<in> set rows" "key r = i"
  shows "distinct (map key2 (update_rows (\<lambda>x. key x = i) (\<lambda>_. n) rows) @ ys)
    \<and> set (map key2 (update_rows (\<lambda>x. key x = i) (\<lambda>_. n) rows)) = insert (key2 n) (key2 ` set rows - {key2 r})"
  using assms
proof (induction rows)
  case (Cons x rows)
  show ?case
  proof (cases "key x = i")
    case True
    then have other: "key y \<noteq> i" if "y \<in> set rows" for y
      using Cons.prems(1) imageI [OF that, of key] by auto
    then have "update_rows (\<lambda>x. key x = i) (\<lambda>_. n) rows = rows" by (intro update_rows_other)
    moreover have "x = r" using Cons.prems(4,5) other by auto
    ultimately show ?thesis using True Cons.prems by auto
  next
    case False
    with Cons.prems have r: "r \<in> set rows" by auto
    have "distinct (map key2 (update_rows (\<lambda>x. key x = i) (\<lambda>_. n) rows) @ ys)
      \<and> set (map key2 (update_rows (\<lambda>x. key x = i) (\<lambda>_. n) rows)) = insert (key2 n) (key2 ` set rows - {key2 r})"
      by (rule Cons.IH) (use Cons.prems r in auto)
    with False Cons.prems r show ?thesis by auto
  qed
qed simp

section \<open>Login and renewal\<close>

text \<open>The row a login adds, and the account it leaves behind.\<close>

lemma login_found:
  assumes run: "login C cfg emp pin dev lab per now req dr db = (Inr pair, db')"
    and fresh: "fresh_draws C dr db"
  obtains s a staff where "access_token pair = dr_access dr" "sp_session_id pair = se_id s" "dr_access dr \<noteq> []"
    "find_row se_access_token_hash (sha256 C (dr_access dr)) (sessions db') = Some s"
    "find_session (se_id s) db' = Some s" "se_id s = dr_session_id dr"
    "se_access_expires_at s = now + seconds (access_ttl_seconds cfg)" "se_revoked_at s = None"
    "se_account_id s = ac_id a" "se_auth_version s = ac_auth_version a"
    "find_account (ac_id a) db' = Some a" "find_staff (ac_staff_member_id a) db' = Some staff"
    "st_is_active staff" "ac_status a = Active" "session_bindings db' = session_bindings db"
proof (rule login_Inr [OF run])
  fix a db1 db2 ev
  assume v: "verify_login_pin C emp pin now req (dr_salt dr) db = (Inr a, db1)"
    and c: "create_session C cfg a dev lab per now dr db1 = (Inr pair, db2)" and db': "db' = log_event ev db2"
  obtain stored where db1: "db1 = put_account a db" "stored \<in> set (accounts db)" "ac_id a = ac_id stored"
    using v by (auto elim!: verify_login_pin_Inr dest: login_account_Some)
  have found: "find_account (ac_id a) db1 = Some a"
    using db1 find_put_account [of "ac_id a" a db] by (cases "find_account (ac_id a) db") (auto simp: find_row_None_iff)
  show thesis
  proof (rule create_session_Inr [OF c])
    fix staff h s
    assume s: "s = new_session cfg a per now dr (sha256 C (dr_access dr)) (sha256 C (dr_renewal dr)) h lab"
      and db2: "db2 = db1\<lparr>sessions := sessions db1 @ [s]\<rparr>"
      and pair: "pair = token_pair s a staff (dr_access dr) (dr_renewal dr)"
      and act: "find_staff (ac_staff_member_id a) db1 = Some staff" "st_is_active staff" "ac_status a = Active"
        "dr_access dr \<noteq> []"
    have "find_row se_access_token_hash (sha256 C (dr_access dr)) (sessions db') = Some s"
      "find_session (se_id s) db' = Some s"
      using fresh by (simp_all add: db' db2 db1(1) fresh_draws_def find_row_fresh s)
    moreover have "session_bindings db' = session_bindings db" by (simp add: db' db2 db1(1) set_account_def)
    ultimately show thesis
      by (intro that [of s a staff]) (simp_all add: act found db' db2 pair token_pair_def, simp_all add: s)
  qed
qed

text \<open>
  The access token a login returns resolves to the new session and its account until the
  access time has run out, and not afterwards.
\<close>

theorem login_resolves:
  assumes run: "login C cfg emp pin dev lab per now req dr db = (Inr pair, db')"
    and fresh: "fresh_draws C dr db"
  shows "(\<exists>s a. resolve_access_session C (access_token pair) t db' = Inr (s, a)
       \<and> se_id s = sp_session_id pair \<and> se_account_id s = ac_id a \<and> se_auth_version s = ac_auth_version a)
    = (t < now + seconds (access_ttl_seconds cfg))"
proof (rule login_found [OF run fresh])
  fix s a staff
  assume tok: "access_token pair = dr_access dr" "sp_session_id pair = se_id s" "dr_access dr \<noteq> []"
    and row: "find_row se_access_token_hash (sha256 C (dr_access dr)) (sessions db') = Some s"
    and s: "se_access_expires_at s = now + seconds (access_ttl_seconds cfg)" "se_revoked_at s = None"
      "se_account_id s = ac_id a" "se_auth_version s = ac_auth_version a"
    and act: "find_account (ac_id a) db' = Some a" "find_staff (ac_staff_member_id a) db' = Some staff"
      "st_is_active staff" "ac_status a = Active"
  show ?thesis
  proof
    assume "t < now + seconds (access_ttl_seconds cfg)"
    then have "resolve_access_session C (dr_access dr) t db' = Inr (s, a)"
      using row tok act s by (intro resolve_ok) simp_all
    then show "\<exists>s a. resolve_access_session C (access_token pair) t db' = Inr (s, a)
        \<and> se_id s = sp_session_id pair \<and> se_account_id s = ac_id a \<and> se_auth_version s = ac_auth_version a"
      using tok s by auto
  next
    assume "\<exists>s a. resolve_access_session C (access_token pair) t db' = Inr (s, a)
        \<and> se_id s = sp_session_id pair \<and> se_account_id s = ac_id a \<and> se_auth_version s = ac_auth_version a"
    then obtain s1 a1 where "resolve_access_session C (dr_access dr) t db' = Inr (s1, a1)" by (auto simp: tok)
    then have "find_row se_access_token_hash (sha256 C (dr_access dr)) (sessions db') = Some s1"
      "t < se_access_expires_at s1" by (rule resolve_Inr)+
    with row s show "t < now + seconds (access_ttl_seconds cfg)" by simp
  qed
qed

definition example_draws1 :: session_draws where
  "example_draws1 = \<lparr>dr_access = ''access-1'', dr_renewal = ''renewal-1'', dr_session_id = 11, dr_family = 12,
     dr_salt = ''s''\<rparr>"

definition example_login :: "session_token_pair result \<times> db" where
  "example_login = login plain_crypto (default_settings ''pepper'') ''E-100'' ''q7rt'' ''device-0123456789''
     ''Desk'' False 100 ''r'' example_draws1 example_db"

definition example_draws2 :: session_draws where
  "example_draws2 = \<lparr>dr_access = ''access-2'', dr_renewal = ''renewal-2'', dr_session_id = 13, dr_family = 14,
     dr_salt = ''s''\<rparr>"

definition example_renewal :: "session_token_pair result \<times> db" where
  "example_renewal = renew_session plain_crypto (default_settings ''pepper'') ''renewal-1''
     ''device-0123456789'' 300 ''r'' example_draws2 (snd example_login)"

lemma example_runs:
  "case example_login of (r1, db1) \<Rightarrow>
     is_ok r1 \<and> tokens_wf db1 \<and> fresh_draws plain_crypto example_draws2 db1
     \<and> (case renew_session plain_crypto (default_settings ''pepper'') ''renewal-1''
           ''device-0123456789'' 300 ''r'' example_draws2 db1 of (r2, db2) \<Rightarrow>
          is_ok r2 \<and> tokens_wf db2 \<and> renewal_history db2 \<noteq> []
          \<and> rh_token_hash (hd (renewal_history db2)) = ''renewal-1''
          \<and> find_session (rh_session_id (hd (renewal_history db2))) db2 \<noteq> None)"
  by code_simp

lemma example_login_ok: "is_ok (fst example_login)"
  using example_runs by (simp add: split_beta)

lemma example_renewal_ok:
  "is_ok (fst example_renewal) \<and> tokens_wf (snd example_login) \<and> fresh_draws plain_crypto example_draws2 (snd example_login)"
  using example_runs by (simp add: split_beta example_renewal_def)

lemma login_resolves_witness:
  "\<exists>pair. fst example_login = Inr pair \<and>
     (\<exists>s a. resolve_access_session plain_crypto (access_token pair) 200 (snd example_login) = Inr (s, a))"
proof -
  obtain pair where run: "login plain_crypto (default_settings ''pepper'') ''E-100'' ''q7rt''
      ''device-0123456789'' ''Desk'' False 100 ''r'' example_draws1 example_db = (Inr pair, snd example_login)"
    using example_login_ok by (cases "fst example_login") (auto simp: example_login_def prod_eq_iff)
  have "fresh_draws plain_crypto example_draws1 example_db" by (simp add: fresh_draws_def renewal_hashes_def
      example_db_def empty_db_def)
  from login_resolves [OF run this, of 200]
  have "\<exists>s a. resolve_access_session plain_crypto (access_token pair) 200 (snd example_login) = Inr (s, a)"
    by (auto simp: default_settings_def seconds_def)
  moreover have "fst example_login = Inr pair"
    using arg_cong [OF run, of fst] by (simp only: example_login_def fst_conv)
  ultimately show ?thesis by blast
qed

text \<open>A session whose tokens are replaced by fresh ones, the old renewal token remembered.\<close>

lemma tokens_wf_rotate:
  assumes wf: "tokens_wf db" and cur: "current \<in> set (sessions db)" and id: "se_id new = se_id current"
    and fresh: "se_access_token_hash new \<notin> se_access_token_hash ` set (sessions db)"
      "se_renewal_token_hash new \<notin> set (renewal_hashes db)"
  shows "tokens_wf (put_session new (remember_renewal current now db))"
proof -
  have ids: "distinct (map se_id (sessions db))" and acc: "distinct (map se_access_token_hash (sessions db))"
    and ren: "distinct (map se_renewal_token_hash (sessions db) @ map rh_token_hash (renewal_history db))"
    using wf by (auto simp: tokens_wf_def renewal_hashes_def)
  let ?rows = "update_rows (\<lambda>x. se_id x = se_id current) (\<lambda>_. new) (sessions db)"
  let ?hist = "map rh_token_hash (renewal_history db)"
  have "distinct (map se_id ?rows)" using ids id by (simp add: map_update_rows)
  moreover have "distinct (map se_access_token_hash ?rows)"
    using map_replace_distinct [OF ids, of se_access_token_hash "[]" new current "se_id current"] acc cur fresh(1)
    by simp
  moreover have "distinct ((map se_renewal_token_hash ?rows @ ?hist) @ [se_renewal_token_hash current])"
  proof -
    have nf: "se_renewal_token_hash new \<notin> set (map se_renewal_token_hash (sessions db) @ ?hist)"
      using fresh(2) by (simp add: renewal_hashes_def)
    have r: "distinct (map se_renewal_token_hash ?rows @ ?hist)"
      "set (map se_renewal_token_hash ?rows)
        = insert (se_renewal_token_hash new) (se_renewal_token_hash ` set (sessions db) - {se_renewal_token_hash current})"
      using map_replace_distinct [OF ids ren nf cur refl] by blast+
    have "se_renewal_token_hash current \<in> set (map se_renewal_token_hash (sessions db))" using cur by simp
    then have "se_renewal_token_hash current \<noteq> se_renewal_token_hash new"
      "se_renewal_token_hash current \<notin> set ?hist"
      using nf ren by (metis UnI1 set_append, metis IntI distinct_append empty_iff)
    with r(2) have "se_renewal_token_hash current \<notin> set (map se_renewal_token_hash ?rows @ ?hist)" by simp
    then show ?thesis unfolding distinct_append using r(1) by simp
  qed
  ultimately show ?thesis
    by (simp add: tokens_wf_def renewal_hashes_def remember_renewal_def id)
qed

text \<open>The state after a renewal.\<close>

lemma renewed_rows:
  assumes run: "renew_session C cfg token dev now req dr db = (Inr pair, db')"
    and wf: "tokens_wf db" and fresh: "fresh_draws C dr db"
  obtains current a staff new where
    "current \<in> set (sessions db)" "se_renewal_token_hash current = sha256 C token"
    "find_account (se_account_id current) db' = Some a" "find_staff (ac_staff_member_id a) db' = Some staff"
    "st_is_active staff" "ac_status a = Active" "se_revoked_at current = None" "se_auth_version current = ac_auth_version a"
    "new = rotate_tokens cfg current (se_auth_version current) (sha256 C (dr_access dr)) (sha256 C (dr_renewal dr)) now"
    "set (sessions db') = insert new (set (sessions db) - {current})"
    "find_row se_access_token_hash (sha256 C (dr_access dr)) (sessions db') = Some new"
    "find_row rh_token_hash (sha256 C token) (renewal_history db')
       = Some \<lparr>rh_session_id = se_id current, rh_renewal_family_id = se_renewal_family_id current,
           rh_token_hash = sha256 C token, rh_rotated_at = now,
           rh_expires_at = se_renewal_expires_at current, rh_reuse_detected_at = None\<rparr>"
    "find_session (se_id current) db' = Some new" "accounts db' = accounts db" "staff_members db' = staff_members db"
    "access_token pair = dr_access dr" "renewal_token pair = dr_renewal dr" "sp_session_id pair = se_id current"
    "dr_access dr \<noteq> []" "token \<noteq> []" "tokens_wf db'" "dr_renewal dr \<noteq> []"
    "hash_device_id C dev (pepper_of cfg) = Inr (se_device_id_hash current)"
proof (rule renew_Inr [OF run])
  fix current a staff ev new
  assume tok: "token \<noteq> []" and dr: "dr_access dr \<noteq> []" "dr_renewal dr \<noteq> []"
    and cur: "find_row se_renewal_token_hash (sha256 C token) (sessions db) = Some current"
    and acct: "find_account (se_account_id current) db = Some a" "find_staff (ac_staff_member_id a) db = Some staff"
      "st_is_active staff" "ac_status a = Active"
    and live: "se_revoked_at current = None" "se_auth_version current = ac_auth_version a"
    and new: "new = rotate_tokens cfg current (se_auth_version current) (sha256 C (dr_access dr))
      (sha256 C (dr_renewal dr)) now"
    and db': "db' = log_event ev (put_session new (remember_renewal current now db))"
    and pair: "pair = token_pair new a staff (dr_access dr) (dr_renewal dr)"
    and device: "hash_device_id C dev (pepper_of cfg) = Inr (se_device_id_hash current)"
  note cur2 = find_row_SomeD [OF cur]
  have ids: "distinct (map se_id (sessions db))" and acc: "distinct (map se_access_token_hash (sessions db))"
    and ren: "distinct (map se_renewal_token_hash (sessions db) @ map rh_token_hash (renewal_history db))"
    using wf by (auto simp: tokens_wf_def renewal_hashes_def)
  have rows: "sessions db' = update_rows (\<lambda>x. se_id x = se_id current) (\<lambda>_. new) (sessions db)"
    by (simp add: db' new)
  have hist: "renewal_history db' = renewal_history db @
     [\<lparr>rh_session_id = se_id current, rh_renewal_family_id = se_renewal_family_id current,
       rh_token_hash = sha256 C token, rh_rotated_at = now, rh_expires_at = se_renewal_expires_at current,
       rh_reuse_detected_at = None\<rparr>]" (is "_ = _ @ [?h]")
    using cur2 by (simp add: db' remember_renewal_def set_session_def)
  have set': "set (sessions db') = insert new (set (sessions db) - {current})"
    unfolding rows by (rule set_replace [OF ids]) (use cur2 in auto)
  have found_access: "find_row se_access_token_hash (sha256 C (dr_access dr)) (sessions db') = Some new"
    unfolding rows by (rule find_row_replace [OF ids acc, of current]) (use cur2 fresh in \<open>auto simp: new fresh_draws_def\<close>)
  have "sha256 C token \<notin> rh_token_hash ` set (renewal_history db)"
    using ren cur2 by (auto simp: disjoint_iff)
  then have found_hist: "find_row rh_token_hash (sha256 C token) (renewal_history db') = Some ?h"
    unfolding hist by (intro find_row_fresh) auto
  have found_id: "find_session (se_id current) db' = Some new"
    using find_row_distinct [OF ids, of current] cur2
    by (simp add: rows find_update_rows new)
  have "tokens_wf db'"
    using tokens_wf_rotate [OF wf, of current new now] cur2 fresh
    by (simp add: db' new fresh_draws_def tokens_wf_def renewal_hashes_def)
  then show thesis
    by (rule that [of current a staff new, rotated -3])
      (use cur2 acct live new set' found_access found_hist found_id tok dr device in
        \<open>simp_all add: db' pair token_pair_def\<close>)
qed

text \<open>The event of a renewal is accepted by the log, whatever the state.\<close>

lemma renewal_event:
  obtains f where "\<And>x. append_audit (AuditEventInput (Some a) (Some s) ''auth.session_renewed'' Success req
      ''session'' (Some sid) [(''persistent'', JBool b)]) x = (Inr (), log_event (f x) x)"
proof -
  have "\<exists>ev. append_audit (AuditEventInput (Some a) (Some s) ''auth.session_renewed'' Success req
      ''session'' (Some sid) [(''persistent'', JBool b)]) x = (Inr (), log_event ev x)" for x
    using append_event_exists [OF persistent_events(2)] by fastforce
  then show thesis using that by metis
qed

text \<open>The renewal token of a session renews it from its device until its time has run out.\<close>

lemma renew_ok:
  assumes cur: "find_row se_renewal_token_hash (sha256 C token) (sessions db) = Some current" "token \<noteq> []"
    and acct: "find_account (se_account_id current) db = Some a" "find_staff (ac_staff_member_id a) db = Some staff"
      "st_is_active staff" "ac_status a = Active"
    and live: "se_revoked_at current = None" "se_auth_version current = ac_auth_version a"
    and device: "hash_device_id C dev (pepper_of cfg) = Inr (se_device_id_hash current)"
    and drawn: "dr_access dr \<noteq> []" "dr_renewal dr \<noteq> []"
  shows "is_ok (fst (renew_session C cfg token dev now req dr db)) \<longleftrightarrow> now < se_renewal_expires_at current"
proof -
  obtain f where "\<And>x. append_audit (AuditEventInput (Some (ac_id a)) (Some (ac_staff_member_id a))
      ''auth.session_renewed'' Success req ''session'' (Some (se_id current))
      [(''persistent'', JBool (se_persistent current))]) x = (Inr (), log_event (f x) x)"
    using renewal_event [of "ac_id a" "ac_staff_member_id a" req "se_id current" "se_persistent current"] by blast
  then show ?thesis
    using assms
    by (simp add: renew_session_def hash_token_def account_for_session_def require_active_def
        issue_credential_def and_then_def Let_def is_ok_def)
qed

text \<open>
  C8. A renewal replaces both tokens of the session. Every access token that resolved to it
  stops resolving at once, and the new one resolves until its time has run out. The renewal
  token that was used renews nothing any more, from no device and at no time, and is recorded as
  retired; the new one renews the session, from the same device, until the renewal's own
  time has run out, which the renewal has extended only if the session is persistent.
\<close>

theorem renewal_rotates:
  assumes run: "renew_session C cfg token dev now req dr db = (Inr pair, db')"
    and wf: "tokens_wf db" and fresh: "fresh_draws C dr db"
  shows "(\<exists>s a. resolve_access_session C (access_token pair) t db' = Inr (s, a) \<and> se_id s = sp_session_id pair)
      = (t < now + seconds (access_ttl_seconds cfg))
    \<and> (\<forall>old t0 s a. resolve_access_session C old t0 db = Inr (s, a) \<and> se_id s = sp_session_id pair
         \<longrightarrow> \<not> is_ok (resolve_access_session C old t db'))
    \<and> (\<exists>hist \<in> set (renewal_history db'). rh_token_hash hist = sha256 C token
         \<and> rh_session_id hist = sp_session_id pair)
    \<and> (\<forall>dev' t' req' dr'. \<not> is_ok (fst (renew_session C cfg token dev' t' req' dr' db')))
    \<and> (\<exists>s \<in> set (sessions db). se_renewal_token_hash s = sha256 C token \<and> se_id s = sp_session_id pair
         \<and> (\<forall>req' dr'. dr_access dr' \<noteq> [] \<and> dr_renewal dr' \<noteq> [] \<longrightarrow>
              is_ok (fst (renew_session C cfg (renewal_token pair) dev t req' dr' db'))
              = (t < (if se_persistent s then now + seconds (persistent_renewal_ttl_seconds cfg)
                      else se_renewal_expires_at s))))"
proof (rule renewed_rows [OF run wf fresh], intro conjI)
  fix current a staff new
  assume cur: "current \<in> set (sessions db)"
    and act: "find_account (se_account_id current) db' = Some a" "find_staff (ac_staff_member_id a) db' = Some staff"
      "st_is_active staff" "ac_status a = Active" "se_revoked_at current = None" "se_auth_version current = ac_auth_version a"
    and new: "new = rotate_tokens cfg current (se_auth_version current) (sha256 C (dr_access dr))
      (sha256 C (dr_renewal dr)) now"
    and set': "set (sessions db') = insert new (set (sessions db) - {current})"
    and row: "find_row se_access_token_hash (sha256 C (dr_access dr)) (sessions db') = Some new"
    and hist: "find_row rh_token_hash (sha256 C token) (renewal_history db')
       = Some \<lparr>rh_session_id = se_id current, rh_renewal_family_id = se_renewal_family_id current,
           rh_token_hash = sha256 C token, rh_rotated_at = now,
           rh_expires_at = se_renewal_expires_at current, rh_reuse_detected_at = None\<rparr>"
    and pair: "access_token pair = dr_access dr" "sp_session_id pair = se_id current" "dr_access dr \<noteq> []"
    and renewal: "renewal_token pair = dr_renewal dr" "dr_renewal dr \<noteq> []" "tokens_wf db'" "token \<noteq> []"
      "se_renewal_token_hash current = sha256 C token"
      "hash_device_id C dev (pepper_of cfg) = Inr (se_device_id_hash current)"
  have ren: "distinct (map se_renewal_token_hash (sessions db') @ map rh_token_hash (renewal_history db'))"
    using renewal(3) by (simp add: tokens_wf_def renewal_hashes_def)
  show "\<forall>dev' t' req' dr'. \<not> is_ok (fst (renew_session C cfg token dev' t' req' dr' db'))"
  proof (intro allI notI)
    fix dev' t' req' dr'
    assume "is_ok (fst (renew_session C cfg token dev' t' req' dr' db'))"
    then obtain p db2 where again: "renew_session C cfg token dev' t' req' dr' db' = (Inr p, db2)"
      by (cases "renew_session C cfg token dev' t' req' dr' db'"; cases "fst (renew_session C cfg token dev' t' req' dr' db')")
        (auto simp: is_ok_def)
    obtain s where "find_row se_renewal_token_hash (sha256 C token) (sessions db') = Some s"
      by (rule renew_Inr [OF again])
    with ren show False using find_row_SomeD [OF hist] by (force simp: disjoint_iff dest!: find_row_SomeD)
  qed
  have found_new: "find_row se_renewal_token_hash (sha256 C (dr_renewal dr)) (sessions db') = Some new"
    using find_row_distinct [of se_renewal_token_hash "sessions db'" new] ren set' by (simp add: new rotate_tokens_def)
  show "\<exists>s \<in> set (sessions db). se_renewal_token_hash s = sha256 C token \<and> se_id s = sp_session_id pair
         \<and> (\<forall>req' dr'. dr_access dr' \<noteq> [] \<and> dr_renewal dr' \<noteq> [] \<longrightarrow>
              is_ok (fst (renew_session C cfg (renewal_token pair) dev t req' dr' db'))
              = (t < (if se_persistent s then now + seconds (persistent_renewal_ttl_seconds cfg)
                      else se_renewal_expires_at s)))"
    using cur pair renewal renew_ok [OF found_new renewal(2), of a staff dev cfg] act
    by (intro bexI [of _ current]) (simp_all add: new rotate_tokens_def)
  have exp: "se_access_expires_at new = now + seconds (access_ttl_seconds cfg)" by (simp add: new rotate_tokens_def)
  show "(\<exists>s a. resolve_access_session C (access_token pair) t db' = Inr (s, a) \<and> se_id s = sp_session_id pair)
      = (t < now + seconds (access_ttl_seconds cfg))"
  proof
    assume "t < now + seconds (access_ttl_seconds cfg)"
    then have "resolve_access_session C (dr_access dr) t db' = Inr (new, a)"
      using act pair row exp by (intro resolve_ok) (simp_all add: new)
    then show "\<exists>s a. resolve_access_session C (access_token pair) t db' = Inr (s, a) \<and> se_id s = sp_session_id pair"
      using pair by (intro exI [of _ new] exI [of _ a]) (simp add: new)
  next
    assume "\<exists>s a. resolve_access_session C (access_token pair) t db' = Inr (s, a) \<and> se_id s = sp_session_id pair"
    then obtain s1 a1 where r: "resolve_access_session C (dr_access dr) t db' = Inr (s1, a1)" by (auto simp: pair)
    from resolve_Inr(2) [OF r] resolve_Inr(7) [OF r] row exp
    show "t < now + seconds (access_ttl_seconds cfg)" by simp
  qed
  show "\<exists>hist \<in> set (renewal_history db'). rh_token_hash hist = sha256 C token
         \<and> rh_session_id hist = sp_session_id pair"
    using find_row_SomeD [OF hist] pair by (intro bexI [rotated]) auto
  show "\<forall>old t0 s a. resolve_access_session C old t0 db = Inr (s, a) \<and> se_id s = sp_session_id pair
         \<longrightarrow> \<not> is_ok (resolve_access_session C old t db')"
  proof (intro allI impI)
    fix old t0 s a1
    assume r: "resolve_access_session C old t0 db = Inr (s, a1) \<and> se_id s = sp_session_id pair"
    have inj: "inj_on se_id (set (sessions db))" "inj_on se_access_token_hash (set (sessions db))"
      using wf by (simp_all add: tokens_wf_def distinct_map)
    from r have res: "resolve_access_session C old t0 db = Inr (s, a1)" by simp
    have s: "s = current" "se_access_token_hash s = sha256 C old"
      using r resolve_Inr(3) [OF res] cur inj(1) pair(2)
        find_row_SomeD [OF resolve_Inr(2) [OF res]] by (auto dest: inj_onD)
    have "se_access_token_hash x \<noteq> sha256 C old" if "x \<in> set (sessions db')" for x
    proof
      assume x: "se_access_token_hash x = sha256 C old"
      from that set' consider "x = new" | "x \<in> set (sessions db)" "x \<noteq> current" by auto
      then show False
      proof cases
        case 1
        with x s imageI [OF cur, of se_access_token_hash] fresh show False
          by (simp add: new fresh_draws_def)
      next
        case 2
        then show False using inj_onD [OF inj(2), of x current] x s cur by simp
      qed
    qed
    then have "find_row se_access_token_hash (sha256 C old) (sessions db') = None" by (auto simp: find_row_None_iff)
    then show "\<not> is_ok (resolve_access_session C old t db')"
      by (cases "old = []") (auto simp: resolve_access_session_def hash_token_def)
  qed
qed

lemma renewal_rotates_witness:
  "\<exists>pair. fst example_renewal = Inr pair
     \<and> (\<exists>hist \<in> set (renewal_history (snd example_renewal)). rh_session_id hist = sp_session_id pair)"
proof -
  obtain pair where ok: "fst example_renewal = Inr pair"
    using example_renewal_ok by (cases "fst example_renewal") auto
  then have run: "renew_session plain_crypto (default_settings ''pepper'') ''renewal-1''
     ''device-0123456789'' 300 ''r'' example_draws2 (snd example_login) = (Inr pair, snd example_renewal)"
    by (simp only: example_renewal_def prod_eq_iff fst_conv snd_conv)
  from renewal_rotates [OF run, of 0] example_renewal_ok ok show ?thesis by blast
qed

section \<open>Reuse of a retired renewal token\<close>

text \<open>
  C9. A retired renewal token that is presented again is refused, from any device and at any
  time, and takes its whole family with it: afterwards no access token resolves to a session
  of that family.
\<close>

theorem renewal_reuse_ends_family:
  assumes wf: "tokens_wf db" and hist: "hist \<in> set (renewal_history db)" "rh_token_hash hist = sha256 C token"
    and tok: "token \<noteq> []" and current: "find_session (rh_session_id hist) db = Some current"
    and run: "renew_session C cfg token dev now req dr db = (r, db')"
  shows "r = Inl SessionReauthenticationRequired
    \<and> (\<forall>s \<in> set (sessions db'). se_renewal_family_id s = se_renewal_family_id current \<longrightarrow> se_revoked_at s \<noteq> None)
    \<and> (\<forall>access t s a. resolve_access_session C access t db' = Inr (s, a)
         \<longrightarrow> se_renewal_family_id s \<noteq> se_renewal_family_id current)"
proof -
  let ?h = "sha256 C token"
  have d: "distinct (map se_renewal_token_hash (sessions db) @ map rh_token_hash (renewal_history db))"
    using wf by (simp add: tokens_wf_def renewal_hashes_def)
  have "?h \<notin> se_renewal_token_hash ` set (sessions db)" using d hist by (force simp: disjoint_iff)
  then have "find_row se_renewal_token_hash ?h (sessions db) = None" by (force simp: find_row_None_iff)
  then have run': "renewal_reused ?h now req db = (r, db')" using run tok by (simp add: renew_session_def)
  have found: "find_row rh_token_hash ?h (renewal_history db) = Some hist"
    using find_row_distinct [of rh_token_hash "renewal_history db" hist] d hist by simp
  let ?fam = "se_renewal_family_id current"
  have main: "r = Inl SessionReauthenticationRequired
    \<and> sessions db' = update_rows (live_in_family ?fam) (mark_revoked now ''renewal_reuse'') (sessions db)"
  proof (cases "account_for_session current db")
    case None
    with run' found current show ?thesis by (auto simp: renewal_reused_def Let_def revoke_family_def)
  next
    case (Some a)
    have "\<exists>ev. append_audit (AuditEventInput (Some (ac_id a)) (Some (ac_staff_member_id a)) ''auth.session_revoked''
        Failed req ''session'' (Some (se_id current)) [(''reason'', JStr ''renewal_reuse'')]) x
      = (Inr (), log_event ev x)" for x
      using append_event_exists [OF session_events(1)] by fastforce
    then obtain f where "append_audit (AuditEventInput (Some (ac_id a)) (Some (ac_staff_member_id a))
        ''auth.session_revoked'' Failed req ''session'' (Some (se_id current)) [(''reason'', JStr ''renewal_reuse'')]) x
      = (Inr (), log_event (f x) x)" for x by metis
    with run' found current Some show ?thesis by (auto simp: renewal_reused_def Let_def revoke_family_def)
  qed
  then have dead: "\<forall>s \<in> set (sessions db'). se_renewal_family_id s = ?fam \<longrightarrow> se_revoked_at s \<noteq> None"
    by (auto simp: set_update_rows live_in_family_def)
  moreover have "se_renewal_family_id s \<noteq> ?fam" if "resolve_access_session C access t db' = Inr (s, a)" for access t s a
    using resolve_Inr(3,6) [OF that] dead by blast
  ultimately show ?thesis using main by blast
qed

lemma renewal_reuse_ends_family_witness:
  "fst (renew_session plain_crypto (default_settings ''pepper'') ''renewal-1'' ''stolen'' 400 ''r''
      example_draws2 (snd example_renewal)) = Inl SessionReauthenticationRequired"
proof -
  let ?db = "snd example_renewal"
  define hist where "hist = hd (renewal_history ?db)"
  have h: "renewal_history ?db \<noteq> []" "rh_token_hash hist = ''renewal-1''" "tokens_wf ?db"
    "find_session (rh_session_id hist) ?db \<noteq> None"
    using example_runs by (simp_all add: split_beta example_renewal_def hist_def)
  then obtain current where "find_session (rh_session_id hist) ?db = Some current" by auto
  moreover have "hist \<in> set (renewal_history ?db)" "rh_token_hash hist = sha256 plain_crypto ''renewal-1''"
    using h by (simp_all add: hist_def plain_crypto_def)
  ultimately show ?thesis
    using renewal_reuse_ends_family [OF h(3), of hist plain_crypto "''renewal-1''" current]
    by (metis list.distinct(1) prod.collapse)
qed

section \<open>Ending all sessions of an account\<close>

text \<open>No session of an account is ahead of the account's version.\<close>

definition versions_ok :: "db \<Rightarrow> bool" where
  "versions_ok db \<longleftrightarrow> (\<forall>s \<in> set (sessions db). \<forall>a \<in> set (accounts db).
     ac_id a = se_account_id s \<longrightarrow> se_auth_version s \<le> ac_auth_version a)"

inductive ends_sessions :: "crypto \<Rightarrow> uuid \<Rightarrow> db \<Rightarrow> db \<Rightarrow> bool" for C aid where
  by_change: "change_account_role_or_status who aid r st now req db = (Inr b, db') \<Longrightarrow> ends_sessions C aid db db'"
| by_reset: "reset_account_pin C who aid now req salt draws db = (Inr tp, db') \<Longrightarrow> ends_sessions C aid db db'"
| by_unlock: "unlock_account who aid now req db = (Inr b, db') \<Longrightarrow> ends_sessions C aid db db'"
| by_revocation: "revoke_account_sessions who aid ''all'' None now req db = (Inr ids, db') \<Longrightarrow> ends_sessions C aid db db'"
| by_logout: "logout_all aid now req db = (Inr n, db') \<Longrightarrow> ends_sessions C aid db db'"

text \<open>The account's version is raised and its session rows keep account and version.\<close>

definition outdated :: "uuid \<Rightarrow> db \<Rightarrow> db \<Rightarrow> bool" where
  "outdated aid db db' \<longleftrightarrow>
     (\<exists>a b. find_account aid db = Some a \<and> find_account aid db' = Some b \<and> ac_auth_version a < ac_auth_version b)
     \<and> (\<forall>s' \<in> set (sessions db'). \<exists>s \<in> set (sessions db).
          se_account_id s' = se_account_id s \<and> se_auth_version s' = se_auth_version s)"

lemma outdatedI:
  assumes "find_account aid db = Some a" "accounts db' = update_rows (\<lambda>x. ac_id x = aid) f (accounts db)"
    "\<And>x. ac_id x = aid \<Longrightarrow> ac_id (f x) = aid" "ac_auth_version (f a) = Suc (ac_auth_version a)"
    "\<And>s'. s' \<in> set (sessions db') \<Longrightarrow> \<exists>s \<in> set (sessions db).
       se_account_id s' = se_account_id s \<and> se_auth_version s' = se_auth_version s"
  shows "outdated aid db db'"
proof -
  have "ac_id a = aid" using find_row_SomeD [OF assms(1)] by simp
  then have "find_account aid db' = Some (f a)"
    using assms(1-3) by (simp add: find_update_rows)
  with assms(1,4) have "\<exists>a b. find_account aid db = Some a \<and> find_account aid db' = Some b
      \<and> ac_auth_version a < ac_auth_version b" by auto
  with assms(5) show ?thesis by (simp add: outdated_def)
qed

lemma outdated_revoked:
  assumes "find_account aid db = Some a" "ac_id b = aid" "ac_auth_version b = Suc (ac_auth_version a)"
    "db' = log_event ev (revoke_live_sessions aid now r (set_account aid (\<lambda>_. b) db))"
  shows "outdated aid db db'"
proof (rule outdatedI [OF assms(1)])
  show "accounts db' = update_rows (\<lambda>x. ac_id x = aid) (\<lambda>_. b) (accounts db)" by (simp add: assms(4))
  show "\<exists>s \<in> set (sessions db). se_account_id s' = se_account_id s \<and> se_auth_version s' = se_auth_version s"
    if "s' \<in> set (sessions db')" for s'
    using that by (auto simp: assms(4) revoke_live_sessions_def set_update_rows)
qed (use assms in simp_all)

lemma revoked_sessions_old:
  "s' \<in> set (sessions (revoke_live_sessions i now r db)) \<Longrightarrow>
   \<exists>s \<in> set (sessions db). se_account_id s' = se_account_id s \<and> se_auth_version s' = se_auth_version s"
  by (auto simp: revoke_live_sessions_def set_update_rows)

lemma ends_sessions_outdated:
  assumes "ends_sessions C aid db db'" "distinct (map ac_id (accounts db))"
  shows "outdated aid db db'"
  using assms
proof (induction rule: ends_sessions.induct)
  case (by_change who r st now req db b db')
  show ?case
  proof (rule change_account_Inr [OF by_change(1)])
    fix ev a rl st' db1
    assume a: "change_found aid db = Some a" "b = retarget a rl st' now"
      and db': "db1 = (if ac_role a \<noteq> rl \<or> st' = Deactivated
          then revoke_live_sessions aid now ''admin_action'' (put_account b db) else put_account b db)"
        "db' = log_event ev db1"
    have found: "find_account aid db = Some a" using a by_change(2) change_found_eq by simp
    then have id: "ac_id a = aid" by (auto dest: find_row_SomeD)
    have acc: "accounts db' = update_rows (\<lambda>x. ac_id x = aid) (\<lambda>_. b) (accounts db)"
      using a(2) id by (simp add: db')
    show "outdated aid db db'"
    proof (rule outdatedI [OF found acc])
      fix s' assume "s' \<in> set (sessions db')"
      then show "\<exists>s \<in> set (sessions db). se_account_id s' = se_account_id s \<and> se_auth_version s' = se_auth_version s"
        using revoked_sessions_old [of s' aid now "''admin_action''" "put_account b db"]
        by (auto simp: db' split: if_splits)
    qed (use id a(2) in simp_all)
  qed
next
  case (by_reset who now req salt draws db tp db')
  show ?case
  proof (rule reset_account_pin_Inr [OF by_reset(1)], goal_cases)
    case (1 ev a staff h)
    then have id: "ac_id a = aid" by (auto dest: find_row_SomeD)
    show ?case
      by (rule outdated_revoked [OF 1(1)]) (use 1(7) id in auto)
  qed
next
  case (by_unlock who now req db b db')
  show ?case
  proof (rule unlock_account_Inr [OF by_unlock(1)], goal_cases)
    case (1 ev a)
    then have id: "ac_id a = aid" by (auto dest: find_row_SomeD)
    show ?case
      by (rule outdated_revoked [OF 1(1)]) (use 1(3,4) id in \<open>auto simp: unlock_admin_account_def\<close>)
  qed
next
  case (by_revocation who now req db ids db')
  show ?case
  proof (rule revoke_account_sessions_Inr [OF by_revocation(1)], goal_cases)
    case (1 db1)
    then obtain a where "find_account aid db = Some a" by auto
    then show ?case
      by (rule outdatedI [where f = "\<lambda>a. a\<lparr>ac_auth_version := ac_auth_version a + 1\<rparr>"])
        (use 1(4,5) revoke_each_Inr [OF 1(1)] in \<open>auto simp: set_update_rows\<close>)
  qed
next
  case (by_logout now req db n db')
  show ?case
  proof (rule logout_all_Inr [OF by_logout(1)], goal_cases)
    case (1 a ev)
    then have id: "ac_id a = aid" by (auto dest: find_row_SomeD)
    show ?case
      by (rule outdated_revoked [OF 1(1)]) (use 1(2) id in auto)
  qed
qed

text \<open>
  C10. After a role change, a deactivation or reactivation, a PIN reset, an unlock, a
  revocation of all sessions or a logout everywhere, no access token issued before resolves to
  that account, however long it had to live.
\<close>

theorem sessions_ended:
  assumes "ends_sessions C aid db db'" "distinct (map ac_id (accounts db))" "versions_ok db"
  shows "resolve_access_session C token t db' = Inr (s, a) \<longrightarrow> ac_id a \<noteq> aid"
proof (intro impI notI)
  assume r: "resolve_access_session C token t db' = Inr (s, a)" and "ac_id a = aid"
  then have aid: "se_account_id s = aid" using resolve_Inr(5) by simp
  from ends_sessions_outdated [OF assms(1,2)] obtain a0 b where
    "find_account aid db = Some a0" "find_account aid db' = Some b" "ac_auth_version a0 < ac_auth_version b"
    and old: "\<exists>s0 \<in> set (sessions db). se_account_id s = se_account_id s0 \<and> se_auth_version s = se_auth_version s0"
    using resolve_Inr(3) [OF r] by (auto simp: outdated_def)
  moreover from this have "b = a" using resolve_Inr(4) [OF r] aid by simp
  ultimately show False
    using resolve_Inr(8) [OF r] assms(3) aid find_row_SomeD [of ac_id aid "accounts db" a0]
    by (fastforce simp: versions_ok_def)
qed

definition example_logout :: "nat result \<times> db" where
  "example_logout = logout_all 2 500 ''r'' (snd example_login)"

lemma example_logout_run:
  "case example_login of (r, db) \<Rightarrow> (case logout_all 2 500 ''r'' db of (n, db2) \<Rightarrow> n = Inr 1)
     \<and> map ac_id (accounts db) = [2] \<and> list_all (\<lambda>s. se_auth_version s \<le> 1) (sessions db)
     \<and> map ac_auth_version (accounts db) = [1]"
  by code_simp

lemma sessions_ended_witness:
  "fst example_logout = Inr 1 \<and>
   \<not> (\<exists>s. resolve_access_session plain_crypto ''access-1'' 600 (snd example_logout) = Inr (s, example_account))"
proof -
  have n: "fst example_logout = Inr 1" using example_logout_run by (simp add: example_logout_def split_beta)
  then have run: "logout_all 2 500 ''r'' (snd example_login) = (Inr 1, snd example_logout)"
    by (simp add: example_logout_def prod_eq_iff)
  have one: "map ac_id (accounts (snd example_login)) = [2]" "map ac_auth_version (accounts (snd example_login)) = [1]"
    "list_all (\<lambda>s. se_auth_version s \<le> 1) (sessions (snd example_login))"
    using example_logout_run by (simp_all add: split_beta)
  then have "versions_ok (snd example_login)"
    by (auto simp: versions_ok_def list_all_iff map_eq_Cons_conv)
  with one(1) have "\<And>s. resolve_access_session plain_crypto ''access-1'' 600 (snd example_logout) = Inr (s, example_account)
      \<longrightarrow> ac_id example_account \<noteq> 2"
    by (intro sessions_ended [OF by_logout [OF run]]) simp_all
  with n show ?thesis by (auto simp: example_account_def)
qed

section \<open>PIN change\<close>

text \<open>
  After a PIN change the new PIN, and no other, logs in; the account needs no further
  change; and of all its sessions only the one that changed the PIN is left, under a new token.
\<close>

theorem change_pin_effect:
  assumes run: "change_pin C cfg aid sid pin new_pin dev now req dr db = (Inr pair, db')"
    and sound: "argon_sound C" and ids: "distinct (map se_id (sessions db))"
  shows "(\<exists>b. find_account aid db' = Some b \<and> \<not> ac_must_change_pin b
        \<and> (\<forall>q. verify_pin C (ac_pin_hash b) q \<longleftrightarrow> normalize_pin q = normalize_pin new_pin))
    \<and> (\<forall>token t s a. resolve_access_session C token t db' = Inr (s, a) \<and> ac_id a = aid
         \<longrightarrow> se_id s = sid \<and> sha256 C token = sha256 C (access_token pair))"
proof (rule change_pin_Inr [OF run])
  fix a current staff h ev a' new p
  assume acct: "find_account aid db = Some a" and cur: "find_session sid db = Some current" "se_account_id current = aid"
    and v: "validate_new_pin new_pin (st_employee_number staff) = Inr p" "hash_pin C (dr_salt dr) p = Inr h"
    and a': "a' = a\<lparr>ac_pin_hash := h, ac_must_change_pin := False, ac_temporary_pin_expires_at := None,
       ac_auth_version := Suc (ac_auth_version a)\<rparr>"
    and new: "new = rotate_tokens cfg current (ac_auth_version a') (sha256 C (dr_access dr)) (sha256 C (dr_renewal dr)) now"
    and db': "db' = log_event ev (put_session new (remember_renewal current now (put_account a'
       (db\<lparr>sessions := update_rows (\<lambda>s. se_account_id s = aid \<and> se_id s \<noteq> sid \<and> se_revoked_at s = None)
            (mark_revoked now ''pin_changed'') (sessions db)\<rparr>))))"
    and pair: "pair = token_pair new a' staff (dr_access dr) (dr_renewal dr)"
  have id: "ac_id a = aid" "se_id current = sid" using acct cur(1) by (auto dest: find_row_SomeD)
  have "normalize_pin p = normalize_pin new_pin"
    using v(1) by (auto simp: validate_new_pin_Inr normalize_pin_idem)
  then have "verify_pin C h q \<longleftrightarrow> normalize_pin q = normalize_pin new_pin" for q
    using verify_hash_pin [OF sound v(2)] by simp
  moreover have "find_account aid db' = Some a'"
    using acct id(1) by (simp add: db' a' find_update_rows)
  ultimately have "\<exists>b. find_account aid db' = Some b \<and> \<not> ac_must_change_pin b
        \<and> (\<forall>q. verify_pin C (ac_pin_hash b) q \<longleftrightarrow> normalize_pin q = normalize_pin new_pin)"
    by (simp add: a')
  moreover have "se_id s = sid \<and> sha256 C token = sha256 C (access_token pair)"
    if r: "resolve_access_session C token t db' = Inr (s, b)" and b: "ac_id b = aid" for token t s b
  proof -
    note s = resolve_Inr(3) [OF r] resolve_Inr(5,6) [OF r] find_row_SomeD [OF resolve_Inr(2) [OF r]]
    have rows: "sessions db' = update_rows (\<lambda>s. se_id s = sid) (\<lambda>_. new)
        (update_rows (\<lambda>s. se_account_id s = aid \<and> se_id s \<noteq> sid \<and> se_revoked_at s = None)
            (mark_revoked now ''pin_changed'') (sessions db))"
      by (simp add: db' new id)
    have live: "se_account_id s = aid" "se_revoked_at s = None" using s(2,3) b by simp_all
    from s(1) have "s = new" unfolding rows
      by (elim in_update_rowsE) (use live in \<open>auto split: if_splits\<close>)
    with s show ?thesis by (simp add: new id pair token_pair_def)
  qed
  ultimately show ?thesis by blast
qed

definition example_pin_change :: "session_token_pair result \<times> db" where
  "example_pin_change = change_pin plain_crypto (default_settings ''pepper'') 2 11 ''q7rt'' ''mm42'' ''device-0123456789''
     300 ''r'' example_draws2 (snd example_login)"

lemma change_pin_succeeds:
  assumes "find_account aid db = Some a" "find_session sid db = Some cur" "se_account_id cur = aid"
    "hash_device_id C dev (pepper_of cfg) = Inr (se_device_id_hash cur)" "se_revoked_at cur = None"
    "now < se_renewal_expires_at cur" "se_auth_version cur = ac_auth_version a" "ac_status a = Active"
    "find_staff (ac_staff_member_id a) db = Some staff" "st_is_active staff" "verify_pin C (ac_pin_hash a) pin"
    "validate_new_pin new_pin (st_employee_number staff) = Inr p" "dr_access dr \<noteq> []" "dr_renewal dr \<noteq> []"
  shows "\<exists>pair db'. change_pin C cfg aid sid pin new_pin dev now req dr db = (Inr pair, db')"
proof -
  have "\<exists>ev. append_audit (AuditEventInput (Some (ac_id a)) (Some (ac_staff_member_id a)) ''auth.pin_changed''
      Success req ''account'' (Some (ac_id a)) []) x = (Inr (), log_event ev x)" for x
    using append_event_exists [OF session_events(4)] by fastforce
  then obtain f where f: "append_audit (AuditEventInput (Some (ac_id a)) (Some (ac_staff_member_id a)) ''auth.pin_changed''
      Success req ''account'' (Some (ac_id a)) []) x = (Inr (), log_event (f x) x)" for x by metis
  have "hash_pin C (dr_salt dr) p = Inr (argon_hash C (dr_salt dr) p)"
    using validate_new_pin_normal [OF assms(12)] by (simp add: hash_pin_def)
  with assms f show ?thesis by (simp add: change_pin_def Let_def)
qed

lemma example_pin_change_run:
  "case example_login of (r, db) \<Rightarrow> distinct (map se_id (sessions db))
     \<and> (case (find_account 2 db, find_session 11 db) of
         (Some a, Some cur) \<Rightarrow> se_account_id cur = 2
           \<and> hash_device_id plain_crypto ''device-0123456789'' ''pepper'' = Inr (se_device_id_hash cur)
           \<and> se_revoked_at cur = None \<and> 300 < se_renewal_expires_at cur \<and> se_auth_version cur = ac_auth_version a
           \<and> ac_status a = Active \<and> verify_pin plain_crypto (ac_pin_hash a) ''q7rt''
           \<and> find_staff (ac_staff_member_id a) db = Some example_staff
       | _ \<Rightarrow> False)"
  by code_simp

lemma example_pin_change_ok:
  "\<exists>pair. change_pin plain_crypto (default_settings ''pepper'') 2 11 ''q7rt'' ''mm42'' ''device-0123456789''
     300 ''r'' example_draws2 (snd example_login) = (Inr pair, snd example_pin_change)"
proof -
  from example_pin_change_run obtain a cur where
    "find_account 2 (snd example_login) = Some a" "find_session 11 (snd example_login) = Some cur"
    and c: "se_account_id cur = 2" "hash_device_id plain_crypto ''device-0123456789'' ''pepper'' = Inr (se_device_id_hash cur)"
      "se_revoked_at cur = None" "300 < se_renewal_expires_at cur" "se_auth_version cur = ac_auth_version a"
      "ac_status a = Active" "verify_pin plain_crypto (ac_pin_hash a) ''q7rt''"
      "find_staff (ac_staff_member_id a) (snd example_login) = Some example_staff"
    by (auto simp: split_beta split: option.splits)
  moreover have "validate_new_pin ''mm42'' (st_employee_number example_staff) = Inr ''MM42''"
    "st_is_active example_staff" "dr_access example_draws2 \<noteq> []" "dr_renewal example_draws2 \<noteq> []"
    "pepper_of (default_settings ''pepper'') = ''pepper''"
    by code_simp+
  ultimately obtain pair db' where "change_pin plain_crypto (default_settings ''pepper'') 2 11 ''q7rt'' ''mm42''
      ''device-0123456789'' 300 ''r'' example_draws2 (snd example_login) = (Inr pair, db')"
    using change_pin_succeeds [of 2 "snd example_login" a 11 cur plain_crypto "''device-0123456789''"
        "default_settings ''pepper''" 300 example_staff "''q7rt''" "''mm42''" "''MM42''" example_draws2 "''r''"]
    by auto
  then show ?thesis by (auto simp: example_pin_change_def)
qed

lemma change_pin_effect_witness:
  "\<exists>b. find_account 2 (snd example_pin_change) = Some b \<and> verify_pin plain_crypto (ac_pin_hash b) ''MM42''"
proof -
  obtain pair where run: "change_pin plain_crypto (default_settings ''pepper'') 2 11 ''q7rt'' ''mm42''
      ''device-0123456789'' 300 ''r'' example_draws2 (snd example_login) = (Inr pair, snd example_pin_change)"
    using example_pin_change_ok by blast
  have "distinct (map se_id (sessions (snd example_login)))" using example_pin_change_run by (simp add: split_beta)
  moreover have "normalize_pin ''MM42'' = normalize_pin ''mm42''" by code_simp
  ultimately show ?thesis using change_pin_effect [OF run plain_crypto_sound] by blast
qed

section \<open>The session tables stay well formed\<close>

text \<open>Tokens are unique, sessions belong to accounts, and none is ahead of its account.\<close>

definition session_wf :: "db \<Rightarrow> bool" where
  "session_wf db \<longleftrightarrow> identity_wf db \<and> tokens_wf db \<and> versions_ok db
     \<and> set (map se_account_id (sessions db)) \<subseteq> set (map ac_id (accounts db))"

inductive session_step :: "crypto \<Rightarrow> identity_settings \<Rightarrow> db \<Rightarrow> db \<Rightarrow> bool" for C cfg where
  logged_in: "login C cfg emp pin dev lab per now req dr db = (Inr pair, db') \<Longrightarrow> fresh_draws C dr db \<Longrightarrow>
    session_step C cfg db db'"
| renewed: "renew_session C cfg token dev now req dr db = (Inr pair, db') \<Longrightarrow> fresh_draws C dr db \<Longrightarrow>
    session_step C cfg db db'"
| renewal_refused: "renew_session C cfg token dev now req dr db = (Inl e, db') \<Longrightarrow> session_step C cfg db db'"
| revoked: "revoke_session aid sid now req db = (Inr n, db') \<Longrightarrow> session_step C cfg db db'"
| logged_out: "logout_all aid now req db = (Inr n, db') \<Longrightarrow> session_step C cfg db db'"
| pin_changed: "change_pin C cfg aid sid pin new_pin dev now req dr db = (Inr pair, db') \<Longrightarrow>
    fresh_draws C dr db \<Longrightarrow> session_step C cfg db db'"
| account: "account_step C db db' \<Longrightarrow> session_step C cfg db db'"

end
