(* ===== verification/SessionInvariant.thy ===== *)
theory SessionInvariant
  imports SessionRules
begin

text \<open>
  The invariant of the session tables: every committed step of the account and the session
  operations keeps tokens unique, every session attached to an account, and no session ahead
  of its account's version (which is what \<open>sessions_ended\<close> relies on).
\<close>

definition session_keys :: "access_session \<Rightarrow> uuid \<times> uuid \<times> nat \<times> bytes \<times> bytes" where
  "session_keys s = (se_id s, se_account_id s, se_auth_version s, se_access_token_hash s, se_renewal_token_hash s)"

definition accounts_grow :: "db \<Rightarrow> db \<Rightarrow> bool" where
  "accounts_grow db db' \<longleftrightarrow> ac_id ` set (accounts db) \<subseteq> ac_id ` set (accounts db')
     \<and> (\<forall>b \<in> set (accounts db'). ac_id b \<in> ac_id ` set (accounts db) \<longrightarrow>
          (\<exists>a \<in> set (accounts db). ac_id a = ac_id b \<and> ac_auth_version a \<le> ac_auth_version b))"

lemma accounts_grow_same: "accounts db' = accounts db \<Longrightarrow> accounts_grow db db'"
  by (auto simp: accounts_grow_def)

lemma accounts_grow_update:
  assumes rows: "accounts db' = update_rows p f (accounts db)"
    and f: "\<And>a. a \<in> set (accounts db) \<Longrightarrow> p a \<Longrightarrow> ac_id (f a) = ac_id a \<and> ac_auth_version a \<le> ac_auth_version (f a)"
  shows "accounts_grow db db'"
  unfolding accounts_grow_def
proof (intro conjI ballI impI subsetI)
  fix i assume "i \<in> ac_id ` set (accounts db)"
  then obtain a where a: "a \<in> set (accounts db)" "i = ac_id a" by auto
  then have "(if p a then f a else a) \<in> set (accounts db')" by (auto simp: rows set_update_rows)
  moreover have "ac_id (if p a then f a else a) = i" using a f by simp
  ultimately show "i \<in> ac_id ` set (accounts db')" by (metis imageI)
next
  fix b assume "b \<in> set (accounts db')"
  then obtain a where "a \<in> set (accounts db)" "b = (if p a then f a else a)"
    unfolding rows by (rule in_update_rowsE)
  then show "\<exists>a \<in> set (accounts db). ac_id a = ac_id b \<and> ac_auth_version a \<le> ac_auth_version b"
    using f by (intro bexI [of _ a]) auto
qed

lemma accounts_grow_put:
  assumes "identity_wf db" "find_account i db = Some a" "ac_id b = i" "ac_auth_version a \<le> ac_auth_version b"
    "accounts db' = update_rows (\<lambda>x. ac_id x = i) (\<lambda>_. b) (accounts db)"
  shows "accounts_grow db db'"
proof (rule accounts_grow_update [OF assms(5)])
  fix c assume c: "c \<in> set (accounts db)" "ac_id c = i"
  then have "c = a" using assms(1) distinct_account [OF _ assms(2)] by (simp add: identity_wf_def)
  then show "ac_id b = ac_id c \<and> ac_auth_version c \<le> ac_auth_version b" using assms(3,4) c by simp
qed

lemma accounts_grow_add: "accounts db' = accounts db @ [a] \<Longrightarrow> ac_id a \<notin> ac_id ` set (accounts db) \<Longrightarrow> accounts_grow db db'"
  by (auto simp: accounts_grow_def)

lemma map_session_keys:
  assumes "map session_keys ss' = map session_keys ss"
  shows "map se_id ss' = map se_id ss" "map se_access_token_hash ss' = map se_access_token_hash ss"
    "map se_renewal_token_hash ss' = map se_renewal_token_hash ss" "map se_account_id ss' = map se_account_id ss"
  using arg_cong [OF assms, of "map fst"] arg_cong [OF assms, of "map (fst \<circ> snd)"]
    arg_cong [OF assms, of "map (fst \<circ> snd \<circ> snd \<circ> snd)"] arg_cong [OF assms, of "map (snd \<circ> snd \<circ> snd \<circ> snd)"]
  by (simp_all add: session_keys_def comp_def)

lemma versions_ok_grow:
  assumes ok: "versions_ok db" and fk: "se_account_id ` set (sessions db) \<subseteq> ac_id ` set (accounts db)"
    and grow: "accounts_grow db db'"
    and old: "\<And>s'. s' \<in> set (sessions db') \<Longrightarrow> \<exists>s \<in> set (sessions db).
      se_account_id s' = se_account_id s \<and> se_auth_version s' = se_auth_version s"
  shows "versions_ok db'"
  unfolding versions_ok_def
proof (intro ballI impI)
  fix s' b assume s': "s' \<in> set (sessions db')" and b: "b \<in> set (accounts db')" "ac_id b = se_account_id s'"
  from old [OF s'] obtain s where s: "s \<in> set (sessions db)" "se_account_id s' = se_account_id s"
    "se_auth_version s' = se_auth_version s" by blast
  then have "ac_id b \<in> ac_id ` set (accounts db)" using fk b by auto
  with grow b(1) obtain a where "a \<in> set (accounts db)" "ac_id a = ac_id b" "ac_auth_version a \<le> ac_auth_version b"
    by (auto simp: accounts_grow_def)
  with ok s b(2) show "se_auth_version s' \<le> ac_auth_version b"
    unfolding versions_ok_def by fastforce
qed

lemma session_wf_keys:
  assumes wf: "session_wf db" and id: "identity_wf db'" and grow: "accounts_grow db db'"
    and keys: "map session_keys (sessions db') = map session_keys (sessions db)"
    and hist: "map rh_token_hash (renewal_history db') = map rh_token_hash (renewal_history db)"
  shows "session_wf db'"
proof -
  note k = map_session_keys [OF keys]
  have old: "\<exists>s \<in> set (sessions db). se_account_id s' = se_account_id s \<and> se_auth_version s' = se_auth_version s"
    if "s' \<in> set (sessions db')" for s'
  proof -
    have "session_keys s' \<in> set (map session_keys (sessions db))"
      using that by (simp flip: keys)
    then show ?thesis by (auto simp: session_keys_def)
  qed
  have fk: "se_account_id ` set (sessions db) \<subseteq> ac_id ` set (accounts db)" and ok: "versions_ok db"
    using wf by (simp_all add: session_wf_def)
  have "versions_ok db'" by (rule versions_ok_grow [OF ok fk grow old])
  moreover have "se_account_id ` set (sessions db') = se_account_id ` set (sessions db)"
    using arg_cong [OF k(4), of set] by simp
  then have "se_account_id ` set (sessions db') \<subseteq> ac_id ` set (accounts db')"
    using order_trans [OF fk] grow by (simp add: accounts_grow_def)
  moreover have "tokens_wf db'"
    using wf k hist by (simp add: session_wf_def tokens_wf_def renewal_hashes_def)
  ultimately show ?thesis using id by (simp add: session_wf_def)
qed

section \<open>Account steps\<close>

lemma map_keys_revoke:
  "(\<And>s. session_keys (f s) = session_keys s) \<Longrightarrow> map session_keys (update_rows p f ss) = map session_keys ss"
  by (simp add: map_update_rows)

lemma revoke_live_keys [simp]:
  "map session_keys (sessions (revoke_live_sessions i now r db)) = map session_keys (sessions db)"
  "renewal_history (revoke_live_sessions i now r db) = renewal_history db"
  by (auto simp: revoke_live_sessions_def session_keys_def intro!: map_keys_revoke)

lemma set_staff_simps [simp]:
  "accounts (set_staff i f db) = accounts db" "sessions (set_staff i f db) = sessions db"
  "renewal_history (set_staff i f db) = renewal_history db"
  by (simp_all add: set_staff_def)

lemma audit_admin_history: "audit_admin who act tt tid kvs req db = (Inr u, db') \<Longrightarrow> renewal_history db' = renewal_history db"
  by (auto dest: audit_admin_Inr)

lemma revoke_each_history: "revoke_each who now req ids db = (Inr u, db') \<Longrightarrow> renewal_history db' = renewal_history db"
proof (induction ids arbitrary: db)
  case (Cons i ids)
  then show ?case by (auto simp: and_then_eq_Inr dest!: audit_admin_history)
qed simp

text \<open>What an account step leaves of the session tables.\<close>

definition session_frame :: "db \<Rightarrow> db \<Rightarrow> bool" where
  "session_frame db db' \<longleftrightarrow> accounts_grow db db'
     \<and> map session_keys (sessions db') = map session_keys (sessions db)
     \<and> renewal_history db' = renewal_history db"

lemma session_frame_put:
  assumes "identity_wf db" "find_account i db = Some a" "ac_id b = i" "ac_auth_version a \<le> ac_auth_version b"
  shows "session_frame db (set_account i (\<lambda>_. b) db)"
  using accounts_grow_put [OF assms set_account_simps(2)] by (simp add: session_frame_def)

lemma session_frame_simps [simp]:
  "session_frame db (log_event ev x) = session_frame db x"
  "session_frame db (revoke_live_sessions i now r x) = session_frame db x"
  by (simp_all add: session_frame_def accounts_grow_def)

lemma admin_step_frame:
  assumes "admin_step C db db'" "identity_wf db"
  shows "session_frame db db'"
  using assms
proof (induction rule: admin_step.induct)
  case (staff_created who payload now req i db s db')
  then show ?case by (auto simp: session_frame_def intro: accounts_grow_same dest!: create_staff_Inr)
next
  case (staff_updated who sid payload now req db s db')
  then show ?case by (auto simp: session_frame_def intro: accounts_grow_same elim!: update_staff_Inr)
next
  case (account_created who sid r now req i salt draws t db tp db')
  show ?case
  proof (rule create_account_Inr [OF create_account_for_staff_Inr [OF account_created(1)]], goal_cases)
    case (1 ev staff a)
    then show ?case using account_created(2)
      by (auto simp: session_frame_def dest!: new_account_Inr intro: accounts_grow_add)
  qed
next
  case (bootstrapped sid now opid h i salt draws t db tp db')
  show ?case
    by (rule bootstrap_Inr [OF bootstrapped(1)]) (simp add: session_frame_def accounts_grow_def)
next
  case (changed who aid r st now req db b db')
  show ?case
  proof (rule change_account_Inr [OF changed(1)])
    fix ev a rl st' db1
    assume a: "change_found aid db = Some a" "b = retarget a rl st' now"
      and db': "db1 = (if ac_role a \<noteq> rl \<or> st' = Deactivated
          then revoke_live_sessions aid now ''admin_action'' (put_account b db) else put_account b db)"
        "db' = log_event ev db1"
    have found: "find_account aid db = Some a"
      using a changed(2) by (simp add: change_found_eq identity_wf_def)
    then have id: "ac_id a = aid" by (auto dest: find_row_SomeD)
    have "session_frame db (set_account aid (\<lambda>_. b) db)"
      by (rule session_frame_put [OF changed(2) found]) (use a(2) id in simp_all)
    with db' a(2) id show "session_frame db db'" by simp
  qed
next
  case (pin_reset who aid now req salt draws db tp db')
  show ?case
  proof (rule reset_account_pin_Inr [OF pin_reset(1)], goal_cases)
    case (1 ev a staff h)
    then have id: "ac_id a = aid" by (auto dest: find_row_SomeD)
    have "session_frame db (set_account aid (\<lambda>_. reset_failed_attempts (a\<lparr>ac_pin_hash := h,
        ac_must_change_pin := True, ac_temporary_pin_expires_at := Some (now + hours 24),
        ac_updated_at := now, ac_auth_version := ac_auth_version a + 1\<rparr>)) db)"
      by (rule session_frame_put [OF pin_reset(2) 1(1)]) (use id in simp_all)
    with 1(7) id show ?case by simp
  qed
next
  case (unlocked who aid now req db b db')
  show ?case
  proof (rule unlock_account_Inr [OF unlocked(1)], goal_cases)
    case (1 ev a)
    then have id: "ac_id b = aid" "ac_auth_version a \<le> ac_auth_version b"
      by (auto dest: find_row_SomeD simp: unlock_admin_account_def)
    from session_frame_put [OF unlocked(2) 1(1) this] 1(4) id show ?case by simp
  qed
next
  case (sessions_revoked who aid scope target now req db ids db')
  show ?case
  proof (rule revoke_account_sessions_Inr [OF sessions_revoked(1)], goal_cases)
    case (1 db1)
    have "accounts_grow db db'"
    proof (cases "scope = ''all''")
      case True
      with 1(4) show ?thesis
        by (intro accounts_grow_update [where p = "\<lambda>a. ac_id a = aid"
              and f = "\<lambda>a. a\<lparr>ac_auth_version := ac_auth_version a + 1\<rparr>"]) simp_all
    next
      case False
      with 1(4) show ?thesis by (intro accounts_grow_same) simp
    qed
    moreover have "map session_keys (sessions db') = map session_keys (sessions db)"
      using 1(5) revoke_each_Inr [OF 1(1)] by (auto simp: session_keys_def intro!: map_keys_revoke)
    moreover have "renewal_history db' = renewal_history db"
      using sessions_revoked(1) revoke_each_history audit_admin_history
      by (auto simp: revoke_account_sessions_def and_then_eq_Inr split: option.splits sum.splits if_splits
          dest!: revoke_each_history audit_admin_history)
    ultimately show ?case by (simp add: session_frame_def)
  qed
qed

lemma refused_frame:
  "refused (accounts x) db db' \<Longrightarrow> accounts_grow db x \<Longrightarrow> session_frame db db'"
  by (auto simp: refused_def session_frame_def accounts_grow_def)

lemma login_frame:
  assumes wf: "identity_wf db" and run: "verify_login_pin C emp pin now req salt db = (r, db')"
  shows "session_frame db db'"
proof -
  have put: "accounts_grow db (put_account b db)"
    if "login_account n db = Some (a, staff)" "ac_id b = ac_id a" "ac_auth_version b = ac_auth_version a" for n a staff b
  proof -
    have "find_account (ac_id a) db = Some a"
      using identity_wf_found [OF wf] login_account_Some [OF that(1)] by simp
    from accounts_grow_put [OF wf this that(2)] that(2,3) show ?thesis by simp
  qed
  show ?thesis
  proof (rule verify_login_pin_cases [of emp db C pin now req salt], goal_cases)
    case (1 db1)
    with run show ?thesis using refused_frame [OF 1(3)] accounts_grow_same by simp
  next
    case (2 stored staff db1)
    with run show ?thesis using refused_frame [OF 2(4) put [OF 2(1)]] by simp
  next
    case (3 stored staff db1)
    with run show ?thesis using refused_frame [OF 3(5) put [OF 3(1)]] by simp
  next
    case (4 stored staff a)
    then have "accounts_grow db (put_account a db)" by (intro put [OF 4(1)]) auto
    with 4 run show ?thesis by (simp add: session_frame_def)
  qed
qed

lemma account_step_frame: "account_step C db db' \<Longrightarrow> identity_wf db \<Longrightarrow> session_frame db db'"
  unfolding account_step_iff by (auto intro: admin_step_frame login_frame)

lemma session_wf_frame:
  "session_wf db \<Longrightarrow> identity_wf db' \<Longrightarrow> session_frame db db' \<Longrightarrow> session_wf db'"
  by (rule session_wf_keys) (simp_all add: session_frame_def)

section \<open>Session steps\<close>

lemma session_wf_log [simp]: "session_wf (log_event ev db) = session_wf db"
  by (simp add: session_wf_def tokens_wf_def versions_ok_def renewal_hashes_def)

text \<open>A new session of an account of the table.\<close>

lemma session_wf_new:
  assumes wf: "session_wf db" and a: "find_account (se_account_id s) db = Some a" "se_auth_version s = ac_auth_version a"
    and new: "se_id s \<notin> se_id ` set (sessions db)" "se_access_token_hash s \<notin> se_access_token_hash ` set (sessions db)"
      "se_renewal_token_hash s \<notin> set (renewal_hashes db)"
  shows "session_wf (db\<lparr>sessions := sessions db @ [s]\<rparr>)"
proof -
  have acc: "a \<in> set (accounts db)" "ac_id a = se_account_id s" using a(1) by (auto dest: find_row_SomeD)
  have "b = a" if "b \<in> set (accounts db)" "ac_id b = se_account_id s" for b
    using wf a(1) that distinct_account by (auto simp: session_wf_def identity_wf_def)
  then have "versions_ok (db\<lparr>sessions := sessions db @ [s]\<rparr>)"
    using wf a(2) by (auto simp: versions_ok_def session_wf_def)
  moreover have "tokens_wf (db\<lparr>sessions := sessions db @ [s]\<rparr>)"
    using wf new by (auto simp: tokens_wf_def renewal_hashes_def session_wf_def)
  moreover have "se_account_id s \<in> ac_id ` set (accounts db)" using acc by (metis imageI)
  ultimately show ?thesis using wf by (simp add: session_wf_def)
qed

lemma session_wf_login:
  assumes wf: "session_wf db" and run: "login C cfg emp pin dev lab per now req dr db = (Inr pair, db')"
    and fresh: "fresh_draws C dr db"
  shows "session_wf db'"
proof (rule login_Inr [OF run])
  fix a db1 db2 ev
  assume v: "verify_login_pin C emp pin now req (dr_salt dr) db = (Inr a, db1)"
    and c: "create_session C cfg a dev lab per now dr db1 = (Inr pair, db2)" and db': "db' = log_event ev db2"
  have id: "identity_wf db" using wf by (simp add: session_wf_def)
  have wf1: "session_wf db1"
    using session_wf_frame [OF wf identity_wf_login [OF id v] login_frame [OF id v]] .
  obtain stored where db1: "db1 = put_account a db" "stored \<in> set (accounts db)" "ac_id a = ac_id stored"
    using v by (auto elim!: verify_login_pin_Inr dest: login_account_Some)
  have found: "find_account (ac_id a) db1 = Some a"
    using db1 find_put_account [of "ac_id a" a db] by (cases "find_account (ac_id a) db") (auto simp: find_row_None_iff)
  show ?thesis
  proof (rule create_session_Inr [OF c], goal_cases)
    case (1 staff h s)
    then show ?case
      using session_wf_new [OF wf1, of s a] found fresh
      by (simp add: db' fresh_draws_def renewal_hashes_def db1(1))
  qed
qed

lemma session_wf_mark:
  assumes "session_wf db"
  shows "session_wf (db\<lparr>sessions := update_rows p (mark_revoked now r) (sessions db)\<rparr>)"
  by (rule session_wf_keys [OF assms])
    (use assms in \<open>auto simp: session_wf_def session_keys_def accounts_grow_def intro!: map_keys_revoke\<close>)

lemma session_wf_history:
  "map rh_token_hash rows = map rh_token_hash (renewal_history db) \<Longrightarrow> session_wf db \<Longrightarrow>
   session_wf (db\<lparr>renewal_history := rows\<rparr>)"
  by (simp add: session_wf_def tokens_wf_def versions_ok_def renewal_hashes_def identity_wf_def)

lemma session_wf_rotate:
  assumes wf: "session_wf db" and cur: "current \<in> set (sessions db)"
    and acct: "find_account (se_account_id current) db = Some a" "se_auth_version new = ac_auth_version a"
    and same: "se_id new = se_id current" "se_account_id new = se_account_id current"
    and fresh: "se_access_token_hash new \<notin> se_access_token_hash ` set (sessions db)"
      "se_renewal_token_hash new \<notin> set (renewal_hashes db)"
  shows "session_wf (put_session new (remember_renewal current now db))"
proof -
  have tok: "tokens_wf db" and fk: "se_account_id ` set (sessions db) \<subseteq> ac_id ` set (accounts db)"
    and ok: "versions_ok db" and id: "identity_wf db" using wf by (simp_all add: session_wf_def)
  have set': "set (sessions (put_session new (remember_renewal current now db)))
      = insert new (set (sessions db) - {current})"
    using set_replace [of se_id "sessions db" current "se_id current" new] tok cur same(1)
    by (simp add: tokens_wf_def)
  have only: "b = a" if "b \<in> set (accounts db)" "ac_id b = se_account_id current" for b
    using id acct(1) that distinct_account by (auto simp: identity_wf_def)
  have "versions_ok (put_session new (remember_renewal current now db))"
    unfolding versions_ok_def set' using ok only acct(2) same(2) by (auto simp: versions_ok_def)
  moreover have "tokens_wf (put_session new (remember_renewal current now db))"
    by (rule tokens_wf_rotate [OF tok cur same(1) fresh])
  moreover have "se_account_id ` set (sessions (put_session new (remember_renewal current now db)))
      \<subseteq> ac_id ` set (accounts db)"
    unfolding set' using fk cur same(2) by auto
  moreover have "identity_wf (put_session new (remember_renewal current now db))"
    using id by (simp add: identity_wf_def)
  ultimately show ?thesis by (simp add: session_wf_def)
qed

lemma session_wf_renew:
  assumes wf: "session_wf db" and run: "renew_session C cfg token dev now req dr db = (Inr pair, db')"
    and fresh: "fresh_draws C dr db"
  shows "session_wf db'"
proof (rule renew_Inr [OF run], goal_cases)
  case (1 current a staff ev new)
  then have "current \<in> set (sessions db)" by (auto dest: find_row_SomeD)
  then have "session_wf (put_session new (remember_renewal current now db))"
    using 1 fresh by (intro session_wf_rotate [OF wf]) (simp_all add: fresh_draws_def)
  with 1 show ?case by simp
qed

lemma append_cases_wf: "append_audit ev x = (r, db') \<Longrightarrow> session_wf x \<Longrightarrow> session_wf db'"
  using session_wf_log [of ev x] by (cases rule: append_audit_cases [of ev x]) (auto simp: log_event_def)

lemma session_wf_reuse:
  assumes wf: "session_wf db" and run: "renewal_reused h now req db = (r, db')"
  shows "session_wf db'"
proof (cases "\<exists>hist current. find_row rh_token_hash h (renewal_history db) = Some hist
    \<and> find_session (rh_session_id hist) db = Some current")
  case False
  with run wf show ?thesis by (auto simp: renewal_reused_def split: option.splits)
next
  case True
  then obtain hist current where found: "find_row rh_token_hash h (renewal_history db) = Some hist"
    "find_session (rh_session_id hist) db = Some current" by blast
  let ?rows = "update_rows (\<lambda>r. rh_token_hash r = h)
       (\<lambda>r. r\<lparr>rh_reuse_detected_at :=
          (case rh_reuse_detected_at r of None \<Rightarrow> Some now | Some t \<Rightarrow> Some t)\<rparr>) (renewal_history db)"
  let ?db2 = "snd (revoke_family current now ''renewal_reuse'' (db\<lparr>renewal_history := ?rows\<rparr>))"
  have "session_wf (db\<lparr>renewal_history := ?rows\<rparr>)"
    by (rule session_wf_history [OF _ wf]) (simp add: map_update_rows)
  from session_wf_mark [OF this] have wf2: "session_wf ?db2" by (simp add: revoke_family_def Let_def)
  show ?thesis
  proof (cases "account_for_session current db")
    case None
    with run found wf2 show ?thesis by (simp add: renewal_reused_def Let_def)
  next
    case (Some a)
    let ?ev = "AuditEventInput (Some (ac_id a)) (Some (ac_staff_member_id a)) ''auth.session_revoked'' Failed req
       ''session'' (Some (se_id current)) [(''reason'', JStr ''renewal_reuse'')]"
    obtain r1 db3 where app: "append_audit ?ev ?db2 = (r1, db3)" by fastforce
    then have "session_wf db3" using wf2 by (rule append_cases_wf)
    moreover have "db' = db3"
      using run found Some app by (cases r1) (simp_all add: renewal_reused_def Let_def)
    ultimately show ?thesis by simp
  qed
qed

lemma session_wf_change_pin:
  assumes wf: "session_wf db" and run: "change_pin C cfg aid sid pin new_pin dev now req dr db = (Inr pair, db')"
    and fresh: "fresh_draws C dr db"
  shows "session_wf db'"
proof (rule change_pin_Inr [OF run])
  fix a current h ev a' new
  assume acct: "find_account aid db = Some a" and cur: "find_session sid db = Some current" "se_account_id current = aid"
    and a': "a' = a\<lparr>ac_pin_hash := h, ac_must_change_pin := False, ac_temporary_pin_expires_at := None,
       ac_auth_version := Suc (ac_auth_version a)\<rparr>"
    and new: "new = rotate_tokens cfg current (ac_auth_version a') (sha256 C (dr_access dr)) (sha256 C (dr_renewal dr)) now"
    and db': "db' = log_event ev (put_session new (remember_renewal current now (put_account a'
       (db\<lparr>sessions := update_rows (\<lambda>s. se_account_id s = aid \<and> se_id s \<noteq> sid \<and> se_revoked_at s = None)
            (mark_revoked now ''pin_changed'') (sessions db)\<rparr>))))"
  let ?db1 = "db\<lparr>sessions := update_rows (\<lambda>s. se_account_id s = aid \<and> se_id s \<noteq> sid \<and> se_revoked_at s = None)
            (mark_revoked now ''pin_changed'') (sessions db)\<rparr>"
  let ?db2 = "set_account aid (\<lambda>_. a') ?db1"
  have id: "ac_id a' = aid" "se_id current = sid" "current \<in> set (sessions db)" "ac_id a = aid"
    using acct cur(1) by (auto simp: a' dest: find_row_SomeD)
  have wf1: "session_wf ?db1" by (rule session_wf_mark [OF wf])
  then have id1: "identity_wf ?db1" by (simp add: session_wf_def)
  have acct1: "find_account aid ?db1 = Some a" using acct by simp
  have "session_frame ?db1 ?db2"
    by (rule session_frame_put [OF id1 acct1 id(1)]) (simp add: a')
  moreover have "identity_wf ?db2"
    by (rule identity_wf_put_found [OF id1 acct1 id(1)]) (simp add: a')
  ultimately have wf2: "session_wf ?db2" by (intro session_wf_frame [OF wf1])
  have keys: "map se_access_token_hash (sessions ?db2) = map se_access_token_hash (sessions db)"
    "renewal_hashes ?db2 = renewal_hashes db"
    by (simp_all add: renewal_hashes_def map_update_rows set_account_def)
  have "session_wf (put_session new (remember_renewal current now ?db2))"
  proof (rule session_wf_rotate [OF wf2])
    show "current \<in> set (sessions ?db2)" using id by (auto simp: set_update_rows)
    show "find_account (se_account_id current) ?db2 = Some a'"
      using acct cur(2) id(1,4) by (simp add: find_update_rows)
    show "se_access_token_hash new \<notin> se_access_token_hash ` set (sessions ?db2)"
      using fresh arg_cong [OF keys(1), of set] by (simp add: new fresh_draws_def)
    show "se_renewal_token_hash new \<notin> set (renewal_hashes ?db2)"
      using fresh by (simp add: new fresh_draws_def keys(2))
  qed (simp_all add: new)
  then show ?thesis using id(1) by (simp add: db')
qed

lemma session_wf_revoke:
  assumes wf: "session_wf db" and run: "revoke_session aid sid now req db = (Inr n, db')"
  shows "session_wf db'"
proof -
  from run obtain target where t: "find_session sid db = Some target"
    by (cases "find_session sid db") (auto simp: revoke_session_def)
  with run obtain a where a: "account_for_session target db = Some a"
    by (cases "account_for_session target db") (auto simp: revoke_session_def split: if_splits)
  let ?db1 = "db\<lparr>sessions := update_rows (live_in_family (se_renewal_family_id target))
      (mark_revoked now ''user_revoked'') (sessions db)\<rparr>"
  let ?ev = "AuditEventInput (Some aid) (Some (ac_staff_member_id a)) ''auth.session_revoked'' Success
      req ''session'' (Some (se_id target)) [(''reason'', JStr ''user_revoked'')]"
  have "\<exists>u. append_audit ?ev ?db1 = (Inr u, db')"
    using run t a by (simp add: revoke_session_def revoke_family_def Let_def and_then_eq_Inr split: if_splits)
  then obtain u where "append_audit ?ev ?db1 = (Inr u, db')" ..
  from append_cases_wf [OF this session_wf_mark [OF wf]] show ?thesis .
qed

lemma session_wf_logout:
  assumes wf: "session_wf db" and run: "logout_all aid now req db = (Inr n, db')"
  shows "session_wf db'"
proof (rule logout_all_Inr [OF run], goal_cases)
  case (1 a ev)
  have id: "identity_wf db" using wf by (simp add: session_wf_def)
  have aid: "ac_id a = aid" using 1(1) by (auto dest: find_row_SomeD)
  let ?b = "a\<lparr>ac_auth_version := Suc (ac_auth_version a)\<rparr>"
  have "session_wf (revoke_live_sessions aid now ''logout_all'' (set_account aid (\<lambda>_. ?b) db))"
  proof (rule session_wf_frame [OF wf])
    show "session_frame db (revoke_live_sessions aid now ''logout_all'' (set_account aid (\<lambda>_. ?b) db))"
      using session_frame_put [OF id 1(1), of ?b] aid by simp
    show "identity_wf (revoke_live_sessions aid now ''logout_all'' (set_account aid (\<lambda>_. ?b) db))"
      using identity_wf_put_found [OF id 1(1), of ?b] aid by simp
  qed
  with 1(2) aid show ?case by simp
qed

lemma renew_refused:
  assumes run: "renew_session C cfg token dev now req dr db = (Inl e, db')"
  shows "db' = db \<or> (\<exists>h. renewal_reused h now req db = (Inl e, db'))"
proof (cases "token \<noteq> [] \<and> (\<exists>current. find_row se_renewal_token_hash (sha256 C token) (sessions db) = Some current)")
  case False
  with run show ?thesis
    by (cases "token = []"; cases "find_row se_renewal_token_hash (sha256 C token) (sessions db)")
      (auto simp: renew_session_def hash_token_def)
next
  case True
  then obtain current where cur: "token \<noteq> []"
    "find_row se_renewal_token_hash (sha256 C token) (sessions db) = Some current" by blast
  show ?thesis
  proof (cases "account_for_session current db")
    case None
    with run cur show ?thesis by (simp add: renew_session_def)
  next
    case (Some a)
    obtain f where "\<And>x. append_audit (AuditEventInput (Some (ac_id a)) (Some (ac_staff_member_id a))
        ''auth.session_renewed'' Success req ''session'' (Some (se_id current))
        [(''persistent'', JBool (se_persistent current))]) x = (Inr (), log_event (f x) x)"
      using renewal_event [of "ac_id a" "ac_staff_member_id a" req "se_id current" "se_persistent current"] by blast
    with run cur Some show ?thesis
      by (auto simp: renew_session_def Let_def split: sum.splits prod.splits)
  qed
qed

text \<open>
  C11. Every committed login, renewal (accepted or refused), revocation, logout, PIN change and
  account operation keeps the session tables well formed: tokens and identifiers stay unique,
  also against the retired renewal tokens, every session belongs to an account, and no session
  carries a later version than its account.
\<close>

theorem session_step_wf: "session_step C cfg db db' \<Longrightarrow> session_wf db \<Longrightarrow> session_wf db'"
proof (induction rule: session_step.induct)
  case (renewal_refused token dev now req dr db e db')
  then show ?case by (auto dest!: renew_refused intro: session_wf_reuse)
next
  case (account db db')
  then have "identity_wf db" by (simp add: session_wf_def)
  with account show ?case
    by (intro session_wf_frame [OF account(2)])
      (simp_all add: identity_wf_account_step account_step_frame)
next
  case logged_in
  show ?case by (rule session_wf_login [OF logged_in(3,1,2)])
next
  case renewed
  show ?case by (rule session_wf_renew [OF renewed(3,1,2)])
next
  case revoked
  show ?case by (rule session_wf_revoke [OF revoked(2,1)])
next
  case logged_out
  show ?case by (rule session_wf_logout [OF logged_out(2,1)])
next
  case pin_changed
  show ?case by (rule session_wf_change_pin [OF pin_changed(3,1,2)])
qed

lemma example_session_wf: "session_wf example_db"
  using example_identity_wf
  by (simp add: session_wf_def tokens_wf_def versions_ok_def renewal_hashes_def example_db_def empty_db_def
      del: identity_wf_sessions)

lemma session_step_wf_witness: "is_ok (fst example_login) \<and> session_wf (snd example_login)"
proof -
  obtain pair where run: "login plain_crypto (default_settings ''pepper'') ''E-100'' ''q7rt''
      ''device-0123456789'' ''Desk'' False 100 ''r'' example_draws1 example_db = (Inr pair, snd example_login)"
    using example_login_ok by (cases "fst example_login") (auto simp: example_login_def prod_eq_iff)
  have "fresh_draws plain_crypto example_draws1 example_db" by (simp add: fresh_draws_def renewal_hashes_def
      example_db_def empty_db_def)
  from session_step_wf [OF logged_in [OF run this] example_session_wf] example_login_ok show ?thesis by simp
qed

end
