(* ===== verification/Idempotency.thy ===== *)
theory Idempotency
  imports Persistence
begin

text \<open>
  Idempotency keys (\<open>src/backend/identity/idempotency.py\<close>): a write claims its key before it
  runs and records a reference to its response when it is done, so that a repetition within a
  day is answered from the record. The abstract store maps a key to one entry; the operations
  on the table refine it.
\<close>

section \<open>Operations\<close>

definition is_key_char :: "char \<Rightarrow> bool" where
  "is_key_char c \<longleftrightarrow> is_upper_ascii c \<or> is_lower_ascii c \<or> is_digit c \<or> c \<in> set ''._:-''"

definition IDEMPOTENCY_KEY_PATTERN :: "string \<Rightarrow> bool" where
  "IDEMPOTENCY_KEY_PATTERN s \<longleftrightarrow> 8 \<le> length s \<and> length s \<le> 128 \<and> list_all is_key_char s"

definition FORBIDDEN_REFERENCE_KEYS :: "string list" where
  "FORBIDDEN_REFERENCE_KEYS = [''access_token'', ''renewal_token'', ''temporary_pin'', ''pin'',
     ''step_up_token'', ''report_text'', ''field_notes'']"

record idempotency_claim =
  ic_record_id :: uuid
  replayed :: bool
  response_status :: "int option"
  response_reference :: "json option"

definition request_digest :: "crypto \<Rightarrow> json \<Rightarrow> bytes" where
  "request_digest C payload = sha256 C (dumps False payload)"

fun safe_reference :: "json \<Rightarrow> bool" where
  "safe_reference (JObj kvs) \<longleftrightarrow>
     list_all (\<lambda>k. k \<notin> set FORBIDDEN_REFERENCE_KEYS) (obj_keys kvs)
     \<and> list_all (\<lambda>p. safe_reference (snd p)) kvs"
| "safe_reference (JArr vs) \<longleftrightarrow> list_all safe_reference vs"
| "safe_reference _ \<longleftrightarrow> True"

text \<open>The unique columns of the table, and the rows by them.\<close>

type_synonym record_key = "uuid \<times> string \<times> string"

definition record_key :: "idempotency_record \<Rightarrow> record_key" where
  "record_key r = (id_actor_account_id r, id_action r, id_idempotency_key r)"

abbreviation find_record :: "record_key \<Rightarrow> db \<Rightarrow> idempotency_record option" where
  "find_record k db \<equiv> find_row record_key k (idempotency_records db)"

definition new_record :: "uuid \<Rightarrow> record_key \<Rightarrow> bytes \<Rightarrow> time \<Rightarrow> idempotency_record" where
  "new_record i k h now =
     \<lparr>id_id = i, id_actor_account_id = fst k, id_action = fst (snd k), id_idempotency_key = snd (snd k),
      id_request_sha256 = h, id_status = InProgress, id_response_status = None,
      id_response_reference = JObj [], id_created_at = now, id_completed_at = None,
      id_expires_at = now + hours 24\<rparr>"

definition claim_idempotency ::
  "uuid \<Rightarrow> string \<Rightarrow> string \<Rightarrow> bytes \<Rightarrow> time \<Rightarrow> uuid \<Rightarrow> db \<Rightarrow> idempotency_claim result \<times> db" where
  "claim_idempotency who key act h now i db =
     (if \<not> IDEMPOTENCY_KEY_PATTERN key then (Inl (ValueError ''idempotency key is invalid''), db)
      else if length h \<noteq> 32 then (Inl (ValueError ''request SHA-256 is invalid''), db)
      else case find_record (who, act, key) db of
        None \<Rightarrow>
          (Inr \<lparr>ic_record_id = i, replayed = False, response_status = None, response_reference = None\<rparr>,
           db\<lparr>idempotency_records := idempotency_records db @ [new_record i (who, act, key) h now]\<rparr>)
      | Some r \<Rightarrow>
          if id_expires_at r \<le> now then
            (Inr \<lparr>ic_record_id = id_id r, replayed = False, response_status = None, response_reference = None\<rparr>,
             db\<lparr>idempotency_records := update_rows (\<lambda>x. record_key x = (who, act, key))
                 (\<lambda>x. x\<lparr>id_request_sha256 := h, id_status := InProgress, id_response_status := None,
                        id_response_reference := JObj [], id_created_at := now, id_completed_at := None,
                        id_expires_at := now + hours 24\<rparr>) (idempotency_records db)\<rparr>)
          else if id_request_sha256 r \<noteq> h then (Inl IdempotencyConflict, db)
          else if id_status r = Completed then
            (Inr \<lparr>ic_record_id = id_id r, replayed = True, response_status = id_response_status r,
                  response_reference = Some (id_response_reference r)\<rparr>, db)
          else (Inl RequestInProgress, db))"

definition complete_idempotency ::
  "idempotency_claim \<Rightarrow> int \<Rightarrow> json \<Rightarrow> time \<Rightarrow> db \<Rightarrow> unit result \<times> db" where
  "complete_idempotency c status reference now db =
     (if replayed c then (Inr (), db)
      else if (\<forall>kvs. reference \<noteq> JObj kvs) \<or> \<not> safe_reference reference
      then (Inl (ValueError ''idempotency response reference is invalid''), db)
      else if 4096 < length (dumps True reference)
      then (Inl (ValueError ''idempotency response reference is too large''), db)
      else case find_row id_id (ic_record_id c) (idempotency_records db) of
        None \<Rightarrow> (Inl (RuntimeError ''idempotency claim is unavailable''), db)
      | Some r \<Rightarrow>
          if id_status r \<noteq> InProgress
          then (Inl (RuntimeError ''idempotency claim is unavailable''), db)
          else (Inr (), db\<lparr>idempotency_records := update_rows (\<lambda>x. id_id x = ic_record_id c)
                 (\<lambda>x. x\<lparr>id_status := Completed, id_response_status := Some status,
                        id_response_reference := reference, id_completed_at := Some now\<rparr>)
                 (idempotency_records db)\<rparr>))"

section \<open>The abstract store\<close>

text \<open>What one key stands for, and the two operations on it.\<close>

datatype entry =
    Pending (entry_hash: bytes) (entry_expiry: time)
  | Done (entry_hash: bytes) "int option" json (entry_expiry: time)

type_synonym store = "record_key \<Rightarrow> entry option"

datatype claim_outcome = Claimed | Replay "int option" json | Conflict | Busy

definition spec_claim :: "record_key \<Rightarrow> bytes \<Rightarrow> time \<Rightarrow> store \<Rightarrow> claim_outcome \<times> store" where
  "spec_claim k h now m =
     (case m k of
        None \<Rightarrow> (Claimed, m(k \<mapsto> Pending h (now + hours 24)))
      | Some e \<Rightarrow>
          if entry_expiry e \<le> now then (Claimed, m(k \<mapsto> Pending h (now + hours 24)))
          else if entry_hash e \<noteq> h then (Conflict, m)
          else (case e of Done _ s ref _ \<Rightarrow> (Replay s ref, m) | Pending _ _ \<Rightarrow> (Busy, m)))"

fun spec_complete :: "record_key \<Rightarrow> int \<Rightarrow> json \<Rightarrow> store \<Rightarrow> store" where
  "spec_complete k s ref m =
     (case m k of Some (Pending h x) \<Rightarrow> m(k \<mapsto> Done h (Some s) ref x) | _ \<Rightarrow> m)"

definition entry_of :: "idempotency_record \<Rightarrow> entry" where
  "entry_of r =
     (if id_status r = Completed
      then Done (id_request_sha256 r) (id_response_status r) (id_response_reference r) (id_expires_at r)
      else Pending (id_request_sha256 r) (id_expires_at r))"

definition store_of :: "db \<Rightarrow> store" where
  "store_of db k = map_option entry_of (find_record k db)"

text \<open>What a caller sees of a claim.\<close>

fun outcome_of :: "idempotency_claim result \<Rightarrow> claim_outcome option" where
  "outcome_of (Inr c) =
     (if replayed c then map_option (Replay (response_status c)) (response_reference c) else Some Claimed)"
| "outcome_of (Inl IdempotencyConflict) = Some Conflict"
| "outcome_of (Inl RequestInProgress) = Some Busy"
| "outcome_of (Inl _) = None"

definition records_wf :: "db \<Rightarrow> bool" where
  "records_wf db \<longleftrightarrow> distinct (map id_id (idempotency_records db))
     \<and> distinct (map record_key (idempotency_records db))"

section \<open>Refinement\<close>

lemma record_key_new [simp]: "record_key (new_record i k h now) = k" "id_id (new_record i k h now) = i"
  by (simp_all add: record_key_def new_record_def)

lemma find_record_key: "find_record k db = Some r \<Longrightarrow> r \<in> set (idempotency_records db) \<and> record_key r = k"
  by (rule find_row_SomeD)

lemma store_add:
  assumes "find_record k db = None"
  shows "store_of (db\<lparr>idempotency_records := idempotency_records db @ [new_record i k h now]\<rparr>)
    = (store_of db)(k \<mapsto> Pending h (now + hours 24))"
  using assms
  by (auto simp: store_of_def fun_eq_iff find_row_append entry_of_def new_record_def record_key_def
      split: option.splits)

lemma store_update:
  assumes same: "\<And>x. record_key (f x) = record_key x" and r: "find_record k db = Some r"
  shows "store_of (db\<lparr>idempotency_records := update_rows (\<lambda>x. record_key x = k) f (idempotency_records db)\<rparr>)
    = (store_of db)(k \<mapsto> entry_of (f r))"
proof
  fix k'
  have "record_key r = k" using r find_record_key by auto
  then show "store_of (db\<lparr>idempotency_records := update_rows (\<lambda>x. record_key x = k) f (idempotency_records db)\<rparr>) k'
      = ((store_of db)(k \<mapsto> entry_of (f r))) k'"
    using r by (cases "find_record k' db")
      (auto simp: store_of_def find_update_rows same dest: find_record_key)
qed

text \<open>
  C15. The table of idempotency records behaves as a map from keys to entries: for a well-formed
  key and digest, a claim has the outcome of the abstract store, and leaves the table standing
  for the abstract store after it: a fresh or expired key is claimed, another request under the
  same key conflicts, a finished one is replayed with its stored response, and an unfinished one
  is reported as in progress.
\<close>

theorem claim_refines:
  assumes "IDEMPOTENCY_KEY_PATTERN key" "length h = 32"
  shows "(outcome_of (fst (claim_idempotency who key act h now i db)),
      store_of (snd (claim_idempotency who key act h now i db)))
    = map_prod Some id (spec_claim (who, act, key) h now (store_of db))"
proof (cases "find_record (who, act, key) db")
  case None
  then have "store_of db (who, act, key) = None" by (simp add: store_of_def)
  with None assms store_add [OF None, of i h now] show ?thesis
    by (simp add: claim_idempotency_def spec_claim_def)
next
  case (Some r)
  then have e: "store_of db (who, act, key) = Some (entry_of r)" by (simp add: store_of_def)
  let ?f = "\<lambda>x. x\<lparr>id_request_sha256 := h, id_status := InProgress, id_response_status := None,
     id_response_reference := JObj [], id_created_at := now, id_completed_at := None,
     id_expires_at := now + hours 24\<rparr>"
  have "store_of (db\<lparr>idempotency_records := update_rows (\<lambda>x. record_key x = (who, act, key)) ?f
      (idempotency_records db)\<rparr>) = (store_of db)((who, act, key) \<mapsto> Pending h (now + hours 24))"
    using store_update [of ?f, OF _ Some] by (simp add: record_key_def entry_of_def)
  with Some e assms show ?thesis
    by (cases "id_status r") (simp_all add: claim_idempotency_def spec_claim_def entry_of_def)
qed


lemma claim_refines_witness:
  "outcome_of (fst (claim_idempotency 2 ''key-0001'' ''auth.logout'' (replicate 32 (CHR ''x'')) 5 9 empty_db))
    = Some Claimed"
  using claim_refines [of "''key-0001''" "replicate 32 (CHR ''x'')" 2 "''auth.logout''" 5 9 empty_db]
  by (simp add: IDEMPOTENCY_KEY_PATTERN_def is_key_char_def is_lower_ascii_def is_digit_def in_range_def
      spec_claim_def store_of_def empty_db_def)

section \<open>Completion and replay\<close>

lemma complete_runs:
  assumes c: "\<not> replayed c" "find_row id_id (ic_record_id c) (idempotency_records db) = Some r"
    and ok: "id_status r = InProgress" "safe_reference (JObj kvs)" "length (dumps True (JObj kvs)) \<le> 4096"
  shows "complete_idempotency c status (JObj kvs) now db =
    (Inr (), db\<lparr>idempotency_records := update_rows (\<lambda>x. id_id x = ic_record_id c)
       (\<lambda>x. x\<lparr>id_status := Completed, id_response_status := Some status,
              id_response_reference := JObj kvs, id_completed_at := Some now\<rparr>) (idempotency_records db)\<rparr>)"
  using assms by (simp add: complete_idempotency_def del: safe_reference.simps dumps.simps)

lemma update_by_id:
  assumes wf: "records_wf db" and r: "r \<in> set (idempotency_records db)"
  shows "update_rows (\<lambda>x. id_id x = id_id r) f (idempotency_records db)
    = update_rows (\<lambda>x. record_key x = record_key r) f (idempotency_records db)"
proof -
  have "(id_id x = id_id r) = (record_key x = record_key r)" if "x \<in> set (idempotency_records db)" for x
    using that wf r by (auto simp: records_wf_def distinct_map dest: inj_onD)
  then show ?thesis by (simp add: update_rows_def cong: map_cong)
qed

lemma complete_refines:
  assumes wf: "records_wf db" and r: "find_record k db = Some r" "ic_record_id c = id_id r" "\<not> replayed c"
    and run: "complete_idempotency c status ref now db = (Inr u, db')"
  shows "store_of db' = spec_complete k status ref (store_of db)"
proof -
  let ?f = "\<lambda>x. x\<lparr>id_status := Completed, id_response_status := Some status,
     id_response_reference := ref, id_completed_at := Some now\<rparr>"
  from r(1) have row: "r \<in> set (idempotency_records db)" "record_key r = k" using find_record_key by auto
  then have id: "find_row id_id (id_id r) (idempotency_records db) = Some r"
    using wf by (simp add: records_wf_def find_row_distinct)
  with run r have "id_status r = InProgress" and db': "db' = db\<lparr>idempotency_records :=
      update_rows (\<lambda>x. record_key x = k) ?f (idempotency_records db)\<rparr>"
    using update_by_id [OF wf row(1)] row(2)
    by (auto simp: complete_idempotency_def split: if_splits option.splits)
  then show ?thesis
    using store_update [of ?f, OF _ r(1)] r(1)
    by (simp add: record_key_def entry_of_def store_of_def [of db])
qed

text \<open>What a claim that is not a replay leaves in the table, and what it finds when completed.\<close>

lemma claim_pending:
  assumes run: "claim_idempotency who key act h now i db = (Inr c, db')" and new: "\<not> replayed c"
    and wf: "records_wf db" and fresh: "i \<notin> id_id ` set (idempotency_records db)"
  obtains r where "IDEMPOTENCY_KEY_PATTERN key" "length h = 32"
    "find_record (who, act, key) db' = Some r" "id_id r = ic_record_id c" "id_status r = InProgress"
    "id_request_sha256 r = h" "id_expires_at r = now + hours 24" "records_wf db'"
proof -
  have ok: "IDEMPOTENCY_KEY_PATTERN key" "length h = 32"
    using run by (auto simp: claim_idempotency_def split: if_split_asm)
  show thesis
  proof (cases "find_record (who, act, key) db")
    case None
    with run ok have c: "ic_record_id c = i"
      and db': "db' = db\<lparr>idempotency_records := idempotency_records db @ [new_record i (who, act, key) h now]\<rparr>"
      by (auto simp: claim_idempotency_def)
    from None have "(who, act, key) \<notin> record_key ` set (idempotency_records db)"
      by (auto simp: find_row_None_iff)
    with wf fresh None have "records_wf db'" "find_record (who, act, key) db' = Some (new_record i (who, act, key) h now)"
      by (auto simp: db' records_wf_def find_row_append)
    with ok c show thesis by (intro that [of "new_record i (who, act, key) h now"]) (simp_all add: new_record_def)
  next
    case (Some r)
    let ?f = "\<lambda>x. x\<lparr>id_request_sha256 := h, id_status := InProgress, id_response_status := None,
      id_response_reference := JObj [], id_created_at := now, id_completed_at := None,
      id_expires_at := now + hours 24\<rparr>"
    from Some run ok new have c: "ic_record_id c = id_id r" and db': "db' = db\<lparr>idempotency_records :=
        update_rows (\<lambda>x. record_key x = (who, act, key)) ?f (idempotency_records db)\<rparr>"
      by (auto simp: claim_idempotency_def split: if_split_asm)
    have key: "record_key (?f x) = record_key x" "id_id (?f x) = id_id x" for x by (simp_all add: record_key_def)
    have "record_key r = (who, act, key)" using Some find_record_key by auto
    with Some have "find_record (who, act, key) db' = Some (?f r)"
      by (simp add: db' find_update_rows key)
    moreover have "records_wf db'"
      using wf map_update_rows [of "\<lambda>x. record_key x = (who, act, key)" record_key ?f, OF key(1)]
        map_update_rows [of "\<lambda>x. record_key x = (who, act, key)" id_id ?f, OF key(2)]
      by (simp add: records_wf_def db')
    ultimately show thesis using ok c by (intro that [of "?f r"]) simp_all
  qed
qed

lemma claim_completed:
  assumes "IDEMPOTENCY_KEY_PATTERN key" "length h = 32" "find_record (who, act, key) db = Some r"
    "id_request_sha256 r = h" "id_status r = Completed" "now < id_expires_at r"
  shows "claim_idempotency who key act h now i db =
    (Inr \<lparr>ic_record_id = id_id r, replayed = True, response_status = id_response_status r,
          response_reference = Some (id_response_reference r)\<rparr>, db)"
  using assms by (simp add: claim_idempotency_def)

lemma complete_found:
  assumes run: "complete_idempotency c status ref now db = (Inr u, db')" and new: "\<not> replayed c"
    and wf: "records_wf db" and r: "find_record k db = Some r" "id_id r = ic_record_id c"
  shows "find_record k db' = Some (r\<lparr>id_status := Completed, id_response_status := Some status,
       id_response_reference := ref, id_completed_at := Some now\<rparr>) \<and> (\<exists>kvs. ref = JObj kvs)"
proof -
  let ?f = "\<lambda>x. x\<lparr>id_status := Completed, id_response_status := Some status,
     id_response_reference := ref, id_completed_at := Some now\<rparr>"
  from r(1) have row: "r \<in> set (idempotency_records db)" "record_key r = k" using find_record_key by auto
  with run new r(2) have "db' = db\<lparr>idempotency_records := update_rows (\<lambda>x. record_key x = k) ?f
      (idempotency_records db)\<rparr>"
    using update_by_id [OF wf row(1)]
    by (auto simp: complete_idempotency_def split: if_splits option.splits)
  moreover have "\<exists>kvs. ref = JObj kvs"
    using run new by (auto simp: complete_idempotency_def split: if_splits)
  moreover have "record_key (?f x) = record_key x" for x by (simp add: record_key_def)
  ultimately show ?thesis using r(1) row(2) by (simp add: find_update_rows)
qed

end
