(* ===== verification/Elevation.thy ===== *)
theory Elevation
  imports SessionRules
begin

text \<open>
  Administrator confirmation (\<open>src/backend/identity/elevation.py\<close>, \<open>browser_admin.py\<close>): the
  sliding elevation of a session, and the step-up tokens that authorise one action each. The
  locale \<open>one_time\<close> states what a store of one-use credentials owes its callers and proves
  that no credential is redeemed twice in any sequence of attempts.
\<close>

section \<open>One-use credentials\<close>

text \<open>A sequence of attempts, each with its result.\<close>

fun attempts :: "('k \<Rightarrow> 's \<Rightarrow> 'r \<times> 's) \<Rightarrow> 'k list \<Rightarrow> 's \<Rightarrow> ('k \<times> 'r) list \<times> 's" where
  "attempts redeem [] s = ([], s)"
| "attempts redeem (k # ks) s =
     (case redeem k s of (r, s1) \<Rightarrow> case attempts redeem ks s1 of (rs, s2) \<Rightarrow> ((k, r) # rs, s2))"

text \<open>
  An attempt \<open>k\<close> presents the credential \<open>credential k\<close>. The laws: an attempt succeeds only with
  an unspent credential, success spends it, and nothing makes a spent one usable again.
\<close>

locale one_time =
  fixes redeem :: "'k \<Rightarrow> 's \<Rightarrow> 'r result \<times> 's"
    and credential :: "'k \<Rightarrow> 't"
    and unspent :: "'t \<Rightarrow> 's \<Rightarrow> bool"
  assumes redeem_unspent: "redeem k s = (Inr r, s') \<Longrightarrow> unspent (credential k) s"
    and redeem_spends: "redeem k s = (Inr r, s') \<Longrightarrow> \<not> unspent (credential k) s'"
    and spent_stays: "redeem k s = (x, s') \<Longrightarrow> \<not> unspent t s \<Longrightarrow> \<not> unspent t s'"
begin

lemma spent_never:
  "\<not> unspent t s \<Longrightarrow> length (filter (\<lambda>(k, r). credential k = t \<and> is_ok r) (fst (attempts redeem ks s))) = 0"
proof (induction ks arbitrary: s)
  case (Cons k ks)
  obtain r s1 where run: "redeem k s = (r, s1)" by fastforce
  have "\<not> (credential k = t \<and> is_ok r)"
    using Cons.prems redeem_unspent run by (cases r) auto
  with Cons.IH [OF spent_stays [OF run Cons.prems]] show ?case
    by (auto simp: run split: prod.splits)
qed simp

lemma at_most_once:
  "length (filter (\<lambda>(k, r). credential k = t \<and> is_ok r) (fst (attempts redeem ks s))) \<le> 1"
proof (induction ks arbitrary: s)
  case (Cons k ks)
  obtain r s1 where run: "redeem k s = (r, s1)" by fastforce
  show ?case
  proof (cases "credential k = t \<and> is_ok r")
    case True
    then have "\<not> unspent t s1" using redeem_spends run by (cases r) auto
    from spent_never [OF this, of ks] True show ?thesis by (auto simp: run split: prod.splits)
  next
    case False
    obtain rs s2 where "attempts redeem ks s1 = (rs, s2)" by fastforce
    with False Cons.IH [of s1] show ?thesis by (auto simp: run)
  qed
qed simp

end

section \<open>Elevation\<close>

record session_actor = actor +
  session_id :: uuid
  actor_role :: role
  actor_auth_version :: nat
  must_change_pin :: bool

definition STEP_UP_PURPOSES :: "string list" where
  "STEP_UP_PURPOSES = [''staff_write'', ''account_create'', ''account_role_status'', ''account_reset_pin'',
     ''account_unlock'', ''account_revoke_sessions'', ''report_restore'', ''report_transfer'',
     ''bulk_export'', ''audit_export'', ''review_lab_handoff'']"

definition ALL_ADMIN_CONFIRMATION_PURPOSES :: "string list" where
  "ALL_ADMIN_CONFIRMATION_PURPOSES = ''admin_center'' # STEP_UP_PURPOSES"

record elevation_result =
  elevation_expires_at :: time
  step_up_token :: "string option"
  step_up_expires_at :: "time option"
  er_purpose :: string

definition elevation_deadline :: "time \<Rightarrow> time" where
  "elevation_deadline now = now + minutes 15"

definition step_up_deadline :: "time \<Rightarrow> time" where
  "step_up_deadline now = now + minutes 5"

abbreviation find_elevation :: "uuid \<Rightarrow> db \<Rightarrow> admin_elevation option" where
  "find_elevation sid db \<equiv> find_row el_session_id sid (admin_elevations db)"

abbreviation find_step_up :: "bytes \<Rightarrow> db \<Rightarrow> admin_step_up_token option" where
  "find_step_up h db \<equiv> find_row su_token_hash h (step_up_tokens db)"

definition elevation_live :: "admin_elevation \<Rightarrow> time \<Rightarrow> bool" where
  "elevation_live row now \<longleftrightarrow> el_revoked_at row = None \<and> now < el_idle_expires_at row"

definition elevation_is_active :: "session_actor \<Rightarrow> time \<Rightarrow> db \<Rightarrow> bool" where
  "elevation_is_active who now db =
     (case find_elevation (session_id who) db of None \<Rightarrow> False | Some row \<Rightarrow> elevation_live row now)"

definition touch_admin_elevation :: "session_actor \<Rightarrow> time \<Rightarrow> db \<Rightarrow> time result \<times> db" where
  "touch_admin_elevation who now db =
     (case find_elevation (session_id who) db of
        None \<Rightarrow> (Inl AdminElevationRequired, db)
      | Some row \<Rightarrow>
          if \<not> elevation_live row now then (Inl AdminElevationRequired, db)
          else (Inr (elevation_deadline now),
                db\<lparr>admin_elevations := update_rows (\<lambda>r. el_session_id r = session_id who)
                    (\<lambda>r. r\<lparr>el_last_used_at := now, el_idle_expires_at := elevation_deadline now\<rparr>)
                    (admin_elevations db)\<rparr>))"

text \<open>The condition under which a PIN confirmation is accepted.\<close>

definition admin_confirmed :: "crypto \<Rightarrow> session_actor \<Rightarrow> string \<Rightarrow> time \<Rightarrow> db \<Rightarrow> bool" where
  "admin_confirmed C who pin now db =
     (case (find_session (session_id who) db, find_account (account_id who) db,
            find_staff (staff_member_id who) db) of
        (Some s, Some a, Some staff) \<Rightarrow>
          actor_role who = Admin \<and> ac_role a = Admin \<and> ac_status a = Active
          \<and> ac_staff_member_id a = staff_member_id who \<and> st_is_active staff
          \<and> se_account_id s = account_id who \<and> se_revoked_at s = None
          \<and> now < se_access_expires_at s \<and> se_auth_version s = ac_auth_version a
          \<and> actor_auth_version who = ac_auth_version a \<and> verify_pin C (ac_pin_hash a) pin
      | _ \<Rightarrow> False)"

definition raise_elevation :: "uuid \<Rightarrow> time \<Rightarrow> db \<Rightarrow> db" where
  "raise_elevation sid now db =
     (case find_elevation sid db of
        None \<Rightarrow> db\<lparr>admin_elevations := admin_elevations db @
            [\<lparr>el_session_id = sid, el_issued_at = now, el_last_used_at = now,
              el_idle_expires_at = elevation_deadline now, el_revoked_at = None\<rparr>]\<rparr>
      | Some _ \<Rightarrow> db\<lparr>admin_elevations := update_rows (\<lambda>r. el_session_id r = sid)
            (\<lambda>r. r\<lparr>el_issued_at := now, el_last_used_at := now,
                   el_idle_expires_at := elevation_deadline now, el_revoked_at := None\<rparr>)
            (admin_elevations db)\<rparr>)"

definition confirm_admin_pin ::
  "crypto \<Rightarrow> session_actor \<Rightarrow> string \<Rightarrow> string \<Rightarrow> time \<Rightarrow> string \<Rightarrow> string \<Rightarrow> db
   \<Rightarrow> elevation_result result \<times> db" where
  "confirm_admin_pin C who pin purpose now req drawn db =
     (if purpose \<notin> set ALL_ADMIN_CONFIRMATION_PURPOSES
      then (Inl (ValueError ''admin confirmation purpose is invalid''), db)
      else if \<not> admin_confirmed C who pin now db then
        and_then (append_audit (AuditEventInput (Some (account_id who)) (Some (staff_member_id who))
            ''auth.step_up_failed'' Failed req ''account'' (Some (account_id who))
            [(''purpose'', JStr purpose), (''reason'', JStr ''invalid_confirmation'')]) db)
          (\<lambda>_ db1. (Inl StepUpRequired, db1))
      else
        let db1 = raise_elevation (session_id who) now db
        in case (if purpose \<in> set STEP_UP_PURPOSES
                 then bind_result (issue_credential C drawn) (\<lambda>c. Inr (Some c)) else Inr None) of
             Inl e \<Rightarrow> (Inl e, db1)
           | Inr token \<Rightarrow>
               let deadline = (case token of None \<Rightarrow> None | Some _ \<Rightarrow> Some (step_up_deadline now));
                   db2 = (case token of
                       None \<Rightarrow> db1
                     | Some c \<Rightarrow> db1\<lparr>step_up_tokens := step_up_tokens db1 @
                           [\<lparr>su_session_id = session_id who, su_token_hash = digest c,
                             su_purpose = purpose, su_issued_at = now,
                             su_expires_at = step_up_deadline now, su_used_at = None,
                             su_revoked_at = None\<rparr>]\<rparr>)
               in and_then (append_audit (AuditEventInput (Some (account_id who))
                      (Some (staff_member_id who)) ''auth.step_up_succeeded'' Success req ''account''
                      (Some (account_id who)) [(''purpose'', JStr purpose)]) db2)
                    (\<lambda>_ db3. (Inr \<lparr>elevation_expires_at = elevation_deadline now,
                                  step_up_token = map_option raw token,
                                  step_up_expires_at = deadline, er_purpose = purpose\<rparr>, db3)))"

definition step_up_valid :: "admin_step_up_token \<Rightarrow> uuid \<Rightarrow> string \<Rightarrow> time \<Rightarrow> bool" where
  "step_up_valid row sid purpose now \<longleftrightarrow> su_session_id row = sid \<and> su_purpose row = purpose
     \<and> su_used_at row = None \<and> su_revoked_at row = None \<and> now < su_expires_at row"

definition consume_step_up ::
  "crypto \<Rightarrow> session_actor \<Rightarrow> string \<Rightarrow> string \<Rightarrow> time \<Rightarrow> db \<Rightarrow> unit result \<times> db" where
  "consume_step_up C who token purpose now db =
     (case hash_token C token of
        Inl _ \<Rightarrow> (Inl StepUpRequired, db)
      | Inr h \<Rightarrow>
          (case find_step_up h db of
             None \<Rightarrow> (Inl StepUpRequired, db)
           | Some row \<Rightarrow>
               if \<not> step_up_valid row (session_id who) purpose now then (Inl StepUpRequired, db)
               else (Inr (), db\<lparr>step_up_tokens := update_rows (\<lambda>r. su_token_hash r = h)
                        (\<lambda>r. r\<lparr>su_used_at := Some now\<rparr>) (step_up_tokens db)\<rparr>)))"

section \<open>The browser surface: \<open>browser_admin.py\<close>\<close>

record admin_center_state =
  elevated :: bool
  bas_elevation_expires_at :: "time option"

record browser_admin_step_up =
  bu_raw_token :: string
  bu_expires_at :: time
  bu_purpose :: string

definition browser_admin_state :: "session_actor \<Rightarrow> time \<Rightarrow> db \<Rightarrow> admin_center_state result" where
  "browser_admin_state who now db =
     (if actor_role who \<noteq> Admin then Inl PermissionError
      else Inr (case find_elevation (session_id who) db of
          None \<Rightarrow> \<lparr>elevated = False, bas_elevation_expires_at = None\<rparr>
        | Some row \<Rightarrow> \<lparr>elevated = elevation_live row now,
            bas_elevation_expires_at = (if elevation_live row now then Some (el_idle_expires_at row) else None)\<rparr>))"

definition enter_browser_admin_center ::
  "crypto \<Rightarrow> session_actor \<Rightarrow> string \<Rightarrow> time \<Rightarrow> string \<Rightarrow> string \<Rightarrow> db \<Rightarrow> admin_center_state result \<times> db" where
  "enter_browser_admin_center C who pin now req drawn db =
     (if actor_role who \<noteq> Admin then (Inl PermissionError, db)
      else and_then (confirm_admin_pin C who pin ''admin_center'' now req drawn db)
        (\<lambda>r db1. (Inr \<lparr>elevated = True, bas_elevation_expires_at = Some (elevation_expires_at r)\<rparr>, db1)))"

definition require_browser_admin_elevation ::
  "session_actor \<Rightarrow> time \<Rightarrow> db \<Rightarrow> admin_center_state result \<times> db" where
  "require_browser_admin_elevation who now db =
     (if actor_role who \<noteq> Admin then (Inl PermissionError, db)
      else and_then (touch_admin_elevation who now db)
        (\<lambda>t db1. (Inr \<lparr>elevated = True, bas_elevation_expires_at = Some t\<rparr>, db1)))"

definition issue_browser_admin_step_up ::
  "crypto \<Rightarrow> session_actor \<Rightarrow> string \<Rightarrow> string \<Rightarrow> time \<Rightarrow> string \<Rightarrow> string \<Rightarrow> db
   \<Rightarrow> browser_admin_step_up result \<times> db" where
  "issue_browser_admin_step_up C who pin purpose now req drawn db =
     (if actor_role who \<noteq> Admin then (Inl PermissionError, db)
      else if purpose \<notin> set STEP_UP_PURPOSES
      then (Inl (ValueError ''admin step-up purpose is invalid''), db)
      else and_then (confirm_admin_pin C who pin purpose now req drawn db) (\<lambda>r db1.
        case (step_up_token r, step_up_expires_at r) of
          (Some t, Some x) \<Rightarrow>
            if t = [] then (Inl BrowserAdminStepUpRequired, db1)
            else (Inr \<lparr>bu_raw_token = t, bu_expires_at = x, bu_purpose = purpose\<rparr>, db1)
        | _ \<Rightarrow> (Inl BrowserAdminStepUpRequired, db1)))"

definition consume_browser_admin_step_up ::
  "crypto \<Rightarrow> session_actor \<Rightarrow> string \<Rightarrow> string \<Rightarrow> time \<Rightarrow> db \<Rightarrow> unit result \<times> db" where
  "consume_browser_admin_step_up C who token purpose now db =
     (if actor_role who \<noteq> Admin then (Inl PermissionError, db)
      else if purpose \<notin> set STEP_UP_PURPOSES
      then (Inl (ValueError ''admin step-up purpose is invalid''), db)
      else case consume_step_up C who token purpose now db of
        (Inl StepUpRequired, db1) \<Rightarrow> (Inl BrowserAdminStepUpRequired, db1)
      | (Inl e, db1) \<Rightarrow> (Inl e, db1)
      | (Inr u, db1) \<Rightarrow> (Inr u, db1))"

section \<open>Step-up tokens are one-use credentials\<close>

definition unused_step_up :: "bytes \<Rightarrow> db \<Rightarrow> bool" where
  "unused_step_up h db \<longleftrightarrow> (case find_step_up h db of None \<Rightarrow> False | Some row \<Rightarrow> su_used_at row = None)"

text \<open>An attempt: who presents which raw token for which purpose, and when.\<close>

type_synonym step_up_attempt = "session_actor \<times> string \<times> string \<times> time"

definition attempt_step_up :: "crypto \<Rightarrow> step_up_attempt \<Rightarrow> db \<Rightarrow> unit result \<times> db" where
  "attempt_step_up C k db = (case k of (who, token, purpose, now) \<Rightarrow> consume_step_up C who token purpose now db)"

definition step_up_credential :: "crypto \<Rightarrow> step_up_attempt \<Rightarrow> bytes" where
  "step_up_credential C k = sha256 C (fst (snd k))"

lemma consume_step_up_Inr:
  assumes "consume_step_up C who token purpose now db = (Inr u, db')"
  obtains row where "token \<noteq> []" "find_step_up (sha256 C token) db = Some row"
    "step_up_valid row (session_id who) purpose now"
    "db' = db\<lparr>step_up_tokens := update_rows (\<lambda>r. su_token_hash r = sha256 C token)
        (\<lambda>r. r\<lparr>su_used_at := Some now\<rparr>) (step_up_tokens db)\<rparr>"
proof -
  from assms have t: "token \<noteq> []" by (auto simp: consume_step_up_def hash_token_def)
  with assms obtain row where "find_step_up (sha256 C token) db = Some row"
    by (cases "find_step_up (sha256 C token) db") (simp_all add: consume_step_up_def)
  with assms t that show thesis by (simp add: consume_step_up_def split: if_splits)
qed

lemma consume_step_up_Inl: "consume_step_up C who token purpose now db = (Inl e, db') \<Longrightarrow> db' = db"
  by (simp add: consume_step_up_def split: sum.splits option.splits if_splits)

lemma consume_spends:
  "consume_step_up C who token purpose now db = (Inr u, db') \<Longrightarrow>
   unused_step_up (sha256 C token) db \<and> \<not> unused_step_up (sha256 C token) db'"
  by (elim consume_step_up_Inr)
    (auto simp: unused_step_up_def find_update_rows step_up_valid_def dest: find_row_SomeD)

lemma consume_spent_stays:
  assumes "consume_step_up C who token purpose now db = (r, db')" "\<not> unused_step_up h db"
  shows "\<not> unused_step_up h db'"
proof (cases r)
  case (Inl e)
  with assms consume_step_up_Inl show ?thesis by metis
next
  case (Inr u)
  with assms(1) obtain row where "db' = db\<lparr>step_up_tokens := update_rows (\<lambda>r. su_token_hash r = sha256 C token)
        (\<lambda>r. r\<lparr>su_used_at := Some now\<rparr>) (step_up_tokens db)\<rparr>"
    by (auto elim!: consume_step_up_Inr)
  with assms(2) show ?thesis
    by (cases "find_step_up h db") (simp_all add: unused_step_up_def find_update_rows)
qed

interpretation step_up: one_time "attempt_step_up C" "step_up_credential C" unused_step_up for C
proof (unfold_locales, goal_cases)
  case (1 k db r db')
  then show ?case
    by (cases k) (auto simp: attempt_step_up_def step_up_credential_def dest: consume_spends)
next
  case (2 k db r db')
  then show ?case
    by (cases k) (auto simp: attempt_step_up_def step_up_credential_def dest: consume_spends)
next
  case (3 k db x db' t)
  then show ?case
    by (cases k) (auto simp: attempt_step_up_def dest: consume_spent_stays)
qed

text \<open>
  C12. A step-up token authorises at most one action: in any sequence of attempts, by whichever
  sessions, for whichever purposes and at whatever times, at most one presentation of the
  token is accepted.
\<close>

theorem step_up_at_most_once:
  "length (filter (\<lambda>(k, r). step_up_credential C k = h \<and> is_ok r)
     (fst (attempts (attempt_step_up C) ks db))) \<le> 1"
  by (rule step_up.at_most_once)

section \<open>What a confirmation issues\<close>

lemma purpose_events:
  "p \<in> set ALL_ADMIN_CONFIRMATION_PURPOSES \<Longrightarrow> event_ok ''auth.step_up_succeeded'' [(''purpose'', JStr p)]"
  "p \<in> set ALL_ADMIN_CONFIRMATION_PURPOSES \<Longrightarrow>
     event_ok ''auth.step_up_failed'' [(''purpose'', JStr p), (''reason'', JStr ''invalid_confirmation'')]"
proof -
  have "list_all (\<lambda>p. code_action ''auth.step_up_succeeded'' [(''purpose'', JStr p)]) ALL_ADMIN_CONFIRMATION_PURPOSES"
    "list_all (\<lambda>p. code_action ''auth.step_up_failed''
       [(''purpose'', JStr p), (''reason'', JStr ''invalid_confirmation'')]) ALL_ADMIN_CONFIRMATION_PURPOSES"
    by code_simp+
  then show "p \<in> set ALL_ADMIN_CONFIRMATION_PURPOSES \<Longrightarrow> event_ok ''auth.step_up_succeeded'' [(''purpose'', JStr p)]"
    "p \<in> set ALL_ADMIN_CONFIRMATION_PURPOSES \<Longrightarrow>
     event_ok ''auth.step_up_failed'' [(''purpose'', JStr p), (''reason'', JStr ''invalid_confirmation'')]"
    by (auto simp: list_all_iff intro: event_ok_code)
qed

lemma raise_elevation_simps [simp]:
  "step_up_tokens (raise_elevation sid now db) = step_up_tokens db"
  "audit_events (raise_elevation sid now db) = audit_events db"
  by (simp_all add: raise_elevation_def split: option.splits)

lemma raise_elevation_live:
  "t < now + minutes 15 \<Longrightarrow>
   \<exists>row. find_elevation sid (raise_elevation sid now db) = Some row \<and> elevation_live row t"
proof (cases "find_elevation sid db")
  case None
  then show "t < now + minutes 15 \<Longrightarrow> ?thesis"
    by (simp add: raise_elevation_def find_row_append elevation_live_def elevation_deadline_def)
next
  case (Some row)
  then have "el_session_id row = sid" by (auto dest: find_row_SomeD)
  with Some show "t < now + minutes 15 \<Longrightarrow> ?thesis"
    by (simp add: raise_elevation_def find_update_rows elevation_live_def elevation_deadline_def)
qed

lemma confirm_refused:
  assumes "purpose \<in> set ALL_ADMIN_CONFIRMATION_PURPOSES" "\<not> admin_confirmed C who pin now db"
  shows "\<exists>ev. confirm_admin_pin C who pin purpose now req drawn db = (Inl StepUpRequired, log_event ev db)"
  using assms append_event_exists [OF purpose_events(2) [OF assms(1)], of "account_id who" "staff_member_id who"
      Failed req "''account''" "Some (account_id who)" db]
  by (auto simp: confirm_admin_pin_def)

lemma confirm_step_up:
  assumes "purpose \<in> set STEP_UP_PURPOSES" "admin_confirmed C who pin now db" "drawn \<noteq> []"
  shows "\<exists>ev. confirm_admin_pin C who pin purpose now req drawn db =
    (Inr \<lparr>elevation_expires_at = elevation_deadline now, step_up_token = Some drawn,
       step_up_expires_at = Some (step_up_deadline now), er_purpose = purpose\<rparr>,
     log_event ev ((raise_elevation (session_id who) now db)\<lparr>step_up_tokens := step_up_tokens db @
       [\<lparr>su_session_id = session_id who, su_token_hash = sha256 C drawn, su_purpose = purpose,
         su_issued_at = now, su_expires_at = step_up_deadline now, su_used_at = None, su_revoked_at = None\<rparr>]\<rparr>))"
proof -
  have all: "purpose \<in> set ALL_ADMIN_CONFIRMATION_PURPOSES"
    using assms(1) by (simp add: ALL_ADMIN_CONFIRMATION_PURPOSES_def)
  from append_event_exists [OF purpose_events(1) [OF all], of "account_id who" "staff_member_id who"
      Success req "''account''" "Some (account_id who)" "(raise_elevation (session_id who) now db)\<lparr>step_up_tokens :=
       step_up_tokens db @ [\<lparr>su_session_id = session_id who, su_token_hash = sha256 C drawn, su_purpose = purpose,
         su_issued_at = now, su_expires_at = step_up_deadline now, su_used_at = None, su_revoked_at = None\<rparr>]\<rparr>"]
  show ?thesis using assms all by (auto simp: confirm_admin_pin_def Let_def)
qed

text \<open>
  A step-up token is bound to what it was confirmed for: after a successful confirmation
  it is accepted exactly from the confirming session, for the purpose it was issued for, and
  within five minutes; the session is elevated for fifteen. A confirmation whose PIN, session
  or role does not hold issues nothing and leaves only an event in the log.
\<close>

theorem step_up_bound:
  assumes purpose: "purpose \<in> set STEP_UP_PURPOSES" and drawn: "drawn \<noteq> []"
    and fresh: "sha256 C drawn \<notin> su_token_hash ` set (step_up_tokens db)"
  shows "case confirm_admin_pin C who pin purpose now req drawn db of
      (Inr r, db') \<Rightarrow> admin_confirmed C who pin now db \<and> step_up_token r = Some drawn
        \<and> (\<forall>who' p t. is_ok (fst (consume_step_up C who' drawn p t db'))
             \<longleftrightarrow> session_id who' = session_id who \<and> p = purpose \<and> t < now + minutes 5)
        \<and> (\<forall>t. t < now + minutes 15 \<longrightarrow> elevation_is_active who t db')
    | (Inl e, db') \<Rightarrow> e = StepUpRequired \<and> \<not> admin_confirmed C who pin now db
        \<and> (\<exists>ev. db' = log_event ev db)"
proof (cases "admin_confirmed C who pin now db")
  case False
  have "purpose \<in> set ALL_ADMIN_CONFIRMATION_PURPOSES"
    using purpose by (simp add: ALL_ADMIN_CONFIRMATION_PURPOSES_def)
  from confirm_refused [OF this False, of req drawn] obtain ev
    where "confirm_admin_pin C who pin purpose now req drawn db = (Inl StepUpRequired, log_event ev db)" ..
  with False show ?thesis by (simp, intro exI [of _ ev] refl)
next
  case True
  from confirm_step_up [OF purpose True drawn, of req] obtain ev where
    run: "confirm_admin_pin C who pin purpose now req drawn db =
    (Inr \<lparr>elevation_expires_at = elevation_deadline now, step_up_token = Some drawn,
       step_up_expires_at = Some (step_up_deadline now), er_purpose = purpose\<rparr>,
     log_event ev ((raise_elevation (session_id who) now db)\<lparr>step_up_tokens := step_up_tokens db @
       [\<lparr>su_session_id = session_id who, su_token_hash = sha256 C drawn, su_purpose = purpose,
         su_issued_at = now, su_expires_at = step_up_deadline now, su_used_at = None, su_revoked_at = None\<rparr>]\<rparr>))"
    (is "_ = (_, ?db')") ..
  have "find_step_up (sha256 C drawn) ?db' = Some \<lparr>su_session_id = session_id who, su_token_hash = sha256 C drawn,
      su_purpose = purpose, su_issued_at = now, su_expires_at = step_up_deadline now, su_used_at = None,
      su_revoked_at = None\<rparr>"
    using fresh by (simp add: find_row_fresh)
  then have "is_ok (fst (consume_step_up C who' drawn p t ?db'))
      \<longleftrightarrow> session_id who' = session_id who \<and> p = purpose \<and> t < now + minutes 5" for who' p t
    using drawn by (auto simp: consume_step_up_def step_up_valid_def step_up_deadline_def)
  moreover have "elevation_is_active who t ?db'" if "t < now + minutes 15" for t
    using raise_elevation_live [OF that, of "session_id who" db] by (auto simp: elevation_is_active_def)
  ultimately show ?thesis using True by (simp add: run)
qed

definition example_actor :: session_actor where
  "example_actor = \<lparr>account_id = 2, staff_member_id = 1, session_id = 11, actor_role = Admin,
     actor_auth_version = 1, must_change_pin = False\<rparr>"

lemma step_up_bound_witness:
  "case confirm_admin_pin plain_crypto example_actor ''0000'' ''staff_write'' 200 ''r'' ''step-1'' example_db of
      (Inr r, db') \<Rightarrow> False | (Inl e, db') \<Rightarrow> e = StepUpRequired"
proof -
  have "\<not> admin_confirmed plain_crypto example_actor ''0000'' 200 example_db" by code_simp
  moreover have "''staff_write'' \<in> set STEP_UP_PURPOSES" by code_simp
  ultimately show ?thesis
    using step_up_bound [of "''staff_write''" "''step-1''" plain_crypto example_db example_actor "''0000''" 200 "''r''"]
    by (auto simp: example_db_def empty_db_def split: prod.splits sum.splits)
qed

end
