(* ===== verification/Handoffs.thy ===== *)
theory Handoffs
  imports Elevation
begin

text \<open>
  The handoff to the browser Review Lab (\<open>src/backend/identity/browser_handoffs.py\<close>): an
  elevated administrator issues a link that lives for sixty seconds, its one redemption creates
  a Review Lab session, and every use of that session moves its idle deadline. The handoff
  tokens are a second instance of the interface \<open>one_time\<close>.
\<close>

section \<open>Operations\<close>

record browser_handoff_result =
  hr_handoff_id :: uuid
  hr_token :: string
  hr_expires_at :: time

record browser_session_result =
  br_browser_session_id :: uuid
  br_cookie_value :: string
  br_expires_at :: time

record browser_actor =
  ba_account_id :: uuid
  ba_staff_member_id :: uuid
  ba_browser_session_id :: uuid
  ba_role :: role

abbreviation find_handoff :: "bytes \<Rightarrow> db \<Rightarrow> browser_handoff option" where
  "find_handoff h db \<equiv> find_row bh_token_hash h (browser_handoffs db)"

abbreviation find_browser_session :: "bytes \<Rightarrow> db \<Rightarrow> browser_session option" where
  "find_browser_session h db \<equiv> find_row bs_token_hash h (browser_sessions db)"

text \<open>The condition of \<open>issue_browser_handoff\<close> on the rows behind the caller.\<close>

definition handoff_allowed :: "session_actor \<Rightarrow> time \<Rightarrow> db \<Rightarrow> bool" where
  "handoff_allowed who now db =
     (case (find_session (session_id who) db, find_account (account_id who) db,
            find_staff (staff_member_id who) db) of
        (Some s, Some a, Some staff) \<Rightarrow>
          actor_role who = Admin \<and> se_account_id s = account_id who \<and> se_revoked_at s = None
          \<and> now < se_access_expires_at s \<and> se_auth_version s = ac_auth_version a
          \<and> ac_id a = account_id who \<and> ac_staff_member_id a = staff_member_id who
          \<and> ac_role a = Admin \<and> ac_status a = Active
          \<and> actor_auth_version who = ac_auth_version a \<and> st_is_active staff
      | _ \<Rightarrow> False)"

definition issue_browser_handoff ::
  "crypto \<Rightarrow> session_actor \<Rightarrow> time \<Rightarrow> string \<Rightarrow> string \<Rightarrow> uuid \<Rightarrow> string \<Rightarrow> db
   \<Rightarrow> browser_handoff_result result \<times> db" where
  "issue_browser_handoff C who now req step_up hid drawn db =
     (if \<not> handoff_allowed who now db then (Inl HandoffInvalid, db)
      else and_then (touch_admin_elevation who now db) (\<lambda>_ db1.
           and_then (consume_step_up C who step_up ''review_lab_handoff'' now db1) (\<lambda>_ db2.
             case issue_credential C drawn of
               Inl e \<Rightarrow> (Inl e, db2)
             | Inr c \<Rightarrow>
                 and_then (append_audit (AuditEventInput (Some (account_id who))
                     (Some (staff_member_id who)) ''admin.review_lab_handoff_issued'' Success req
                     ''browser_handoff'' (Some hid) [(''handoff_id'', JStr (uuid_str hid))])
                     (db2\<lparr>browser_handoffs := browser_handoffs db2 @
                       [\<lparr>bh_id = hid, bh_account_id = account_id who, bh_session_id = session_id who,
                         bh_token_hash = digest c, bh_purpose = ''review_lab'',
                         bh_expires_at = now + seconds 60, bh_redeemed_at = None,
                         bh_revoked_at = None, bh_created_at = now\<rparr>]\<rparr>))
                   (\<lambda>_ db3. (Inr \<lparr>hr_handoff_id = hid, hr_token = raw c,
                                  hr_expires_at = now + seconds 60\<rparr>, db3)))))"

definition handoff_valid :: "browser_handoff \<Rightarrow> time \<Rightarrow> bool" where
  "handoff_valid h now \<longleftrightarrow> bh_purpose h = ''review_lab'' \<and> bh_revoked_at h = None
     \<and> bh_redeemed_at h = None \<and> now < bh_expires_at h"

text \<open>The session, account and staff member behind a handoff, while all three still hold.\<close>

definition handoff_issuer ::
  "browser_handoff \<Rightarrow> time \<Rightarrow> db \<Rightarrow> (access_session \<times> account \<times> staff_member) option" where
  "handoff_issuer h now db =
     (case (find_session (bh_session_id h) db, find_account (bh_account_id h) db) of
        (Some s, Some a) \<Rightarrow>
          (case find_staff (ac_staff_member_id a) db of
             None \<Rightarrow> None
           | Some staff \<Rightarrow>
               if se_account_id s = ac_id a \<and> se_revoked_at s = None
                  \<and> now < se_renewal_expires_at s \<and> se_auth_version s = ac_auth_version a
                  \<and> ac_role a = Admin \<and> ac_status a = Active \<and> st_is_active staff
               then Some (s, a, staff) else None)
      | _ \<Rightarrow> None)"

definition redeem_browser_handoff ::
  "crypto \<Rightarrow> string \<Rightarrow> time \<Rightarrow> string \<Rightarrow> uuid \<Rightarrow> string \<Rightarrow> db \<Rightarrow> browser_session_result result \<times> db" where
  "redeem_browser_handoff C token now req bsid drawn db =
     (case hash_token C token of
        Inl _ \<Rightarrow> (Inl HandoffInvalid, db)
      | Inr d \<Rightarrow>
          (case find_handoff d db of
             None \<Rightarrow> (Inl HandoffInvalid, db)
           | Some h \<Rightarrow>
               if \<not> handoff_valid h now then (Inl HandoffInvalid, db)
               else case handoff_issuer h now db of
                 None \<Rightarrow> (Inl HandoffInvalid, db)
               | Some (s, a, staff) \<Rightarrow>
                   let db1 = db\<lparr>browser_handoffs := update_rows (\<lambda>r. bh_token_hash r = d)
                         (\<lambda>r. r\<lparr>bh_redeemed_at := Some now\<rparr>) (browser_handoffs db)\<rparr>
                   in case issue_credential C drawn of
                        Inl e \<Rightarrow> (Inl e, db1)
                      | Inr c \<Rightarrow>
                          and_then (append_audit (AuditEventInput (Some (ac_id a)) (Some (st_id staff))
                              ''admin.review_lab_handoff_redeemed'' Success req ''browser_session''
                              (Some bsid) [(''handoff_id'', JStr (uuid_str (bh_id h))),
                                (''browser_session_id'', JStr (uuid_str bsid))])
                              (db1\<lparr>browser_sessions := browser_sessions db1 @
                                [\<lparr>bs_id = bsid, bs_account_id = ac_id a, bs_issuing_session_id = se_id s,
                                  bs_token_hash = digest c, bs_purpose = ''review_lab'',
                                  bs_last_used_at = now, bs_expires_at = now + minutes 30,
                                  bs_created_at = now, bs_revoked_at = None\<rparr>]\<rparr>))
                            (\<lambda>_ db2. (Inr \<lparr>br_browser_session_id = bsid, br_cookie_value = raw c,
                                           br_expires_at = now + minutes 30\<rparr>, db2))))"

definition browser_session_valid :: "browser_session \<Rightarrow> time \<Rightarrow> bool" where
  "browser_session_valid b now \<longleftrightarrow> bs_purpose b = ''review_lab'' \<and> bs_revoked_at b = None
     \<and> now < bs_expires_at b"

text \<open>The administrator a Review Lab session acts for.\<close>

definition lab_admin :: "uuid \<Rightarrow> db \<Rightarrow> (account \<times> staff_member) option" where
  "lab_admin aid db =
     (case find_account aid db of
        None \<Rightarrow> None
      | Some a \<Rightarrow>
          (case find_staff (ac_staff_member_id a) db of
             None \<Rightarrow> None
           | Some staff \<Rightarrow> if ac_role a = Admin \<and> ac_status a = Active \<and> st_is_active staff
                           then Some (a, staff) else None))"

definition resolve_browser_session :: "crypto \<Rightarrow> string \<Rightarrow> time \<Rightarrow> db \<Rightarrow> browser_actor result \<times> db" where
  "resolve_browser_session C cookie now db =
     (case hash_token C cookie of
        Inl _ \<Rightarrow> (Inl BrowserSessionInvalid, db)
      | Inr d \<Rightarrow>
          (case find_browser_session d db of
             None \<Rightarrow> (Inl BrowserSessionInvalid, db)
           | Some b \<Rightarrow>
               if \<not> browser_session_valid b now then (Inl BrowserSessionInvalid, db)
               else case lab_admin (bs_account_id b) db of
                 None \<Rightarrow> (Inl BrowserSessionInvalid, db)
               | Some (a, staff) \<Rightarrow>
                   (Inr \<lparr>ba_account_id = ac_id a, ba_staff_member_id = st_id staff,
                         ba_browser_session_id = bs_id b, ba_role = ac_role a\<rparr>,
                    db\<lparr>browser_sessions := update_rows (\<lambda>r. bs_token_hash r = d)
                        (\<lambda>r. r\<lparr>bs_last_used_at := now, bs_expires_at := now + minutes 30\<rparr>)
                        (browser_sessions db)\<rparr>)))"

text \<open>
  \<open>require_review_lab_access\<close>: what the wrapped view is called as, or which form of 404 the
  caller gets. The kind already recorded on the request is the argument \<open>kind\<close>.
\<close>

datatype lab_access = View string | NotFoundJson | NotFoundText

definition require_review_lab_access :: "browser_actor option \<Rightarrow> string option \<Rightarrow> string \<Rightarrow> lab_access" where
  "require_review_lab_access who kind path =
     (if who \<noteq> None then View ''individual_browser_session''
      else if kind = Some ''legacy_shared_admin'' then View ''legacy_shared_admin''
      else if is_prefix ''/api/'' path then NotFoundJson else NotFoundText)"

section \<open>A handoff is redeemed at most once\<close>

lemma redeem_Inr:
  assumes "redeem_browser_handoff C token now req bsid drawn db = (Inr r, db')"
  obtains h s a staff ev where "token \<noteq> []" "drawn \<noteq> []" "find_handoff (sha256 C token) db = Some h"
    "handoff_valid h now" "handoff_issuer h now db = Some (s, a, staff)"
    "r = \<lparr>br_browser_session_id = bsid, br_cookie_value = drawn, br_expires_at = now + minutes 30\<rparr>"
    "db' = log_event ev (db\<lparr>browser_handoffs := update_rows (\<lambda>r. bh_token_hash r = sha256 C token)
         (\<lambda>r. r\<lparr>bh_redeemed_at := Some now\<rparr>) (browser_handoffs db),
       browser_sessions := browser_sessions db @
         [\<lparr>bs_id = bsid, bs_account_id = ac_id a, bs_issuing_session_id = se_id s,
           bs_token_hash = sha256 C drawn, bs_purpose = ''review_lab'',
           bs_last_used_at = now, bs_expires_at = now + minutes 30,
           bs_created_at = now, bs_revoked_at = None\<rparr>]\<rparr>)"
proof -
  from assms have "token \<noteq> []" by (auto simp: redeem_browser_handoff_def hash_token_def)
  with assms show thesis
    by (auto simp: redeem_browser_handoff_def Let_def and_then_eq_Inr dest!: log_after
        split: option.splits sum.splits if_splits intro!: that)
qed

text \<open>Also a redemption that raises spends nothing it had not spent before.\<close>

lemma redeem_handoffs:
  assumes "redeem_browser_handoff C token now req bsid drawn db = (r, db')"
  shows "browser_handoffs db' = browser_handoffs db
    \<or> browser_handoffs db' = update_rows (\<lambda>r. bh_token_hash r = sha256 C token)
         (\<lambda>r. r\<lparr>bh_redeemed_at := Some now\<rparr>) (browser_handoffs db)"
proof (cases "token = []")
  case False
  with assms show ?thesis
    by (auto simp: redeem_browser_handoff_def Let_def and_then_def
        dest!: append_audit_Inl log_after split: option.splits sum.splits if_splits prod.splits)
qed (use assms in \<open>auto simp: redeem_browser_handoff_def hash_token_def\<close>)

definition unredeemed :: "bytes \<Rightarrow> db \<Rightarrow> bool" where
  "unredeemed d db \<longleftrightarrow> (case find_handoff d db of None \<Rightarrow> False | Some h \<Rightarrow> bh_redeemed_at h = None)"

text \<open>An attempt: the raw token, when, under which request, and what the system drew.\<close>

type_synonym redeem_attempt = "string \<times> time \<times> string \<times> uuid \<times> string"

definition attempt_redeem :: "crypto \<Rightarrow> redeem_attempt \<Rightarrow> db \<Rightarrow> browser_session_result result \<times> db" where
  "attempt_redeem C k db =
     (case k of (token, now, req, bsid, drawn) \<Rightarrow> redeem_browser_handoff C token now req bsid drawn db)"

lemma redeem_spends:
  "redeem_browser_handoff C token now req bsid drawn db = (Inr r, db') \<Longrightarrow>
   unredeemed (sha256 C token) db \<and> \<not> unredeemed (sha256 C token) db'"
  by (elim redeem_Inr) (auto simp: unredeemed_def find_update_rows handoff_valid_def dest: find_row_SomeD)

lemma redeem_spent_stays:
  assumes "redeem_browser_handoff C token now req bsid drawn db = (r, db')" "\<not> unredeemed d db"
  shows "\<not> unredeemed d db'"
  using redeem_handoffs [OF assms(1)] assms(2)
  by (cases "find_handoff d db") (auto simp: unredeemed_def find_update_rows split: if_splits)

interpretation handoff: one_time "attempt_redeem C" "\<lambda>k. sha256 C (fst k)" unredeemed for C
proof (unfold_locales, goal_cases)
  case (1 k db r db')
  then show ?case by (cases k) (auto simp: attempt_redeem_def dest: redeem_spends)
next
  case (2 k db r db')
  then show ?case by (cases k) (auto simp: attempt_redeem_def dest: redeem_spends)
next
  case (3 k db x db' t)
  then show ?case by (cases k) (auto simp: attempt_redeem_def dest: redeem_spent_stays)
qed

text \<open>
  C13. A Review Lab link opens at most one browser session: in any sequence of redemptions, at
  whatever times, at most one presentation of the token is accepted.
\<close>

theorem handoff_redeemed_at_most_once:
  "length (filter (\<lambda>(k, r). sha256 C (fst k) = d \<and> is_ok r) (fst (attempts (attempt_redeem C) ks db))) \<le> 1"
  by (rule handoff.at_most_once)

section \<open>From the link to the session\<close>

lemma touch_frame: "touch_admin_elevation who now db = (r, db') \<Longrightarrow> \<exists>rows. db' = db\<lparr>admin_elevations := rows\<rparr>"
  by (auto simp: touch_admin_elevation_def split: option.splits if_splits)
    (metis db.surjective db.update_convs(5))+

lemma issue_handoff_Inr:
  assumes "issue_browser_handoff C who now req step_up hid drawn db = (Inr link, db')"
  obtains rows row ev where "handoff_allowed who now db" "drawn \<noteq> []"
    "find_step_up (sha256 C step_up) db = Some row"
    "step_up_valid row (session_id who) ''review_lab_handoff'' now"
    "link = \<lparr>hr_handoff_id = hid, hr_token = drawn, hr_expires_at = now + seconds 60\<rparr>"
    "db' = log_event ev (db\<lparr>admin_elevations := rows,
       step_up_tokens := update_rows (\<lambda>r. su_token_hash r = sha256 C step_up)
         (\<lambda>r. r\<lparr>su_used_at := Some now\<rparr>) (step_up_tokens db),
       browser_handoffs := browser_handoffs db @
         [\<lparr>bh_id = hid, bh_account_id = account_id who, bh_session_id = session_id who,
           bh_token_hash = sha256 C drawn, bh_purpose = ''review_lab'',
           bh_expires_at = now + seconds 60, bh_redeemed_at = None,
           bh_revoked_at = None, bh_created_at = now\<rparr>]\<rparr>)"
proof -
  from assms obtain x db1 db2 where allowed: "handoff_allowed who now db"
    and touched: "touch_admin_elevation who now db = (Inr x, db1)"
    and used: "consume_step_up C who step_up ''review_lab_handoff'' now db1 = (Inr (), db2)"
    by (auto simp: issue_browser_handoff_def and_then_eq_Inr split: if_splits)
  from touch_frame [OF touched] obtain rows where db1: "db1 = db\<lparr>admin_elevations := rows\<rparr>" ..
  from used obtain row where row: "find_step_up (sha256 C step_up) db1 = Some row"
    "step_up_valid row (session_id who) ''review_lab_handoff'' now"
    "db2 = db1\<lparr>step_up_tokens := update_rows (\<lambda>r. su_token_hash r = sha256 C step_up)
         (\<lambda>r. r\<lparr>su_used_at := Some now\<rparr>) (step_up_tokens db1)\<rparr>"
    by (rule consume_step_up_Inr)
  from assms allowed touched used row db1 show thesis
    by (auto simp: issue_browser_handoff_def and_then_eq_Inr dest!: log_after
        split: sum.splits intro!: that)
qed

lemma handoff_issuer_found:
  assumes "handoff_allowed who now db" "bh_session_id h = session_id who" "bh_account_id h = account_id who"
    "sessions db' = sessions db" "accounts db' = accounts db" "staff_members db' = staff_members db"
  shows "\<exists>s a staff. find_session (session_id who) db = Some s
    \<and> handoff_issuer h t db' = (if t < se_renewal_expires_at s then Some (s, a, staff) else None)
    \<and> ac_id a = account_id who \<and> st_id staff = staff_member_id who
    \<and> lab_admin (account_id who) db' = Some (a, staff)"
proof -
  obtain s a staff where rows: "find_session (session_id who) db = Some s"
      "find_account (account_id who) db = Some a" "find_staff (staff_member_id who) db = Some staff"
    and ok: "se_account_id s = ac_id a" "se_revoked_at s = None" "se_auth_version s = ac_auth_version a"
      "ac_staff_member_id a = staff_member_id who" "ac_role a = Admin" "ac_status a = Active" "st_is_active staff"
      "ac_id a = account_id who"
    using assms(1) by (auto simp: handoff_allowed_def split: option.splits)
  have "st_id staff = staff_member_id who" using rows(3) by (auto dest: find_row_SomeD)
  with rows ok assms show ?thesis
    by (intro exI [of _ s] exI [of _ a] exI [of _ staff]) (simp add: handoff_issuer_def lab_admin_def)
qed

text \<open>An event the validator accepts is appended.\<close>

lemma run_event:
  assumes "event_ok act kvs" "act \<noteq> ''system.initial_admin_bootstrapped''"
  shows "append_audit (AuditEventInput (Some a) (Some s) act r q tt tid kvs) db
    = (Inr (), log_event (AuditEventInput (Some a) (Some s) act r q tt tid kvs) db)"
  using append_event [OF assms(1), of "Some a" "Some s"] assms(2) by simp

lemma redeem_runs:
  assumes "token \<noteq> []" "drawn \<noteq> []" "find_handoff (sha256 C token) db = Some h" "handoff_valid h now"
    "handoff_issuer h now db = Some (s, a, staff)"
  shows "\<exists>ev. redeem_browser_handoff C token now req bsid drawn db =
    (Inr \<lparr>br_browser_session_id = bsid, br_cookie_value = drawn, br_expires_at = now + minutes 30\<rparr>,
     log_event ev (db\<lparr>browser_handoffs := update_rows (\<lambda>r. bh_token_hash r = sha256 C token)
         (\<lambda>r. r\<lparr>bh_redeemed_at := Some now\<rparr>) (browser_handoffs db),
       browser_sessions := browser_sessions db @
         [\<lparr>bs_id = bsid, bs_account_id = ac_id a, bs_issuing_session_id = se_id s,
           bs_token_hash = sha256 C drawn, bs_purpose = ''review_lab'',
           bs_last_used_at = now, bs_expires_at = now + minutes 30,
           bs_created_at = now, bs_revoked_at = None\<rparr>]\<rparr>))"
  using assms by (auto simp: redeem_browser_handoff_def run_event handoff_redeemed_event)

lemma lab_admin_cong:
  "accounts db' = accounts db \<Longrightarrow> staff_members db' = staff_members db \<Longrightarrow> lab_admin aid db' = lab_admin aid db"
  by (simp add: lab_admin_def cong: option.case_cong)

text \<open>A Review Lab session that is the only one with its token, used at one instant and the next.\<close>

lemma resolve_lab:
  assumes "cookie \<noteq> []" "find_browser_session (sha256 C cookie) db = Some b"
    "bs_purpose b = ''review_lab''" "bs_revoked_at b = None" "lab_admin (bs_account_id b) db = Some (a, staff)"
  shows "resolve_browser_session C cookie u db =
    (if u < bs_expires_at b
     then (Inr \<lparr>ba_account_id = ac_id a, ba_staff_member_id = st_id staff,
                 ba_browser_session_id = bs_id b, ba_role = Admin\<rparr>,
           db\<lparr>browser_sessions := update_rows (\<lambda>r. bs_token_hash r = sha256 C cookie)
             (\<lambda>r. r\<lparr>bs_last_used_at := u, bs_expires_at := u + minutes 30\<rparr>) (browser_sessions db)\<rparr>)
     else (Inl BrowserSessionInvalid, db))"
proof -
  have "ac_role a = Admin" using assms(5) by (auto simp: lab_admin_def split: option.splits if_splits)
  then show ?thesis using assms by (simp add: resolve_browser_session_def browser_session_valid_def)
qed

lemma resolve_lab_slides:
  assumes "cookie \<noteq> []" "find_browser_session (sha256 C cookie) db = Some b"
    "bs_purpose b = ''review_lab''" "bs_revoked_at b = None" "lab_admin (bs_account_id b) db = Some (a, staff)"
    and u: "u < bs_expires_at b"
  shows "is_ok (fst (resolve_browser_session C cookie v (snd (resolve_browser_session C cookie u db))))
    \<longleftrightarrow> v < u + minutes 30"
proof -
  let ?db = "snd (resolve_browser_session C cookie u db)"
  let ?b = "b\<lparr>bs_last_used_at := u, bs_expires_at := u + minutes 30\<rparr>"
  have "bs_token_hash b = sha256 C cookie" using assms(2) by (auto dest: find_row_SomeD)
  then have "find_browser_session (sha256 C cookie) ?db = Some ?b"
    using resolve_lab [OF assms(1-5), of u] assms(2) u by (simp add: find_update_rows)
  moreover have "lab_admin (bs_account_id ?b) ?db = Some (a, staff)"
    using resolve_lab [OF assms(1-5), of u] assms(5) u lab_admin_cong [of ?db db "bs_account_id b"] by simp
  ultimately show ?thesis
    using resolve_lab [of cookie C ?db ?b a staff v] assms(1,3,4) by simp
qed

text \<open>
  C14. A Review Lab link works exactly for its sixty seconds and as long as the time in which the
  session that issued it may be renewed has not run out; a refusal changes nothing. The
  cookie it is redeemed for acts for the issuing administrator only, until thirty minutes have
  passed without a use: every use starts the thirty minutes again.
\<close>

theorem review_lab_round_trip:
  assumes issued: "issue_browser_handoff C who now req step_up hid link_draw db = (Inr link, db1)"
    and fresh: "sha256 C link_draw \<notin> bh_token_hash ` set (browser_handoffs db)"
      "sha256 C cookie_draw \<notin> bs_token_hash ` set (browser_sessions db)" "cookie_draw \<noteq> []"
  shows "case redeem_browser_handoff C (hr_token link) t req2 bsid cookie_draw db1 of
      (Inr r, db2) \<Rightarrow> t < now + seconds 60
        \<and> (\<exists>s. find_session (session_id who) db = Some s \<and> t < se_renewal_expires_at s)
        \<and> (\<forall>u. case resolve_browser_session C (br_cookie_value r) u db2 of
              (Inr b, db3) \<Rightarrow> u < t + minutes 30 \<and> ba_account_id b = account_id who
                \<and> ba_staff_member_id b = staff_member_id who \<and> ba_role b = Admin
                \<and> (\<forall>v. is_ok (fst (resolve_browser_session C (br_cookie_value r) v db3)) \<longleftrightarrow> v < u + minutes 30)
            | (Inl e, db3) \<Rightarrow> e = BrowserSessionInvalid \<and> t + minutes 30 \<le> u)
    | (Inl e, db2) \<Rightarrow> e = HandoffInvalid \<and> db2 = db1
        \<and> (now + seconds 60 \<le> t
           \<or> (\<exists>s. find_session (session_id who) db = Some s \<and> se_renewal_expires_at s \<le> t))"
proof (rule issue_handoff_Inr [OF issued])
  fix rows row ev
  let ?h = "\<lparr>bh_id = hid, bh_account_id = account_id who, bh_session_id = session_id who,
           bh_token_hash = sha256 C link_draw, bh_purpose = ''review_lab'',
           bh_expires_at = now + seconds 60, bh_redeemed_at = None,
           bh_revoked_at = None, bh_created_at = now\<rparr>"
  assume allowed: "handoff_allowed who now db" and drawn: "link_draw \<noteq> []"
    and link: "link = \<lparr>hr_handoff_id = hid, hr_token = link_draw, hr_expires_at = now + seconds 60\<rparr>"
    and db1: "db1 = log_event ev (db\<lparr>admin_elevations := rows,
       step_up_tokens := update_rows (\<lambda>r. su_token_hash r = sha256 C step_up)
         (\<lambda>r. r\<lparr>su_used_at := Some now\<rparr>) (step_up_tokens db),
       browser_handoffs := browser_handoffs db @ [?h]\<rparr>)"
  have found: "find_handoff (sha256 C link_draw) db1 = Some ?h"
    using fresh(1) by (simp add: db1 find_row_fresh)
  obtain s a staff where s: "find_session (session_id who) db = Some s"
    and issuer: "handoff_issuer ?h t db1 = (if t < se_renewal_expires_at s then Some (s, a, staff) else None)"
    and ids: "ac_id a = account_id who" "st_id staff = staff_member_id who"
    and admin: "lab_admin (account_id who) db1 = Some (a, staff)"
    using handoff_issuer_found [OF allowed, of ?h db1 t] by (auto simp: db1)
  show ?thesis
  proof (cases "t < now + seconds 60 \<and> t < se_renewal_expires_at s")
    case False
    then have "redeem_browser_handoff C link_draw t req2 bsid cookie_draw db1 = (Inl HandoffInvalid, db1)"
      using drawn found issuer by (auto simp: redeem_browser_handoff_def handoff_valid_def)
    with False s show ?thesis by (auto simp: link)
  next
    case True
    let ?b = "\<lparr>bs_id = bsid, bs_account_id = ac_id a, bs_issuing_session_id = se_id s,
           bs_token_hash = sha256 C cookie_draw, bs_purpose = ''review_lab'',
           bs_last_used_at = t, bs_expires_at = t + minutes 30,
           bs_created_at = t, bs_revoked_at = None\<rparr>"
    have "handoff_valid ?h t" "handoff_issuer ?h t db1 = Some (s, a, staff)"
      using True issuer by (simp_all add: handoff_valid_def)
    from redeem_runs [OF drawn fresh(3) found this, of req2 bsid] obtain ev2 db2 where
      run: "redeem_browser_handoff C link_draw t req2 bsid cookie_draw db1 =
        (Inr \<lparr>br_browser_session_id = bsid, br_cookie_value = cookie_draw, br_expires_at = t + minutes 30\<rparr>, db2)"
      and db2: "accounts db2 = accounts db1" "staff_members db2 = staff_members db1"
        "browser_sessions db2 = browser_sessions db @ [?b]"
      by (auto simp: db1)
    have b: "find_browser_session (sha256 C cookie_draw) db2 = Some ?b"
      using fresh(2) by (simp add: db2 find_row_fresh)
    have lab: "lab_admin (bs_account_id ?b) db2 = Some (a, staff)"
      using admin lab_admin_cong [OF db2(1,2), of "account_id who"] by (simp add: ids)
    note use = resolve_lab [OF fresh(3) b _ _ lab, simplified]
      resolve_lab_slides [OF fresh(3) b _ _ lab, simplified]
    show ?thesis
      using True s use(2) by (auto simp: run link use(1) ids split: prod.splits sum.splits if_splits)
  qed
qed

text \<open>A session of the example account, elevated and with a step-up token for the handoff.\<close>

definition lab_db :: db where
  "lab_db = example_db\<lparr>
     sessions := [\<lparr>se_id = 11, se_account_id = 2, se_auth_version = 1, se_access_token_hash = ''access'',
        se_access_expires_at = minutes 15, se_renewal_token_hash = ''renewal'', se_renewal_expires_at = hours 12,
        se_renewal_family_id = 12, se_device_id_hash = ''dev'', se_device_label = ''desk'',
        se_persistent = False, se_last_used_at = 0, se_created_at = 0, se_revoked_at = None,
        se_revoke_reason = None\<rparr>],
     admin_elevations := [\<lparr>el_session_id = 11, el_issued_at = 0, el_last_used_at = 0,
        el_idle_expires_at = minutes 15, el_revoked_at = None\<rparr>],
     step_up_tokens := [\<lparr>su_session_id = 11, su_token_hash = ''step'', su_purpose = ''review_lab_handoff'',
        su_issued_at = 0, su_expires_at = minutes 5, su_used_at = None, su_revoked_at = None\<rparr>]\<rparr>"

lemma lab_db_issues:
  "\<exists>link db1. issue_browser_handoff plain_crypto example_actor 7 ''r'' ''step'' 31 ''link'' lab_db = (Inr link, db1)
     \<and> hr_token link = ''link''"
proof -
  have "handoff_allowed example_actor 7 lab_db" by code_simp
  moreover obtain t db1 where touch: "touch_admin_elevation example_actor 7 lab_db = (Inr t, db1)"
    and "step_up_tokens db1 = step_up_tokens lab_db"
    by (auto simp: touch_admin_elevation_def lab_db_def example_actor_def elevation_live_def minutes_def seconds_def)
  moreover obtain db2 where
    "consume_step_up plain_crypto example_actor ''step'' ''review_lab_handoff'' 7 db1 = (Inr (), db2)"
    using calculation
    by (auto simp: consume_step_up_def hash_token_def plain_crypto_def lab_db_def example_actor_def
        step_up_valid_def minutes_def seconds_def)
  ultimately show ?thesis
    by (auto simp: issue_browser_handoff_def run_event uuid_actions)
qed

lemma review_lab_round_trip_witness:
  "\<exists>link db1. issue_browser_handoff plain_crypto example_actor 7 ''r'' ''step'' 31 ''link'' lab_db = (Inr link, db1)
     \<and> is_ok (fst (redeem_browser_handoff plain_crypto (hr_token link) 20 ''r'' 32 ''cookie'' db1))"
proof -
  obtain link db1 where
    run: "issue_browser_handoff plain_crypto example_actor 7 ''r'' ''step'' 31 ''link'' lab_db = (Inr link, db1)"
    using lab_db_issues by blast
  have "\<exists>s. find_session (session_id example_actor) lab_db = Some s \<and> 20 < se_renewal_expires_at s"
    by (simp add: lab_db_def example_actor_def hours_def minutes_def seconds_def)
  moreover have "sha256 plain_crypto ''link'' \<notin> bh_token_hash ` set (browser_handoffs lab_db)"
    "sha256 plain_crypto ''cookie'' \<notin> bs_token_hash ` set (browser_sessions lab_db)"
    by (simp_all add: lab_db_def example_db_def empty_db_def)
  ultimately have "is_ok (fst (redeem_browser_handoff plain_crypto (hr_token link) 20 ''r'' 32 ''cookie'' db1))"
    using review_lab_round_trip [OF run, of "''cookie''" 20 "''r''" 32]
    by (cases "redeem_browser_handoff plain_crypto (hr_token link) 20 ''r'' 32 ''cookie'' db1")
      (auto simp: seconds_def is_ok_def split: sum.splits)
  with run show ?thesis by blast
qed

end
