(* ===== verification/Mutations.thy ===== *)
theory Mutations
  imports Idempotency Handoffs
begin

text \<open>
  The account writes of the Access API (\<open>src/backend/webapp/api_v1/auth.py\<close>): \<open>_mutation\<close> runs
  an operation under an idempotency key, commits it with its completed record, and rolls
  everything back when it raises. The locale \<open>keyed_operation\<close> states what an operation must
  promise for a repetition of the request to be answered without running it again.
\<close>

section \<open>\<open>_mutation\<close>\<close>

text \<open>A response carries the fresh data of the operation or the stored reference.\<close>

datatype 'a api_response = Fresh 'a | Replayed int json

text \<open>The handlers of \<open>_mutation\<close>, in their order; other exceptions pass through.\<close>

fun mutation_error :: "exn \<Rightarrow> exn" where
  "mutation_error InvalidCredentials = ApiError ''invalid_credentials'' 401"
| "mutation_error SessionReauthenticationRequired = ApiError ''session_reauthentication_required'' 401"
| "mutation_error (RuntimeError m) = ApiError ''dependency_unavailable'' 503"
| "mutation_error e = (if is_ValueError e then ApiError ''validation_failed'' 400 else e)"

fun claim_error :: "exn \<Rightarrow> exn" where
  "claim_error RequestInProgress = ApiError ''request_in_progress'' 409"
| "claim_error IdempotencyConflict = ApiError ''idempotency_conflict'' 409"
| "claim_error e = (if is_ValueError e then ApiError ''validation_failed'' 400 else e)"

definition idempotency_key :: "string \<Rightarrow> string result" where
  "idempotency_key header =
     (if header = [] then Inl (ApiError ''validation_failed'' 400) else Inr header)"

text \<open>\<open>reference.get("one_time_value_unavailable") is True\<close>\<close>

fun one_time_value :: "json \<Rightarrow> bool" where
  "one_time_value (JObj kvs) \<longleftrightarrow> obj_get ''one_time_value_unavailable'' kvs = Some (JBool True)"
| "one_time_value _ \<longleftrightarrow> False"

definition replay_response :: "idempotency_claim \<Rightarrow> 'a api_response result" where
  "replay_response c =
     (let ref = (case response_reference c of None \<Rightarrow> JObj [] | Some r \<Rightarrow> r)
      in if one_time_value ref then Inl (ApiError ''idempotent_response_unavailable'' 409)
         else Inr (Replayed (case response_status c of None \<Rightarrow> 200 | Some s \<Rightarrow> if s = 0 then 200 else s) ref))"

definition mutation_body ::
  "crypto \<Rightarrow> uuid \<Rightarrow> string \<Rightarrow> string \<Rightarrow> json \<Rightarrow> (time \<Rightarrow> db \<Rightarrow> ('a \<times> json) result \<times> db)
   \<Rightarrow> time \<Rightarrow> uuid \<Rightarrow> db \<Rightarrow> 'a api_response result \<times> db" where
  "mutation_body C who header act payload op now i db =
     (case idempotency_key header of
        Inl e \<Rightarrow> (Inl e, db)
      | Inr key \<Rightarrow>
          (case claim_idempotency who key act (request_digest C payload) now i db of
             (Inl e, db1) \<Rightarrow> (Inl (claim_error e), db1)
           | (Inr c, db1) \<Rightarrow>
               if replayed c then (replay_response c, db1)
               else and_then (op now db1) (\<lambda>(data, ref) db2.
                    and_then (complete_idempotency c 200 ref now db2) (\<lambda>_ db3. (Inr (Fresh data), db3)))))"

definition mutation ::
  "crypto \<Rightarrow> uuid \<Rightarrow> string \<Rightarrow> string \<Rightarrow> json \<Rightarrow> (time \<Rightarrow> db \<Rightarrow> ('a \<times> json) result \<times> db)
   \<Rightarrow> time \<Rightarrow> uuid \<Rightarrow> db \<Rightarrow> 'a api_response result \<times> db" where
  "mutation C who header act payload op now i db =
     (case mutation_body C who header act payload op now i db of
        (Inl e, _) \<Rightarrow> (Inl (mutation_error e), db)
      | (Inr r, db') \<Rightarrow> (Inr r, db'))"

section \<open>The operations of the routes\<close>

definition logout_operation :: "session_actor \<Rightarrow> string \<Rightarrow> time \<Rightarrow> db \<Rightarrow> (json \<times> json) result \<times> db" where
  "logout_operation who req now db =
     and_then (revoke_session (account_id who) (session_id who) now req db)
       (\<lambda>_ db1. (Inr (JObj [(''signed_out'', JBool True)], JObj [(''signed_out'', JBool True)]), db1))"

definition logout_all_operation :: "session_actor \<Rightarrow> string \<Rightarrow> time \<Rightarrow> db \<Rightarrow> (json \<times> json) result \<times> db" where
  "logout_all_operation who req now db =
     and_then (logout_all (account_id who) now req db) (\<lambda>n db1.
       let d = JObj [(''signed_out_account_id'', JStr (uuid_str (account_id who))),
                     (''session_count'', JInt (int n))]
       in (Inr (d, d), db1))"

definition change_pin_operation ::
  "crypto \<Rightarrow> identity_settings \<Rightarrow> session_actor \<Rightarrow> string \<Rightarrow> string \<Rightarrow> string \<Rightarrow> string \<Rightarrow> session_draws
   \<Rightarrow> time \<Rightarrow> db \<Rightarrow> (session_token_pair \<times> json) result \<times> db" where
  "change_pin_operation C cfg who current_pin new_pin dev req dr now db =
     (if current_pin = [] \<or> new_pin = [] then (Inl (ApiError ''validation_failed'' 400), db)
      else and_then (change_pin C cfg (account_id who) (session_id who) current_pin new_pin dev now req dr db)
        (\<lambda>pair db1. (Inr (pair, JObj [(''session_id'', JStr (uuid_str (sp_session_id pair))),
                                     (''one_time_value_unavailable'', JBool True)]), db1)))"

definition delete_session_operation ::
  "session_actor \<Rightarrow> uuid \<Rightarrow> string \<Rightarrow> time \<Rightarrow> db \<Rightarrow> (json \<times> json) result \<times> db" where
  "delete_session_operation who sid req now db =
     and_then (revoke_session (account_id who) sid now req db) (\<lambda>_ db1.
       let d = JObj [(''session_id'', JStr (uuid_str sid)), (''revoked'', JBool True)]
       in (Inr (d, d), db1))"

definition delete_session_route ::
  "crypto \<Rightarrow> session_actor \<Rightarrow> string \<Rightarrow> uuid \<Rightarrow> string \<Rightarrow> time \<Rightarrow> uuid \<Rightarrow> db
   \<Rightarrow> json api_response result \<times> db" where
  "delete_session_route C who header sid req now i db =
     mutation C (account_id who) header ''auth.revoke_session''
       (JObj [(''session_id'', JStr (uuid_str sid))]) (delete_session_operation who sid req) now i db"

definition change_pin_route ::
  "crypto \<Rightarrow> identity_settings \<Rightarrow> session_actor \<Rightarrow> string \<Rightarrow> string \<Rightarrow> string \<Rightarrow> string \<Rightarrow> string
   \<Rightarrow> session_draws \<Rightarrow> time \<Rightarrow> uuid \<Rightarrow> db \<Rightarrow> session_token_pair api_response result \<times> db" where
  "change_pin_route C cfg who header current_pin new_pin dev req dr now i db =
     (case hash_device_id C dev (pepper_of cfg) of
        Inl _ \<Rightarrow> (Inl (ApiError ''validation_failed'' 400), db)
      | Inr _ \<Rightarrow>
          mutation C (account_id who) header ''auth.change_pin''
            (JObj [(''current_pin'', JStr current_pin), (''new_pin'', JStr new_pin)])
            (change_pin_operation C cfg who current_pin new_pin dev req dr) now i db)"

section \<open>Operations under a key\<close>

text \<open>
  What an operation owes \<open>_mutation\<close>: it leaves the idempotency records alone, and the
  reference it returns may be stored.
\<close>

locale keyed_operation =
  fixes operation :: "time \<Rightarrow> db \<Rightarrow> ('a \<times> json) result \<times> db"
  assumes keeps_records: "operation now db = (Inr x, db') \<Longrightarrow> idempotency_records db' = idempotency_records db"
    and storable: "operation now db = (Inr (d, ref), db') \<Longrightarrow>
      safe_reference ref \<and> length (dumps True ref) \<le> 4096 \<and> (\<exists>kvs. ref = JObj kvs)"
begin

lemma fresh_run:
  assumes run: "mutation C who header act payload operation now i db = (Inr (Fresh d), db')"
  obtains c ref db1 db2 where "header \<noteq> []"
    "claim_idempotency who header act (request_digest C payload) now i db = (Inr c, db1)" "\<not> replayed c"
    "operation now db1 = (Inr (d, ref), db2)" "complete_idempotency c 200 ref now db2 = (Inr (), db')"
proof -
  from run have body: "mutation_body C who header act payload operation now i db = (Inr (Fresh d), db')"
    by (auto simp: mutation_def split: prod.split_asm sum.split_asm)
  then have h: "header \<noteq> []" by (auto simp: mutation_body_def idempotency_key_def)
  obtain r db1 where claim: "claim_idempotency who header act (request_digest C payload) now i db = (r, db1)"
    by fastforce
  with body h obtain c where c: "r = Inr c" by (cases r) (auto simp: mutation_body_def idempotency_key_def)
  with body h claim have "\<not> replayed c"
    by (auto simp: mutation_body_def idempotency_key_def replay_response_def Let_def split: if_split_asm)
  with body h claim c show thesis
    by (auto simp: mutation_body_def idempotency_key_def and_then_eq_Inr intro!: that)
qed

text \<open>A repetition within a day is answered from the record, whatever it would do if it ran.\<close>

lemma replay:
  assumes run: "mutation C who header act payload operation now i db = (Inr (Fresh d), db')"
    and wf: "records_wf db" "i \<notin> id_id ` set (idempotency_records db)" and soon: "now' < now + hours 24"
  shows "\<exists>ref db1 db2. operation now db1 = (Inr (d, ref), db2)
    \<and> mutation C who header act payload other now' i' db' =
       (if one_time_value ref then Inl (ApiError ''idempotent_response_unavailable'' 409)
        else Inr (Replayed 200 ref), db')"
proof (rule fresh_run [OF run])
  fix c ref db1 db2
  assume h: "header \<noteq> []"
    and claim: "claim_idempotency who header act (request_digest C payload) now i db = (Inr c, db1)" "\<not> replayed c"
    and op: "operation now db1 = (Inr (d, ref), db2)"
    and fin: "complete_idempotency c 200 ref now db2 = (Inr (), db')"
  obtain r where pat: "IDEMPOTENCY_KEY_PATTERN header" "length (request_digest C payload) = 32"
    and r: "find_record (who, act, header) db1 = Some r" "id_id r = ic_record_id c"
      "id_request_sha256 r = request_digest C payload" "id_expires_at r = now + hours 24"
    and wf1: "records_wf db1"
    by (rule claim_pending [OF claim wf])
  have same: "idempotency_records db2 = idempotency_records db1" by (rule keeps_records [OF op])
  let ?r = "r\<lparr>id_status := Completed, id_response_status := Some 200, id_response_reference := ref,
    id_completed_at := Some now\<rparr>"
  have "find_record (who, act, header) db' = Some ?r"
    using complete_found [OF fin claim(2), of "(who, act, header)" r] wf1 r(1,2)
    by (simp add: records_wf_def same)
  then have again: "claim_idempotency who header act (request_digest C payload) now' i' db' =
    (Inr \<lparr>ic_record_id = id_id r, replayed = True, response_status = Some 200, response_reference = Some ref\<rparr>, db')"
    using claim_completed [OF pat, of who act db' ?r now' i'] r(3,4) soon by simp
  have "mutation C who header act payload other now' i' db' =
       (if one_time_value ref then Inl (ApiError ''idempotent_response_unavailable'' 409)
        else Inr (Replayed 200 ref), db')"
    using h again
    by (simp add: mutation_def mutation_body_def idempotency_key_def replay_response_def)
  with op show ?thesis by blast
qed

text \<open>An operation that succeeds on its own succeeds under a fresh key.\<close>

lemma completes:
  assumes new: "find_record (who, act, header) db = None" "i \<notin> id_id ` set (idempotency_records db)"
    and key: "IDEMPOTENCY_KEY_PATTERN header" "length (request_digest C payload) = 32"
    and op: "operation now (db\<lparr>idempotency_records := idempotency_records db @
       [new_record i (who, act, header) (request_digest C payload) now]\<rparr>) = (Inr (d, ref), db2)"
  shows "\<exists>db'. mutation C who header act payload operation now i db = (Inr (Fresh d), db')"
proof -
  have h: "header \<noteq> []" using key(1) by (auto simp: IDEMPOTENCY_KEY_PATTERN_def)
  have same: "idempotency_records db2 = idempotency_records db @
      [new_record i (who, act, header) (request_digest C payload) now]"
    using keeps_records [OF op] by simp
  obtain kvs where ref: "ref = JObj kvs" "safe_reference (JObj kvs)" "length (dumps True (JObj kvs)) \<le> 4096"
    using storable [OF op] by auto
  have "find_row id_id i (idempotency_records db2) = Some (new_record i (who, act, header) (request_digest C payload) now)"
    using new(2) by (simp add: same find_row_fresh)
  then show ?thesis
    using h new key op ref
    by (simp add: mutation_def mutation_body_def idempotency_key_def claim_idempotency_def complete_idempotency_def
        new_record_def del: safe_reference.simps dumps.simps)
qed

end

section \<open>The routes as keyed operations\<close>

lemma dumps_short:
  "length (dumps True (JObj kvs)) \<le> 2 + sum_list (map (\<lambda>(k, v). 6 * length k + 4 + length (dumps True v)) kvs)"
proof -
  have "sum_list (map (\<lambda>(k, v). length (quote True k) + 2 + length (dumps True v)) kvs)
      \<le> sum_list (map (\<lambda>(k, v). 6 * length k + 4 + length (dumps True v)) kvs)"
    using length_quote [of True] by (intro sum_list_mono) (auto split: prod.splits simp: add.commute add_mono)
  with length_dumps_obj [of True kvs] show ?thesis by (simp add: order_trans)
qed

lemma revoke_session_records:
  "revoke_session aid sid now req db = (Inr n, db') \<Longrightarrow> idempotency_records db' = idempotency_records db"
  by (auto simp: revoke_session_def revoke_family_def Let_def and_then_eq_Inr dest!: log_after
      split: option.split_asm if_split_asm)

lemma logout_all_records:
  "logout_all aid now req db = (Inr n, db') \<Longrightarrow> idempotency_records db' = idempotency_records db"
  by (elim logout_all_Inr) (simp add: revoke_live_sessions_def set_account_def)

lemma change_pin_records:
  "change_pin C cfg aid sid pin new dev now req dr db = (Inr pair, db') \<Longrightarrow>
   idempotency_records db' = idempotency_records db"
  by (elim change_pin_Inr) (simp add: set_session_def remember_renewal_def set_account_def)

lemma uuid_dumps: "length (dumps True (JStr (uuid_str u))) \<le> 218"
  using length_quote [of True "uuid_str u"] by (simp add: length_uuid_str)

interpretation delete_session: keyed_operation "delete_session_operation who sid req" for who sid req
proof
  show "idempotency_records db' = idempotency_records db"
    if "delete_session_operation who sid req now db = (Inr x, db')" for now db x db'
    using that by (auto simp: delete_session_operation_def and_then_eq_Inr Let_def dest: revoke_session_records)
  show "safe_reference ref \<and> length (dumps True ref) \<le> 4096 \<and> (\<exists>kvs. ref = JObj kvs)"
    if "delete_session_operation who sid req now db = (Inr (d, ref), db')" for now db d ref db'
  proof -
    from that have ref: "ref = JObj [(''session_id'', JStr (uuid_str sid)), (''revoked'', JBool True)]"
      by (auto simp: delete_session_operation_def and_then_eq_Inr Let_def)
    have "length (dumps True ref) \<le> 4096"
      using dumps_short [of "[(''session_id'', JStr (uuid_str sid)), (''revoked'', JBool True)]"] uuid_dumps [of sid]
      by (simp add: ref del: dumps.simps(5) dumps.simps(7))
    then show ?thesis by (simp add: ref FORBIDDEN_REFERENCE_KEYS_def del: dumps.simps)
  qed
qed

interpretation logout_request: keyed_operation "logout_operation who req" for who req
proof
  show "idempotency_records db' = idempotency_records db"
    if "logout_operation who req now db = (Inr x, db')" for now db x db'
    using that by (auto simp: logout_operation_def and_then_eq_Inr dest: revoke_session_records)
  show "safe_reference ref \<and> length (dumps True ref) \<le> 4096 \<and> (\<exists>kvs. ref = JObj kvs)"
    if "logout_operation who req now db = (Inr (d, ref), db')" for now db d ref db'
  proof -
    from that have ref: "ref = JObj [(''signed_out'', JBool True)]"
      by (auto simp: logout_operation_def and_then_eq_Inr)
    have "length (dumps True ref) \<le> 4096"
      using dumps_short [of "[(''signed_out'', JBool True)]"] by (simp add: ref del: dumps.simps(7))
    then show ?thesis by (simp add: ref FORBIDDEN_REFERENCE_KEYS_def del: dumps.simps)
  qed
qed

lemma logout_all_count:
  assumes "logout_all aid now req db = (Inr n, db')"
  shows "length (dumps True (JInt (int n))) \<le> 300"
proof -
  from assms have "metadata_value (JInt (int n))"
    by (auto simp: logout_all_def Let_def and_then_eq_Inr metadata_details_def dest!: append_audit_Inr
        split: option.split_asm)
  then show ?thesis by (intro metadata_value_short) simp_all
qed

interpretation logout_all_request: keyed_operation "logout_all_operation who req" for who req
proof
  show "idempotency_records db' = idempotency_records db"
    if "logout_all_operation who req now db = (Inr x, db')" for now db x db'
    using that by (auto simp: logout_all_operation_def and_then_eq_Inr Let_def dest: logout_all_records)
  show "safe_reference ref \<and> length (dumps True ref) \<le> 4096 \<and> (\<exists>kvs. ref = JObj kvs)"
    if run: "logout_all_operation who req now db = (Inr (d, ref), db')" for now db d ref db'
  proof -
    from run obtain n db1 where n: "logout_all (account_id who) now req db = (Inr n, db1)"
      and ref: "ref = JObj [(''signed_out_account_id'', JStr (uuid_str (account_id who))),
                  (''session_count'', JInt (int n))]"
      by (auto simp: logout_all_operation_def and_then_eq_Inr Let_def)
    have "length (dumps True ref) \<le> 4096"
      using dumps_short [of "[(''signed_out_account_id'', JStr (uuid_str (account_id who))),
                  (''session_count'', JInt (int n))]"] uuid_dumps [of "account_id who"] logout_all_count [OF n]
      by (simp add: ref del: dumps.simps)
    then show ?thesis by (simp add: ref FORBIDDEN_REFERENCE_KEYS_def del: dumps.simps)
  qed
qed

interpretation change_pin_request: keyed_operation "change_pin_operation C cfg who pin new dev req dr"
  for C cfg who pin new dev req dr
proof
  show "idempotency_records db' = idempotency_records db"
    if "change_pin_operation C cfg who pin new dev req dr now db = (Inr x, db')" for now db x db'
    using that
    by (auto simp: change_pin_operation_def and_then_eq_Inr split: if_split_asm dest: change_pin_records)
  show "safe_reference ref \<and> length (dumps True ref) \<le> 4096 \<and> (\<exists>kvs. ref = JObj kvs)"
    if run: "change_pin_operation C cfg who pin new dev req dr now db = (Inr (d, ref), db')" for now db d ref db'
  proof -
    from run have ref: "ref = JObj [(''session_id'', JStr (uuid_str (sp_session_id d))),
        (''one_time_value_unavailable'', JBool True)]"
      by (auto simp: change_pin_operation_def and_then_eq_Inr split: if_split_asm)
    have "length (dumps True ref) \<le> 4096"
      using dumps_short [of "[(''session_id'', JStr (uuid_str (sp_session_id d))),
        (''one_time_value_unavailable'', JBool True)]"] uuid_dumps [of "sp_session_id d"]
      by (simp add: ref del: dumps.simps(5) dumps.simps(7))
    then show ?thesis by (simp add: ref FORBIDDEN_REFERENCE_KEYS_def del: dumps.simps)
  qed
qed

text \<open>
  Ending a session through the API is idempotent: once a request under a key has succeeded,
  the same request repeated within a day answers with the recorded result and leaves the
  database exactly as it was, so the session is revoked and logged once only. Whatever made the
  first attempt raise was rolled back.
\<close>

theorem delete_session_idempotent:
  assumes wf: "records_wf db" "i \<notin> id_id ` set (idempotency_records db)" and soon: "now' < now + hours 24"
  shows "case delete_session_route C who header sid req now i db of
      (Inl e, db') \<Rightarrow> db' = db
    | (Inr (Replayed s ref), db') \<Rightarrow> db' = db
    | (Inr (Fresh d), db') \<Rightarrow>
        delete_session_route C who header sid req' now' i' db' = (Inr (Replayed 200 d), db')"
proof -
  let ?payload = "JObj [(''session_id'', JStr (uuid_str sid))]"
  obtain r db' where run: "delete_session_route C who header sid req now i db = (r, db')" by fastforce
  show ?thesis
  proof (cases r)
    case (Inr x)
    show ?thesis
    proof (cases x)
      case (Fresh d)
      with run Inr have "mutation C (account_id who) header ''auth.revoke_session'' ?payload
          (delete_session_operation who sid req) now i db = (Inr (Fresh d), db')"
        by (simp add: delete_session_route_def)
      from delete_session.replay [OF this wf soon, of "delete_session_operation who sid req'" i']
      obtain ref db1 db2 where op: "delete_session_operation who sid req now db1 = (Inr (d, ref), db2)"
        and again: "delete_session_route C who header sid req' now' i' db' =
          (if one_time_value ref then Inl (ApiError ''idempotent_response_unavailable'' 409)
           else Inr (Replayed 200 ref), db')"
        unfolding delete_session_route_def by blast
      from op have "ref = d" "\<not> one_time_value ref"
        by (auto simp: delete_session_operation_def and_then_eq_Inr Let_def obj_get_def)
      with run Inr Fresh again show ?thesis by simp
    next
      case (Replayed s ref)
      with run Inr show ?thesis
        by (auto simp: delete_session_route_def mutation_def mutation_body_def replay_response_def Let_def
            claim_idempotency_def and_then_eq_Inr split: prod.splits sum.split_asm if_split_asm option.split_asm)
    qed
  qed (use run in \<open>auto simp: delete_session_route_def mutation_def split: prod.splits sum.splits\<close>)
qed

definition short_crypto :: crypto where
  "short_crypto = plain_crypto\<lparr>sha256 := (\<lambda>s. take 32 (s @ replicate 32 (CHR ''0'')))\<rparr>"

lemma revoke_example:
  assumes "sessions db = sessions lab_db" "accounts db = accounts lab_db" "staff_members db = staff_members lab_db"
  shows "\<exists>n db'. revoke_session 2 11 now req db = (Inr n, db')"
  using assms
  by (simp add: revoke_session_def account_for_session_def revoke_family_def Let_def lab_db_def example_db_def
      example_account_def example_staff_def run_event session_events)

lemma delete_session_idempotent_witness:
  "\<exists>d db'. delete_session_route short_crypto example_actor ''key-0001'' 11 ''r'' 5 9 lab_db = (Inr (Fresh d), db')
     \<and> delete_session_route short_crypto example_actor ''key-0001'' 11 ''s'' 500 10 db' = (Inr (Replayed 200 d), db')"
proof -
  let ?payload = "JObj [(''session_id'', JStr (uuid_str 11))]"
  let ?db = "lab_db\<lparr>idempotency_records := idempotency_records lab_db @
    [new_record 9 (account_id example_actor, ''auth.revoke_session'', ''key-0001'')
      (request_digest short_crypto ?payload) 5]\<rparr>"
  have free: "idempotency_records lab_db = []" by (simp add: lab_db_def example_db_def empty_db_def)
  have key: "IDEMPOTENCY_KEY_PATTERN ''key-0001''" by code_simp
  have len: "length (request_digest short_crypto ?payload) = 32"
    by (simp add: request_digest_def short_crypto_def del: dumps.simps)
  obtain n db1 where "revoke_session 2 11 5 ''r'' ?db = (Inr n, db1)"
    using revoke_example [of ?db 5 "''r''"] by auto
  then obtain d ref where op: "delete_session_operation example_actor 11 ''r'' 5 ?db = (Inr (d, ref), db1)"
    by (simp add: delete_session_operation_def example_actor_def Let_def)
  obtain db' where "mutation short_crypto (account_id example_actor) ''key-0001'' ''auth.revoke_session''
      ?payload (delete_session_operation example_actor 11 ''r'') 5 9 lab_db = (Inr (Fresh d), db')"
    using delete_session.completes [OF _ _ key len op] free by auto
  then have run: "delete_session_route short_crypto example_actor ''key-0001'' 11 ''r'' 5 9 lab_db = (Inr (Fresh d), db')"
    by (simp add: delete_session_route_def)
  have "records_wf lab_db" "9 \<notin> id_id ` set (idempotency_records lab_db)" "500 < 5 + hours 24"
    by (simp_all add: free records_wf_def hours_def minutes_def seconds_def)
  from delete_session_idempotent [OF this, where C = short_crypto and who = example_actor
      and header = "''key-0001''" and sid = 11 and req = "''r''" and req' = "''s''" and i' = 10] run
  show ?thesis by auto
qed

end
