(* ===== verification/BrowserSessions.thy ===== *)
theory BrowserSessions
  imports Elevation
begin

text \<open>
  The cookie adapter over the access sessions (\<open>src/backend/identity/browser_sessions.py\<close>): a
  login also binds a random CSRF value to the session, a renewal rotates it with the tokens, and
  a write is accepted only with the value bound to its session. \<open>BrowserActor\<close> of that file is
  the record \<open>session_actor\<close>. The class \<open>BrowserSessionInvalid\<close> of this file and the one of
  \<open>browser_handoffs.py\<close> share a constructor: no handler sees both.
\<close>

section \<open>Operations\<close>

record browser_cookie_pair =
  cp_access_token :: string
  cp_renewal_token :: string
  cp_csrf_token :: string
  cp_access_expires_at :: time
  cp_renewal_expires_at :: time
  cp_persistent :: bool

definition browser_actor_of :: "access_session \<Rightarrow> account \<Rightarrow> session_actor" where
  "browser_actor_of s a =
     \<lparr>account_id = ac_id a, staff_member_id = ac_staff_member_id a, session_id = se_id s,
      actor_role = ac_role a, actor_auth_version = ac_auth_version a,
      must_change_pin = ac_must_change_pin a\<rparr>"

definition resolved :: "uuid \<Rightarrow> db \<Rightarrow> (access_session \<times> account) result" where
  "resolved sid db =
     (case find_session sid db of
        None \<Rightarrow> Inl BrowserSessionInvalid
      | Some s \<Rightarrow>
          (case find_account (se_account_id s) db of
             None \<Rightarrow> Inl BrowserSessionInvalid
           | Some a \<Rightarrow> Inr (s, a)))"

definition cookies_of :: "session_token_pair \<Rightarrow> string \<Rightarrow> browser_cookie_pair" where
  "cookies_of pair csrf =
     \<lparr>cp_access_token = access_token pair, cp_renewal_token = renewal_token pair, cp_csrf_token = csrf,
      cp_access_expires_at = access_expires_at pair, cp_renewal_expires_at = renewal_expires_at pair,
      cp_persistent = persistent pair\<rparr>"

abbreviation find_binding :: "uuid \<Rightarrow> db \<Rightarrow> browser_session_binding option" where
  "find_binding sid db \<equiv> find_row bb_session_id sid (session_bindings db)"

definition create_browser_session ::
  "crypto \<Rightarrow> identity_settings \<Rightarrow> string \<Rightarrow> string \<Rightarrow> string \<Rightarrow> string \<Rightarrow> bool \<Rightarrow> time \<Rightarrow> string
   \<Rightarrow> session_draws \<Rightarrow> string \<Rightarrow> db \<Rightarrow> (session_actor \<times> browser_cookie_pair) result \<times> db" where
  "create_browser_session C cfg emp pin dev label persist now req dr csrf_draw db =
     and_then (login C cfg emp pin dev label persist now req dr db) (\<lambda>pair db1.
       case bind_result (resolved (sp_session_id pair) db1) (\<lambda>(s, a).
            bind_result (issue_credential C csrf_draw) (\<lambda>csrf. Inr (s, a, csrf))) of
         Inl e \<Rightarrow> (Inl e, db1)
       | Inr (s, a, csrf) \<Rightarrow>
           (Inr (browser_actor_of s a, cookies_of pair (raw csrf)),
            db1\<lparr>session_bindings := session_bindings db1 @
              [\<lparr>bb_session_id = sp_session_id pair, bb_csrf_token_hash = digest csrf,
                bb_created_at = now, bb_rotated_at = now\<rparr>]\<rparr>))"

definition resolve_browser_actor :: "crypto \<Rightarrow> string \<Rightarrow> time \<Rightarrow> db \<Rightarrow> session_actor result" where
  "resolve_browser_actor C token now db =
     bind_result (resolve_access_session C token now db) (\<lambda>(s, a). Inr (browser_actor_of s a))"

definition validate_browser_csrf :: "crypto \<Rightarrow> session_actor \<Rightarrow> string \<Rightarrow> db \<Rightarrow> unit result" where
  "validate_browser_csrf C who supplied db =
     (if supplied = [] then Inl BrowserCsrfInvalid
      else case find_binding (session_id who) db of
        None \<Rightarrow> Inl BrowserCsrfInvalid
      | Some b \<Rightarrow>
          (case hash_token C supplied of
             Inl _ \<Rightarrow> Inl BrowserCsrfInvalid
           | Inr h \<Rightarrow> require (bb_csrf_token_hash b = h) BrowserCsrfInvalid))"

definition renew_browser_session ::
  "crypto \<Rightarrow> identity_settings \<Rightarrow> string \<Rightarrow> string \<Rightarrow> string \<Rightarrow> time \<Rightarrow> string \<Rightarrow> session_draws
   \<Rightarrow> string \<Rightarrow> db \<Rightarrow> (session_actor \<times> browser_cookie_pair) result \<times> db" where
  "renew_browser_session C cfg renewal dev csrf_token now req dr csrf_draw db =
     and_then (renew_session C cfg renewal dev now req dr db) (\<lambda>pair db1.
       case bind_result (resolved (sp_session_id pair) db1) (\<lambda>(s, a).
            bind_result (validate_browser_csrf C (browser_actor_of s a) csrf_token db1) (\<lambda>_.
            bind_result (issue_credential C csrf_draw) (\<lambda>csrf.
            if find_binding (sp_session_id pair) db1 = None then Inl BrowserSessionInvalid
            else Inr (browser_actor_of s a, csrf)))) of
         Inl e \<Rightarrow> (Inl e, db1)
       | Inr (who, csrf) \<Rightarrow>
           (Inr (who, cookies_of pair (raw csrf)),
            db1\<lparr>session_bindings := update_rows (\<lambda>b. bb_session_id b = sp_session_id pair)
              (\<lambda>b. b\<lparr>bb_csrf_token_hash := digest csrf, bb_rotated_at := now\<rparr>)
              (session_bindings db1)\<rparr>))"

section \<open>The CSRF value of a session\<close>

lemma resolved_Inr [simp]:
  "resolved sid db = Inr (s, a) \<longleftrightarrow>
   find_session sid db = Some s \<and> find_account (se_account_id s) db = Some a"
  by (auto simp: resolved_def split: option.splits)

lemma validate_csrf_bound:
  "find_binding (session_id who) db = Some b \<Longrightarrow>
   is_ok (validate_browser_csrf C who t db) \<longleftrightarrow> t \<noteq> [] \<and> sha256 C t = bb_csrf_token_hash b"
  by (auto simp: validate_browser_csrf_def require_def)

lemma validate_csrf_Inr:
  "validate_browser_csrf C who t db = Inr u \<longleftrightarrow>
   t \<noteq> [] \<and> (\<exists>b. find_binding (session_id who) db = Some b \<and> bb_csrf_token_hash b = sha256 C t)"
  by (auto simp: validate_browser_csrf_def split: option.splits)

lemma create_browser_Inr:
  assumes "create_browser_session C cfg emp pin dev lab per now req dr csrf_draw db = (Inr (who, ck), db')"
  obtains pair db1 s a where "login C cfg emp pin dev lab per now req dr db = (Inr pair, db1)"
    "find_session (sp_session_id pair) db1 = Some s" "find_account (se_account_id s) db1 = Some a"
    "csrf_draw \<noteq> []" "who = browser_actor_of s a" "ck = cookies_of pair csrf_draw"
    "db' = db1\<lparr>session_bindings := session_bindings db1 @
       [\<lparr>bb_session_id = sp_session_id pair, bb_csrf_token_hash = sha256 C csrf_draw,
         bb_created_at = now, bb_rotated_at = now\<rparr>]\<rparr>"
  using assms
  by (auto simp: create_browser_session_def and_then_eq_Inr case_result_eq_Inr intro!: that)

lemma renew_browser_Inr:
  assumes "renew_browser_session C cfg renewal dev csrf now req dr csrf_draw db = (Inr (who, ck), db')"
  obtains pair db1 s a b where "renew_session C cfg renewal dev now req dr db = (Inr pair, db1)"
    "find_session (sp_session_id pair) db1 = Some s" "find_account (se_account_id s) db1 = Some a"
    "csrf \<noteq> []" "find_binding (se_id s) db1 = Some b" "bb_csrf_token_hash b = sha256 C csrf"
    "csrf_draw \<noteq> []" "who = browser_actor_of s a" "ck = cookies_of pair csrf_draw"
    "db' = db1\<lparr>session_bindings := update_rows (\<lambda>b. bb_session_id b = sp_session_id pair)
       (\<lambda>b. b\<lparr>bb_csrf_token_hash := sha256 C csrf_draw, bb_rotated_at := now\<rparr>) (session_bindings db1)\<rparr>"
  using assms
  by (auto simp: renew_browser_session_def and_then_eq_Inr case_result_eq_Inr validate_csrf_Inr
      browser_actor_of_def split: if_split_asm intro!: that)

text \<open>
  A browser login hands out a matching pair: until the access time has run out the access
  cookie resolves to exactly the actor the login returned, and a write from that session is
  accepted with a CSRF value exactly when it hashes to the one the login drew.
\<close>

theorem browser_login_bound:
  assumes run: "create_browser_session C cfg emp pin dev lab per now req dr csrf_draw db = (Inr (who, ck), db')"
    and fresh: "fresh_draws C dr db" "dr_session_id dr \<notin> bb_session_id ` set (session_bindings db)"
  shows "(resolve_browser_actor C (cp_access_token ck) t db' = Inr who)
      = (t < now + seconds (access_ttl_seconds cfg))
    \<and> is_ok (validate_browser_csrf C who x db') = (x \<noteq> [] \<and> sha256 C x = sha256 C (cp_csrf_token ck))"
proof (rule create_browser_Inr [OF run])
  fix pair db1 s1 a1
  assume logged: "login C cfg emp pin dev lab per now req dr db = (Inr pair, db1)"
    and rows: "find_session (sp_session_id pair) db1 = Some s1" "find_account (se_account_id s1) db1 = Some a1"
    and out: "who = browser_actor_of s1 a1" "ck = cookies_of pair csrf_draw"
    and db': "db' = db1\<lparr>session_bindings := session_bindings db1 @
       [\<lparr>bb_session_id = sp_session_id pair, bb_csrf_token_hash = sha256 C csrf_draw,
         bb_created_at = now, bb_rotated_at = now\<rparr>]\<rparr>"
  obtain s a staff where tok: "access_token pair = dr_access dr" "sp_session_id pair = se_id s" "dr_access dr \<noteq> []"
    and row: "find_row se_access_token_hash (sha256 C (dr_access dr)) (sessions db1) = Some s"
      "find_session (se_id s) db1 = Some s"
    and s: "se_id s = dr_session_id dr" "se_access_expires_at s = now + seconds (access_ttl_seconds cfg)"
      "se_revoked_at s = None" "se_account_id s = ac_id a" "se_auth_version s = ac_auth_version a"
    and act: "find_account (ac_id a) db1 = Some a" "find_staff (ac_staff_member_id a) db1 = Some staff"
      "st_is_active staff" "ac_status a = Active" "session_bindings db1 = session_bindings db"
    by (rule login_found [OF logged fresh(1)])
  have who: "who = browser_actor_of s a" and cookie: "cp_access_token ck = dr_access dr"
    "cp_csrf_token ck = csrf_draw"
    using rows row(2) act(1) tok(1,2) s(4) by (simp_all add: out cookies_of_def)
  have "resolve_browser_actor C (dr_access dr) t db' = Inr who" if "t < now + seconds (access_ttl_seconds cfg)"
    using resolve_ok [of "dr_access dr" C db' s a staff t] that row(1) act s tok(3)
    by (simp add: resolve_browser_actor_def who db')
  moreover have "t < now + seconds (access_ttl_seconds cfg)"
    if "resolve_browser_actor C (dr_access dr) t db' = Inr who"
  proof -
    from that obtain s2 a2 where "resolve_access_session C (dr_access dr) t db' = Inr (s2, a2)"
      by (auto simp: resolve_browser_actor_def)
    from resolve_Inr(2,7) [OF this] row(1) s(2) show ?thesis by (simp add: db')
  qed
  moreover have "find_binding (session_id who) db' = Some \<lparr>bb_session_id = se_id s,
      bb_csrf_token_hash = sha256 C csrf_draw, bb_created_at = now, bb_rotated_at = now\<rparr>"
    using fresh(2) act(5) by (simp add: db' who browser_actor_of_def tok find_row_fresh s(1))
  ultimately show ?thesis by (auto simp: cookie validate_csrf_bound)
qed

text \<open>A login that succeeds also does so in the browser.\<close>

lemma create_browser_runs:
  assumes "login C cfg emp pin dev lab per now req dr db = (Inr pair, db1)" "fresh_draws C dr db" "csrf_draw \<noteq> []"
  shows "\<exists>who db'. create_browser_session C cfg emp pin dev lab per now req dr csrf_draw db
    = (Inr (who, cookies_of pair csrf_draw), db')"
proof (rule login_found [OF assms(1,2)])
  fix s a staff
  assume "sp_session_id pair = se_id s" "find_session (se_id s) db1 = Some s" "se_account_id s = ac_id a"
    "find_account (ac_id a) db1 = Some a"
  with assms show ?thesis by (simp add: create_browser_session_def resolved_def)
qed

lemma browser_login_bound_witness:
  "\<exists>who ck db'. create_browser_session plain_crypto (default_settings ''pepper'') ''E-100'' ''q7rt''
       ''device-0123456789'' ''Desk'' False 100 ''r'' example_draws1 ''csrf-1'' example_db = (Inr (who, ck), db')
     \<and> is_ok (validate_browser_csrf plain_crypto who ''csrf-1'' db')
     \<and> \<not> is_ok (validate_browser_csrf plain_crypto who ''csrf-2'' db')"
proof -
  obtain pair db1 where login: "login plain_crypto (default_settings ''pepper'') ''E-100'' ''q7rt''
      ''device-0123456789'' ''Desk'' False 100 ''r'' example_draws1 example_db = (Inr pair, db1)"
    using example_login_ok unfolding example_login_def is_ok_def
    by (cases "login plain_crypto (default_settings ''pepper'') ''E-100'' ''q7rt''
      ''device-0123456789'' ''Desk'' False 100 ''r'' example_draws1 example_db") (auto split: sum.splits)
  have fresh: "fresh_draws plain_crypto example_draws1 example_db"
    "dr_session_id example_draws1 \<notin> bb_session_id ` set (session_bindings example_db)"
    by (simp_all add: fresh_draws_def renewal_hashes_def example_db_def empty_db_def)
  obtain who db' where run: "create_browser_session plain_crypto (default_settings ''pepper'') ''E-100'' ''q7rt''
       ''device-0123456789'' ''Desk'' False 100 ''r'' example_draws1 ''csrf-1'' example_db
     = (Inr (who, cookies_of pair ''csrf-1''), db')"
    using create_browser_runs [OF login fresh(1), of "''csrf-1''"] by blast
  from browser_login_bound [OF run fresh] run show ?thesis
    by (auto simp: cookies_of_def plain_crypto_def)
qed

end
