(* ===== verification/RateLimits.thy ===== *)
theory RateLimits
  imports Persistence
begin

text \<open>
  The fixed-window rate limiter (\<open>src/backend/identity/rate_limits.py\<close>): one row per dimension
  and subject, inserted or updated by a single upsert. The lemmas give the decision of every
  call of a window and show that the advertised waiting time is exact.
\<close>

definition LIMITS :: "(string \<times> int) list" where
  "LIMITS = [(''employee'', 10), (''device'', 30), (''network'', 200)]"

definition WINDOW_SECONDS :: int where
  "WINDOW_SECONDS = 15 * 60"

record rate_limit_decision =
  allowed :: bool
  retry_after_seconds :: int

definition subject_hash :: "crypto \<Rightarrow> string \<Rightarrow> string \<Rightarrow> string \<Rightarrow> bytes result" where
  "subject_hash C dimension v pepper =
     (if map_of LIMITS dimension = None \<or> v = [] \<or> pepper = []
      then Inl (ValueError ''rate limit subject is invalid'')
      else Inr (hmac256 C pepper (dimension @ '':'' @ v)))"

text \<open>\<open>math.ceil\<close> of a number of microseconds in seconds.\<close>

definition ceil_seconds :: "time \<Rightarrow> int" where
  "ceil_seconds t = - ((- t) div 1000000)"

abbreviation find_limit :: "string \<Rightarrow> bytes \<Rightarrow> auth_rate_limit list \<Rightarrow> auth_rate_limit option" where
  "find_limit dim h rows \<equiv> find_row (\<lambda>r. (rl_dimension r, rl_subject_hash r)) (dim, h) rows"

text \<open>The assignments of \<open>ON CONFLICT DO UPDATE\<close>, all read from the old row.\<close>

definition bump_limit :: "time \<Rightarrow> auth_rate_limit \<Rightarrow> auth_rate_limit" where
  "bump_limit now r =
     (let expired = rl_window_started_at r \<le> now - seconds WINDOW_SECONDS
      in r\<lparr>rl_window_started_at := if expired then now else rl_window_started_at r,
           rl_hit_count := if expired then 1 else rl_hit_count r + 1,
           rl_updated_at := now\<rparr>)"

definition upsert_limit :: "string \<Rightarrow> bytes \<Rightarrow> time \<Rightarrow> auth_rate_limit list \<Rightarrow>
    auth_rate_limit \<times> auth_rate_limit list" where
  "upsert_limit dim h now rows =
     (case find_limit dim h rows of
        None \<Rightarrow>
          let r = \<lparr>rl_dimension = dim, rl_subject_hash = h, rl_window_started_at = now,
                   rl_hit_count = 1, rl_updated_at = now\<rparr>
          in (r, rows @ [r])
      | Some r \<Rightarrow>
          (bump_limit now r,
           update_rows (\<lambda>x. (rl_dimension x, rl_subject_hash x) = (dim, h)) (bump_limit now) rows))"

definition consume_limit ::
  "crypto \<Rightarrow> string \<Rightarrow> string \<Rightarrow> time \<Rightarrow> string \<Rightarrow> int option \<Rightarrow> db \<Rightarrow> rate_limit_decision result \<times> db"
where
  "consume_limit C dimension v now pepper lim db =
     (case (case lim of Some m \<Rightarrow> Some m | None \<Rightarrow> map_of LIMITS dimension) of
        None \<Rightarrow> (Inl KeyError, db)
      | Some maximum \<Rightarrow>
          (case subject_hash C dimension v pepper of
             Inl e \<Rightarrow> (Inl e, db)
           | Inr h \<Rightarrow>
               let (row, rows) = upsert_limit dimension h now (rate_limits db);
                   ok = rl_hit_count row \<le> maximum;
                   retry = if ok then 0
                     else max 1 (ceil_seconds (rl_window_started_at row + seconds WINDOW_SECONDS - now))
               in (Inr \<lparr>allowed = ok, retry_after_seconds = retry\<rparr>, db\<lparr>rate_limits := rows\<rparr>)))"

section \<open>One row per subject\<close>

lemma find_upsert:
  "upsert_limit dim h now rows = (r, rows') \<Longrightarrow>
   find_limit dim h rows' = Some r \<and> rl_dimension r = dim \<and> rl_subject_hash r = h"
  by (auto simp: upsert_limit_def Let_def find_row_append find_update_rows bump_limit_def
      dest: find_row_SomeD split: option.splits)

lemma find_upsert_other:
  "upsert_limit dim h now rows = (r, rows') \<Longrightarrow> (dim', h') \<noteq> (dim, h) \<Longrightarrow>
   find_limit dim' h' rows' = find_limit dim' h' rows"
proof -
  assume u: "upsert_limit dim h now rows = (r, rows')" and other: "(dim', h') \<noteq> (dim, h)"
  show ?thesis
  proof (cases "find_limit dim h rows")
    case None
    with u other show ?thesis
      by (auto simp: upsert_limit_def Let_def find_row_append split: option.splits)
  next
    case (Some x)
    with u have rows': "rows' = update_rows (\<lambda>x. (rl_dimension x, rl_subject_hash x) = (dim, h))
        (bump_limit now) rows" by (simp add: upsert_limit_def)
    show ?thesis unfolding rows' using other
      by (subst find_update_rows)
        (auto simp: bump_limit_def Let_def dest: find_row_SomeD intro!: option.map_ident_strong)
  qed
qed

lemma upsert_window:
  assumes "find_limit dim h rows = Some r0" "upsert_limit dim h now rows = (r, rows')"
    "now < rl_window_started_at r0 + seconds WINDOW_SECONDS"
  shows "rl_window_started_at r = rl_window_started_at r0 \<and> rl_hit_count r = rl_hit_count r0 + 1"
  using assms by (auto simp: upsert_limit_def bump_limit_def Let_def)

lemma upsert_fresh:
  assumes "\<forall>r0. find_limit dim h rows = Some r0 \<longrightarrow>
      rl_window_started_at r0 + seconds WINDOW_SECONDS \<le> now"
    "upsert_limit dim h now rows = (r, rows')"
  shows "rl_window_started_at r = now \<and> rl_hit_count r = 1"
  using assms by (auto simp: upsert_limit_def bump_limit_def Let_def split: option.splits)

text \<open>The decision on a row, and what a call returns in terms of it.\<close>

definition decision :: "int \<Rightarrow> time \<Rightarrow> auth_rate_limit \<Rightarrow> rate_limit_decision" where
  "decision maximum now row = \<lparr>allowed = rl_hit_count row \<le> maximum,
     retry_after_seconds = if rl_hit_count row \<le> maximum then 0
       else max 1 (ceil_seconds (rl_window_started_at row + seconds WINDOW_SECONDS - now))\<rparr>"

lemma consume_limit_run:
  assumes "subject_hash C dim v pepper = Inr h" "upsert_limit dim h now (rate_limits db) = (r, rows)"
  shows "consume_limit C dim v now pepper (Some m) db =
    (Inr (decision m now r), db\<lparr>rate_limits := rows\<rparr>)"
  using assms by (simp add: consume_limit_def decision_def)

section \<open>The calls of one window\<close>

text \<open>The calls at the given instants, one after another.\<close>

fun consume_all ::
  "crypto \<Rightarrow> string \<Rightarrow> string \<Rightarrow> string \<Rightarrow> int \<Rightarrow> time list \<Rightarrow> db \<Rightarrow> rate_limit_decision result list \<times> db"
where
  "consume_all C dim v pepper m [] db = ([], db)"
| "consume_all C dim v pepper m (t # ts) db =
     (let (d, db1) = consume_limit C dim v t pepper (Some m) db;
          (ds, db2) = consume_all C dim v pepper m ts db1
      in (d # ds, db2))"

definition allowed_result :: "rate_limit_decision result \<Rightarrow> bool" where
  "allowed_result d = (case d of Inl _ \<Rightarrow> False | Inr r \<Rightarrow> allowed r)"

lemma consume_all_window:
  assumes h: "subject_hash C dim v pepper = Inr h"
  shows "\<lbrakk>find_limit dim h (rate_limits db) = Some r0; rl_window_started_at r0 = t0; rl_hit_count r0 = n;
     \<forall>t \<in> set ts. t < t0 + seconds WINDOW_SECONDS\<rbrakk> \<Longrightarrow>
   map allowed_result (fst (consume_all C dim v pepper m ts db))
     = map (\<lambda>i. n + 1 + int i \<le> m) [0..<length ts]"
proof (induction ts arbitrary: db r0 n)
  case (Cons t ts)
  obtain r rows where u: "upsert_limit dim h t (rate_limits db) = (r, rows)" by fastforce
  note run = consume_limit_run [OF h u, of m]
  have r: "rl_window_started_at r = t0 \<and> rl_hit_count r = n + 1"
    using upsert_window [OF Cons.prems(1) u] Cons.prems by simp
  have "map allowed_result (fst (consume_all C dim v pepper m ts (db\<lparr>rate_limits := rows\<rparr>)))
      = map (\<lambda>i. n + 1 + 1 + int i \<le> m) [0..<length ts]"
    by (rule Cons.IH [of _ r]) (use find_upsert [OF u] r Cons.prems in auto)
  moreover have "map (\<lambda>i. n + 1 + int i \<le> m) [0..<length (t # ts)]
      = (n + 1 \<le> m) # map (\<lambda>i. n + 1 + 1 + int i \<le> m) [0..<length ts]"
    by (simp add: upt_conv_Cons map_Suc_upt [symmetric] ac_simps del: upt_Suc)
  ultimately show ?case
    using r by (simp add: run split_beta allowed_result_def [of "Inr _"] decision_def del: upt_Suc)
qed simp

lemma consume_all_row:
  assumes h: "subject_hash C dim v pepper = Inr h"
  shows "\<lbrakk>find_limit dim h (rate_limits db) = Some r0; rl_window_started_at r0 = t0;
     \<forall>t \<in> set ts. t < t0 + seconds WINDOW_SECONDS\<rbrakk> \<Longrightarrow>
   \<exists>r. find_limit dim h (rate_limits (snd (consume_all C dim v pepper m ts db))) = Some r
     \<and> rl_window_started_at r = t0"
proof (induction ts arbitrary: db r0)
  case (Cons t ts)
  obtain r rows where u: "upsert_limit dim h t (rate_limits db) = (r, rows)" by fastforce
  note run = consume_limit_run [OF h u, of m]
  have r: "rl_window_started_at r = t0"
    using upsert_window [OF Cons.prems(1) u] Cons.prems by simp
  have "\<exists>r. find_limit dim h (rate_limits (snd (consume_all C dim v pepper m ts
      (db\<lparr>rate_limits := rows\<rparr>)))) = Some r \<and> rl_window_started_at r = t0"
    by (rule Cons.IH [of _ r]) (use find_upsert [OF u] r Cons.prems in auto)
  then show ?case by (simp add: run split_beta)
qed simp

text \<open>
  C3. In one window, however many calls a subject makes, exactly the first \<open>m\<close> are allowed: the
  call that opens the window and the ones that follow within fifteen minutes are admitted in
  order until the limit is used up, and none after it.
\<close>

theorem consume_limit_window:
  assumes h: "subject_hash C dim v pepper = Inr h"
    and fresh: "\<forall>r0. find_limit dim h (rate_limits db) = Some r0 \<longrightarrow>
      rl_window_started_at r0 + seconds WINDOW_SECONDS \<le> t0"
    and inside: "\<forall>t \<in> set ts. t < t0 + seconds WINDOW_SECONDS"
  shows "map allowed_result (fst (consume_all C dim v pepper (int m) (t0 # ts) db))
    = map (\<lambda>i. i < m) [0..<Suc (length ts)]"
proof -
  obtain r rows where u: "upsert_limit dim h t0 (rate_limits db) = (r, rows)" by fastforce
  note r = upsert_fresh [OF fresh u] and run = consume_limit_run [OF h u, of "int m"]
  have "map allowed_result (fst (consume_all C dim v pepper (int m) ts (db\<lparr>rate_limits := rows\<rparr>)))
      = map (\<lambda>i. 1 + 1 + int i \<le> int m) [0..<length ts]"
    by (rule consume_all_window [OF h, of _ r t0]) (use find_upsert [OF u] r inside in auto)
  also have "\<dots> = map (\<lambda>i. Suc i < m) [0..<length ts]" by auto
  finally have rest: "map allowed_result
      (fst (consume_all C dim v pepper (int m) ts (db\<lparr>rate_limits := rows\<rparr>)))
      = map (\<lambda>i. Suc i < m) [0..<length ts]" .
  have "map (\<lambda>i. i < m) [0..<Suc (length ts)] = (0 < m) # map (\<lambda>i. Suc i < m) [0..<length ts]"
    by (simp add: upt_conv_Cons map_Suc_upt [symmetric] del: upt_Suc)
  with rest r show ?thesis
    by (simp add: run split_beta allowed_result_def [of "Inr _"] decision_def del: upt_Suc) auto
qed

lemma consume_limit_window_witness:
  "map allowed_result (fst (consume_all plain_crypto ''device'' ''d'' ''p'' 2
     [seconds 0, seconds 5, seconds 899] empty_db)) = [True, True, False]"
proof -
  have h: "subject_hash plain_crypto ''device'' ''d'' ''p'' = Inr ''p|device:d''" by code_simp
  have "map allowed_result (fst (consume_all plain_crypto ''device'' ''d'' ''p'' (int 2)
     [seconds 0, seconds 5, seconds 899] empty_db)) = map (\<lambda>i. i < 2) [0..<Suc (length [seconds 5, seconds 899])]"
    by (rule consume_limit_window [OF h])
      (simp_all add: empty_db_def seconds_def WINDOW_SECONDS_def)
  then show ?thesis by (simp add: upt_rec)
qed

section \<open>The waiting time\<close>

lemma ceil_seconds_bounds: "t \<le> seconds (ceil_seconds t)" "seconds (ceil_seconds t) < t + seconds 1"
  unfolding seconds_def ceil_seconds_def by linarith+

text \<open>
  A refusal is accompanied by a waiting time that is enough and not a second more than
  needed: a call at any instant from \<open>now + retry\<close> on is allowed, whether or not other refused
  calls happened in between, and the window is still closed one second before.
\<close>

theorem retry_after_exact:
  assumes run: "consume_limit C dim v now pepper (Some m) db = (Inr d, db1)"
    and refused: "\<not> allowed d" and limit: "1 \<le> m"
    and between: "consume_all C dim v pepper m ts db1 = (ds, db2)"
      "\<forall>t \<in> set ts. t \<le> now + seconds (retry_after_seconds d - 1)"
    and later: "now + seconds (retry_after_seconds d) \<le> later"
  shows "(\<exists>d'. fst (consume_limit C dim v later pepper (Some m) db2) = Inr d' \<and> allowed d')
    \<and> list_all (\<lambda>x. \<not> allowed_result x) ds"
proof -
  from run obtain h where h: "subject_hash C dim v pepper = Inr h"
    by (auto simp: consume_limit_def split: sum.splits)
  obtain r rows where u: "upsert_limit dim h now (rate_limits db) = (r, rows)" by fastforce
  from run refused consume_limit_run [OF h u, of m]
  have d: "d = decision m now r" and db1: "db1 = db\<lparr>rate_limits := rows\<rparr>"
    and hits: "m < rl_hit_count r"
    by (auto simp: decision_def)
  let ?close = "rl_window_started_at r + seconds WINDOW_SECONDS"
  have retry: "retry_after_seconds d = max 1 (ceil_seconds (?close - now))"
    using hits by (simp add: d decision_def)
  have after: "?close \<le> now + seconds (retry_after_seconds d)"
    using ceil_seconds_bounds(1) [of "?close - now"] unfolding retry seconds_def by linarith
  have open_now: "now < ?close"
  proof (rule ccontr)
    assume "\<not> now < ?close"
    then have expired: "rl_window_started_at r \<le> now - seconds WINDOW_SECONDS" by simp
    have "rl_window_started_at r = now \<or> now - seconds WINDOW_SECONDS < rl_window_started_at r"
      using u by (auto simp: upsert_limit_def bump_limit_def Let_def split: option.splits if_splits)
    with expired show False by (simp add: seconds_def WINDOW_SECONDS_def)
  qed
  have "0 < ceil_seconds (?close - now)"
    using ceil_seconds_bounds(1) [of "?close - now"] open_now unfolding seconds_def by simp
  then have "now + seconds (retry_after_seconds d - 1) < ?close"
    using ceil_seconds_bounds(2) [of "?close - now"] unfolding retry seconds_def
    by (simp add: max_def algebra_simps)
  then have inside: "\<forall>t \<in> set ts. t < ?close"
    using between(2) by auto
  have key: "find_limit dim h (rate_limits db1) = Some r" using find_upsert [OF u] by (simp add: db1)
  obtain r2 where r2: "find_limit dim h (rate_limits db2) = Some r2"
    "rl_window_started_at r2 = rl_window_started_at r"
    using consume_all_row [OF h key refl inside, of m] between(1) by auto
  obtain r3 rows3 where u3: "upsert_limit dim h later (rate_limits db2) = (r3, rows3)" by fastforce
  have "rl_hit_count r3 = 1" using upsert_fresh [OF _ u3] r2 after later by auto
  then have admitted: "allowed (decision m later r3)" using limit by (simp add: decision_def)
  have refusals: "map allowed_result ds = map (\<lambda>i. False) [0..<length ts]"
    using hits consume_all_window [OF h key refl refl inside, of m] between(1) by auto
  have "\<not> allowed_result x" if "x \<in> set ds" for x
  proof -
    from that have "allowed_result x \<in> set (map allowed_result ds)" by simp
    then show ?thesis unfolding refusals by auto
  qed
  then have "list_all (\<lambda>x. \<not> allowed_result x) ds" by (simp add: list_all_iff)
  with admitted show ?thesis by (auto simp: consume_limit_run [OF h u3])
qed

lemma retry_after_exact_witness:
  "\<exists>d'. fst (consume_limit plain_crypto ''device'' ''d'' (seconds 901) ''p'' (Some 1)
      (snd (consume_all plain_crypto ''device'' ''d'' ''p'' 1 [seconds 0, seconds 899] empty_db)))
    = Inr d' \<and> allowed d'"
proof -
  let ?C = plain_crypto and ?db0 = "snd (consume_limit plain_crypto ''device'' ''d'' (seconds 0) ''p'' (Some 1) empty_db)"
  let ?run = "consume_limit ?C ''device'' ''d'' (seconds 899) ''p'' (Some 1) ?db0"
  have d: "fst ?run = Inr \<lparr>allowed = False, retry_after_seconds = 1\<rparr>" by code_simp
  then have run: "?run = (Inr \<lparr>allowed = False, retry_after_seconds = 1\<rparr>, snd ?run)"
    by (metis prod.collapse)
  have "snd (consume_all ?C ''device'' ''d'' ''p'' 1 [seconds 0, seconds 899] empty_db) = snd ?run"
    by (simp add: split_beta)
  then show ?thesis
    using retry_after_exact [OF run, of "[]" "[]" "snd ?run" "seconds 901"]
    by (simp add: seconds_def)
qed

end
