(* ===== verification/AuthRoutes.thy ===== *)
theory AuthRoutes
  imports Mutations BrowserSessions RateLimits
begin

text \<open>
  The routes that sign in, renew and sign out, for the Access API
  (\<open>src/backend/webapp/api_v1/auth.py\<close>, \<open>middleware.py\<close>) and for the browser
  (\<open>src/backend/webapp/web_api/auth.py\<close>, \<open>middleware.py\<close>, \<open>account.py\<close>, \<open>admin_auth.py\<close>), with the
  transaction each runs in: what is kept when an operation raises is decided here. A failure
  response and a raised \<open>ApiError\<close> carry the same code and status and are one value; any other
  exception leaves a route as it is (the 500 of the blueprint). The configuration has an audit
  writer and rate limits are enabled; cookies are set from the returned values.
\<close>

section \<open>Requests\<close>

text \<open>
  What a route reads of a request: \<open>rq_origin_site\<close> is the scheme and host part of the
  \<open>Origin\<close> header as \<open>urlsplit\<close> takes it apart, \<open>rq_trust_proxy\<close> the setting
  \<open>TRUST_CLOUD_RUN_PROXY\<close>, and \<open>rq_ip_address\<close> the compressed form \<open>ipaddress.ip_address\<close> gives
  of an address, if it parses. Names of headers are those the routes ask for.
\<close>

record http_request =
  rq_json :: "json option"
  rq_headers :: "(string \<times> string) list"
  rq_cookies :: "(string \<times> string) list"
  rq_scheme :: string
  rq_host :: string
  rq_origin_site :: string
  rq_remote_addr :: string
  rq_trust_proxy :: bool
  rq_ip_address :: "string \<Rightarrow> string option"
  rq_user_agent :: string
  rq_id :: string

definition header :: "string \<Rightarrow> http_request \<Rightarrow> string" where
  "header k rq = (case map_of (rq_headers rq) k of None \<Rightarrow> [] | Some v \<Rightarrow> v)"

definition cookie :: "string \<Rightarrow> http_request \<Rightarrow> string" where
  "cookie k rq = (case map_of (rq_cookies rq) k of None \<Rightarrow> [] | Some v \<Rightarrow> v)"

abbreviation ACCESS_COOKIE :: string where "ACCESS_COOKIE \<equiv> ''slut_web_access''"
abbreviation RENEWAL_COOKIE :: string where "RENEWAL_COOKIE \<equiv> ''slut_web_renewal''"
abbreviation DEVICE_COOKIE :: string where "DEVICE_COOKIE \<equiv> ''slut_web_device''"
abbreviation CSRF_COOKIE :: string where "CSRF_COOKIE \<equiv> ''slut_web_csrf''"

text \<open>\<open>hmac.compare_digest\<close> of two strings refuses text that is not ASCII.\<close>

definition compare_digest :: "string \<Rightarrow> string \<Rightarrow> bool result" where
  "compare_digest a b = (if list_all (\<lambda>c. code c < 128) (a @ b) then Inr (a = b) else Inl TypeError)"

definition json_exact :: "exn \<Rightarrow> string list \<Rightarrow> http_request \<Rightarrow> (string \<times> json) list result" where
  "json_exact e names rq =
     (case rq_json rq of
        Some (JObj kvs) \<Rightarrow> if set (obj_keys kvs) = set names then Inr kvs else Inl e
      | _ \<Rightarrow> Inl e)"

definition required_string :: "exn \<Rightarrow> nat option \<Rightarrow> string \<Rightarrow> (string \<times> json) list \<Rightarrow> string result" where
  "required_string e maximum field kvs =
     (case obj_get field kvs of
        Some (JStr s) \<Rightarrow>
          if s = [] \<or> (case maximum of None \<Rightarrow> False | Some m \<Rightarrow> m < length s) then Inl e else Inr s
      | _ \<Rightarrow> Inl e)"

definition required_bool :: "exn \<Rightarrow> string \<Rightarrow> (string \<times> json) list \<Rightarrow> bool result" where
  "required_bool e field kvs = (case obj_get field kvs of Some (JBool b) \<Rightarrow> Inr b | _ \<Rightarrow> Inl e)"

text \<open>\<open>[A-Za-z0-9]{4,8}\<close>\<close>

definition pin_pattern :: "string \<Rightarrow> bool" where
  "pin_pattern s \<longleftrightarrow> 4 \<le> length s \<and> length s \<le> 8
     \<and> list_all (\<lambda>c. is_upper_ascii c \<or> is_lower_ascii c \<or> is_digit c) s"

abbreviation invalid_request :: exn where "invalid_request \<equiv> ApiError ''validation_failed'' 400"

section \<open>Guards of the browser API\<close>

definition validate_same_origin_request :: "http_request \<Rightarrow> unit result" where
  "validate_same_origin_request rq =
     (let site = header ''Sec-Fetch-Site'' rq
      in if site \<noteq> [] \<and> site \<notin> {''same-origin'', ''none''} then Inl BrowserCsrfInvalid
         else if header ''Origin'' rq = [] then Inl BrowserCsrfInvalid
         else let forwarded = strip (takeWhile (\<lambda>c. c \<noteq> CHR '','') (header ''X-Forwarded-Proto'' rq));
                  scheme = (if forwarded = [] then rq_scheme rq else forwarded)
              in bind_result (compare_digest (rq_origin_site rq) (scheme @ ''://'' @ rq_host rq))
                   (\<lambda>same. require same BrowserCsrfInvalid))"

definition csrf_pair :: "http_request \<Rightarrow> string result" where
  "csrf_pair rq =
     (let h = header ''X-CSRF-Token'' rq; c = cookie CSRF_COOKIE rq
      in if h = [] \<or> c = [] then Inl BrowserCsrfInvalid
         else bind_result (compare_digest h c) (\<lambda>same. if same then Inr h else Inl BrowserCsrfInvalid))"

fun csrf_failure :: "exn \<Rightarrow> exn" where
  "csrf_failure BrowserCsrfInvalid = ApiError ''csrf_validation_failed'' 403"
| "csrf_failure e = e"

definition require_browser_csrf :: "crypto \<Rightarrow> http_request \<Rightarrow> session_actor \<Rightarrow> db \<Rightarrow> unit result" where
  "require_browser_csrf C rq who db =
     (case bind_result (validate_same_origin_request rq) (\<lambda>_.
           bind_result (csrf_pair rq) (\<lambda>h. validate_browser_csrf C who h db)) of
        Inl e \<Rightarrow> Inl (csrf_failure e)
      | Inr u \<Rightarrow> Inr u)"

definition require_browser_role :: "role \<Rightarrow> session_actor \<Rightarrow> unit result" where
  "require_browser_role r who = require (actor_role who = r) (ApiError ''permission_denied'' 403)"

fun session_failure :: "exn \<Rightarrow> exn" where
  "session_failure SessionReauthenticationRequired = ApiError ''authentication_required'' 401"
| "session_failure (RuntimeError m) = ApiError ''dependency_unavailable'' 503"
| "session_failure e = e"

text \<open>
  \<open>require_browser_session\<close> with \<open>close_browser_request\<close>: the body runs in the request's
  transaction, which is rolled back when the request fails.
\<close>

definition browser_request ::
  "crypto \<Rightarrow> http_request \<Rightarrow> time \<Rightarrow> (session_actor \<Rightarrow> db \<Rightarrow> 'a result \<times> db) \<Rightarrow> db \<Rightarrow> 'a result \<times> db" where
  "browser_request C rq now body db =
     (let raw = cookie ACCESS_COOKIE rq
      in if raw = [] then (Inl (ApiError ''authentication_required'' 401), db)
         else case resolve_browser_actor C raw now db of
           Inl e \<Rightarrow> (Inl (session_failure e), db)
         | Inr who \<Rightarrow> session_scope (body who) db)"

text \<open>A write: the CSRF guard between the session and the body.\<close>

definition browser_write ::
  "crypto \<Rightarrow> http_request \<Rightarrow> time \<Rightarrow> (session_actor \<Rightarrow> db \<Rightarrow> 'a result \<times> db) \<Rightarrow> db \<Rightarrow> 'a result \<times> db" where
  "browser_write C rq now body db =
     browser_request C rq now (\<lambda>who db1.
       case require_browser_csrf C rq who db1 of Inl e \<Rightarrow> (Inl e, db1) | Inr _ \<Rightarrow> body who db1) db"

section \<open>Guards of the Access API\<close>

text \<open>\<open>authorization.split(" ")\<close> must give exactly \<open>Bearer\<close> and a token.\<close>

definition bearer_token :: "http_request \<Rightarrow> string option" where
  "bearer_token rq =
     (case split_on (CHR '' '') (header ''Authorization'' rq) of
        [scheme, token] \<Rightarrow> if scheme = ''Bearer'' \<and> token \<noteq> [] then Some token else None
      | _ \<Rightarrow> None)"

definition MUST_CHANGE_PIN_ALLOWED_PATHS :: "string list" where
  "MUST_CHANGE_PIN_ALLOWED_PATHS = [''/api/v1/me'', ''/api/v1/auth/change-pin'', ''/api/v1/auth/logout'',
     ''/api/v1/auth/logout-all'', ''/api/v1/auth/renew'']"

definition require_access_token ::
  "crypto \<Rightarrow> http_request \<Rightarrow> string \<Rightarrow> time \<Rightarrow> db \<Rightarrow> session_actor result" where
  "require_access_token C rq path now db =
     (case bearer_token rq of
        None \<Rightarrow> Inl (ApiError ''authentication_required'' 401)
      | Some token \<Rightarrow>
          (case resolve_browser_actor C token now db of
             Inl SessionReauthenticationRequired \<Rightarrow> Inl (ApiError ''authentication_required'' 401)
           | Inl e \<Rightarrow> Inl e
           | Inr who \<Rightarrow>
               if must_change_pin who \<and> path \<notin> set MUST_CHANGE_PIN_ALLOWED_PATHS
               then Inl (ApiError ''pin_change_required'' 403) else Inr who))"

definition require_admin_elevation :: "session_actor \<Rightarrow> time \<Rightarrow> db \<Rightarrow> unit result \<times> db" where
  "require_admin_elevation who now db =
     (case touch_admin_elevation who now db of
        (Inl AdminElevationRequired, db1) \<Rightarrow> (Inl (ApiError ''admin_elevation_required'' 403), db1)
      | (Inl e, db1) \<Rightarrow> (Inl e, db1)
      | (Inr _, db1) \<Rightarrow> (Inr (), db1))"

definition require_step_up :: "string \<Rightarrow> http_request \<Rightarrow> (string \<times> string) result" where
  "require_step_up purpose rq =
     (let raw = header ''X-Admin-Step-Up'' rq
      in if raw = [] then Inl (ApiError ''step_up_required'' 403) else Inr (purpose, raw))"

section \<open>Signing in\<close>

fun first_address :: "(string \<Rightarrow> string option) \<Rightarrow> string list \<Rightarrow> string" where
  "first_address parse [] = ''unknown''"
| "first_address parse (c # cs) = (case parse (strip c) of None \<Rightarrow> first_address parse cs | Some a \<Rightarrow> a)"

definition rq_network :: "http_request \<Rightarrow> string" where
  "rq_network rq = first_address (rq_ip_address rq)
     ((if rq_trust_proxy rq then split_on (CHR '','') (header ''X-Forwarded-For'' rq) else [])
      @ [rq_remote_addr rq])"

definition consume_login_limits ::
  "crypto \<Rightarrow> identity_settings \<Rightarrow> string \<Rightarrow> string \<Rightarrow> string \<Rightarrow> time \<Rightarrow> db \<Rightarrow> unit result \<times> db" where
  "consume_login_limits C cfg employee_number device network now db =
     (let employee = (case normalize_employee_number employee_number of Inl _ \<Rightarrow> ''invalid'' | Inr n \<Rightarrow> n)
      in and_then (consume_limit C ''employee'' employee now (pepper_of cfg) None db) (\<lambda>d1 db1.
         and_then (consume_limit C ''device'' device now (pepper_of cfg) None db1) (\<lambda>d2 db2.
         and_then (consume_limit C ''network'' network now (pepper_of cfg) None db2) (\<lambda>d3 db3.
           (require (allowed d1 \<and> allowed d2 \<and> allowed d3) (ApiError ''rate_limited'' 429), db3)))))"

record login_form =
  lf_employee_number :: string
  lf_pin :: string
  lf_device_id :: string
  lf_device_label :: string
  lf_persistent :: bool

definition api_login_form :: "crypto \<Rightarrow> identity_settings \<Rightarrow> http_request \<Rightarrow> login_form result" where
  "api_login_form C cfg rq =
     bind_result (json_exact invalid_request
         [''employee_number'', ''pin'', ''device_id'', ''device_label'', ''persistent''] rq) (\<lambda>kvs.
     bind_result (required_bool invalid_request ''persistent'' kvs) (\<lambda>persist.
     bind_result (required_string invalid_request None ''employee_number'' kvs) (\<lambda>emp.
     bind_result (required_string invalid_request None ''pin'' kvs) (\<lambda>pin.
     bind_result (require (pin_pattern pin) invalid_request) (\<lambda>_.
     bind_result (required_string invalid_request None ''device_id'' kvs) (\<lambda>dev.
     bind_result (require (is_ok (hash_device_id C dev (pepper_of cfg))) invalid_request) (\<lambda>_.
     bind_result (required_string invalid_request (Some 120) ''device_label'' kvs) (\<lambda>label.
       Inr \<lparr>lf_employee_number = emp, lf_pin = pin, lf_device_id = dev, lf_device_label = label,
            lf_persistent = persist\<rparr>))))))))"

text \<open>
  The API catches the two refusals inside the scope, so what was counted is committed, and
  raises them after it.
\<close>

definition api_login_scope ::
  "crypto \<Rightarrow> identity_settings \<Rightarrow> login_form \<Rightarrow> string \<Rightarrow> time \<Rightarrow> string \<Rightarrow> session_draws \<Rightarrow> db
   \<Rightarrow> session_token_pair result result \<times> db" where
  "api_login_scope C cfg f network now req dr =
     session_scope (\<lambda>db.
       case and_then (consume_login_limits C cfg (lf_employee_number f) (lf_device_id f) network now db)
           (\<lambda>_ db1. login C cfg (lf_employee_number f) (lf_pin f) (lf_device_id f) (lf_device_label f)
              (lf_persistent f) now req dr db1) of
         (Inl InvalidCredentials, db1) \<Rightarrow> (Inr (Inl (ApiError ''invalid_credentials'' 401)), db1)
       | (Inl (ApiError c s), db1) \<Rightarrow> (Inr (Inl (ApiError c s)), db1)
       | (Inl e, db1) \<Rightarrow> (Inl e, db1)
       | (Inr pair, db1) \<Rightarrow> (Inr (Inr pair), db1))"

definition api_login_route ::
  "crypto \<Rightarrow> identity_settings \<Rightarrow> http_request \<Rightarrow> time \<Rightarrow> session_draws \<Rightarrow> db
   \<Rightarrow> session_token_pair result \<times> db" where
  "api_login_route C cfg rq now dr db =
     (case api_login_form C cfg rq of
        Inl e \<Rightarrow> (Inl e, db)
      | Inr f \<Rightarrow>
          (case api_login_scope C cfg f (rq_network rq) now (rq_id rq) dr db of
             (Inl e, db1) \<Rightarrow> (Inl e, db1)
           | (Inr r, db1) \<Rightarrow> (r, db1)))"

definition web_profile :: "session_actor \<Rightarrow> db \<Rightarrow> (string \<times> json) list result" where
  "web_profile who db =
     (case (find_account (account_id who) db, find_staff (staff_member_id who) db) of
        (Some a, Some staff) \<Rightarrow>
          Inr [(''account_id'', JStr (uuid_str (ac_id a))), (''staff_id'', JStr (uuid_str (st_id staff))),
               (''session_id'', JStr (uuid_str (session_id who))),
               (''employee_number'', JStr (st_employee_number staff)),
               (''display_name'', JStr (join '' '' (filter (\<lambda>part. part \<noteq> [])
                  [st_rank staff, st_first_name staff, st_last_name staff]))),
               (''rank'', JStr (st_rank staff)), (''shift'', JStr (st_shift staff)),
               (''role'', JStr (role_str (ac_role a))), (''must_change_pin'', JBool (ac_must_change_pin a))]
      | _ \<Rightarrow> Inl BrowserSessionInvalid)"

definition device_label :: "http_request \<Rightarrow> string" where
  "device_label rq =
     (let v = strip (if rq_user_agent rq = [] then ''Web browser'' else rq_user_agent rq)
      in if take 120 v = [] then ''Web browser'' else take 120 v)"

fun web_login_failure :: "exn \<Rightarrow> exn" where
  "web_login_failure BrowserCsrfInvalid = ApiError ''csrf_validation_failed'' 403"
| "web_login_failure InvalidCredentials = ApiError ''invalid_credentials'' 401"
| "web_login_failure BrowserSessionInvalid = ApiError ''dependency_unavailable'' 503"
| "web_login_failure (RuntimeError m) = ApiError ''dependency_unavailable'' 503"
| "web_login_failure e = (if is_ValueError e then ApiError ''validation_failed'' 400 else e)"

definition web_login_form :: "http_request \<Rightarrow> login_form result" where
  "web_login_form rq =
     (let bad = ValueError ''The request body is invalid.''
      in bind_result (validate_same_origin_request rq) (\<lambda>_.
         bind_result (json_exact bad [''employee_number'', ''pin'', ''persistent''] rq) (\<lambda>kvs.
         bind_result (required_string bad (Some 64) ''employee_number'' kvs) (\<lambda>emp.
         bind_result (required_string bad (Some 8) ''pin'' kvs) (\<lambda>pin.
         bind_result (require (pin_pattern pin) bad) (\<lambda>_.
         bind_result (required_bool bad ''persistent'' kvs) (\<lambda>persist.
           Inr \<lparr>lf_employee_number = emp, lf_pin = pin, lf_device_id = cookie DEVICE_COOKIE rq,
                lf_device_label = device_label rq, lf_persistent = persist\<rparr>)))))))"

text \<open>The profile, the cookies and the device id of a signed-in browser; \<open>device_draw\<close> is drawn for a new one.\<close>

type_synonym web_sign_in = "(string \<times> json) list \<times> browser_cookie_pair \<times> string"

definition web_login_scope ::
  "crypto \<Rightarrow> identity_settings \<Rightarrow> login_form \<Rightarrow> string \<Rightarrow> time \<Rightarrow> string \<Rightarrow> session_draws \<Rightarrow> string
   \<Rightarrow> db \<Rightarrow> web_sign_in result \<times> db" where
  "web_login_scope C cfg f network now req dr csrf_draw =
     session_scope (\<lambda>db.
       and_then (consume_login_limits C cfg (lf_employee_number f) (lf_device_id f) network now db) (\<lambda>_ db1.
       and_then (create_browser_session C cfg (lf_employee_number f) (lf_pin f) (lf_device_id f)
           (lf_device_label f) (lf_persistent f) now req dr csrf_draw db1) (\<lambda>(who, ck) db2.
         case web_profile who db2 of
           Inl e \<Rightarrow> (Inl e, db2)
         | Inr p \<Rightarrow> (Inr (p, ck, lf_device_id f), db2))))"

definition web_login_route ::
  "crypto \<Rightarrow> identity_settings \<Rightarrow> http_request \<Rightarrow> time \<Rightarrow> session_draws \<Rightarrow> string \<Rightarrow> string \<Rightarrow> db
   \<Rightarrow> web_sign_in result \<times> db" where
  "web_login_route C cfg rq now dr device_draw csrf_draw db =
     (case web_login_form rq of
        Inl e \<Rightarrow> (Inl (web_login_failure e), db)
      | Inr f0 \<Rightarrow>
          let f = (if lf_device_id f0 = [] then f0\<lparr>lf_device_id := device_draw\<rparr> else f0)
          in case web_login_scope C cfg f (rq_network rq) now (rq_id rq) dr csrf_draw db of
               (Inl e, db1) \<Rightarrow> (Inl (web_login_failure e), db1)
             | (Inr r, db1) \<Rightarrow> (Inr r, db1))"

section \<open>Renewing\<close>

definition is_ascii_token :: "string \<Rightarrow> bool" where
  "is_ascii_token s \<longleftrightarrow> 40 \<le> length s \<and> length s \<le> 512
     \<and> list_all (\<lambda>c. code c < 128 \<and> \<not> is_space c) s"

definition api_renew_scope ::
  "crypto \<Rightarrow> identity_settings \<Rightarrow> string \<Rightarrow> string \<Rightarrow> time \<Rightarrow> string \<Rightarrow> session_draws \<Rightarrow> db
   \<Rightarrow> session_token_pair result result \<times> db" where
  "api_renew_scope C cfg token dev now req dr =
     session_scope (\<lambda>db.
       case renew_session C cfg token dev now req dr db of
         (Inl SessionReauthenticationRequired, db1) \<Rightarrow>
           (Inr (Inl (ApiError ''session_reauthentication_required'' 401)), db1)
       | (Inl e, db1) \<Rightarrow> (Inl e, db1)
       | (Inr pair, db1) \<Rightarrow> (Inr (Inr pair), db1))"

definition api_renew_route ::
  "crypto \<Rightarrow> identity_settings \<Rightarrow> http_request \<Rightarrow> time \<Rightarrow> session_draws \<Rightarrow> db
   \<Rightarrow> session_token_pair result \<times> db" where
  "api_renew_route C cfg rq now dr db =
     (case bind_result (json_exact invalid_request [''renewal_token'', ''device_id''] rq) (\<lambda>kvs.
           bind_result (required_string invalid_request None ''renewal_token'' kvs) (\<lambda>token.
           bind_result (require (is_ascii_token token) invalid_request) (\<lambda>_.
           bind_result (required_string invalid_request None ''device_id'' kvs) (\<lambda>dev.
           bind_result (require (is_ok (hash_device_id C dev (pepper_of cfg))) invalid_request) (\<lambda>_.
             Inr (token, dev)))))) of
        Inl e \<Rightarrow> (Inl e, db)
      | Inr (token, dev) \<Rightarrow>
          (case api_renew_scope C cfg token dev now (rq_id rq) dr db of
             (Inl e, db1) \<Rightarrow> (Inl e, db1)
           | (Inr r, db1) \<Rightarrow> (r, db1)))"

fun web_renew_failure :: "exn \<Rightarrow> exn" where
  "web_renew_failure BrowserCsrfInvalid = ApiError ''csrf_validation_failed'' 403"
| "web_renew_failure SessionReauthenticationRequired = ApiError ''authentication_required'' 401"
| "web_renew_failure BrowserSessionInvalid = ApiError ''dependency_unavailable'' 503"
| "web_renew_failure (RuntimeError m) = ApiError ''dependency_unavailable'' 503"
| "web_renew_failure e = e"

text \<open>
  Without the renewal or the device cookie the route calls
  \<open>SessionReauthenticationRequired("Sign in again.")\<close>, whose constructor takes no message: the
  call is the \<open>TypeError\<close>.
\<close>

definition web_renew_route ::
  "crypto \<Rightarrow> identity_settings \<Rightarrow> http_request \<Rightarrow> time \<Rightarrow> session_draws \<Rightarrow> string \<Rightarrow> db
   \<Rightarrow> web_sign_in result \<times> db" where
  "web_renew_route C cfg rq now dr csrf_draw db =
     (case bind_result (validate_same_origin_request rq) (\<lambda>_.
           bind_result (csrf_pair rq) (\<lambda>csrf.
             let token = cookie RENEWAL_COOKIE rq; dev = cookie DEVICE_COOKIE rq
             in if token = [] \<or> dev = [] then Inl TypeError else Inr (csrf, token, dev))) of
        Inl e \<Rightarrow> (Inl (web_renew_failure e), db)
      | Inr (csrf, token, dev) \<Rightarrow>
          (case session_scope (\<lambda>db.
                and_then (renew_browser_session C cfg token dev csrf now (rq_id rq) dr csrf_draw db)
                  (\<lambda>(who, ck) db1. case web_profile who db1 of
                      Inl e \<Rightarrow> (Inl e, db1) | Inr p \<Rightarrow> (Inr (p, ck, dev), db1))) db of
             (Inl e, db1) \<Rightarrow> (Inl (web_renew_failure e), db1)
           | (Inr r, db1) \<Rightarrow> (Inr r, db1)))"

section \<open>Account and administrator routes of the browser\<close>

definition drop_binding :: "uuid \<Rightarrow> db \<Rightarrow> db" where
  "drop_binding sid db =
     db\<lparr>session_bindings := filter (\<lambda>b. bb_session_id b \<noteq> sid) (session_bindings db)\<rparr>"

definition web_logout_route :: "crypto \<Rightarrow> http_request \<Rightarrow> time \<Rightarrow> db \<Rightarrow> unit result \<times> db" where
  "web_logout_route C rq now db =
     browser_write C rq now (\<lambda>who db1.
       and_then (revoke_session (account_id who) (session_id who) now (rq_id rq) db1)
         (\<lambda>_ db2. (Inr (), drop_binding (session_id who) db2))) db"

fun account_failure :: "exn \<Rightarrow> exn" where
  "account_failure InvalidCredentials = ApiError ''invalid_credentials'' 401"
| "account_failure (RuntimeError m) = ApiError ''dependency_unavailable'' 503"
| "account_failure e = (if is_ValueError e then invalid_request else e)"

definition on_error :: "(exn \<Rightarrow> exn) \<Rightarrow> 'a result \<times> 's \<Rightarrow> 'a result \<times> 's" where
  "on_error f rs = (case rs of (Inl e, s) \<Rightarrow> (Inl (f e), s) | (Inr x, s) \<Rightarrow> (Inr x, s))"

definition change_pin_form :: "http_request \<Rightarrow> (string \<times> string) result" where
  "change_pin_form rq =
     bind_result (json_exact invalid_request [''current_pin'', ''new_pin''] rq) (\<lambda>kvs.
     bind_result (required_string invalid_request None ''current_pin'' kvs) (\<lambda>old.
     bind_result (require (pin_pattern old) invalid_request) (\<lambda>_.
     bind_result (required_string invalid_request None ''new_pin'' kvs) (\<lambda>new.
     bind_result (require (pin_pattern new) invalid_request) (\<lambda>_.
     bind_result (require (old \<noteq> new) invalid_request) (\<lambda>_. Inr (old, new)))))))"

definition web_change_pin_route ::
  "crypto \<Rightarrow> identity_settings \<Rightarrow> http_request \<Rightarrow> time \<Rightarrow> session_draws \<Rightarrow> db
   \<Rightarrow> browser_cookie_pair result \<times> db" where
  "web_change_pin_route C cfg rq now dr db =
     browser_write C rq now (\<lambda>who db1.
       case change_pin_form rq of
         Inl e \<Rightarrow> (Inl e, db1)
       | Inr (old, new) \<Rightarrow>
           let dev = cookie DEVICE_COOKIE rq; csrf = cookie CSRF_COOKIE rq
           in if dev = [] \<or> csrf = [] then (Inl (ApiError ''authentication_required'' 401), db1)
              else on_error account_failure
                (and_then (change_pin C cfg (account_id who) (session_id who) old new dev now (rq_id rq) dr db1)
                  (\<lambda>pair db2. (Inr (cookies_of pair csrf), db2)))) db"

definition web_delete_session_route :: "crypto \<Rightarrow> http_request \<Rightarrow> uuid \<Rightarrow> time \<Rightarrow> db \<Rightarrow> unit result \<times> db" where
  "web_delete_session_route C rq sid now db =
     browser_write C rq now (\<lambda>who db1.
       on_error (\<lambda>e. if e = SessionReauthenticationRequired then ApiError ''not_found'' 404 else session_failure e)
         (and_then (revoke_session (account_id who) sid now (rq_id rq) db1)
           (\<lambda>_ db2. (Inr (), drop_binding sid db2)))) db"

definition web_logout_all_route :: "crypto \<Rightarrow> http_request \<Rightarrow> time \<Rightarrow> db \<Rightarrow> nat result \<times> db" where
  "web_logout_all_route C rq now db =
     browser_write C rq now (\<lambda>who db1.
       on_error session_failure
         (and_then (logout_all (account_id who) now (rq_id rq) db1) (\<lambda>n db2.
           (Inr n, db2\<lparr>session_bindings := filter (\<lambda>b. bb_session_id b \<notin>
              set (map se_id (filter (\<lambda>s. se_account_id s = account_id who) (sessions db2))))
              (session_bindings db2)\<rparr>)))) db"

fun admin_failure :: "exn \<Rightarrow> exn" where
  "admin_failure StepUpRequired = ApiError ''admin_confirmation_required'' 401"
| "admin_failure BrowserAdminStepUpRequired = ApiError ''admin_confirmation_required'' 401"
| "admin_failure PermissionError = ApiError ''permission_denied'' 403"
| "admin_failure (RuntimeError m) = ApiError ''dependency_unavailable'' 503"
| "admin_failure e = e"

definition pin_field :: "(string \<times> json) list \<Rightarrow> string result" where
  "pin_field kvs =
     bind_result (required_string invalid_request None ''pin'' kvs) (\<lambda>pin.
     if pin_pattern pin then Inr pin else Inl invalid_request)"

definition web_elevation_state_route :: "crypto \<Rightarrow> http_request \<Rightarrow> time \<Rightarrow> db \<Rightarrow> admin_center_state result \<times> db" where
  "web_elevation_state_route C rq now db =
     browser_request C rq now (\<lambda>who db1.
       case bind_result (require_browser_role Admin who) (\<lambda>_. browser_admin_state who now db1) of
         Inl e \<Rightarrow> (Inl (admin_failure e), db1) | Inr s \<Rightarrow> (Inr s, db1)) db"

definition web_enter_elevation_route ::
  "crypto \<Rightarrow> http_request \<Rightarrow> time \<Rightarrow> string \<Rightarrow> db \<Rightarrow> admin_center_state result \<times> db" where
  "web_enter_elevation_route C rq now drawn db =
     browser_write C rq now (\<lambda>who db1.
       case bind_result (require_browser_role Admin who) (\<lambda>_.
            bind_result (json_exact invalid_request [''pin''] rq) pin_field) of
         Inl e \<Rightarrow> (Inl e, db1)
       | Inr pin \<Rightarrow> on_error admin_failure (enter_browser_admin_center C who pin now (rq_id rq) drawn db1)) db"

definition web_step_up_route ::
  "crypto \<Rightarrow> http_request \<Rightarrow> time \<Rightarrow> string \<Rightarrow> db \<Rightarrow> browser_admin_step_up result \<times> db" where
  "web_step_up_route C rq now drawn db =
     browser_write C rq now (\<lambda>who db1.
       case bind_result (require_browser_role Admin who) (\<lambda>_.
            bind_result (json_exact invalid_request [''pin'', ''purpose''] rq) (\<lambda>kvs.
            bind_result (required_string invalid_request None ''purpose'' kvs) (\<lambda>purpose.
            bind_result (require (purpose \<in> set STEP_UP_PURPOSES) invalid_request) (\<lambda>_.
            bind_result (pin_field kvs) (\<lambda>pin. Inr (purpose, pin)))))) of
         Inl e \<Rightarrow> (Inl e, db1)
       | Inr (purpose, pin) \<Rightarrow>
           on_error admin_failure (issue_browser_admin_step_up C who pin purpose now (rq_id rq) drawn db1)) db"

section \<open>What a refused login leaves behind\<close>

lemma consume_login_limits_tables:
  assumes "consume_login_limits C cfg emp dev net now db = (r, db')"
  shows "accounts db' = accounts db \<and> sessions db' = sessions db \<and> audit_events db' = audit_events db
    \<and> staff_members db' = staff_members db \<and> renewal_history db' = renewal_history db"
proof -
  have one: "consume_limit C dim v now pep lim db1 = (r1, db2) \<Longrightarrow>
      \<exists>rows. db2 = db1\<lparr>rate_limits := rows\<rparr>" for dim v pep lim db1 r1 db2
    by (auto simp: consume_limit_def Let_def split: option.splits sum.splits prod.splits)
      (metis db.surjective db.update_convs(10))+
  show ?thesis
    using assms
    by (auto simp: consume_login_limits_def Let_def and_then_def split: prod.splits sum.splits dest!: one)
qed

lemma wrong_pin_login:
  assumes "login_account (normal_number emp) db = Some (stored, staff)" "judged stored staff now"
    "\<not> verify_pin C (ac_pin_hash stored) pin"
  shows "\<exists>db'. login C cfg emp pin dev label persist now req dr db = (Inl InvalidCredentials, db')
    \<and> refused (accounts (put_account (snd (record_failed_attempt (thaw now stored) now)) db)) db db'"
  by (rule verify_login_pin_cases [of emp db C pin now req "dr_salt dr"]) (use assms in \<open>auto simp: login_def\<close>)

text \<open>What a wrong PIN makes of an account that a login had judged.\<close>

lemma wrong_pin_row:
  assumes "judged stored staff now"
  shows "let a = snd (record_failed_attempt (thaw now stored) now);
           failures = (if ac_status stored = Locked then 0 else ac_failed_attempts stored) + 1
         in ac_failed_attempts a = failures
         \<and> (if failures < 5
            then ac_status a = Active \<and> ac_lock_cycle a = ac_lock_cycle stored
            else ac_status a = Locked \<and> ac_lock_cycle a = ac_lock_cycle stored + 1
              \<and> ac_locked_until a
                  = Some (now + minutes (min (15 * 2 ^ ac_lock_cycle stored) (24 * 60))))"
  using assms
  by (cases "ac_status stored")
    (auto simp: judged_def thaw_def expired_def record_failed_attempt_def lock_minutes_def Let_def)

text \<open>
  C16. A wrong PIN sent to the Access API counts even though the request fails: the request is
  answered with 401, and committed with it are the failed attempt, an event in the log and the
  rate-limit counters that the request consumed. The count starts from zero when an earlier
  lock has run out. The first four failures leave the account active, the fifth locks it: for
  fifteen minutes, and for twice as long with each further cycle, up to a day.
\<close>

theorem api_wrong_pin_counts:
  assumes form: "api_login_form C cfg rq = Inr f"
    and limits: "consume_login_limits C cfg (lf_employee_number f) (lf_device_id f) (rq_network rq) now db
      = (Inr (), db1)"
    and named: "login_account (normal_number (lf_employee_number f)) db = Some (stored, staff)"
      "judged stored staff now" "\<not> verify_pin C (ac_pin_hash stored) (lf_pin f)"
  shows "\<exists>db' a. api_login_route C cfg rq now dr db = (Inl (ApiError ''invalid_credentials'' 401), db')
    \<and> find_account (ac_id stored) db' = Some a
    \<and> (let failures = (if ac_status stored = Locked then 0 else ac_failed_attempts stored) + 1 in
         ac_failed_attempts a = failures
         \<and> (if failures < 5
            then ac_status a = Active \<and> ac_lock_cycle a = ac_lock_cycle stored
            else ac_status a = Locked \<and> ac_lock_cycle a = ac_lock_cycle stored + 1
              \<and> ac_locked_until a
                  = Some (now + minutes (min (15 * 2 ^ ac_lock_cycle stored) (24 * 60)))))
    \<and> rate_limits db' = rate_limits db1 \<and> length (audit_events db) < length (audit_events db')"
proof -
  let ?a = "snd (record_failed_attempt (thaw now stored) now)"
  have same: "accounts db1 = accounts db" "staff_members db1 = staff_members db"
    using consume_login_limits_tables [OF limits] by simp_all
  then have named1: "login_account (normal_number (lf_employee_number f)) db1 = Some (stored, staff)"
    using named(1) by (simp add: login_account_def cong: option.case_cong)
  from wrong_pin_login [OF named1 named(2,3), of cfg "lf_device_id f" "lf_device_label f" "lf_persistent f" "rq_id rq" dr]
  obtain db' where run: "login C cfg (lf_employee_number f) (lf_pin f) (lf_device_id f) (lf_device_label f)
      (lf_persistent f) now (rq_id rq) dr db1 = (Inl InvalidCredentials, db')"
    and refused: "refused (accounts (put_account ?a db1)) db1 db'" by blast
  have id: "ac_id ?a = ac_id stored" using record_failed_attempt_simps(1) [of "thaw now stored" now] by simp
  have row: "stored \<in> set (accounts db1)" using login_account_Some [OF named1] by blast
  have "find_account (ac_id stored) (put_account ?a db1) = Some ?a"
    using row find_put_account [of "ac_id stored" ?a db1]
    by (cases "find_account (ac_id stored) db1") (auto simp: find_row_None_iff id)
  moreover have "accounts db' = accounts (put_account ?a db1)" using refused by (auto simp: refused_def)
  ultimately have "find_account (ac_id stored) db' = Some ?a" by (simp only:)
  moreover have "rate_limits db' = rate_limits db1" "length (audit_events db) < length (audit_events db')"
    using refused consume_login_limits_tables [OF limits] by (auto simp: refused_def)
  moreover have "api_login_route C cfg rq now dr db = (Inl (ApiError ''invalid_credentials'' 401), db')"
    using run limits by (simp add: api_login_route_def form api_login_scope_def session_scope_def)
  moreover note wrong_pin_row [OF named(2), unfolded Let_def]
  ultimately show ?thesis unfolding Let_def by (intro exI [of _ db'] exI [of _ ?a] conjI) (elim conjE, assumption)+
qed

text \<open>The sign-in attempts of browsers: a login or a renewal, with what was drawn for it.\<close>

datatype web_attempt =
    WebLogin http_request time session_draws string string
  | WebRenew http_request time session_draws string

fun attempt_web :: "crypto \<Rightarrow> identity_settings \<Rightarrow> web_attempt \<Rightarrow> db \<Rightarrow> web_sign_in result \<times> db" where
  "attempt_web C cfg (WebLogin rq now dr dev csrf) db = web_login_route C cfg rq now dr dev csrf db"
| "attempt_web C cfg (WebRenew rq now dr csrf) db = web_renew_route C cfg rq now dr csrf db"

lemma web_login_raised: "web_login_route C cfg rq now dr dev csrf db = (Inl e, db') \<Longrightarrow> db' = db"
  by (auto simp: web_login_route_def web_login_scope_def Let_def dest: session_scope_raised
      split: sum.split_asm prod.split_asm)

lemma web_renew_raised: "web_renew_route C cfg rq now dr csrf db = (Inl e, db') \<Longrightarrow> db' = db"
  by (auto simp: web_renew_route_def dest: session_scope_raised split: sum.split_asm prod.split_asm)

lemma attempt_web_raised: "attempt_web C cfg k db = (Inl e, db') \<Longrightarrow> db' = db"
  by (cases k) (auto dest: web_login_raised web_renew_raised)

text \<open>
  C17. The browser routes forget every failure: after any run of failed logins and renewals the
  database is exactly as before. No failed attempt is counted or logged, no lock is set, no
  rate-limit counter moves, and a retired renewal token that is presented again ends nothing.
\<close>

theorem web_failures_forgotten:
  assumes "\<forall>(k, r) \<in> set (fst (attempts (attempt_web C cfg) ks db)). \<not> is_ok r"
  shows "snd (attempts (attempt_web C cfg) ks db) = db"
  using assms
proof (induction ks)
  case (Cons k ks)
  obtain r db1 where run: "attempt_web C cfg k db = (r, db1)" by fastforce
  with Cons.prems obtain e where "r = Inl e" by (cases r) (auto split: prod.splits)
  with run have "db1 = db" using attempt_web_raised by metis
  with Cons run show ?case by (auto split: prod.splits)
qed simp

section \<open>Example requests\<close>

definition example_api_request :: http_request where
  "example_api_request = \<lparr>rq_json = Some (JObj [(''employee_number'', JStr ''E-100''), (''pin'', JStr ''WXYZ''),
       (''device_id'', JStr ''device-0123456789''), (''device_label'', JStr ''Desk''), (''persistent'', JBool False)]),
     rq_headers = [], rq_cookies = [], rq_scheme = ''https'', rq_host = ''h'', rq_origin_site = [],
     rq_remote_addr = ''10.0.0.1'', rq_trust_proxy = False, rq_ip_address = Some, rq_user_agent = [], rq_id = ''r''\<rparr>"

definition example_web_request :: http_request where
  "example_web_request = example_api_request\<lparr>rq_json := Some (JObj [(''employee_number'', JStr ''E-100''),
       (''pin'', JStr ''WXYZ''), (''persistent'', JBool False)]),
     rq_headers := [(''Origin'', ''https://h'')], rq_origin_site := ''https://h''\<rparr>"

lemma example_api_form: "is_ok (api_login_form plain_crypto (default_settings ''pepper'') example_api_request)
  \<and> (case api_login_form plain_crypto (default_settings ''pepper'') example_api_request of
      Inl e \<Rightarrow> False
    | Inr f \<Rightarrow> lf_employee_number f = ''E-100'' \<and> lf_pin f = ''WXYZ''
        \<and> is_ok (fst (consume_login_limits plain_crypto (default_settings ''pepper'') ''E-100''
            (lf_device_id f) ''10.0.0.1'' 5 example_db)))"
  by code_simp

lemma example_judged:
  "case login_account (normal_number ''E-100'') example_db of
     None \<Rightarrow> False
   | Some (stored, staff) \<Rightarrow> judged stored staff 5 \<and> \<not> verify_pin plain_crypto (ac_pin_hash stored) ''WXYZ''
       \<and> ac_id stored = 2 \<and> ac_status stored = Active \<and> ac_failed_attempts stored = 0"
  by code_simp

lemma api_wrong_pin_counts_witness:
  "\<exists>db'. api_login_route plain_crypto (default_settings ''pepper'') example_api_request 5 example_draws1 example_db
      = (Inl (ApiError ''invalid_credentials'' 401), db')
    \<and> (\<exists>a. find_account 2 db' = Some a \<and> ac_failed_attempts a = 1)"
proof -
  obtain f where f: "api_login_form plain_crypto (default_settings ''pepper'') example_api_request = Inr f"
    "lf_employee_number f = ''E-100''" "lf_pin f = ''WXYZ''"
    and lim: "is_ok (fst (consume_login_limits plain_crypto (default_settings ''pepper'') ''E-100''
            (lf_device_id f) ''10.0.0.1'' 5 example_db))"
    using example_api_form by (auto split: sum.splits)
  obtain db1 where limits: "consume_login_limits plain_crypto (default_settings ''pepper'') ''E-100''
            (lf_device_id f) ''10.0.0.1'' 5 example_db = (Inr (), db1)"
    using lim by (cases "consume_login_limits plain_crypto (default_settings ''pepper'') ''E-100''
            (lf_device_id f) ''10.0.0.1'' 5 example_db") (auto simp: is_ok_def split: sum.splits)
  have net: "rq_network example_api_request = ''10.0.0.1''" by (simp add: rq_network_def example_api_request_def, code_simp)
  obtain stored staff where acct: "login_account (normal_number ''E-100'') example_db = Some (stored, staff)"
    "judged stored staff 5" "\<not> verify_pin plain_crypto (ac_pin_hash stored) ''WXYZ''" "ac_id stored = 2"
    "ac_status stored = Active" "ac_failed_attempts stored = 0"
    using example_judged by (auto split: option.splits)
  from api_wrong_pin_counts [OF f(1), of 5 example_db db1 stored staff example_draws1] limits acct
  show ?thesis by (auto simp: f net Let_def)
qed

lemma example_web_attempt:
  "\<not> is_ok (fst (attempt_web plain_crypto (default_settings ''pepper'')
      (WebLogin example_web_request 5 example_draws1 ''device-0123456789'' ''csrf'') example_db))"
  by code_simp

lemma web_failures_forgotten_witness:
  "snd (attempts (attempt_web plain_crypto (default_settings ''pepper''))
      [WebLogin example_web_request 5 example_draws1 ''device-0123456789'' ''csrf''] example_db) = example_db"
  using web_failures_forgotten [of plain_crypto "default_settings ''pepper''"
      "[WebLogin example_web_request 5 example_draws1 ''device-0123456789'' ''csrf'']" example_db] example_web_attempt
  by (auto split: prod.splits simp del: attempt_web.simps)

end
