(* ===== verification/Contents.thy ===== *)
theory Contents
  imports Text
begin

text \<open>
  The closed content documents of incidents and reports
  (\<open>src/backend/webapp/api_v1/schemas/reporting.py\<close>): the limits on nested JSON, the fields of
  \<open>ReportContentV1\<close> and \<open>IncidentSnapshotV1\<close> as a table of names, defaults and checks, the
  size limit on the encoded document, and the names of the fields that changed. A pydantic
  \<open>ValidationError\<close> is a \<open>ValueError\<close>; its text is not modelled. Incident numbers and names
  (\<open>src/backend/reports/incident_numbers.py\<close>) are normalised here too.
\<close>

abbreviation ValidationError :: exn where
  "ValidationError \<equiv> ValueError ''validation error''"

section \<open>Limits\<close>

definition MAX_NARRATIVE_CHARACTERS :: nat where "MAX_NARRATIVE_CHARACTERS = 30000"
definition FIELD_NOTES_MAX_CHARACTERS :: nat where "FIELD_NOTES_MAX_CHARACTERS = 30000"
definition MAX_SHORT_TEXT :: nat where "MAX_SHORT_TEXT = 200"
definition MAX_CODE_TEXT :: nat where "MAX_CODE_TEXT = 64"
definition MAX_LONG_ANSWER :: nat where "MAX_LONG_ANSWER = 5000"
definition MAX_MAP_ENTRIES :: nat where "MAX_MAP_ENTRIES = 100"
definition MAX_WARNINGS :: nat where "MAX_WARNINGS = 100"
definition MAX_CHARGES :: nat where "MAX_CHARGES = 50"
definition MAX_CONTENT_JSON_BYTES :: nat where "MAX_CONTENT_JSON_BYTES = 750000"
definition MAX_JSON_COLLECTION_ITEMS :: nat where "MAX_JSON_COLLECTION_ITEMS = 100"
definition MAX_JSON_DEPTH :: nat where "MAX_JSON_DEPTH = 8"
definition MAX_JSON_NODES :: nat where "MAX_JSON_NODES = 2000"
definition MAX_JSON_STRING_CHARACTERS :: nat where "MAX_JSON_STRING_CHARACTERS = 5000"

text \<open>\<open>JSON_KEY_PATTERN.fullmatch\<close>: \<open>[A-Za-z0-9_.-]{1,64}\<close>.\<close>

definition is_json_key_char :: "char \<Rightarrow> bool" where
  "is_json_key_char c \<longleftrightarrow>
     is_upper_ascii c \<or> is_lower_ascii c \<or> is_digit c \<or> c \<in> {CHR ''_'', CHR ''.'', CHR ''-''}"

definition JSON_KEY_PATTERN :: "string \<Rightarrow> bool" where
  "JSON_KEY_PATTERN s \<longleftrightarrow> s \<noteq> [] \<and> length s \<le> 64 \<and> list_all is_json_key_char s"

definition SERVER_OWNED_CONTENT_KEYS :: "string list" where
  "SERVER_OWNED_CONTENT_KEYS =
     [''provenance'', ''prompt_fingerprints'', ''fast_model'', ''pro_model'', ''model_location'',
      ''classification_prompt_sha256'', ''generation_prompt_sha256'', ''checklist_sha256'',
      ''template_sha256'', ''cloud_run_revision'', ''source_commit'', ''actor_account_id'',
      ''owner_staff_member_id'', ''preparer_staff_member_id'', ''editor_account_id'',
      ''created_by_account_id'']"

section \<open>Nested JSON: \<open>_has_nonfinite\<close>, \<open>_validate_recursive_json\<close>\<close>

text \<open>The text of a float that is not finite, as \<open>repr\<close> and \<open>json\<close> write it.\<close>

definition nonfinite :: "string \<Rightarrow> bool" where
  "nonfinite s \<longleftrightarrow> s \<in> {''NaN'', ''Infinity'', ''-Infinity''}"

fun has_nonfinite :: "json \<Rightarrow> bool" where
  "has_nonfinite (JFloat s) = nonfinite s"
| "has_nonfinite (JArr vs) = list_ex has_nonfinite vs"
| "has_nonfinite (JObj kvs) = list_ex (\<lambda>(k, v). has_nonfinite v) kvs"
| "has_nonfinite _ = False"

text \<open>
  The counter of nodes, which the source keeps in a list it passes along, is threaded: the
  result of an accepted value is the count after it.
\<close>

definition enter_node :: "nat \<Rightarrow> nat \<Rightarrow> (nat \<Rightarrow> nat result) \<Rightarrow> nat result" where
  "enter_node depth nodes k =
     (if nodes + 1 > MAX_JSON_NODES \<or> depth > MAX_JSON_DEPTH
      then Inl (ValueError ''nested content is too large'') else k (nodes + 1))"

fun validate_recursive_json :: "nat \<Rightarrow> json \<Rightarrow> nat \<Rightarrow> nat result"
  and validate_items :: "nat \<Rightarrow> json list \<Rightarrow> nat \<Rightarrow> nat result"
  and validate_members :: "nat \<Rightarrow> (string \<times> json) list \<Rightarrow> nat \<Rightarrow> nat result" where
  "validate_recursive_json depth (JStr s) nodes = enter_node depth nodes (\<lambda>n.
     if length s > MAX_JSON_STRING_CHARACTERS
     then Inl (ValueError ''nested content string is too long'') else Inr n)"
| "validate_recursive_json depth (JFloat s) nodes = enter_node depth nodes (\<lambda>n.
     if nonfinite s then Inl (ValueError ''nested content must not contain non-finite numbers'')
     else Inr n)"
| "validate_recursive_json depth (JArr vs) nodes = enter_node depth nodes (\<lambda>n.
     if length vs > MAX_JSON_COLLECTION_ITEMS
     then Inl (ValueError ''nested content collection is too large'')
     else validate_items (depth + 1) vs n)"
| "validate_recursive_json depth (JObj kvs) nodes = enter_node depth nodes (\<lambda>n.
     if length kvs > MAX_JSON_COLLECTION_ITEMS
     then Inl (ValueError ''nested content collection is too large'')
     else validate_members (depth + 1) kvs n)"
| "validate_recursive_json depth v nodes = enter_node depth nodes Inr"
| "validate_items depth [] nodes = Inr nodes"
| "validate_items depth (v # vs) nodes =
     bind_result (validate_recursive_json depth v nodes) (validate_items depth vs)"
| "validate_members depth [] nodes = Inr nodes"
| "validate_members depth ((k, v) # kvs) nodes =
     (if \<not> JSON_KEY_PATTERN k \<or> k \<in> set SERVER_OWNED_CONTENT_KEYS
      then Inl (ValueError ''nested content key is invalid'')
      else bind_result (validate_recursive_json depth v nodes) (validate_members depth kvs))"

section \<open>Encoded size\<close>

text \<open>\<open>json.dumps(value, ensure_ascii=False)\<close>: members in order, the default separators.\<close>

fun json_text :: "json \<Rightarrow> string" where
  "json_text JNull = ''null''"
| "json_text (JBool b) = (if b then ''true'' else ''false'')"
| "json_text (JInt i) = int_str i"
| "json_text (JFloat s) = s"
| "json_text (JStr s) = quote False s"
| "json_text (JArr vs) = ''['' @ join '', '' (map json_text vs) @ '']''"
| "json_text (JObj kvs) =
     ''{'' @ join '', '' (map (\<lambda>(k, v). quote False k @ '': '' @ json_text v) kvs) @ ''}''"

definition utf8_length :: "string \<Rightarrow> nat" where
  "utf8_length s = sum_list (map (\<lambda>c. if code c < 128 then 1 else 2) s)"

section \<open>Fields\<close>

text \<open>
  A field of a strict model: its name, its default (none when it is required), and the check
  of a value, which gives the value the model keeps.
\<close>

type_synonym field = "string \<times> json option \<times> (json \<Rightarrow> json result)"

definition accept :: "bool \<Rightarrow> json \<Rightarrow> json result" where
  "accept b v = (if b then Inr v else Inl ValidationError)"

fun text_field :: "nat \<Rightarrow> json \<Rightarrow> json result" where
  "text_field k (JStr s) = accept (length s \<le> k) (JStr s)"
| "text_field k _ = Inl ValidationError"

fun optional_text :: "nat \<Rightarrow> json \<Rightarrow> json result" where
  "optional_text k JNull = Inr JNull"
| "optional_text k v = text_field k v"

fun is_text :: "nat \<Rightarrow> json \<Rightarrow> bool" where
  "is_text k (JStr s) = (length s \<le> k)"
| "is_text k _ = False"

fun is_scalar :: "json \<Rightarrow> bool" where
  "is_scalar (JArr _) = False"
| "is_scalar (JObj _) = False"
| "is_scalar (JFloat s) = (\<not> nonfinite s)"
| "is_scalar _ = True"

fun map_field :: "(json \<Rightarrow> bool) \<Rightarrow> json \<Rightarrow> json result" where
  "map_field p (JObj kvs) = accept (length kvs \<le> MAX_MAP_ENTRIES
     \<and> list_all (\<lambda>(k, v). length k \<le> MAX_CODE_TEXT \<and> p v) kvs) (JObj kvs)"
| "map_field p _ = Inl ValidationError"

fun list_field :: "nat \<Rightarrow> json \<Rightarrow> json result" where
  "list_field k (JArr vs) = accept (length vs \<le> k \<and> list_all (is_text MAX_SHORT_TEXT) vs) (JArr vs)"
| "list_field k _ = Inl ValidationError"

definition schema_version_field :: field where
  "schema_version_field = (''schema_version'', Some (JInt 1), \<lambda>v. accept (v = JInt 1) v)"

definition warnings_field :: field where
  "warnings_field = (''warnings'', Some (JArr []), list_field MAX_WARNINGS)"

fun fill_fields :: "field list \<Rightarrow> (string \<times> json) list \<Rightarrow> (string \<times> json) list result" where
  "fill_fields [] kvs = Inr []"
| "fill_fields ((k, dflt, check) # fs) kvs =
     bind_result (case obj_get k kvs of
         Some v \<Rightarrow> check v
       | None \<Rightarrow> (case dflt of Some d \<Rightarrow> Inr d | None \<Rightarrow> Inl ValidationError))
       (\<lambda>v. bind_result (fill_fields fs kvs) (\<lambda>rest. Inr ((k, v) # rest)))"

text \<open>pydantic turns a \<open>ValueError\<close> of a validator into its \<open>ValidationError\<close>.\<close>

definition wrap_error :: "'a result \<Rightarrow> 'a result" where
  "wrap_error r = (case r of Inl _ \<Rightarrow> Inl ValidationError | Inr x \<Rightarrow> Inr x)"

text \<open>\<open>BoundedContent\<close>: the limits on the whole document, after its fields have been checked.\<close>

fun is_collection :: "json \<Rightarrow> bool" where
  "is_collection (JArr _) = True"
| "is_collection (JObj _) = True"
| "is_collection _ = False"

definition reject_nonfinite_or_oversized :: "(string \<times> json) list \<Rightarrow> (string \<times> json) list result" where
  "reject_nonfinite_or_oversized payload =
     (if has_nonfinite (JObj payload) then Inl ValidationError
      else bind_result (wrap_error (validate_items 0 (filter is_collection (map snd payload)) 0)) (\<lambda>_.
        if utf8_length (json_text (JObj payload)) > MAX_CONTENT_JSON_BYTES then Inl ValidationError
        else Inr payload))"

definition validate_model :: "field list \<Rightarrow> json \<Rightarrow> (string \<times> json) list result" where
  "validate_model fs v =
     (case v of
        JObj kvs \<Rightarrow>
          if \<not> set (obj_keys kvs) \<subseteq> set (map fst fs) then Inl ValidationError
          else bind_result (fill_fields fs kvs) reject_nonfinite_or_oversized
      | _ \<Rightarrow> Inl ValidationError)"

definition report_fields :: "field list" where
  "report_fields =
     [schema_version_field,
      (''narrative'', None, text_field MAX_NARRATIVE_CHARACTERS),
      (''editable_fields'', Some (JObj []), map_field is_scalar),
      (''validation'', Some (JObj []), map_field (\<lambda>_. True)),
      warnings_field]"

text \<open>\<open>ReportContentV1.model_validate(value).model_dump(mode="json")\<close>.\<close>

definition validate_report_content :: "json \<Rightarrow> (string \<times> json) list result" where
  "validate_report_content v = validate_model report_fields v"

section \<open>Incident numbers and names\<close>

text \<open>
  \<open>INCIDENT_NUMBER_RE.fullmatch\<close>: four digits, a dash, a month, a dash, three digits.
\<close>

definition INCIDENT_NUMBER_RE :: "string \<Rightarrow> bool" where
  "INCIDENT_NUMBER_RE s \<longleftrightarrow> length s = 11 \<and> list_all is_digit (take 4 s) \<and> s ! 4 = CHR ''-''
     \<and> ((s ! 5 = CHR ''0'' \<and> in_range (CHR ''1'') (CHR ''9'') (s ! 6))
        \<or> (s ! 5 = CHR ''1'' \<and> in_range (CHR ''0'') (CHR ''2'') (s ! 6)))
     \<and> s ! 7 = CHR ''-'' \<and> list_all is_digit (drop 8 s)"

text \<open>
  \<open>str.isdigit\<close> also holds of the superscript digits; none of them passes the pattern.
\<close>

definition isdigit :: "string \<Rightarrow> bool" where
  "isdigit s \<longleftrightarrow> s \<noteq> [] \<and> list_all (\<lambda>c. is_digit c \<or> code c \<in> {178, 179, 185}) s"

definition normalize_incident_number :: "string option \<Rightarrow> string option result" where
  "normalize_incident_number value =
     (case value of
        None \<Rightarrow> Inr None
      | Some s \<Rightarrow>
          if strip s = [] then Inr None
          else let compact = strip s;
                   compact = (if isdigit compact \<and> length compact = 9
                     then take 4 compact @ ''-'' @ take 2 (drop 4 compact) @ ''-'' @ drop 6 compact
                     else compact)
               in if \<not> INCIDENT_NUMBER_RE compact
                  then Inl (ValueError ''incident number must use YYYY-MM-NNN'')
                  else Inr (Some compact))"

definition INCIDENT_NAME_MAX_LENGTH :: nat where "INCIDENT_NAME_MAX_LENGTH = 160"

definition clean_label :: "string option \<Rightarrow> string option" where
  "clean_label value =
     (case value of
        None \<Rightarrow> None
      | Some s \<Rightarrow> let cleaned = join '' '' (split s) in if cleaned = [] then None else Some cleaned)"

definition normalize_incident_name :: "string option \<Rightarrow> string option result" where
  "normalize_incident_name value =
     (case clean_label value of
        None \<Rightarrow> Inr None
      | Some cleaned \<Rightarrow>
          if length cleaned > INCIDENT_NAME_MAX_LENGTH
          then Inl (ValueError ''incident name must be 160 characters or fewer'') else Inr (Some cleaned))"

definition rstrip :: "string \<Rightarrow> string" where
  "rstrip s = rev (lstrip (rev s))"

definition suggest_incident_name :: "string option \<Rightarrow> string option \<Rightarrow> string option" where
  "suggest_incident_name location category_label =
     (case List.map_filter clean_label [location, category_label] of
        [] \<Rightarrow> None
      | parts \<Rightarrow> Some (rstrip (take INCIDENT_NAME_MAX_LENGTH (join '' '' parts))))"

text \<open>The two validators of \<open>IncidentSnapshotV1\<close> that run before the fields' own checks.\<close>

definition json_option :: "string option \<Rightarrow> json" where
  "json_option = case_option JNull JStr"

fun normalized_field :: "(string option \<Rightarrow> string option result) \<Rightarrow> json \<Rightarrow> json result" where
  "normalized_field f JNull = bind_result (wrap_error (f None)) (\<lambda>t. Inr (json_option t))"
| "normalized_field f (JStr s) = bind_result (wrap_error (f (Some s))) (\<lambda>t. Inr (json_option t))"
| "normalized_field f _ = Inl ValidationError"

text \<open>
  The parsers of dates and times belong to pydantic: each is a parameter that gives the ISO
  text of what it has read. A date is kept as this text.
\<close>

record date_parsers =
  parse_date :: "string \<Rightarrow> string option"
  parse_time :: "string \<Rightarrow> string option"

fun parsed_field :: "(string \<Rightarrow> string option) \<Rightarrow> json \<Rightarrow> json result" where
  "parsed_field f JNull = Inr JNull"
| "parsed_field f (JStr s) = (case f s of None \<Rightarrow> Inl ValidationError | Some t \<Rightarrow> Inr (JStr t))"
| "parsed_field f _ = Inl ValidationError"

definition incident_fields :: "date_parsers \<Rightarrow> field list" where
  "incident_fields P =
     [schema_version_field,
      (''field_notes'', Some (JStr []), text_field FIELD_NOTES_MAX_CHARACTERS),
      (''incident_number'', Some JNull, normalized_field normalize_incident_number),
      (''incident_name'', Some JNull, normalized_field normalize_incident_name),
      (''incident_date'', Some JNull, parsed_field (parse_date P)),
      (''incident_time'', Some JNull, parsed_field (parse_time P)),
      (''facility'', Some JNull, optional_text 120),
      (''shift'', Some JNull, optional_text 32),
      (''location'', Some JNull, optional_text MAX_SHORT_TEXT),
      (''category'', Some JNull, optional_text 120),
      (''classification'', Some (JObj []), map_field (\<lambda>_. True)),
      (''extracted_facts'', Some (JObj []), map_field (\<lambda>_. True)),
      (''gap_answers'', Some (JObj []), map_field (is_text MAX_LONG_ANSWER)),
      (''charges'', Some (JArr []), list_field MAX_CHARGES),
      (''validation'', Some (JObj []), map_field (\<lambda>_. True)),
      warnings_field]"

text \<open>\<open>IncidentSnapshotV1.model_validate_json(...).model_dump(mode="json")\<close>.\<close>

definition validate_incident_content :: "date_parsers \<Rightarrow> json \<Rightarrow> (string \<times> json) list result" where
  "validate_incident_content P v = validate_model (incident_fields P) v"

section \<open>Names of the fields that changed\<close>

text \<open>
  Python's \<open>==\<close> on decoded JSON: a Boolean equals the integer of its value, a float the integer
  it denotes, and the order of the members of an object does not count.
\<close>

definition as_int :: "json \<Rightarrow> int option" where
  "as_int v = (case v of JInt i \<Rightarrow> Some i | JBool b \<Rightarrow> Some (if b then 1 else 0) | _ \<Rightarrow> None)"

definition float_is :: "string \<Rightarrow> int \<Rightarrow> bool" where
  "float_is s i \<longleftrightarrow> s = int_str i @ ''.0''"

fun py_eq :: "json \<Rightarrow> json \<Rightarrow> bool" where
  "py_eq (JArr vs) (JArr ws) = list_all2 py_eq vs ws"
| "py_eq (JObj as) (JObj bs) =
     (length as = length bs
      \<and> list_all (\<lambda>(k, v). case obj_get k bs of None \<Rightarrow> False | Some w \<Rightarrow> py_eq v w) as)"
| "py_eq JNull JNull = True"
| "py_eq (JStr s) (JStr t) = (s = t)"
| "py_eq (JFloat s) (JFloat t) = (s = t)"
| "py_eq (JFloat s) (JInt i) = float_is s i"
| "py_eq (JInt i) (JFloat s) = float_is s i"
| "py_eq (JFloat s) (JBool b) = float_is s (if b then 1 else 0)"
| "py_eq (JBool b) (JFloat s) = float_is s (if b then 1 else 0)"
| "py_eq v w = (as_int v \<noteq> None \<and> as_int v = as_int w)"

definition values_differ :: "string \<Rightarrow> (string \<times> json) list \<Rightarrow> (string \<times> json) list \<Rightarrow> bool" where
  "values_differ k previous current \<longleftrightarrow>
     (case (obj_get k previous, obj_get k current) of
        (Some v, Some w) \<Rightarrow> \<not> py_eq v w
      | (None, None) \<Rightarrow> False
      | (Some v, None) \<Rightarrow> v \<noteq> JNull
      | (None, Some w) \<Rightarrow> w \<noteq> JNull)"

definition changed_field_names :: "(string \<times> json) list \<Rightarrow> (string \<times> json) list \<Rightarrow> string list" where
  "changed_field_names previous current =
     sort (remdups (filter (\<lambda>k. values_differ k previous current \<and> k \<noteq> ''schema_version'')
       (obj_keys previous @ obj_keys current)))"

section \<open>What the nested validation accepts\<close>

fun json_nodes :: "json \<Rightarrow> nat" where
  "json_nodes (JArr vs) = 1 + sum_list (map json_nodes vs)"
| "json_nodes (JObj kvs) = 1 + sum_list (map (\<lambda>(k, v). json_nodes v) kvs)"
| "json_nodes _ = 1"

fun height_within :: "nat \<Rightarrow> json \<Rightarrow> bool" where
  "height_within h (JArr vs) = list_all (\<lambda>v. h > 0 \<and> height_within (h - 1) v) vs"
| "height_within h (JObj kvs) = list_all (\<lambda>(k, v). h > 0 \<and> height_within (h - 1) v) kvs"
| "height_within h _ = True"

fun locally_bounded :: "json \<Rightarrow> bool" where
  "locally_bounded (JStr s) = (length s \<le> MAX_JSON_STRING_CHARACTERS)"
| "locally_bounded (JFloat s) = (\<not> nonfinite s)"
| "locally_bounded (JArr vs) = (length vs \<le> MAX_JSON_COLLECTION_ITEMS \<and> list_all locally_bounded vs)"
| "locally_bounded (JObj kvs) = (length kvs \<le> MAX_JSON_COLLECTION_ITEMS
     \<and> list_all (\<lambda>(k, v). JSON_KEY_PATTERN k \<and> k \<notin> set SERVER_OWNED_CONTENT_KEYS \<and> locally_bounded v) kvs)"
| "locally_bounded _ = True"

lemma enter_node_Inr:
  "enter_node d n k = Inr m \<longleftrightarrow> Suc n \<le> MAX_JSON_NODES \<and> d \<le> MAX_JSON_DEPTH \<and> k (Suc n) = Inr m"
  by (auto simp: enter_node_def)

lemma height_step:
  "d \<le> m \<Longrightarrow> list_all (\<lambda>v. 0 < m - d \<and> Q (m - d - 1) v) vs
     \<longleftrightarrow> (vs \<noteq> [] \<longrightarrow> Suc d \<le> m) \<and> list_all (Q (m - Suc d)) (vs :: 'a list)"
  by (cases vs) (auto simp: list_all_iff)

lemma validate_recursive_json_iff:
  "validate_recursive_json d v n = Inr m \<longleftrightarrow>
     m = n + json_nodes v \<and> m \<le> MAX_JSON_NODES \<and> d \<le> MAX_JSON_DEPTH
     \<and> height_within (MAX_JSON_DEPTH - d) v \<and> locally_bounded v"
  "validate_items d vs n = Inr m \<longleftrightarrow>
     m = n + sum_list (map json_nodes vs) \<and> (vs \<noteq> [] \<longrightarrow> m \<le> MAX_JSON_NODES \<and> d \<le> MAX_JSON_DEPTH)
     \<and> list_all (height_within (MAX_JSON_DEPTH - d)) vs \<and> list_all locally_bounded vs"
  "validate_members d kvs n = Inr m \<longleftrightarrow>
     m = n + sum_list (map (\<lambda>(k, v). json_nodes v) kvs) \<and> (kvs \<noteq> [] \<longrightarrow> m \<le> MAX_JSON_NODES \<and> d \<le> MAX_JSON_DEPTH)
     \<and> list_all (\<lambda>(k, v). height_within (MAX_JSON_DEPTH - d) v) kvs
     \<and> list_all (\<lambda>(k, v). JSON_KEY_PATTERN k \<and> k \<notin> set SERVER_OWNED_CONTENT_KEYS \<and> locally_bounded v) kvs"
proof (induction d v n and d vs n and d kvs n arbitrary: m and m and m
    rule: validate_recursive_json_validate_items_validate_members.induct)
  case (3 depth vs nodes)
  show ?case
  proof (cases "length vs \<le> MAX_JSON_COLLECTION_ITEMS \<and> depth \<le> MAX_JSON_DEPTH")
    case True
    with 3 [of "Suc nodes"] height_step [of depth MAX_JSON_DEPTH height_within vs] show ?thesis
      by (cases "vs = []") (simp_all add: enter_node_Inr, safe, simp_all)
  qed (auto simp: enter_node_Inr)
next
  case (4 depth kvs nodes)
  show ?case
  proof (cases "length kvs \<le> MAX_JSON_COLLECTION_ITEMS \<and> depth \<le> MAX_JSON_DEPTH")
    case True
    with 4 [of "Suc nodes"] height_step [of depth MAX_JSON_DEPTH "\<lambda>h (k, v). height_within h v" kvs] show ?thesis
      by (cases "kvs = []") (simp_all add: enter_node_Inr case_prod_unfold, safe, simp_all)
  qed (auto simp: enter_node_Inr)
qed (auto simp: enter_node_Inr)


text \<open>
  The nested validation accepts a value exactly when it has at most two thousand nodes, is
  nested at most eight levels deep, and every string, collection, number and key in it keeps
  to its own limit: the counter the recursion threads and the depth it passes never reject or
  admit anything else.
\<close>

theorem nested_json_accepted:
  "is_ok (validate_recursive_json 0 v 0) \<longleftrightarrow>
     json_nodes v \<le> MAX_JSON_NODES \<and> height_within MAX_JSON_DEPTH v \<and> locally_bounded v"
  using validate_recursive_json_iff(1) [of 0 v 0 "json_nodes v"] validate_recursive_json_iff(1) [of 0 v 0]
  by (cases "validate_recursive_json 0 v 0") auto

section \<open>Validated content is a fixed point\<close>

text \<open>A field is stable when what its check keeps, and its default, pass the check unchanged.\<close>

definition stable_check :: "(json \<Rightarrow> json result) \<Rightarrow> bool" where
  "stable_check c \<longleftrightarrow> (\<forall>v w. c v = Inr w \<longrightarrow> c w = Inr w)"

definition stable_fields :: "field list \<Rightarrow> bool" where
  "stable_fields fs \<longleftrightarrow> distinct (map fst fs)
     \<and> (\<forall>(k, d, c) \<in> set fs. stable_check c \<and> (case d of None \<Rightarrow> True | Some x \<Rightarrow> c x = Inr x))"

lemma fill_fields_keys: "fill_fields fs kvs = Inr p \<Longrightarrow> map fst p = map fst fs"
  by (induction fs kvs arbitrary: p rule: fill_fields.induct) auto

lemma fill_fields_passed:
  "fill_fields fs kvs = Inr p \<Longrightarrow>
   \<forall>(k, d, c) \<in> set fs. stable_check c \<and> (case d of None \<Rightarrow> True | Some x \<Rightarrow> c x = Inr x) \<Longrightarrow>
   list_all2 (\<lambda>(k, d, c) (k', v). k' = k \<and> c v = Inr v) fs p"
  by (induction fs kvs arbitrary: p rule: fill_fields.induct)
    (auto simp: stable_check_def split: option.splits)

lemma fill_fields_again:
  "list_all2 (\<lambda>(k, d, c) (k', v). k' = k \<and> c v = Inr v) fs p \<Longrightarrow>
   (\<And>k v. (k, v) \<in> set p \<Longrightarrow> obj_get k kvs = Some v) \<Longrightarrow> fill_fields fs kvs = Inr p"
proof (induction rule: list_all2_induct)
  case (Cons f fs x p)
  obtain k d c v where [simp]: "f = (k, d, c)" "x = (k, v)" and c: "c v = Inr v"
    using Cons.hyps by (cases f; cases x) auto
  have "obj_get k kvs = Some v" by (rule Cons.prems) simp
  moreover have "fill_fields fs kvs = Inr p" by (rule Cons.IH, rule Cons.prems) simp
  ultimately show ?case by (simp add: c)
qed simp

lemma fill_fields_stable:
  assumes "stable_fields fs" "fill_fields fs kvs = Inr p"
  shows "fill_fields fs p = Inr p"
proof (rule fill_fields_again)
  show "list_all2 (\<lambda>(k, d, c) (k', v). k' = k \<and> c v = Inr v) fs p"
    using assms by (intro fill_fields_passed) (auto simp: stable_fields_def)
  show "obj_get k p = Some v" if "(k, v) \<in> set p" for k v
    using that assms fill_fields_keys [OF assms(2)] by (simp add: obj_get_def stable_fields_def)
qed

lemma bounded_same: "reject_nonfinite_or_oversized p = Inr q \<Longrightarrow> q = p"
  by (auto simp: reject_nonfinite_or_oversized_def split: if_splits)

lemma validate_model_stable:
  assumes fs: "stable_fields fs" and run: "validate_model fs v = Inr p"
  shows "validate_model fs (JObj p) = Inr p"
proof -
  from run obtain kvs q where q: "fill_fields fs kvs = Inr q" "reject_nonfinite_or_oversized q = Inr p"
    by (auto simp: validate_model_def split: json.splits if_splits)
  moreover have "q = p" using bounded_same [OF q(2)] by simp
  moreover have "set (obj_keys p) \<subseteq> set (map fst fs)"
    using q(1) \<open>q = p\<close> fill_fields_keys [of fs kvs q] by (simp add: obj_keys_def)
  ultimately show ?thesis using fill_fields_stable [OF fs] by (auto simp: validate_model_def)
qed

lemma validate_model_keys: "validate_model fs v = Inr p \<Longrightarrow> obj_keys p = map fst fs"
  by (auto simp: validate_model_def obj_keys_def split: json.splits if_splits
      dest!: bounded_same fill_fields_keys)

lemma accept_Inr [simp]: "accept b v = Inr w \<longleftrightarrow> b \<and> w = v"
  by (auto simp: accept_def)

lemma stable_checks:
  "stable_check (text_field k)" "stable_check (optional_text k)" "stable_check (map_field q)"
  "stable_check (list_field k)" "stable_check (\<lambda>v. accept (v = x) v)"
proof -
  show "stable_check (text_field k)" unfolding stable_check_def
    by (intro allI impI, case_tac v) auto
  show "stable_check (optional_text k)" unfolding stable_check_def
    by (intro allI impI, case_tac v) auto
  show "stable_check (map_field q)" unfolding stable_check_def
    by (intro allI impI, case_tac v) auto
  show "stable_check (list_field k)" unfolding stable_check_def
    by (intro allI impI, case_tac v) auto
  show "stable_check (\<lambda>v. accept (v = x) v)" by (simp add: stable_check_def)
qed

lemmas field_table = report_fields_def incident_fields_def schema_version_field_def warnings_field_def

lemma report_fields_stable: "stable_fields report_fields"
  by (simp add: stable_fields_def field_table stable_checks)

lemma report_content_stable:
  "validate_report_content v = Inr p \<Longrightarrow> validate_report_content (JObj p) = Inr p"
  unfolding validate_report_content_def by (rule validate_model_stable [OF report_fields_stable])

lemma report_content_keys:
  "validate_report_content v = Inr p \<Longrightarrow>
   obj_keys p = [''schema_version'', ''narrative'', ''editable_fields'', ''validation'', ''warnings'']"
  unfolding validate_report_content_def by (drule validate_model_keys) (simp add: field_table)

section \<open>Normalised numbers and names\<close>

lemma digit_no_space: "is_digit c \<Longrightarrow> \<not> is_space c"
  by (auto simp: is_digit_def in_range_def is_space_def)

lemma incident_number_shape:
  assumes "INCIDENT_NUMBER_RE s"
  shows "strip s = s" "\<not> isdigit s" "s \<noteq> []" "length s = 11"
proof -
  have len: "length s = 11" using assms by (simp add: INCIDENT_NUMBER_RE_def)
  have chars: "is_digit (s ! i) \<or> s ! i = CHR ''-''" if "i < 11" for i
  proof -
    have "i < 4 \<or> i = 4 \<or> i = 5 \<or> i = 6 \<or> i = 7 \<or> 8 \<le> i" using that by linarith
    moreover have "is_digit (s ! i)" if "i < 4"
      using assms that len by (auto simp: INCIDENT_NUMBER_RE_def list_all_length)
    moreover have "is_digit (s ! i)" if "8 \<le> i"
    proof -
      have "list_all is_digit (drop 8 s)" using assms by (simp add: INCIDENT_NUMBER_RE_def)
      moreover have "s ! i \<in> set (drop 8 s)"
        using that \<open>i < 11\<close> len by (auto simp: in_set_conv_nth intro!: exI [of _ "i - 8"])
      ultimately show ?thesis by (simp add: list_all_iff)
    qed
    ultimately show ?thesis
      using assms by (auto simp: INCIDENT_NUMBER_RE_def is_digit_def in_range_def)
  qed
  then have "\<not> is_space c" if "c \<in> set s" for c
    using that len digit_no_space by (force simp: in_set_conv_nth is_space_def)
  then show "strip s = s" by (rule strip_id)
  have "s ! 4 = CHR ''-''" using assms by (simp add: INCIDENT_NUMBER_RE_def)
  then show "\<not> isdigit s"
    using len by (auto simp: isdigit_def list_all_length is_digit_def in_range_def intro!: exI [of _ 4])
qed (use assms in \<open>auto simp: INCIDENT_NUMBER_RE_def\<close>)

lemma normalize_incident_number_Some:
  "normalize_incident_number v = Inr (Some s) \<Longrightarrow> INCIDENT_NUMBER_RE s"
  by (auto simp: normalize_incident_number_def Let_def split: option.splits if_splits)

lemma normalize_incident_number_stable:
  "INCIDENT_NUMBER_RE s \<Longrightarrow> normalize_incident_number (Some s) = Inr (Some s)"
  using incident_number_shape [of s] by (simp add: normalize_incident_number_def Let_def)

definition is_word :: "string \<Rightarrow> bool" where
  "is_word w \<longleftrightarrow> w \<noteq> [] \<and> (\<forall>c \<in> set w. \<not> is_space c)"

lemma split_words_words:
  "u \<in> set (split_words s w) \<Longrightarrow> (\<forall>c \<in> set w. \<not> is_space c) \<Longrightarrow> is_word u"
proof (induction s w rule: split_words.induct)
  case (1 w)
  then show ?case by (simp add: is_word_def split: if_splits)
next
  case (2 c s w)
  show ?case
  proof (cases "is_space c")
    case True
    then have "u \<in> set (split_words s []) \<or> (w \<noteq> [] \<and> u = rev w)"
      using 2(4) by (simp split: if_splits) blast
    then show ?thesis using 2(1,2,5) True by (cases "w = []") (auto simp: is_word_def)
  next
    case False
    then show ?thesis using 2(3) [OF False] 2(4,5) by simp
  qed
qed

lemma split_words_run:
  "(\<forall>c \<in> set u. \<not> is_space c) \<Longrightarrow> split_words (u @ s) w = split_words s (rev u @ w)"
  by (induction u arbitrary: w) auto

lemma split_join: "(\<And>w. w \<in> set ws \<Longrightarrow> is_word w) \<Longrightarrow> split (join '' '' ws) = ws"
proof (induction "'' ''::string" ws rule: join.induct)
  case (2 w)
  then show ?case using split_words_run [of w "[]" "[]"] by (simp add: split_def is_word_def)
next
  case (3 w v vs)
  then have w: "is_word w" by simp
  have "is_space (CHR '' '')" by (simp add: is_space_def)
  with w have "split_words (w @ CHR '' '' # join '' '' (v # vs)) [] = w # split_words (join '' '' (v # vs)) []"
    using split_words_run [of w "CHR '' '' # join '' '' (v # vs)" "[]"] by (simp add: is_word_def)
  moreover have "split (join '' '' (v # vs)) = v # vs" using 3 by simp
  ultimately show ?case by (simp add: split_def)
qed (simp add: split_def)

lemma clean_label_stable: "clean_label v = Some s \<Longrightarrow> clean_label (Some s) = Some s"
proof -
  assume "clean_label v = Some s"
  then obtain t where s: "s = join '' '' (split t)" "s \<noteq> []"
    by (auto simp: clean_label_def Let_def split: option.splits if_splits)
  have "split s = split t" unfolding s(1)
    by (rule split_join) (auto simp: split_def dest: split_words_words)
  with s show ?thesis by (simp add: clean_label_def Let_def)
qed

lemma normalize_incident_name_Some:
  "normalize_incident_name v = Inr (Some s) \<Longrightarrow>
   length s \<le> INCIDENT_NAME_MAX_LENGTH \<and> normalize_incident_name (Some s) = Inr (Some s)"
  using clean_label_stable [of v s] by (auto simp: normalize_incident_name_def split: option.splits if_splits)

text \<open>
  What pydantic promises of its parsers here: the ISO text of a date or a time is read as the
  same date or time.
\<close>

definition parsers_stable :: "date_parsers \<Rightarrow> bool" where
  "parsers_stable P \<longleftrightarrow> (\<forall>s t. parse_date P s = Some t \<longrightarrow> parse_date P t = Some t)
     \<and> (\<forall>s t. parse_time P s = Some t \<longrightarrow> parse_time P t = Some t)"

lemma wrap_error_Inr [simp]: "wrap_error r = Inr x \<longleftrightarrow> r = Inr x"
  by (cases r) (simp_all add: wrap_error_def)

lemma stable_normalized:
  "(\<And>v s. f v = Inr (Some s) \<Longrightarrow> f (Some s) = Inr (Some s)) \<Longrightarrow> (f None = Inr None) \<Longrightarrow>
   stable_check (normalized_field f)"
  unfolding stable_check_def
proof (intro allI impI)
  fix v w
  assume f: "\<And>v s. f v = Inr (Some s) \<Longrightarrow> f (Some s) = Inr (Some s)" "f None = Inr None"
    and run: "normalized_field f v = Inr w"
  from run obtain x t where "f x = Inr t" "w = json_option t" by (cases v) auto
  with f show "normalized_field f w = Inr w" by (cases t) (auto simp: json_option_def)
qed

lemma stable_parsed: "(\<And>s t. f s = Some t \<Longrightarrow> f t = Some t) \<Longrightarrow> stable_check (parsed_field f)"
  unfolding stable_check_def by (intro allI impI, case_tac v) (auto split: option.splits)

lemma incident_fields_stable: "parsers_stable P \<Longrightarrow> stable_fields (incident_fields P)"
proof -
  assume P: "parsers_stable P"
  have "stable_check (normalized_field normalize_incident_number)"
    by (rule stable_normalized, blast dest: normalize_incident_number_Some normalize_incident_number_stable)
      (simp add: normalize_incident_number_def)
  moreover have "stable_check (normalized_field normalize_incident_name)"
    by (rule stable_normalized, blast dest: normalize_incident_name_Some)
      (simp add: normalize_incident_name_def clean_label_def)
  moreover have "stable_check (parsed_field (parse_date P))" "stable_check (parsed_field (parse_time P))"
    using P by (auto simp: parsers_stable_def intro!: stable_parsed)
  ultimately show ?thesis
    by (simp add: stable_fields_def field_table stable_checks normalize_incident_number_def
        normalize_incident_name_def clean_label_def json_option_def)
qed

lemma incident_content_stable:
  "parsers_stable P \<Longrightarrow> validate_incident_content P v = Inr p \<Longrightarrow> validate_incident_content P (JObj p) = Inr p"
  unfolding validate_incident_content_def by (rule validate_model_stable [OF incident_fields_stable])

text \<open>
  C18. Validated content is a fixed point: the payload that a report or an incident document is
  stored as passes the same validation again and comes back unchanged, so what has been written
  can always be read, copied forward and saved again.
\<close>

theorem stored_content_validates:
  assumes "parsers_stable P"
  shows "(\<forall>p. validate_report_content v = Inr p \<longrightarrow> validate_report_content (JObj p) = Inr p)
    \<and> (\<forall>p. validate_incident_content P v = Inr p \<longrightarrow> validate_incident_content P (JObj p) = Inr p)"
  using report_content_stable incident_content_stable [OF assms] by blast

definition plain_parsers :: date_parsers where
  "plain_parsers = \<lparr>parse_date = (\<lambda>s. if length s = 10 then Some s else None),
     parse_time = (\<lambda>s. if length s = 8 then Some s else None)\<rparr>"

definition example_content :: json where
  "example_content = JObj [(''narrative'', JStr ''ok'')]"

definition example_payload :: "(string \<times> json) list" where
  "example_payload = [(''schema_version'', JInt 1), (''narrative'', JStr ''ok''), (''editable_fields'', JObj []), (''validation'', JObj []), (''warnings'', JArr [])]"

lemma utf8_length_bound: "utf8_length s \<le> 2 * length s"
  unfolding utf8_length_def by (induction s) auto

lemma example_content_ok: "validate_report_content example_content = Inr example_payload"
proof -
  have "fill_fields report_fields [(''narrative'', JStr ''ok'')] = Inr example_payload"
    by (simp add: example_payload_def field_table obj_get_def MAX_NARRATIVE_CHARACTERS_def)
  moreover have "length (json_text (JObj example_payload)) \<le> 200"
    using nat_str.simps [of 1] by (simp add: example_payload_def quote_def escape_char_def Let_def int_str_def)
  then have "utf8_length (json_text (JObj example_payload)) \<le> MAX_CONTENT_JSON_BYTES"
    using utf8_length_bound [of "json_text (JObj example_payload)"] by (simp add: MAX_CONTENT_JSON_BYTES_def del: json_text.simps)
  then have "reject_nonfinite_or_oversized example_payload = Inr example_payload"
    by (simp add: reject_nonfinite_or_oversized_def example_payload_def enter_node_def MAX_JSON_NODES_def
        MAX_JSON_DEPTH_def MAX_JSON_COLLECTION_ITEMS_def)
  moreover have "''narrative'' \<in> set (map fst report_fields)" by (simp add: field_table)
  ultimately show ?thesis
    by (simp add: validate_report_content_def validate_model_def example_content_def del: bind_result_eq_Inr)
qed

lemma stored_content_validates_witness:
  "validate_report_content (JObj example_payload) = Inr example_payload"
proof -
  have "parsers_stable plain_parsers" by (simp add: parsers_stable_def plain_parsers_def)
  from stored_content_validates [OF this, of example_content] example_content_ok show ?thesis by blast
qed

section \<open>Changed fields\<close>

lemma changed_field_names_iff:
  "k \<in> set (changed_field_names previous current) \<longleftrightarrow> k \<noteq> ''schema_version'' \<and> values_differ k previous current"
proof -
  have "k \<in> set (obj_keys kvs)" if "obj_get k kvs = Some v" for kvs v
    using that by (force simp: obj_keys_def obj_get_def dest: map_of_SomeD)
  then have "values_differ k previous current \<Longrightarrow> k \<in> set (obj_keys previous) \<or> k \<in> set (obj_keys current)"
    by (auto simp: values_differ_def split: option.splits)
  then show ?thesis by (auto simp: changed_field_names_def)
qed

lemma changed_field_names_sorted:
  "sorted (changed_field_names p c)" "distinct (changed_field_names p c)"
  "set (changed_field_names p c) \<subseteq> set (obj_keys p) \<union> set (obj_keys c)"
  by (auto simp: changed_field_names_def)

end
