(* ===== verification/Revisions.thy ===== *)
theory Revisions
  imports Contents Elevation Idempotency "HOL-Library.AList"
begin

text \<open>
  Incidents, reports and their revisions (\<open>src/backend/reports/revisions.py\<close>, the rows of
  \<open>src/backend/persistence/models/reporting.py\<close>): every operation locks the current row, checks
  the base revision the caller started from, appends an immutable revision with its audit event
  and, where it promotes the revision, changes the current row.

  The tables of this component stand beside those of the identity component in one state, so
  that an operation, its idempotency record and its audit event share a transaction. A JSON
  column that holds a dictionary is the list of its items. The two instants an operation takes
  (\<open>datetime.now\<close> and the transaction's \<open>now()\<close>) are one argument.
\<close>

section \<open>Rows\<close>

datatype report_status = In_Progress | Status_Completed | Archived

fun report_status_text :: "report_status \<Rightarrow> string" where
  "report_status_text In_Progress = ''in_progress''"
| "report_status_text Status_Completed = ''completed''"
| "report_status_text Archived = ''archived''"

definition report_status_of :: "string \<Rightarrow> report_status option" where
  "report_status_of s = (if s = ''in_progress'' then Some In_Progress
     else if s = ''completed'' then Some Status_Completed
     else if s = ''archived'' then Some Archived else None)"

datatype report_type =
  First_Person | Supervisor_Summary | Cover_Letter | Disciplinary | Investigation | Form_005

fun report_type_text :: "report_type \<Rightarrow> string" where
  "report_type_text First_Person = ''first_person''"
| "report_type_text Supervisor_Summary = ''supervisor_summary''"
| "report_type_text Cover_Letter = ''cover_letter''"
| "report_type_text Disciplinary = ''disciplinary''"
| "report_type_text Investigation = ''investigation''"
| "report_type_text Form_005 = ''form_005''"

type_synonym dict = "(string \<times> json) list"

record incident =
  in_id :: uuid
  in_created_by_account_id :: uuid
  in_created_by_staff_member_id :: uuid
  in_status :: report_status
  in_current_revision_number :: int
  in_content :: dict
  in_created_at :: time
  in_updated_at :: time
  in_archived_at :: "time option"

record incident_revision =
  ir_id :: uuid
  ir_incident_id :: uuid
  ir_revision_number :: int
  ir_editor_account_id :: uuid
  ir_editor_staff_member_id :: uuid
  ir_snapshot :: dict
  ir_changed_fields :: "string list"
  ir_reason :: string
  ir_client_version :: string
  ir_request_id :: string
  ir_created_at :: time

record report =
  rp_id :: uuid
  rp_incident_id :: uuid
  rp_report_type :: report_type
  rp_reporting_staff_member_id :: uuid
  rp_prepared_by_staff_member_id :: uuid
  rp_created_by_account_id :: uuid
  rp_status :: report_status
  rp_current_revision_number :: int
  rp_current_content :: dict
  rp_created_at :: time
  rp_updated_at :: time
  rp_archived_at :: "time option"

datatype relationship = Owner | Preparer

record report_access_row =
  ra_report_id :: uuid
  ra_staff_member_id :: uuid
  ra_relationship :: relationship
  ra_granted_by_account_id :: uuid
  ra_created_at :: time
  ra_revoked_at :: "time option"

record report_revision =
  rv_id :: uuid
  rv_report_id :: uuid
  rv_revision_number :: int
  rv_editor_account_id :: uuid
  rv_editor_staff_member_id :: uuid
  rv_snapshot :: dict
  rv_changed_fields :: "string list"
  rv_reason :: string
  rv_provenance :: dict
  rv_provenance_columns :: dict
  rv_source_incident_revision_id :: "uuid option"
  rv_source_ai_job_id :: "uuid option"
  rv_client_version :: string
  rv_request_id :: string
  rv_created_at :: time

text \<open>The columns of \<open>incidents\<close> that hold content, by name; a date is kept as its ISO text.\<close>

definition INCIDENT_CONTENT_FIELDS :: "string list" where
  "INCIDENT_CONTENT_FIELDS =
     [''incident_number'', ''incident_name'', ''incident_date'', ''incident_time'', ''facility'',
      ''shift'', ''location'', ''category'', ''field_notes'', ''classification'',
      ''extracted_facts'', ''gap_answers'', ''charges'', ''validation'']"

definition PROVENANCE_COLUMN_NAMES :: "string list" where
  "PROVENANCE_COLUMN_NAMES =
     [''fast_model'', ''pro_model'', ''model_location'', ''classification_prompt_sha256'',
      ''generation_prompt_sha256'', ''checklist_sha256'', ''template_sha256'',
      ''cloud_run_revision'', ''source_commit'']"

record workspace =
  ident :: db
  incidents :: "incident list"
  incident_revisions :: "incident_revision list"
  reports :: "report list"
  report_access :: "report_access_row list"
  report_revisions :: "report_revision list"

abbreviation find_incident :: "uuid \<Rightarrow> 'w workspace_scheme \<Rightarrow> incident option" where
  "find_incident i ws \<equiv> find_row in_id i (incidents ws)"

abbreviation find_report :: "uuid \<Rightarrow> 'w workspace_scheme \<Rightarrow> report option" where
  "find_report i ws \<equiv> find_row rp_id i (reports ws)"

abbreviation find_report_revision :: "uuid \<Rightarrow> int \<Rightarrow> 'w workspace_scheme \<Rightarrow> report_revision option" where
  "find_report_revision i n ws \<equiv>
     find_row (\<lambda>r. (rv_report_id r, rv_revision_number r)) (i, n) (report_revisions ws)"

abbreviation find_incident_revision ::
  "uuid \<Rightarrow> int \<Rightarrow> 'w workspace_scheme \<Rightarrow> incident_revision option" where
  "find_incident_revision i n ws \<equiv>
     find_row (\<lambda>r. (ir_incident_id r, ir_revision_number r)) (i, n) (incident_revisions ws)"

definition put_report :: "report \<Rightarrow> 'w workspace_scheme \<Rightarrow> 'w workspace_scheme" where
  "put_report rp ws = ws\<lparr>reports := update_rows (\<lambda>r. rp_id r = rp_id rp) (\<lambda>_. rp) (reports ws)\<rparr>"

definition put_incident :: "incident \<Rightarrow> 'w workspace_scheme \<Rightarrow> 'w workspace_scheme" where
  "put_incident inc ws =
     ws\<lparr>incidents := update_rows (\<lambda>r. in_id r = in_id inc) (\<lambda>_. inc) (incidents ws)\<rparr>"

definition add_report_revision :: "report_revision \<Rightarrow> 'w workspace_scheme \<Rightarrow> 'w workspace_scheme" where
  "add_report_revision rv ws = ws\<lparr>report_revisions := report_revisions ws @ [rv]\<rparr>"

text \<open>An operation of the identity component inside the same transaction.\<close>

definition in_ident :: "(db \<Rightarrow> 'a result \<times> db) \<Rightarrow> 'w workspace_scheme \<Rightarrow> 'a result \<times> 'w workspace_scheme" where
  "in_ident f ws = (case f (ident ws) of (r, db) \<Rightarrow> (r, ws\<lparr>ident := db\<rparr>))"

section \<open>Metadata and provenance\<close>

text \<open>
  What surrounds a call: the request id and client version of the request, if any, the
  identifiers that \<open>uuid4\<close> and the database draw, and the instant.
\<close>

record edit_call =
  ed_request_id :: "string option"
  ed_client_version :: "string option"
  ed_uuid :: uuid
  ed_revision_id :: uuid
  ed_now :: time

definition DEFAULT_CLIENT_VERSION :: string where
  "DEFAULT_CLIENT_VERSION = ''0.0.0-development''"

definition or_default :: "string option \<Rightarrow> string \<Rightarrow> string" where
  "or_default value dflt = (case value of None \<Rightarrow> dflt | Some s \<Rightarrow> if s = [] then dflt else s)"

definition metadata_of :: "edit_call \<Rightarrow> string \<times> string" where
  "metadata_of ed = (or_default (ed_request_id ed) (uuid_str (ed_uuid ed)),
     or_default (ed_client_version ed) DEFAULT_CLIENT_VERSION)"

text \<open>
  \<open>reports/provenance.py\<close>: the models, the digests of the prompt files and the deployment. The
  configured names, the file system and the environment are parameters.
\<close>

record provenance_env =
  FAST_MODEL :: string
  PRO_MODEL :: string
  MODEL_LOCATION :: string
  file_sha256 :: "string \<Rightarrow> string"
  getenv :: "string \<Rightarrow> string option"

definition collect_provenance :: "provenance_env \<Rightarrow> dict" where
  "collect_provenance E =
     (let env = \<lambda>name. (case getenv E name of None \<Rightarrow> JNull | Some s \<Rightarrow> if s = [] then JNull else JStr s)
      in [(''fast_model'', JStr (FAST_MODEL E)), (''pro_model'', JStr (PRO_MODEL E)),
          (''model_location'', JStr (MODEL_LOCATION E)),
          (''classification_prompt_sha256'', JStr (file_sha256 E ''classification'')),
          (''generation_prompt_sha256'', JStr (file_sha256 E ''generation'')),
          (''checklist_sha256'', JStr (file_sha256 E ''checklist'')),
          (''template_sha256'', JStr (file_sha256 E ''template'')),
          (''cloud_run_revision'', env ''K_REVISION''), (''source_commit'', env ''SOURCE_COMMIT'')])"

definition ai_provenance :: "provenance_env \<Rightarrow> string \<Rightarrow> dict" where
  "ai_provenance E reason = (if reason = ''ai_result'' then collect_provenance E else [])"

text \<open>\<open>{name: provenance.get(name) for name in PROVENANCE_COLUMN_NAMES}\<close>.\<close>

definition provenance_columns :: "dict \<Rightarrow> dict" where
  "provenance_columns p =
     map (\<lambda>n. (n, case obj_get n p of None \<Rightarrow> JNull | Some v \<Rightarrow> v)) PROVENANCE_COLUMN_NAMES"

definition display_name :: "staff_member \<Rightarrow> string" where
  "display_name s = join '' '' (filter (\<lambda>p. p \<noteq> []) [st_rank s, st_first_name s, st_last_name s])"

definition editor_snapshot :: "session_actor \<Rightarrow> db \<Rightarrow> json result" where
  "editor_snapshot who db =
     (case find_staff (staff_member_id who) db of
        None \<Rightarrow> Inl (ValueError ''report revision editor is unavailable'')
      | Some s \<Rightarrow> Inr (JObj [(''staff_member_id'', JStr (uuid_str (staff_member_id who))),
          (''display_name'', JStr (display_name s)), (''rank'', JStr (st_rank s))]))"

definition with_editor_snapshot :: "session_actor \<Rightarrow> db \<Rightarrow> dict \<Rightarrow> dict result" where
  "with_editor_snapshot who db p =
     bind_result (editor_snapshot who db) (\<lambda>snap. Inr (AList.update ''editor_snapshot'' snap p))"

definition report_revision_editor_snapshot :: "report_revision \<Rightarrow> string option \<times> string option" where
  "report_revision_editor_snapshot rv =
     (case obj_get ''editor_snapshot'' (rv_provenance rv) of
        Some (JObj snap) \<Rightarrow>
          if obj_get ''staff_member_id'' snap \<noteq> Some (JStr (uuid_str (rv_editor_staff_member_id rv)))
          then (None, None)
          else (case obj_get ''display_name'' snap of
                  Some (JStr d) \<Rightarrow> if strip d = [] then None else Some d | _ \<Rightarrow> None,
                case obj_get ''rank'' snap of Some (JStr r) \<Rightarrow> Some r | _ \<Rightarrow> None)
      | _ \<Rightarrow> (None, None))"

definition source_revision_provenance :: "dict \<Rightarrow> int \<Rightarrow> dict" where
  "source_revision_provenance p n = AList.update ''source_revision_number'' (JInt n) p"

section \<open>Steps the operations share\<close>

definition next_revision_number :: "int list \<Rightarrow> int" where
  "next_revision_number ns = foldr max ns 0 + 1"

definition numbers_of :: "uuid \<Rightarrow> report_revision list \<Rightarrow> int list" where
  "numbers_of i rvs = map rv_revision_number (filter (\<lambda>r. rv_report_id r = i) rvs)"

definition incident_numbers_of :: "uuid \<Rightarrow> incident_revision list \<Rightarrow> int list" where
  "incident_numbers_of i rvs = map ir_revision_number (filter (\<lambda>r. ir_incident_id r = i) rvs)"

definition validate_revision_number :: "int \<Rightarrow> string \<Rightarrow> unit result" where
  "validate_revision_number n label =
     require (0 \<le> n) (ValueError (label @ '' revision number must be a nonnegative integer''))"

definition check_base_report :: "report \<Rightarrow> int \<Rightarrow> 'w workspace_scheme \<Rightarrow> unit result" where
  "check_base_report rp base ws =
     (if rp_current_revision_number rp = base then Inr ()
      else case find_report_revision (rp_id rp) (rp_current_revision_number rp) ws of
        None \<Rightarrow> Inl (RevisionConflict (rp_current_revision_number rp)
          (Some (report_status_text (rp_status rp))) (Some (rp_updated_at rp)) None [])
      | Some rv \<Rightarrow> Inl (RevisionConflict (rp_current_revision_number rp)
          (Some (report_status_text (rp_status rp))) (Some (rv_created_at rv))
          (fst (report_revision_editor_snapshot rv)) (rv_changed_fields rv)))"

definition check_base_incident :: "incident \<Rightarrow> int \<Rightarrow> unit result" where
  "check_base_incident inc base =
     require (in_current_revision_number inc = base)
       (RevisionConflict (in_current_revision_number inc)
         (Some (report_status_text (in_status inc))) (Some (in_updated_at inc)) None [])"

definition edit_event ::
  "session_actor \<Rightarrow> edit_call \<Rightarrow> string \<Rightarrow> string \<Rightarrow> uuid \<Rightarrow> dict \<Rightarrow> audit_event" where
  "edit_event who ed act ttype tid kvs =
     (AuditEventInput (Some (account_id who)) (Some (staff_member_id who)) act Success
       (fst (metadata_of ed)) ttype (Some tid) kvs)\<lparr>client_version := Some (snd (metadata_of ed))\<rparr>"

definition append_edit_audit ::
  "session_actor \<Rightarrow> edit_call \<Rightarrow> string \<Rightarrow> string \<Rightarrow> uuid \<Rightarrow> dict \<Rightarrow> 'w workspace_scheme
   \<Rightarrow> unit result \<times> 'w workspace_scheme" where
  "append_edit_audit who ed act ttype tid kvs =
     in_ident (append_audit (edit_event who ed act ttype tid kvs))"

text \<open>The constructor call of a revision: the next number, the actor, the metadata.\<close>

definition new_report_revision ::
  "session_actor \<Rightarrow> edit_call \<Rightarrow> uuid \<Rightarrow> dict \<Rightarrow> string list \<Rightarrow> string \<Rightarrow> dict \<Rightarrow> dict
   \<Rightarrow> 'w workspace_scheme \<Rightarrow> report_revision" where
  "new_report_revision who ed rid payload changed reason prov columns ws =
     \<lparr>rv_id = ed_revision_id ed, rv_report_id = rid,
      rv_revision_number = next_revision_number (numbers_of rid (report_revisions ws)),
      rv_editor_account_id = account_id who, rv_editor_staff_member_id = staff_member_id who,
      rv_snapshot = payload, rv_changed_fields = changed, rv_reason = reason,
      rv_provenance = prov, rv_provenance_columns = columns,
      rv_source_incident_revision_id = None, rv_source_ai_job_id = None,
      rv_client_version = snd (metadata_of ed), rv_request_id = fst (metadata_of ed),
      rv_created_at = ed_now ed\<rparr>"

section \<open>Reports\<close>

definition REPORT_SAVE_REASONS :: "string list" where
  "REPORT_SAVE_REASONS = [''autosave'', ''manual_save'', ''ai_result'', ''admin_edit'']"

definition save_report ::
  "provenance_env \<Rightarrow> edit_call \<Rightarrow> session_actor \<Rightarrow> uuid \<Rightarrow> json \<Rightarrow> int \<Rightarrow> string
   \<Rightarrow> 'w workspace_scheme \<Rightarrow> report_revision result \<times> 'w workspace_scheme" where
  "save_report E ed who rid content base reason ws =
     (case bind_result (validate_revision_number base ''base'') (\<lambda>_.
           bind_result (require (reason \<in> set REPORT_SAVE_REASONS)
             (ValueError ''report revision reason is invalid'')) (\<lambda>_.
           case find_report rid ws of None \<Rightarrow> Inl RevisionTargetMissing | Some rp \<Rightarrow>
           bind_result (check_base_report rp base ws) (\<lambda>_.
           bind_result (validate_report_content content) (\<lambda>payload.
           bind_result (with_editor_snapshot who (ident ws) (ai_provenance E reason)) (\<lambda>prov.
             Inr (rp, payload, prov)))))) of
        Inl e \<Rightarrow> (Inl e, ws)
      | Inr (rp, payload, prov) \<Rightarrow>
          let changed = changed_field_names (rp_current_content rp) payload;
              rv = new_report_revision who ed rid payload changed reason prov (provenance_columns prov) ws;
              rp' = rp\<lparr>rp_current_content := payload,
                rp_current_revision_number := rv_revision_number rv, rp_updated_at := ed_now ed\<rparr>
          in and_then (append_edit_audit who ed ''report.saved'' ''report'' rid
                 [(''report_id'', JStr (uuid_str rid)), (''revision_number'', JInt (rv_revision_number rv)),
                  (''changed_fields'', JArr (map JStr changed)), (''reason'', JStr reason)]
                 (put_report rp' (add_report_revision rv ws)))
               (\<lambda>_ ws1. (Inr rv, ws1)))"

definition save_report_status ::
  "edit_call \<Rightarrow> session_actor \<Rightarrow> uuid \<Rightarrow> string \<Rightarrow> int
   \<Rightarrow> 'w workspace_scheme \<Rightarrow> report_revision result \<times> 'w workspace_scheme" where
  "save_report_status ed who rid status base ws =
     (case bind_result (validate_revision_number base ''base'') (\<lambda>_.
           case report_status_of status of None \<Rightarrow> Inl (ValueError ''report status is invalid'') | Some st \<Rightarrow>
           (case find_report rid ws of None \<Rightarrow> Inl RevisionTargetMissing | Some rp \<Rightarrow>
           bind_result (check_base_report rp base ws) (\<lambda>_.
           bind_result (validate_report_content (JObj (rp_current_content rp))) (\<lambda>payload.
           let current = find_report_revision rid (rp_current_revision_number rp) ws in
           bind_result (with_editor_snapshot who (ident ws)
               (case current of None \<Rightarrow> [] | Some rv \<Rightarrow> rv_provenance rv)) (\<lambda>prov.
             Inr (rp, st, payload, prov,
               case current of None \<Rightarrow> provenance_columns [] | Some rv \<Rightarrow> rv_provenance_columns rv)))))) of
        Inl e \<Rightarrow> (Inl e, ws)
      | Inr (rp, st, payload, prov, columns) \<Rightarrow>
          let rv = new_report_revision who ed rid payload [] ''status_change'' prov columns ws;
              rp' = rp\<lparr>rp_status := st, rp_current_revision_number := rv_revision_number rv,
                rp_updated_at := ed_now ed,
                rp_archived_at := (if st = Archived then Some (ed_now ed) else None)\<rparr>
          in and_then (append_edit_audit who ed ''report.status_changed'' ''report'' rid
                 [(''old_status'', JStr (report_status_text (rp_status rp))), (''new_status'', JStr status)]
                 (put_report rp' (add_report_revision rv ws)))
               (\<lambda>_ ws1. (Inr rv, ws1)))"

definition restore_report ::
  "edit_call \<Rightarrow> session_actor \<Rightarrow> uuid \<Rightarrow> int
   \<Rightarrow> 'w workspace_scheme \<Rightarrow> report_revision result \<times> 'w workspace_scheme" where
  "restore_report ed who rid n ws =
     (case bind_result (validate_revision_number n ''source'') (\<lambda>_.
           case find_report rid ws of None \<Rightarrow> Inl RevisionTargetMissing | Some rp \<Rightarrow>
           (case find_report_revision rid n ws of None \<Rightarrow> Inl RevisionTargetMissing | Some src \<Rightarrow>
           bind_result (validate_report_content (JObj (rv_snapshot src))) (\<lambda>payload.
           bind_result (with_editor_snapshot who (ident ws)
               (source_revision_provenance (rv_provenance src) n)) (\<lambda>prov.
             Inr (rp, src, payload, prov))))) of
        Inl e \<Rightarrow> (Inl e, ws)
      | Inr (rp, src, payload, prov) \<Rightarrow>
          let changed = changed_field_names (rp_current_content rp) payload;
              rv = new_report_revision who ed rid payload changed ''restored'' prov
                (rv_provenance_columns src) ws;
              rp' = rp\<lparr>rp_current_content := payload,
                rp_current_revision_number := rv_revision_number rv, rp_updated_at := ed_now ed\<rparr>
          in and_then (append_edit_audit who ed ''report.restored'' ''report'' rid
                 [(''report_id'', JStr (uuid_str rid)), (''revision_number'', JInt (rv_revision_number rv)),
                  (''source_revision_number'', JInt n)]
                 (put_report rp' (add_report_revision rv ws)))
               (\<lambda>_ ws1. (Inr rv, ws1)))"

definition create_recovery_revision ::
  "edit_call \<Rightarrow> session_actor \<Rightarrow> uuid \<Rightarrow> json \<Rightarrow> int
   \<Rightarrow> 'w workspace_scheme \<Rightarrow> report_revision result \<times> 'w workspace_scheme" where
  "create_recovery_revision ed who rid content base ws =
     (case bind_result (validate_revision_number base ''base'') (\<lambda>_.
           case find_report rid ws of None \<Rightarrow> Inl RevisionTargetMissing | Some rp \<Rightarrow>
           if base > rp_current_revision_number rp then Inl RevisionTargetMissing else
           (case find_report_revision rid base ws of None \<Rightarrow> Inl RevisionTargetMissing | Some src \<Rightarrow>
           bind_result (validate_report_content content) (\<lambda>payload.
           bind_result (with_editor_snapshot who (ident ws)
               (source_revision_provenance (rv_provenance src) base)) (\<lambda>prov.
             Inr (rp, src, payload, prov))))) of
        Inl e \<Rightarrow> (Inl e, ws)
      | Inr (rp, src, payload, prov) \<Rightarrow>
          let changed = changed_field_names (rp_current_content rp) payload;
              rv = new_report_revision who ed rid payload changed ''recovery'' prov
                (rv_provenance_columns src) ws
          in and_then (append_edit_audit who ed ''report.recovery_created'' ''report'' rid
                 [(''report_id'', JStr (uuid_str rid)), (''revision_number'', JInt (rv_revision_number rv)),
                  (''source_revision_number'', JInt base)]
                 (add_report_revision rv ws))
               (\<lambda>_ ws1. (Inr rv, ws1)))"

section \<open>Ownership\<close>

definition revoke_access :: "uuid \<Rightarrow> uuid list \<Rightarrow> time \<Rightarrow> report_access_row list \<Rightarrow> report_access_row list" where
  "revoke_access rid keep now =
     update_rows (\<lambda>r. ra_report_id r = rid \<and> ra_staff_member_id r \<notin> set keep \<and> ra_revoked_at r = None)
       (\<lambda>r. r\<lparr>ra_revoked_at := Some now\<rparr>)"

definition grant_access ::
  "uuid \<Rightarrow> uuid \<Rightarrow> time \<Rightarrow> uuid \<times> relationship \<Rightarrow> report_access_row list \<Rightarrow> report_access_row list" where
  "grant_access rid by now g rows =
     (let (staff, rel) = g;
          is_row = (\<lambda>r. ra_report_id r = rid \<and> ra_staff_member_id r = staff)
      in if list_ex is_row rows
         then update_rows is_row (\<lambda>r. r\<lparr>ra_relationship := rel, ra_revoked_at := None,
                ra_granted_by_account_id := by\<rparr>) rows
         else rows @ [\<lparr>ra_report_id = rid, ra_staff_member_id = staff, ra_relationship = rel,
                ra_granted_by_account_id = by, ra_created_at = now, ra_revoked_at = None\<rparr>])"

definition access_grants :: "uuid \<Rightarrow> uuid \<Rightarrow> (uuid \<times> relationship) list" where
  "access_grants owner preparer =
     (owner, Owner) # (if preparer \<noteq> owner then [(preparer, Preparer)] else [])"

definition all_active :: "uuid list \<Rightarrow> db \<Rightarrow> bool" where
  "all_active ids db \<longleftrightarrow>
     list_all (\<lambda>i. list_ex (\<lambda>s. st_id s = i \<and> st_is_active s) (staff_members db)) ids"

text \<open>The unique constraint \<open>uq_reports_incident_type_owner\<close>, checked when the row is flushed.\<close>

definition report_slot_taken :: "report \<Rightarrow> report list \<Rightarrow> bool" where
  "report_slot_taken rp rows \<longleftrightarrow>
     list_ex (\<lambda>r. rp_id r \<noteq> rp_id rp \<and> rp_incident_id r = rp_incident_id rp
       \<and> rp_report_type r = rp_report_type rp
       \<and> rp_reporting_staff_member_id r = rp_reporting_staff_member_id rp) rows"

definition transfer_report_ownership ::
  "edit_call \<Rightarrow> session_actor \<Rightarrow> uuid \<Rightarrow> uuid \<Rightarrow> uuid option
   \<Rightarrow> 'w workspace_scheme \<Rightarrow> report_revision result \<times> 'w workspace_scheme" where
  "transfer_report_ownership ed who rid owner new_preparer ws =
     (case find_report rid ws of None \<Rightarrow> (Inl RevisionTargetMissing, ws) | Some rp \<Rightarrow>
        let preparer = (case new_preparer of None \<Rightarrow> rp_prepared_by_staff_member_id rp | Some p \<Rightarrow> p);
            grants = access_grants owner preparer;
            rp1 = rp\<lparr>rp_reporting_staff_member_id := owner, rp_prepared_by_staff_member_id := preparer\<rparr>
        in if \<not> all_active [owner, preparer] (ident ws)
           then (Inl (ValueError ''Transfer targets must identify active staff.''), ws)
           else
             let ws1 = put_report rp1 (ws\<lparr>report_access :=
                   fold (grant_access rid (account_id who) (ed_now ed)) grants
                     (revoke_access rid (map fst grants) (ed_now ed) (report_access ws))\<rparr>)
             in if report_slot_taken rp1 (reports ws)
                then (Inl (IntegrityError ''uq_reports_incident_type_owner''), ws1)
                else case bind_result (validate_report_content (JObj (rp_current_content rp1))) (\<lambda>payload.
                          bind_result (with_editor_snapshot who (ident ws1) []) (\<lambda>prov.
                            Inr (payload, prov))) of
                  Inl e \<Rightarrow> (Inl e, ws1)
                | Inr (payload, prov) \<Rightarrow>
                    let rv = new_report_revision who ed rid payload [] ''ownership_change'' prov
                          (provenance_columns []) ws1;
                        rp2 = rp1\<lparr>rp_current_revision_number := rv_revision_number rv,
                          rp_updated_at := ed_now ed\<rparr>
                    in and_then (append_edit_audit who ed ''report.ownership_transferred'' ''report'' rid
                           [(''report_id'', JStr (uuid_str rid)),
                            (''old_owner_staff_id'', JStr (uuid_str (rp_reporting_staff_member_id rp))),
                            (''new_owner_staff_id'', JStr (uuid_str owner))]
                           (put_report rp2 (add_report_revision rv ws1)))
                         (\<lambda>_ ws2. (Inr rv, ws2)))"

text \<open>
  A report starts as a shell without content (\<open>JobProcessor._new_report_shell\<close> of
  \<open>worker/routes.py\<close>); the caller has found no report in its place.
\<close>

definition new_report_shell ::
  "uuid \<Rightarrow> uuid \<Rightarrow> report_type \<Rightarrow> uuid \<Rightarrow> session_actor \<Rightarrow> time
   \<Rightarrow> 'w workspace_scheme \<Rightarrow> report result \<times> 'w workspace_scheme" where
  "new_report_shell rid incident_id rtype owner who now ws =
     (let rp = \<lparr>rp_id = rid, rp_incident_id = incident_id, rp_report_type = rtype,
            rp_reporting_staff_member_id = owner, rp_prepared_by_staff_member_id = staff_member_id who,
            rp_created_by_account_id = account_id who, rp_status = In_Progress,
            rp_current_revision_number = 0, rp_current_content = [], rp_created_at = now,
            rp_updated_at = now, rp_archived_at = None\<rparr>
      in if report_slot_taken rp (reports ws)
         then (Inl (IntegrityError ''uq_reports_incident_type_owner''), ws)
         else (Inr rp, ws\<lparr>reports := reports ws @ [rp],
           report_access := report_access ws @
             map (\<lambda>(staff, rel). \<lparr>ra_report_id = rid, ra_staff_member_id = staff, ra_relationship = rel,
                 ra_granted_by_account_id = account_id who, ra_created_at = now, ra_revoked_at = None\<rparr>)
               (access_grants owner (staff_member_id who))\<rparr>))"

section \<open>Incidents\<close>

text \<open>
  \<open>carry_forward_identity\<close>: the number and the name of an incident survive a revision that does
  not mention them.
\<close>

definition IDENTITY_FIELDS :: "string list" where
  "IDENTITY_FIELDS = [''incident_number'', ''incident_name'']"

definition is_null :: "json option \<Rightarrow> bool" where
  "is_null v \<longleftrightarrow> v = None \<or> v = Some JNull"

definition carry_field :: "dict \<Rightarrow> string \<Rightarrow> dict \<Rightarrow> dict" where
  "carry_field columns k payload =
     (if is_null (obj_get k payload)
      then (case obj_get k columns of
              None \<Rightarrow> payload | Some v \<Rightarrow> if v = JNull then payload else AList.update k v payload)
      else payload)"

definition carry_forward_identity :: "incident \<Rightarrow> dict \<Rightarrow> dict" where
  "carry_forward_identity inc payload = fold (carry_field (in_content inc)) IDENTITY_FIELDS payload"

text \<open>
  \<open>_incident_current_payload\<close>: the columns, validated again. The values of the date and time
  columns are the texts they are kept as.
\<close>

definition incident_current_payload :: "date_parsers \<Rightarrow> incident \<Rightarrow> dict result" where
  "incident_current_payload P inc = validate_incident_content P (JObj (in_content inc))"

definition apply_incident_snapshot :: "dict \<Rightarrow> incident \<Rightarrow> incident" where
  "apply_incident_snapshot payload inc = inc\<lparr>in_content :=
     map (\<lambda>k. (k, case obj_get k payload of None \<Rightarrow> JNull | Some v \<Rightarrow> v)) INCIDENT_CONTENT_FIELDS\<rparr>"

text \<open>The unique index \<open>uq_incidents_incident_number\<close>.\<close>

definition number_taken :: "incident \<Rightarrow> incident list \<Rightarrow> bool" where
  "number_taken inc rows \<longleftrightarrow> \<not> is_null (obj_get ''incident_number'' (in_content inc))
     \<and> list_ex (\<lambda>r. in_id r \<noteq> in_id inc
         \<and> obj_get ''incident_number'' (in_content r) = obj_get ''incident_number'' (in_content inc)) rows"

text \<open>
  The listener of \<open>reports/persistence.py\<close> that runs before a revision is written: the trusted
  selection of the latest revision that has one is copied into a snapshot without it.
\<close>

definition carry_incident_server_metadata ::
  "incident_revision \<Rightarrow> 'w workspace_scheme \<Rightarrow> incident_revision" where
  "carry_incident_server_metadata rv ws =
     (if obj_get ''server_metadata'' (ir_snapshot rv) \<noteq> None then rv
      else case rev (sort_key ir_revision_number (filter (\<lambda>r. ir_incident_id r = ir_incident_id rv
                  \<and> obj_get ''server_metadata'' (ir_snapshot r) \<noteq> None) (incident_revisions ws))) of
        [] \<Rightarrow> rv
      | prev # _ \<Rightarrow> rv\<lparr>ir_snapshot := AList.update ''server_metadata''
          (the (obj_get ''server_metadata'' (ir_snapshot prev))) (ir_snapshot rv)\<rparr>)"

definition INCIDENT_SAVE_REASONS :: "string list" where
  "INCIDENT_SAVE_REASONS = [''autosave'', ''manual_save'', ''ai_result'']"

definition save_incident ::
  "date_parsers \<Rightarrow> provenance_env \<Rightarrow> edit_call \<Rightarrow> session_actor \<Rightarrow> uuid \<Rightarrow> json \<Rightarrow> int \<Rightarrow> string
   \<Rightarrow> 'w workspace_scheme \<Rightarrow> incident_revision result \<times> 'w workspace_scheme" where
  "save_incident P E ed who iid snapshot base reason ws =
     (case bind_result (validate_revision_number base ''base'') (\<lambda>_.
           bind_result (require (reason \<in> set INCIDENT_SAVE_REASONS)
             (ValueError ''incident revision reason is invalid'')) (\<lambda>_.
           case find_incident iid ws of None \<Rightarrow> Inl RevisionTargetMissing | Some inc \<Rightarrow>
           bind_result (check_base_incident inc base) (\<lambda>_.
           bind_result (validate_incident_content P snapshot) (\<lambda>validated.
           bind_result (incident_current_payload P inc) (\<lambda>previous.
             Inr (inc, carry_forward_identity inc validated, previous)))))) of
        Inl e \<Rightarrow> (Inl e, ws)
      | Inr (inc, payload, previous) \<Rightarrow>
          let changed = changed_field_names previous payload;
              prov = ai_provenance E reason;
              rv = carry_incident_server_metadata
                \<lparr>ir_id = ed_revision_id ed, ir_incident_id = iid,
                 ir_revision_number = next_revision_number (incident_numbers_of iid (incident_revisions ws)),
                 ir_editor_account_id = account_id who, ir_editor_staff_member_id = staff_member_id who,
                 ir_snapshot = (if prov \<noteq> [] then AList.update ''provenance'' (JObj prov) payload else payload),
                 ir_changed_fields = changed, ir_reason = reason,
                 ir_client_version = snd (metadata_of ed), ir_request_id = fst (metadata_of ed),
                 ir_created_at = ed_now ed\<rparr> ws;
              inc' = (apply_incident_snapshot payload inc)\<lparr>
                in_current_revision_number := ir_revision_number rv, in_updated_at := ed_now ed\<rparr>;
              ws1 = put_incident inc' (ws\<lparr>incident_revisions := incident_revisions ws @ [rv]\<rparr>)
          in if number_taken inc' (incidents ws)
             then (Inl (IntegrityError ''uq_incidents_incident_number''), ws1)
             else and_then (append_edit_audit who ed ''incident.saved'' ''incident'' iid
                 [(''incident_id'', JStr (uuid_str iid)), (''revision_number'', JInt (ir_revision_number rv)),
                  (''changed_fields'', JArr (map JStr changed)), (''reason'', JStr reason)] ws1)
               (\<lambda>_ ws2. (Inr rv, ws2)))"

end
