(* ===== verification/RevisionRules.thy ===== *)
theory RevisionRules
  imports Revisions
begin

text \<open>
  What the revision operations guarantee: the history of a report is gapless and never
  rewritten, a promoted revision is the current content, a stale base changes nothing, and
  exactly the owner and the preparer of a report have live access to it.
\<close>

section \<open>Numbering\<close>

definition numbers_by :: "('r \<Rightarrow> uuid) \<Rightarrow> ('r \<Rightarrow> int) \<Rightarrow> uuid \<Rightarrow> 'r list \<Rightarrow> int list" where
  "numbers_by parent number i rows = map number (filter (\<lambda>r. parent r = i) rows)"

lemma numbers_by_simps [simp]:
  "numbers_by parent number i [] = []"
  "numbers_by parent number i (xs @ ys) = numbers_by parent number i xs @ numbers_by parent number i ys"
  "numbers_by parent number i [r] = (if parent r = i then [number r] else [])"
  by (simp_all add: numbers_by_def)

lemma numbers_of_by: "numbers_of = numbers_by rv_report_id rv_revision_number"
  "incident_numbers_of = numbers_by ir_incident_id ir_revision_number"
  by (simp_all add: fun_eq_iff numbers_of_def incident_numbers_of_def numbers_by_def)

lemma foldr_max_upto: "0 \<le> k \<Longrightarrow> foldr max [i..k] 0 = (if i \<le> k then k else (0::int))"
proof (induction i k rule: upto.induct)
  case (1 i j)
  then show ?case by (cases "i \<le> j"; cases "i + 1 \<le> j") (auto simp: upto.simps [of i j])
qed

lemma next_number_greater: "n \<in> set ns \<Longrightarrow> n < next_revision_number ns"
  by (induction ns) (auto simp: next_revision_number_def)

text \<open>The numbers of one parent, in the order of the table, run from one without a gap.\<close>

definition gapless :: "int list \<Rightarrow> bool" where
  "gapless ns \<longleftrightarrow> ns = [1..int (length ns)]"

lemma gapless_Nil [simp]: "gapless []"
  by (simp add: gapless_def)

lemma gapless_next: "gapless ns \<Longrightarrow> next_revision_number ns = int (length ns) + 1"
proof -
  assume "gapless ns"
  then have "ns = [1..int (length ns)]" by (simp add: gapless_def)
  then have "foldr max ns 0 = foldr max [1..int (length ns)] 0" by metis
  then show ?thesis by (cases ns) (simp_all add: next_revision_number_def foldr_max_upto)
qed

lemma gapless_snoc: "gapless ns \<Longrightarrow> gapless (ns @ [next_revision_number ns])"
  using gapless_next [of ns] upto_rec2 [of 1 "int (length ns) + 1"] by (simp add: gapless_def add.commute)

lemma gapless_distinct: "gapless ns \<Longrightarrow> distinct ns"
  unfolding gapless_def by (metis distinct_upto)

lemma gapless_positive: "gapless ns \<Longrightarrow> n \<in> set ns \<Longrightarrow> 1 \<le> n \<and> n \<le> int (length ns)"
  unfolding gapless_def by (metis atLeastAtMost_iff set_upto)

text \<open>
  The contract of a table of revisions: a step leaves the table alone or appends one row with
  the next number of its parent.
\<close>

locale revision_store =
  fixes step :: "'s \<Rightarrow> 's \<Rightarrow> bool"
    and table :: "'s \<Rightarrow> 'r list"
    and parent :: "'r \<Rightarrow> uuid"
    and number :: "'r \<Rightarrow> int"
  assumes appends: "step s s' \<Longrightarrow> table s' = table s \<or>
      (\<exists>r. table s' = table s @ [r]
        \<and> number r = next_revision_number (numbers_by parent number (parent r) (table s)))"
begin

lemma history_kept: "step\<^sup>*\<^sup>* s s' \<Longrightarrow> \<exists>new. table s' = table s @ new"
proof (induction rule: rtranclp_induct)
  case (step t u)
  then show ?case using appends [OF step.hyps(2)] by auto
qed simp

lemma gapless_step:
  "step s s' \<Longrightarrow> \<forall>i. gapless (numbers_by parent number i (table s)) \<Longrightarrow>
   gapless (numbers_by parent number i (table s'))"
  using appends [of s s'] gapless_snoc by fastforce

lemma gapless_steps:
  "step\<^sup>*\<^sup>* s s' \<Longrightarrow> \<forall>i. gapless (numbers_by parent number i (table s)) \<Longrightarrow>
   \<forall>i. gapless (numbers_by parent number i (table s'))"
  by (induction rule: rtranclp_induct) (auto intro: gapless_step)

lemma find_kept:
  assumes "step\<^sup>*\<^sup>* s s'" "find_row (\<lambda>r. (parent r, number r)) k (table s) = Some r"
  shows "find_row (\<lambda>r. (parent r, number r)) k (table s') = Some r"
  using history_kept [OF assms(1)] assms(2) by (auto simp: find_row_append)

end

lemma gapless_keys_distinct:
  assumes "\<forall>i. gapless (numbers_by parent number i rows)"
  shows "distinct (map (\<lambda>r. (parent r, number r)) rows)"
proof -
  have "distinct (numbers_by parent number i rows)" for i using assms gapless_distinct by blast
  then show ?thesis
  proof (induction rows)
    case (Cons r rows)
    have tail: "distinct (numbers_by parent number i rows)" for i
      using Cons.prems [of i] by (auto simp: numbers_by_def split: if_splits)
    have "(parent r, number r) \<notin> (\<lambda>r. (parent r, number r)) ` set rows"
      using Cons.prems [of "parent r"] by (auto simp: numbers_by_def)
    with Cons.IH tail show ?case by simp
  qed simp
qed

section \<open>What a completed operation has done\<close>

definition logged :: "audit_event \<Rightarrow> 'w workspace_scheme \<Rightarrow> 'w workspace_scheme" where
  "logged ev ws = ws\<lparr>ident := (ident ws)\<lparr>audit_events := audit_events (ident ws) @ [ev]\<rparr>\<rparr>"

lemma logged_simps [simp]:
  "incidents (logged ev ws) = incidents ws" "incident_revisions (logged ev ws) = incident_revisions ws"
  "reports (logged ev ws) = reports ws" "report_access (logged ev ws) = report_access ws"
  "report_revisions (logged ev ws) = report_revisions ws"
  "staff_members (ident (logged ev ws)) = staff_members (ident ws)"
  "accounts (ident (logged ev ws)) = accounts (ident ws)"
  "idempotency_records (ident (logged ev ws)) = idempotency_records (ident ws)"
  "audit_events (ident (logged ev ws)) = audit_events (ident ws) @ [ev]"
  by (simp_all add: logged_def)

lemma row_simps [simp]:
  "ident (put_report rp ws) = ident ws" "incidents (put_report rp ws) = incidents ws"
  "incident_revisions (put_report rp ws) = incident_revisions ws"
  "report_access (put_report rp ws) = report_access ws"
  "report_revisions (put_report rp ws) = report_revisions ws"
  "reports (put_report rp ws) = update_rows (\<lambda>r. rp_id r = rp_id rp) (\<lambda>_. rp) (reports ws)"
  "ident (add_report_revision rv ws) = ident ws" "incidents (add_report_revision rv ws) = incidents ws"
  "incident_revisions (add_report_revision rv ws) = incident_revisions ws"
  "reports (add_report_revision rv ws) = reports ws"
  "report_access (add_report_revision rv ws) = report_access ws"
  "report_revisions (add_report_revision rv ws) = report_revisions ws @ [rv]"
  "ident (put_incident inc ws) = ident ws" "reports (put_incident inc ws) = reports ws"
  "report_access (put_incident inc ws) = report_access ws"
  "report_revisions (put_incident inc ws) = report_revisions ws"
  "incident_revisions (put_incident inc ws) = incident_revisions ws"
  "incidents (put_incident inc ws) = update_rows (\<lambda>r. in_id r = in_id inc) (\<lambda>_. inc) (incidents ws)"
  by (simp_all add: put_report_def add_report_revision_def put_incident_def)

lemma new_report_revision_simps [simp]:
  "rv_report_id (new_report_revision who ed rid payload changed reason prov cols ws) = rid"
  "rv_snapshot (new_report_revision who ed rid payload changed reason prov cols ws) = payload"
  "rv_reason (new_report_revision who ed rid payload changed reason prov cols ws) = reason"
  "rv_changed_fields (new_report_revision who ed rid payload changed reason prov cols ws) = changed"
  "rv_provenance (new_report_revision who ed rid payload changed reason prov cols ws) = prov"
  "rv_editor_staff_member_id (new_report_revision who ed rid payload changed reason prov cols ws) = staff_member_id who"
  "rv_revision_number (new_report_revision who ed rid payload changed reason prov cols ws)
     = next_revision_number (numbers_of rid (report_revisions ws))"
  by (simp_all add: new_report_revision_def)

lemma append_edit_audit_Inr:
  "append_edit_audit who ed act ttype tid kvs ws = (Inr u, ws') \<Longrightarrow>
   ws' = logged (edit_event who ed act ttype tid kvs) ws"
  by (auto simp: append_edit_audit_def in_ident_def logged_def dest!: append_audit_Inr split: prod.splits)

lemma append_edit_audit_Inl:
  "append_edit_audit who ed act ttype tid kvs ws = (Inl e, ws') \<Longrightarrow> ws' = ws"
  by (auto simp: append_edit_audit_def in_ident_def dest!: append_audit_Inl split: prod.splits)

lemma save_report_Inr:
  assumes "save_report E ed who rid content base reason ws = (Inr rv, ws')"
  obtains rp payload changed prov cols ev where "find_report rid ws = Some rp" "rp_current_revision_number rp = base"
    "0 \<le> base" "validate_report_content content = Inr payload" "reason \<in> set REPORT_SAVE_REASONS"
    "changed = changed_field_names (rp_current_content rp) payload"
    "rv = new_report_revision who ed rid payload changed reason prov cols ws"
    "ws' = logged ev (put_report (rp\<lparr>rp_current_content := payload,
        rp_current_revision_number := rv_revision_number rv, rp_updated_at := ed_now ed\<rparr>) (add_report_revision rv ws))"
  using assms
  by (auto simp: save_report_def Let_def case_result_eq_Inr and_then_eq_Inr check_base_report_def validate_revision_number_def
      split: option.splits if_splits dest!: append_edit_audit_Inr intro: that)

lemma save_report_status_Inr:
  assumes "save_report_status ed who rid status base ws = (Inr rv, ws')"
  obtains rp st payload prov cols ev where "find_report rid ws = Some rp" "rp_current_revision_number rp = base"
    "0 \<le> base" "validate_report_content (JObj (rp_current_content rp)) = Inr payload"
    "report_status_of status = Some st"
    "rv = new_report_revision who ed rid payload [] ''status_change'' prov cols ws"
    "ws' = logged ev (put_report (rp\<lparr>rp_status := st,
        rp_current_revision_number := rv_revision_number rv, rp_updated_at := ed_now ed,
        rp_archived_at := (if st = Archived then Some (ed_now ed) else None)\<rparr>) (add_report_revision rv ws))"
  using assms
  by (auto simp: save_report_status_def Let_def case_result_eq_Inr and_then_eq_Inr check_base_report_def validate_revision_number_def
      split: option.splits if_splits dest!: append_edit_audit_Inr intro: that)

lemma restore_report_Inr:
  assumes "restore_report ed who rid n ws = (Inr rv, ws')"
  obtains rp src payload prov cols ev where "find_report rid ws = Some rp" "0 \<le> n"
    "find_report_revision rid n ws = Some src"
    "validate_report_content (JObj (rv_snapshot src)) = Inr payload"
    "rv = new_report_revision who ed rid payload (changed_field_names (rp_current_content rp) payload)
       ''restored'' prov cols ws"
    "ws' = logged ev (put_report (rp\<lparr>rp_current_content := payload,
        rp_current_revision_number := rv_revision_number rv, rp_updated_at := ed_now ed\<rparr>) (add_report_revision rv ws))"
  using assms
  by (auto simp: restore_report_def Let_def case_result_eq_Inr and_then_eq_Inr validate_revision_number_def
      split: option.splits if_splits dest!: append_edit_audit_Inr intro: that)

lemma create_recovery_revision_Inr:
  assumes "create_recovery_revision ed who rid content base ws = (Inr rv, ws')"
  obtains rp src payload prov cols changed ev where "find_report rid ws = Some rp" "0 \<le> base"
    "base \<le> rp_current_revision_number rp" "find_report_revision rid base ws = Some src"
    "validate_report_content content = Inr payload"
    "rv = new_report_revision who ed rid payload changed ''recovery'' prov cols ws"
    "ws' = logged ev (add_report_revision rv ws)"
  using assms
  by (auto simp: create_recovery_revision_def Let_def case_result_eq_Inr and_then_eq_Inr validate_revision_number_def
      split: option.splits if_splits dest!: append_edit_audit_Inr intro: that)

text \<open>The access rows after a transfer.\<close>

definition transferred_access ::
  "uuid \<Rightarrow> uuid \<Rightarrow> time \<Rightarrow> uuid \<Rightarrow> uuid \<Rightarrow> report_access_row list \<Rightarrow> report_access_row list" where
  "transferred_access rid by now owner preparer rows =
     fold (grant_access rid by now) (access_grants owner preparer)
       (revoke_access rid (map fst (access_grants owner preparer)) now rows)"

lemma transfer_report_ownership_Inr:
  assumes "transfer_report_ownership ed who rid owner new_preparer ws = (Inr rv, ws')"
  obtains rp preparer payload prov cols where "find_report rid ws = Some rp"
    "preparer = (case new_preparer of None \<Rightarrow> rp_prepared_by_staff_member_id rp | Some p \<Rightarrow> p)"
    "all_active [owner, preparer] (ident ws)"
    "\<not> report_slot_taken (rp\<lparr>rp_reporting_staff_member_id := owner, rp_prepared_by_staff_member_id := preparer\<rparr>) (reports ws)"
    "validate_report_content (JObj (rp_current_content rp)) = Inr payload"
    "rv = new_report_revision who ed rid payload [] ''ownership_change'' prov cols ws"
    "reports ws' = update_rows (\<lambda>r. rp_id r = rp_id rp) (\<lambda>_. rp\<lparr>rp_reporting_staff_member_id := owner,
       rp_prepared_by_staff_member_id := preparer, rp_current_revision_number := rv_revision_number rv,
       rp_updated_at := ed_now ed\<rparr>) (reports ws)"
    "report_revisions ws' = report_revisions ws @ [rv]"
    "report_access ws' = transferred_access rid (account_id who) (ed_now ed) owner preparer (report_access ws)"
proof -
  let ?preparer = "\<lambda>rp. case new_preparer of None \<Rightarrow> rp_prepared_by_staff_member_id rp | Some p \<Rightarrow> p"
  from assms obtain rp where rp: "find_report rid ws = Some rp"
    by (auto simp: transfer_report_ownership_def split: option.splits)
  let ?p = "?preparer rp"
  let ?rp1 = "rp\<lparr>rp_reporting_staff_member_id := owner, rp_prepared_by_staff_member_id := ?p\<rparr>"
  let ?ws1 = "put_report ?rp1 (ws\<lparr>report_access :=
      transferred_access rid (account_id who) (ed_now ed) owner ?p (report_access ws)\<rparr>)"
  from assms rp obtain payload prov ev where
    "all_active [owner, ?p] (ident ws)" "\<not> report_slot_taken ?rp1 (reports ws)"
    "validate_report_content (JObj (rp_current_content rp)) = Inr payload"
    "rv = new_report_revision who ed rid payload [] ''ownership_change'' prov (provenance_columns []) ?ws1"
    "ws' = logged ev (put_report (?rp1\<lparr>rp_current_revision_number := rv_revision_number rv,
        rp_updated_at := ed_now ed\<rparr>) (add_report_revision rv ?ws1))"
    by (auto simp: transfer_report_ownership_def transferred_access_def Let_def case_result_eq_Inr and_then_eq_Inr
        split: if_splits dest!: append_edit_audit_Inr)
  with rp show thesis
    by (intro that [of rp ?p payload prov "provenance_columns []"])
      (simp_all add: new_report_revision_def update_rows_def comp_def cong: if_cong)
qed

lemma new_report_shell_Inr:
  assumes "new_report_shell rid iid ty owner who now ws = (Inr rp, ws')"
  shows "rp_id rp = rid" "rp_current_revision_number rp = 0" "rp_current_content rp = []"
    "rp_reporting_staff_member_id rp = owner" "rp_prepared_by_staff_member_id rp = staff_member_id who"
    "\<not> report_slot_taken rp (reports ws)"
    "reports ws' = reports ws @ [rp]" "report_revisions ws' = report_revisions ws"
    "report_access ws' = report_access ws @
       map (\<lambda>(staff, rel). \<lparr>ra_report_id = rid, ra_staff_member_id = staff, ra_relationship = rel,
           ra_granted_by_account_id = account_id who, ra_created_at = now, ra_revoked_at = None\<rparr>)
         (access_grants owner (staff_member_id who))"
  using assms by (auto simp: new_report_shell_def Let_def split: if_splits)

end
