(* ===== verification/ReportInvariant.thy ===== *)
theory ReportInvariant
  imports RevisionRules
begin

text \<open>
  The invariants of the reports: a gapless history whose current revision is the current
  content, and access rows that agree with the owner and the preparer of each report.
\<close>

section \<open>Access rows\<close>

abbreviation access_key :: "report_access_row \<Rightarrow> uuid \<times> uuid" where
  "access_key r \<equiv> (ra_report_id r, ra_staff_member_id r)"

definition live_access :: "uuid \<Rightarrow> report_access_row list \<Rightarrow> (uuid \<times> relationship) set" where
  "live_access rid rows = (\<lambda>r. (ra_staff_member_id r, ra_relationship r)) `
     {r \<in> set rows. ra_report_id r = rid \<and> ra_revoked_at r = None}"

lemma live_access_Nil [simp]: "live_access rid [] = {}"
  by (simp add: live_access_def)

lemma live_access_Cons:
  "live_access rid (r # rows) =
     (if ra_report_id r = rid \<and> ra_revoked_at r = None
      then insert (ra_staff_member_id r, ra_relationship r) (live_access rid rows) else live_access rid rows)"
  unfolding live_access_def by auto

lemma live_access_append: "live_access rid (xs @ ys) = live_access rid xs \<union> live_access rid ys"
  by (induction xs) (auto simp: live_access_Cons)

lemma update_rows_keys:
  "(\<And>r. p r \<Longrightarrow> access_key (f r) = access_key r) \<Longrightarrow>
   map access_key (update_rows p f rows) = map access_key rows"
  by (rule map_update_rows)

lemma revoke_access_keys [simp]: "map access_key (revoke_access rid keep now rows) = map access_key rows"
  unfolding revoke_access_def by (rule update_rows_keys) simp

lemma live_access_revoke:
  "p \<in> live_access i (revoke_access rid keep now rows) \<longleftrightarrow>
     p \<in> live_access i rows \<and> (i = rid \<longrightarrow> fst p \<in> set keep)"
  by (induction rows) (auto simp: revoke_access_def live_access_Cons)

lemma live_access_regrant:
  "p \<in> live_access i (update_rows (\<lambda>r. ra_report_id r = rid \<and> ra_staff_member_id r = staff)
       (\<lambda>r. r\<lparr>ra_relationship := rel, ra_revoked_at := None, ra_granted_by_account_id := by\<rparr>) rows) \<longleftrightarrow>
     (if i = rid
      then p \<in> live_access rid rows \<and> fst p \<noteq> staff
        \<or> list_ex (\<lambda>r. ra_report_id r = rid \<and> ra_staff_member_id r = staff) rows \<and> p = (staff, rel)
      else p \<in> live_access i rows)"
  by (induction rows) (auto simp: live_access_Cons)

lemma grant_access_distinct:
  "distinct (map access_key rows) \<Longrightarrow> distinct (map access_key (grant_access rid by now g rows))"
proof -
  assume d: "distinct (map access_key rows)"
  obtain staff rel where g: "g = (staff, rel)" by fastforce
  show ?thesis
  proof (cases "list_ex (\<lambda>r. ra_report_id r = rid \<and> ra_staff_member_id r = staff) rows")
    case True
    with d g show ?thesis by (simp add: grant_access_def Let_def map_update_rows)
  next
    case False
    with d g show ?thesis by (auto simp: grant_access_def Let_def list_ex_iff)
  qed
qed

lemma live_access_absent:
  "\<not> list_ex (\<lambda>r. ra_report_id r = rid \<and> ra_staff_member_id r = staff) rows \<Longrightarrow>
   p \<in> live_access rid rows \<Longrightarrow> fst p \<noteq> staff"
  by (induction rows) (auto simp: live_access_Cons split: if_splits)

lemma live_access_grant:
  "p \<in> live_access i (grant_access rid by now (staff, rel) rows) \<longleftrightarrow>
     (if i = rid then p = (staff, rel) \<or> p \<in> live_access rid rows \<and> fst p \<noteq> staff
      else p \<in> live_access i rows)"
proof (cases "list_ex (\<lambda>r. ra_report_id r = rid \<and> ra_staff_member_id r = staff) rows")
  case True
  then show ?thesis by (auto simp: grant_access_def Let_def live_access_regrant)
next
  case False
  then show ?thesis using live_access_absent [OF False, of p]
    by (auto simp: grant_access_def Let_def live_access_append live_access_Cons)
qed

lemma transferred_access_distinct:
  "distinct (map access_key rows) \<Longrightarrow>
   distinct (map access_key (transferred_access rid by now owner preparer rows))"
  by (simp add: transferred_access_def access_grants_def grant_access_distinct)

text \<open>Who is entitled to a report: its owner and, if that is somebody else, its preparer.\<close>

definition entitled :: "uuid \<Rightarrow> uuid \<Rightarrow> (uuid \<times> relationship) set" where
  "entitled owner preparer =
     {(owner, Owner)} \<union> (if preparer \<noteq> owner then {(preparer, Preparer)} else {})"

lemma live_access_transferred:
  "live_access i (transferred_access rid by now owner preparer rows) =
     (if i = rid then entitled owner preparer else live_access i rows)"
proof (rule set_eqI)
  fix p
  show "p \<in> live_access i (transferred_access rid by now owner preparer rows) \<longleftrightarrow>
      p \<in> (if i = rid then entitled owner preparer else live_access i rows)"
    by (cases "preparer = owner")
      (auto simp: transferred_access_def access_grants_def entitled_def live_access_grant live_access_revoke)
qed

lemma access_rows_of_transferred:
  "ra_report_id ` set (transferred_access rid by now owner preparer rows) \<subseteq> insert rid (ra_report_id ` set rows)"
proof -
  have g: "x \<in> ra_report_id ` set (grant_access rid by now g rs) \<Longrightarrow> x = rid \<or> x \<in> ra_report_id ` set rs" for x g rs
    by (cases g) (auto simp: grant_access_def Let_def set_update_rows split: if_splits)
  have r: "ra_report_id ` set (revoke_access rid keep now rs) = ra_report_id ` set rs" for keep rs
    using map_update_rows [where g = ra_report_id and rows = rs] by (simp add: revoke_access_def flip: set_map)
  show ?thesis unfolding transferred_access_def access_grants_def
    by (cases "preparer = owner") (use r in \<open>auto simp del: image_iff dest!: g\<close>)
qed

section \<open>The invariant\<close>

definition current_matches :: "report \<Rightarrow> report_revision list \<Rightarrow> bool" where
  "current_matches rp rvs \<longleftrightarrow>
     (if rp_current_revision_number rp = 0 then rp_current_content rp = []
      else \<exists>rv \<in> set rvs. rv_report_id rv = rp_id rp
        \<and> rv_revision_number rv = rp_current_revision_number rp \<and> rv_snapshot rv = rp_current_content rp)"

definition valid_revision :: "report_revision \<Rightarrow> bool" where
  "valid_revision rv \<longleftrightarrow> validate_report_content (JObj (rv_snapshot rv)) = Inr (rv_snapshot rv)"

definition report_slot :: "report \<Rightarrow> uuid \<times> report_type \<times> uuid" where
  "report_slot rp = (rp_incident_id rp, rp_report_type rp, rp_reporting_staff_member_id rp)"

definition history_wf :: "'w workspace_scheme \<Rightarrow> bool" where
  "history_wf ws \<longleftrightarrow> distinct (map rp_id (reports ws))
     \<and> (\<forall>i. gapless (numbers_of i (report_revisions ws)))
     \<and> (\<forall>rv \<in> set (report_revisions ws). valid_revision rv \<and> rv_report_id rv \<in> rp_id ` set (reports ws))
     \<and> (\<forall>rp \<in> set (reports ws). current_matches rp (report_revisions ws))"

definition access_wf :: "'w workspace_scheme \<Rightarrow> bool" where
  "access_wf ws \<longleftrightarrow> distinct (map rp_id (reports ws)) \<and> distinct (map report_slot (reports ws))
     \<and> distinct (map access_key (report_access ws))
     \<and> ra_report_id ` set (report_access ws) \<subseteq> rp_id ` set (reports ws)
     \<and> (\<forall>rp \<in> set (reports ws). live_access (rp_id rp) (report_access ws)
          = entitled (rp_reporting_staff_member_id rp) (rp_prepared_by_staff_member_id rp))"

text \<open>
  A completed operation on the reports. An identifier that is drawn for a new report is new.
  Everything else in the system leaves the three tables alone.
\<close>

inductive report_step :: "'w workspace_scheme \<Rightarrow> 'w workspace_scheme \<Rightarrow> bool" where
  saved: "save_report E ed who rid content base reason ws = (Inr rv, ws') \<Longrightarrow> report_step ws ws'"
| status_saved: "save_report_status ed who rid status base ws = (Inr rv, ws') \<Longrightarrow> report_step ws ws'"
| restored: "restore_report ed who rid n ws = (Inr rv, ws') \<Longrightarrow> report_step ws ws'"
| recovered: "create_recovery_revision ed who rid content base ws = (Inr rv, ws') \<Longrightarrow> report_step ws ws'"
| transferred: "transfer_report_ownership ed who rid owner preparer ws = (Inr rv, ws') \<Longrightarrow> report_step ws ws'"
| started: "new_report_shell rid iid ty owner who now ws = (Inr rp, ws') \<Longrightarrow>
    rid \<notin> rp_id ` set (reports ws) \<Longrightarrow> report_step ws ws'"
| elsewhere: "reports ws' = reports ws \<Longrightarrow> report_revisions ws' = report_revisions ws \<Longrightarrow>
    report_access ws' = report_access ws \<Longrightarrow> report_step ws ws'"

text \<open>What the steps have in common: a revision is appended and its report changed.\<close>

definition appended :: "report_revision \<Rightarrow> report \<Rightarrow> report \<Rightarrow> 'w workspace_scheme \<Rightarrow> 'w workspace_scheme \<Rightarrow> bool" where
  "appended rv rp rp' ws ws' \<longleftrightarrow>
     find_report (rp_id rp) ws = Some rp \<and> rv_report_id rv = rp_id rp \<and> rp_id rp' = rp_id rp
     \<and> rv_revision_number rv = next_revision_number (numbers_of (rp_id rp) (report_revisions ws))
     \<and> valid_revision rv \<and> report_revisions ws' = report_revisions ws @ [rv]
     \<and> reports ws' = update_rows (\<lambda>r. rp_id r = rp_id rp) (\<lambda>_. rp') (reports ws)
     \<and> (rp_current_revision_number rp' = rv_revision_number rv \<and> rp_current_content rp' = rv_snapshot rv \<or> rp' = rp)"

definition same_owner :: "report \<Rightarrow> report \<Rightarrow> bool" where
  "same_owner rp rp' \<longleftrightarrow> report_slot rp' = report_slot rp
     \<and> rp_prepared_by_staff_member_id rp' = rp_prepared_by_staff_member_id rp"

lemma update_same:
  "distinct (map key rows) \<Longrightarrow> find_row key k rows = Some r \<Longrightarrow>
   update_rows (\<lambda>x. key x = k) (\<lambda>_. r) rows = rows"
proof -
  assume d: "distinct (map key rows)" and f: "find_row key k rows = Some r"
  have "x = r" if "x \<in> set rows" "key x = k" for x
    using find_row_distinct [OF d that(1)] that(2) f by simp
  then show ?thesis by (simp add: update_rows_def map_idI)
qed

lemma current_content_valid:
  assumes "history_wf ws" "find_report rid ws = Some rp"
    "validate_report_content (JObj (rp_current_content rp)) = Inr p"
  shows "p = rp_current_content rp"
proof -
  have "current_matches rp (report_revisions ws)"
    using assms(1,2) by (auto simp: history_wf_def dest: find_row_SomeD)
  moreover have "rp_current_content rp \<noteq> []" using assms(3) by (auto simp: validate_report_content_def
        validate_model_def field_table obj_get_def)
  ultimately obtain rv where "rv \<in> set (report_revisions ws)" "rv_snapshot rv = rp_current_content rp"
    by (auto simp: current_matches_def split: if_splits)
  then have "validate_report_content (JObj (rp_current_content rp)) = Inr (rp_current_content rp)"
    using assms(1) by (auto simp: history_wf_def valid_revision_def)
  with assms(3) show ?thesis by simp
qed

lemma next_number_positive: "0 < next_revision_number ns"
proof -
  have "0 \<le> foldr max ns 0" by (induction ns) auto
  then show ?thesis by (simp add: next_revision_number_def)
qed

lemma current_matches_mono:
  "current_matches rp rvs \<Longrightarrow> set rvs \<subseteq> set rvs' \<Longrightarrow> current_matches rp rvs'"
  by (auto simp: current_matches_def split: if_splits)

lemma history_wf_appended:
  assumes wf: "history_wf ws" and app: "appended rv rp rp' ws ws'"
  shows "history_wf ws'"
proof -
  have ids: "map rp_id (reports ws') = map rp_id (reports ws)"
    using app by (simp add: appended_def map_update_rows)
  then have idset: "rp_id ` set (reports ws') = rp_id ` set (reports ws)" by (metis set_map)
  have rp: "rp \<in> set (reports ws)" using app by (auto simp: appended_def dest: find_row_SomeD)
  have "gapless (numbers_of i (report_revisions ws'))" for i
    using wf app gapless_snoc by (auto simp: history_wf_def appended_def numbers_of_by)
  moreover have "current_matches q (report_revisions ws')" if "q \<in> set (reports ws')" for q
  proof -
    have grow: "set (report_revisions ws) \<subseteq> set (report_revisions ws')" using app by (auto simp: appended_def)
    have "q \<in> (\<lambda>r. if rp_id r = rp_id rp then rp' else r) ` set (reports ws)"
      using that app by (simp add: appended_def set_update_rows)
    then consider "q \<in> set (reports ws)" | "q = rp'" by (auto split: if_splits)
    then show ?thesis
    proof cases
      case 1
      with wf have "current_matches q (report_revisions ws)" by (simp add: history_wf_def)
      then show ?thesis using grow by (rule current_matches_mono)
    next
      case 2
      consider "rp' = rp" | "rp_current_revision_number rp' = rv_revision_number rv" "rp_current_content rp' = rv_snapshot rv"
        using app by (auto simp: appended_def)
      then show ?thesis
      proof cases
        case 1
        with \<open>q = rp'\<close> rp wf have "current_matches q (report_revisions ws)" by (simp add: history_wf_def)
        then show ?thesis using grow by (rule current_matches_mono)
      next
        case 2
        have "rv_revision_number rv \<noteq> 0" using app next_number_positive [of "numbers_of (rp_id rp) (report_revisions ws)"]
          by (simp add: appended_def)
        with 2 \<open>q = rp'\<close> app show ?thesis by (auto simp: current_matches_def appended_def)
      qed
    qed
  qed
  moreover have "valid_revision r \<and> rv_report_id r \<in> rp_id ` set (reports ws')" if "r \<in> set (report_revisions ws')" for r
    using that wf app rp idset by (auto simp: appended_def history_wf_def)
  ultimately show ?thesis using wf ids by (simp add: history_wf_def)
qed

lemma valid_revisionI: "validate_report_content v = Inr (rv_snapshot rv) \<Longrightarrow> valid_revision rv"
  by (auto simp: valid_revision_def dest: report_content_stable)

lemma report_step_appended:
  assumes "report_step ws ws'" "history_wf ws"
  shows "(\<exists>rv rp rp'. appended rv rp rp' ws ws')
    \<or> (\<exists>rp. reports ws' = reports ws @ [rp] \<and> report_revisions ws' = report_revisions ws
         \<and> rp_id rp \<notin> rp_id ` set (reports ws) \<and> rp_current_revision_number rp = 0 \<and> rp_current_content rp = [])
    \<or> (reports ws' = reports ws \<and> report_revisions ws' = report_revisions ws)"
  using assms(1)
proof cases
  case (saved E ed who rid content base reason rv)
  then show ?thesis
  proof (rule save_report_Inr, goal_cases)
    case (1 rp payload changed prov cols ev)
    moreover have "rp_id rp = rid" using 1(1) by (auto dest: find_row_SomeD)
    ultimately show ?case
      by (intro disjI1 exI [of _ rv] exI [of _ rp] exI [of _ "rp\<lparr>rp_current_content := payload, rp_current_revision_number := rv_revision_number rv, rp_updated_at := ed_now ed\<rparr>"]) (auto simp: appended_def valid_revisionI)
  qed
next
  case (status_saved ed who rid status base rv)
  then show ?thesis
  proof (rule save_report_status_Inr, goal_cases)
    case (1 rp st payload prov cols ev)
    have rid: "rp_id rp = rid" using 1(1) by (auto dest: find_row_SomeD)
    have "payload = rp_current_content rp" using current_content_valid [OF assms(2) 1(1,4)] .
    with 1 rid show ?case
      by (intro disjI1 exI [of _ rv] exI [of _ rp] exI [of _ "rp\<lparr>rp_status := st, rp_current_revision_number := rv_revision_number rv, rp_updated_at := ed_now ed, rp_archived_at := (if st = Archived then Some (ed_now ed) else None)\<rparr>"]) (auto simp: appended_def valid_revisionI)
  qed
next
  case (restored ed who rid n rv)
  then show ?thesis
  proof (rule restore_report_Inr, goal_cases)
    case (1 rp src payload prov cols ev)
    moreover have "rp_id rp = rid" using 1(1) by (auto dest: find_row_SomeD)
    ultimately show ?case
      by (intro disjI1 exI [of _ rv] exI [of _ rp] exI [of _ "rp\<lparr>rp_current_content := payload, rp_current_revision_number := rv_revision_number rv, rp_updated_at := ed_now ed\<rparr>"]) (auto simp: appended_def valid_revisionI)
  qed
next
  case (recovered ed who rid content base rv)
  then show ?thesis
  proof (rule create_recovery_revision_Inr, goal_cases)
    case (1 rp src payload prov cols changed ev)
    moreover have rid: "rp_id rp = rid" using 1(1) by (auto dest: find_row_SomeD)
    moreover have "update_rows (\<lambda>r. rp_id r = rid) (\<lambda>_. rp) (reports ws) = reports ws"
      using assms(2) 1(1) by (intro update_same) (simp_all add: history_wf_def)
    ultimately show ?case
      by (intro disjI1 exI [of _ rv] exI [of _ rp] exI [of _ rp]) (auto simp: appended_def valid_revisionI)
  qed
next
  case (transferred ed who rid owner preparer rv)
  then show ?thesis
  proof (rule transfer_report_ownership_Inr, goal_cases)
    case (1 rp p payload prov cols)
    have rid: "rp_id rp = rid" using 1(1) by (auto dest: find_row_SomeD)
    have "payload = rp_current_content rp" using current_content_valid [OF assms(2) 1(1,5)] .
    with 1 rid show ?case
      by (intro disjI1 exI [of _ rv] exI [of _ rp] exI [of _ "rp\<lparr>rp_reporting_staff_member_id := owner, rp_prepared_by_staff_member_id := p, rp_current_revision_number := rv_revision_number rv, rp_updated_at := ed_now ed\<rparr>"]) (auto simp: appended_def valid_revisionI)
  qed
next
  case (started rid iid ty owner who now rp)
  then show ?thesis using new_report_shell_Inr [OF started(1)] by auto
qed simp

lemma history_wf_step:
  assumes "report_step ws ws'" "history_wf ws"
  shows "history_wf ws'"
  using report_step_appended [OF assms]
proof (elim disjE exE conjE)
  fix rv rp rp' assume "appended rv rp rp' ws ws'"
  then show ?thesis by (rule history_wf_appended [OF assms(2)])
next
  fix rp assume new: "reports ws' = reports ws @ [rp]" "report_revisions ws' = report_revisions ws"
    "rp_id rp \<notin> rp_id ` set (reports ws)" "rp_current_revision_number rp = 0" "rp_current_content rp = []"
  then show ?thesis using assms(2) by (auto simp: history_wf_def current_matches_def)
qed (use assms(2) in \<open>simp add: history_wf_def\<close>)

section \<open>The history is append-only\<close>

lemma report_step_appends:
  assumes "report_step ws ws'"
  shows "report_revisions ws' = report_revisions ws \<or>
    (\<exists>rv. report_revisions ws' = report_revisions ws @ [rv] \<and> rv_revision_number rv
       = next_revision_number (numbers_by rv_report_id rv_revision_number (rv_report_id rv) (report_revisions ws)))"
  using assms
proof cases
  case (saved E ed who rid content base reason rv)
  then show ?thesis by (elim save_report_Inr) (simp add: numbers_of_by)
next
  case (status_saved ed who rid status base rv)
  then show ?thesis by (elim save_report_status_Inr) (simp add: numbers_of_by)
next
  case (restored ed who rid n rv)
  then show ?thesis by (elim restore_report_Inr) (simp add: numbers_of_by)
next
  case (recovered ed who rid content base rv)
  then show ?thesis by (elim create_recovery_revision_Inr) (simp add: numbers_of_by)
next
  case (transferred ed who rid owner preparer rv)
  then show ?thesis by (elim transfer_report_ownership_Inr) (simp add: numbers_of_by)
next
  case (started rid iid ty owner who now rp)
  then show ?thesis using new_report_shell_Inr [OF started(1)] by simp
qed simp

interpretation report_store: revision_store report_step report_revisions rv_report_id rv_revision_number
  by unfold_locales (rule report_step_appends)

section \<open>Access agrees with ownership\<close>

lemma update_only:
  assumes "distinct (map key rows)" "find_row key k rows = Some r"
  shows "update_rows (\<lambda>x. key x = k) (\<lambda>_. y) rows = update_rows (\<lambda>x. x = r) (\<lambda>_. y) rows"
proof -
  have "(key x = k) = (x = r)" if "x \<in> set rows" for x
  proof
    assume "key x = k"
    then show "x = r" using find_row_distinct [OF assms(1) that] assms(2) by simp
  qed (use find_row_SomeD [OF assms(2)] in simp)
  then show ?thesis unfolding update_rows_def by (intro map_cong) simp_all
qed

lemma distinct_map_update:
  assumes "distinct (map g rows)" "\<And>x. x \<in> set rows \<Longrightarrow> x \<noteq> r \<Longrightarrow> g x \<noteq> g y"
  shows "distinct (map g (update_rows (\<lambda>x. x = r) (\<lambda>_. y) rows))"
  using assms
proof (induction rows)
  case (Cons x rows)
  then have d: "distinct (map g (update_rows (\<lambda>x. x = r) (\<lambda>_. y) rows))" by simp
  have "g (if x = r then y else x) \<notin> set (map g (update_rows (\<lambda>x. x = r) (\<lambda>_. y) rows))"
  proof
    assume "g (if x = r then y else x) \<in> set (map g (update_rows (\<lambda>x. x = r) (\<lambda>_. y) rows))"
    then obtain z where z: "z \<in> set rows" "g (if x = r then y else x) = g (if z = r then y else z)"
      by (auto simp: set_update_rows)
    have "g z \<in> g ` set rows" "g x \<notin> g ` set rows" using Cons.prems(1) z(1) by simp_all
    then have "g z \<noteq> g x" by metis
    moreover have "g z \<noteq> g y" if "z \<noteq> r" using Cons.prems(2) z(1) that by simp
    moreover have "g x \<noteq> g y" if "x \<noteq> r" using Cons.prems(2) that by simp
    ultimately show False using z(2) by (cases "x = r"; cases "z = r") simp_all
  qed
  with d show ?case by simp
qed simp

lemma access_wf_update:
  assumes wf: "access_wf ws" and rp: "find_report rid ws = Some rp" and id: "rp_id rp' = rid"
    and rows: "reports ws' = update_rows (\<lambda>r. rp_id r = rid) (\<lambda>_. rp') (reports ws)"
    and slot: "report_slot rp' = report_slot rp \<or> \<not> report_slot_taken rp' (reports ws)"
    and keys: "distinct (map access_key (report_access ws'))"
      "ra_report_id ` set (report_access ws') \<subseteq> insert rid (ra_report_id ` set (report_access ws))"
    and others: "\<And>i. i \<noteq> rid \<Longrightarrow> live_access i (report_access ws') = live_access i (report_access ws)"
    and own: "live_access rid (report_access ws')
      = entitled (rp_reporting_staff_member_id rp') (rp_prepared_by_staff_member_id rp')"
  shows "access_wf ws'"
proof -
  have d: "distinct (map rp_id (reports ws))" using wf by (simp add: access_wf_def)
  have rows': "reports ws' = update_rows (\<lambda>r. r = rp) (\<lambda>_. rp') (reports ws)"
    unfolding rows by (rule update_only [OF d rp])
  have rp_in: "rp \<in> set (reports ws)" "rp_id rp = rid" using rp by (auto dest: find_row_SomeD)
  have ids: "map rp_id (reports ws') = map rp_id (reports ws)"
    unfolding rows' by (rule map_update_rows) (use rp_in id in simp)
  have other_id: "rp_id r \<noteq> rid" if "r \<in> set (reports ws)" "r \<noteq> rp" for r
    using d that rp_in by (auto simp: distinct_map inj_on_def)
  have slots: "distinct (map report_slot (reports ws))" using wf by (simp add: access_wf_def)
  have "distinct (map report_slot (reports ws'))"
    unfolding rows'
  proof (rule distinct_map_update [OF slots])
    fix r assume r: "r \<in> set (reports ws)" "r \<noteq> rp"
    show "report_slot r \<noteq> report_slot rp'"
    proof (cases "report_slot rp' = report_slot rp")
      case True
      with slots r rp_in show ?thesis by (auto simp: distinct_map inj_on_def)
    next
      case False
      then have "\<not> report_slot_taken rp' (reports ws)" using slot by simp
      with r other_id [OF r] id show ?thesis by (auto simp: report_slot_taken_def list_ex_iff report_slot_def)
    qed
  qed
  moreover have "ra_report_id ` set (report_access ws') \<subseteq> rp_id ` set (reports ws')"
  proof -
    have "rid \<in> rp_id ` set (reports ws)" using rp_in by auto
    with keys(2) wf show ?thesis using ids by (auto simp: access_wf_def simp flip: set_map)
  qed
  moreover have "live_access (rp_id r) (report_access ws')
      = entitled (rp_reporting_staff_member_id r) (rp_prepared_by_staff_member_id r)"
    if "r \<in> set (reports ws')" for r
  proof -
    have "r \<in> (\<lambda>x. if x = rp then rp' else x) ` set (reports ws)"
      using that by (simp add: rows' set_update_rows)
    then consider "r = rp'" | "r \<in> set (reports ws)" "r \<noteq> rp" by (auto split: if_splits)
    then show ?thesis
      by cases (use id own others other_id wf in \<open>auto simp: access_wf_def\<close>)
  qed
  ultimately show ?thesis using ids d keys(1) by (simp add: access_wf_def)
qed

lemma access_wf_keep:
  assumes wf: "access_wf ws" and rp: "find_report rid ws = Some rp" and id: "rp_id rp' = rid"
    and rows: "reports ws' = update_rows (\<lambda>r. rp_id r = rid) (\<lambda>_. rp') (reports ws)"
    and same: "report_slot rp' = report_slot rp"
      "rp_prepared_by_staff_member_id rp' = rp_prepared_by_staff_member_id rp"
    and acc: "report_access ws' = report_access ws"
  shows "access_wf ws'"
proof (rule access_wf_update [OF wf rp id rows])
  have "rp \<in> set (reports ws)" "rp_id rp = rid" using rp by (auto dest: find_row_SomeD)
  with wf show "live_access rid (report_access ws')
      = entitled (rp_reporting_staff_member_id rp') (rp_prepared_by_staff_member_id rp')"
    using same by (auto simp: access_wf_def acc report_slot_def)
qed (use wf same in \<open>auto simp: acc access_wf_def\<close>)

lemma access_wf_step:
  assumes "report_step ws ws'" "access_wf ws"
  shows "access_wf ws'"
  using assms(1)
proof cases
  case (saved E ed who rid content base reason rv)
  then show ?thesis
  proof (rule save_report_Inr, goal_cases)
    case (1 rp payload changed prov cols ev)
    have "rp_id rp = rid" using 1(1) by (auto dest: find_row_SomeD)
    then show ?case
      by (intro access_wf_keep [OF assms(2) 1(1), of "rp\<lparr>rp_current_content := payload, rp_current_revision_number := rv_revision_number rv, rp_updated_at := ed_now ed\<rparr>"])
        (simp_all add: 1(7,8) report_slot_def)
  qed
next
  case (status_saved ed who rid status base rv)
  then show ?thesis
  proof (rule save_report_status_Inr, goal_cases)
    case (1 rp st payload prov cols ev)
    have "rp_id rp = rid" using 1(1) by (auto dest: find_row_SomeD)
    then show ?case
      by (intro access_wf_keep [OF assms(2) 1(1), of "rp\<lparr>rp_status := st, rp_current_revision_number := rv_revision_number rv, rp_updated_at := ed_now ed, rp_archived_at := (if st = Archived then Some (ed_now ed) else None)\<rparr>"])
        (simp_all add: 1(6,7) report_slot_def)
  qed
next
  case (restored ed who rid n rv)
  then show ?thesis
  proof (rule restore_report_Inr, goal_cases)
    case (1 rp src payload prov cols ev)
    have "rp_id rp = rid" using 1(1) by (auto dest: find_row_SomeD)
    then show ?case
      by (intro access_wf_keep [OF assms(2) 1(1), of "rp\<lparr>rp_current_content := payload, rp_current_revision_number := rv_revision_number rv, rp_updated_at := ed_now ed\<rparr>"])
        (simp_all add: 1(5,6) report_slot_def)
  qed
next
  case (recovered ed who rid content base rv)
  then show ?thesis
    by (elim create_recovery_revision_Inr) (use assms(2) in \<open>simp add: access_wf_def\<close>)
next
  case (transferred ed who rid owner preparer rv)
  then show ?thesis
  proof (rule transfer_report_ownership_Inr, goal_cases)
    case (1 rp p payload prov cols)
    have rid: "rp_id rp = rid" using 1(1) by (auto dest: find_row_SomeD)
    let ?rp = "rp\<lparr>rp_reporting_staff_member_id := owner, rp_prepared_by_staff_member_id := p,
       rp_current_revision_number := rv_revision_number rv, rp_updated_at := ed_now ed\<rparr>"
    show ?case
    proof (rule access_wf_update [OF assms(2) 1(1), of ?rp])
      show "report_slot ?rp = report_slot rp \<or> \<not> report_slot_taken ?rp (reports ws)"
        using 1(4) by (simp add: report_slot_taken_def)
    qed (use 1(7,9) rid assms(2) access_rows_of_transferred in
        \<open>simp_all add: transferred_access_distinct live_access_transferred access_wf_def\<close>)
  qed
next
  case (started rid iid ty owner who now rp)
  note new = new_report_shell_Inr [OF started(1)]
  let ?grants = "access_grants owner (staff_member_id who)"
  let ?row = "\<lambda>(staff, rel). \<lparr>ra_report_id = rid, ra_staff_member_id = staff, ra_relationship = rel,
           ra_granted_by_account_id = account_id who, ra_created_at = now, ra_revoked_at = None\<rparr>"
  have fresh: "rid \<notin> ra_report_id ` set (report_access ws)" using started(2) assms(2) by (auto simp: access_wf_def)
  have "report_slot r \<noteq> report_slot rp" if "r \<in> set (reports ws)" for r
  proof -
    have "rp_id r \<noteq> rid" using that started(2) by auto
    then show ?thesis using that new(1,6) by (auto simp: report_slot_taken_def report_slot_def list_ex_iff)
  qed
  then have "report_slot rp \<notin> report_slot ` set (reports ws)" by (metis imageE)
  then have "distinct (map report_slot (reports ws'))" using assms(2) by (simp add: new access_wf_def)
  moreover have "distinct (map access_key (report_access ws'))"
    using assms(2) fresh by (auto simp: new access_wf_def access_grants_def)
  moreover have live: "live_access i (map ?row ?grants) = (if i = rid then set ?grants else {})" for i
    by (auto simp: access_grants_def live_access_Cons)
  moreover have "live_access rid (report_access ws) = {}"
    using fresh by (auto simp: live_access_def)
  ultimately show ?thesis
    using assms(2) started(2) new(1)
    by (auto simp: access_wf_def new(4,5,7,9) live_access_append live access_grants_def entitled_def split: if_splits)
qed (use assms(2) in \<open>simp add: access_wf_def\<close>)

end
