(* ===== verification/ReportProperties.thy ===== *)
theory ReportProperties
  imports ReportInvariant
begin

text \<open>
  The properties of the report revisions: the decision of a save, the protection against lost
  updates, the history, access, and restoring.
\<close>

section \<open>When a save succeeds\<close>

lemma append_edit_ok:
  assumes "event_ok act kvs" "act \<noteq> ''system.initial_admin_bootstrapped''" "length (snd (metadata_of ed)) \<le> 64"
  shows "append_edit_audit who ed act ttype tid kvs ws = (Inr (), logged (edit_event who ed act ttype tid kvs) ws)"
  using assms
  by (simp add: append_edit_audit_def in_ident_def append_audit_def edit_event_def AuditEventInput_def event_ok_def
      validate_actor_attribution_def Let_def hash_length_ok_def logged_def)

lemma current_content_keys:
  assumes "history_wf ws" "find_report rid ws = Some rp"
  shows "set (obj_keys (rp_current_content rp))
    \<subseteq> {''schema_version'', ''narrative'', ''editable_fields'', ''validation'', ''warnings''}"
proof -
  have "current_matches rp (report_revisions ws)"
    using assms by (auto simp: history_wf_def dest: find_row_SomeD)
  then consider "rp_current_content rp = []"
    | rv where "rv \<in> set (report_revisions ws)" "rv_snapshot rv = rp_current_content rp"
    by (auto simp: current_matches_def split: if_splits)
  then show ?thesis
  proof cases
    case 2
    then have "validate_report_content (JObj (rp_current_content rp)) = Inr (rp_current_content rp)"
      using assms(1) by (auto simp: history_wf_def valid_revision_def)
    from report_content_keys [OF this] show ?thesis by simp
  qed simp
qed

lemma in_either: "k \<in> A \<union> B \<Longrightarrow> A \<subseteq> insert x S \<Longrightarrow> B = insert x S \<Longrightarrow> k \<noteq> x \<Longrightarrow> k \<in> S"
  by blast

lemma changed_names_of_report:
  assumes "history_wf ws" "find_report rid ws = Some rp" "validate_report_content v = Inr payload"
  shows "set (changed_field_names (rp_current_content rp) payload)
    \<subseteq> {''narrative'', ''editable_fields'', ''validation'', ''warnings''}"
proof
  fix k assume k: "k \<in> set (changed_field_names (rp_current_content rp) payload)"
  have a: "k \<in> set (obj_keys (rp_current_content rp)) \<union> set (obj_keys payload)"
    using k changed_field_names_sorted(3) by blast
  have b: "k \<noteq> ''schema_version''" using k by (simp add: changed_field_names_iff)
  have c: "set (obj_keys payload) = {''schema_version'', ''narrative'', ''editable_fields'', ''validation'', ''warnings''}"
    unfolding report_content_keys [OF assms(3)] by simp
  show "k \<in> {''narrative'', ''editable_fields'', ''validation'', ''warnings''}"
    by (rule in_either [OF a current_content_keys [OF assms(1,2)] c b])
qed

text \<open>What a call needs besides a report and valid content: a known editor and a bounded client version.\<close>

definition call_ok :: "edit_call \<Rightarrow> session_actor \<Rightarrow> uuid \<Rightarrow> 'w workspace_scheme \<Rightarrow> bool" where
  "call_ok ed who rid ws \<longleftrightarrow> find_staff (staff_member_id who) (ident ws) \<noteq> None
     \<and> length (snd (metadata_of ed)) \<le> 64
     \<and> int (length (numbers_of rid (report_revisions ws))) < MAX_AUDIT_NUMBER"

lemma save_report_ok:
  assumes wf: "history_wf ws" and rp: "find_report rid ws = Some rp" and call: "call_ok ed who rid ws"
    and base: "rp_current_revision_number rp = base" "0 \<le> base" and reason: "reason \<in> set REPORT_SAVE_REASONS"
    and content: "validate_report_content content = Inr payload"
  obtains rv ws' where "save_report E ed who rid content base reason ws = (Inr rv, ws')"
proof -
  from call obtain s where "find_staff (staff_member_id who) (ident ws) = Some s" by (auto simp: call_ok_def)
  then obtain prov where prov: "with_editor_snapshot who (ident ws) (ai_provenance E reason) = Inr prov"
    by (simp add: with_editor_snapshot_def editor_snapshot_def)
  let ?n = "next_revision_number (numbers_of rid (report_revisions ws))"
  let ?changed = "changed_field_names (rp_current_content rp) payload"
  have "?n = int (length (numbers_of rid (report_revisions ws))) + 1"
    using wf by (intro gapless_next) (simp add: history_wf_def)
  then have n: "0 \<le> ?n" "?n \<le> MAX_AUDIT_NUMBER" using call by (auto simp: call_ok_def)
  have ev: "event_ok ''report.saved'' [(''report_id'', JStr (uuid_str rid)), (''revision_number'', JInt ?n),
     (''changed_fields'', JArr (map JStr ?changed)), (''reason'', JStr reason)]"
    using reason by (intro report_saved_event changed_field_names_sorted(2) changed_names_of_report [OF wf rp content] n)
      (auto simp: REPORT_SAVE_REASONS_def)
  have cv: "length (snd (metadata_of ed)) \<le> 64" using call by (simp add: call_ok_def)
  show thesis
    using assms prov cv
    by (intro that) (simp add: save_report_def Let_def check_base_report_def validate_revision_number_def
        append_edit_ok [OF ev])
qed

lemma find_put_report:
  "find_report rid (put_report rp ws) = (if rp_id rp = rid then map_option (\<lambda>_. rp) (find_report rid ws) else find_report rid ws)"
  by (cases "find_report rid ws") (auto simp: find_update_rows dest!: find_row_SomeD)

lemma find_logged [simp]: "find_report rid (logged ev ws) = find_report rid ws"
  by simp

text \<open>
  C19. A save of valid content either appends the next revision and makes it the current one,
  when the caller started from the current revision, or raises a conflict that names the current
  revision and changes nothing. Revision numbers count the revisions of the report.
\<close>

theorem save_report_decision:
  assumes "history_wf ws" "find_report rid ws = Some rp" "call_ok ed who rid ws" "0 \<le> base"
    "reason \<in> set REPORT_SAVE_REASONS" "validate_report_content content = Inr payload"
  shows "if base = rp_current_revision_number rp
    then (\<exists>rv ws'. save_report E ed who rid content base reason ws = (Inr rv, ws')
        \<and> report_revisions ws' = report_revisions ws @ [rv] \<and> rv_snapshot rv = payload
        \<and> rv_revision_number rv = int (length (numbers_of rid (report_revisions ws))) + 1
        \<and> find_report rid ws' = Some (rp\<lparr>rp_current_content := payload,
             rp_current_revision_number := rv_revision_number rv, rp_updated_at := ed_now ed\<rparr>))
    else (\<exists>st at editor changed. save_report E ed who rid content base reason ws =
        (Inl (RevisionConflict (rp_current_revision_number rp) st at editor changed), ws))"
proof (cases "base = rp_current_revision_number rp")
  case True
  obtain rv ws' where run: "save_report E ed who rid content base reason ws = (Inr rv, ws')"
    by (rule save_report_ok [OF assms(1-3) True [symmetric] assms(4-6)])
  have rid: "rp_id rp = rid" using assms(2) by (auto dest: find_row_SomeD)
  have n: "next_revision_number (numbers_of rid (report_revisions ws)) = int (length (numbers_of rid (report_revisions ws))) + 1"
    using assms(1) by (intro gapless_next) (simp add: history_wf_def)
  from run show ?thesis
  proof (rule save_report_Inr, goal_cases)
    case (1 rp' payload' changed prov cols ev)
    then have same: "rp' = rp" "payload' = payload" using assms(2,6) by simp_all
    then have "report_revisions ws' = report_revisions ws @ [rv]" "rv_snapshot rv = payload"
      "rv_revision_number rv = int (length (numbers_of rid (report_revisions ws))) + 1"
      using 1(7,8) n by simp_all
    moreover have "find_report rid ws' = Some (rp\<lparr>rp_current_content := payload,
        rp_current_revision_number := rv_revision_number rv, rp_updated_at := ed_now ed\<rparr>)"
      using same rid assms(2) by (simp add: 1(8) find_update_rows)
    ultimately show ?case using run True by auto
  qed
next
  case False
  then show ?thesis
    using assms by (auto simp: save_report_def check_base_report_def validate_revision_number_def split: option.splits)
qed

section \<open>Lost updates\<close>

lemma history_wf_steps: "report_step\<^sup>*\<^sup>* ws ws' \<Longrightarrow> history_wf ws \<Longrightarrow> history_wf ws'"
  by (induction rule: rtranclp_induct) (auto intro: history_wf_step)

lemma current_below_next:
  assumes "history_wf ws" "find_report rid ws = Some rp"
  shows "rp_current_revision_number rp < next_revision_number (numbers_of rid (report_revisions ws))"
proof (cases "rp_current_revision_number rp = 0")
  case True
  then show ?thesis by (simp add: next_number_positive)
next
  case False
  have "rp \<in> set (reports ws)" "rp_id rp = rid" using assms(2) by (auto dest: find_row_SomeD)
  with assms(1) have "current_matches rp (report_revisions ws)" by (auto simp: history_wf_def)
  with False obtain rv where "rv \<in> set (report_revisions ws)" "rv_report_id rv = rid"
      "rv_revision_number rv = rp_current_revision_number rp"
    using \<open>rp_id rp = rid\<close> by (auto simp: current_matches_def)
  then have "rp_current_revision_number rp \<in> set (numbers_of rid (report_revisions ws))"
    by (auto simp: numbers_of_def intro!: image_eqI [of _ _ rv])
  then show ?thesis by (rule next_number_greater)
qed

lemma current_grows_step:
  assumes "report_step ws ws'" "history_wf ws" "find_report rid ws = Some rp"
  shows "\<exists>rp'. find_report rid ws' = Some rp' \<and> rp_current_revision_number rp \<le> rp_current_revision_number rp'"
  using report_step_appended [OF assms(1,2)]
proof (elim disjE exE conjE)
  fix rv q q' assume app: "appended rv q q' ws ws'"
  then have q: "find_report (rp_id q) ws = Some q" "rp_id q' = rp_id q"
    and rows: "reports ws' = update_rows (\<lambda>r. rp_id r = rp_id q) (\<lambda>_. q') (reports ws)"
    and num: "rp_current_revision_number q' = rv_revision_number rv \<or> q' = q"
      "rv_revision_number rv = next_revision_number (numbers_of (rp_id q) (report_revisions ws))"
    by (auto simp: appended_def)
  have "find_report rid ws' = Some (if rid = rp_id q then q' else rp)"
    using assms(3) q(2) by (auto simp: rows find_update_rows dest: find_row_SomeD)
  moreover have "rp_current_revision_number q < next_revision_number (numbers_of (rp_id q) (report_revisions ws))"
    by (rule current_below_next [OF assms(2) q(1)])
  ultimately show ?thesis using num q(1) assms(3) by auto
next
  fix q assume "reports ws' = reports ws @ [q]"
  with assms(3) show ?thesis by (simp add: find_row_append)
qed (use assms(3) in simp)

lemma current_grows:
  assumes "report_step\<^sup>*\<^sup>* ws ws'" "history_wf ws" "find_report rid ws = Some rp"
  shows "\<exists>rp'. find_report rid ws' = Some rp' \<and> rp_current_revision_number rp \<le> rp_current_revision_number rp'"
  using assms(1)
proof (induction rule: rtranclp_induct)
  case (step t u)
  then obtain q where q: "find_report rid t = Some q" "rp_current_revision_number rp \<le> rp_current_revision_number q"
    by blast
  from current_grows_step [OF step.hyps(2) history_wf_steps [OF step.hyps(1) assms(2)] q(1)] q(2)
  show ?case by force
qed (use assms(3) in simp)

lemma find_saved:
  assumes "save_report E ed who rid content base reason ws = (Inr rv, ws')"
  shows "\<exists>rp. find_report rid ws' = Some rp \<and> rp_current_revision_number rp = rv_revision_number rv
    \<and> rp_current_content rp = rv_snapshot rv"
  using assms
proof (rule save_report_Inr, goal_cases)
  case (1 rp payload changed prov cols ev)
  have "rp_id rp = rid" using 1(1) by (auto dest: find_row_SomeD)
  with 1(1,7) show ?case by (simp add: 1(8) find_update_rows)
qed

lemma stale_base_refused:
  assumes "find_report rid ws = Some rp" "rp_current_revision_number rp \<noteq> base"
  shows "\<not> is_ok (fst (save_report E ed who rid content base reason ws))"
  using assms by (cases "save_report E ed who rid content base reason ws"; cases "fst (save_report E ed who rid content base reason ws)")
    (auto elim: save_report_Inr)

text \<open>
  C20. No update is lost: once a save that started from a revision has gone through, no later
  save from that same revision succeeds, whoever makes it and whatever happened in between.
\<close>

theorem no_lost_update:
  assumes "save_report E ed who rid content base reason ws = (Inr rv, ws1)"
    and "history_wf ws" and "report_step\<^sup>*\<^sup>* ws1 ws2"
  shows "\<not> is_ok (fst (save_report E' ed' who' rid content' base reason' ws2))"
proof -
  have wf: "history_wf ws1" by (rule history_wf_step [OF report_step.saved [OF assms(1)] assms(2)])
  from assms(1) have less: "base < rv_revision_number rv"
  proof (rule save_report_Inr, goal_cases)
    case (1 rp payload changed prov cols ev)
    with current_below_next [OF assms(2) 1(1)] show ?case by simp
  qed
  obtain rp where "find_report rid ws1 = Some rp" "rp_current_revision_number rp = rv_revision_number rv"
    using find_saved [OF assms(1)] by blast
  with current_grows [OF assms(3) wf] less
  obtain rp' where "find_report rid ws2 = Some rp'" "base < rp_current_revision_number rp'" by force
  then show ?thesis by (intro stale_base_refused) auto
qed

section \<open>History\<close>

text \<open>
  C21. The history of the reports is kept: whatever is done, revisions are only ever appended,
  the revisions of each report stay numbered from one without a gap, every stored revision
  validates, and the content of a report is that of its current revision.
\<close>

theorem report_history_kept:
  assumes "report_step\<^sup>*\<^sup>* ws ws'" "history_wf ws"
  shows "(\<exists>new. report_revisions ws' = report_revisions ws @ new)
    \<and> (\<forall>i. numbers_of i (report_revisions ws') = [1..int (length (numbers_of i (report_revisions ws')))])
    \<and> (\<forall>rv \<in> set (report_revisions ws'). is_ok (validate_report_content (JObj (rv_snapshot rv))))
    \<and> (\<forall>rp \<in> set (reports ws'). rp_current_revision_number rp \<noteq> 0 \<longrightarrow>
         (\<exists>rv. find_report_revision (rp_id rp) (rp_current_revision_number rp) ws' = Some rv
            \<and> rv_snapshot rv = rp_current_content rp))"
proof (intro conjI ballI impI)
  have wf: "history_wf ws'" by (rule history_wf_steps [OF assms])
  then have gap: "\<forall>i. gapless (numbers_by rv_report_id rv_revision_number i (report_revisions ws'))"
    by (simp add: history_wf_def numbers_of_by)
  show "\<exists>new. report_revisions ws' = report_revisions ws @ new" by (rule report_store.history_kept [OF assms(1)])
  show "\<forall>i. numbers_of i (report_revisions ws') = [1..int (length (numbers_of i (report_revisions ws')))]"
    using gap by (simp add: gapless_def numbers_of_by)
  show "is_ok (validate_report_content (JObj (rv_snapshot rv)))" if "rv \<in> set (report_revisions ws')" for rv
    using wf that by (auto simp: history_wf_def valid_revision_def)
  fix rp assume rp: "rp \<in> set (reports ws')" "rp_current_revision_number rp \<noteq> 0"
  with wf obtain rv where rv: "rv \<in> set (report_revisions ws')" "rv_report_id rv = rp_id rp"
      "rv_revision_number rv = rp_current_revision_number rp" "rv_snapshot rv = rp_current_content rp"
    by (force simp: history_wf_def current_matches_def)
  have "find_report_revision (rp_id rp) (rp_current_revision_number rp) ws' = Some rv"
    using find_row_distinct [OF gapless_keys_distinct [OF gap] rv(1)] rv by simp
  with rv(4) show "\<exists>rv. find_report_revision (rp_id rp) (rp_current_revision_number rp) ws' = Some rv
      \<and> rv_snapshot rv = rp_current_content rp" by blast
qed

section \<open>Access\<close>

text \<open>
  C22. At every moment the staff with live access to a report are exactly its owner and, if it
  is somebody else, its preparer, each with that relationship. A transfer makes the new owner
  the reporting member of staff, keeps the preparer unless another one is named, and ends the
  access of everyone who is neither.
\<close>

theorem access_follows_ownership:
  assumes "report_step\<^sup>*\<^sup>* ws ws'" "access_wf ws" "rp \<in> set (reports ws')"
  shows "live_access (rp_id rp) (report_access ws')
      = {(rp_reporting_staff_member_id rp, Owner)}
        \<union> (if rp_prepared_by_staff_member_id rp \<noteq> rp_reporting_staff_member_id rp
           then {(rp_prepared_by_staff_member_id rp, Preparer)} else {})
    \<and> (transfer_report_ownership ed who (rp_id rp) owner new_preparer ws' = (Inr rv, ws'') \<longrightarrow>
        (let preparer = (case new_preparer of None \<Rightarrow> rp_prepared_by_staff_member_id rp | Some p \<Rightarrow> p) in
          live_access (rp_id rp) (report_access ws'')
            = {(owner, Owner)} \<union> (if preparer \<noteq> owner then {(preparer, Preparer)} else {})
          \<and> (\<exists>rp2. find_report (rp_id rp) ws'' = Some rp2 \<and> rp_reporting_staff_member_id rp2 = owner
               \<and> rp_prepared_by_staff_member_id rp2 = preparer)))"
proof (intro conjI impI)
  have wf: "access_wf ws'" using assms(1,2) by (induction rule: rtranclp_induct) (auto intro: access_wf_step)
  with assms(3) show "live_access (rp_id rp) (report_access ws')
      = {(rp_reporting_staff_member_id rp, Owner)}
        \<union> (if rp_prepared_by_staff_member_id rp \<noteq> rp_reporting_staff_member_id rp
           then {(rp_prepared_by_staff_member_id rp, Preparer)} else {})"
    by (simp add: access_wf_def entitled_def)
  have found: "find_report (rp_id rp) ws' = Some rp"
    using wf assms(3) by (intro find_row_distinct) (simp_all add: access_wf_def)
  assume "transfer_report_ownership ed who (rp_id rp) owner new_preparer ws' = (Inr rv, ws'')"
  then show "let preparer = (case new_preparer of None \<Rightarrow> rp_prepared_by_staff_member_id rp | Some p \<Rightarrow> p) in
      live_access (rp_id rp) (report_access ws'')
        = {(owner, Owner)} \<union> (if preparer \<noteq> owner then {(preparer, Preparer)} else {})
      \<and> (\<exists>rp2. find_report (rp_id rp) ws'' = Some rp2 \<and> rp_reporting_staff_member_id rp2 = owner
           \<and> rp_prepared_by_staff_member_id rp2 = preparer)"
  proof (rule transfer_report_ownership_Inr, goal_cases)
    case (1 q p payload prov cols)
    with found have "q = rp" by simp
    then have p: "(case new_preparer of None \<Rightarrow> rp_prepared_by_staff_member_id rp | Some p \<Rightarrow> p) = p"
      using 1(2) by (simp only:)
    show ?case
      using \<open>q = rp\<close> 1(7,9) found unfolding Let_def p
      by (simp add: live_access_transferred entitled_def find_update_rows)
  qed
qed

section \<open>Restoring\<close>

text \<open>
  C23. A restore brings back exactly the content that the report had at the revision it names,
  however much has happened since, as a new revision on top of the history; status, owner and
  preparer stay as they are.
\<close>

theorem restore_brings_back:
  assumes "history_wf ws" "find_report rid ws = Some rp" "rp_current_revision_number rp \<noteq> 0"
    and "report_step\<^sup>*\<^sup>* ws ws1"
    and "restore_report ed who rid (rp_current_revision_number rp) ws1 = (Inr rv, ws2)"
  shows "\<exists>rp1 rp2. find_report rid ws1 = Some rp1 \<and> find_report rid ws2 = Some rp2
    \<and> rp_current_content rp2 = rp_current_content rp \<and> rp_status rp2 = rp_status rp1
    \<and> rp_reporting_staff_member_id rp2 = rp_reporting_staff_member_id rp1
    \<and> rp_prepared_by_staff_member_id rp2 = rp_prepared_by_staff_member_id rp1
    \<and> rp_current_revision_number rp1 < rp_current_revision_number rp2
    \<and> report_revisions ws2 = report_revisions ws1 @ [rv]"
proof -
  have wf1: "history_wf ws1" by (rule history_wf_steps [OF assms(4,1)])
  have gap: "\<forall>i. gapless (numbers_by rv_report_id rv_revision_number i (report_revisions ws))"
    using assms(1) by (simp add: history_wf_def numbers_of_by)
  have "rp \<in> set (reports ws)" "rp_id rp = rid" using assms(2) by (auto dest: find_row_SomeD)
  with assms(1,3) obtain r where r: "r \<in> set (report_revisions ws)" "rv_report_id r = rid"
      "rv_revision_number r = rp_current_revision_number rp" "rv_snapshot r = rp_current_content rp"
    by (force simp: history_wf_def current_matches_def)
  then have "find_report_revision rid (rp_current_revision_number rp) ws = Some r"
    using find_row_distinct [OF gapless_keys_distinct [OF gap] r(1)] by simp
  then have src: "find_report_revision rid (rp_current_revision_number rp) ws1 = Some r"
    by (rule report_store.find_kept [OF assms(4)])
  have valid: "validate_report_content (JObj (rv_snapshot r)) = Inr (rv_snapshot r)"
    using assms(1) r(1) by (auto simp: history_wf_def valid_revision_def)
  from assms(5) show ?thesis
  proof (rule restore_report_Inr, goal_cases)
    case (1 q src' payload prov cols ev)
    have "rp_id q = rid" using 1(1) by (auto dest: find_row_SomeD)
    moreover have "payload = rp_current_content rp" using 1(3,4) src valid r(4) by simp
    moreover have "rp_current_revision_number q < rv_revision_number rv"
      using current_below_next [OF wf1 1(1)] 1(5) by simp
    ultimately show ?case using 1(1) by (simp add: 1(6) find_update_rows)
  qed
qed

section \<open>An example\<close>

definition example_env :: provenance_env where
  "example_env = \<lparr>FAST_MODEL = ''fast'', PRO_MODEL = ''pro'', MODEL_LOCATION = ''us'',
     file_sha256 = (\<lambda>f. f), getenv = (\<lambda>_. None)\<rparr>"

definition example_call :: edit_call where
  "example_call = \<lparr>ed_request_id = Some ''r1'', ed_client_version = Some ''1.2.0'', ed_uuid = 50,
     ed_revision_id = 51, ed_now = 100\<rparr>"

definition officer :: session_actor where
  "officer = \<lparr>account_id = 2, staff_member_id = 1, session_id = 3, actor_role = User,
     actor_auth_version = 1, must_change_pin = False\<rparr>"

definition example_revision :: report_revision where
  "example_revision = \<lparr>rv_id = 20, rv_report_id = 10, rv_revision_number = 1, rv_editor_account_id = 2,
     rv_editor_staff_member_id = 1, rv_snapshot = example_payload, rv_changed_fields = [],
     rv_reason = ''ai_result'', rv_provenance = [], rv_provenance_columns = [],
     rv_source_incident_revision_id = None, rv_source_ai_job_id = None, rv_client_version = ''1.2.0'',
     rv_request_id = ''r0'', rv_created_at = 5\<rparr>"

definition example_report :: report where
  "example_report = \<lparr>rp_id = 10, rp_incident_id = 30, rp_report_type = First_Person,
     rp_reporting_staff_member_id = 1, rp_prepared_by_staff_member_id = 4, rp_created_by_account_id = 2,
     rp_status = In_Progress, rp_current_revision_number = 1, rp_current_content = example_payload,
     rp_created_at = 5, rp_updated_at = 5, rp_archived_at = None\<rparr>"

definition example_workspace :: workspace where
  "example_workspace = \<lparr>ident = example_db\<lparr>staff_members := [example_staff, example_staff\<lparr>st_id := 4, st_employee_number := ''E-104''\<rparr>]\<rparr>,
     incidents = [], incident_revisions = [], reports = [example_report],
     report_access = [\<lparr>ra_report_id = 10, ra_staff_member_id = 1, ra_relationship = Owner,
         ra_granted_by_account_id = 2, ra_created_at = 5, ra_revoked_at = None\<rparr>,
       \<lparr>ra_report_id = 10, ra_staff_member_id = 4, ra_relationship = Preparer,
         ra_granted_by_account_id = 2, ra_created_at = 5, ra_revoked_at = None\<rparr>],
     report_revisions = [example_revision]\<rparr>"

lemma example_history_wf: "history_wf example_workspace"
proof -
  have "validate_report_content (JObj example_payload) = Inr example_payload"
    using report_content_stable [OF example_content_ok] .
  then show ?thesis
    by (simp add: history_wf_def example_workspace_def example_report_def example_revision_def
        current_matches_def valid_revision_def numbers_of_def gapless_def)
qed

lemma example_access_wf: "access_wf example_workspace"
  by (auto simp: access_wf_def example_workspace_def example_report_def live_access_Cons entitled_def)

lemma example_call_ok: "call_ok example_call officer 10 example_workspace"
  by (simp add: call_ok_def example_workspace_def example_staff_def officer_def metadata_of_def or_default_def
      example_call_def numbers_of_def MAX_AUDIT_NUMBER_def)

lemma example_found: "find_report 10 example_workspace = Some example_report"
  by (simp add: example_workspace_def example_report_def)

lemma example_save:
  obtains rv ws1 where "save_report example_env example_call officer 10 example_content 1 ''autosave'' example_workspace = (Inr rv, ws1)"
  using save_report_ok [OF example_history_wf example_found example_call_ok, of 1 "''autosave''" example_content example_payload example_env]
    example_content_ok by (auto simp: example_report_def REPORT_SAVE_REASONS_def)

lemma save_report_decision_witness:
  "\<exists>rv ws'. save_report example_env example_call officer 10 example_content 1 ''autosave'' example_workspace = (Inr rv, ws')
     \<and> rv_revision_number rv = 2"
proof -
  have n: "numbers_of 10 (report_revisions example_workspace) = [1]" "rp_current_revision_number example_report = 1"
    by (simp_all add: numbers_of_def example_workspace_def example_revision_def example_report_def)
  show ?thesis
    using save_report_decision [OF example_history_wf example_found example_call_ok _ _ example_content_ok, of 1 "''autosave''" example_env] n
    by (auto simp: REPORT_SAVE_REASONS_def)
qed

lemma no_lost_update_witness:
  "\<exists>rv ws1. save_report example_env example_call officer 10 example_content 1 ''autosave'' example_workspace = (Inr rv, ws1)
     \<and> \<not> is_ok (fst (save_report example_env example_call officer 10 example_content 1 ''manual_save'' ws1))"
proof -
  obtain rv ws1 where run: "save_report example_env example_call officer 10 example_content 1 ''autosave'' example_workspace = (Inr rv, ws1)"
    by (rule example_save)
  with no_lost_update [OF run example_history_wf rtranclp.rtrancl_refl] show ?thesis by blast
qed

lemma report_history_kept_witness:
  "\<exists>rv ws1. save_report example_env example_call officer 10 example_content 1 ''autosave'' example_workspace = (Inr rv, ws1)
     \<and> (\<exists>new. report_revisions ws1 = report_revisions example_workspace @ new)"
proof -
  obtain rv ws1 where run: "save_report example_env example_call officer 10 example_content 1 ''autosave'' example_workspace = (Inr rv, ws1)"
    by (rule example_save)
  with report_history_kept [OF r_into_rtranclp [of report_step, OF saved [OF run]] example_history_wf] show ?thesis by blast
qed

lemma transferred_event:
  "event_ok ''report.ownership_transferred'' [(''report_id'', JStr (uuid_str u)),
     (''old_owner_staff_id'', JStr (uuid_str v)), (''new_owner_staff_id'', JStr (uuid_str w))]"
proof -
  have "map_of AUDIT_ACTION_FIELDS ''report.ownership_transferred''
      = Some [''report_id'', ''old_owner_staff_id'', ''new_owner_staff_id'']"
    "takes_uuid ''report.ownership_transferred'' ''report_id''"
    "takes_uuid ''report.ownership_transferred'' ''old_owner_staff_id''"
    "takes_uuid ''report.ownership_transferred'' ''new_owner_staff_id''"
    by code_simp+
  then show ?thesis by (intro event_okI) (auto intro: detail_ok_uuid)
qed

lemma access_follows_ownership_witness:
  "\<exists>rv ws''. transfer_report_ownership example_call officer 10 4 None example_workspace = (Inr rv, ws'')
     \<and> live_access 10 (report_access example_workspace) = {(1, Owner), (4, Preparer)}
     \<and> live_access 10 (report_access ws'') = {(4, Owner)}"
proof -
  have valid: "validate_report_content (JObj example_payload) = Inr example_payload"
    using report_content_stable [OF example_content_ok] .
  have cv: "length (snd (metadata_of example_call)) \<le> 64" using example_call_ok by (simp add: call_ok_def)
  obtain rv ws'' where run: "transfer_report_ownership example_call officer 10 4 None example_workspace = (Inr rv, ws'')"
    using valid
    by (auto simp: append_edit_ok [OF transferred_event _ cv] transfer_report_ownership_def example_workspace_def example_report_def example_staff_def
        all_active_def report_slot_taken_def with_editor_snapshot_def editor_snapshot_def officer_def Let_def)
  have "example_report \<in> set (reports example_workspace)" by (simp add: example_workspace_def)
  from access_follows_ownership [OF rtranclp.rtrancl_refl example_access_wf this, of example_call officer 4 None rv ws''] run
  show ?thesis by (simp add: example_report_def insert_commute)
qed

lemma restore_report_ok:
  assumes wf: "history_wf ws" and rp: "find_report rid ws = Some rp" and call: "call_ok ed who rid ws"
    and src: "find_report_revision rid n ws = Some src" and n: "0 \<le> n" "n \<le> MAX_AUDIT_NUMBER"
  obtains rv ws' where "restore_report ed who rid n ws = (Inr rv, ws')"
proof -
  from call obtain s where "find_staff (staff_member_id who) (ident ws) = Some s" by (auto simp: call_ok_def)
  then obtain prov where prov: "with_editor_snapshot who (ident ws) (source_revision_provenance (rv_provenance src) n) = Inr prov"
    by (simp add: with_editor_snapshot_def editor_snapshot_def)
  have valid: "validate_report_content (JObj (rv_snapshot src)) = Inr (rv_snapshot src)"
    using wf find_row_SomeD [OF src] by (auto simp: history_wf_def valid_revision_def)
  let ?n = "next_revision_number (numbers_of rid (report_revisions ws))"
  have "?n = int (length (numbers_of rid (report_revisions ws))) + 1"
    using wf by (intro gapless_next) (simp add: history_wf_def)
  then have ev: "event_ok ''report.restored'' [(''report_id'', JStr (uuid_str rid)), (''revision_number'', JInt ?n),
     (''source_revision_number'', JInt n)]"
    using call n by (intro report_restored_event) (auto simp: call_ok_def)
  have cv: "length (snd (metadata_of ed)) \<le> 64" using call by (simp add: call_ok_def)
  show thesis
    using rp src prov cv n valid
    by (intro that) (simp add: restore_report_def Let_def validate_revision_number_def append_edit_ok [OF ev])
qed

lemma restore_brings_back_witness:
  "\<exists>rv ws2 rp2. restore_report example_call officer 10 1 example_workspace = (Inr rv, ws2)
     \<and> find_report 10 ws2 = Some rp2 \<and> rp_current_content rp2 = example_payload"
proof -
  have src: "find_report_revision 10 1 example_workspace = Some example_revision"
    by (simp add: example_workspace_def example_revision_def)
  obtain rv ws2 where run: "restore_report example_call officer 10 1 example_workspace = (Inr rv, ws2)"
    by (rule restore_report_ok [OF example_history_wf example_found example_call_ok src]) (simp_all add: MAX_AUDIT_NUMBER_def)
  have cur: "rp_current_revision_number example_report = 1" "rp_current_content example_report = example_payload"
    by (simp_all add: example_report_def)
  from restore_brings_back [OF example_history_wf example_found _ rtranclp.rtrancl_refl, of example_call officer rv ws2] run cur
  show ?thesis by auto
qed

end
