(* ===== verification/IncidentRecords.thy ===== *)
theory IncidentRecords
  imports ReportProperties
begin

text \<open>
  The incident operations of \<open>src/backend/reports/persistence.py\<close>: who may see an incident, the
  selection of reporting staff that travels with its revisions as trusted metadata, and the
  keyed writes create, save and restore. A keyed write claims its idempotency key, runs, and
  records a reference to its response, all in the caller's transaction.
\<close>

section \<open>UUIDs of a request\<close>

text \<open>
  \<open>UUID(text)\<close>: braces and dashes are dropped, 32 hexadecimal digits must remain, in either
  case. The further spellings \<open>int(_, 16)\<close> lets through (a sign, underscores, a prefix) are not
  modelled.
\<close>

definition parse_uuid :: "string \<Rightarrow> uuid option" where
  "parse_uuid s =
     (let braces = (\<lambda>c. c = CHR ''{'' \<or> c = CHR ''}'');
          inner = rev (dropWhile braces (rev (dropWhile braces s)));
          h = lower (filter (\<lambda>c. c \<noteq> CHR ''-'') inner)
      in if length h = 32 \<and> list_all is_hex_lower h then Some (word_of_nat (hex_nat h)) else None)"

section \<open>The request documents\<close>

fun nonneg_field :: "json \<Rightarrow> json result" where
  "nonneg_field (JInt i) = accept (0 \<le> i) (JInt i)"
| "nonneg_field _ = Inl ValidationError"

fun literal_field :: "string list \<Rightarrow> json \<Rightarrow> json result" where
  "literal_field names (JStr s) = accept (s \<in> set names) (JStr s)"
| "literal_field _ _ = Inl ValidationError"

definition save_request_fields :: "field list" where
  "save_request_fields = [(''base_revision_number'', Some (JInt 0), nonneg_field),
     (''reason'', Some (JStr ''manual_save''), literal_field [''autosave'', ''manual_save''])]"

text \<open>\<open>SaveIncidentRequest\<close>: the content, the base revision and the reason.\<close>

definition SaveIncidentRequest :: "date_parsers \<Rightarrow> json \<Rightarrow> dict result" where
  "SaveIncidentRequest P v = validate_model (incident_fields P @ save_request_fields) v"

fun int_of :: "json option \<Rightarrow> int" where
  "int_of (Some (JInt i)) = i"
| "int_of _ = 0"

definition str_of :: "json option \<Rightarrow> string" where
  "str_of v = (case v of Some j \<Rightarrow> text_of j | None \<Rightarrow> [])"

definition request_content :: "dict \<Rightarrow> dict" where
  "request_content kvs = filter (\<lambda>(k, v). k \<notin> {''base_revision_number'', ''reason''}) kvs"

section \<open>The selection of reporting staff\<close>

definition MAX_REPORTING_STAFF :: nat where "MAX_REPORTING_STAFF = 20"

fun normalize_values :: "json list \<Rightarrow> uuid list \<Rightarrow> uuid list result" where
  "normalize_values [] seen = Inr seen"
| "normalize_values (JStr s # vs) seen =
     (case parse_uuid s of
        None \<Rightarrow> Inl (ValueError ''reporting_staff_ids must contain staff UUIDs'')
      | Some u \<Rightarrow> normalize_values vs (if u \<in> set seen then seen else seen @ [u]))"
| "normalize_values (_ # vs) seen = Inl (ValueError ''reporting_staff_ids must contain staff UUIDs'')"

fun normalize_selection :: "json \<Rightarrow> uuid list result" where
  "normalize_selection (JArr vs) =
     (if length vs < 1 \<or> length vs > MAX_REPORTING_STAFF
      then Inl (ValueError ''reporting_staff_ids must contain 1 through 20 staff UUIDs'')
      else normalize_values vs [])"
| "normalize_selection _ = Inl (ValueError ''reporting_staff_ids must contain 1 through 20 staff UUIDs'')"

definition active_selection :: "uuid list \<Rightarrow> db \<Rightarrow> uuid list result" where
  "active_selection ids db =
     (if all_active ids db then Inr ids
      else Inl (ValueError ''Every reporting staff ID must identify active staff.''))"

definition server_snapshot :: "dict \<Rightarrow> uuid list \<Rightarrow> dict" where
  "server_snapshot content ids = AList.update ''server_metadata''
     (JObj [(''reporting_staff_ids'', JArr (map (\<lambda>u. JStr (uuid_str u)) ids))]) content"

fun selection_values :: "json list \<Rightarrow> uuid list result" where
  "selection_values [] = Inr []"
| "selection_values (JStr s # vs) =
     (case parse_uuid s of
        None \<Rightarrow> Inl (RuntimeError ''incident server metadata is invalid'')
      | Some u \<Rightarrow> bind_result (selection_values vs) (\<lambda>us. Inr (u # us)))"
| "selection_values (JNull # vs) = Inl (RuntimeError ''incident server metadata is invalid'')"
| "selection_values (_ # vs) = Inl AttributeError"

definition selection_from_snapshot :: "dict \<Rightarrow> uuid list result" where
  "selection_from_snapshot snap =
     (case obj_get ''server_metadata'' snap of
        Some (JObj meta) \<Rightarrow>
          (case obj_get ''reporting_staff_ids'' meta of
             None \<Rightarrow> Inr []
           | Some (JArr vs) \<Rightarrow> selection_values vs
           | Some _ \<Rightarrow> Inl (RuntimeError ''incident server metadata is invalid''))
      | _ \<Rightarrow> Inr [])"

definition content_from_snapshot :: "date_parsers \<Rightarrow> dict \<Rightarrow> dict result" where
  "content_from_snapshot P snap =
     validate_incident_content P (JObj (filter (\<lambda>(k, v). k \<notin> {''server_metadata'', ''provenance''}) snap))"

section \<open>Reading an incident\<close>

record incident_view =
  iv_incident :: incident
  iv_reporting_staff_ids :: "uuid list"
  iv_revision_number :: "int option"
  iv_status :: "string option"
  iv_content :: "dict option"
  iv_updated_at :: "time option"

definition latest_revision :: "uuid \<Rightarrow> 'w workspace_scheme \<Rightarrow> incident_revision result" where
  "latest_revision iid ws =
     (case rev (sort_key ir_revision_number
         (filter (\<lambda>r. ir_incident_id r = iid) (incident_revisions ws))) of
        [] \<Rightarrow> Inl IncidentNotFound
      | r # _ \<Rightarrow> Inr r)"

definition can_access_incident :: "session_actor \<Rightarrow> incident \<Rightarrow> uuid list \<Rightarrow> 'w workspace_scheme \<Rightarrow> bool" where
  "can_access_incident who inc ids ws \<longleftrightarrow>
     actor_role who = Admin \<or> staff_member_id who = in_created_by_staff_member_id inc
     \<or> staff_member_id who \<in> set ids
     \<or> list_ex (\<lambda>a. ra_staff_member_id a = staff_member_id who \<and> ra_revoked_at a = None
          \<and> list_ex (\<lambda>r. rp_id r = ra_report_id a \<and> rp_incident_id r = in_id inc) (reports ws))
         (report_access ws)"

definition get_incident :: "session_actor \<Rightarrow> uuid \<Rightarrow> 'w workspace_scheme \<Rightarrow> incident_view result" where
  "get_incident who iid ws =
     (case find_incident iid ws of None \<Rightarrow> Inl IncidentNotFound | Some inc \<Rightarrow>
        bind_result (latest_revision iid ws) (\<lambda>r.
        bind_result (selection_from_snapshot (ir_snapshot r)) (\<lambda>ids.
          if \<not> can_access_incident who inc ids ws then Inl IncidentNotFound
          else Inr \<lparr>iv_incident = inc, iv_reporting_staff_ids = ids, iv_revision_number = None,
                 iv_status = None, iv_content = None, iv_updated_at = None\<rparr>)))"

definition get_incident_revision ::
  "session_actor \<Rightarrow> uuid \<Rightarrow> int \<Rightarrow> 'w workspace_scheme \<Rightarrow> incident_revision result" where
  "get_incident_revision who iid n ws =
     bind_result (get_incident who iid ws) (\<lambda>_.
       case find_incident_revision iid n ws of
         None \<Rightarrow> Inl IncidentRevisionNotFound | Some r \<Rightarrow> Inr r)"

section \<open>References\<close>

definition incident_reference :: "incident_view \<Rightarrow> json" where
  "incident_reference view = JObj
     [(''incident_id'', JStr (uuid_str (in_id (iv_incident view)))),
      (''revision_number'', JInt (case iv_revision_number view of
         None \<Rightarrow> in_current_revision_number (iv_incident view)
       | Some n \<Rightarrow> if n = 0 then in_current_revision_number (iv_incident view) else n)),
      (''reporting_staff_ids'', JArr (map (\<lambda>u. JStr (uuid_str u)) (iv_reporting_staff_ids view))),
      (''status'', JStr (or_default (iv_status view) (report_status_text (in_status (iv_incident view)))))]"

abbreviation invalid_reference :: exn where
  "invalid_reference \<equiv> RuntimeError ''idempotency reference is invalid''"

text \<open>
  The values of a stored reference, as the operations record them: \<open>UUID(str(value))\<close> of an
  identifier, \<open>int(value)\<close> of a number.
\<close>

definition reference_uuid :: "string \<Rightarrow> dict \<Rightarrow> uuid option" where
  "reference_uuid k ref = (case obj_get k ref of Some (JStr s) \<Rightarrow> parse_uuid s | _ \<Rightarrow> None)"

definition reference_int :: "string \<Rightarrow> dict \<Rightarrow> int option" where
  "reference_int k ref = (case obj_get k ref of Some (JInt i) \<Rightarrow> Some i | _ \<Rightarrow> None)"

definition reference_uuids :: "string \<Rightarrow> dict \<Rightarrow> uuid list option" where
  "reference_uuids k ref = (case obj_get k ref of
     Some (JArr vs) \<Rightarrow> (case selection_values vs of Inl _ \<Rightarrow> None | Inr us \<Rightarrow> Some us) | _ \<Rightarrow> None)"

definition reference_str :: "string \<Rightarrow> dict \<Rightarrow> string option" where
  "reference_str k ref = (case obj_get k ref of Some (JStr s) \<Rightarrow> Some s | _ \<Rightarrow> None)"

definition view_from_reference :: "date_parsers \<Rightarrow> dict \<Rightarrow> 'w workspace_scheme \<Rightarrow> incident_view result" where
  "view_from_reference P ref ws =
     (case (reference_uuid ''incident_id'' ref, reference_int ''revision_number'' ref,
            reference_uuids ''reporting_staff_ids'' ref, reference_str ''status'' ref) of
        (Some iid, Some n, Some ids, Some status) \<Rightarrow>
          (case (find_incident iid ws, find_incident_revision iid n ws) of
             (Some inc, Some r) \<Rightarrow>
               bind_result (content_from_snapshot P (ir_snapshot r)) (\<lambda>content.
                 Inr \<lparr>iv_incident = inc, iv_reporting_staff_ids = ids, iv_revision_number = Some n,
                   iv_status = Some status, iv_content = Some content, iv_updated_at = Some (ir_created_at r)\<rparr>)
           | _ \<Rightarrow> Inl invalid_reference)
      | _ \<Rightarrow> Inl invalid_reference)"

section \<open>Keyed writes\<close>

text \<open>What surrounds a keyed write, and the identifiers it draws.\<close>

record record_call =
  rc_request_id :: string
  rc_client_version :: string
  rc_now :: time
  rc_claim_id :: uuid
  rc_row_id :: uuid
  rc_revision_id :: uuid

definition edit_call_of :: "record_call \<Rightarrow> edit_call" where
  "edit_call_of rc = \<lparr>ed_request_id = Some (rc_request_id rc), ed_client_version = Some (rc_client_version rc),
     ed_uuid = rc_row_id rc, ed_revision_id = rc_revision_id rc, ed_now = rc_now rc\<rparr>"

text \<open>
  The frame of every keyed write: claim the key, answer a repetition from the stored reference,
  or run and store the status and the reference of the response.
\<close>

definition keyed_record ::
  "crypto \<Rightarrow> record_call \<Rightarrow> session_actor \<Rightarrow> string \<Rightarrow> string \<Rightarrow> json
   \<Rightarrow> (dict \<Rightarrow> 'w workspace_scheme \<Rightarrow> 'v result)
   \<Rightarrow> ('w workspace_scheme \<Rightarrow> ('v \<times> int \<times> json) result \<times> 'w workspace_scheme)
   \<Rightarrow> 'w workspace_scheme \<Rightarrow> 'v result \<times> 'w workspace_scheme" where
  "keyed_record C rc who key act canonical replay op ws =
     and_then (in_ident (claim_idempotency (account_id who) key act (request_digest C canonical)
         (rc_now rc) (rc_claim_id rc)) ws)
       (\<lambda>c ws1. if replayed c
          then (replay (case response_reference c of Some (JObj kvs) \<Rightarrow> kvs | _ \<Rightarrow> []) ws1, ws1)
          else and_then (op ws1) (\<lambda>(view, status, ref) ws2.
            and_then (in_ident (complete_idempotency c status ref (rc_now rc)) ws2)
              (\<lambda>_ ws3. (Inr view, ws3))))"

definition record_event :: "session_actor \<Rightarrow> record_call \<Rightarrow> string \<Rightarrow> uuid \<Rightarrow> dict \<Rightarrow> audit_event" where
  "record_event who rc act iid kvs =
     (AuditEventInput (Some (account_id who)) (Some (staff_member_id who)) act Success (rc_request_id rc)
       ''incident'' (Some iid) kvs)\<lparr>client_version := Some (rc_client_version rc)\<rparr>"

definition append_record_audit ::
  "session_actor \<Rightarrow> record_call \<Rightarrow> string \<Rightarrow> uuid \<Rightarrow> dict \<Rightarrow> 'w workspace_scheme
   \<Rightarrow> unit result \<times> 'w workspace_scheme" where
  "append_record_audit who rc act iid kvs = in_ident (append_audit (record_event who rc act iid kvs))"

definition new_incident_revision ::
  "session_actor \<Rightarrow> record_call \<Rightarrow> uuid \<Rightarrow> int \<Rightarrow> dict \<Rightarrow> string list \<Rightarrow> string \<Rightarrow> incident_revision" where
  "new_incident_revision who rc iid n snap changed reason =
     \<lparr>ir_id = rc_revision_id rc, ir_incident_id = iid, ir_revision_number = n,
      ir_editor_account_id = account_id who, ir_editor_staff_member_id = staff_member_id who,
      ir_snapshot = snap, ir_changed_fields = changed, ir_reason = reason,
      ir_client_version = rc_client_version rc, ir_request_id = rc_request_id rc,
      ir_created_at = rc_now rc\<rparr>"

definition incident_view_of :: "incident \<Rightarrow> uuid list \<Rightarrow> int \<Rightarrow> dict \<Rightarrow> time \<Rightarrow> incident_view" where
  "incident_view_of inc ids n content now =
     \<lparr>iv_incident = inc, iv_reporting_staff_ids = ids, iv_revision_number = Some n,
      iv_status = Some (report_status_text (in_status inc)), iv_content = Some content,
      iv_updated_at = Some now\<rparr>"

text \<open>\<open>bool(content.get(field))\<close>: the fields a new incident has been given.\<close>

fun truthy :: "json \<Rightarrow> bool" where
  "truthy JNull = False"
| "truthy (JBool b) = b"
| "truthy (JInt i) = (i \<noteq> 0)"
| "truthy (JFloat s) = (s \<notin> {''0.0'', ''-0.0''})"
| "truthy (JStr s) = (s \<noteq> [])"
| "truthy (JArr vs) = (vs \<noteq> [])"
| "truthy (JObj kvs) = (kvs \<noteq> [])"

definition truthy_at :: "dict \<Rightarrow> string \<Rightarrow> bool" where
  "truthy_at kvs k = (case obj_get k kvs of None \<Rightarrow> False | Some v \<Rightarrow> truthy v)"

definition insert_incident ::
  "session_actor \<Rightarrow> record_call \<Rightarrow> uuid list \<Rightarrow> dict \<Rightarrow> 'w workspace_scheme
   \<Rightarrow> (incident_view \<times> int \<times> json) result \<times> 'w workspace_scheme" where
  "insert_incident who rc selection content ws =
     (case active_selection selection (ident ws) of
        Inl e \<Rightarrow> (Inl e, ws)
      | Inr ids \<Rightarrow>
          let inc = apply_incident_snapshot content
                \<lparr>in_id = rc_row_id rc, in_created_by_account_id = account_id who,
                 in_created_by_staff_member_id = staff_member_id who, in_status = In_Progress,
                 in_current_revision_number = 1, in_content = [], in_created_at = rc_now rc,
                 in_updated_at = rc_now rc, in_archived_at = None\<rparr>;
              rv = new_incident_revision who rc (in_id inc) 1 (server_snapshot content ids)
                (filter (truthy_at content) [''incident_number'', ''incident_name'', ''field_notes''])
                ''manual_save'';
              ws1 = ws\<lparr>incidents := incidents ws @ [inc], incident_revisions := incident_revisions ws @ [rv]\<rparr>;
              view = incident_view_of inc ids 1 content (rc_now rc)
          in if number_taken inc (incidents ws)
             then (Inl (IntegrityError ''uq_incidents_incident_number''), ws1)
             else and_then (append_record_audit who rc ''incident.created'' (in_id inc)
                    [(''incident_id'', JStr (uuid_str (in_id inc)))] ws1)
                  (\<lambda>_ ws2. (Inr (view, 201, incident_reference view), ws2)))"

definition create_incident ::
  "crypto \<Rightarrow> date_parsers \<Rightarrow> session_actor \<Rightarrow> record_call \<Rightarrow> json \<Rightarrow> json \<Rightarrow> string
   \<Rightarrow> 'w workspace_scheme \<Rightarrow> incident_view result \<times> 'w workspace_scheme" where
  "create_incident C P who rc staff_ids request key ws =
     (case bind_result (SaveIncidentRequest P request) (\<lambda>validated.
           if int_of (obj_get ''base_revision_number'' validated) \<noteq> 0
           then Inl (ValueError ''A new incident must use base_revision_number 0.'')
           else bind_result (normalize_selection staff_ids) (\<lambda>selection.
                bind_result (validate_incident_content P (JObj (request_content validated))) (\<lambda>content.
                  Inr (selection, content)))) of
        Inl e \<Rightarrow> (Inl e, ws)
      | Inr (selection, content) \<Rightarrow>
          keyed_record C rc who key ''incident.create''
            (JObj [(''reporting_staff_ids'', JArr (map (\<lambda>u. JStr (uuid_str u)) selection)),
                   (''content'', JObj content)])
            (view_from_reference P) (insert_incident who rc selection content) ws)"

text \<open>
  The two writes on an existing incident differ in the content they write and in the event.
\<close>

definition write_incident ::
  "date_parsers \<Rightarrow> session_actor \<Rightarrow> record_call \<Rightarrow> incident_view \<Rightarrow> incident \<Rightarrow> dict \<Rightarrow> string
   \<Rightarrow> (string list \<Rightarrow> string \<times> dict) \<Rightarrow> 'w workspace_scheme
   \<Rightarrow> (incident_view \<times> int \<times> json) result \<times> 'w workspace_scheme" where
  "write_incident P who rc current inc payload reason event ws =
     (case incident_current_payload P inc of
        Inl e \<Rightarrow> (Inl e, ws)
      | Inr previous \<Rightarrow>
          let n = in_current_revision_number inc + 1;
              changed = changed_field_names previous payload;
              ids = iv_reporting_staff_ids current;
              rv = new_incident_revision who rc (in_id inc) n (server_snapshot payload ids) changed reason;
              inc' = (apply_incident_snapshot payload inc)\<lparr>in_current_revision_number := n, in_updated_at := rc_now rc\<rparr>;
              ws1 = put_incident inc' (ws\<lparr>incident_revisions := incident_revisions ws @ [rv]\<rparr>);
              view = incident_view_of inc' ids n payload (rc_now rc)
          in if number_taken inc' (incidents ws)
             then (Inl (IntegrityError ''uq_incidents_incident_number''), ws1)
             else and_then (append_record_audit who rc (fst (event changed)) (in_id inc)
                    ([(''incident_id'', JStr (uuid_str (in_id inc))), (''revision_number'', JInt n)] @ snd (event changed)) ws1)
                  (\<lambda>_ ws2. (Inr (view, 200, incident_reference view), ws2)))"

definition save_incident_body ::
  "date_parsers \<Rightarrow> session_actor \<Rightarrow> record_call \<Rightarrow> uuid \<Rightarrow> dict \<Rightarrow> 'w workspace_scheme
   \<Rightarrow> (incident_view \<times> int \<times> json) result \<times> 'w workspace_scheme" where
  "save_incident_body P who rc iid validated ws =
     (case bind_result (get_incident who iid ws) (\<lambda>current.
           bind_result (validate_incident_content P (JObj (request_content validated))) (\<lambda>content.
           case find_incident iid ws of None \<Rightarrow> Inl IncidentNotFound | Some inc \<Rightarrow>
           bind_result (check_base_incident inc (int_of (obj_get ''base_revision_number'' validated))) (\<lambda>_.
             Inr (current, inc, carry_forward_identity inc content)))) of
        Inl e \<Rightarrow> (Inl e, ws)
      | Inr (current, inc, payload) \<Rightarrow>
          write_incident P who rc current inc payload (str_of (obj_get ''reason'' validated))
            (\<lambda>changed. (''incident.saved'', [(''changed_fields'', JArr (map JStr changed)),
               (''reason'', JStr (str_of (obj_get ''reason'' validated)))])) ws)"

definition save_incident_record ::
  "crypto \<Rightarrow> date_parsers \<Rightarrow> session_actor \<Rightarrow> record_call \<Rightarrow> uuid \<Rightarrow> json \<Rightarrow> string
   \<Rightarrow> 'w workspace_scheme \<Rightarrow> incident_view result \<times> 'w workspace_scheme" where
  "save_incident_record C P who rc iid request key ws =
     (case SaveIncidentRequest P request of
        Inl e \<Rightarrow> (Inl e, ws)
      | Inr validated \<Rightarrow>
          keyed_record C rc who key ''incident.save''
            (JObj ((''incident_id'', JStr (uuid_str iid)) # validated))
            (view_from_reference P) (save_incident_body P who rc iid validated) ws)"

definition restore_incident_body ::
  "date_parsers \<Rightarrow> session_actor \<Rightarrow> record_call \<Rightarrow> uuid \<Rightarrow> int \<Rightarrow> 'w workspace_scheme
   \<Rightarrow> (incident_view \<times> int \<times> json) result \<times> 'w workspace_scheme" where
  "restore_incident_body P who rc iid n ws =
     (case bind_result (get_incident who iid ws) (\<lambda>current.
           case find_incident iid ws of None \<Rightarrow> Inl IncidentNotFound | Some inc \<Rightarrow>
           bind_result (get_incident_revision who iid n ws) (\<lambda>src.
           bind_result (content_from_snapshot P (ir_snapshot src)) (\<lambda>payload.
             Inr (current, inc, payload)))) of
        Inl e \<Rightarrow> (Inl e, ws)
      | Inr (current, inc, payload) \<Rightarrow>
          write_incident P who rc current inc payload ''restored''
            (\<lambda>changed. (''incident.restored'', [(''source_revision_number'', JInt n)])) ws)"

definition restore_incident_record ::
  "crypto \<Rightarrow> date_parsers \<Rightarrow> session_actor \<Rightarrow> record_call \<Rightarrow> uuid \<Rightarrow> int \<Rightarrow> string
   \<Rightarrow> 'w workspace_scheme \<Rightarrow> incident_view result \<times> 'w workspace_scheme" where
  "restore_incident_record C P who rc iid n key ws =
     (if n < 1 then (Inl (ValueError ''revision_number must be a positive integer''), ws)
      else keyed_record C rc who key ''incident.restore''
        (JObj [(''incident_id'', JStr (uuid_str iid)), (''revision_number'', JInt n)])
        (view_from_reference P) (restore_incident_body P who rc iid n) ws)"

end
