(* ===== verification/IncidentRules.thy ===== *)
theory IncidentRules
  imports IncidentRecords Mutations
begin

text \<open>
  What the keyed incident writes guarantee: a repetition is answered with the same view and
  changes nothing, a save never loses the official number of an incident, and a restore may.
\<close>

section \<open>Repetition of a keyed write\<close>

lemma in_ident_simps [simp]:
  "incidents (snd (in_ident f ws)) = incidents ws"
  "incident_revisions (snd (in_ident f ws)) = incident_revisions ws"
  "reports (snd (in_ident f ws)) = reports ws" "report_access (snd (in_ident f ws)) = report_access ws"
  "report_revisions (snd (in_ident f ws)) = report_revisions ws"
  "ident (snd (in_ident f ws)) = snd (f (ident ws))" "fst (in_ident f ws) = fst (f (ident ws))"
  by (simp_all add: in_ident_def split: prod.split)

lemma in_ident_eq: "in_ident f ws = (r, ws') \<longleftrightarrow> f (ident ws) = (r, ident ws') \<and> ws' = ws\<lparr>ident := ident ws'\<rparr>"
  by (auto simp: in_ident_def split: prod.splits)

lemma claim_staff: "claim_idempotency who key act h now i db = (r, db') \<Longrightarrow> staff_members db' = staff_members db"
  by (auto simp: claim_idempotency_def Let_def split: if_splits option.splits dest!: sym [of _ db'])

locale keyed_write =
  fixes op :: "'w workspace_scheme \<Rightarrow> ('v \<times> int \<times> json) result \<times> 'w workspace_scheme"
  assumes keeps_records: "op ws = (Inr x, ws') \<Longrightarrow>
      idempotency_records (ident ws') = idempotency_records (ident ws)"
begin

lemma fresh_run:
  assumes run: "keyed_record C rc who key act canonical replay op ws = (Inr v, ws')"
    and new: "find_record (account_id who, act, key) (ident ws) = None"
  obtains c status ref ws1 ws2 where
    "claim_idempotency (account_id who) key act (request_digest C canonical) (rc_now rc) (rc_claim_id rc) (ident ws)
       = (Inr c, ident ws1)" "\<not> replayed c" "ws1 = ws\<lparr>ident := ident ws1\<rparr>"
    "op ws1 = (Inr (v, status, ref), ws2)"
    "complete_idempotency c status ref (rc_now rc) (ident ws2) = (Inr (), ident ws')"
    "ws' = ws2\<lparr>ident := ident ws'\<rparr>"
proof -
  from run obtain c ws1 where claim: "in_ident (claim_idempotency (account_id who) key act (request_digest C canonical)
      (rc_now rc) (rc_claim_id rc)) ws = (Inr c, ws1)"
    and rest: "(if replayed c then (replay (case response_reference c of Some (JObj kvs) \<Rightarrow> kvs | _ \<Rightarrow> []) ws1, ws1)
        else and_then (op ws1) (\<lambda>(view, status, ref) ws2.
          and_then (in_ident (complete_idempotency c status ref (rc_now rc)) ws2) (\<lambda>_ ws3. (Inr view, ws3)))) = (Inr v, ws')"
    by (auto simp: keyed_record_def and_then_eq_Inr)
  have "\<not> replayed c" using claim new by (auto simp: in_ident_eq claim_idempotency_def split: if_splits)
  with claim rest show thesis
    by (auto simp: in_ident_eq and_then_eq_Inr intro!: that)
qed

text \<open>
  A repetition within a day is answered from the stored reference, also in a later state that
  still has the record of the key.
\<close>

lemma replay_answers:
  assumes run: "keyed_record C rc who key act canonical replay op ws = (Inr v, ws')"
    and new: "find_record (account_id who, act, key) (ident ws) = None"
    and wf: "records_wf (ident ws)" "rc_claim_id rc \<notin> id_id ` set (idempotency_records (ident ws))"
    and soon: "rc_now rc' < rc_now rc + hours 24"
  shows "\<exists>kvs status ws1 ws2. op ws1 = (Inr (v, status, JObj kvs), ws2) \<and> ws1 = ws\<lparr>ident := ident ws1\<rparr>
    \<and> staff_members (ident ws1) = staff_members (ident ws)
    \<and> ws' = ws2\<lparr>ident := ident ws'\<rparr>
    \<and> (\<forall>ws3. find_record (account_id who, act, key) (ident ws3) = find_record (account_id who, act, key) (ident ws') \<longrightarrow>
         keyed_record C rc' who key act canonical replay' op' ws3 = (replay' kvs ws3, ws3))"
proof -
  from fresh_run [OF run new] obtain c status ref ws1 ws2 where
    claim: "claim_idempotency (account_id who) key act (request_digest C canonical) (rc_now rc) (rc_claim_id rc) (ident ws)
       = (Inr c, ident ws1)" "\<not> replayed c" and ws1: "ws1 = ws\<lparr>ident := ident ws1\<rparr>"
    and op: "op ws1 = (Inr (v, status, ref), ws2)"
    and fin: "complete_idempotency c status ref (rc_now rc) (ident ws2) = (Inr (), ident ws')"
    and ws': "ws' = ws2\<lparr>ident := ident ws'\<rparr>" .
  obtain r where pat: "IDEMPOTENCY_KEY_PATTERN key" "length (request_digest C canonical) = 32"
    and r: "find_record (account_id who, act, key) (ident ws1) = Some r" "id_id r = ic_record_id c"
      "id_request_sha256 r = request_digest C canonical" "id_expires_at r = rc_now rc + hours 24"
    and wf1: "records_wf (ident ws1)"
    by (rule claim_pending [OF claim wf])
  have same: "idempotency_records (ident ws2) = idempotency_records (ident ws1)" by (rule keeps_records [OF op])
  then have wf2: "records_wf (ident ws2)" "find_record (account_id who, act, key) (ident ws2) = Some r"
    using wf1 r(1) by (simp_all add: records_wf_def)
  from complete_found [OF fin claim(2) wf2 r(2)] obtain kvs where ref: "ref = JObj kvs"
    and found: "find_record (account_id who, act, key) (ident ws') = Some (r\<lparr>id_status := Completed,
       id_response_status := Some status, id_response_reference := ref, id_completed_at := Some (rc_now rc)\<rparr>)"
    by blast
  have "keyed_record C rc' who key act canonical replay' op' ws3 = (replay' kvs ws3, ws3)"
    if "find_record (account_id who, act, key) (ident ws3) = find_record (account_id who, act, key) (ident ws')" for ws3
    using claim_completed [OF pat that [unfolded found], of "rc_now rc'" "rc_claim_id rc'"] r(3,4) soon ref
    by (simp add: keyed_record_def in_ident_def)
  moreover have "staff_members (ident ws1) = staff_members (ident ws)"
    using claim(1) by (rule claim_staff)
  ultimately show ?thesis using op ws1 ws' ref by blast
qed

end

lemma record_audit_Inr:
  "append_record_audit who rc act iid kvs ws = (Inr u, ws') \<Longrightarrow> \<exists>ev. ws' = logged ev ws"
  by (auto simp: append_record_audit_def in_ident_def logged_def dest!: append_audit_Inr split: prod.splits)

lemma insert_incident_Inr:
  assumes "insert_incident who rc selection content ws = (Inr (view, status, ref), ws')"
  obtains inc rv ev where "all_active selection (ident ws)"
    "inc = apply_incident_snapshot content
      \<lparr>in_id = rc_row_id rc, in_created_by_account_id = account_id who,
       in_created_by_staff_member_id = staff_member_id who, in_status = In_Progress,
       in_current_revision_number = 1, in_content = [], in_created_at = rc_now rc,
       in_updated_at = rc_now rc, in_archived_at = None\<rparr>"
    "rv = new_incident_revision who rc (rc_row_id rc) 1 (server_snapshot content selection)
      (filter (truthy_at content) [''incident_number'', ''incident_name'', ''field_notes'']) ''manual_save''"
    "view = incident_view_of inc selection 1 content (rc_now rc)" "ref = incident_reference view"
    "ws' = logged ev (ws\<lparr>incidents := incidents ws @ [inc], incident_revisions := incident_revisions ws @ [rv]\<rparr>)"
  using assms
  by (auto simp: insert_incident_def active_selection_def Let_def and_then_eq_Inr apply_incident_snapshot_def
      split: if_splits dest!: record_audit_Inr intro!: that)

lemma write_incident_Inr:
  assumes "write_incident P who rc current inc payload reason event ws = (Inr (view, status, ref), ws')"
  obtains previous rv inc' ev where "incident_current_payload P inc = Inr previous"
    "rv = new_incident_revision who rc (in_id inc) (in_current_revision_number inc + 1)
       (server_snapshot payload (iv_reporting_staff_ids current)) (changed_field_names previous payload) reason"
    "inc' = (apply_incident_snapshot payload inc)\<lparr>in_current_revision_number := in_current_revision_number inc + 1,
       in_updated_at := rc_now rc\<rparr>"
    "\<not> number_taken inc' (incidents ws)"
    "view = incident_view_of inc' (iv_reporting_staff_ids current) (in_current_revision_number inc + 1) payload (rc_now rc)"
    "ref = incident_reference view"
    "ws' = logged ev (put_incident inc' (ws\<lparr>incident_revisions := incident_revisions ws @ [rv]\<rparr>))"
  using assms
  by (auto simp: write_incident_def Let_def and_then_eq_Inr case_result_eq_Inr
      split: if_splits dest!: record_audit_Inr intro!: that)

interpretation creates: keyed_write "insert_incident who rc selection content"
  by unfold_locales (auto elim!: insert_incident_Inr)

lemma save_incident_body_Inr:
  assumes "save_incident_body P who rc iid validated ws = (Inr (view, status, ref), ws')"
  obtains current inc content event where "get_incident who iid ws = Inr current"
    "validate_incident_content P (JObj (request_content validated)) = Inr content"
    "find_incident iid ws = Some inc"
    "in_current_revision_number inc = int_of (obj_get ''base_revision_number'' validated)"
    "write_incident P who rc current inc (carry_forward_identity inc content)
       (str_of (obj_get ''reason'' validated)) event ws = (Inr (view, status, ref), ws')"
  using assms
  by (auto simp: save_incident_body_def case_result_eq_Inr check_base_incident_def
      split: option.splits sum.splits intro!: that)

lemma restore_incident_body_Inr:
  assumes "restore_incident_body P who rc iid n ws = (Inr (view, status, ref), ws')"
  obtains current inc src payload event where "get_incident who iid ws = Inr current"
    "find_incident iid ws = Some inc" "find_incident_revision iid n ws = Some src"
    "content_from_snapshot P (ir_snapshot src) = Inr payload"
    "write_incident P who rc current inc payload ''restored'' event ws = (Inr (view, status, ref), ws')"
  using assms
  by (auto simp: restore_incident_body_def get_incident_revision_def
      split: option.splits sum.splits intro!: that)

lemma write_keeps_records:
  "write_incident P who rc current inc payload reason event ws = (Inr x, ws') \<Longrightarrow>
   idempotency_records (ident ws') = idempotency_records (ident ws)"
  by (cases x) (auto elim!: write_incident_Inr)

interpretation saves: keyed_write "save_incident_body P who rc iid validated"
  by unfold_locales (auto elim!: save_incident_body_Inr dest: write_keeps_records)

interpretation restores: keyed_write "restore_incident_body P who rc iid n"
  by unfold_locales (auto elim!: restore_incident_body_Inr dest: write_keeps_records)

section \<open>What a reference brings back\<close>

lemma uuid_str_hex: "c \<in> set (uuid_str u) \<Longrightarrow> c = CHR ''-'' \<or> is_hex_lower c"
proof -
  assume "c \<in> set (uuid_str u)"
  then have "c = CHR ''-'' \<or> c \<in> set (filter (\<lambda>c. c \<noteq> CHR ''-'') (uuid_str u))" by auto
  then have "c = CHR ''-'' \<or> c \<in> set (hex_str 32 (unat u))" by (simp only: filter_uuid_str)
  moreover have "is_hex_lower d" if "d \<in> set (hex_str w n)" for d w n
    using that
  proof (induction w arbitrary: n)
    case (Suc w)
    have "is_hex_lower (digit_char k)" if "k < 16" for k
      using that by (auto simp: digit_char_def is_hex_lower_def is_digit_def in_range_def)
    then have "is_hex_lower (digit_char (n mod 16))" by simp
    with Suc show ?case by auto
  qed simp
  ultimately show ?thesis by blast
qed

lemma no_braces: "(\<And>c. c \<in> set s \<Longrightarrow> \<not> p c) \<Longrightarrow> rev (dropWhile p (rev (dropWhile p s))) = s"
  by (metis dropWhile_eq_self_iff hd_in_set rev_is_Nil_conv rev_rev_ident set_rev)

lemma parse_uuid_str [simp]: "parse_uuid (uuid_str u) = Some u"
proof -
  let ?braces = "\<lambda>c. c = CHR ''{'' \<or> c = CHR ''}''"
  have "\<not> ?braces c" if "c \<in> set (uuid_str u)" for c
    using uuid_str_hex [OF that] by (auto simp: is_hex_lower_def is_digit_def in_range_def)
  then have inner: "rev (dropWhile ?braces (rev (dropWhile ?braces (uuid_str u)))) = uuid_str u"
    by (intro no_braces) blast
  have low: "lower (hex_str 32 (unat u)) = hex_str 32 (unat u)"
  proof -
    have "lower (filter (\<lambda>c. c \<noteq> CHR ''-'') (uuid_str u)) = filter (\<lambda>c. c \<noteq> CHR ''-'') (uuid_str u)"
      unfolding lower_def
      by (rule map_idI) (auto dest!: uuid_str_hex intro!: lower_char_id simp: is_hex_lower_def is_lower_ascii_def in_range_def)
    then show ?thesis by (simp add: filter_uuid_str)
  qed
  have "list_all is_hex_lower (hex_str 32 (unat u))"
    unfolding filter_uuid_str [symmetric] by (auto simp: list_all_iff dest: uuid_str_hex)
  moreover have "word_of_nat (hex_nat (hex_str 32 (unat u))) = u"
  proof -
    have "hex_nat (hex_str 32 (unat u)) = unat u mod 16 ^ 32" by (rule hex_nat_hex_str)
    also have "\<dots> = unat u" using unsigned_less [of u, where 'a = nat] by simp
    finally show ?thesis by simp
  qed
  ultimately show ?thesis by (simp add: parse_uuid_def Let_def inner filter_uuid_str low)
qed

lemma selection_values_map [simp]: "selection_values (map (\<lambda>u. JStr (uuid_str u)) us) = Inr us"
  by (induction us) simp_all

lemma filter_server_snapshot:
  assumes "''server_metadata'' \<notin> set (obj_keys content)" "''provenance'' \<notin> set (obj_keys content)"
  shows "filter (\<lambda>(k, v). k \<notin> {''server_metadata'', ''provenance''}) (server_snapshot content ids) = content"
  using assms unfolding server_snapshot_def
proof (induction content)
  case (Cons kv content)
  then show ?case by (cases kv) (auto simp: obj_keys_def)
qed simp

lemma incident_content_keys:
  "validate_incident_content P v = Inr p \<Longrightarrow> obj_keys p = map fst (incident_fields P)"
  unfolding validate_incident_content_def by (rule validate_model_keys)

lemma content_of_server_snapshot:
  assumes "parsers_stable P" "validate_incident_content P v = Inr content"
  shows "content_from_snapshot P (server_snapshot content ids) = Inr content"
proof -
  have "''server_metadata'' \<notin> set (obj_keys content)" "''provenance'' \<notin> set (obj_keys content)"
    unfolding incident_content_keys [OF assms(2)] by (simp_all add: field_table)
  then show ?thesis
    unfolding content_from_snapshot_def
    using filter_server_snapshot incident_content_stable [OF assms] by simp
qed

section \<open>Creating an incident twice\<close>

text \<open>
  C27. Repeating the request that created an incident, with the same key and within a day, gives
  the same view again and leaves the database exactly as it was: no second incident, revision or
  audit event.
\<close>

theorem create_incident_idempotent:
  assumes run: "create_incident C P who rc staff_ids request key ws = (Inr view, ws1)"
    and new: "find_record (account_id who, ''incident.create'', key) (ident ws) = None"
      "records_wf (ident ws)" "rc_claim_id rc \<notin> id_id ` set (idempotency_records (ident ws))"
      "find_incident (rc_row_id rc) ws = None" "find_incident_revision (rc_row_id rc) 1 ws = None"
    and soon: "rc_now rc' < rc_now rc + hours 24" and parsers: "parsers_stable P"
  shows "create_incident C P who rc' staff_ids request key ws1 = (Inr view, ws1)
    \<and> in_id (iv_incident view) = rc_row_id rc \<and> find_incident (rc_row_id rc) ws1 = Some (iv_incident view)"
proof -
  from run obtain validated selection content where
    v: "SaveIncidentRequest P request = Inr validated" "int_of (obj_get ''base_revision_number'' validated) = 0"
      "normalize_selection staff_ids = Inr selection"
      "validate_incident_content P (JObj (request_content validated)) = Inr content"
    and keyed: "keyed_record C rc who key ''incident.create''
       (JObj [(''reporting_staff_ids'', JArr (map (\<lambda>u. JStr (uuid_str u)) selection)), (''content'', JObj content)])
       (view_from_reference P) (insert_incident who rc selection content) ws = (Inr view, ws1)"
    by (auto simp: create_incident_def case_result_eq_Inr split: if_splits)
  from creates.replay_answers [OF keyed new(1-3) soon, of "view_from_reference P" "insert_incident who rc' selection content"]
  obtain kvs status wa wb where op: "insert_incident who rc selection content wa = (Inr (view, status, JObj kvs), wb)"
    and wa: "wa = ws\<lparr>ident := ident wa\<rparr>" and ws1: "ws1 = wb\<lparr>ident := ident ws1\<rparr>"
    and again: "keyed_record C rc' who key ''incident.create''
       (JObj [(''reporting_staff_ids'', JArr (map (\<lambda>u. JStr (uuid_str u)) selection)), (''content'', JObj content)])
       (view_from_reference P) (insert_incident who rc' selection content) ws1 = (view_from_reference P kvs ws1, ws1)"
    by blast
  from op have "view_from_reference P kvs ws1 = Inr view \<and> in_id (iv_incident view) = rc_row_id rc
      \<and> find_incident (rc_row_id rc) ws1 = Some (iv_incident view)"
  proof (rule insert_incident_Inr, goal_cases)
    case (1 inc rv ev)
    have id: "in_id inc = rc_row_id rc" "in_status inc = In_Progress"
      by (simp_all add: 1(2) apply_incident_snapshot_def)
    have "incidents wb = incidents ws @ [inc]" "incident_revisions wb = incident_revisions ws @ [rv]"
      by (simp_all add: 1(6)) (metis wa workspace.select_convs(2,3) workspace.surjective workspace.update_convs(1))+
    then have rows: "incidents ws1 = incidents ws @ [inc]" "incident_revisions ws1 = incident_revisions ws @ [rv]"
      by (metis ws1 workspace.select_convs(2,3) workspace.surjective workspace.update_convs(1))+
    have "find_incident (rc_row_id rc) ws1 = Some inc"
      using new(4) id by (simp add: rows find_row_append)
    moreover have "find_incident_revision (rc_row_id rc) 1 ws1 = Some rv"
      using new(5) by (simp add: rows find_row_append 1(3) new_incident_revision_def)
    moreover have "content_from_snapshot P (ir_snapshot rv) = Inr content"
      using content_of_server_snapshot [OF parsers v(4)] by (simp add: 1(3) new_incident_revision_def)
    moreover have "kvs = [(''incident_id'', JStr (uuid_str (rc_row_id rc))), (''revision_number'', JInt 1),
        (''reporting_staff_ids'', JArr (map (\<lambda>u. JStr (uuid_str u)) selection)), (''status'', JStr ''in_progress'')]"
      using 1(4,5) id by (simp add: incident_reference_def incident_view_of_def or_default_def)
    ultimately show ?case
      using id by (simp add: view_from_reference_def reference_uuid_def reference_int_def reference_uuids_def
          reference_str_def obj_get_def 1(3,4) incident_view_of_def new_incident_revision_def)
  qed
  with again v show ?thesis by (simp add: create_incident_def)
qed

section \<open>The official number\<close>

definition number_of :: "dict \<Rightarrow> json option" where
  "number_of kvs = obj_get ''incident_number'' kvs"

lemma carry_number:
  assumes "number_of (in_content inc) = Some (JStr s)" "obj_get ''incident_number'' content = Some v"
  shows "number_of (carry_forward_identity inc content) = Some (if v = JNull then JStr s else v)"
proof -
  have name: "obj_get ''incident_number'' (carry_field cols ''incident_name'' p) = obj_get ''incident_number'' p" for cols p
    by (auto simp: carry_field_def obj_get_def update_conv' split: option.splits)
  show ?thesis
    using assms by (simp add: number_of_def carry_forward_identity_def IDENTITY_FIELDS_def name)
      (auto simp: carry_field_def is_null_def obj_get_def update_conv')
qed

lemma applied_number:
  "number_of (in_content (apply_incident_snapshot payload inc)) = Some (case number_of payload of None \<Rightarrow> JNull | Some v \<Rightarrow> v)"
  by (simp add: number_of_def apply_incident_snapshot_def obj_get_def INCIDENT_CONTENT_FIELDS_def)

lemma fill_fields_at:
  assumes "fill_fields fs kvs = Inr p" "distinct (map fst fs)" "(k, d, c) \<in> set fs"
  shows "\<exists>w. obj_get k p = Some w \<and> (case obj_get k kvs of
      Some u \<Rightarrow> c u | None \<Rightarrow> (case d of Some x \<Rightarrow> Inr x | None \<Rightarrow> Inl ValidationError)) = Inr w"
  using assms
proof (induction fs kvs arbitrary: p rule: fill_fields.induct)
  case (2 j e b fs kvs)
  then obtain w rest where head: "(case obj_get j kvs of Some u \<Rightarrow> b u
       | None \<Rightarrow> (case e of Some x \<Rightarrow> Inr x | None \<Rightarrow> Inl ValidationError)) = Inr w"
    and rest: "fill_fields fs kvs = Inr rest" "p = (j, w) # rest"
    by auto
  show ?case
  proof (cases "(k, d, c) = (j, e, b)")
    case True
    then have "k = j" "d = e" "c = b" by simp_all
    with head rest show ?thesis by (simp only: obj_get_def map_of.simps fst_conv snd_conv) simp
  next
    case False
    with "2.prems" have "(k, d, c) \<in> set fs" "k \<noteq> j" by force+
    with "2.IH" [OF rest(1)] head rest "2.prems" show ?thesis by (simp add: obj_get_def)
  qed
qed simp

lemma validated_number:
  assumes "validate_incident_content P v = Inr content"
  obtains "obj_get ''incident_number'' content = Some JNull"
  | s where "obj_get ''incident_number'' content = Some (JStr s)" "INCIDENT_NUMBER_RE s"
proof -
  from assms obtain kvs where fill: "fill_fields (incident_fields P) kvs = Inr content"
    by (auto simp: validate_incident_content_def validate_model_def split: json.splits if_splits dest!: bounded_same)
  moreover have "distinct (map fst (incident_fields P))" by (simp add: field_table)
  moreover have "(''incident_number'', Some JNull, normalized_field normalize_incident_number) \<in> set (incident_fields P)"
    by (simp add: field_table)
  ultimately obtain w where w: "obj_get ''incident_number'' content = Some w"
    "(case obj_get ''incident_number'' kvs of Some u \<Rightarrow> normalized_field normalize_incident_number u
      | None \<Rightarrow> (case Some JNull of Some x \<Rightarrow> Inr x | None \<Rightarrow> Inl ValidationError)) = Inr w"
    using fill_fields_at by blast
  show thesis
  proof (cases "obj_get ''incident_number'' kvs")
    case None
    with w that show thesis by simp
  next
    case (Some u)
    with w(2) obtain x t where "normalize_incident_number x = Inr t" "w = json_option t" by (cases u) auto
    with w(1) that show thesis by (cases t) (auto simp: json_option_def dest: normalize_incident_number_Some)
  qed
qed

lemma carried_number:
  assumes "number_of (in_content inc) = Some (JStr s)" "validate_incident_content P v = Inr content"
  obtains t where "number_of (carry_forward_identity inc content) = Some (JStr t)" "t = s \<or> INCIDENT_NUMBER_RE t"
  using assms(2)
proof (cases rule: validated_number)
  case 1
  with carry_number [OF assms(1) 1] that show thesis by simp
next
  case (2 t)
  with carry_number [OF assms(1) 2(1)] that show thesis by simp
qed

lemma save_incident_Inr:
  assumes "save_incident P E ed who iid snapshot base reason ws = (Inr rv, ws')"
  obtains inc content previous inc' ev where "find_incident iid ws = Some inc" "in_current_revision_number inc = base"
    "validate_incident_content P snapshot = Inr content" "incident_current_payload P inc = Inr previous"
    "inc' = (apply_incident_snapshot (carry_forward_identity inc content) inc)\<lparr>
       in_current_revision_number := ir_revision_number rv, in_updated_at := ed_now ed\<rparr>"
    "\<not> number_taken inc' (incidents ws)"
    "ws' = logged ev (put_incident inc' (ws\<lparr>incident_revisions := incident_revisions ws @ [rv]\<rparr>))"
  using assms
  by (auto simp: save_incident_def Let_def case_result_eq_Inr and_then_eq_Inr check_base_incident_def
      split: option.splits if_splits dest!: append_edit_audit_Inr intro!: that)

definition incident_saved ::
  "crypto \<Rightarrow> date_parsers \<Rightarrow> provenance_env \<Rightarrow> uuid \<Rightarrow> 'w workspace_scheme \<Rightarrow> 'w workspace_scheme \<Rightarrow> bool" where
  "incident_saved C P E iid ws ws' \<longleftrightarrow>
     (\<exists>ed who snapshot base reason rv. save_incident P E ed who iid snapshot base reason ws = (Inr rv, ws'))
     \<or> (\<exists>rc who request key view. save_incident_record C P who rc iid request key ws = (Inr view, ws')
          \<and> find_record (account_id who, ''incident.save'', key) (ident ws) = None)"

lemma incident_saved_cases:
  assumes "incident_saved C P E iid ws ws'" "find_incident iid ws = Some inc"
    "number_of (in_content inc) = Some (JStr s)"
  obtains inc' t where "incidents ws' = update_rows (\<lambda>r. in_id r = iid) (\<lambda>_. inc') (incidents ws)"
    "in_id inc' = iid" "\<not> number_taken inc' (incidents ws)" "number_of (in_content inc') = Some (JStr t)"
    "t = s \<or> INCIDENT_NUMBER_RE t"
proof -
  have iid: "in_id inc = iid" using assms(2) by (auto dest: find_row_SomeD)
  consider (service) ed who snapshot base reason rv where
      "save_incident P E ed who iid snapshot base reason ws = (Inr rv, ws')"
    | (recorded) rc who request key view where "save_incident_record C P who rc iid request key ws = (Inr view, ws')"
      "find_record (account_id who, ''incident.save'', key) (ident ws) = None"
    using assms(1) by (auto simp: incident_saved_def)
  then show thesis
  proof cases
    case service
    then show thesis
    proof (rule save_incident_Inr, goal_cases)
      case (1 inc0 content previous inc' ev)
      then have "inc0 = inc" using assms(2) by simp
      from assms(3) 1(3) obtain t where t: "number_of (carry_forward_identity inc content) = Some (JStr t)"
          "t = s \<or> INCIDENT_NUMBER_RE t" by (rule carried_number)
      have "in_id inc' = iid" by (simp add: 1(5) \<open>inc0 = inc\<close> apply_incident_snapshot_def iid)
      moreover have "number_of (in_content inc') = Some (JStr t)"
        using applied_number [of "carry_forward_identity inc content" inc] t(1) by (simp add: 1(5) \<open>inc0 = inc\<close>)
      ultimately show thesis using 1(6,7) t(2) by (intro that [of inc' t]) simp_all
    qed
  next
    case recorded
    from recorded(1) obtain validated where keyed: "keyed_record C rc who key ''incident.save''
        (JObj ((''incident_id'', JStr (uuid_str iid)) # validated)) (view_from_reference P)
        (save_incident_body P who rc iid validated) ws = (Inr view, ws')"
      by (auto simp: save_incident_record_def split: sum.splits)
    from saves.fresh_run [OF keyed recorded(2)] obtain c st ref ws1 ws2 where ws1: "ws1 = ws\<lparr>ident := ident ws1\<rparr>"
      and op: "save_incident_body P who rc iid validated ws1 = (Inr (view, st, ref), ws2)"
      and ws': "ws' = ws2\<lparr>ident := ident ws'\<rparr>" .
    have same: "incidents ws1 = incidents ws" by (subst ws1) simp
    have same': "incidents ws' = incidents ws2" by (subst ws') simp
    from op show thesis
    proof (rule save_incident_body_Inr, goal_cases)
      case (1 current inc0 content event)
      then have "inc0 = inc" using assms(2) same by simp
      from assms(3) 1(2) obtain t where t: "number_of (carry_forward_identity inc content) = Some (JStr t)"
          "t = s \<or> INCIDENT_NUMBER_RE t" by (rule carried_number)
      from 1(5) show thesis
      proof (rule write_incident_Inr, goal_cases)
        case (1 previous rv inc' ev)
        have "in_id inc' = iid" by (simp add: 1(3) \<open>inc0 = inc\<close> apply_incident_snapshot_def iid)
        moreover have "number_of (in_content inc') = Some (JStr t)"
          using applied_number [of "carry_forward_identity inc content" inc] t(1) by (simp add: 1(3) \<open>inc0 = inc\<close>)
        ultimately show thesis using 1(4,7) t(2) same same' by (intro that [of inc' t]) simp_all
      qed
    qed
  qed
qed

text \<open>
  C28. A save never takes the official number of an incident away: after any save the incident
  still has a number, the old one or a well-formed new one, and no other incident has it.
\<close>

theorem incident_number_kept:
  assumes "incident_saved C P E iid ws ws'" "find_incident iid ws = Some inc"
    "number_of (in_content inc) = Some (JStr s)"
  shows "\<exists>inc' t. find_incident iid ws' = Some inc' \<and> number_of (in_content inc') = Some (JStr t)
    \<and> (t = s \<or> INCIDENT_NUMBER_RE t)
    \<and> (\<forall>other \<in> set (incidents ws'). in_id other \<noteq> iid \<longrightarrow> number_of (in_content other) \<noteq> Some (JStr t))"
  using assms
proof (rule incident_saved_cases)
  fix inc' t
  assume rows: "incidents ws' = update_rows (\<lambda>r. in_id r = iid) (\<lambda>_. inc') (incidents ws)" "in_id inc' = iid"
    and num: "\<not> number_taken inc' (incidents ws)" "number_of (in_content inc') = Some (JStr t)" "t = s \<or> INCIDENT_NUMBER_RE t"
  have "find_incident iid ws' = Some inc'"
    using assms(2) rows find_row_SomeD [OF assms(2)] by (simp add: find_update_rows)
  moreover have "number_of (in_content other) \<noteq> Some (JStr t)"
    if other: "other \<in> set (incidents ws')" "in_id other \<noteq> iid" for other
  proof -
    have "other \<in> set (incidents ws)" using other rows by (auto simp: set_update_rows split: if_splits)
    then show ?thesis
      using num(1,2) other(2) rows(2) by (auto simp: number_taken_def number_of_def list_ex_iff is_null_def)
  qed
  ultimately show ?thesis using num by blast
qed

text \<open>
  C29. A restore may take the official number away: the content of a revision that was written
  before the number was assigned is applied as it is, so that the incident is left without a
  number. (The saves guard against exactly this, see C28.)
\<close>

theorem restore_clears_number:
  assumes "restore_incident_body P who rc iid n ws = (Inr (view, status, ref), ws')"
    "find_incident_revision iid n ws = Some src" "content_from_snapshot P (ir_snapshot src) = Inr content"
    "number_of content = Some JNull"
  shows "\<exists>inc'. find_incident iid ws' = Some inc' \<and> number_of (in_content inc') = Some JNull"
  using assms(1)
proof (rule restore_incident_body_Inr, goal_cases)
  case (1 current inc src' payload event)
  have iid: "in_id inc = iid" using 1(2) by (auto dest: find_row_SomeD)
  have p: "payload = content" using 1(3,4) assms(2,3) by simp
  from 1(5) show ?case
  proof (rule write_incident_Inr, goal_cases)
    case inner: (1 previous rv inc' ev)
    have "find_incident iid ws' = Some inc'"
      using 1(2) iid by (simp add: inner(3,7) find_update_rows apply_incident_snapshot_def)
    moreover have "number_of (in_content inc') = Some JNull"
      using applied_number [of content inc] assms(4) by (simp add: inner(3) p)
    ultimately show ?case by blast
  qed
qed

section \<open>Examples\<close>

definition incident_doc :: "json \<Rightarrow> dict" where
  "incident_doc number =
     [(''schema_version'', JInt 1), (''field_notes'', JStr []), (''incident_number'', number),
      (''incident_name'', JNull), (''incident_date'', JNull), (''incident_time'', JNull),
      (''facility'', JNull), (''shift'', JNull), (''location'', JNull), (''category'', JNull),
      (''classification'', JObj []), (''extracted_facts'', JObj []), (''gap_answers'', JObj []),
      (''charges'', JArr []), (''validation'', JObj []), (''warnings'', JArr [])]"

lemma bounded_doc:
  assumes "number = JNull \<or> number = JStr ''2026-08-029''"
  shows "reject_nonfinite_or_oversized (incident_doc number) = Inr (incident_doc number)"
    "reject_nonfinite_or_oversized (incident_doc number @ [(''base_revision_number'', JInt 0), (''reason'', JStr ''manual_save'')])
     = Inr (incident_doc number @ [(''base_revision_number'', JInt 0), (''reason'', JStr ''manual_save'')])"
proof -
  have len: "length (json_text (JObj (incident_doc number))) \<le> 1000"
    "length (json_text (JObj (incident_doc number @ [(''base_revision_number'', JInt 0), (''reason'', JStr ''manual_save'')]))) \<le> 1000"
    using assms nat_str.simps [of 1] nat_str.simps [of 0]
    by (auto simp: incident_doc_def quote_def escape_char_def Let_def int_str_def)
  have size: "utf8_length (json_text j) \<le> MAX_CONTENT_JSON_BYTES" if "length (json_text j) \<le> 1000" for j
    using utf8_length_bound [of "json_text j"] that by (simp add: MAX_CONTENT_JSON_BYTES_def)
  have ok: "validate_items 0 (filter is_collection (map snd (incident_doc number))) 0 \<in> range Inr"
    "validate_items 0 (filter is_collection (map snd (incident_doc number
       @ [(''base_revision_number'', JInt 0), (''reason'', JStr ''manual_save'')]))) 0 \<in> range Inr"
    "\<not> has_nonfinite (JObj (incident_doc number))"
    "\<not> has_nonfinite (JObj (incident_doc number @ [(''base_revision_number'', JInt 0), (''reason'', JStr ''manual_save'')]))"
    using assms by (auto simp: incident_doc_def enter_node_def MAX_JSON_NODES_def MAX_JSON_DEPTH_def MAX_JSON_COLLECTION_ITEMS_def)
  show "reject_nonfinite_or_oversized (incident_doc number) = Inr (incident_doc number)"
    using ok(1,3) size [OF len(1)] by (auto simp: reject_nonfinite_or_oversized_def wrap_error_def)
  show "reject_nonfinite_or_oversized (incident_doc number @ [(''base_revision_number'', JInt 0), (''reason'', JStr ''manual_save'')])
     = Inr (incident_doc number @ [(''base_revision_number'', JInt 0), (''reason'', JStr ''manual_save'')])"
    using ok(2,4) size [OF len(2)] by (auto simp: reject_nonfinite_or_oversized_def wrap_error_def)
qed

lemma doc_ok:
  "validate_incident_content plain_parsers (JObj []) = Inr (incident_doc JNull)"
  "validate_incident_content plain_parsers (JObj [(''incident_number'', JStr ''2026-08-029'')]) = Inr (incident_doc (JStr ''2026-08-029''))"
  "SaveIncidentRequest plain_parsers (JObj [])
     = Inr (incident_doc JNull @ [(''base_revision_number'', JInt 0), (''reason'', JStr ''manual_save'')])"
proof -
  have re: "normalize_incident_number (Some ''2026-08-029'') = Inr (Some ''2026-08-029'')"
    by (rule normalize_incident_number_stable) code_simp
  have fill: "fill_fields (incident_fields plain_parsers) [] = Inr (incident_doc JNull)"
    "fill_fields (incident_fields plain_parsers) [(''incident_number'', JStr ''2026-08-029'')] = Inr (incident_doc (JStr ''2026-08-029''))"
    "fill_fields (incident_fields plain_parsers @ save_request_fields) []
       = Inr (incident_doc JNull @ [(''base_revision_number'', JInt 0), (''reason'', JStr ''manual_save'')])"
    by (simp_all add: field_table save_request_fields_def obj_get_def re json_option_def incident_doc_def)
  have key: "''incident_number'' \<in> set (map fst (incident_fields plain_parsers))" by (simp add: field_table)
  show "validate_incident_content plain_parsers (JObj []) = Inr (incident_doc JNull)"
    "validate_incident_content plain_parsers (JObj [(''incident_number'', JStr ''2026-08-029'')]) = Inr (incident_doc (JStr ''2026-08-029''))"
    "SaveIncidentRequest plain_parsers (JObj [])
       = Inr (incident_doc JNull @ [(''base_revision_number'', JInt 0), (''reason'', JStr ''manual_save'')])"
    using fill key bounded_doc
    by (simp_all add: validate_incident_content_def validate_model_def SaveIncidentRequest_def del: bind_result_eq_Inr)
qed

lemma append_record_ok:
  assumes "event_ok act kvs" "act \<noteq> ''system.initial_admin_bootstrapped''" "length (rc_client_version rc) \<le> 64"
  shows "append_record_audit who rc act iid kvs ws = (Inr (), logged (record_event who rc act iid kvs) ws)"
  using assms
  by (simp add: append_record_audit_def record_event_def in_ident_def append_audit_def AuditEventInput_def event_ok_def
      validate_actor_attribution_def Let_def hash_length_ok_def logged_def)

lemma incident_events:
  "event_ok ''incident.created'' [(''incident_id'', JStr (uuid_str u))]"
  "0 \<le> n \<Longrightarrow> n \<le> MAX_AUDIT_NUMBER \<Longrightarrow> 0 \<le> m \<Longrightarrow> m \<le> MAX_AUDIT_NUMBER \<Longrightarrow>
   event_ok ''incident.restored'' [(''incident_id'', JStr (uuid_str u)), (''revision_number'', JInt n), (''source_revision_number'', JInt m)]"
  "0 \<le> n \<Longrightarrow> n \<le> MAX_AUDIT_NUMBER \<Longrightarrow> event_ok ''incident.saved'' [(''incident_id'', JStr (uuid_str u)),
     (''revision_number'', JInt n), (''changed_fields'', JArr []), (''reason'', JStr ''autosave'')]"
proof -
  have act: "map_of AUDIT_ACTION_FIELDS ''incident.created'' = Some [''incident_id'']"
    "map_of AUDIT_ACTION_FIELDS ''incident.restored'' = Some [''incident_id'', ''revision_number'', ''source_revision_number'']"
    "map_of AUDIT_ACTION_FIELDS ''incident.saved'' = Some [''incident_id'', ''revision_number'', ''changed_fields'', ''reason'']"
    by code_simp+
  have kinds: "takes_uuid ''incident.created'' ''incident_id''" "takes_uuid ''incident.restored'' ''incident_id''"
    "takes_number ''incident.restored'' ''revision_number''" "takes_number ''incident.restored'' ''source_revision_number''"
    "takes_uuid ''incident.saved'' ''incident_id''" "takes_number ''incident.saved'' ''revision_number''"
    by code_simp+
  have codes: "detail_ok ''incident.saved'' (''changed_fields'', JArr [])" "detail_ok ''incident.saved'' (''reason'', JStr ''autosave'')"
    by code_simp+
  show "event_ok ''incident.created'' [(''incident_id'', JStr (uuid_str u))]"
    by (rule event_okI [OF act(1)]) (simp_all add: kinds detail_ok_uuid)
  show "0 \<le> n \<Longrightarrow> n \<le> MAX_AUDIT_NUMBER \<Longrightarrow> 0 \<le> m \<Longrightarrow> m \<le> MAX_AUDIT_NUMBER \<Longrightarrow>
   event_ok ''incident.restored'' [(''incident_id'', JStr (uuid_str u)), (''revision_number'', JInt n), (''source_revision_number'', JInt m)]"
    by (rule event_okI [OF act(2)]) (simp_all add: kinds detail_ok_uuid detail_ok_number)
  show "0 \<le> n \<Longrightarrow> n \<le> MAX_AUDIT_NUMBER \<Longrightarrow> event_ok ''incident.saved'' [(''incident_id'', JStr (uuid_str u)),
     (''revision_number'', JInt n), (''changed_fields'', JArr []), (''reason'', JStr ''autosave'')]"
    by (rule event_okI [OF act(3)]) (simp_all add: kinds codes detail_ok_uuid detail_ok_number)
qed

definition example_rc :: record_call where
  "example_rc = \<lparr>rc_request_id = ''r1'', rc_client_version = ''1.2.0'', rc_now = 100, rc_claim_id = 60,
     rc_row_id = 30, rc_revision_id = 61\<rparr>"

lemma example_rc_simps [simp]:
  "rc_request_id example_rc = ''r1''" "rc_client_version example_rc = ''1.2.0''" "rc_now example_rc = 100"
  "rc_claim_id example_rc = 60" "rc_row_id example_rc = 30" "rc_revision_id example_rc = 61"
  by (simp_all add: example_rc_def)

lemma reference_dumps:
  "length (dumps True (JObj [(''incident_id'', JStr (uuid_str u)), (''revision_number'', JInt 1),
     (''reporting_staff_ids'', JArr [JStr (uuid_str v)]), (''status'', JStr ''in_progress'')])) \<le> 4096"
proof -
  have "length (dumps True (JArr [JStr (uuid_str v)])) \<le> 300" using uuid_dumps [of v] by simp
  moreover have "length (dumps True (JInt 1)) \<le> 10" using nat_str.simps [of 1] by (simp add: int_str_def)
  moreover have "length (dumps True (JStr ''in_progress'')) \<le> 100" using length_quote [of True "''in_progress''"] by simp
  ultimately show ?thesis
    using uuid_dumps [of u] dumps_short [of "[(''incident_id'', JStr (uuid_str u)), (''revision_number'', JInt 1),
     (''reporting_staff_ids'', JArr [JStr (uuid_str v)]), (''status'', JStr ''in_progress'')]"]
    by (simp del: dumps.simps)
qed

lemma example_create:
  "\<exists>view ws1. create_incident short_crypto plain_parsers officer example_rc (JArr [JStr (uuid_str 1)]) (JObj [])
     ''key-0001'' example_workspace = (Inr view, ws1)"
proof -
  let ?sel = "[1 :: uuid]"
  let ?canon = "JObj [(''reporting_staff_ids'', JArr [JStr (uuid_str 1)]), (''content'', JObj (incident_doc JNull))]"
  have content: "validate_incident_content plain_parsers (JObj (request_content
      (incident_doc JNull @ [(''base_revision_number'', JInt 0), (''reason'', JStr ''manual_save'')]))) = Inr (incident_doc JNull)"
    using incident_content_stable [of plain_parsers "JObj []" "incident_doc JNull"] doc_ok(1)
    by (simp add: request_content_def parsers_stable_def plain_parsers_def incident_doc_def)
  have base: "int_of (obj_get ''base_revision_number'' (incident_doc JNull @ [(''base_revision_number'', JInt 0), (''reason'', JStr ''manual_save'')])) = 0"
    by (simp add: obj_get_def incident_doc_def)
  have digest: "length (request_digest short_crypto ?canon) = 32"
    by (simp add: request_digest_def short_crypto_def)
  have key: "IDEMPOTENCY_KEY_PATTERN ''key-0001''" by code_simp
  let ?db = "(ident example_workspace)\<lparr>idempotency_records := [new_record 60 (2, ''incident.create'', ''key-0001'') (request_digest short_crypto ?canon) 100]\<rparr>"
  let ?ws = "example_workspace\<lparr>ident := ?db\<rparr>"
  have claim: "in_ident (claim_idempotency 2 ''key-0001'' ''incident.create'' (request_digest short_crypto ?canon) 100 60) example_workspace
      = (Inr \<lparr>ic_record_id = 60, replayed = False, response_status = None, response_reference = None\<rparr>, ?ws)"
    using digest key by (simp add: in_ident_def claim_idempotency_def example_workspace_def example_db_def empty_db_def)
  have cv: "length (rc_client_version example_rc) \<le> 64" by simp
  have safe: "safe_reference (JObj [(''incident_id'', JStr (uuid_str 30)), (''revision_number'', JInt 1),
     (''reporting_staff_ids'', JArr [JStr (uuid_str 1)]), (''status'', JStr ''in_progress'')])" by code_simp
  obtain view ws2 where op: "insert_incident officer example_rc ?sel (incident_doc JNull) ?ws =
      (Inr (view, 201, JObj [(''incident_id'', JStr (uuid_str 30)), (''revision_number'', JInt 1),
     (''reporting_staff_ids'', JArr [JStr (uuid_str 1)]), (''status'', JStr ''in_progress'')]), ws2)"
    and rec: "idempotency_records (ident ws2) = [new_record 60 (2, ''incident.create'', ''key-0001'') (request_digest short_crypto ?canon) 100]"
    by (simp add: append_record_ok [OF incident_events(1) _ cv] insert_incident_def active_selection_def all_active_def example_workspace_def example_staff_def
        apply_incident_snapshot_def number_taken_def Let_def incident_reference_def incident_view_of_def or_default_def)
  have "\<exists>ws3. in_ident (complete_idempotency \<lparr>ic_record_id = 60, replayed = False, response_status = None, response_reference = None\<rparr> 201
      (JObj [(''incident_id'', JStr (uuid_str 30)), (''revision_number'', JInt 1),
     (''reporting_staff_ids'', JArr [JStr (uuid_str 1)]), (''status'', JStr ''in_progress'')]) 100) ws2 = (Inr (), ws3)"
    using safe reference_dumps [of 30 1] rec
    by (simp add: in_ident_def complete_idempotency_def new_record_def del: dumps.simps safe_reference.simps)
  then obtain ws3 where fin: "in_ident (complete_idempotency \<lparr>ic_record_id = 60, replayed = False, response_status = None, response_reference = None\<rparr> 201
      (JObj [(''incident_id'', JStr (uuid_str 30)), (''revision_number'', JInt 1),
     (''reporting_staff_ids'', JArr [JStr (uuid_str 1)]), (''status'', JStr ''in_progress'')]) 100) ws2 = (Inr (), ws3)" ..
  have call: "account_id officer = 2" by (simp add: officer_def)
  show ?thesis
    using claim op fin
    by (simp add: create_incident_def doc_ok(3) content base MAX_REPORTING_STAFF_def keyed_record_def call
        del: bind_result_eq_Inr)
qed

lemma create_incident_idempotent_witness:
  "\<exists>view ws1. create_incident short_crypto plain_parsers officer example_rc (JArr [JStr (uuid_str 1)]) (JObj [])
       ''key-0001'' example_workspace = (Inr view, ws1)
     \<and> create_incident short_crypto plain_parsers officer example_rc (JArr [JStr (uuid_str 1)]) (JObj [])
       ''key-0001'' ws1 = (Inr view, ws1)"
proof -
  obtain view ws1 where run: "create_incident short_crypto plain_parsers officer example_rc (JArr [JStr (uuid_str 1)]) (JObj [])
       ''key-0001'' example_workspace = (Inr view, ws1)" using example_create by blast
  have "parsers_stable plain_parsers" by (simp add: parsers_stable_def plain_parsers_def)
  with create_incident_idempotent [OF run, of example_rc] run show ?thesis
    by (auto simp: example_workspace_def example_db_def empty_db_def records_wf_def hours_def minutes_def seconds_def)
qed

definition numbered_incident :: "int \<Rightarrow> incident" where
  "numbered_incident n = \<lparr>in_id = 30, in_created_by_account_id = 2, in_created_by_staff_member_id = 1,
     in_status = In_Progress, in_current_revision_number = n,
     in_content = [(''incident_number'', JStr ''2026-08-029'')], in_created_at = 5, in_updated_at = 5,
     in_archived_at = None\<rparr>"

lemma numbered_simps [simp]:
  "in_id (numbered_incident n) = 30" "in_current_revision_number (numbered_incident n) = n"
  "in_content (numbered_incident n) = [(''incident_number'', JStr ''2026-08-029'')]"
  "in_created_by_staff_member_id (numbered_incident n) = 1"
  by (simp_all add: numbered_incident_def)

lemma carry_doc:
  "carry_forward_identity (numbered_incident n) (incident_doc JNull) = incident_doc (JStr ''2026-08-029'')"
  by (simp add: carry_forward_identity_def IDENTITY_FIELDS_def carry_field_def is_null_def obj_get_def incident_doc_def)

lemma unchanged_doc: "changed_field_names (incident_doc (JStr s)) (incident_doc (JStr s)) = []"
  by (simp add: changed_field_names_def values_differ_def obj_get_def incident_doc_def obj_keys_def as_int_def)

lemma incident_number_kept_witness:
  "\<exists>rv ws' inc' t. save_incident plain_parsers example_env example_call officer 30 (JObj []) 0 ''autosave''
       (example_workspace\<lparr>incidents := [numbered_incident 0]\<rparr>) = (Inr rv, ws')
     \<and> find_incident 30 ws' = Some inc' \<and> number_of (in_content inc') = Some (JStr t)"
proof -
  let ?ws = "example_workspace\<lparr>incidents := [numbered_incident 0]\<rparr>"
  have cv: "length (snd (metadata_of example_call)) \<le> 64" using example_call_ok by (simp add: call_ok_def)
  have taken: "\<not> number_taken inc [numbered_incident 0]" if "in_id inc = 30" for inc
    using that by (simp add: number_taken_def)
  obtain rv ws' where run: "save_incident plain_parsers example_env example_call officer 30 (JObj []) 0 ''autosave'' ?ws = (Inr rv, ws')"
    by (simp add: save_incident_def validate_revision_number_def INCIDENT_SAVE_REASONS_def check_base_incident_def
        doc_ok incident_current_payload_def carry_doc unchanged_doc ai_provenance_def Let_def taken apply_incident_snapshot_def
        carry_incident_server_metadata_def example_workspace_def incident_numbers_of_def next_revision_number_def
        append_edit_ok [OF incident_events(3) _ cv] MAX_AUDIT_NUMBER_def)
  then have "incident_saved short_crypto plain_parsers example_env 30 ?ws ws'"
    unfolding incident_saved_def by blast
  moreover have "find_incident 30 ?ws = Some (numbered_incident 0)" by simp
  moreover have "number_of (in_content (numbered_incident 0)) = Some (JStr ''2026-08-029'')"
    by (simp add: number_of_def obj_get_def)
  ultimately show ?thesis using incident_number_kept run by blast
qed

definition example_incident_revision :: "int \<Rightarrow> json \<Rightarrow> incident_revision" where
  "example_incident_revision n number = \<lparr>ir_id = 70 + of_int n, ir_incident_id = 30, ir_revision_number = n,
     ir_editor_account_id = 2, ir_editor_staff_member_id = 1,
     ir_snapshot = server_snapshot (incident_doc number) [1], ir_changed_fields = [], ir_reason = ''manual_save'',
     ir_client_version = ''1.2.0'', ir_request_id = ''r0'', ir_created_at = 5\<rparr>"

lemma restore_clears_number_witness:
  "\<exists>view status ref ws'. restore_incident_body plain_parsers officer example_rc 30 1
       (example_workspace\<lparr>incidents := [numbered_incident 2],
          incident_revisions := [example_incident_revision 1 JNull, example_incident_revision 2 (JStr ''2026-08-029'')]\<rparr>)
     = (Inr (view, status, ref), ws')
     \<and> (\<exists>inc'. find_incident 30 ws' = Some inc' \<and> number_of (in_content inc') = Some JNull)"
proof -
  let ?r = example_incident_revision
  let ?ws = "example_workspace\<lparr>incidents := [numbered_incident 2],
          incident_revisions := [?r 1 JNull, ?r 2 (JStr ''2026-08-029'')]\<rparr>"
  have cv: "length (rc_client_version example_rc) \<le> 64" by simp
  have rsimps [simp]: "ir_incident_id (?r n v) = 30" "ir_revision_number (?r n v) = n"
    "ir_snapshot (?r n v) = server_snapshot (incident_doc v) [1]" for n v
    by (simp_all add: example_incident_revision_def)
  have sel: "selection_from_snapshot (server_snapshot (incident_doc v) [1]) = Inr [1]" for v
    by (simp add: selection_from_snapshot_def server_snapshot_def obj_get_def incident_doc_def)
  have content: "content_from_snapshot plain_parsers (server_snapshot (incident_doc JNull) [1]) = Inr (incident_doc JNull)"
    by (rule content_of_server_snapshot [OF _ doc_ok(1)]) (simp add: parsers_stable_def plain_parsers_def)
  have taken: "\<not> number_taken inc [numbered_incident 2]" if "in_id inc = 30" for inc
    using that by (simp add: number_taken_def)
  have src: "find_incident_revision 30 1 ?ws = Some (?r 1 JNull)" by simp
  have get: "\<exists>view. get_incident officer 30 ?ws = Inr view"
    by (simp add: get_incident_def latest_revision_def sel can_access_incident_def officer_def)
  then obtain view where get: "get_incident officer 30 ?ws = Inr view" ..
  have "\<exists>view status ref ws'. restore_incident_body plain_parsers officer example_rc 30 1 ?ws = (Inr (view, status, ref), ws')"
    using get src content
    by (simp add: restore_incident_body_def get_incident_revision_def write_incident_def incident_current_payload_def doc_ok
        Let_def taken apply_incident_snapshot_def append_record_ok [OF incident_events(2) _ cv] MAX_AUDIT_NUMBER_def del: bind_result_eq_Inr)
  then obtain view status ref ws' where run: "restore_incident_body plain_parsers officer example_rc 30 1 ?ws = (Inr (view, status, ref), ws')"
    by blast
  have "number_of (incident_doc JNull) = Some JNull" by (simp add: number_of_def obj_get_def incident_doc_def)
  with restore_clears_number [OF run src] content run show ?thesis by auto
qed

lemma keyed_record_runs:
  assumes "IDEMPOTENCY_KEY_PATTERN key" "length (request_digest C canonical) = 32"
    "idempotency_records (ident ws) = []" "rec = [new_record (rc_claim_id rc) (account_id who, act, key) (request_digest C canonical) (rc_now rc)]"
    and op: "op (ws\<lparr>ident := (ident ws)\<lparr>idempotency_records := rec\<rparr>\<rparr>) = (Inr (v, status, JObj kvs), ws2)"
      "idempotency_records (ident ws2) = rec"
    and ref: "safe_reference (JObj kvs)" "length (dumps True (JObj kvs)) \<le> 4096"
  shows "\<exists>ws3. keyed_record C rc who key act canonical replay op ws = (Inr v, ws3) \<and> ws3 = ws2\<lparr>ident := ident ws3\<rparr>
    \<and> staff_members (ident ws3) = staff_members (ident ws2)"
  using assms
  by (simp add: keyed_record_def in_ident_def claim_idempotency_def complete_idempotency_def new_record_def
      del: dumps.simps safe_reference.simps)

end
