(* ===== verification/Jobs.thy ===== *)
theory Jobs
  imports IncidentRules
begin

text \<open>
  The control records of AI jobs (\<open>src/backend/jobs/service.py\<close>, \<open>jobs/outbox.py\<close>, the rows of
  \<open>persistence/models/jobs.py\<close>): submission with its outbox row, the leases of the workers, and
  the finalisation of a job. The tables extend those of the reports, since a job, its outbox
  row, its idempotency record and its audit event are written in one transaction.
\<close>

section \<open>Rows\<close>

datatype job_type = Classify | Extract | Generate | Disciplinary_Job

fun job_type_text :: "job_type \<Rightarrow> string" where
  "job_type_text Classify = ''classify''"
| "job_type_text Extract = ''extract''"
| "job_type_text Generate = ''generate''"
| "job_type_text Disciplinary_Job = ''disciplinary''"

definition job_type_of :: "string \<Rightarrow> job_type option" where
  "job_type_of s = find_row job_type_text s [Classify, Extract, Generate, Disciplinary_Job]"

datatype job_state = Job_Queued | Job_Running | Job_Succeeded | Job_Failed | Job_Cancelled

datatype job_stage =
    Stage_Queued | Stage_Classifying | Stage_Extracting | Stage_Validating | Stage_Generating
  | Stage_Disciplinary | Stage_Completed | Stage_Failed

text \<open>
  The result of a job names revisions, never content: the revision of its incident, and the
  revisions of reports. It is stored as a JSON object with these two optional members.
\<close>

record result_reference =
  rr_incident_revision :: "int option"
  rr_reports :: "(uuid \<times> int) list option"

definition no_result :: result_reference where
  "no_result = \<lparr>rr_incident_revision = None, rr_reports = None\<rparr>"

definition result_reference_json :: "result_reference \<Rightarrow> json" where
  "result_reference_json r = JObj
     ((case rr_incident_revision r of None \<Rightarrow> [] | Some n \<Rightarrow> [(''incident_revision_number'', JInt n)]) @
      (case rr_reports r of None \<Rightarrow> [] | Some items \<Rightarrow>
         [(''reports'', JArr (map (\<lambda>(u, n). JObj [(''report_id'', JStr (uuid_str u)),
            (''revision_number'', JInt n)]) items))]))"

record ai_job =
  aj_id :: uuid
  aj_incident_id :: uuid
  aj_report_id :: "uuid option"
  aj_requested_by_account_id :: uuid
  aj_job_type :: job_type
  aj_state :: job_state
  aj_stage :: job_stage
  aj_idempotency_key :: string
  aj_request_sha256 :: bytes
  aj_base_incident_revision :: int
  aj_attempts :: nat
  aj_lease_expires_at :: "time option"
  aj_claim_token :: "uuid option"
  aj_request_metadata :: dict
  aj_result_reference :: result_reference
  aj_error_code :: "string option"
  aj_models :: dict
  aj_created_at :: time
  aj_started_at :: "time option"
  aj_completed_at :: "time option"

datatype outbox_state = Outbox_Pending | Outbox_Dispatched | Outbox_Failed

record task_outbox_row =
  ob_id :: uuid
  ob_ai_job_id :: uuid
  ob_state :: outbox_state
  ob_attempts :: nat
  ob_available_at :: time
  ob_dispatched_at :: "time option"
  ob_last_error_code :: "string option"
  ob_created_at :: time

record office = workspace +
  ai_jobs :: "ai_job list"
  task_outbox :: "task_outbox_row list"

abbreviation find_job :: "uuid \<Rightarrow> 'o office_scheme \<Rightarrow> ai_job option" where
  "find_job i os \<equiv> find_row aj_id i (ai_jobs os)"

definition put_job :: "ai_job \<Rightarrow> 'o office_scheme \<Rightarrow> 'o office_scheme" where
  "put_job job os = os\<lparr>ai_jobs := update_rows (\<lambda>j. aj_id j = aj_id job) (\<lambda>_. job) (ai_jobs os)\<rparr>"

section \<open>The reference to a result\<close>

definition RESULT_REFERENCE_KEYS :: "string list" where
  "RESULT_REFERENCE_KEYS = [''incident_revision_number'', ''reports'']"

definition RESULT_REPORT_REFERENCE_KEYS :: "string list" where
  "RESULT_REPORT_REFERENCE_KEYS = [''report_id'', ''revision_number'']"

definition MAX_RESULT_REPORT_REFERENCES :: nat where "MAX_RESULT_REPORT_REFERENCES = 20"

fun normalize_items :: "json list \<Rightarrow> uuid set \<Rightarrow> (uuid \<times> int) list result" where
  "normalize_items [] seen = Inr []"
| "normalize_items (JObj kvs # vs) seen =
     (if set (obj_keys kvs) \<noteq> set RESULT_REPORT_REFERENCE_KEYS then Inl InvalidJobResultReference
      else case (obj_get ''report_id'' kvs, obj_get ''revision_number'' kvs) of
        (Some (JStr doc), Some (JInt n)) \<Rightarrow>
          (case parse_uuid doc of None \<Rightarrow> Inl InvalidJobResultReference | Some u \<Rightarrow>
             if n < 1 \<or> u \<in> seen then Inl InvalidJobResultReference
             else bind_result (normalize_items vs (insert u seen)) (\<lambda>items. Inr ((u, n) # items)))
      | _ \<Rightarrow> Inl InvalidJobResultReference)"
| "normalize_items (_ # vs) seen = Inl InvalidJobResultReference"

definition by_report :: "uuid \<times> int \<Rightarrow> string" where
  "by_report item = uuid_str (fst item)"

definition normalize_reports :: "json option \<Rightarrow> (uuid \<times> int) list option result" where
  "normalize_reports v = (case v of
       None \<Rightarrow> Inr None
     | Some (JArr vs) \<Rightarrow>
         if length vs > MAX_RESULT_REPORT_REFERENCES then Inl InvalidJobResultReference
         else bind_result (normalize_items vs {}) (\<lambda>items. Inr (Some (sort_key by_report items)))
     | _ \<Rightarrow> Inl InvalidJobResultReference)"

definition normalize_incident_reference :: "json option \<Rightarrow> int option result" where
  "normalize_incident_reference v = (case v of
       None \<Rightarrow> Inr None
     | Some (JInt n) \<Rightarrow> if n < 1 then Inl InvalidJobResultReference else Inr (Some n)
     | _ \<Rightarrow> Inl InvalidJobResultReference)"

fun normalize_job_result_reference :: "json \<Rightarrow> result_reference result" where
  "normalize_job_result_reference (JObj kvs) =
     (if \<not> set (obj_keys kvs) \<subseteq> set RESULT_REFERENCE_KEYS then Inl InvalidJobResultReference
      else bind_result (normalize_incident_reference (obj_get ''incident_revision_number'' kvs)) (\<lambda>n.
           bind_result (normalize_reports (obj_get ''reports'' kvs)) (\<lambda>items.
             Inr \<lparr>rr_incident_revision = n, rr_reports = items\<rparr>)))"
| "normalize_job_result_reference _ = Inl InvalidJobResultReference"

section \<open>Submission\<close>

record submit_command =
  cm_incident_id :: uuid
  cm_job_type :: job_type
  cm_report_id :: "uuid option"

definition SubmitJobCommand :: "uuid \<Rightarrow> string \<Rightarrow> uuid option \<Rightarrow> submit_command result" where
  "SubmitJobCommand iid kind rid =
     (case job_type_of kind of
        None \<Rightarrow> Inl (ValueError ''job type is invalid'')
      | Some t \<Rightarrow> Inr \<lparr>cm_incident_id = iid, cm_job_type = t, cm_report_id = rid\<rparr>)"

definition canonical_payload :: "submit_command \<Rightarrow> int \<Rightarrow> json result" where
  "canonical_payload cm base =
     (if base < 1 then Inl (ValueError ''base revision must be a positive integer'')
      else Inr (JObj ([(''base_revision_number'', JInt base),
          (''incident_id'', JStr (uuid_str (cm_incident_id cm))),
          (''job_type'', JStr (job_type_text (cm_job_type cm)))] @
        (case cm_report_id cm of None \<Rightarrow> [] | Some r \<Rightarrow> [(''report_id'', JStr (uuid_str r))]))))"

definition job_from_reference :: "dict \<Rightarrow> 'o office_scheme \<Rightarrow> ai_job result" where
  "job_from_reference ref os =
     (case reference_uuid ''job_id'' ref of
        None \<Rightarrow> Inl (RuntimeError ''idempotency response reference is invalid'')
      | Some jid \<Rightarrow> (case find_job jid os of
          None \<Rightarrow> Inl (RuntimeError ''idempotency response reference is invalid'')
        | Some job \<Rightarrow> Inr job))"

text \<open>A live access row of the staff member on some report of the incident, or on one report.\<close>

definition live_on_incident :: "uuid \<Rightarrow> uuid \<Rightarrow> 'w workspace_scheme \<Rightarrow> bool" where
  "live_on_incident staff iid ws \<longleftrightarrow>
     list_ex (\<lambda>a. ra_staff_member_id a = staff \<and> ra_revoked_at a = None
       \<and> list_ex (\<lambda>r. rp_id r = ra_report_id a \<and> rp_incident_id r = iid) (reports ws)) (report_access ws)"

definition live_on_report :: "uuid \<Rightarrow> uuid \<Rightarrow> 'w workspace_scheme \<Rightarrow> bool" where
  "live_on_report staff rid ws \<longleftrightarrow>
     list_ex (\<lambda>a. ra_report_id a = rid \<and> ra_staff_member_id a = staff \<and> ra_revoked_at a = None)
       (report_access ws)"

definition authorize_incident :: "session_actor \<Rightarrow> uuid \<Rightarrow> 'w workspace_scheme \<Rightarrow> incident result" where
  "authorize_incident who iid ws =
     (case find_incident iid ws of None \<Rightarrow> Inl IncidentNotFound | Some inc \<Rightarrow>
        bind_result (get_incident who iid ws) (\<lambda>view.
          if staff_member_id who \<noteq> in_created_by_staff_member_id inc
             \<and> staff_member_id who \<notin> set (iv_reporting_staff_ids view)
             \<and> \<not> live_on_incident (staff_member_id who) iid ws
          then Inl IncidentNotFound else Inr inc))"

definition authorize_bound_report :: "session_actor \<Rightarrow> submit_command \<Rightarrow> 'w workspace_scheme \<Rightarrow> unit result" where
  "authorize_bound_report who cm ws =
     (case cm_report_id cm of None \<Rightarrow> Inr () | Some rid \<Rightarrow>
        (case find_report rid ws of None \<Rightarrow> Inl IncidentNotFound | Some rp \<Rightarrow>
           if rp_incident_id rp \<noteq> cm_incident_id cm \<or> \<not> live_on_report (staff_member_id who) rid ws
           then Inl IncidentNotFound else Inr ()))"

definition job_event ::
  "uuid \<Rightarrow> uuid \<Rightarrow> string \<Rightarrow> ai_job \<Rightarrow> string \<Rightarrow> string \<Rightarrow> dict \<Rightarrow> audit_event" where
  "job_event account staff act job req client kvs =
     (AuditEventInput (Some account) (Some staff) act (if act = ''ai.job_failed'' then Failed else Success)
       req ''ai_job'' (Some (aj_id job)) kvs)\<lparr>client_version := Some client\<rparr>"

definition append_job_audit ::
  "uuid \<Rightarrow> uuid \<Rightarrow> string \<Rightarrow> ai_job \<Rightarrow> string \<Rightarrow> string \<Rightarrow> dict
   \<Rightarrow> 'w workspace_scheme \<Rightarrow> unit result \<times> 'w workspace_scheme" where
  "append_job_audit account staff act job req client kvs =
     in_ident (append_audit (job_event account staff act job req client kvs))"

definition enqueue_job :: "uuid \<Rightarrow> uuid \<Rightarrow> time \<Rightarrow> 'o office_scheme \<Rightarrow> 'o office_scheme" where
  "enqueue_job row_id jid now os = os\<lparr>task_outbox := task_outbox os @
     [\<lparr>ob_id = row_id, ob_ai_job_id = jid, ob_state = Outbox_Pending, ob_attempts = 0,
       ob_available_at = now, ob_dispatched_at = None, ob_last_error_code = None, ob_created_at = now\<rparr>]\<rparr>"

definition new_job ::
  "crypto \<Rightarrow> session_actor \<Rightarrow> record_call \<Rightarrow> submit_command \<Rightarrow> json \<Rightarrow> string \<Rightarrow> int \<Rightarrow> ai_job" where
  "new_job C who rc cm canonical key base =
     \<lparr>aj_id = rc_row_id rc, aj_incident_id = cm_incident_id cm, aj_report_id = cm_report_id cm,
      aj_requested_by_account_id = account_id who, aj_job_type = cm_job_type cm,
      aj_state = Job_Queued, aj_stage = Stage_Queued, aj_idempotency_key = key,
      aj_request_sha256 = request_digest C canonical, aj_base_incident_revision = base,
      aj_attempts = 0, aj_lease_expires_at = None, aj_claim_token = None,
      aj_request_metadata = [(''base_revision_number'', JInt base)],
      aj_result_reference = no_result, aj_error_code = None, aj_models = [],
      aj_created_at = rc_now rc, aj_started_at = None, aj_completed_at = None\<rparr>"

definition insert_job ::
  "crypto \<Rightarrow> session_actor \<Rightarrow> record_call \<Rightarrow> submit_command \<Rightarrow> json \<Rightarrow> string \<Rightarrow> int \<Rightarrow> incident
   \<Rightarrow> 'o office_scheme \<Rightarrow> (ai_job \<times> int \<times> json) result \<times> 'o office_scheme" where
  "insert_job C who rc cm canonical key base inc os =
     (case check_base_incident inc base of Inl e \<Rightarrow> (Inl e, os) | Inr _ \<Rightarrow>
        let job = new_job C who rc cm canonical key base;
            os1 = enqueue_job (rc_revision_id rc) (aj_id job) (rc_now rc) (os\<lparr>ai_jobs := ai_jobs os @ [job]\<rparr>)
        in and_then (append_job_audit (account_id who) (staff_member_id who) ''ai.job_submitted'' job
               (rc_request_id rc) (rc_client_version rc)
               [(''job_id'', JStr (uuid_str (aj_id job))),
                (''job_type'', JStr (job_type_text (cm_job_type cm))),
                (''incident_id'', JStr (uuid_str (cm_incident_id cm)))] os1)
             (\<lambda>_ os2. (Inr (job, 202, JObj [(''job_id'', JStr (uuid_str (aj_id job)))]), os2)))"

definition submit_job ::
  "crypto \<Rightarrow> session_actor \<Rightarrow> record_call \<Rightarrow> submit_command \<Rightarrow> string \<Rightarrow> int
   \<Rightarrow> 'o office_scheme \<Rightarrow> ai_job result \<times> 'o office_scheme" where
  "submit_job C who rc cm key base os =
     (case bind_result (canonical_payload cm base) (\<lambda>canonical.
           bind_result (authorize_incident who (cm_incident_id cm) os) (\<lambda>inc.
           bind_result (authorize_bound_report who cm os) (\<lambda>_. Inr (canonical, inc)))) of
        Inl e \<Rightarrow> (Inl e, os)
      | Inr (canonical, inc) \<Rightarrow>
          keyed_record C rc who key ''ai.job.submit'' canonical job_from_reference
            (insert_job C who rc cm canonical key base inc) os)"

definition get_job :: "session_actor \<Rightarrow> uuid \<Rightarrow> 'o office_scheme \<Rightarrow> ai_job result" where
  "get_job who jid os =
     (case find_job jid os of None \<Rightarrow> Inl JobNotFound | Some job \<Rightarrow>
        if actor_role who \<noteq> Admin \<and> aj_requested_by_account_id job \<noteq> account_id who
        then Inl JobNotFound
        else case get_incident who (aj_incident_id job) os of
          Inl e \<Rightarrow> Inl (if e = IncidentNotFound then JobNotFound else e)
        | Inr _ \<Rightarrow> Inr job)"

section \<open>Leases\<close>

fun CLAIM_STAGES :: "job_type \<Rightarrow> job_stage" where
  "CLAIM_STAGES Classify = Stage_Classifying"
| "CLAIM_STAGES Extract = Stage_Extracting"
| "CLAIM_STAGES Generate = Stage_Validating"
| "CLAIM_STAGES Disciplinary_Job = Stage_Disciplinary"

definition TERMINAL_STATES :: "job_state list" where
  "TERMINAL_STATES = [Job_Succeeded, Job_Failed, Job_Cancelled]"

definition JOB_LEASE_DURATION :: time where "JOB_LEASE_DURATION = minutes 20"

definition claimable :: "time \<Rightarrow> ai_job \<Rightarrow> bool" where
  "claimable now job \<longleftrightarrow> aj_state job = Job_Queued
     \<or> aj_state job = Job_Running
       \<and> (case aj_lease_expires_at job of None \<Rightarrow> True | Some t \<Rightarrow> t \<le> now)"

definition claimed_job :: "uuid \<Rightarrow> time \<Rightarrow> ai_job \<Rightarrow> ai_job" where
  "claimed_job token now job = job\<lparr>aj_state := Job_Running, aj_stage := CLAIM_STAGES (aj_job_type job),
     aj_attempts := aj_attempts job + 1,
     aj_started_at := (if aj_started_at job = None then Some now else aj_started_at job),
     aj_claim_token := Some token, aj_lease_expires_at := Some (now + JOB_LEASE_DURATION)\<rparr>"

definition claim_job ::
  "uuid \<Rightarrow> time \<Rightarrow> uuid \<Rightarrow> 'o office_scheme \<Rightarrow> ai_job option \<times> 'o office_scheme" where
  "claim_job jid now token os =
     (case find_job jid os of None \<Rightarrow> (None, os) | Some job \<Rightarrow>
        if \<not> claimable now job then (None, os)
        else (Some (claimed_job token now job), put_job (claimed_job token now job) os))"

definition holds_lease :: "uuid option \<Rightarrow> time \<Rightarrow> ai_job \<Rightarrow> bool" where
  "holds_lease token now job \<longleftrightarrow> token \<noteq> None \<and> aj_claim_token job = token
     \<and> (case aj_lease_expires_at job of None \<Rightarrow> False | Some t \<Rightarrow> now < t)"

section \<open>Finalisation\<close>

definition validate_result_targets :: "ai_job \<Rightarrow> result_reference \<Rightarrow> 'o office_scheme \<Rightarrow> unit result" where
  "validate_result_targets job ref os =
     require
       ((case rr_incident_revision ref of None \<Rightarrow> True
         | Some n \<Rightarrow> find_incident_revision (aj_incident_id job) n os \<noteq> None)
        \<and> list_all (\<lambda>(rid, n). find_report_revision rid n os \<noteq> None
             \<and> (case find_report rid os of None \<Rightarrow> False
                | Some rp \<Rightarrow> rp_incident_id rp = aj_incident_id job))
            (case rr_reports ref of None \<Rightarrow> [] | Some items \<Rightarrow> items))
       InvalidJobResultReference"

definition ended_job :: "job_state \<Rightarrow> job_stage \<Rightarrow> string option \<Rightarrow> time \<Rightarrow> ai_job \<Rightarrow> ai_job" where
  "ended_job st stage err now job = job\<lparr>aj_state := st, aj_stage := stage, aj_error_code := err,
     aj_completed_at := Some now, aj_claim_token := None, aj_lease_expires_at := None\<rparr>"

definition latency_ms :: "time \<Rightarrow> ai_job \<Rightarrow> int" where
  "latency_ms now job = max 0 (min ((now - aj_created_at job) div 1000) 1000000000)"

definition WORKER_VERSION :: string where "WORKER_VERSION = ''0.0.0-worker''"

text \<open>\<open>int(...)\<close> rounds towards zero: a negative quotient is cut off at 0 either way.\<close>

definition apply_job_result ::
  "uuid \<Rightarrow> int \<Rightarrow> uuid option \<Rightarrow> json option \<Rightarrow> time \<Rightarrow> string option
   \<Rightarrow> 'o office_scheme \<Rightarrow> unit result \<times> 'o office_scheme" where
  "apply_job_result jid expected token ref now req os =
     (case bind_result (require (1 \<le> expected)
             (ValueError ''expected incident revision must be a positive integer'')) (\<lambda>_.
           normalize_job_result_reference (case ref of None \<Rightarrow> JObj [] | Some v \<Rightarrow> v)) of
        Inl e \<Rightarrow> (Inl e, os)
      | Inr safe \<Rightarrow>
     (case find_job jid os of None \<Rightarrow> (Inl JobNotFound, os) | Some job \<Rightarrow>
        if aj_state job \<in> set TERMINAL_STATES then (Inr (), os)
        else if aj_state job \<noteq> Job_Running
        then (Inl (ValueError ''job must be claimed before applying a result''), os)
        else if \<not> holds_lease token now job then (Inl StaleJobClaim, os)
        else case find_incident (aj_incident_id job) os of None \<Rightarrow> (Inl JobNotFound, os) | Some inc \<Rightarrow>
       (case find_account (aj_requested_by_account_id job) (ident os) of
          None \<Rightarrow> (Inl (RuntimeError ''job requester attribution is unavailable''), os)
        | Some acc \<Rightarrow>
            let rid = or_default req (''job_'' @ uuid_str (aj_id job));
                kvs = [(''job_id'', JStr (uuid_str (aj_id job))),
                       (''job_type'', JStr (job_type_text (aj_job_type job)))]
            in if expected \<noteq> aj_base_incident_revision job \<or> in_current_revision_number inc \<noteq> expected
               then append_job_audit (ac_id acc) (ac_staff_member_id acc) ''ai.job_failed'' job rid WORKER_VERSION
                 (kvs @ [(''result_code'', JStr ''job_result_conflict'')])
                 (put_job (ended_job Job_Failed Stage_Failed (Some ''job_result_conflict'') now job) os)
               else case validate_result_targets job safe os of Inl e \<Rightarrow> (Inl e, os) | Inr _ \<Rightarrow>
                 append_job_audit (ac_id acc) (ac_staff_member_id acc) ''ai.job_succeeded'' job rid WORKER_VERSION
                   (kvs @ [(''latency_ms'', JInt (latency_ms now job))])
                   (put_job ((ended_job Job_Succeeded Stage_Completed None now job)\<lparr>aj_result_reference := safe\<rparr>) os))))"

end
