(* ===== verification/PyText.thy ===== *)
theory PyText
  imports Text
begin

text \<open>
  More of Python's text: the character classes of \<open>str\<close> and of regular expressions on the code
  points below 256, \<open>repr\<close> and \<open>str\<close> of decoded JSON, the items a decoded value yields when it is
  iterated, and dictionaries built by assignment.
\<close>

section \<open>Character classes\<close>

definition is_letter_ascii :: "char \<Rightarrow> bool" where
  "is_letter_ascii c \<longleftrightarrow> is_upper_ascii c \<or> is_lower_ascii c"

definition isalpha_char :: "char \<Rightarrow> bool" where
  "isalpha_char c \<longleftrightarrow> is_letter_ascii c \<or> code c \<in> {170, 181, 186}
     \<or> 192 \<le> code c \<and> code c \<noteq> 215 \<and> code c \<noteq> 247"

definition islower_char :: "char \<Rightarrow> bool" where
  "islower_char c \<longleftrightarrow> is_lower_ascii c \<or> code c \<in> {170, 181, 186}
     \<or> 223 \<le> code c \<and> code c \<noteq> 247"

definition isdigit_char :: "char \<Rightarrow> bool" where
  "isdigit_char c \<longleftrightarrow> is_digit c \<or> code c \<in> {178, 179, 185}"

definition isalnum_char :: "char \<Rightarrow> bool" where
  "isalnum_char c \<longleftrightarrow> isalpha_char c \<or> isdigit_char c \<or> code c \<in> {188, 189, 190}"

definition isalnum :: "string \<Rightarrow> bool" where
  "isalnum s \<longleftrightarrow> s \<noteq> [] \<and> list_all isalnum_char s"

definition is_word_char :: "char \<Rightarrow> bool" where
  "is_word_char c \<longleftrightarrow> is_upper_ascii c \<or> is_lower_ascii c \<or> is_digit c \<or> c = CHR ''_''
     \<or> code c \<in> {170, 178, 179, 181, 185, 186, 188, 189, 190}
     \<or> 192 \<le> code c \<and> code c \<noteq> 215 \<and> code c \<noteq> 247"

section \<open>Python's \<open>str\<close> of a decoded document\<close>

definition is_printable :: "char \<Rightarrow> bool" where
  "is_printable c \<longleftrightarrow> 32 \<le> code c \<and> code c \<le> 126 \<or> 161 \<le> code c \<and> code c \<noteq> 173"

definition repr_char :: "char \<Rightarrow> char \<Rightarrow> string" where
  "repr_char q c =
     (if c = q \<or> c = CHR 0x5C then [CHR 0x5C, c]
      else if code c = 10 then [CHR 0x5C, CHR ''n'']
      else if code c = 13 then [CHR 0x5C, CHR ''r'']
      else if code c = 9 then [CHR 0x5C, CHR ''t'']
      else if is_printable c then [c]
      else [CHR 0x5C, CHR ''x''] @ hex_str 2 (code c))"

definition repr_str :: "string \<Rightarrow> string" where
  "repr_str s =
     (let q = (if CHR 0x27 \<in> set s \<and> CHR 0x22 \<notin> set s then CHR 0x22 else CHR 0x27)
      in [q] @ concat (map (repr_char q) s) @ [q])"

fun py_repr :: "json \<Rightarrow> string" where
  "py_repr JNull = ''None''"
| "py_repr (JBool b) = (if b then ''True'' else ''False'')"
| "py_repr (JInt i) = int_str i"
| "py_repr (JFloat s) = (if s = ''NaN'' then ''nan'' else if s = ''Infinity'' then ''inf''
     else if s = ''-Infinity'' then ''-inf'' else s)"
| "py_repr (JStr s) = repr_str s"
| "py_repr (JArr vs) = ''['' @ join '', '' (map py_repr vs) @ '']''"
| "py_repr (JObj kvs) =
     ''{'' @ join '', '' (map (\<lambda>(k, t). repr_str k @ '': '' @ t) (map (\<lambda>(k, v). (k, py_repr v)) kvs)) @ ''}''"

definition py_str :: "json \<Rightarrow> string" where
  "py_str v = (case v of JStr s \<Rightarrow> s | _ \<Rightarrow> py_repr v)"

text \<open>\<open>for x in value\<close>: the items of a list, the characters of a text, the keys of a dictionary.\<close>

fun py_items :: "json \<Rightarrow> json list result" where
  "py_items (JArr vs) = Inr vs"
| "py_items (JStr s) = Inr (map (\<lambda>c. JStr [c]) s)"
| "py_items (JObj kvs) = Inr (map JStr (obj_keys kvs))"
| "py_items _ = Inl TypeError"

text \<open>\<open>set(value) == {...}\<close> for a dictionary, and \<open>" ".join(text.split())\<close>.\<close>

definition has_keys :: "string list \<Rightarrow> (string \<times> 'v) list \<Rightarrow> bool" where
  "has_keys ks kvs \<longleftrightarrow> set (map fst kvs) = set ks"

definition squeeze :: "string \<Rightarrow> string" where
  "squeeze s = join '' '' (split s)"

text \<open>\<open>value[key]\<close> of a dictionary whose keys have been checked.\<close>

definition at_key :: "string \<Rightarrow> (string \<times> json) list \<Rightarrow> json" where
  "at_key k kvs = (case obj_get k kvs of None \<Rightarrow> JNull | Some v \<Rightarrow> v)"

text \<open>\<open>value[key]\<close> in general: only a dictionary takes a text as its key.\<close>

definition subscript :: "string \<Rightarrow> json \<Rightarrow> json result" where
  "subscript k v =
     (case v of
        JObj kvs \<Rightarrow> (case obj_get k kvs of None \<Rightarrow> Inl KeyError | Some x \<Rightarrow> Inr x)
      | _ \<Rightarrow> Inl TypeError)"

text \<open>The same step for every element of a list, stopping at the first exception.\<close>

fun map_result :: "('a \<Rightarrow> 'b result) \<Rightarrow> 'a list \<Rightarrow> 'b list result" where
  "map_result f [] = Inr []"
| "map_result f (x # xs) = bind_result (f x) (\<lambda>y. bind_result (map_result f xs) (\<lambda>ys. Inr (y # ys)))"

lemma map_result_Inr: "map_result f xs = Inr ys \<longleftrightarrow> list_all2 (\<lambda>x y. f x = Inr y) xs ys"
  by (induction xs arbitrary: ys) (auto simp: list_all2_Cons1)

lemma map_result_member:
  "map_result f xs = Inr ys \<Longrightarrow> y \<in> set ys \<Longrightarrow> \<exists>x \<in> set xs. f x = Inr y"
  "map_result f xs = Inr ys \<Longrightarrow> x \<in> set xs \<Longrightarrow> \<exists>y \<in> set ys. f x = Inr y"
  by (induction xs arbitrary: ys) auto

section \<open>Whole numbers\<close>

text \<open>\<open>int\<close> of a text: an optional sign and digits, between which single underscores may stand.\<close>

fun int_digits :: "bool \<Rightarrow> string \<Rightarrow> int \<Rightarrow> int option" where
  "int_digits digit_before [] n = (if digit_before then Some n else None)"
| "int_digits digit_before (c # cs) n =
     (if is_digit c then int_digits True cs (10 * n + int (code c) - 48)
      else if c = CHR ''_'' \<and> digit_before then int_digits False cs n else None)"

definition py_int :: "string \<Rightarrow> int option" where
  "py_int s =
     (let t = strip s
      in if t \<noteq> [] \<and> hd t = CHR ''-'' then map_option uminus (int_digits False (tl t) 0)
         else if t \<noteq> [] \<and> hd t = CHR ''+'' then int_digits False (tl t) 0
         else int_digits False t 0)"

lemma int_digits_all:
  "\<forall>c \<in> set ds. is_digit c \<Longrightarrow> int_digits b ds n =
     (if ds = [] \<and> \<not> b then None else Some (foldl (\<lambda>n c. 10 * n + int (code c) - 48) n ds))"
  by (induction b ds n rule: int_digits.induct) auto

lemma digit_char_decimal: "k < 10 \<Longrightarrow> is_digit (digit_char k) \<and> code (digit_char k) = k + 48"
  by (simp add: digit_char_def is_digit_def in_range_def)

lemma nat_str_digits: "c \<in> set (nat_str n) \<Longrightarrow> is_digit c"
proof (induction n rule: nat_str.induct)
  case (1 n)
  then show ?case using digit_char_decimal [of n] digit_char_decimal [of "n mod 10"]
    by (subst (asm) (2) nat_str.simps) (auto split: if_splits)
qed

lemma int_digits_nat_str: "int_digits False (nat_str n) 0 = Some (int n)"
proof -
  have "foldl (\<lambda>n c. 10 * n + int (code c) - 48) 0 (nat_str n) = int n"
  proof (induction n rule: nat_str.induct)
    case (1 n)
    show ?case using 1 digit_char_decimal [of n] digit_char_decimal [of "n mod 10"]
      by (subst nat_str.simps) (simp add: zdiv_int zmod_int)
  qed
  moreover have "nat_str n \<noteq> []" by (subst nat_str.simps) simp
  ultimately show ?thesis using int_digits_all [of "nat_str n"] nat_str_digits by simp
qed

lemma py_int_int_str [simp]: "py_int (int_str i) = Some i"
proof -
  have space: "\<not> is_space c" if "is_digit c \<or> c = CHR ''-''" for c
    using that by (auto simp: is_space_def is_digit_def in_range_def)
  have "strip (int_str i) = int_str i"
    by (rule strip_id) (auto simp: int_str_def dest!: nat_str_digits intro!: space split: if_splits)
  moreover have "nat_str k \<noteq> []" for k by (subst nat_str.simps) simp
  moreover have "hd (nat_str k) \<noteq> CHR ''-'' \<and> hd (nat_str k) \<noteq> CHR ''+''" for k
    using nat_str_digits [of "hd (nat_str k)" k] \<open>nat_str k \<noteq> []\<close> by (auto simp: is_digit_def in_range_def)
  ultimately show ?thesis by (simp add: py_int_def Let_def int_str_def int_digits_nat_str)
qed

end
