(* ===== verification/Worker.thy ===== *)
theory Worker
  imports Jobs PyText
begin

text \<open>
  The worker that executes AI jobs (\<open>src/backend/worker/routes.py\<close>): it claims a job under a
  lease, checks the requester and the targets again, calls the report engine, and writes the
  result and the end of the job in one transaction. Every step is a transaction of its own, so
  other workers act between them.

  The engine is a parameter: a function of the state and the job that returns a document or
  raises. What it returns is normalised and validated here.
\<close>

section \<open>The result of the engine\<close>

record job_engine_result =
  je_report_content :: "dict option"
  je_incident_content :: "dict option"
  je_report_contents :: "(string \<times> dict) list"

definition no_engine_result :: job_engine_result where
  "no_engine_result = \<lparr>je_report_content = None, je_incident_content = None, je_report_contents = []\<rparr>"

datatype engine_output = Engine_Result job_engine_result | Raw json

definition REPORT_KEYS :: "string \<Rightarrow> report_type option" where
  "REPORT_KEYS s = find_row report_type_text s
     [First_Person, Supervisor_Summary, Cover_Letter, Disciplinary, Investigation, Form_005]"

definition MAX_RESULT_REPORTS :: nat where "MAX_RESULT_REPORTS = 20"

text \<open>
  \<open>_PLACEHOLDER.match\<close>: white space, the bracketed words in any case, and a word boundary.
\<close>

definition is_placeholder :: "string \<Rightarrow> bool" where
  "is_placeholder s =
     (let t = lstrip s; mark = ''[error generating''; rest = drop (length mark) t
      in lower (take (length mark) t) = mark \<and> (rest = [] \<or> \<not> is_word_char (hd rest)))"

definition content_at :: "string \<Rightarrow> incident \<Rightarrow> json" where
  "content_at k inc = (case obj_get k (in_content inc) of None \<Rightarrow> JNull | Some v \<Rightarrow> v)"

definition incident_payload :: "incident \<Rightarrow> dict" where
  "incident_payload inc =
     (''schema_version'', JInt 1) #
     map (\<lambda>k. (k, content_at k inc))
       [''field_notes'', ''incident_date'', ''incident_time'', ''facility'', ''shift'', ''location'',
        ''category'', ''classification'', ''extracted_facts'', ''gap_answers'', ''charges'', ''validation''] @
     [(''warnings'', JArr [])]"

definition updated :: "dict \<Rightarrow> dict \<Rightarrow> dict" where
  "updated kvs new = fold (\<lambda>(k, v). AList.update k v) new kvs"

abbreviation output_invalid :: exn where
  "output_invalid \<equiv> TerminalJobFailure ''job_output_invalid''"

definition markers_of :: "dict \<Rightarrow> json list" where
  "markers_of doc = (case obj_get ''markers'' doc of
     Some (JArr vs) \<Rightarrow> map (\<lambda>v. JStr (take 200 (py_str v))) (take 100 vs) | _ \<Rightarrow> [])"

definition picked :: "string list \<Rightarrow> dict \<Rightarrow> dict" where
  "picked ks doc = concat (map (\<lambda>k. case obj_get k doc of None \<Rightarrow> [] | Some v \<Rightarrow> [(k, v)]) ks)"

definition items_at :: "string \<Rightarrow> dict \<Rightarrow> json list" where
  "items_at k doc = (case obj_get k doc of Some (JArr vs) \<Rightarrow> vs | _ \<Rightarrow> [])"

fun is_str :: "json \<Rightarrow> bool" where
  "is_str (JStr s) = True"
| "is_str _ = False"

definition incident_result :: "date_parsers \<Rightarrow> incident \<Rightarrow> dict \<Rightarrow> job_engine_result result" where
  "incident_result P inc new =
     bind_result (validate_incident_content P (JObj (updated (incident_payload inc) new)))
       (\<lambda>content. Inr (no_engine_result\<lparr>je_incident_content := Some content\<rparr>))"

definition classify_result :: "date_parsers \<Rightarrow> incident \<Rightarrow> dict \<Rightarrow> job_engine_result result" where
  "classify_result P inc doc =
     (case (obj_get ''incident_type'' doc,
            case obj_get ''charges'' doc of None \<Rightarrow> JArr [] | Some v \<Rightarrow> v) of
        (Some (JStr t), JArr cs) \<Rightarrow>
          if strip t = [] \<or> \<not> list_all is_str cs then Inl output_invalid
          else incident_result P inc [(''category'', JStr t), (''classification'', JObj doc),
                 (''charges'', JArr cs)]
      | _ \<Rightarrow> Inl output_invalid)"

definition extract_result :: "date_parsers \<Rightarrow> incident \<Rightarrow> dict \<Rightarrow> job_engine_result result" where
  "extract_result P inc doc =
     (case obj_get ''slots'' doc of
        Some (JObj slots) \<Rightarrow> incident_result P inc
          [(''extracted_facts'', JObj slots),
           (''validation'', JObj (picked [''gaps'', ''blocking_remaining'', ''checklist'', ''auto_content''] doc)),
           (''warnings'', JArr (markers_of doc))]
      | _ \<Rightarrow> Inl output_invalid)"

definition is_narrative :: "json \<Rightarrow> bool" where
  "is_narrative v = (case v of JStr s \<Rightarrow> strip s \<noteq> [] | _ \<Rightarrow> False)"

fun report_texts :: "json list \<Rightarrow> dict \<Rightarrow> (string \<times> json) list \<Rightarrow> (string \<times> dict) list result" where
  "report_texts warnings validation [] = Inr []"
| "report_texts warnings validation ((key, narrative) # rest) =
     (if REPORT_KEYS key = None then report_texts warnings validation rest
      else case narrative of
        JStr s \<Rightarrow>
          if strip s = [] \<or> is_placeholder s then Inl output_invalid
          else bind_result (validate_report_content (JObj [(''narrative'', narrative),
                  (''validation'', JObj validation), (''warnings'', JArr warnings)])) (\<lambda>content.
               bind_result (report_texts warnings validation rest) (\<lambda>others. Inr ((key, content) # others)))
      | _ \<Rightarrow> Inl output_invalid)"

definition form_005_text ::
  "json list \<Rightarrow> dict \<Rightarrow> dict \<Rightarrow> dict \<Rightarrow> dict result" where
  "form_005_text warnings validation reps form =
     (let first = (case obj_get ''first_person'' reps of None \<Rightarrow> JNull | Some v \<Rightarrow> v);
          narrative = (case obj_get ''narrative'' form of Some v \<Rightarrow> if truthy v then v else first | None \<Rightarrow> first)
      in if \<not> is_narrative narrative then Inl output_invalid
         else validate_report_content (JObj [(''narrative'', narrative),
           (''editable_fields'', JObj (filter (\<lambda>(k, v). is_scalar v) form)),
           (''validation'', JObj validation), (''warnings'', JArr warnings)]))"

definition generate_result :: "job_type \<Rightarrow> dict \<Rightarrow> job_engine_result result" where
  "generate_result kind doc =
     (case obj_get ''reports'' doc of
        Some (JObj reps) \<Rightarrow>
          if items_at ''generation_errors'' doc @ items_at ''_errors'' doc @ items_at ''_errors'' reps \<noteq> []
          then Inl TransientJobFailure
          else
            let selected = (if kind = Disciplinary_Job
                  then [(''disciplinary'', case obj_get ''disciplinary'' reps of None \<Rightarrow> JNull | Some v \<Rightarrow> v)]
                  else reps);
                warnings = markers_of doc; validation = picked [''style'', ''flags'', ''repaired''] doc
            in bind_result (report_texts warnings validation selected) (\<lambda>contents.
               bind_result
                 (case (kind, obj_get ''form005'' doc) of
                    (Generate, Some (JObj form)) \<Rightarrow>
                      if form = [] then Inr contents
                      else bind_result (form_005_text warnings validation reps form)
                        (\<lambda>content. Inr (AList.update ''form_005'' content contents))
                  | _ \<Rightarrow> Inr contents) (\<lambda>contents.
               if contents = [] then Inl output_invalid
               else Inr (no_engine_result\<lparr>je_report_contents := contents\<rparr>)))
      | _ \<Rightarrow> Inl output_invalid)"

definition normalize_engine_result ::
  "date_parsers \<Rightarrow> ai_job \<Rightarrow> incident \<Rightarrow> engine_output \<Rightarrow> job_engine_result result" where
  "normalize_engine_result P job inc out =
     (case out of
        Engine_Result r \<Rightarrow> Inr r
      | Raw (JObj doc) \<Rightarrow>
          (case aj_job_type job of
             Classify \<Rightarrow> classify_result P inc doc
           | Extract \<Rightarrow> extract_result P inc doc
           | kind \<Rightarrow> generate_result kind doc)
      | Raw _ \<Rightarrow> Inl output_invalid)"

section \<open>The shipped engine\<close>

text \<open>
  \<open>RouteNeutralReportEngine\<close> passes a job to the report service, whose four functions call the
  language model and are parameters.
\<close>

record report_service =
  classify_incident_notes :: "json \<Rightarrow> engine_output result"
  extract_incident_notes :: "json \<Rightarrow> string \<Rightarrow> staff_member list \<Rightarrow> engine_output result"
  generate_report_set :: "json \<Rightarrow> staff_member list \<Rightarrow> engine_output result"
  generate_disciplinary_report :: "json \<Rightarrow> staff_member list \<Rightarrow> engine_output result"

definition or_empty :: "json \<Rightarrow> json" where
  "or_empty v = (if truthy v then v else JStr [])"

definition first_person_source :: "ai_job \<Rightarrow> incident \<Rightarrow> 'o office_scheme \<Rightarrow> report option" where
  "first_person_source job inc os =
     (let mine = (\<lambda>r. rp_incident_id r = in_id inc \<and> rp_report_type r = First_Person);
          bound = (case aj_report_id job of None \<Rightarrow> None | Some i \<Rightarrow> find_report i os)
      in case bound of
           Some rp \<Rightarrow> if rp_report_type rp = First_Person then Some rp
             else List.find (\<lambda>r. mine r
               \<and> rp_reporting_staff_member_id r = rp_reporting_staff_member_id rp) (reports os)
         | None \<Rightarrow> (case sort_key rp_id (filter mine (reports os)) of [] \<Rightarrow> None | r # _ \<Rightarrow> Some r))"

definition generation_payload :: "ai_job \<Rightarrow> incident \<Rightarrow> 'o office_scheme \<Rightarrow> json" where
  "generation_payload job inc os = JObj
     ([(''notes'', content_at ''field_notes'' inc), (''category'', or_empty (content_at ''category'' inc)),
       (''slots'', content_at ''extracted_facts'' inc), (''answers'', content_at ''gap_answers'' inc),
       (''charges'', content_at ''charges'' inc)] @
      (if aj_job_type job = Disciplinary_Job
       then [(''reports'', JObj [(''first_person'', JStr (case first_person_source job inc os of
               None \<Rightarrow> [] | Some rp \<Rightarrow> (case obj_get ''narrative'' (rp_current_content rp) of
                 None \<Rightarrow> [] | Some v \<Rightarrow> py_str v)))])]
       else []))"

definition extract_category :: "incident \<Rightarrow> string" where
  "extract_category inc =
     (if truthy (content_at ''category'' inc) then py_str (content_at ''category'' inc)
      else case content_at ''classification'' inc of
        JObj kvs \<Rightarrow> (case obj_get ''incident_type'' kvs of None \<Rightarrow> [] | Some v \<Rightarrow> py_str v)
      | _ \<Rightarrow> [])"

definition route_neutral_engine :: "report_service \<Rightarrow> 'o office_scheme \<Rightarrow> ai_job \<Rightarrow> engine_output result" where
  "route_neutral_engine S os job =
     (case find_incident (aj_incident_id job) os of
        None \<Rightarrow> Inl (TerminalJobFailure ''job_target_invalid'')
      | Some inc \<Rightarrow>
          (case aj_job_type job of
             Classify \<Rightarrow> classify_incident_notes S (content_at ''field_notes'' inc)
           | Extract \<Rightarrow> if extract_category inc = [] then Inl output_invalid
               else extract_incident_notes S (content_at ''field_notes'' inc) (extract_category inc)
                 (staff_members (ident os))
           | Generate \<Rightarrow> generate_report_set S (generation_payload job inc os) (staff_members (ident os))
           | Disciplinary_Job \<Rightarrow>
               generate_disciplinary_report S (generation_payload job inc os) (staff_members (ident os))))"

section \<open>Authorisation at execution time\<close>

abbreviation target_invalid :: exn where
  "target_invalid \<equiv> TerminalJobFailure ''job_target_invalid''"

abbreviation authorization_invalid :: exn where
  "authorization_invalid \<equiv> TerminalJobFailure ''job_authorization_invalid''"

definition worker_actor :: "ai_job \<Rightarrow> 'o office_scheme \<Rightarrow> session_actor result" where
  "worker_actor job os =
     (case find_account (aj_requested_by_account_id job) (ident os) of
        None \<Rightarrow> Inl authorization_invalid
      | Some a \<Rightarrow> (case find_staff (ac_staff_member_id a) (ident os) of
          None \<Rightarrow> Inl authorization_invalid
        | Some s \<Rightarrow> if ac_status a \<noteq> Active \<or> \<not> st_is_active s then Inl authorization_invalid
            else Inr \<lparr>account_id = ac_id a, staff_member_id = ac_staff_member_id a, session_id = aj_id job,
                   actor_role = ac_role a, actor_auth_version = ac_auth_version a,
                   must_change_pin = ac_must_change_pin a\<rparr>))"

definition authorize_report_target ::
  "ai_job \<Rightarrow> session_actor \<Rightarrow> 'o office_scheme \<Rightarrow> report option result" where
  "authorize_report_target job who os =
     (case aj_report_id job of None \<Rightarrow> Inr None | Some rid \<Rightarrow>
        (case find_report rid os of None \<Rightarrow> Inl target_invalid | Some rp \<Rightarrow>
           if rp_incident_id rp \<noteq> aj_incident_id job then Inl target_invalid
           else if \<not> live_on_report (staff_member_id who) rid os then Inl authorization_invalid
           else Inr (Some rp)))"

definition source_revision :: "ai_job \<Rightarrow> 'o office_scheme \<Rightarrow> incident_revision result" where
  "source_revision job os =
     (case find_incident_revision (aj_incident_id job) (aj_base_incident_revision job) os of
        None \<Rightarrow> Inl target_invalid | Some r \<Rightarrow> Inr r)"

definition snapshot_staff :: "incident_revision \<Rightarrow> json option" where
  "snapshot_staff r = (case obj_get ''server_metadata'' (ir_snapshot r) of
     Some (JObj meta) \<Rightarrow> obj_get ''reporting_staff_ids'' meta | _ \<Rightarrow> None)"

definition reporting_staff_ids :: "incident_revision \<Rightarrow> 'o office_scheme \<Rightarrow> uuid list result" where
  "reporting_staff_ids r os =
     (case snapshot_staff r of
        Some (JArr vs) \<Rightarrow>
          if length vs < 1 \<or> 20 < length vs then Inl target_invalid
          else (let parsed = map (\<lambda>v. parse_uuid (py_str v)) vs; ids = map the parsed
                in if None \<in> set parsed \<or> \<not> distinct ids \<or> \<not> all_active ids (ident os)
                   then Inl target_invalid else Inr ids)
      | _ \<Rightarrow> Inl target_invalid)"

text \<open>A value that cannot be iterated, or an item that is no identifier, selects nobody.\<close>

definition selected_staff :: "incident_revision \<Rightarrow> uuid set" where
  "selected_staff r =
     (let texts = (case snapshot_staff r of
            Some (JArr vs) \<Rightarrow> map py_str vs | Some (JObj kvs) \<Rightarrow> obj_keys kvs
          | Some (JStr s) \<Rightarrow> map (\<lambda>c. [c]) s | _ \<Rightarrow> []);
          parsed = map parse_uuid texts
      in if None \<in> set parsed then {} else set (map the parsed))"

definition authorize_incident_target ::
  "incident \<Rightarrow> incident_revision \<Rightarrow> session_actor \<Rightarrow> 'o office_scheme \<Rightarrow> unit result" where
  "authorize_incident_target inc source who os =
     require (staff_member_id who = in_created_by_staff_member_id inc
         \<or> staff_member_id who \<in> selected_staff source
         \<or> live_on_incident (staff_member_id who) (in_id inc) os) authorization_invalid"

section \<open>Transactions around one job\<close>

text \<open>
  What the environment gives one delivery: the token the claim draws, the instant of each step,
  and the identifiers of new rows.
\<close>

record worker_call =
  wk_token :: uuid
  wk_claim_now :: time
  wk_preflight_now :: time
  wk_start_now :: time
  wk_apply_now :: time
  wk_save_now :: time
  wk_end_now :: time
  wk_shell_id :: "nat \<Rightarrow> uuid"
  wk_revision_id :: "nat \<Rightarrow> uuid"

definition job_request_id :: "ai_job \<Rightarrow> string" where
  "job_request_id job = ''job_'' @ uuid_str (aj_id job)"

definition finish_provider_metadata :: "ai_job \<Rightarrow> ai_job" where
  "finish_provider_metadata job =
     (let md = AList.delete ''provider_attempt_started'' (aj_request_metadata job)
      in job\<lparr>aj_request_metadata :=
        (case obj_get ''provider_attempt_started'' (aj_request_metadata job) of
           Some (JObj _) \<Rightarrow> AList.update ''provider_attempt_completed''
             (JObj [(''attempt'', JInt (int (aj_attempts job)))]) md
         | _ \<Rightarrow> md)\<rparr>)"

definition mark_terminal ::
  "uuid \<Rightarrow> uuid \<Rightarrow> string \<Rightarrow> time \<Rightarrow> 'o office_scheme \<Rightarrow> unit result \<times> 'o office_scheme" where
  "mark_terminal jid token err now = session_scope (\<lambda>os.
     case find_job jid os of None \<Rightarrow> (Inr (), os) | Some job \<Rightarrow>
       if aj_state job \<in> set TERMINAL_STATES then (Inr (), os)
       else if aj_state job \<noteq> Job_Running \<or> aj_claim_token job \<noteq> Some token then (Inl StaleJobClaim, os)
       else case find_account (aj_requested_by_account_id job) (ident os) of
          None \<Rightarrow> (Inl (RuntimeError ''job requester attribution is unavailable''), os)
        | Some acc \<Rightarrow>
            append_job_audit (ac_id acc) (ac_staff_member_id acc) ''ai.job_failed'' job
              (job_request_id job) WORKER_VERSION
              [(''job_id'', JStr (uuid_str (aj_id job))), (''job_type'', JStr (job_type_text (aj_job_type job))),
               (''result_code'', JStr err)]
              (put_job (ended_job Job_Failed Stage_Failed (Some err) now (finish_provider_metadata job)) os))"

definition release_transient :: "uuid \<Rightarrow> uuid \<Rightarrow> 'o office_scheme \<Rightarrow> unit result \<times> 'o office_scheme" where
  "release_transient jid token = session_scope (\<lambda>os.
     case find_job jid os of None \<Rightarrow> (Inr (), os) | Some job \<Rightarrow>
       if aj_state job = Job_Running \<and> aj_claim_token job = Some token
       then (Inr (), put_job (job\<lparr>aj_state := Job_Queued, aj_stage := Stage_Queued,
              aj_claim_token := None, aj_lease_expires_at := None\<rparr>) os)
       else (Inr (), os))"

text \<open>
  A claim that finds the mark of an earlier attempt reports the risk that the provider is called
  twice: the type of the job is the label of that metric.
\<close>

definition repeat_risk :: "uuid \<Rightarrow> ai_job \<Rightarrow> bool" where
  "repeat_risk token job = (case obj_get ''provider_attempt_started'' (aj_request_metadata job) of
     Some (JObj previous) \<Rightarrow> obj_get ''claim_token'' previous \<noteq> Some (JStr (uuid_str token)) | _ \<Rightarrow> False)"

definition noted_claim :: "uuid \<Rightarrow> ai_job \<Rightarrow> ai_job" where
  "noted_claim token job =
     (let md = AList.delete ''provider_attempt_started'' (aj_request_metadata job)
      in job\<lparr>aj_request_metadata := (if repeat_risk token job
           then AList.update ''provider_repeat_risk_emitted_attempt'' (JInt (int (aj_attempts job))) md
           else md)\<rparr>)"

definition claim :: "worker_call \<Rightarrow> uuid \<Rightarrow> 'o office_scheme
   \<Rightarrow> (uuid option \<times> job_type option) result \<times> 'o office_scheme" where
  "claim wk jid = session_scope (\<lambda>os.
     case claim_job jid (wk_claim_now wk) (wk_token wk) os of
       (None, os1) \<Rightarrow>
         (case find_job jid os1 of
            Some job \<Rightarrow> if aj_state job = Job_Running then (Inl TransientJobFailure, os1) else (Inr (None, None), os1)
          | None \<Rightarrow> (Inr (None, None), os1))
     | (Some job, os1) \<Rightarrow>
         (Inr (Some (wk_token wk), if repeat_risk (wk_token wk) job then Some (aj_job_type job) else None),
          put_job (noted_claim (wk_token wk) job) os1))"

definition leased_job :: "uuid \<Rightarrow> uuid \<Rightarrow> time \<Rightarrow> 'o office_scheme \<Rightarrow> ai_job result" where
  "leased_job jid token now os =
     (case find_job jid os of None \<Rightarrow> Inl StaleJobClaim | Some job \<Rightarrow>
        if aj_state job \<noteq> Job_Running \<or> \<not> holds_lease (Some token) now job then Inl StaleJobClaim else Inr job)"

text \<open>The base revisions of the reports the result may be written to.\<close>

definition base_revisions :: "report list \<Rightarrow> json" where
  "base_revisions rps = JObj (map (\<lambda>r. (uuid_str (rp_id r), JInt (rp_current_revision_number r))) rps)"

definition target_bases ::
  "ai_job \<Rightarrow> session_actor \<Rightarrow> incident \<Rightarrow> incident_revision \<Rightarrow> report option \<Rightarrow> 'o office_scheme
   \<Rightarrow> json result" where
  "target_bases job who inc source bound os =
     (case bound of
        Some rp \<Rightarrow> Inr (base_revisions [rp])
      | None \<Rightarrow>
          if aj_job_type job \<in> {Generate, Disciplinary_Job} then
            bind_result (reporting_staff_ids source os) (\<lambda>ids.
              if staff_member_id who \<notin> set ids \<and> staff_member_id who \<noteq> in_created_by_staff_member_id inc
              then Inl authorization_invalid
              else let rows = sort_key rp_id (filter (\<lambda>r. rp_incident_id r = in_id inc
                       \<and> rp_reporting_staff_member_id r \<in> set ids) (reports os))
                   in if MAX_RESULT_REPORTS < length rows then Inl output_invalid
                      else Inr (base_revisions rows))
          else Inr (JObj []))"

definition prepared_job :: "incident_revision \<Rightarrow> json \<Rightarrow> ai_job \<Rightarrow> ai_job" where
  "prepared_job source bases job =
     job\<lparr>aj_request_metadata := updated (aj_request_metadata job)
           [(''source_incident_revision_id'', JStr (uuid_str (ir_id source))),
            (''target_report_base_revisions'', bases)],
         aj_stage := (if aj_job_type job = Generate then Stage_Generating else aj_stage job)\<rparr>"

definition preflight ::
  "uuid \<Rightarrow> uuid \<Rightarrow> time \<Rightarrow> 'o office_scheme \<Rightarrow> unit result \<times> 'o office_scheme" where
  "preflight jid token now = session_scope (\<lambda>os.
     case bind_result (leased_job jid token now os) (\<lambda>job.
          bind_result (worker_actor job os) (\<lambda>who.
          bind_result (authorize_report_target job who os) (\<lambda>bound.
          case find_incident (aj_incident_id job) os of None \<Rightarrow> Inl target_invalid | Some inc \<Rightarrow>
            Inr (job, who, bound, inc)))) of
       Inl e \<Rightarrow> (Inl e, os)
     | Inr (job, who, bound, inc) \<Rightarrow>
         if in_current_revision_number inc \<noteq> aj_base_incident_revision job
         then apply_job_result jid (aj_base_incident_revision job) (Some token) (Some (JObj [])) now
                (Some (job_request_id job)) (put_job (finish_provider_metadata job) os)
         else case bind_result (source_revision job os) (\<lambda>source.
                   bind_result (authorize_incident_target inc source who os) (\<lambda>_.
                   bind_result (target_bases job who inc source bound os) (\<lambda>bases.
                     Inr (prepared_job source bases job)))) of
           Inl e \<Rightarrow> (Inl e, os)
         | Inr job' \<Rightarrow> (Inr (), put_job job' os))"

definition mark_provider_started ::
  "uuid \<Rightarrow> uuid \<Rightarrow> time \<Rightarrow> 'o office_scheme \<Rightarrow> unit result \<times> 'o office_scheme" where
  "mark_provider_started jid token now = session_scope (\<lambda>os.
     case leased_job jid token now os of Inl e \<Rightarrow> (Inl e, os) | Inr job \<Rightarrow>
       (Inr (), put_job (job\<lparr>aj_request_metadata := AList.update ''provider_attempt_started''
            (JObj [(''attempt'', JInt (int (aj_attempts job))), (''claim_token'', JStr (uuid_str token))])
            (aj_request_metadata job)\<rparr>) os))"

definition call_engine ::
  "date_parsers \<Rightarrow> ('o office_scheme \<Rightarrow> ai_job \<Rightarrow> engine_output result) \<Rightarrow> uuid \<Rightarrow> uuid
   \<Rightarrow> 'o office_scheme \<Rightarrow> job_engine_result result" where
  "call_engine P engine jid token os =
     (case find_job jid os of None \<Rightarrow> Inl StaleJobClaim | Some job \<Rightarrow>
        if aj_state job \<noteq> Job_Running \<or> aj_claim_token job \<noteq> Some token then Inl StaleJobClaim
        else case find_incident (aj_incident_id job) os of None \<Rightarrow> Inl target_invalid | Some inc \<Rightarrow>
          bind_result (engine os job) (normalize_engine_result P job inc))"

section \<open>Writing the result\<close>

definition save_call :: "worker_call \<Rightarrow> ai_job \<Rightarrow> nat \<Rightarrow> edit_call" where
  "save_call wk job n = \<lparr>ed_request_id = Some (job_request_id job), ed_client_version = Some WORKER_VERSION,
     ed_uuid = wk_token wk, ed_revision_id = wk_revision_id wk n, ed_now = wk_save_now wk\<rparr>"

text \<open>The contents of the result by report type; a single content belongs to the bound report.\<close>

definition result_contents ::
  "ai_job \<Rightarrow> job_engine_result \<Rightarrow> 'o office_scheme \<Rightarrow> (string \<times> dict) list result" where
  "result_contents job res os =
     (case je_report_content res of
        None \<Rightarrow> if je_report_contents res = [] then Inl output_invalid else Inr (je_report_contents res)
      | Some content \<Rightarrow> (case aj_report_id job of None \<Rightarrow> Inl target_invalid | Some rid \<Rightarrow>
          (case find_report rid os of None \<Rightarrow> Inl target_invalid
           | Some rp \<Rightarrow> Inr [(report_type_text (rp_report_type rp), content)])))"

definition recorded_base :: "ai_job \<Rightarrow> report \<Rightarrow> int option" where
  "recorded_base job rp =
     (case obj_get ''target_report_base_revisions'' (aj_request_metadata job) of
        Some (JObj bases) \<Rightarrow> (case obj_get (uuid_str (rp_id rp)) bases of Some (JInt n) \<Rightarrow> Some n | _ \<Rightarrow> None)
      | _ \<Rightarrow> None)"

definition report_slot_row :: "uuid \<Rightarrow> report_type \<Rightarrow> uuid \<Rightarrow> 'w workspace_scheme \<Rightarrow> report option" where
  "report_slot_row iid rtype owner ws =
     find_row (\<lambda>r. (rp_incident_id r, rp_report_type r, rp_reporting_staff_member_id r))
       (iid, rtype, owner) (reports ws)"

fun collect_targets ::
  "worker_call \<Rightarrow> ai_job \<Rightarrow> session_actor \<Rightarrow> incident \<Rightarrow> nat \<Rightarrow> (string \<times> dict \<times> uuid) list
   \<Rightarrow> 'o office_scheme \<Rightarrow> (report \<times> dict \<times> int) list result \<times> 'o office_scheme" where
  "collect_targets wk job who inc n [] os = (Inr [], os)"
| "collect_targets wk job who inc n ((key, content, owner) # rest) os =
     (case REPORT_KEYS key of None \<Rightarrow> (Inl output_invalid, os) | Some rtype \<Rightarrow>
      (case report_slot_row (in_id inc) rtype owner os of
         None \<Rightarrow>
           and_then (new_report_shell (wk_shell_id wk n) (in_id inc) rtype owner who (wk_apply_now wk) os)
             (\<lambda>rp os1. and_then (collect_targets wk job who inc (n + 1) rest os1)
               (\<lambda>others os2. (Inr ((rp, content, 0) # others), os2)))
       | Some rp \<Rightarrow>
           (case recorded_base job rp of
              None \<Rightarrow> (Inl (TerminalJobFailure ''job_result_conflict''), os)
            | Some base \<Rightarrow>
                if \<not> live_on_report (staff_member_id who) (rp_id rp) os then (Inl authorization_invalid, os)
                else and_then (collect_targets wk job who inc (n + 1) rest os)
                  (\<lambda>others os2. (Inr ((rp, content, base) # others), os2)))))"

definition result_targets ::
  "worker_call \<Rightarrow> ai_job \<Rightarrow> session_actor \<Rightarrow> incident \<Rightarrow> incident_revision \<Rightarrow> (string \<times> dict) list
   \<Rightarrow> 'o office_scheme \<Rightarrow> (report \<times> dict \<times> int) list result \<times> 'o office_scheme" where
  "result_targets wk job who inc source contents os =
     (if aj_report_id job \<noteq> None then
        (case authorize_report_target job who os of
           Inl e \<Rightarrow> (Inl e, os)
         | Inr None \<Rightarrow> (Inl target_invalid, os)
         | Inr (Some rp) \<Rightarrow>
             (case (map_of contents (report_type_text (rp_report_type rp)), recorded_base job rp) of
                (Some content, Some base) \<Rightarrow> (Inr [(rp, content, base)], os)
              | _ \<Rightarrow> (Inl output_invalid, os)))
      else case reporting_staff_ids source os of
        Inl e \<Rightarrow> (Inl e, os)
      | Inr ids \<Rightarrow>
          if MAX_RESULT_REPORTS < length ids * length contents then (Inl output_invalid, os)
          else collect_targets wk job who inc 0
            (concat (map (\<lambda>(key, content). map (\<lambda>owner. (key, content, owner)) ids) (sort_key fst contents))) os)"

text \<open>
  The listener \<open>_attach_sources\<close> completes the revision the save has appended, before it is
  written.
\<close>

definition attach_sources :: "ai_job \<Rightarrow> incident_revision \<Rightarrow> report_revision \<Rightarrow> 'w workspace_scheme \<Rightarrow> 'w workspace_scheme" where
  "attach_sources job source rv ws = ws\<lparr>report_revisions :=
     update_rows (\<lambda>r. (rv_report_id r, rv_revision_number r) = (rv_report_id rv, rv_revision_number rv))
       (\<lambda>r. r\<lparr>rv_source_incident_revision_id := Some (ir_id source), rv_source_ai_job_id := Some (aj_id job)\<rparr>)
       (report_revisions ws)\<rparr>"

definition JOB_MODEL_COLUMNS :: "string list" where
  "JOB_MODEL_COLUMNS = [''fast_model'', ''pro_model'', ''model_location'',
     ''classification_prompt_sha256'', ''generation_prompt_sha256'']"

definition with_models :: "report_revision \<Rightarrow> ai_job \<Rightarrow> ai_job" where
  "with_models rv job = job\<lparr>aj_models := map (\<lambda>n. (n, case obj_get n (rv_provenance_columns rv) of
     None \<Rightarrow> JNull | Some v \<Rightarrow> v)) JOB_MODEL_COLUMNS\<rparr>"

definition change_job :: "uuid \<Rightarrow> (ai_job \<Rightarrow> ai_job) \<Rightarrow> 'o office_scheme \<Rightarrow> 'o office_scheme" where
  "change_job jid f os = os\<lparr>ai_jobs := update_rows (\<lambda>j. aj_id j = jid) f (ai_jobs os)\<rparr>"

fun save_targets ::
  "provenance_env \<Rightarrow> worker_call \<Rightarrow> ai_job \<Rightarrow> session_actor \<Rightarrow> incident_revision \<Rightarrow> nat
   \<Rightarrow> (report \<times> dict \<times> int) list \<Rightarrow> 'o office_scheme \<Rightarrow> json list result \<times> 'o office_scheme" where
  "save_targets E wk job who source n [] os = (Inr [], os)"
| "save_targets E wk job who source n ((rp, content, base) # rest) os =
     and_then (save_report E (save_call wk job n) who (rp_id rp) (JObj content) base ''ai_result'' os)
       (\<lambda>rv os1. and_then (save_targets E wk job who source (n + 1) rest
            (change_job (aj_id job) (with_models rv) (attach_sources job source rv os1)))
          (\<lambda>refs os2. (Inr (JObj [(''report_id'', JStr (uuid_str (rp_id rp))),
              (''revision_number'', JInt (rv_revision_number rv))] # refs), os2)))"

definition apply_report_results ::
  "provenance_env \<Rightarrow> worker_call \<Rightarrow> ai_job \<Rightarrow> session_actor \<Rightarrow> incident \<Rightarrow> incident_revision
   \<Rightarrow> job_engine_result \<Rightarrow> 'o office_scheme \<Rightarrow> json list result \<times> 'o office_scheme" where
  "apply_report_results E wk job who inc source res os =
     (case result_contents job res os of Inl e \<Rightarrow> (Inl e, os) | Inr contents \<Rightarrow>
        and_then (result_targets wk job who inc source contents os)
          (\<lambda>targets. save_targets E wk job who source 0 (sort_key (\<lambda>t. rp_id (fst t)) targets)))"

definition finish_metadata :: "uuid \<Rightarrow> 'o office_scheme \<Rightarrow> 'o office_scheme" where
  "finish_metadata jid = change_job jid finish_provider_metadata"

definition write_incident_result ::
  "date_parsers \<Rightarrow> provenance_env \<Rightarrow> worker_call \<Rightarrow> ai_job \<Rightarrow> session_actor \<Rightarrow> uuid \<Rightarrow> dict
   \<Rightarrow> 'o office_scheme \<Rightarrow> unit result \<times> 'o office_scheme" where
  "write_incident_result P E wk job who token content os =
     and_then (apply_job_result (aj_id job) (aj_base_incident_revision job) (Some token) (Some (JObj []))
         (wk_apply_now wk) (Some (job_request_id job)) (finish_metadata (aj_id job) os))
       (\<lambda>_ os1. and_then (save_incident P E (save_call wk job 0) who (aj_incident_id job) (JObj content)
            (aj_base_incident_revision job) ''ai_result'' os1)
          (\<lambda>rv os2. (Inr (), change_job (aj_id job) (\<lambda>j. j\<lparr>aj_result_reference :=
               no_result\<lparr>rr_incident_revision := Some (ir_revision_number rv)\<rparr>\<rparr>) os2)))"

definition write_report_result ::
  "provenance_env \<Rightarrow> worker_call \<Rightarrow> ai_job \<Rightarrow> session_actor \<Rightarrow> incident \<Rightarrow> incident_revision \<Rightarrow> uuid
   \<Rightarrow> job_engine_result \<Rightarrow> 'o office_scheme \<Rightarrow> unit result \<times> 'o office_scheme" where
  "write_report_result E wk job who inc source token res os =
     (case apply_report_results E wk job who inc source res os of
        (Inl (RevisionConflict n st t ed fs), os1) \<Rightarrow> (Inl (TerminalJobFailure ''job_result_conflict''), os1)
      | (Inl e, os1) \<Rightarrow> (Inl e, os1)
      | (Inr refs, os1) \<Rightarrow>
          apply_job_result (aj_id job) (aj_base_incident_revision job) (Some token)
            (Some (JObj [(''reports'', JArr refs)])) (wk_apply_now wk) (Some (job_request_id job))
            (finish_metadata (aj_id job) os1))"

definition apply_result ::
  "date_parsers \<Rightarrow> provenance_env \<Rightarrow> worker_call \<Rightarrow> uuid \<Rightarrow> uuid \<Rightarrow> job_engine_result
   \<Rightarrow> 'o office_scheme \<Rightarrow> unit result \<times> 'o office_scheme" where
  "apply_result P E wk jid token res = session_scope (\<lambda>os.
     case bind_result (leased_job jid token (wk_apply_now wk) os) (\<lambda>job.
          bind_result (worker_actor job os) (\<lambda>who.
          case find_incident (aj_incident_id job) os of None \<Rightarrow> Inl target_invalid | Some inc \<Rightarrow>
            Inr (job, who, inc))) of
       Inl e \<Rightarrow> (Inl e, os)
     | Inr (job, who, inc) \<Rightarrow>
         if in_current_revision_number inc \<noteq> aj_base_incident_revision job
         then apply_job_result jid (aj_base_incident_revision job) (Some token) (Some (JObj []))
                (wk_apply_now wk) (Some (job_request_id job)) (finish_metadata jid os)
         else case bind_result (source_revision job os) (\<lambda>source.
                   bind_result (authorize_incident_target inc source who os) (\<lambda>_. Inr source)) of
           Inl e \<Rightarrow> (Inl e, os)
         | Inr source \<Rightarrow>
             (case je_incident_content res of
                Some content \<Rightarrow> write_incident_result P E wk job who token content os
              | None \<Rightarrow> write_report_result E wk job who inc source token res os))"

section \<open>One delivery\<close>

definition job_ended :: "uuid \<Rightarrow> 'o office_scheme \<Rightarrow> bool" where
  "job_ended jid os \<longleftrightarrow> (case find_job jid os of None \<Rightarrow> True
     | Some job \<Rightarrow> aj_state job \<in> set TERMINAL_STATES)"

definition work ::
  "date_parsers \<Rightarrow> provenance_env \<Rightarrow> ('o office_scheme \<Rightarrow> ai_job \<Rightarrow> engine_output result)
   \<Rightarrow> worker_call \<Rightarrow> uuid \<Rightarrow> uuid \<Rightarrow> 'o office_scheme \<Rightarrow> unit result \<times> 'o office_scheme" where
  "work P E engine wk jid token os =
     and_then (preflight jid token (wk_preflight_now wk) os) (\<lambda>_ os1.
       if job_ended jid os1 then (Inr (), os1)
       else and_then (mark_provider_started jid token (wk_start_now wk) os1) (\<lambda>_ os2.
         case call_engine P engine jid token os2 of Inl e \<Rightarrow> (Inl e, os2)
         | Inr res \<Rightarrow> apply_result P E wk jid token res os2))"

definition fail_job ::
  "worker_call \<Rightarrow> uuid \<Rightarrow> uuid \<Rightarrow> string \<Rightarrow> 'o office_scheme \<Rightarrow> unit result \<times> 'o office_scheme" where
  "fail_job wk jid token err os =
     and_then (mark_terminal jid token err (wk_end_now wk) os) (\<lambda>_ os1. (Inl (TerminalJobFailure err), os1))"

definition recover ::
  "worker_call \<Rightarrow> uuid \<Rightarrow> uuid \<Rightarrow> exn \<Rightarrow> 'o office_scheme \<Rightarrow> unit result \<times> 'o office_scheme" where
  "recover wk jid token e os =
     (case e of
        TerminalJobFailure err \<Rightarrow> fail_job wk jid token err os
      | RevisionConflict n st t ed fs \<Rightarrow> fail_job wk jid token ''job_result_conflict'' os
      | StaleJobClaim \<Rightarrow> (Inl TransientJobFailure, os)
      | _ \<Rightarrow> if e = ValidationError then fail_job wk jid token ''job_output_invalid'' os
             else and_then (release_transient jid token os) (\<lambda>_ os1. (Inl TransientJobFailure, os1)))"

definition run ::
  "date_parsers \<Rightarrow> provenance_env \<Rightarrow> ('o office_scheme \<Rightarrow> ai_job \<Rightarrow> engine_output result)
   \<Rightarrow> worker_call \<Rightarrow> uuid \<Rightarrow> 'o office_scheme \<Rightarrow> unit result \<times> 'o office_scheme" where
  "run P E engine wk jid os =
     and_then (claim wk jid os) (\<lambda>(token, _) os1.
       case token of None \<Rightarrow> (Inr (), os1) | Some t \<Rightarrow>
         (case work P E engine wk jid t os1 of
            (Inr _, os2) \<Rightarrow> (Inr (), os2)
          | (Inl e, os2) \<Rightarrow> recover wk jid t e os2))"

section \<open>The route\<close>

text \<open>\<open>int(text)\<close> of a header value.\<close>

definition python_int :: "string \<Rightarrow> int option" where
  "python_int s =
     (let t = strip s;
          neg = (t \<noteq> [] \<and> hd t = CHR ''-'');
          body = (if t \<noteq> [] \<and> hd t \<in> {CHR ''-'', CHR ''+''} then tl t else t);
          groups = split_on CHR ''_'' body
      in if list_all (\<lambda>g. g \<noteq> [] \<and> list_all is_digit g) groups
         then Some ((if neg then -1 else 1) *
           foldl (\<lambda>n c. 10 * n + int (code c - 48)) 0 (concat groups))
         else None)"

definition QUEUE_NAME :: "string \<Rightarrow> bool" where
  "QUEUE_NAME s \<longleftrightarrow> 1 \<le> length s \<and> length s \<le> 100
     \<and> list_all (\<lambda>c. is_upper_ascii c \<or> is_lower_ascii c \<or> is_digit c \<or> c = CHR ''_'' \<or> c = CHR ''-'') s"

text \<open>
  \<open>_TASK_NAME\<close>: the prefix in either case, and a UUID of version 1 to 5. The group is compared
  with the job's identifier, so only its own text in either case can match.
\<close>

definition TASK_NAME :: "string \<Rightarrow> string option" where
  "TASK_NAME s =
     (let u = drop 7 s; l = lower u; h = filter (\<lambda>c. c \<noteq> CHR ''-'') l
      in if lower (take 7 s) = ''ai-job-'' \<and> length u = 36
            \<and> map (\<lambda>i. u ! i) [8, 13, 18, 23] = ''----'' \<and> length h = 32 \<and> list_all is_hex_lower h
            \<and> l ! 14 \<in> set ''12345'' \<and> l ! 19 \<in> set ''89ab''
         then Some u else None)"

record task_headers =
  th_task_name :: "string option"
  th_queue_name :: "string option"
  th_retry_count :: "string option"

definition delivery_metadata :: "uuid \<Rightarrow> string \<Rightarrow> task_headers \<Rightarrow> bool \<times> int" where
  "delivery_metadata jid queue hs =
     (let task = (case th_task_name hs of None \<Rightarrow> [] | Some s \<Rightarrow> s);
          qname = (case th_queue_name hs of None \<Rightarrow> [] | Some s \<Rightarrow> s);
          retry = (case th_retry_count hs of None \<Rightarrow> [] | Some s \<Rightarrow> s)
      in if task = [] \<or> qname = [] \<or> retry = [] then (False, 0)
         else case TASK_NAME task of None \<Rightarrow> (False, 0) | Some u \<Rightarrow>
           if lower u \<noteq> uuid_str jid \<or> \<not> QUEUE_NAME qname \<or> qname \<noteq> queue then (False, 0)
           else case python_int retry of None \<Rightarrow> (False, 0) | Some n \<Rightarrow>
             if \<not> (0 \<le> n \<and> n \<le> 100) then (False, 0) else (True, n))"

text \<open>The status of the answer to a delivery; an exception that is not handled is a 500.\<close>

definition run_job_route ::
  "date_parsers \<Rightarrow> provenance_env \<Rightarrow> ('o office_scheme \<Rightarrow> ai_job \<Rightarrow> engine_output result)
   \<Rightarrow> string \<Rightarrow> worker_call \<Rightarrow> uuid \<Rightarrow> task_headers \<Rightarrow> json \<Rightarrow> 'o office_scheme \<Rightarrow> nat \<times> 'o office_scheme" where
  "run_job_route P E engine queue wk jid hs payload os =
     (if th_task_name hs = None \<or> th_queue_name hs = None \<or> th_retry_count hs = None then (401, os)
      else if \<not> fst (delivery_metadata jid queue hs)
           \<or> payload \<noteq> JObj [(''job_id'', JStr (uuid_str jid))] then (400, os)
      else case run P E engine wk jid os of
        (Inr _, os1) \<Rightarrow> (204, os1)
      | (Inl (TerminalJobFailure _), os1) \<Rightarrow> (204, os1)
      | (Inl TransientJobFailure, os1) \<Rightarrow> (503, os1)
      | (Inl _, os1) \<Rightarrow> (500, os1))"

end
