(* ===== verification/JobRules.thy ===== *)
theory JobRules
  imports Worker
begin

text \<open>
  What the job operations do to the table of jobs: an abstract state machine of one row, and
  the lemma that every committed transaction of the service and the worker moves rows along it.
\<close>

section \<open>Rows\<close>

lemma put_job_simps [simp]:
  "ident (put_job j os) = ident os" "incidents (put_job j os) = incidents os"
  "incident_revisions (put_job j os) = incident_revisions os" "reports (put_job j os) = reports os"
  "report_access (put_job j os) = report_access os" "report_revisions (put_job j os) = report_revisions os"
  "task_outbox (put_job j os) = task_outbox os"
  "map aj_id (ai_jobs (put_job j os)) = map aj_id (ai_jobs os)"
  by (simp_all add: put_job_def map_update_rows)

lemma change_job_simps [simp]:
  "ident (change_job i f os) = ident os" "incidents (change_job i f os) = incidents os"
  "incident_revisions (change_job i f os) = incident_revisions os" "reports (change_job i f os) = reports os"
  "report_access (change_job i f os) = report_access os"
  "report_revisions (change_job i f os) = report_revisions os"
  "task_outbox (change_job i f os) = task_outbox os"
  by (simp_all add: change_job_def)

lemma logged_office [simp]:
  "ai_jobs (logged ev os) = ai_jobs os" "task_outbox (logged ev os) = task_outbox os"
  by (simp_all add: logged_def)

lemma find_put_job:
  "find_job i (put_job job os) = (if i = aj_id job then map_option (\<lambda>_. job) (find_job i os) else find_job i os)"
  by (cases "find_job i os") (auto simp: put_job_def find_update_rows dest: find_row_SomeD)

lemma find_change_job:
  "(\<And>j. aj_id (f j) = aj_id j) \<Longrightarrow>
   find_job i (change_job k f os) = map_option (\<lambda>j. if i = k then f j else j) (find_job i os)"
  by (cases "find_job i os") (auto simp: change_job_def find_update_rows dest: find_row_SomeD)

lemma job_row_simps [simp]:
  "aj_id (claimed_job token now job) = aj_id job"
  "aj_id (ended_job st stage err now job) = aj_id job"
  "aj_id (finish_provider_metadata job) = aj_id job"
  "aj_id (noted_claim token job) = aj_id job" "aj_id (prepared_job src bases job) = aj_id job"
  "aj_id (with_models rv job) = aj_id job"
  by (simp_all add: claimed_job_def ended_job_def finish_provider_metadata_def noted_claim_def
      prepared_job_def with_models_def Let_def)

lemma append_job_audit_Inr:
  "append_job_audit a s act job req client kvs os = (Inr u, os') \<Longrightarrow> \<exists>ev. os' = logged ev os"
  by (auto simp: append_job_audit_def in_ident_def logged_def dest!: append_audit_Inr split: prod.splits)

section \<open>The state machine of a row\<close>

definition SAFE_TERMINAL_CODES :: "string list" where
  "SAFE_TERMINAL_CODES = [''job_output_invalid'', ''job_target_invalid'', ''job_result_conflict'',
     ''job_authorization_invalid'', ''job_result_contract_unavailable'']"

text \<open>A reference in the form \<open>normalize_job_result_reference\<close> gives it.\<close>

definition result_ok :: "result_reference \<Rightarrow> bool" where
  "result_ok r \<longleftrightarrow>
     (case rr_incident_revision r of None \<Rightarrow> True | Some n \<Rightarrow> 1 \<le> n)
     \<and> (case rr_reports r of None \<Rightarrow> True
        | Some items \<Rightarrow> length items \<le> MAX_RESULT_REPORT_REFERENCES \<and> distinct (map fst items)
            \<and> sorted (map by_report items) \<and> list_all (\<lambda>(u, n). 1 \<le> n) items)"

inductive job_moves :: "ai_job \<Rightarrow> ai_job \<Rightarrow> bool" where
  claims: "claimable now j \<Longrightarrow> job_moves j (claimed_job token now j)"
| prepares: "aj_state j = Job_Running \<Longrightarrow> stage = aj_stage j \<or> stage = Stage_Generating \<Longrightarrow>
    job_moves j (j\<lparr>aj_request_metadata := md, aj_models := ms, aj_stage := stage\<rparr>)"
| succeeds: "aj_state j = Job_Running \<Longrightarrow> result_ok r \<Longrightarrow>
    job_moves j ((ended_job Job_Succeeded Stage_Completed None now j)\<lparr>aj_result_reference := r\<rparr>)"
| fails: "aj_state j = Job_Running \<Longrightarrow> err \<in> set SAFE_TERMINAL_CODES \<Longrightarrow>
    job_moves j (ended_job Job_Failed Stage_Failed (Some err) now j)"
| releases: "aj_state j = Job_Running \<Longrightarrow>
    job_moves j (j\<lparr>aj_state := Job_Queued, aj_stage := Stage_Queued, aj_claim_token := None, aj_lease_expires_at := None\<rparr>)"

lemma claimable_open: "claimable now j \<Longrightarrow> aj_state j \<notin> set TERMINAL_STATES"
  by (auto simp: claimable_def TERMINAL_STATES_def)

lemma job_moves_terminal: "job_moves j j' \<Longrightarrow> aj_state j \<notin> set TERMINAL_STATES"
  by (erule job_moves.cases) (auto dest: claimable_open simp: TERMINAL_STATES_def)

lemma job_moves_id: "job_moves j j' \<Longrightarrow> aj_id j' = aj_id j"
  by (erule job_moves.cases) simp_all

lemma terminal_stays: "job_moves\<^sup>*\<^sup>* j j' \<Longrightarrow> aj_state j \<in> set TERMINAL_STATES \<Longrightarrow> j' = j"
  by (erule converse_rtranclpE) (auto dest: job_moves_terminal)

text \<open>What the columns of a row hold in each state.\<close>

definition job_row_ok :: "ai_job \<Rightarrow> bool" where
  "job_row_ok j \<longleftrightarrow> 1 \<le> aj_base_incident_revision j
     \<and> (aj_started_at j = None) = (aj_attempts j = 0)
     \<and> (case aj_state j of
          Job_Running \<Rightarrow> aj_lease_expires_at j \<noteq> None \<and> aj_claim_token j \<noteq> None \<and> aj_started_at j \<noteq> None
            \<and> aj_stage j \<notin> {Stage_Queued, Stage_Completed, Stage_Failed}
        | _ \<Rightarrow> aj_lease_expires_at j = None \<and> aj_claim_token j = None)
     \<and> (case aj_state j of
          Job_Queued \<Rightarrow> aj_stage j = Stage_Queued \<and> aj_completed_at j = None
            \<and> aj_error_code j = None \<and> aj_result_reference j = no_result
        | Job_Running \<Rightarrow> aj_completed_at j = None \<and> aj_error_code j = None
            \<and> aj_result_reference j = no_result
        | Job_Succeeded \<Rightarrow> aj_stage j = Stage_Completed \<and> aj_completed_at j \<noteq> None
            \<and> aj_error_code j = None \<and> result_ok (aj_result_reference j)
        | Job_Failed \<Rightarrow> aj_stage j = Stage_Failed \<and> aj_completed_at j \<noteq> None
            \<and> aj_error_code j \<in> Some ` set SAFE_TERMINAL_CODES \<and> aj_result_reference j = no_result
        | Job_Cancelled \<Rightarrow> False)"

lemma claim_stage: "CLAIM_STAGES t \<notin> {Stage_Queued, Stage_Completed, Stage_Failed}"
  by (cases t) auto

lemma result_ok_none [simp]: "result_ok no_result"
  by (simp add: result_ok_def no_result_def)

lemma job_moves_ok: "job_moves j j' \<Longrightarrow> job_row_ok j \<Longrightarrow> job_row_ok j'"
proof (induction rule: job_moves.induct)
  case (claims now j token)
  then show ?case using claim_stage [of "aj_job_type j"]
    by (cases "aj_state j") (auto simp: job_row_ok_def claimed_job_def claimable_def)
next
  case (prepares j stage md ms)
  then show ?case by (auto simp: job_row_ok_def)
qed (simp_all add: job_row_ok_def ended_job_def)

lemma job_moves_star_ok: "job_moves\<^sup>*\<^sup>* j j' \<Longrightarrow> job_row_ok j \<Longrightarrow> job_row_ok j'"
  by (induction rule: rtranclp_induct) (auto intro: job_moves_ok)

lemma new_job_ok: "1 \<le> base \<Longrightarrow> job_row_ok (new_job C who rc cm canonical key base)"
  by (simp add: job_row_ok_def new_job_def)

section \<open>References are normalised\<close>

lemma normalize_items_ConsE:
  assumes "normalize_items (v # vs) seen = Inr items"
  obtains u n items' where "items = (u, n) # items'" "1 \<le> n" "u \<notin> seen"
    "normalize_items vs (insert u seen) = Inr items'"
  using assms by (cases v) (auto split: if_splits option.splits json.splits intro: that)

lemma normalize_items_ok:
  "normalize_items vs seen = Inr items \<Longrightarrow>
   length items = length vs \<and> distinct (map fst items) \<and> fst ` set items \<inter> seen = {}
   \<and> list_all (\<lambda>(u, n). 1 \<le> n) items"
proof (induction vs arbitrary: seen items)
  case (Cons v vs)
  from Cons.prems obtain u n items' where "items = (u, n) # items'" "1 \<le> n" "u \<notin> seen"
    "normalize_items vs (insert u seen) = Inr items'" by (rule normalize_items_ConsE)
  with Cons.IH [of "insert u seen" items'] show ?case by auto
qed simp

lemma normalize_reports_ok:
  "normalize_reports v = Inr rs \<Longrightarrow> (case rs of None \<Rightarrow> True
     | Some items \<Rightarrow> length items \<le> MAX_RESULT_REPORT_REFERENCES \<and> distinct (map fst items)
         \<and> sorted (map by_report items) \<and> list_all (\<lambda>(u, n). 1 \<le> n) items)"
  by (auto simp: normalize_reports_def list_all_iff distinct_map dest!: normalize_items_ok
      split: option.splits json.splits if_splits)

lemma normalize_reference_ok: "normalize_job_result_reference v = Inr r \<Longrightarrow> result_ok r"
  by (cases v) (auto simp: result_ok_def normalize_incident_reference_def
      dest!: normalize_reports_ok split: if_splits option.splits json.splits)

section \<open>Operations that keep the jobs\<close>

text \<open>
  Report and incident operations run inside a job's transaction: they keep the jobs, the outbox
  and the accounts.
\<close>

definition keeps_office :: "'o office_scheme \<Rightarrow> 'o office_scheme \<Rightarrow> bool" where
  "keeps_office os os' \<longleftrightarrow> ai_jobs os' = ai_jobs os \<and> task_outbox os' = task_outbox os
     \<and> accounts (ident os') = accounts (ident os)"

lemma keeps_office_refl [simp]: "keeps_office os os"
  by (simp add: keeps_office_def)

lemma keeps_office_trans: "keeps_office a b \<Longrightarrow> keeps_office b c \<Longrightarrow> keeps_office a c"
  by (simp add: keeps_office_def)

lemma keeps_office_simps [simp]:
  "keeps_office os (logged ev os') \<longleftrightarrow> keeps_office os os'"
  "keeps_office os (put_report rp os') \<longleftrightarrow> keeps_office os os'"
  "keeps_office os (add_report_revision rv os') \<longleftrightarrow> keeps_office os os'"
  "keeps_office os (put_incident inc os') \<longleftrightarrow> keeps_office os os'"
  "keeps_office os (attach_sources job src rv os') \<longleftrightarrow> keeps_office os os'"
  by (simp_all add: keeps_office_def put_report_def add_report_revision_def put_incident_def
      attach_sources_def)

lemma save_report_keeps: "save_report E ed who rid content base reason os = (Inr rv, os') \<Longrightarrow> keeps_office os os'"
  by (elim save_report_Inr) simp

lemma new_report_shell_keeps: "new_report_shell rid iid rt owner who now os = (Inr rp, os') \<Longrightarrow> keeps_office os os'"
  by (auto simp: new_report_shell_def Let_def keeps_office_def split: if_splits)

lemma save_incident_keeps:
  "save_incident P E ed who iid snap base reason os = (Inr rv, os') \<Longrightarrow> keeps_office os os'"
  unfolding save_incident_def case_result_eq_Inr
  apply (elim exE conjE)
  apply (thin_tac "_ = Inr _")
  apply (auto simp: Let_def and_then_eq_Inr put_incident_def keeps_office_def
      split: if_splits prod.splits dest!: append_edit_audit_Inr)
  done

lemma collect_targets_keeps:
  "collect_targets wk job who inc n items os = (Inr ts, os') \<Longrightarrow> keeps_office os os'"
proof (induction wk job who inc n items os arbitrary: ts os' rule: collect_targets.induct)
  case (2 wk job who inc n key content owner rest os)
  from "2.prems" obtain rt where rt: "REPORT_KEYS key = Some rt" by (auto split: option.splits)
  show ?case
  proof (cases "report_slot_row (in_id inc) rt owner os")
    case None
    with "2.prems" rt obtain rp os1 ts1 where
      "new_report_shell (wk_shell_id wk n) (in_id inc) rt owner who (wk_apply_now wk) os = (Inr rp, os1)"
      "collect_targets wk job who inc (n + 1) rest os1 = (Inr ts1, os')"
      by (auto simp: and_then_eq_Inr)
    then show ?thesis using "2.IH"(1) [OF rt None] new_report_shell_keeps keeps_office_trans by metis
  next
    case (Some rp)
    with "2.prems" rt obtain base ts1 where "recorded_base job rp = Some base"
      "live_on_report (staff_member_id who) (rp_id rp) os"
      "collect_targets wk job who inc (n + 1) rest os = (Inr ts1, os')"
      by (auto simp: and_then_eq_Inr split: option.splits if_splits)
    then show ?thesis using "2.IH"(2) [OF rt Some] by simp
  qed
qed simp

section \<open>One row is replaced\<close>

definition replaces :: "'o office_scheme \<Rightarrow> ai_job \<Rightarrow> 'o office_scheme \<Rightarrow> bool" where
  "replaces os j os' \<longleftrightarrow> ai_jobs os' = update_rows (\<lambda>x. aj_id x = aj_id j) (\<lambda>_. j) (ai_jobs os)
     \<and> task_outbox os' = task_outbox os \<and> accounts (ident os') = accounts (ident os)"

abbreviation job_ids :: "'o office_scheme \<Rightarrow> uuid list" where
  "job_ids os \<equiv> map aj_id (ai_jobs os)"

lemma update_rows_again:
  "key j = key i \<Longrightarrow> update_rows (\<lambda>x. key x = key j) (\<lambda>_. j) (update_rows (\<lambda>x. key x = key i) (\<lambda>_. i) rows)
     = update_rows (\<lambda>x. key x = key j) (\<lambda>_. j) rows"
  by (induction rows) auto

lemma update_rows_change:
  "key (f j) = key j \<Longrightarrow> update_rows (\<lambda>x. key x = key j) f (update_rows (\<lambda>x. key x = key j) (\<lambda>_. j) rows)
     = update_rows (\<lambda>x. key x = key j) (\<lambda>_. f j) rows"
  by (induction rows) auto

lemma update_rows_self:
  "distinct (map key rows) \<Longrightarrow> j \<in> set rows \<Longrightarrow> update_rows (\<lambda>x. key x = key j) (\<lambda>_. j) rows = rows"
proof (induction rows)
  case (Cons r rows)
  have other: "key x \<noteq> key r" if "x \<in> set rows" for x using that Cons.prems(1) by (metis distinct.simps(2) image_eqI list.set_map list.simps(9))
  then have "update_rows (\<lambda>x. key x = key r) (\<lambda>_. r) rows = rows" by (intro update_rows_other) auto
  then show ?case using Cons other by auto
qed simp

lemma replaces_put [simp]: "replaces os j (put_job j os)"
  by (simp add: replaces_def put_job_def)

lemma replaces_from_put [simp]: "aj_id j = aj_id i \<Longrightarrow> replaces (put_job i os) j os' \<longleftrightarrow> replaces os j os'"
  using update_rows_again [of aj_id j i "ai_jobs os"] by (simp add: replaces_def put_job_def)

lemma replaces_put_put [simp]: "aj_id j = aj_id i \<Longrightarrow> replaces os j (put_job j (put_job i os))"
  using update_rows_again [of aj_id j i "ai_jobs os"] by (simp add: replaces_def put_job_def)

lemma replaces_self: "distinct (job_ids os) \<Longrightarrow> find_job i os = Some j \<Longrightarrow> replaces os j os"
  by (auto simp: replaces_def update_rows_self dest!: find_row_SomeD)

lemma replaces_keeps: "replaces os j os1 \<Longrightarrow> keeps_office os1 os2 \<Longrightarrow> replaces os j os2"
  by (simp add: replaces_def keeps_office_def)

lemma replaces_logged [simp]: "replaces os j (logged ev os') \<longleftrightarrow> replaces os j os'"
  by (simp add: replaces_def)

lemma replaces_put_again:
  "replaces os i os1 \<Longrightarrow> aj_id j = aj_id i \<Longrightarrow> replaces os j (put_job j os1)"
  using update_rows_again [of aj_id j i "ai_jobs os"] by (simp add: replaces_def put_job_def)

lemma replaces_change:
  "replaces os j os1 \<Longrightarrow> aj_id (f j) = aj_id j \<Longrightarrow> k = aj_id j \<Longrightarrow> replaces os (f j) (change_job k f os1)"
  by (simp add: replaces_def change_job_def update_rows_change)

lemma replaces_trans: "replaces os i os1 \<Longrightarrow> aj_id j = aj_id i \<Longrightarrow> replaces os1 j os2 \<Longrightarrow> replaces os j os2"
  using update_rows_again [of aj_id j i "ai_jobs os"] by (simp add: replaces_def)

lemma replaces_find:
  "replaces os j os1 \<Longrightarrow> find_job (aj_id j) os = Some j0 \<Longrightarrow> find_job (aj_id j) os1 = Some j"
  by (auto simp: replaces_def find_update_rows dest: find_row_SomeD)

lemma replaces_ids: "replaces os j os1 \<Longrightarrow> job_ids os1 = job_ids os"
  by (simp add: replaces_def map_update_rows)

lemma replaces_account: "replaces os j os1 \<Longrightarrow> find_account i (ident os1) = find_account i (ident os)"
  by (simp add: replaces_def)

lemma finish_simps [simp]:
  "aj_state (finish_provider_metadata job) = aj_state job"
  "aj_incident_id (finish_provider_metadata job) = aj_incident_id job"
  "aj_base_incident_revision (finish_provider_metadata job) = aj_base_incident_revision job"
  "aj_requested_by_account_id (finish_provider_metadata job) = aj_requested_by_account_id job"
  "holds_lease token now (finish_provider_metadata job) = holds_lease token now job"
  by (simp_all add: finish_provider_metadata_def holds_lease_def Let_def)

lemma session_scope_Inr: "session_scope body s = (Inr x, s') \<longleftrightarrow> body s = (Inr x, s')"
  by (auto simp: session_scope_def split: prod.splits sum.splits)

lemma leased_job_Inr:
  "leased_job jid token now os = Inr job \<longleftrightarrow>
     find_job jid os = Some job \<and> aj_state job = Job_Running \<and> holds_lease (Some token) now job"
  by (auto simp: leased_job_def split: option.splits)

end
