(* ===== verification/WorkerRules.thy ===== *)
theory WorkerRules
  imports JobRules
begin

text \<open>
  Every committed transaction of the worker replaces one row of the table of jobs by a row it
  reaches in the state machine of \<open>JobRules\<close>.
\<close>

section \<open>The transactions\<close>

lemma apply_job_result_Inr:
  assumes "apply_job_result jid expected token ref now req os = (Inr u, os')" "find_job jid os = Some job"
  obtains "aj_state job \<in> set TERMINAL_STATES" "os' = os"
  | inc where "aj_state job = Job_Running" "holds_lease token now job"
    "find_incident (aj_incident_id job) os = Some inc"
    "expected \<noteq> aj_base_incident_revision job \<or> in_current_revision_number inc \<noteq> expected"
    "replaces os (ended_job Job_Failed Stage_Failed (Some ''job_result_conflict'') now job) os'"
  | r inc where "aj_state job = Job_Running" "holds_lease token now job"
    "find_incident (aj_incident_id job) os = Some inc"
    "expected = aj_base_incident_revision job" "in_current_revision_number inc = expected"
    "normalize_job_result_reference (case ref of None \<Rightarrow> JObj [] | Some v \<Rightarrow> v) = Inr r"
    "replaces os ((ended_job Job_Succeeded Stage_Completed None now job)\<lparr>aj_result_reference := r\<rparr>) os'"
  using assms(1)
  unfolding apply_job_result_def case_result_eq_Inr
  apply (elim exE conjE)
  apply (simp only: assms(2) option.case Let_def)
  apply (cases "aj_state job \<in> set TERMINAL_STATES")
   apply simp
  apply (auto simp del: normalize_job_result_reference.simps
      split: if_split_asm option.split_asm sum.split_asm dest!: append_job_audit_Inr)
  done

lemma claim_Inr:
  assumes "claim wk jid os = (Inr (token, risk), os')"
  obtains "token = None" "os' = os"
  | job where "token = Some (wk_token wk)" "find_job jid os = Some job" "claimable (wk_claim_now wk) job"
    "replaces os (noted_claim (wk_token wk) (claimed_job (wk_token wk) (wk_claim_now wk) job)) os'"
  using assms
  by (auto simp: claim_def session_scope_Inr claim_job_def split: option.splits if_splits
      intro: that)

lemma preflight_Inr:
  assumes "preflight jid token now os = (Inr u, os')"
  obtains job where "find_job jid os = Some job" "aj_state job = Job_Running" "holds_lease (Some token) now job"
    "replaces os (ended_job Job_Failed Stage_Failed (Some ''job_result_conflict'') now (finish_provider_metadata job)) os'"
  | job source bases where "find_job jid os = Some job" "aj_state job = Job_Running"
    "holds_lease (Some token) now job" "replaces os (prepared_job source bases job) os'"
proof -
  from assms obtain job who bound inc where job: "find_job jid os = Some job" "aj_state job = Job_Running"
      "holds_lease (Some token) now job" and inc: "find_incident (aj_incident_id job) os = Some inc"
    and run: "(if in_current_revision_number inc \<noteq> aj_base_incident_revision job
         then apply_job_result jid (aj_base_incident_revision job) (Some token) (Some (JObj [])) now
                (Some (job_request_id job)) (put_job (finish_provider_metadata job) os)
         else case bind_result (source_revision job os) (\<lambda>source.
                   bind_result (authorize_incident_target inc source who os) (\<lambda>_.
                   bind_result (target_bases job who inc source bound os) (\<lambda>bases.
                     Inr (prepared_job source bases job)))) of
           Inl e \<Rightarrow> (Inl e, os)
         | Inr job' \<Rightarrow> (Inr (), put_job job' os)) = (Inr u, os')"
    unfolding preflight_def session_scope_Inr case_result_eq_Inr bind_result_eq_Inr leased_job_Inr
    by (auto split: option.splits)
  have fin: "find_job jid (put_job (finish_provider_metadata job) os) = Some (finish_provider_metadata job)"
    using job(1) find_row_SomeD [OF job(1)] by (simp add: find_put_job)
  show thesis
  proof (cases "in_current_revision_number inc = aj_base_incident_revision job")
    case True
    with run obtain source bases where "os' = put_job (prepared_job source bases job) os"
      by (auto simp: case_result_eq_Inr)
    then have "replaces os (prepared_job source bases job) os'" by simp
    with job show thesis by (rule that(2))
  next
    case False
    with run have "apply_job_result jid (aj_base_incident_revision job) (Some token) (Some (JObj [])) now
                (Some (job_request_id job)) (put_job (finish_provider_metadata job) os) = (Inr u, os')" by simp
    then show thesis using fin
    proof (cases rule: apply_job_result_Inr)
      case (2 i)
      then show thesis using job
        by (intro that(1) [OF job]) simp
    qed (use job inc False in \<open>simp_all add: TERMINAL_STATES_def\<close>)
  qed
qed

lemma mark_provider_started_Inr:
  assumes "mark_provider_started jid token now os = (Inr u, os')"
  obtains job md where "find_job jid os = Some job" "aj_state job = Job_Running"
    "holds_lease (Some token) now job" "replaces os (job\<lparr>aj_request_metadata := md\<rparr>) os'"
proof -
  from assms obtain job md where job: "find_job jid os = Some job" "aj_state job = Job_Running"
      "holds_lease (Some token) now job" and os': "os' = put_job (job\<lparr>aj_request_metadata := md\<rparr>) os"
    unfolding mark_provider_started_def session_scope_Inr case_result_eq_Inr leased_job_Inr by blast
  show thesis by (rule that [OF job]) (unfold os', rule replaces_put)
qed

lemma mark_terminal_Inr:
  assumes "mark_terminal jid token err now os = (Inr u, os')"
  obtains "os' = os" "job_ended jid os"
  | job where "find_job jid os = Some job" "aj_state job = Job_Running" "aj_claim_token job = Some token"
    "replaces os (ended_job Job_Failed Stage_Failed (Some err) now (finish_provider_metadata job)) os'"
  using assms
  by (auto simp: mark_terminal_def session_scope_Inr job_ended_def split: option.splits if_splits
      dest!: append_job_audit_Inr intro: that)

definition released_job :: "ai_job \<Rightarrow> ai_job" where
  "released_job job = job\<lparr>aj_state := Job_Queued, aj_stage := Stage_Queued, aj_claim_token := None,
     aj_lease_expires_at := None\<rparr>"

lemma release_transient_Inr:
  assumes "release_transient jid token os = (r, os')"
  obtains "r = Inr ()" "os' = os" "\<And>job. find_job jid os = Some job \<Longrightarrow> aj_state job \<noteq> Job_Running \<or> aj_claim_token job \<noteq> Some token"
  | job where "r = Inr ()" "find_job jid os = Some job" "aj_state job = Job_Running"
    "aj_claim_token job = Some token" "replaces os (released_job job) os'"
proof (cases "find_job jid os")
  case None
  with assms show thesis by (intro that(1)) (auto simp: release_transient_def session_scope_def)
next
  case (Some job)
  show thesis
  proof (cases "aj_state job = Job_Running \<and> aj_claim_token job = Some token")
    case True
    then have "r = Inr ()" "os' = put_job (released_job job) os"
      using assms Some by (auto simp: release_transient_def session_scope_def released_job_def)
    then show thesis using True Some by (intro that(2)) auto
  next
    case False
    with assms Some show thesis by (intro that(1)) (auto simp: release_transient_def session_scope_def)
  qed
qed

section \<open>Writing the result\<close>

lemma save_targets_Inr:
  assumes "save_targets E wk job who src n ts os = (Inr refs, os')" "replaces os0 j os" "aj_id j = aj_id job"
  shows "\<exists>ms. replaces os0 (j\<lparr>aj_models := ms\<rparr>) os'"
  using assms
proof (induction ts arbitrary: n os j refs)
  case Nil
  then have "replaces os0 (j\<lparr>aj_models := aj_models j\<rparr>) os'" by simp
  then show ?case by blast
next
  case (Cons t ts)
  obtain rp content base where t: "t = (rp, content, base)" by (cases t)
  from Cons.prems(1) obtain rv os1 refs1 where
    save: "save_report E (save_call wk job n) who (rp_id rp) (JObj content) base ''ai_result'' os = (Inr rv, os1)"
    and rest: "save_targets E wk job who src (n + 1) ts
       (change_job (aj_id job) (with_models rv) (attach_sources job src rv os1)) = (Inr refs1, os')"
    by (auto simp: t and_then_eq_Inr)
  have "keeps_office os (attach_sources job src rv os1)" using save_report_keeps [OF save] by simp
  with Cons.prems(2) have "replaces os0 j (attach_sources job src rv os1)" by (rule replaces_keeps)
  then have "replaces os0 (with_models rv j) (change_job (aj_id job) (with_models rv) (attach_sources job src rv os1))"
    using Cons.prems(3) by (intro replaces_change) simp_all
  from Cons.IH [OF rest this] Cons.prems(3) show ?case by (auto simp: with_models_def)
qed

lemma apply_report_results_Inr:
  assumes "apply_report_results E wk job who inc src res os = (Inr refs, os')"
    "distinct (job_ids os)" "find_job (aj_id job) os = Some job"
  shows "\<exists>ms. replaces os (job\<lparr>aj_models := ms\<rparr>) os'"
proof -
  from assms(1) obtain contents targets os1 where
    targets: "result_targets wk job who inc src contents os = (Inr targets, os1)"
    and save: "save_targets E wk job who src 0 (sort_key (\<lambda>t. rp_id (fst t)) targets) os1 = (Inr refs, os')"
    by (auto simp: apply_report_results_def case_result_eq_Inr and_then_eq_Inr)
  have "keeps_office os os1"
    using targets by (auto simp: result_targets_def split: if_split_asm sum.split_asm option.split_asm
        dest: collect_targets_keeps)
  then have "replaces os job os1" using replaces_self [OF assms(2,3)] by (blast intro: replaces_keeps)
  from save_targets_Inr [OF save this] show ?thesis by simp
qed

text \<open>The row a delivery leaves behind when its result has been written, up to the models it names.\<close>

definition finished_job :: "time \<Rightarrow> result_reference \<Rightarrow> dict \<Rightarrow> ai_job \<Rightarrow> ai_job" where
  "finished_job now r ms job = (ended_job Job_Succeeded Stage_Completed None now
     (finish_provider_metadata (job\<lparr>aj_models := ms\<rparr>)))\<lparr>aj_result_reference := r\<rparr>"

lemma write_report_result_Inr:
  assumes run: "write_report_result E wk job who inc src token res os = (Inr u, os')"
    and dist: "distinct (job_ids os)" and job: "find_job (aj_id job) os = Some job" "aj_state job = Job_Running"
  obtains r ms where "result_ok r" "replaces os (finished_job (wk_apply_now wk) r ms job) os'"
  | ms where "replaces os (ended_job Job_Failed Stage_Failed (Some ''job_result_conflict'') (wk_apply_now wk)
      (finish_provider_metadata (job\<lparr>aj_models := ms\<rparr>))) os'"
proof -
  from run obtain refs os1 where res: "apply_report_results E wk job who inc src res os = (Inr refs, os1)"
    and app: "apply_job_result (aj_id job) (aj_base_incident_revision job) (Some token)
       (Some (JObj [(''reports'', JArr refs)])) (wk_apply_now wk) (Some (job_request_id job))
       (finish_metadata (aj_id job) os1) = (Inr u, os')"
    by (auto simp: write_report_result_def split: prod.splits sum.splits exn.splits)
  from apply_report_results_Inr [OF res dist job(1)] obtain ms where
    "replaces os (job\<lparr>aj_models := ms\<rparr>) os1" by blast
  then have fin: "replaces os (finish_provider_metadata (job\<lparr>aj_models := ms\<rparr>)) (finish_metadata (aj_id job) os1)"
    unfolding finish_metadata_def by (intro replaces_change) simp_all
  have found: "find_job (aj_id job) (finish_metadata (aj_id job) os1) = Some (finish_provider_metadata (job\<lparr>aj_models := ms\<rparr>))"
    using replaces_find [OF fin] job(1) by simp
  from app found show thesis
  proof (cases rule: apply_job_result_Inr)
    case 1
    with job(2) show thesis by (simp add: TERMINAL_STATES_def)
  next
    case (2 i)
    then show thesis by (intro that(2)) (rule replaces_trans [OF fin], simp_all)
  next
    case (3 r i)
    then show thesis
      by (intro that(1) [of r ms]) (auto simp: finished_job_def simp del: normalize_job_result_reference.simps
          intro: normalize_reference_ok replaces_trans [OF fin])
  qed
qed

lemma next_number_pos: "1 \<le> next_revision_number ns"
  by (induction ns) (auto simp: next_revision_number_def)

lemma save_incident_number:
  "save_incident P E ed who iid snap base reason os = (Inr rv, os') \<Longrightarrow> 1 \<le> ir_revision_number rv"
  unfolding save_incident_def case_result_eq_Inr
  apply (elim exE conjE)
  apply (thin_tac "_ = Inr _")
  apply (auto simp: Let_def and_then_eq_Inr carry_incident_server_metadata_def next_number_pos
      split: if_splits prod.splits list.splits)
  done

lemma write_incident_result_Inr:
  assumes run: "write_incident_result P E wk job who token content os = (Inr u, os')"
    and dist: "distinct (job_ids os)" and job: "find_job (aj_id job) os = Some job" "aj_state job = Job_Running"
    and base: "\<And>inc. find_incident (aj_incident_id job) os = Some inc \<Longrightarrow>
        in_current_revision_number inc = aj_base_incident_revision job"
  obtains n where "replaces os (finished_job (wk_apply_now wk)
      (no_result\<lparr>rr_incident_revision := Some n\<rparr>) (aj_models job) job) os'"
    "1 \<le> n"
proof -
  from run obtain os1 os2 rv where
    app: "apply_job_result (aj_id job) (aj_base_incident_revision job) (Some token) (Some (JObj []))
       (wk_apply_now wk) (Some (job_request_id job)) (finish_metadata (aj_id job) os) = (Inr (), os1)"
    and save: "save_incident P E (save_call wk job 0) who (aj_incident_id job) (JObj content)
       (aj_base_incident_revision job) ''ai_result'' os1 = (Inr rv, os2)"
    and os': "os' = change_job (aj_id job) (\<lambda>j. j\<lparr>aj_result_reference :=
       no_result\<lparr>rr_incident_revision := Some (ir_revision_number rv)\<rparr>\<rparr>) os2"
    by (auto simp: write_incident_result_def and_then_eq_Inr)
  let ?j = "finish_provider_metadata job"
  have fin: "replaces os ?j (finish_metadata (aj_id job) os)"
    unfolding finish_metadata_def using replaces_self [OF dist job(1)] by (intro replaces_change) simp_all
  then have found: "find_job (aj_id job) (finish_metadata (aj_id job) os) = Some ?j"
    using replaces_find [OF fin] job(1) by simp
  obtain r where ended: "replaces os (finished_job (wk_apply_now wk) r (aj_models job) job) os1"
    using app found
  proof (cases rule: apply_job_result_Inr)
    case (3 r i)
    then show thesis by (intro that [of r]) (auto simp: finished_job_def intro: replaces_trans [OF fin])
  qed (use job(2) base in \<open>simp_all add: TERMINAL_STATES_def finish_metadata_def\<close>)
  have "replaces os (finished_job (wk_apply_now wk) r (aj_models job) job) os2"
    using ended save_incident_keeps [OF save] by (rule replaces_keeps)
  then have "replaces os ((finished_job (wk_apply_now wk) r (aj_models job) job)\<lparr>aj_result_reference :=
      no_result\<lparr>rr_incident_revision := Some (ir_revision_number rv)\<rparr>\<rparr>) os'"
    unfolding os' by (intro replaces_change) (simp_all add: finished_job_def)
  moreover have "1 \<le> ir_revision_number rv" using save by (rule save_incident_number)
  ultimately show thesis by (intro that) (auto simp: finished_job_def)
qed

lemma apply_result_Inr:
  assumes run: "apply_result P E wk jid token res os = (Inr u, os')" and dist: "distinct (job_ids os)"
  obtains job r ms where "find_job jid os = Some job" "aj_state job = Job_Running"
    "holds_lease (Some token) (wk_apply_now wk) job" "result_ok r"
    "replaces os (finished_job (wk_apply_now wk) r ms job) os'"
  | job ms where "find_job jid os = Some job" "aj_state job = Job_Running"
    "holds_lease (Some token) (wk_apply_now wk) job"
    "replaces os (ended_job Job_Failed Stage_Failed (Some ''job_result_conflict'') (wk_apply_now wk)
      (finish_provider_metadata (job\<lparr>aj_models := ms\<rparr>))) os'"
proof -
  from run obtain job who inc where job: "find_job jid os = Some job" "aj_state job = Job_Running"
      "holds_lease (Some token) (wk_apply_now wk) job" and inc: "find_incident (aj_incident_id job) os = Some inc"
    and rest: "(if in_current_revision_number inc \<noteq> aj_base_incident_revision job
         then apply_job_result jid (aj_base_incident_revision job) (Some token) (Some (JObj []))
                (wk_apply_now wk) (Some (job_request_id job)) (finish_metadata jid os)
         else case bind_result (source_revision job os) (\<lambda>source.
                   bind_result (authorize_incident_target inc source who os) (\<lambda>_. Inr source)) of
           Inl e \<Rightarrow> (Inl e, os)
         | Inr source \<Rightarrow>
             (case je_incident_content res of
                Some content \<Rightarrow> write_incident_result P E wk job who token content os
              | None \<Rightarrow> write_report_result E wk job who inc source token res os)) = (Inr u, os')"
    unfolding apply_result_def session_scope_Inr case_result_eq_Inr bind_result_eq_Inr leased_job_Inr
    by (auto split: option.splits)
  have jid: "aj_id job = jid" using find_row_SomeD [OF job(1)] by simp
  show thesis
  proof (cases "in_current_revision_number inc = aj_base_incident_revision job")
    case False
    have fin: "replaces os (finish_provider_metadata job) (finish_metadata jid os)"
      unfolding finish_metadata_def using replaces_self [OF dist job(1)] by (intro replaces_change) (simp_all add: jid)
    then have found: "find_job jid (finish_metadata jid os) = Some (finish_provider_metadata job)"
      using replaces_find [OF fin] job(1) by (simp add: jid)
    from rest False have "apply_job_result jid (aj_base_incident_revision job) (Some token) (Some (JObj []))
        (wk_apply_now wk) (Some (job_request_id job)) (finish_metadata jid os) = (Inr u, os')" by simp
    then show thesis using found
    proof (cases rule: apply_job_result_Inr)
      case (2 i)
      then show thesis by (intro that(2) [OF job, of "aj_models job"]) (auto intro: replaces_trans [OF fin])
    qed (use job(2) False inc in \<open>simp_all add: TERMINAL_STATES_def finish_metadata_def\<close>)
  next
    case True
    with rest obtain source where rest': "(case je_incident_content res of
                Some content \<Rightarrow> write_incident_result P E wk job who token content os
              | None \<Rightarrow> write_report_result E wk job who inc source token res os) = (Inr u, os')"
      by (auto simp: case_result_eq_Inr)
    have job': "find_job (aj_id job) os = Some job" using job(1) jid by simp
    show thesis
    proof (cases "je_incident_content res")
      case None
      with rest' have "write_report_result E wk job who inc source token res os = (Inr u, os')" by simp
      then show thesis using dist job' job(2)
      proof (cases rule: write_report_result_Inr)
        case (1 r ms)
        then show thesis by (rule that(1) [OF job])
      next
        case (2 ms)
        then show thesis by (rule that(2) [OF job])
      qed
    next
      case (Some content)
      with rest' have run': "write_incident_result P E wk job who token content os = (Inr u, os')" by simp
      have "in_current_revision_number i = aj_base_incident_revision job"
        if "find_incident (aj_incident_id job) os = Some i" for i using that inc True by simp
      then obtain n where "1 \<le> n" "replaces os (finished_job (wk_apply_now wk)
          (no_result\<lparr>rr_incident_revision := Some n\<rparr>) (aj_models job) job) os'"
        using write_incident_result_Inr [OF run' dist job' job(2)] by metis
      then show thesis
        by (intro that(1) [OF job, of "no_result\<lparr>rr_incident_revision := Some n\<rparr>"])
           (simp_all add: result_ok_def no_result_def)
    qed
  qed
qed

end
