(* ===== verification/JobProperties.thy ===== *)
theory JobProperties
  imports WorkerRules
begin

text \<open>
  The life of a job across all components that write to it: the types of its row, the end of it
  that is final, the delivery that never strands it, and its submission.
\<close>

section \<open>Submission\<close>

lemma insert_job_Inr:
  assumes "insert_job C who rc cm canonical key base inc os = (Inr (job, status, ref), os')"
  obtains ev where "in_current_revision_number inc = base" "job = new_job C who rc cm canonical key base"
    "ref = JObj [(''job_id'', JStr (uuid_str (rc_row_id rc)))]"
    "os' = logged ev (enqueue_job (rc_revision_id rc) (rc_row_id rc) (rc_now rc) (os\<lparr>ai_jobs := ai_jobs os @ [job]\<rparr>))"
  using assms
  by (auto simp: insert_job_def Let_def and_then_eq_Inr check_base_incident_def new_job_def
      split: sum.splits dest!: append_job_audit_Inr intro: that)

interpretation submits: keyed_write "insert_job C who rc cm canonical key base inc"
proof
  fix os os' :: "'a office_scheme" and x
  assume run: "insert_job C who rc cm canonical key base inc os = (Inr x, os')"
  obtain job status ref where "x = (job, status, ref)" by (cases x)
  with run show "idempotency_records (ident os') = idempotency_records (ident os)"
    by (auto simp: enqueue_job_def elim!: insert_job_Inr)
qed

lemma keyed_record_Inr:
  assumes "keyed_record C rc who key act canonical replay op ws = (Inr v, ws')"
  obtains kvs db where "replay kvs ws' = Inr v" "ws' = ws\<lparr>ident := db\<rparr>"
  | db ws2 status ref db2 where "op (ws\<lparr>ident := db\<rparr>) = (Inr (v, status, ref), ws2)" "ws' = ws2\<lparr>ident := db2\<rparr>"
proof -
  from assms obtain c ws1 where claim: "in_ident (claim_idempotency (account_id who) key act (request_digest C canonical)
      (rc_now rc) (rc_claim_id rc)) ws = (Inr c, ws1)"
    and rest: "(if replayed c then (replay (case response_reference c of Some (JObj kvs) \<Rightarrow> kvs | _ \<Rightarrow> []) ws1, ws1)
        else and_then (op ws1) (\<lambda>(view, status, ref) ws2.
          and_then (in_ident (complete_idempotency c status ref (rc_now rc)) ws2) (\<lambda>_ ws3. (Inr view, ws3)))) = (Inr v, ws')"
    by (auto simp: keyed_record_def and_then_eq_Inr)
  from claim have ws1: "ws1 = ws\<lparr>ident := ident ws1\<rparr>" by (simp add: in_ident_eq)
  show thesis
  proof (cases "replayed c")
    case True
    with rest ws1 show thesis by (intro that(1) [of _ "ident ws1"]) auto
  next
    case False
    with rest obtain status ref ws2 where op: "op ws1 = (Inr (v, status, ref), ws2)"
      and fin: "in_ident (complete_idempotency c status ref (rc_now rc)) ws2 = (Inr (), ws')"
      by (auto simp: and_then_eq_Inr)
    from fin have "ws' = ws2\<lparr>ident := ident ws'\<rparr>" by (simp add: in_ident_eq)
    with op ws1 show thesis by (intro that(2) [of "ident ws1" status ref ws2 "ident ws'"]) auto
  qed
qed

lemma submit_job_Inr:
  assumes "submit_job C who rc cm key base os = (Inr job, os')"
  obtains "ai_jobs os' = ai_jobs os" "task_outbox os' = task_outbox os"
  | canonical row where "1 \<le> base" "job = new_job C who rc cm canonical key base"
    "ai_jobs os' = ai_jobs os @ [job]" "task_outbox os' = task_outbox os @ [row]" "ob_ai_job_id row = aj_id job"
proof -
  from assms obtain canonical inc where base: "canonical_payload cm base = Inr canonical"
    and run: "keyed_record C rc who key ''ai.job.submit'' canonical job_from_reference
      (insert_job C who rc cm canonical key base inc) os = (Inr job, os')"
    by (auto simp: submit_job_def case_result_eq_Inr)
  from run show thesis
  proof (cases rule: keyed_record_Inr)
    case (1 kvs db)
    then show thesis by (intro that(1)) simp_all
  next
    case (2 db os2 status ref db2)
    from 2(1) obtain ev where "job = new_job C who rc cm canonical key base"
      "os2 = logged ev (enqueue_job (rc_revision_id rc) (rc_row_id rc) (rc_now rc)
        (os\<lparr>ident := db, ai_jobs := ai_jobs os @ [job]\<rparr>))"
      by (rule insert_job_Inr) simp
    with 2(2) base show thesis
      by (intro that(2)) (auto simp: enqueue_job_def canonical_payload_def new_job_def split: if_splits)
  qed
qed

section \<open>All steps\<close>

inductive office_step :: "'o office_scheme \<Rightarrow> 'o office_scheme \<Rightarrow> bool" where
  submitted: "session_scope (submit_job C who rc cm key base) os = (r, os') \<Longrightarrow>
    rc_row_id rc \<notin> set (job_ids os) \<Longrightarrow> office_step os os'"
| claimed: "claim wk jid os = (c, os') \<Longrightarrow> office_step os os'"
| preflighted: "preflight jid token now os = (u, os') \<Longrightarrow> office_step os os'"
| started: "mark_provider_started jid token now os = (u, os') \<Longrightarrow> office_step os os'"
| applied: "apply_result P E wk jid token res os = (u, os') \<Longrightarrow> office_step os os'"
| failed: "mark_terminal jid token err now os = (u, os') \<Longrightarrow> err \<in> set SAFE_TERMINAL_CODES \<Longrightarrow> office_step os os'"
| released: "release_transient jid token os = (u, os') \<Longrightarrow> office_step os os'"
| elsewhere: "ai_jobs os' = ai_jobs os \<Longrightarrow>
    map ob_ai_job_id (task_outbox os') = map ob_ai_job_id (task_outbox os) \<Longrightarrow> office_step os os'"

text \<open>What a step does to the tables: nothing, one row moves, or one job is added.\<close>

inductive table_step :: "'o office_scheme \<Rightarrow> 'o office_scheme \<Rightarrow> bool" where
  same: "ai_jobs os' = ai_jobs os \<Longrightarrow>
    map ob_ai_job_id (task_outbox os') = map ob_ai_job_id (task_outbox os) \<Longrightarrow> table_step os os'"
| moved: "find_job (aj_id j) os = Some j \<Longrightarrow> job_moves\<^sup>*\<^sup>* j j' \<Longrightarrow> aj_id j' = aj_id j \<Longrightarrow>
    replaces os j' os' \<Longrightarrow> table_step os os'"
| added: "ai_jobs os' = ai_jobs os @ [j] \<Longrightarrow> task_outbox os' = task_outbox os @ [row] \<Longrightarrow>
    ob_ai_job_id row = aj_id j \<Longrightarrow> aj_id j \<notin> set (job_ids os) \<Longrightarrow> job_row_ok j \<Longrightarrow> table_step os os'"

lemma moves_metadata: "aj_state j = Job_Running \<Longrightarrow> job_moves j (j\<lparr>aj_request_metadata := md\<rparr>)"
  using job_moves.prepares [where j = j and stage = "aj_stage j" and md = md and ms = "aj_models j"] by simp

lemma moves_models:
  assumes "aj_state j = Job_Running"
  shows "job_moves j (finish_provider_metadata (j\<lparr>aj_models := ms\<rparr>))"
proof -
  let ?md = "aj_request_metadata (finish_provider_metadata (j\<lparr>aj_models := ms\<rparr>))"
  have "finish_provider_metadata (j\<lparr>aj_models := ms\<rparr>)
      = j\<lparr>aj_request_metadata := ?md, aj_models := ms, aj_stage := aj_stage j\<rparr>"
    by (cases j) (simp add: finish_provider_metadata_def Let_def)
  then show ?thesis using job_moves.prepares [OF assms, of "aj_stage j"] by metis
qed

lemma moves_finished:
  "aj_state j = Job_Running \<Longrightarrow> result_ok r \<Longrightarrow> job_moves\<^sup>*\<^sup>* j (finished_job now r ms j)"
  unfolding finished_job_def
  by (rule converse_rtranclp_into_rtranclp, erule moves_models [where ms = ms], rule r_into_rtranclp)
     (rule job_moves.succeeds, simp_all)

lemma moves_failed:
  "aj_state j = Job_Running \<Longrightarrow> err \<in> set SAFE_TERMINAL_CODES \<Longrightarrow>
   job_moves\<^sup>*\<^sup>* j (ended_job Job_Failed Stage_Failed (Some err) now (finish_provider_metadata (j\<lparr>aj_models := ms\<rparr>)))"
  by (rule converse_rtranclp_into_rtranclp, erule moves_models [where ms = ms], rule r_into_rtranclp)
     (rule job_moves.fails, simp_all)

lemma moves_failed_plain:
  "aj_state j = Job_Running \<Longrightarrow> err \<in> set SAFE_TERMINAL_CODES \<Longrightarrow>
   job_moves\<^sup>*\<^sup>* j (ended_job Job_Failed Stage_Failed (Some err) now (finish_provider_metadata j))"
  using moves_failed [of j err now "aj_models j"] by simp

lemma moves_claimed: "claimable now j \<Longrightarrow> job_moves\<^sup>*\<^sup>* j (noted_claim token (claimed_job token now j))"
proof -
  assume "claimable now j"
  then have "job_moves j (claimed_job token now j)" by (rule job_moves.claims)
  moreover have "job_moves (claimed_job token now j) (noted_claim token (claimed_job token now j))"
    unfolding noted_claim_def Let_def by (rule moves_metadata) (simp add: claimed_job_def)
  ultimately show ?thesis by (meson converse_rtranclp_into_rtranclp r_into_rtranclp)
qed

lemma moves_prepared: "aj_state j = Job_Running \<Longrightarrow> job_moves\<^sup>*\<^sup>* j (prepared_job source bases j)"
proof -
  assume run: "aj_state j = Job_Running"
  have "job_moves j (j\<lparr>aj_request_metadata := md, aj_models := aj_models j,
      aj_stage := (if aj_job_type j = Generate then Stage_Generating else aj_stage j)\<rparr>)" for md
    using run by (intro job_moves.prepares) auto
  then show ?thesis unfolding prepared_job_def by (intro r_into_rtranclp) simp
qed

lemma conflict_code [simp]: "''job_result_conflict'' \<in> set SAFE_TERMINAL_CODES"
  by (simp add: SAFE_TERMINAL_CODES_def)

lemma table_step_same [simp]: "table_step os os"
  by (rule table_step.same) simp_all

lemma table_step_moved:
  "find_job jid os = Some j \<Longrightarrow> job_moves\<^sup>*\<^sup>* j j' \<Longrightarrow> aj_id j' = aj_id j \<Longrightarrow> replaces os j' os' \<Longrightarrow> table_step os os'"
  using find_row_SomeD [of aj_id jid "ai_jobs os" j] by (intro table_step.moved) auto

lemma office_step_table:
  assumes "office_step os os'" "distinct (job_ids os)"
  shows "table_step os os'"
  using assms
proof (induction rule: office_step.induct)
  case (submitted C who rc cm key base os r os')
  show ?case
  proof (cases r)
    case (Inl e)
    with submitted show ?thesis by (auto dest: session_scope_raised)
  next
    case (Inr job)
    with submitted have "submit_job C who rc cm key base os = (Inr job, os')" by (simp add: session_scope_Inr)
    then show ?thesis
    proof (cases rule: submit_job_Inr)
      case 1
      then show ?thesis by (intro table_step.same) simp_all
    next
      case (2 canonical row)
      with submitted.hyps show ?thesis
        by (intro table_step.added [of os' os job row]) (simp_all add: new_job_ok, simp add: new_job_def)
    qed
  qed
next
  case (claimed wk jid os c os')
  show ?case
  proof (cases c)
    case (Inl e)
    with claimed show ?thesis by (auto simp: claim_def dest: session_scope_raised)
  next
    case (Inr tr)
    with claimed have "claim wk jid os = (Inr (fst tr, snd tr), os')" by simp
    then show ?thesis
      by (cases rule: claim_Inr) (auto intro: table_step_moved moves_claimed)
  qed
next
  case (preflighted jid token now os u os')
  show ?case
  proof (cases u)
    case (Inl e)
    with preflighted show ?thesis by (auto simp: preflight_def dest: session_scope_raised)
  next
    case (Inr x)
    with preflighted have "preflight jid token now os = (Inr x, os')" by simp
    then show ?thesis
    proof (cases rule: preflight_Inr)
      case (1 job)
      then show ?thesis by (intro table_step_moved [OF 1(1) moves_failed_plain]) simp_all
    next
      case (2 job source bases)
      then show ?thesis by (intro table_step_moved [OF 2(1) moves_prepared]) simp_all
    qed
  qed
next
  case (started jid token now os u os')
  show ?case
  proof (cases u)
    case (Inl e)
    with started show ?thesis by (auto simp: mark_provider_started_def dest: session_scope_raised)
  next
    case (Inr x)
    with started have "mark_provider_started jid token now os = (Inr x, os')" by simp
    then show ?thesis
    proof (cases rule: mark_provider_started_Inr)
      case (1 job md)
      have "job_moves\<^sup>*\<^sup>* job (job\<lparr>aj_request_metadata := md\<rparr>)"
        using moves_metadata [OF 1(2)] by (rule r_into_rtranclp)
      with 1 show ?thesis by (intro table_step_moved [OF 1(1)]) simp_all
    qed
  qed
next
  case (applied P E wk jid token res os u os')
  show ?case
  proof (cases u)
    case (Inl e)
    with applied show ?thesis by (auto simp: apply_result_def dest: session_scope_raised)
  next
    case (Inr x)
    with applied have "apply_result P E wk jid token res os = (Inr x, os')" by simp
    then show ?thesis using applied.prems
    proof (cases rule: apply_result_Inr)
      case (1 job r ms)
      then show ?thesis
        by (intro table_step_moved [OF 1(1) moves_finished]) (simp_all add: finished_job_def)
    next
      case (2 job ms)
      then show ?thesis by (intro table_step_moved [OF 2(1) moves_failed]) simp_all
    qed
  qed
next
  case (failed jid token err now os u os')
  show ?case
  proof (cases u)
    case (Inl e)
    with failed show ?thesis by (auto simp: mark_terminal_def dest: session_scope_raised)
  next
    case (Inr x)
    with failed have "mark_terminal jid token err now os = (Inr x, os')" by simp
    then show ?thesis using failed.hyps(2)
      by (cases rule: mark_terminal_Inr) (auto intro: table_step_moved moves_failed_plain)
  qed
next
  case (released jid token os u os')
  then show ?case
    by (cases rule: release_transient_Inr)
       (auto intro!: table_step_moved r_into_rtranclp job_moves.releases simp: released_job_def)
qed (rule table_step.same)

section \<open>The table stays well typed\<close>

definition office_wf :: "'o office_scheme \<Rightarrow> bool" where
  "office_wf os \<longleftrightarrow> distinct (job_ids os) \<and> list_all job_row_ok (ai_jobs os)
     \<and> map ob_ai_job_id (task_outbox os) = job_ids os"

lemma office_wf_distinct: "office_wf os \<Longrightarrow> distinct (job_ids os)"
  by (simp add: office_wf_def)

lemma table_step_wf: "table_step os os' \<Longrightarrow> office_wf os \<Longrightarrow> office_wf os'"
proof (induction rule: table_step.induct)
  case (moved j os j' os')
  then have "job_row_ok j'" by (auto simp: office_wf_def list_all_iff intro: job_moves_star_ok dest: find_row_SomeD)
  moreover have "set (ai_jobs os') \<subseteq> insert j' (set (ai_jobs os))"
    using moved(4) by (auto simp: replaces_def set_update_rows)
  ultimately show ?case using moved replaces_ids [OF moved(4)]
    by (auto simp: office_wf_def list_all_iff replaces_def)
qed (auto simp: office_wf_def)

lemma office_steps_wf: "office_step\<^sup>*\<^sup>* os os' \<Longrightarrow> office_wf os \<Longrightarrow> office_wf os'"
proof (induction rule: rtranclp_induct)
  case (step os1 os2)
  then have "office_wf os1" by simp
  then show ?case using step.hyps(2) by (blast intro: table_step_wf office_step_table office_wf_distinct)
qed

text \<open>A row is never lost and only moves along the state machine; a row that has ended stays.\<close>

lemma table_step_moves:
  assumes "table_step os os'" "find_job i os = Some job"
  shows "\<exists>job'. find_job i os' = Some job' \<and> job_moves\<^sup>*\<^sup>* job job'"
  using assms
proof cases
  case (moved j j')
  show ?thesis
  proof (cases "i = aj_id j")
    case True
    then have "j = job" using moved(1) assms(2) by simp
    then show ?thesis using replaces_find [OF moved(4)] assms(2) moved(2,3) True by auto
  next
    case False
    then have "aj_id job \<noteq> aj_id j'" using moved(3) find_row_SomeD [OF assms(2)] by simp
    then show ?thesis using assms(2) moved(4) by (simp add: replaces_def find_update_rows)
  qed
qed (use assms(2) in \<open>simp_all add: find_row_append\<close>)

lemma office_steps_moves:
  "office_step\<^sup>*\<^sup>* os os' \<Longrightarrow> office_wf os \<Longrightarrow> find_job i os = Some job \<Longrightarrow>
   \<exists>job'. find_job i os' = Some job' \<and> job_moves\<^sup>*\<^sup>* job job'"
proof (induction rule: rtranclp_induct)
  case (step os1 os2)
  have "office_wf os1" using step.hyps(1) step.prems(1) by (rule office_steps_wf)
  then have table: "table_step os1 os2" using step.hyps(2) by (blast intro: office_step_table office_wf_distinct)
  obtain j where "find_job i os1 = Some j" "job_moves\<^sup>*\<^sup>* job j" using step.IH [OF step.prems] by blast
  with table_step_moves [OF table] show ?case by (meson rtranclp_trans)
qed blast

lemma office_steps_terminal:
  "office_step\<^sup>*\<^sup>* os os' \<Longrightarrow> office_wf os \<Longrightarrow> find_job i os = Some job \<Longrightarrow>
   aj_state job \<in> set TERMINAL_STATES \<Longrightarrow> find_job i os' = Some job"
  using office_steps_moves terminal_stays by blast

text \<open>The format \<open>^[a-z][a-z0-9_]{0,63}$\<close> of an error code.\<close>

definition error_code_format :: "string \<Rightarrow> bool" where
  "error_code_format s \<longleftrightarrow> s \<noteq> [] \<and> length s \<le> 64 \<and> is_lower_ascii (hd s)
     \<and> list_all (\<lambda>c. is_lower_ascii c \<or> is_digit c \<or> c = CHR ''_'') s"

lemma safe_codes_format: "list_all error_code_format SAFE_TERMINAL_CODES"
  by code_simp

lemma row_constraints:
  assumes "job_row_ok j"
  shows "(aj_state j = Job_Running) = (aj_lease_expires_at j \<noteq> None \<and> aj_claim_token j \<noteq> None)"
    and "aj_lease_expires_at j = None \<or> aj_started_at j \<noteq> None"
    and "1 \<le> aj_base_incident_revision j" and "result_ok (aj_result_reference j)"
    and "case aj_error_code j of None \<Rightarrow> True | Some e \<Rightarrow> error_code_format e"
  using assms safe_codes_format
  by (cases "aj_state j"; auto simp: job_row_ok_def list_all_iff split: option.splits)+

text \<open>
  C30. No component that writes to the job table ever breaks the constraints of its schema: after
  any sequence of steps a job has a lease and a claim token exactly while it runs, a lease only
  after it has started, a positive base revision, an error code of the stored format, and a
  result reference in normal form; identifiers are unique and each job has its outbox row.
\<close>

theorem job_table_typed:
  assumes "office_wf os" "office_step\<^sup>*\<^sup>* os os'"
  shows "(\<forall>j \<in> set (ai_jobs os').
      (aj_state j = Job_Running) = (aj_lease_expires_at j \<noteq> None \<and> aj_claim_token j \<noteq> None)
      \<and> (aj_lease_expires_at j = None \<or> aj_started_at j \<noteq> None)
      \<and> 1 \<le> aj_base_incident_revision j \<and> result_ok (aj_result_reference j)
      \<and> (case aj_error_code j of None \<Rightarrow> True | Some e \<Rightarrow> error_code_format e))
    \<and> distinct (job_ids os') \<and> map ob_ai_job_id (task_outbox os') = job_ids os'"
proof -
  have wf: "office_wf os'" using office_steps_wf [OF assms(2,1)] .
  then have "job_row_ok j" if "j \<in> set (ai_jobs os')" for j
    using that by (simp add: office_wf_def list_all_iff)
  then show ?thesis using row_constraints wf by (simp add: office_wf_def)
qed

section \<open>A result is written once\<close>

lemma terminal_refused:
  assumes "find_job jid os = Some job" "aj_state job \<in> set TERMINAL_STATES"
  shows "apply_result P E wk jid token res os = (Inl StaleJobClaim, os)"
    and "claim wk jid os = (Inr (None, None), os)"
  using assms
  by (auto simp: apply_result_def session_scope_def leased_job_def claim_def claim_job_def claimable_def
      TERMINAL_STATES_def)

lemma applied_settled:
  assumes "apply_result P E wk jid token res os = (Inr u, os')" "distinct (job_ids os)"
  shows "\<exists>job. find_job jid os' = Some job \<and> aj_state job \<in> {Job_Succeeded, Job_Failed}"
  using assms
proof (cases rule: apply_result_Inr)
  case (1 job r ms)
  then have "aj_id job = jid" using find_row_SomeD [OF 1(1)] by simp
  with 1 replaces_find [OF 1(5)] show ?thesis by (auto simp: finished_job_def ended_job_def)
next
  case (2 job ms)
  then have "aj_id job = jid" using find_row_SomeD [OF 2(1)] by simp
  with 2 replaces_find [OF 2(4)] show ?thesis by (auto simp: ended_job_def)
qed

lemma applied_terminal:
  "apply_result P E wk jid token res os = (Inr u, os') \<Longrightarrow> distinct (job_ids os) \<Longrightarrow>
   \<exists>job. find_job jid os' = Some job \<and> aj_state job \<in> set TERMINAL_STATES"
  by (drule applied_settled) (auto simp: TERMINAL_STATES_def)

text \<open>
  C31. A result is written at most once, however deliveries interleave: when one delivery has
  written its result, then after any further steps of any component the job is as that delivery
  left it, every other delivery that still tries to write is refused and changes nothing, and a
  new delivery of the task returns without work.
\<close>

theorem result_written_once:
  assumes "office_wf os" "apply_result P E wk jid token res os = (Inr (), os1)" "office_step\<^sup>*\<^sup>* os1 os2"
  shows "find_job jid os2 = find_job jid os1
    \<and> apply_result P' E' wk' jid token' res' os2 = (Inl StaleJobClaim, os2)
    \<and> run P' E' engine wk' jid os2 = (Inr (), os2)"
proof -
  obtain job where job: "find_job jid os1 = Some job" "aj_state job \<in> set TERMINAL_STATES"
    using applied_terminal [OF assms(2) office_wf_distinct [OF assms(1)]] by blast
  have "office_step os os1" using assms(2) by (rule office_step.applied)
  then have "office_step\<^sup>*\<^sup>* os os1" by blast
  then have "office_wf os1" using assms(1) by (rule office_steps_wf)
  then have "find_job jid os2 = Some job" using office_steps_terminal [OF assms(3) _ job] by simp
  then show ?thesis by (simp add: run_def terminal_refused [OF _ job(2)] job(1))
qed

section \<open>A submission is repeated\<close>

text \<open>
  C33. Submitting is idempotent for a day, whatever has happened to the job in between. Where a
  job was submitted under a key that was new, and the requester still may see the incident and,
  when the request is bound to a report, still has access to that report, the same request
  under the same key (whose record still stands) gives the job as it now is, queued, running or
  ended, and changes nothing; it is not refused because the incident has moved on to a later
  revision.
\<close>

theorem submission_idempotent:
  fixes os os1 os2 :: "'o office_scheme"
  assumes run: "submit_job C who rc cm key base os = (Inr job, os1)" and wf: "office_wf os"
    and new: "find_record (account_id who, ''ai.job.submit'', key) (ident os) = None" "records_wf (ident os)"
      "rc_claim_id rc \<notin> id_id ` set (idempotency_records (ident os))" "rc_row_id rc \<notin> set (job_ids os)"
    and later: "office_step\<^sup>*\<^sup>* os1 os2" "rc_now rc' < rc_now rc + hours 24"
      "find_record (account_id who, ''ai.job.submit'', key) (ident os2)
         = find_record (account_id who, ''ai.job.submit'', key) (ident os1)"
    and allowed: "authorize_incident who (cm_incident_id cm) os2 = Inr inc2" "authorize_bound_report who cm os2 = Inr ()"
  shows "\<exists>job2. submit_job C who rc' cm key base os2 = (Inr job2, os2)
    \<and> find_job (aj_id job) os2 = Some job2 \<and> job_moves\<^sup>*\<^sup>* job job2"
proof -
  from run obtain canonical inc where canonical: "canonical_payload cm base = Inr canonical"
    and keyed: "keyed_record C rc who key ''ai.job.submit'' canonical job_from_reference
      (insert_job C who rc cm canonical key base inc) os = (Inr job, os1)"
    by (auto simp: submit_job_def case_result_eq_Inr)
  from submits.replay_answers [OF keyed new(1-3) later(2), of job_from_reference
      "insert_job C who rc' cm canonical key base inc2"]
  obtain kvs status wa wb where op: "insert_job C who rc cm canonical key base inc wa = (Inr (job, status, JObj kvs), wb)"
    and states: "wa = os\<lparr>ident := ident wa\<rparr>" "os1 = wb\<lparr>ident := ident os1\<rparr>"
    and replays: "\<forall>os3 :: 'o office_scheme. find_record (account_id who, ''ai.job.submit'', key) (ident os3)
        = find_record (account_id who, ''ai.job.submit'', key) (ident os1) \<longrightarrow>
      keyed_record C rc' who key ''ai.job.submit'' canonical job_from_reference
        (insert_job C who rc' cm canonical key base inc2) os3 = (job_from_reference kvs os3, os3)"
    by blast
  have again: "keyed_record C rc' who key ''ai.job.submit'' canonical job_from_reference
      (insert_job C who rc' cm canonical key base inc2) os2 = (job_from_reference kvs os2, os2)"
    using replays later(3) by simp
  have "kvs = [(''job_id'', JStr (uuid_str (aj_id job)))] \<and> aj_id job = rc_row_id rc \<and> ai_jobs wb = ai_jobs wa @ [job]"
    using op by (rule insert_job_Inr) (auto simp: new_job_def enqueue_job_def)
  then have kvs: "kvs = [(''job_id'', JStr (uuid_str (aj_id job)))]" and id: "aj_id job = rc_row_id rc"
    and rows: "ai_jobs os1 = ai_jobs os @ [job]"
    using arg_cong [OF states(1), of ai_jobs] arg_cong [OF states(2), of ai_jobs] by simp_all
  have "session_scope (submit_job C who rc cm key base) os = (Inr job, os1)" using run by (simp add: session_scope_def)
  then have step: "office_step os os1" using new(4) by (rule office_step.submitted)
  then have "office_step\<^sup>*\<^sup>* os os1" by blast
  then have wf1: "office_wf os1" using wf by (rule office_steps_wf)
  have "find_job (aj_id job) os = None" using new(4) id by (force simp: find_row_None_iff)
  then have "find_job (aj_id job) os1 = Some job" by (simp add: rows find_row_append)
  then obtain job2 where "find_job (aj_id job) os2 = Some job2" "job_moves\<^sup>*\<^sup>* job job2"
    using office_steps_moves [OF later(1) wf1] by blast
  then show ?thesis
    using again kvs by (simp add: submit_job_def canonical allowed job_from_reference_def reference_uuid_def obj_get_def)
qed

end
