(* ===== verification/WorkerErrors.thy ===== *)
theory WorkerErrors
  imports WorkerRules
begin

text \<open>
  Which exceptions a delivery can meet: validation of content only ever raises
  \<open>ValidationError\<close>, and no operation below the worker raises the exceptions that the worker
  reserves for itself, a stale claim and a terminal failure outside the approved codes.
\<close>

section \<open>Validation\<close>

definition field_errors :: "field \<Rightarrow> bool" where
  "field_errors f \<longleftrightarrow> (\<forall>v e. snd (snd f) v = Inl e \<longrightarrow> e = ValidationError)"

lemma fill_fields_Inl:
  "fill_fields fs kvs = Inl e \<Longrightarrow> list_all field_errors fs \<Longrightarrow> e = ValidationError"
  by (induction fs kvs rule: fill_fields.induct)
     (auto simp: bind_result_def field_errors_def split: sum.splits option.splits)

lemma wrap_error_Inl: "wrap_error r = Inl e \<Longrightarrow> e = ValidationError"
  by (auto simp: wrap_error_def split: sum.splits)

lemma validate_model_Inl:
  "validate_model fs v = Inl e \<Longrightarrow> list_all field_errors fs \<Longrightarrow> e = ValidationError"
  by (auto simp: validate_model_def bind_result_def reject_nonfinite_or_oversized_def
      split: json.splits if_splits sum.splits dest: fill_fields_Inl wrap_error_Inl)

lemma accept_Inl: "accept b v = Inl e \<Longrightarrow> e = ValidationError"
  by (simp add: accept_def split: if_splits)

lemma field_checks_Inl:
  "text_field k v = Inl e \<Longrightarrow> e = ValidationError" "optional_text k v = Inl e \<Longrightarrow> e = ValidationError"
  "map_field p v = Inl e \<Longrightarrow> e = ValidationError" "list_field k v = Inl e \<Longrightarrow> e = ValidationError"
  "parsed_field f v = Inl e \<Longrightarrow> e = ValidationError" "normalized_field g v = Inl e \<Longrightarrow> e = ValidationError"
  by (cases v; auto simp: accept_def bind_result_def split: if_splits option.splits sum.splits dest: wrap_error_Inl)+

lemma report_content_Inl: "validate_report_content v = Inl e \<Longrightarrow> e = ValidationError"
  unfolding validate_report_content_def
  by (erule validate_model_Inl)
     (auto simp: report_fields_def field_errors_def schema_version_field_def warnings_field_def
       dest: accept_Inl field_checks_Inl)

lemma incident_content_Inl: "validate_incident_content P v = Inl e \<Longrightarrow> e = ValidationError"
  unfolding validate_incident_content_def
  by (erule validate_model_Inl)
     (auto simp: incident_fields_def field_errors_def schema_version_field_def warnings_field_def
       dest: accept_Inl field_checks_Inl)

section \<open>Ordinary exceptions\<close>

definition ordinary :: "exn \<Rightarrow> bool" where
  "ordinary e \<longleftrightarrow> e \<noteq> StaleJobClaim \<and> (\<forall>c. e = TerminalJobFailure c \<longrightarrow> c \<in> set SAFE_TERMINAL_CODES)"

lemma ordinary_simps [simp]:
  "ordinary (ValueError m)" "ordinary TypeError" "ordinary (RuntimeError m)" "ordinary JobNotFound"
  "ordinary RevisionTargetMissing" "ordinary (RevisionConflict n s t ed fs)" "ordinary (IntegrityError m)"
  "ordinary InvalidJobResultReference" "ordinary TransientJobFailure" "ordinary IncidentNotFound"
  "ordinary AttributeError" "\<not> ordinary StaleJobClaim"
  by (simp_all add: ordinary_def)

lemma ordinary_terminal [simp]: "ordinary (TerminalJobFailure c) \<longleftrightarrow> c \<in> set SAFE_TERMINAL_CODES"
  by (simp add: ordinary_def)

lemma safe_codes [simp]:
  "''job_output_invalid'' \<in> set SAFE_TERMINAL_CODES" "''job_target_invalid'' \<in> set SAFE_TERMINAL_CODES"
  "''job_result_conflict'' \<in> set SAFE_TERMINAL_CODES" "''job_authorization_invalid'' \<in> set SAFE_TERMINAL_CODES"
  by (simp_all add: SAFE_TERMINAL_CODES_def)

lemma bind_result_Inl: "bind_result r f = Inl e \<longleftrightarrow> r = Inl e \<or> (\<exists>x. r = Inr x \<and> f x = Inl e)"
  by (auto simp: bind_result_def split: sum.splits)

lemma and_then_Inl: "and_then rs f = (Inl e, s') \<longleftrightarrow> rs = (Inl e, s') \<or> (\<exists>x s. rs = (Inr x, s) \<and> f x s = (Inl e, s'))"
  by (cases rs; cases "fst rs") (auto simp: and_then_def)

lemma require_Inl: "require b e' = Inl e \<longleftrightarrow> \<not> b \<and> e = e'"
  by (auto simp: require_def)

lemma for_each_ordinary: "for_each f xs = Inl e \<Longrightarrow> (\<And>x. f x = Inl e \<Longrightarrow> ordinary e) \<Longrightarrow> ordinary e"
  by (induction xs) (auto simp: bind_result_Inl)

lemma require_code_ordinary: "require_code v codes = Inl e \<Longrightarrow> ordinary e"
  by (cases v) (auto simp: require_code_def bind_result_Inl require_Inl)

lemma if_ordinary: "(if b then x else y) = Inl e \<Longrightarrow> (x = Inl e \<Longrightarrow> ordinary e) \<Longrightarrow> (y = Inl e \<Longrightarrow> ordinary e) \<Longrightarrow> ordinary e"
  by (cases b) simp_all

lemma field_rule_ordinary:
  "(case v of JStr s \<Rightarrow> require (p s) invalid_details | _ \<Rightarrow> Inl invalid_details) = Inl e \<Longrightarrow> ordinary e"
  "(case v of JInt i \<Rightarrow> require (q i) invalid_details | _ \<Rightarrow> Inl invalid_details) = Inl e \<Longrightarrow> ordinary e"
  "(case v of JBool _ \<Rightarrow> Inr () | _ \<Rightarrow> Inl invalid_details) = Inl e \<Longrightarrow> ordinary e"
  by (cases v; auto simp: require_Inl)+

lemma code_rule_ordinary:
  "(case c of None \<Rightarrow> r | Some codes \<Rightarrow> require_code v codes) = Inl e \<Longrightarrow> (r = Inl e \<Longrightarrow> ordinary e) \<Longrightarrow> ordinary e"
  by (cases c) (auto dest: require_code_ordinary)

lemma detail_value_ordinary: "validate_detail_value act k v = Inl e \<Longrightarrow> ordinary e"
  unfolding validate_detail_value_def
  by (elim if_ordinary code_rule_ordinary field_rule_ordinary require_code_ordinary)
     simp

lemma name_list_ordinary: "validate_name_list act k v = Inl e \<Longrightarrow> ordinary e"
  by (auto simp: validate_name_list_def require_Inl Let_def split: option.splits if_split_asm json.splits)

lemma details_ordinary: "validate_details act d = Inl e \<Longrightarrow> ordinary e"
  by (auto simp: validate_details_def bind_result_Inl split: option.splits json.splits if_split_asm
      elim!: for_each_ordinary intro: detail_value_ordinary name_list_ordinary)

lemma append_audit_ordinary: "append_audit ev db = (Inl e, db') \<Longrightarrow> ordinary e"
  by (auto simp: append_audit_def bind_result_Inl validate_actor_attribution_def Let_def require_Inl
      split: sum.splits if_split_asm dest: details_ordinary)

lemma in_ident_Inl: "in_ident f ws = (Inl e, ws') \<Longrightarrow> \<exists>db. f (ident ws) = (Inl e, db)"
  by (auto simp: in_ident_def split: prod.splits)

lemma append_job_audit_ordinary: "append_job_audit a s act job req client kvs os = (Inl e, os') \<Longrightarrow> ordinary e"
  by (auto simp: append_job_audit_def dest!: in_ident_Inl append_audit_ordinary)

lemma append_edit_audit_ordinary: "append_edit_audit who ed act tt tid kvs os = (Inl e, os') \<Longrightarrow> ordinary e"
  by (auto simp: append_edit_audit_def dest!: in_ident_Inl append_audit_ordinary)

section \<open>The operations of a delivery\<close>

lemma check_base_report_ordinary: "check_base_report rp base ws = Inl e \<Longrightarrow> ordinary e"
  by (auto simp: check_base_report_def split: if_splits option.splits)

lemma editor_snapshot_ordinary: "with_editor_snapshot who db p = Inl e \<Longrightarrow> ordinary e"
  by (auto simp: with_editor_snapshot_def editor_snapshot_def bind_result_Inl split: option.splits)

lemma case_result_eq_Inl:
  "(case r of Inl e \<Rightarrow> (Inl e, s) | Inr x \<Rightarrow> f x) = (Inl e', s') \<longleftrightarrow>
     r = Inl e' \<and> s' = s \<or> (\<exists>x. r = Inr x \<and> f x = (Inl e', s'))"
  by (cases r) auto

lemma save_report_ordinary: "save_report E ed who rid content base reason ws = (Inl e, ws') \<Longrightarrow> ordinary e"
  unfolding save_report_def case_result_eq_Inl
  by (auto simp: bind_result_Inl and_then_Inl Let_def validate_revision_number_def require_Inl
      split: option.splits prod.splits
      dest: check_base_report_ordinary report_content_Inl editor_snapshot_ordinary append_edit_audit_ordinary
      simp del: bind_result_eq_Inr)

lemma current_payload_Inl: "incident_current_payload P inc = Inl e \<Longrightarrow> e = ValidationError"
  by (auto simp: incident_current_payload_def dest: incident_content_Inl)

lemma save_incident_ordinary: "save_incident P E ed who iid snap base reason ws = (Inl e, ws') \<Longrightarrow> ordinary e"
  unfolding save_incident_def case_result_eq_Inl
proof (elim disjE exE conjE, goal_cases)
  case 1
  then show ?case
    by (auto simp: bind_result_Inl validate_revision_number_def require_Inl check_base_incident_def
        split: option.splits dest: incident_content_Inl current_payload_Inl simp del: bind_result_eq_Inr)
next
  case (2 x)
  then show ?case
    by (auto simp: and_then_Inl Let_def split: prod.splits if_split_asm dest: append_edit_audit_ordinary
        simp del: bind_result_eq_Inr)
qed

lemma new_report_shell_ordinary: "new_report_shell rid iid rt owner who now ws = (Inl e, ws') \<Longrightarrow> ordinary e"
  by (auto simp: new_report_shell_def Let_def split: if_splits)

lemma collect_targets_ordinary: "collect_targets wk job who inc n items os = (Inl e, os') \<Longrightarrow> ordinary e"
proof (induction items arbitrary: n os)
  case (Cons item items)
  obtain key content owner where item: "item = (key, content, owner)" by (cases item)
  show ?case
  proof (cases "REPORT_KEYS key")
    case None
    with Cons.prems show ?thesis by (auto simp: item)
  next
    case (Some rt)
    with Cons.prems show ?thesis
      by (cases "report_slot_row (in_id inc) rt owner os")
         (auto simp: item and_then_Inl split: option.splits if_split_asm
           dest: Cons.IH new_report_shell_ordinary)
  qed
qed simp

lemma report_target_ordinary: "authorize_report_target job who os = Inl e \<Longrightarrow> ordinary e"
  by (auto simp: authorize_report_target_def split: option.splits if_split_asm)

lemma reporting_staff_ordinary: "reporting_staff_ids r os = Inl e \<Longrightarrow> ordinary e"
  by (auto simp: reporting_staff_ids_def Let_def split: option.splits json.splits if_split_asm)

lemma result_targets_ordinary: "result_targets wk job who inc source contents os = (Inl e, os') \<Longrightarrow> ordinary e"
  by (auto simp: result_targets_def split: if_split_asm sum.split_asm option.split_asm
      dest: report_target_ordinary reporting_staff_ordinary collect_targets_ordinary)

lemma save_targets_ordinary: "save_targets E wk job who source n ts os = (Inl e, os') \<Longrightarrow> ordinary e"
proof (induction ts arbitrary: n os)
  case (Cons t ts)
  then show ?case by (cases t) (auto simp: and_then_Inl dest: save_report_ordinary)
qed simp

lemma report_results_ordinary: "apply_report_results E wk job who inc source res os = (Inl e, os') \<Longrightarrow> ordinary e"
  by (auto simp: apply_report_results_def case_result_eq_Inl and_then_Inl result_contents_def
      split: option.splits if_split_asm dest: result_targets_ordinary save_targets_ordinary)

lemma normalize_items_Inl: "normalize_items vs seen = Inl e \<Longrightarrow> e = InvalidJobResultReference"
proof (induction vs arbitrary: seen)
  case (Cons v vs)
  then show ?case by (cases v) (auto simp: bind_result_Inl split: if_split_asm option.splits json.splits)
qed simp

lemma normalize_reference_Inl: "normalize_job_result_reference v = Inl e \<Longrightarrow> e = InvalidJobResultReference"
  by (cases v) (auto simp: bind_result_Inl normalize_incident_reference_def normalize_reports_def
      split: if_split_asm option.splits json.splits dest: normalize_items_Inl)

text \<open>A holder of the lease is never told that its claim is stale.\<close>

lemma apply_job_result_ordinary:
  assumes "apply_job_result jid expected token ref now req os = (Inl e, os')"
    "find_job jid os = Some job" "holds_lease token now job"
  shows "ordinary e"
  using assms(1)
  unfolding apply_job_result_def case_result_eq_Inl
proof (elim disjE exE conjE, goal_cases)
  case 1
  then show ?case by (auto simp: bind_result_Inl require_Inl dest: normalize_reference_Inl)
next
  case (2 safe)
  show ?case
    using 2(2) assms(2,3)
    by (auto simp: Let_def validate_result_targets_def require_Inl
        split: if_split_asm option.split_asm sum.split_asm dest: append_job_audit_ordinary)
qed

end
