(* ===== verification/DeliveryRules.thy ===== *)
theory DeliveryRules
  imports JobProperties WorkerErrors
begin

text \<open>
  A delivery that holds the lease always settles its job: it writes the result, ends the job with
  an approved code, or puts it back into the queue.
\<close>

section \<open>Validation of an engine's answer\<close>

lemma ordinary_validation [simp]: "e = ValidationError \<Longrightarrow> ordinary e"
  by simp

lemma report_texts_ordinary: "report_texts warnings validation kvs = Inl e \<Longrightarrow> ordinary e"
proof (induction kvs)
  case (Cons kv kvs)
  obtain key narrative where kv: "kv = (key, narrative)" by (cases kv)
  show ?case using Cons by (cases narrative) (auto simp: kv bind_result_Inl split: if_split_asm dest: report_content_Inl)
qed simp

lemma form_005_ordinary: "form_005_text warnings validation reps form = Inl e \<Longrightarrow> ordinary e"
  by (auto simp: form_005_text_def Let_def split: if_split_asm dest: report_content_Inl)

lemma bind_ordinary:
  "bind_result r f = Inl e \<Longrightarrow> (r = Inl e \<Longrightarrow> ordinary e) \<Longrightarrow> (\<And>x. f x = Inl e \<Longrightarrow> ordinary e) \<Longrightarrow> ordinary e"
  by (auto simp: bind_result_Inl)

lemma form_choice_ordinary:
  "(case (kind, form) of (Generate, Some (JObj f005)) \<Rightarrow>
       if f005 = [] then Inr contents
       else bind_result (form_005_text warnings validation reps f005) (\<lambda>content. Inr (g content))
     | _ \<Rightarrow> Inr contents) = Inl e \<Longrightarrow> ordinary e"
  by (cases kind; cases form; simp; split json.split_asm if_split_asm)
     (auto simp: bind_result_Inl dest: form_005_ordinary split: if_split_asm)

lemma generate_ordinary:
  assumes "generate_result kind doc = Inl e"
  shows "ordinary e"
proof (cases "\<exists>reps. obj_get ''reports'' doc = Some (JObj reps)")
  case True
  then obtain reps where reps: "obj_get ''reports'' doc = Some (JObj reps)" by blast
  from assms show ?thesis
    unfolding generate_result_def reps option.case json.case Let_def
    by (elim if_ordinary bind_ordinary form_choice_ordinary report_texts_ordinary) auto
next
  case False
  with assms show ?thesis by (auto simp: generate_result_def split: option.split_asm json.split_asm)
qed

lemma incident_result_ordinary: "incident_result P inc new = Inl e \<Longrightarrow> ordinary e"
  by (auto simp: incident_result_def bind_result_Inl dest: incident_content_Inl)

lemma normalize_engine_ordinary: "normalize_engine_result P job inc out = Inl e \<Longrightarrow> ordinary e"
  by (auto simp: normalize_engine_result_def classify_result_def extract_result_def
      split: engine_output.split_asm json.split_asm option.split_asm if_split_asm job_type.split_asm
      dest: generate_ordinary incident_result_ordinary)

section \<open>The audit event of a failed job\<close>

lemma job_failed_details:
  "map_of AUDIT_ACTION_FIELDS ''ai.job_failed'' = Some [''job_id'', ''job_type'', ''result_code'']"
  "takes_uuid ''ai.job_failed'' ''job_id''"
  "list_all (\<lambda>t. detail_ok ''ai.job_failed'' (''job_type'', JStr (job_type_text t)))
     [Classify, Extract, Generate, Disciplinary_Job]"
  "list_all (\<lambda>c. detail_ok ''ai.job_failed'' (''result_code'', JStr c)) SAFE_TERMINAL_CODES"
  by code_simp+

lemma job_failed_event:
  assumes "err \<in> set SAFE_TERMINAL_CODES"
  shows "event_ok ''ai.job_failed'' [(''job_id'', JStr (uuid_str u)), (''job_type'', JStr (job_type_text t)),
    (''result_code'', JStr err)]"
proof (rule event_okI [OF job_failed_details(1)])
  have "detail_ok ''ai.job_failed'' (''job_type'', JStr (job_type_text t))"
    using job_failed_details(3) by (cases t) simp_all
  moreover have "detail_ok ''ai.job_failed'' (''result_code'', JStr err)"
    using assms job_failed_details(4) by (simp add: list_all_iff)
  ultimately show "list_all (detail_ok ''ai.job_failed'') [(''job_id'', JStr (uuid_str u)),
      (''job_type'', JStr (job_type_text t)), (''result_code'', JStr err)]"
    by (simp add: detail_ok_uuid job_failed_details(2))
qed auto

lemma append_job_event:
  assumes "event_ok act kvs" "act \<noteq> ''system.initial_admin_bootstrapped''" "length client \<le> 64"
  shows "\<exists>ev. append_job_audit a s act job req client kvs os = (Inr (), logged ev os)"
  using assms
  by (auto simp: append_job_audit_def job_event_def in_ident_def logged_def append_audit_def AuditEventInput_def
      event_ok_def validate_actor_attribution_def Let_def require_def hash_length_ok_def
      split: if_splits)

lemma append_job_failed:
  assumes "err \<in> set SAFE_TERMINAL_CODES"
  shows "\<exists>ev. append_job_audit a s ''ai.job_failed'' job req WORKER_VERSION
    [(''job_id'', JStr (uuid_str u)), (''job_type'', JStr (job_type_text t)), (''result_code'', JStr err)] os
    = (Inr (), logged ev os)"
  using job_failed_event [OF assms] by (rule append_job_event) (simp_all add: WORKER_VERSION_def)

section \<open>Holding the lease\<close>

definition held :: "'o office_scheme \<Rightarrow> uuid \<Rightarrow> uuid \<Rightarrow> time \<Rightarrow> bool" where
  "held os jid token until \<longleftrightarrow> distinct (job_ids os) \<and>
     (\<exists>job. find_job jid os = Some job \<and> aj_state job = Job_Running \<and> aj_claim_token job = Some token
        \<and> aj_lease_expires_at job = Some until
        \<and> find_account (aj_requested_by_account_id job) (ident os) \<noteq> None)"

lemma heldE:
  assumes "held os jid token until"
  obtains job acc where "find_job jid os = Some job" "aj_id job = jid" "aj_state job = Job_Running"
    "aj_claim_token job = Some token" "aj_lease_expires_at job = Some until" "distinct (job_ids os)"
    "find_account (aj_requested_by_account_id job) (ident os) = Some acc"
  using assms by (auto simp: held_def dest: find_row_SomeD intro: that)

lemma held_replaces:
  assumes "held os jid token until" "find_job jid os = Some job" "replaces os job' os'"
    "aj_id job' = aj_id job" "aj_state job' = Job_Running" "aj_claim_token job' = aj_claim_token job"
    "aj_lease_expires_at job' = aj_lease_expires_at job"
    "aj_requested_by_account_id job' = aj_requested_by_account_id job"
  shows "held os' jid token until"
proof -
  have jid: "aj_id job' = jid" using find_row_SomeD [OF assms(2)] assms(4) by simp
  then have "find_job jid os' = Some job'" using replaces_find [OF assms(3)] assms(2) by simp
  then show ?thesis using assms replaces_ids [OF assms(3)] replaces_account [OF assms(3)]
    by (auto simp: held_def)
qed

lemma held_lease: "held os jid token until \<Longrightarrow> now < until \<Longrightarrow> \<exists>job. leased_job jid token now os = Inr job"
  by (auto simp: held_def leased_job_def holds_lease_def)

text \<open>One attempt under the lease: it raises an ordinary exception and leaves the state, or it goes on.\<close>

lemma worker_actor_ordinary: "worker_actor job os = Inl e \<Longrightarrow> ordinary e"
  by (auto simp: worker_actor_def split: option.split_asm if_split_asm)

lemma target_bases_ordinary: "target_bases job who inc source bound os = Inl e \<Longrightarrow> ordinary e"
  by (auto simp: target_bases_def bind_result_Inl Let_def split: option.split_asm if_split_asm
      dest: reporting_staff_ordinary)

lemma incident_target_ordinary: "authorize_incident_target inc source who os = Inl e \<Longrightarrow> ordinary e"
  by (simp add: authorize_incident_target_def require_Inl)

lemma source_revision_ordinary: "source_revision job os = Inl e \<Longrightarrow> ordinary e"
  by (auto simp: source_revision_def split: option.split_asm)

lemma session_scope_Inl: "session_scope body s = (Inl e, s') \<longleftrightarrow> s' = s \<and> (\<exists>s1. body s = (Inl e, s1))"
  by (auto simp: session_scope_def split: prod.splits sum.splits)

lemma preflight_ordinary:
  assumes "preflight jid token now os = (Inl e, os')" "held os jid token until" "now < until"
  shows "ordinary e \<and> os' = os"
proof -
  obtain job where lease: "leased_job jid token now os = Inr job" using held_lease [OF assms(2,3)] by blast
  then have found: "find_job jid os = Some job" "holds_lease (Some token) now job" "aj_id job = jid"
    by (auto simp: leased_job_Inr dest: find_row_SomeD)
  then have fin: "find_job jid (put_job (finish_provider_metadata job) os) = Some (finish_provider_metadata job)"
    by (simp add: find_put_job)
  have ended: "ordinary e'" if "apply_job_result jid base (Some token) ref now req
      (put_job (finish_provider_metadata job) os) = (Inl e', os2)" for base ref req e' os2
    using apply_job_result_ordinary [OF that fin] found(2) by simp
  from assms(1) obtain os1 where os': "os' = os" and run: "(case bind_result (leased_job jid token now os) (\<lambda>job.
          bind_result (worker_actor job os) (\<lambda>who.
          bind_result (authorize_report_target job who os) (\<lambda>bound.
          case find_incident (aj_incident_id job) os of None \<Rightarrow> Inl target_invalid | Some inc \<Rightarrow>
            Inr (job, who, bound, inc)))) of
       Inl e \<Rightarrow> (Inl e, os)
     | Inr (job, who, bound, inc) \<Rightarrow>
         if in_current_revision_number inc \<noteq> aj_base_incident_revision job
         then apply_job_result jid (aj_base_incident_revision job) (Some token) (Some (JObj [])) now
                (Some (job_request_id job)) (put_job (finish_provider_metadata job) os)
         else case bind_result (source_revision job os) (\<lambda>source.
                   bind_result (authorize_incident_target inc source who os) (\<lambda>_.
                   bind_result (target_bases job who inc source bound os) (\<lambda>bases.
                     Inr (prepared_job source bases job)))) of
           Inl e \<Rightarrow> (Inl e, os)
         | Inr job' \<Rightarrow> (Inr (), put_job job' os)) = (Inl e, os1)"
    unfolding preflight_def session_scope_Inl by blast
  show ?thesis
    using run found(2) os'
    unfolding lease
    by (auto simp: case_result_eq_Inl bind_result_Inl split: if_split_asm option.split_asm
        dest: worker_actor_ordinary report_target_ordinary source_revision_ordinary
          incident_target_ordinary target_bases_ordinary ended)
qed

text \<open>What the steps under the lease lead to.\<close>

lemma preflight_held:
  assumes "preflight jid token now os = (Inr u, os')" "held os jid token until"
  shows "if job_ended jid os' then \<exists>job. find_job jid os' = Some job \<and> aj_state job \<in> {Job_Succeeded, Job_Failed}
    else held os' jid token until"
  using assms(1)
proof (cases rule: preflight_Inr)
  case (1 job)
  have "aj_id job = jid" using find_row_SomeD [OF 1(1)] by simp
  with 1 replaces_find [OF 1(4)] show ?thesis by (auto simp: job_ended_def ended_job_def TERMINAL_STATES_def)
next
  case (2 job source bases)
  have "held os' jid token until"
    by (rule held_replaces [OF assms(2) 2(1,4)]) (simp_all add: prepared_job_def 2(2))
  then show ?thesis by (auto simp: job_ended_def TERMINAL_STATES_def elim: heldE)
qed

lemma started_held:
  assumes "mark_provider_started jid token now os = (r, os')" "held os jid token until" "now < until"
  shows "r = Inr () \<and> held os' jid token until"
proof -
  obtain job where lease: "leased_job jid token now os = Inr job" using held_lease [OF assms(2,3)] by blast
  then have r: "r = Inr ()" using assms(1) by (auto simp: mark_provider_started_def session_scope_def)
  with assms(1) have "mark_provider_started jid token now os = (Inr (), os')" by simp
  then show ?thesis
  proof (cases rule: mark_provider_started_Inr)
    case (1 j md)
    have "held os' jid token until" by (rule held_replaces [OF assms(2) 1(1,4)]) (simp_all add: 1(2))
    with r show ?thesis by simp
  qed
qed

lemma call_engine_ordinary:
  assumes "call_engine P engine jid token os = Inl e" "held os jid token until"
    "\<And>job e. engine os job = Inl e \<Longrightarrow> ordinary e"
  shows "ordinary e"
  using assms(1,2)
  by (elim heldE) (auto simp: call_engine_def bind_result_Inl split: option.split_asm
      dest: assms(3) normalize_engine_ordinary)

lemma write_incident_ordinary:
  assumes "write_incident_result P E wk job who token content os = (Inl e, os')"
    "find_job (aj_id job) os = Some job" "holds_lease (Some token) (wk_apply_now wk) job"
  shows "ordinary e"
proof -
  have fin: "find_job (aj_id job) (finish_metadata (aj_id job) os) = Some (finish_provider_metadata job)"
    using assms(2) by (simp add: finish_metadata_def find_change_job)
  have "ordinary e'" if "apply_job_result (aj_id job) base (Some token) ref (wk_apply_now wk) req
      (finish_metadata (aj_id job) os) = (Inl e', os2)" for base ref req e' os2
    using apply_job_result_ordinary [OF that fin] assms(3) by simp
  with assms(1) show ?thesis
    by (auto simp: write_incident_result_def and_then_Inl dest: save_incident_ordinary)
qed

lemma write_report_ordinary:
  assumes run: "write_report_result E wk job who inc src token res os = (Inl e, os')"
    and dist: "distinct (job_ids os)" and job: "find_job (aj_id job) os = Some job"
    and lease: "holds_lease (Some token) (wk_apply_now wk) job"
  shows "ordinary e"
proof (cases "apply_report_results E wk job who inc src res os")
  case (Pair r os1)
  show ?thesis
  proof (cases r)
    case (Inl x)
    then have "ordinary x" using Pair report_results_ordinary by blast
    with run Pair Inl show ?thesis by (cases x) (auto simp: write_report_result_def)
  next
    case (Inr refs)
    with Pair have res: "apply_report_results E wk job who inc src res os = (Inr refs, os1)" by simp
    from apply_report_results_Inr [OF res dist job] obtain ms where "replaces os (job\<lparr>aj_models := ms\<rparr>) os1" by blast
    then have "find_job (aj_id job) os1 = Some (job\<lparr>aj_models := ms\<rparr>)" using replaces_find job by fastforce
    then have "find_job (aj_id job) (finish_metadata (aj_id job) os1) = Some (finish_provider_metadata (job\<lparr>aj_models := ms\<rparr>))"
      by (simp add: finish_metadata_def find_change_job)
    moreover have "holds_lease (Some token) (wk_apply_now wk) (job\<lparr>aj_models := ms\<rparr>)"
      using lease by (simp add: holds_lease_def)
    then have "holds_lease (Some token) (wk_apply_now wk) (finish_provider_metadata (job\<lparr>aj_models := ms\<rparr>))"
      by simp
    ultimately show ?thesis using run Pair Inr by (auto simp: write_report_result_def dest: apply_job_result_ordinary)
  qed
qed

lemma apply_result_ordinary:
  assumes run: "apply_result P E wk jid token res os = (Inl e, os')"
    and held: "held os jid token until" and now: "wk_apply_now wk < until"
  shows "ordinary e \<and> os' = os"
proof -
  obtain job where lease: "leased_job jid token (wk_apply_now wk) os = Inr job" using held_lease [OF held now] by blast
  then have found: "find_job jid os = Some job" "holds_lease (Some token) (wk_apply_now wk) job" "aj_id job = jid"
    by (auto simp: leased_job_Inr dest: find_row_SomeD)
  have job': "find_job (aj_id job) os = Some job" and dist: "distinct (job_ids os)"
    using found held by (simp_all add: held_def)
  have fin: "find_job jid (finish_metadata jid os) = Some (finish_provider_metadata job)"
    using found by (simp add: finish_metadata_def find_change_job)
  have ended: "ordinary e'" if "apply_job_result jid base (Some token) ref (wk_apply_now wk) req
      (finish_metadata jid os) = (Inl e', os2)" for base ref req e' os2
    using apply_job_result_ordinary [OF that fin] found(2) by simp
  from run obtain os1 where os': "os' = os" and body: "(case bind_result (leased_job jid token (wk_apply_now wk) os) (\<lambda>job.
          bind_result (worker_actor job os) (\<lambda>who.
          case find_incident (aj_incident_id job) os of None \<Rightarrow> Inl target_invalid | Some inc \<Rightarrow>
            Inr (job, who, inc))) of
       Inl e \<Rightarrow> (Inl e, os)
     | Inr (job, who, inc) \<Rightarrow>
         if in_current_revision_number inc \<noteq> aj_base_incident_revision job
         then apply_job_result jid (aj_base_incident_revision job) (Some token) (Some (JObj []))
                (wk_apply_now wk) (Some (job_request_id job)) (finish_metadata jid os)
         else case bind_result (source_revision job os) (\<lambda>source.
                   bind_result (authorize_incident_target inc source who os) (\<lambda>_. Inr source)) of
           Inl e \<Rightarrow> (Inl e, os)
         | Inr source \<Rightarrow>
             (case je_incident_content res of
                Some content \<Rightarrow> write_incident_result P E wk job who token content os
              | None \<Rightarrow> write_report_result E wk job who inc source token res os)) = (Inl e, os1)"
    unfolding apply_result_def session_scope_Inl by blast
  show ?thesis
    using body os'
    unfolding lease
    by (auto simp: case_result_eq_Inl bind_result_Inl split: if_split_asm option.split_asm
        dest: worker_actor_ordinary source_revision_ordinary incident_target_ordinary ended
          write_incident_ordinary [OF _ job' found(2)] write_report_ordinary [OF _ dist job' found(2)])
qed

text \<open>The work of a delivery either ends the job or leaves it to the lease holder with an ordinary exception.\<close>

lemma work_settles:
  assumes run: "work P E engine wk jid token os = (r, os')" and held: "held os jid token until"
    and clocks: "wk_preflight_now wk < until" "wk_start_now wk < until" "wk_apply_now wk < until"
    and engine: "\<And>os job e. engine os job = Inl e \<Longrightarrow> ordinary e"
  shows "case r of Inr _ \<Rightarrow> \<exists>job. find_job jid os' = Some job \<and> aj_state job \<in> {Job_Succeeded, Job_Failed}
    | Inl e \<Rightarrow> ordinary e \<and> held os' jid token until"
proof (cases "preflight jid token (wk_preflight_now wk) os")
  case pre: (Pair r1 os1)
  show ?thesis
  proof (cases r1)
    case (Inl e)
    with pre run preflight_ordinary [OF _ held clocks(1)] held show ?thesis by (auto simp: work_def)
  next
    case (Inr u)
    with pre have pre': "preflight jid token (wk_preflight_now wk) os = (Inr u, os1)" by simp
    show ?thesis
    proof (cases "job_ended jid os1")
      case True
      with pre' run preflight_held [OF pre' held] show ?thesis by (auto simp: work_def)
    next
      case False
      then have held1: "held os1 jid token until" using preflight_held [OF pre' held] by simp
      obtain os2 where start: "mark_provider_started jid token (wk_start_now wk) os1 = (Inr (), os2)"
        and held2: "held os2 jid token until"
        using started_held [OF _ held1 clocks(2)] by (metis surj_pair)
      have rest: "(case call_engine P engine jid token os2 of Inl e \<Rightarrow> (Inl e, os2)
          | Inr res \<Rightarrow> apply_result P E wk jid token res os2) = (r, os')"
        using run False by (simp add: work_def pre' start)
      show ?thesis
      proof (cases "call_engine P engine jid token os2")
        case (Inl e)
        with rest held2 call_engine_ordinary [OF Inl held2 engine] show ?thesis by auto
      next
        case (Inr res)
        with rest have app: "apply_result P E wk jid token res os2 = (r, os')" by simp
        show ?thesis
        proof (cases r)
          case (Inl e)
          with app have "apply_result P E wk jid token res os2 = (Inl e, os')" by simp
          from apply_result_ordinary [OF this held2 clocks(3)] Inl held2 show ?thesis by simp
        next
          case (Inr v)
          have "distinct (job_ids os2)" using held2 by (simp add: held_def)
          with app Inr show ?thesis using applied_settled by auto
        qed
      qed
    qed
  qed
qed

lemma mark_terminal_held:
  assumes "held os jid token until" "err \<in> set SAFE_TERMINAL_CODES"
  shows "\<exists>os' job. mark_terminal jid token err now os = (Inr (), os') \<and> find_job jid os' = Some job
    \<and> aj_state job = Job_Failed \<and> aj_error_code job = Some err"
  using assms(1)
proof (cases rule: heldE)
  case (1 job acc)
  let ?j = "ended_job Job_Failed Stage_Failed (Some err) now (finish_provider_metadata job)"
  obtain ev where "append_job_audit (ac_id acc) (ac_staff_member_id acc) ''ai.job_failed'' job (job_request_id job)
      WORKER_VERSION [(''job_id'', JStr (uuid_str jid)), (''job_type'', JStr (job_type_text (aj_job_type job))),
        (''result_code'', JStr err)] (put_job ?j os) = (Inr (), logged ev (put_job ?j os))"
    using append_job_failed [OF assms(2)] by blast
  with 1 have "mark_terminal jid token err now os = (Inr (), logged ev (put_job ?j os))"
    by (simp add: mark_terminal_def session_scope_def TERMINAL_STATES_def)
  moreover have "find_job jid (logged ev (put_job ?j os)) = Some ?j" using 1 by (simp add: find_put_job)
  moreover have "aj_state ?j = Job_Failed" "aj_error_code ?j = Some err" by (simp_all add: ended_job_def)
  ultimately show ?thesis by blast
qed

lemma release_held:
  assumes "held os jid token until"
  shows "\<exists>os' job. release_transient jid token os = (Inr (), os') \<and> find_job jid os' = Some job \<and> aj_state job = Job_Queued"
  using assms
proof (cases rule: heldE)
  case (1 job acc)
  then have "release_transient jid token os = (Inr (), put_job (released_job job) os)"
    by (simp add: release_transient_def session_scope_def released_job_def)
  moreover have "find_job jid (put_job (released_job job) os) = Some (released_job job)"
    using 1 by (simp add: find_put_job released_job_def)
  moreover have "aj_state (released_job job) = Job_Queued" by (simp add: released_job_def)
  ultimately show ?thesis by blast
qed

definition outcome :: "unit result \<Rightarrow> ai_job \<Rightarrow> bool" where
  "outcome r job \<longleftrightarrow> r = Inr () \<and> aj_state job \<in> {Job_Succeeded, Job_Failed}
     \<or> (\<exists>err \<in> set SAFE_TERMINAL_CODES. r = Inl (TerminalJobFailure err) \<and> aj_state job = Job_Failed
          \<and> aj_error_code job = Some err)
     \<or> r = Inl TransientJobFailure \<and> aj_state job = Job_Queued"

lemma fail_job_outcome:
  assumes "held os jid token until" "err \<in> set SAFE_TERMINAL_CODES" "fail_job wk jid token err os = (r, os')"
  shows "\<exists>job. find_job jid os' = Some job \<and> outcome r job"
  using mark_terminal_held [OF assms(1,2), of "wk_end_now wk"] assms(2,3)
  by (auto simp: fail_job_def outcome_def)

text \<open>
  A worker that has lost its claim and meets a terminal failure lets the stale claim out of
  \<open>run\<close>, because the handler of the terminal failure raises it: the route answers 500, where the
  stale claim of any other step is turned into the transient failure and 503.
\<close>

lemma stale_terminal_escapes:
  "mark_terminal jid token err (wk_end_now wk) os = (Inl StaleJobClaim, os) \<Longrightarrow>
   recover wk jid token (TerminalJobFailure err) os = (Inl StaleJobClaim, os)"
  "recover wk jid token StaleJobClaim os = (Inl TransientJobFailure, os)"
  by (simp_all add: recover_def fail_job_def)

lemma recover_outcome:
  assumes "held os jid token until" "ordinary e" "recover wk jid token e os = (r, os')"
  shows "\<exists>job. find_job jid os' = Some job \<and> outcome r job"
proof -
  have transient: "\<exists>job. find_job jid os' = Some job \<and> outcome r job"
    if "and_then (release_transient jid token os) (\<lambda>_ os1. (Inl TransientJobFailure, os1)) = (r, os')"
    using release_held [OF assms(1)] that by (auto simp: outcome_def)
  have "(\<exists>err \<in> set SAFE_TERMINAL_CODES. fail_job wk jid token err os = (r, os'))
      \<or> and_then (release_transient jid token os) (\<lambda>_ os1. (Inl TransientJobFailure, os1)) = (r, os')"
    using assms(2,3) by (auto simp: recover_def split: exn.split_asm if_split_asm)
  then show ?thesis using transient fail_job_outcome [OF assms(1)] by blast
qed

lemma claim_held:
  assumes "distinct (job_ids os)" "find_job jid os = Some job" "claimable (wk_claim_now wk) job"
    "find_account (aj_requested_by_account_id job) (ident os) \<noteq> None"
  obtains risk os1 where "claim wk jid os = (Inr (Some (wk_token wk), risk), os1)"
    "held os1 jid (wk_token wk) (wk_claim_now wk + JOB_LEASE_DURATION)"
proof -
  have jid: "aj_id job = jid" using find_row_SomeD [OF assms(2)] by simp
  let ?c = "claimed_job (wk_token wk) (wk_claim_now wk) job"
  let ?j = "noted_claim (wk_token wk) ?c"
  have "find_job jid (put_job ?j (put_job ?c os)) = Some ?j" using assms(2) jid by (simp add: find_put_job)
  then have "held (put_job ?j (put_job ?c os)) jid (wk_token wk) (wk_claim_now wk + JOB_LEASE_DURATION)"
    using assms(1,4) by (simp add: held_def noted_claim_def claimed_job_def Let_def)
  then show thesis using assms(2,3) by (intro that) (auto simp: claim_def session_scope_def claim_job_def)
qed


end
