(* ===== verification/JobExamples.thy ===== *)
theory JobExamples
  imports DeliveryRules
begin

text \<open>A job on the example workspace, and the theorems on jobs applied to it.\<close>

section \<open>The office\<close>

definition queued_job :: ai_job where
  "queued_job = \<lparr>aj_id = 70, aj_incident_id = 30, aj_report_id = Some 10, aj_requested_by_account_id = 2,
     aj_job_type = Generate, aj_state = Job_Queued, aj_stage = Stage_Queued, aj_idempotency_key = ''key-0001'',
     aj_request_sha256 = replicate 32 (CHR ''0''), aj_base_incident_revision = 1, aj_attempts = 0,
     aj_lease_expires_at = None, aj_claim_token = None,
     aj_request_metadata = [(''target_report_base_revisions'', JObj [(uuid_str 10, JInt 1)])],
     aj_result_reference = no_result, aj_error_code = None, aj_models = [], aj_created_at = 50,
     aj_started_at = None, aj_completed_at = None\<rparr>"

definition example_row :: task_outbox_row where
  "example_row = \<lparr>ob_id = 80, ob_ai_job_id = 70, ob_state = Outbox_Pending, ob_attempts = 0,
     ob_available_at = 50, ob_dispatched_at = None, ob_last_error_code = None, ob_created_at = 50\<rparr>"

definition example_office :: "ai_job \<Rightarrow> office" where
  "example_office job = \<lparr>ident = ident example_workspace, incidents = [numbered_incident 1],
     incident_revisions = [example_incident_revision 1 JNull], reports = [example_report],
     report_access = report_access example_workspace, report_revisions = [example_revision],
     ai_jobs = [job], task_outbox = [example_row]\<rparr>"

definition example_work :: worker_call where
  "example_work = \<lparr>wk_token = 71, wk_claim_now = 100, wk_preflight_now = 101, wk_start_now = 102,
     wk_apply_now = 103, wk_save_now = 104, wk_end_now = 105, wk_shell_id = (\<lambda>n. 200 + of_nat n),
     wk_revision_id = (\<lambda>n. 300 + of_nat n)\<rparr>"

lemma example_work_simps [simp]:
  "wk_token example_work = 71" "wk_claim_now example_work = 100" "wk_preflight_now example_work = 101"
  "wk_start_now example_work = 102" "wk_apply_now example_work = 103"
  by (simp_all add: example_work_def)

lemma queued_simps [simp]:
  "aj_id queued_job = 70" "aj_state queued_job = Job_Queued" "aj_requested_by_account_id queued_job = 2"
  "aj_incident_id queued_job = 30" "aj_report_id queued_job = Some 10" "aj_base_incident_revision queued_job = 1"
  "aj_started_at queued_job = None"
  by (simp_all add: queued_job_def)

lemma office_simps [simp]:
  "ident (example_office job) = ident example_workspace" "incidents (example_office job) = [numbered_incident 1]"
  "incident_revisions (example_office job) = [example_incident_revision 1 JNull]"
  "reports (example_office job) = [example_report]" "report_revisions (example_office job) = [example_revision]"
  "ai_jobs (example_office job) = [job]" "task_outbox (example_office job) = [example_row]"
  "report_access (example_office job) = report_access example_workspace"
  by (simp_all add: example_office_def)

definition running_job :: ai_job where
  "running_job = claimed_job 71 100 queued_job"

lemma running_simps [simp]:
  "aj_id running_job = 70" "aj_state running_job = Job_Running" "aj_requested_by_account_id running_job = 2"
  "aj_incident_id running_job = 30" "aj_report_id running_job = Some 10" "aj_base_incident_revision running_job = 1"
  "holds_lease (Some 71) 103 running_job" "aj_request_metadata running_job = aj_request_metadata queued_job"
  "aj_created_at running_job = 50"
  by (simp_all add: running_job_def claimed_job_def holds_lease_def JOB_LEASE_DURATION_def minutes_def seconds_def
      queued_job_def)

lemma example_account_found: "find_account 2 (ident example_workspace) = Some example_account"
  by (simp add: example_workspace_def example_db_def empty_db_def example_account_def)

lemma queued_ok: "office_wf (example_office queued_job)"
  by (simp add: office_wf_def job_row_ok_def queued_job_def example_row_def)

lemma running_ok: "office_wf (example_office running_job)"
proof -
  have "job_row_ok running_job" unfolding running_job_def
    by (rule job_moves_ok [OF job_moves.claims]) (simp_all add: claimable_def job_row_ok_def queued_job_def)
  then show ?thesis by (simp add: office_wf_def example_row_def)
qed

section \<open>The theorems at work\<close>


lemma job_table_typed_witness:
  "\<exists>os' j. office_step\<^sup>*\<^sup>* (example_office queued_job) os' \<and> ai_jobs os' = [j] \<and> aj_state j = Job_Running
    \<and> aj_claim_token j = Some 71 \<and> aj_lease_expires_at j \<noteq> None"
proof -
  let ?os = "example_office queued_job"
  obtain c os' where claim: "claim example_work 70 ?os = (c, os')" by (cases "claim example_work 70 ?os")
  then have "ai_jobs os' = [noted_claim 71 running_job]"
    by (auto simp: claim_def session_scope_def claim_job_def claimable_def put_job_def running_job_def claimed_job_def)
  moreover have "office_step\<^sup>*\<^sup>* ?os os'" using office_step.claimed [OF claim] by blast
  moreover note job_table_typed [OF queued_ok this]
  ultimately show ?thesis
    by (auto simp: noted_claim_def running_job_def claimed_job_def Let_def)
qed

text \<open>A delivery that writes its result: the content of the engine becomes revision 2 of the report.\<close>

lemma job_succeeded_details:
  "map_of AUDIT_ACTION_FIELDS ''ai.job_succeeded'' = Some [''job_id'', ''job_type'', ''latency_ms'']"
  "takes_uuid ''ai.job_succeeded'' ''job_id''" "takes_number ''ai.job_succeeded'' ''latency_ms''"
  "list_all (\<lambda>t. detail_ok ''ai.job_succeeded'' (''job_type'', JStr (job_type_text t)))
     [Classify, Extract, Generate, Disciplinary_Job]"
  by code_simp+

lemma append_job_succeeded:
  assumes "0 \<le> i" "i \<le> MAX_AUDIT_NUMBER"
  shows "\<exists>ev. append_job_audit a s ''ai.job_succeeded'' job req WORKER_VERSION
    [(''job_id'', JStr (uuid_str u)), (''job_type'', JStr (job_type_text t)), (''latency_ms'', JInt i)] os
    = (Inr (), logged ev os)"
proof -
  have "event_ok ''ai.job_succeeded'' [(''job_id'', JStr (uuid_str u)), (''job_type'', JStr (job_type_text t)),
      (''latency_ms'', JInt i)]"
  proof (rule event_okI [OF job_succeeded_details(1)])
    have "detail_ok ''ai.job_succeeded'' (''job_type'', JStr (job_type_text t))"
      using job_succeeded_details(4) by (cases t) simp_all
    with assms show "list_all (detail_ok ''ai.job_succeeded'') [(''job_id'', JStr (uuid_str u)),
        (''job_type'', JStr (job_type_text t)), (''latency_ms'', JInt i)]"
      by (simp add: detail_ok_uuid detail_ok_number job_succeeded_details(2,3))
  qed auto
  then show ?thesis by (rule append_job_event) (simp_all add: WORKER_VERSION_def)
qed

lemma latency_bounds: "0 \<le> latency_ms now job" "latency_ms now job \<le> MAX_AUDIT_NUMBER"
  by (simp_all add: latency_ms_def MAX_AUDIT_NUMBER_def)

definition example_answer :: job_engine_result where
  "example_answer = no_engine_result\<lparr>je_report_content := Some example_payload\<rparr>"

lemma example_written: "\<exists>os'. apply_result plain_parsers example_env example_work 70 71 example_answer
    (example_office running_job) = (Inr (), os')"
proof -
  let ?os = "example_office running_job"
  let ?who = "\<lparr>account_id = 2, staff_member_id = 1, session_id = 70, actor_role = Admin, actor_auth_version = 1, must_change_pin = False\<rparr>"
  let ?call = "save_call example_work running_job 0"
  have payload: "validate_report_content (JObj example_payload) = Inr example_payload"
    using report_content_stable [OF example_content_ok] .
  then have wf: "history_wf ?os"
    by (simp add: history_wf_def example_report_def example_revision_def current_matches_def
        valid_revision_def numbers_of_def gapless_def)
  have report: "find_report 10 ?os = Some example_report" by (simp add: example_report_def)
  have call: "call_ok ?call ?who 10 ?os"
    by (simp add: call_ok_def example_workspace_def example_staff_def metadata_of_def or_default_def save_call_def
        WORKER_VERSION_def numbers_of_def MAX_AUDIT_NUMBER_def example_revision_def)
  obtain rv os1 where save: "save_report example_env ?call ?who 10 (JObj example_payload) 1 ''ai_result'' ?os = (Inr rv, os1)"
    by (rule save_report_ok [OF wf report call _ _ _ payload, of 1 "''ai_result''"])
       (simp_all add: example_report_def REPORT_SAVE_REASONS_def)
  have "\<exists>rp ev. os1 = logged ev (put_report rp (add_report_revision rv ?os)) \<and> rp_id rp = 10
      \<and> rp_incident_id rp = 30 \<and> rv_report_id rv = 10 \<and> rv_revision_number rv = 2"
    using save
  proof (rule save_report_Inr, goal_cases)
    case (1 rp payload changed prov cols ev)
    then have "rp = example_report" using report by simp
    with 1(7,8) show ?case
      by (intro exI [of _ "rp\<lparr>rp_current_content := payload, rp_current_revision_number := rv_revision_number rv,
          rp_updated_at := ed_now ?call\<rparr>"] exI [of _ ev])
        (simp add: new_report_revision_def numbers_of_def example_revision_def next_revision_number_def,
         simp add: example_report_def)
  qed
  then obtain rp ev where os1: "os1 = logged ev (put_report rp (add_report_revision rv ?os))"
    and rp: "rp_id rp = 10" "rp_incident_id rp = 30" and rv: "rv_report_id rv = 10" "rv_revision_number rv = 2"
    by blast
  let ?src = "example_incident_revision 1 JNull"
  let ?os2 = "change_job 70 (with_models rv) (attach_sources running_job ?src rv os1)"
  have src: "ir_incident_id ?src = 30" "ir_revision_number ?src = 1" by (simp_all add: example_incident_revision_def)
  have actor: "worker_actor running_job ?os = Inr ?who"
    by (simp add: worker_actor_def example_account_found)
       (simp add: example_workspace_def example_db_def empty_db_def example_account_def example_staff_def)
  have lease: "leased_job 70 71 103 ?os = Inr running_job" by (simp add: leased_job_def)
  have live: "live_on_report 1 10 ?os" by (simp add: live_on_report_def example_workspace_def)
  have base: "recorded_base running_job example_report = Some 1"
    by (simp add: recorded_base_def queued_job_def obj_get_def example_report_def)
  have targets: "result_targets example_work running_job ?who (numbered_incident 1) ?src
      [(''first_person'', example_payload)] ?os = (Inr [(example_report, example_payload, 1)], ?os)"
    using live base by (simp add: result_targets_def authorize_report_target_def) (simp add: example_report_def)
  have results: "apply_report_results example_env example_work running_job ?who (numbered_incident 1) ?src example_answer ?os
      = (Inr [JObj [(''report_id'', JStr (uuid_str 10)), (''revision_number'', JInt 2)]], ?os2)"
    using targets save rv
    by (simp add: apply_report_results_def result_contents_def example_answer_def no_engine_result_def)
       (simp add: example_report_def)
  let ?j = "finish_provider_metadata (with_models rv running_job)"
  let ?ref = "JObj [(''reports'', JArr [JObj [(''report_id'', JStr (uuid_str 10)), (''revision_number'', JInt 2)]])]"
  have os2: "find_job 70 (finish_metadata 70 ?os2) = Some ?j" "find_incident 30 (finish_metadata 70 ?os2) = Some (numbered_incident 1)"
    "find_account 2 (ident (finish_metadata 70 ?os2)) = Some example_account"
    by (simp_all add: finish_metadata_def find_change_job os1 attach_sources_def put_report_def add_report_revision_def
        example_account_found)
  have models: "holds_lease token now (with_models rv running_job) = holds_lease token now running_job"
    "aj_state (with_models rv running_job) = Job_Running" "aj_incident_id (with_models rv running_job) = 30"
    "aj_base_incident_revision (with_models rv running_job) = 1"
    "aj_requested_by_account_id (with_models rv running_job) = 2" for token now
    by (simp_all add: with_models_def holds_lease_def)
  have j: "aj_id ?j = 70" "aj_state ?j = Job_Running" "holds_lease (Some 71) 103 ?j" "aj_incident_id ?j = 30"
    "aj_base_incident_revision ?j = 1" "aj_requested_by_account_id ?j = 2"
    by (simp_all add: models)
  have rows: "find_report 10 (finish_metadata 70 ?os2) = Some rp"
    "find_report_revision 10 2 (finish_metadata 70 ?os2) \<noteq> None"
    using rp rv
    by (simp_all add: finish_metadata_def os1 attach_sources_def put_report_def add_report_revision_def
        example_report_def example_revision_def)
  have ref: "normalize_job_result_reference ?ref = Inr (no_result\<lparr>rr_reports := Some [(10, 2)]\<rparr>)"
    by (simp add: normalize_incident_reference_def normalize_reports_def obj_get_def obj_keys_def no_result_def
        RESULT_REFERENCE_KEYS_def RESULT_REPORT_REFERENCE_KEYS_def MAX_RESULT_REPORT_REFERENCES_def)
  have "\<exists>os'. apply_job_result 70 1 (Some 71) (Some ?ref) 103 (Some (job_request_id running_job)) (finish_metadata 70 ?os2) = (Inr (), os')"
    using os2 j rows rp
    by (simp add: apply_job_result_def ref require_def TERMINAL_STATES_def validate_result_targets_def no_result_def Let_def
        del: normalize_job_result_reference.simps)
       (use append_job_succeeded [OF latency_bounds] in blast)
  then obtain os' where "apply_job_result 70 1 (Some 71) (Some ?ref) 103 (Some (job_request_id running_job)) (finish_metadata 70 ?os2) = (Inr (), os')" ..
  moreover have "authorize_incident_target (numbered_incident 1) ?src ?who ?os = Inr ()"
    by (simp add: authorize_incident_target_def require_def)
  ultimately show ?thesis
    using lease actor results src
    by (simp add: apply_result_def session_scope_def write_report_result_def source_revision_def example_answer_def
        no_engine_result_def del: bind_result_eq_Inr)
qed

lemma result_written_once_witness:
  "\<exists>os'. apply_result plain_parsers example_env example_work 70 71 example_answer (example_office running_job) = (Inr (), os')
    \<and> apply_result plain_parsers example_env example_work 70 71 example_answer os' = (Inl StaleJobClaim, os')"
proof -
  obtain os' where run: "apply_result plain_parsers example_env example_work 70 71 example_answer
      (example_office running_job) = (Inr (), os')" using example_written by blast
  with result_written_once [OF running_ok run, of os'] show ?thesis by blast
qed

section \<open>A submission\<close>

lemma job_submitted_details:
  "map_of AUDIT_ACTION_FIELDS ''ai.job_submitted'' = Some [''job_id'', ''job_type'', ''incident_id'']"
  "takes_uuid ''ai.job_submitted'' ''job_id''" "takes_uuid ''ai.job_submitted'' ''incident_id''"
  "detail_ok ''ai.job_submitted'' (''job_type'', JStr ''classify'')"
  by code_simp+

lemma job_submitted_event:
  "event_ok ''ai.job_submitted'' [(''job_id'', JStr (uuid_str u)), (''job_type'', JStr ''classify''),
     (''incident_id'', JStr (uuid_str v))]"
  by (rule event_okI [OF job_submitted_details(1)])
     (simp_all add: detail_ok_uuid job_submitted_details)

definition classify_command :: submit_command where
  "classify_command = \<lparr>cm_incident_id = 30, cm_job_type = Classify, cm_report_id = None\<rparr>"

definition empty_office :: office where
  "empty_office = (example_office queued_job)\<lparr>ai_jobs := [], task_outbox := []\<rparr>"

lemma empty_office_simps [simp]:
  "ident empty_office = ident example_workspace" "incidents empty_office = [numbered_incident 1]"
  "incident_revisions empty_office = [example_incident_revision 1 JNull]"
  "reports empty_office = [example_report]" "report_access empty_office = report_access example_workspace"
  "ai_jobs empty_office = []" "task_outbox empty_office = []"
  by (simp_all add: empty_office_def)

lemma classify_allowed:
  assumes "incidents os = [numbered_incident 1]" "incident_revisions os = [example_incident_revision 1 JNull]"
  shows "authorize_incident officer 30 os = Inr (numbered_incident 1)"
proof -
  have rsimps: "ir_incident_id (example_incident_revision 1 JNull) = 30" "ir_revision_number (example_incident_revision 1 JNull) = 1"
    "ir_snapshot (example_incident_revision 1 JNull) = server_snapshot (incident_doc JNull) [1]"
    by (simp_all add: example_incident_revision_def)
  have "selection_from_snapshot (server_snapshot (incident_doc JNull) [1]) = Inr [1]"
    by (simp add: selection_from_snapshot_def server_snapshot_def obj_get_def incident_doc_def)
  then have "\<exists>view. get_incident officer 30 os = Inr view"
    using assms by (simp add: get_incident_def latest_revision_def rsimps can_access_incident_def officer_def)
  then show ?thesis using assms by (auto simp: authorize_incident_def officer_def)
qed

lemma example_submit:
  "\<exists>job os1. submit_job short_crypto officer example_rc classify_command ''key-0001'' 1 empty_office = (Inr job, os1)
     \<and> incidents os1 = [numbered_incident 1] \<and> incident_revisions os1 = [example_incident_revision 1 JNull]"
proof -
  let ?canon = "JObj [(''base_revision_number'', JInt 1), (''incident_id'', JStr (uuid_str 30)), (''job_type'', JStr ''classify'')]"
  let ?digest = "request_digest short_crypto ?canon"
  let ?claim = "\<lparr>ic_record_id = 60, replayed = False, response_status = None, response_reference = None\<rparr>"
  let ?rec = "new_record 60 (2, ''ai.job.submit'', ''key-0001'') ?digest 100"
  let ?ref = "JObj [(''job_id'', JStr (uuid_str 30))]"
  have digest: "length ?digest = 32" by (simp add: request_digest_def short_crypto_def)
  have key: "IDEMPOTENCY_KEY_PATTERN ''key-0001''" by code_simp
  let ?os1 = "empty_office\<lparr>ident := (ident example_workspace)\<lparr>idempotency_records := [?rec]\<rparr>\<rparr>"
  have claim: "in_ident (claim_idempotency 2 ''key-0001'' ''ai.job.submit'' ?digest 100 60) empty_office = (Inr ?claim, ?os1)"
    using digest key by (simp add: in_ident_def claim_idempotency_def example_workspace_def example_db_def empty_db_def)
  obtain job os2 where op: "insert_job short_crypto officer example_rc classify_command ?canon ''key-0001'' 1 (numbered_incident 1) ?os1
      = (Inr (job, 202, ?ref), os2)"
    and kept: "idempotency_records (ident os2) = [?rec]" "incidents os2 = [numbered_incident 1]"
      "incident_revisions os2 = [example_incident_revision 1 JNull]"
  proof -
    let ?job = "new_job short_crypto officer example_rc classify_command ?canon ''key-0001'' 1"
    let ?osx = "enqueue_job 61 30 100 (?os1\<lparr>ai_jobs := [?job]\<rparr>)"
    have "\<exists>ev. append_job_audit 2 1 ''ai.job_submitted'' ?job ''r1'' ''1.2.0''
        [(''job_id'', JStr (uuid_str 30)), (''job_type'', JStr ''classify''), (''incident_id'', JStr (uuid_str 30))] ?osx
        = (Inr (), logged ev ?osx)"
      by (rule append_job_event [OF job_submitted_event]) simp_all
    then obtain ev where "append_job_audit 2 1 ''ai.job_submitted'' ?job ''r1'' ''1.2.0''
        [(''job_id'', JStr (uuid_str 30)), (''job_type'', JStr ''classify''), (''incident_id'', JStr (uuid_str 30))] ?osx
        = (Inr (), logged ev ?osx)" ..
    then have "insert_job short_crypto officer example_rc classify_command ?canon ''key-0001'' 1 (numbered_incident 1) ?os1
      = (Inr (?job, 202, ?ref), logged ev ?osx)"
      by (simp add: insert_job_def check_base_incident_def Let_def classify_command_def officer_def new_job_def)
    then show thesis by (rule that) (simp_all add: enqueue_job_def)
  qed
  have safe: "safe_reference ?ref" by code_simp
  have "length (dumps True ?ref) \<le> 4096"
    using dumps_short [of "[(''job_id'', JStr (uuid_str 30))]"] uuid_dumps [of 30] by (simp del: dumps.simps)
  then obtain os3 where fin: "in_ident (complete_idempotency ?claim 202 ?ref 100) os2 = (Inr (), os3)"
    and same: "incidents os3 = incidents os2" "incident_revisions os3 = incident_revisions os2"
    using safe kept(1)
    by (auto simp: in_ident_def complete_idempotency_def new_record_def simp del: dumps.simps safe_reference.simps)
  have canonical: "canonical_payload classify_command 1 = Inr ?canon"
    by (simp add: canonical_payload_def classify_command_def)
  have allowed: "authorize_incident officer 30 empty_office = Inr (numbered_incident 1)"
    by (rule classify_allowed) simp_all
  have who: "account_id officer = 2" "cm_incident_id classify_command = 30" "cm_report_id classify_command = None"
    by (simp_all add: officer_def classify_command_def)
  have "submit_job short_crypto officer example_rc classify_command ''key-0001'' 1 empty_office = (Inr job, os3)"
    using claim op fin
    by (simp add: submit_job_def canonical allowed who keyed_record_def authorize_bound_report_def)
  with same kept show ?thesis by simp
qed

lemma submission_idempotent_witness:
  "\<exists>job job2 os1. submit_job short_crypto officer example_rc classify_command ''key-0001'' 1 empty_office = (Inr job, os1)
     \<and> submit_job short_crypto officer example_rc classify_command ''key-0001'' 1 os1 = (Inr job2, os1)"
proof -
  obtain job os1 where run: "submit_job short_crypto officer example_rc classify_command ''key-0001'' 1 empty_office = (Inr job, os1)"
    and rows: "incidents os1 = [numbered_incident 1]" "incident_revisions os1 = [example_incident_revision 1 JNull]"
    using example_submit by blast
  have who: "cm_incident_id classify_command = 30" "cm_report_id classify_command = None"
    by (simp_all add: classify_command_def)
  have none: "idempotency_records (ident example_workspace) = []"
    by (simp add: example_workspace_def example_db_def empty_db_def)
  have wf: "office_wf empty_office" by (simp add: office_wf_def)
  have "hours 24 > 0" by simp
  with submission_idempotent [OF run wf, of os1 example_rc "numbered_incident 1"] classify_allowed [OF rows] run
  show ?thesis
    by (auto simp: who none records_wf_def authorize_bound_report_def)
qed

end
