(* ===== verification/Retry.thy ===== *)
theory Retry
  imports Text Complex_Main "HOL-Library.Sublist"
begin

text \<open>
  Bounded retries of upstream calls (\<open>src/backend/pipeline/retry.py\<close>). A call is a function of
  the state of the upstream service; the random draws of the jitter are a parameter.
\<close>

section \<open>Transient failures\<close>

text \<open>
  What the code reads of an exception: the name of its class, its text, and whether it is a
  \<open>TimeoutError\<close> or \<open>ConnectionError\<close>, or the \<open>AlreadyExists\<close> of the Google client.
\<close>

record upstream_error =
  ue_class :: string
  ue_message :: string
  ue_network :: bool
  ue_already_exists :: bool

definition TRANSIENT_MARKERS :: "string list" where
  "TRANSIENT_MARKERS = [''resource_exhausted'', ''rate limit'', ''ratelimit'', ''quota'',
     ''unavailable'', ''deadline'', ''timed out'', ''timeout'',
     ''internal error'', ''internalservererror'', ''connection reset'',
     ''connection aborted'', ''server error'',
     ''500'', ''502'', ''503'', ''504'', ''429'']"

definition PERMANENT_MARKERS :: "string list" where
  "PERMANENT_MARKERS = [''permission_denied'', ''unauthenticated'', ''invalid_argument'',
     ''not_found'', ''failed_precondition'', ''default credentials were not found'',
     ''400'', ''401'', ''403'', ''404'']"

definition is_transient :: "upstream_error \<Rightarrow> bool" where
  "is_transient e =
     (if ue_network e then True
      else let txt = lower (ue_class e @ '' '' @ ue_message e)
           in if list_ex (\<lambda>marker. sublist marker txt) PERMANENT_MARKERS then False
              else list_ex (\<lambda>marker. sublist marker txt) TRANSIENT_MARKERS)"

text \<open>
  The numeric markers match anywhere in the text, and the permanent ones are tried first: a 503
  whose message contains the digits of a permanent status counts as permanent.
\<close>

lemma numeric_marker_shadows:
  "\<not> is_transient \<lparr>ue_class = ''ServiceUnavailable'', ue_message = ''503 deadline of 4040 ms exceeded'',
     ue_network = False, ue_already_exists = False\<rparr>"
  "is_transient \<lparr>ue_class = ''ServiceUnavailable'', ue_message = ''503 deadline of 5050 ms exceeded'',
     ue_network = False, ue_already_exists = False\<rparr>"
  by code_simp+

section \<open>The loop\<close>

definition DEFAULT_ATTEMPTS :: int where "DEFAULT_ATTEMPTS = 3"
definition DEFAULT_BASE_DELAY :: real where "DEFAULT_BASE_DELAY = 1"
definition MAX_DELAY :: real where "MAX_DELAY = 8"

text \<open>
  The wait before the next attempt: \<open>jitter n\<close> is the draw of \<open>random.random()\<close>, between 0 and 1,
  that \<open>random.uniform\<close> scales.
\<close>

definition retry_delay :: "real \<Rightarrow> (nat \<Rightarrow> real) \<Rightarrow> nat \<Rightarrow> real" where
  "retry_delay base jitter attempt =
     (let d = min (base * 2 ^ (attempt - 1)) MAX_DELAY in d + d * (1 / 10) * jitter attempt)"

text \<open>The answer of the last call, the state after it, and the waits in their order.\<close>

function retry_from ::
  "nat \<Rightarrow> nat \<Rightarrow> ('c \<Rightarrow> (upstream_error + 'a) \<times> 'c) \<Rightarrow> real \<Rightarrow> (nat \<Rightarrow> real) \<Rightarrow> 'c
   \<Rightarrow> (upstream_error + 'a) \<times> 'c \<times> real list" where
  "retry_from attempt attempts fn base jitter c =
     (case fn c of
        (Inr v, c') \<Rightarrow> (Inr v, c', [])
      | (Inl e, c') \<Rightarrow>
          if attempts \<le> attempt \<or> \<not> is_transient e then (Inl e, c', [])
          else case retry_from (attempt + 1) attempts fn base jitter c' of
            (r, c'', waits) \<Rightarrow> (r, c'', retry_delay base jitter attempt # waits))"
  by pat_completeness auto
termination by (relation "measure (\<lambda>(attempt, attempts, _). attempts - attempt)") auto

declare retry_from.simps [simp del]

definition with_retries ::
  "int \<Rightarrow> real \<Rightarrow> (nat \<Rightarrow> real) \<Rightarrow> ('c \<Rightarrow> (upstream_error + 'a) \<times> 'c) \<Rightarrow> 'c
   \<Rightarrow> (upstream_error + 'a) \<times> 'c \<times> real list" where
  "with_retries attempts base jitter fn c = retry_from 1 (nat (max 1 attempts)) fn base jitter c"

section \<open>What a caller sees\<close>

definition after_calls :: "('c \<Rightarrow> 'r \<times> 'c) \<Rightarrow> nat \<Rightarrow> 'c \<Rightarrow> 'c" where
  "after_calls fn n = (\<lambda>c. snd (fn c)) ^^ n"

lemma after_calls_0 [simp]: "after_calls fn 0 c = c"
  by (simp add: after_calls_def)

lemma after_calls_Suc: "after_calls fn (Suc n) c = after_calls fn n (snd (fn c))"
  by (simp add: after_calls_def funpow_Suc_right del: funpow.simps)

lemma retry_delay_bound:
  assumes "0 \<le> base" "\<And>n. 0 \<le> jitter n \<and> jitter n \<le> 1"
  shows "0 \<le> retry_delay base jitter n \<and> retry_delay base jitter n \<le> MAX_DELAY * (11 / 10)"
proof -
  let ?d = "min (base * 2 ^ (n - 1)) MAX_DELAY"
  have d: "0 \<le> ?d" "?d \<le> MAX_DELAY" using assms(1) by (auto simp: MAX_DELAY_def)
  have "?d * (1 / 10) * jitter n \<le> ?d * (1 / 10) * 1" using assms(2) d by (intro mult_left_mono) auto
  moreover have "0 \<le> ?d * (1 / 10) * jitter n" using assms(2) d by simp
  ultimately show ?thesis using d unfolding retry_delay_def Let_def by linarith
qed

lemma retry_from_trace:
  assumes "retry_from attempt attempts fn base jitter c = (r, c', waits)" "attempt \<le> attempts"
  shows "\<exists>n \<le> attempts - attempt. fn (after_calls fn n c) = (r, c')
    \<and> waits = map (retry_delay base jitter) [attempt ..< attempt + n]
    \<and> (\<forall>k < n. \<exists>e. fst (fn (after_calls fn k c)) = Inl e \<and> is_transient e)
    \<and> (\<forall>e. r = Inl e \<longrightarrow> is_transient e \<longrightarrow> n = attempts - attempt)"
  using assms
proof (induction attempt attempts fn base jitter c arbitrary: r c' waits rule: retry_from.induct)
  case (1 attempt attempts fn base jitter c)
  obtain r0 c0 where call: "fn c = (r0, c0)" by (cases "fn c")
  consider (last) "(r, c', waits) = (r0, c0, [])" "\<forall>e. r0 = Inl e \<longrightarrow> attempts \<le> attempt \<or> \<not> is_transient e"
    | (again) e ws where "r0 = Inl e" "is_transient e" "attempt < attempts" "waits = retry_delay base jitter attempt # ws"
        "retry_from (attempt + 1) attempts fn base jitter c0 = (r, c', ws)"
    using "1.prems" call by (subst (asm) retry_from.simps) (auto split: sum.splits if_splits prod.splits)
  then show ?case
  proof cases
    case last
    with call "1.prems"(2) show ?thesis by (intro exI [of _ 0]) auto
  next
    case again
    from "1.IH" [OF call [symmetric] again(1) _ again(5)] again(2,3)
    obtain n where n: "n \<le> attempts - (attempt + 1)" "fn (after_calls fn n c0) = (r, c')"
      "ws = map (retry_delay base jitter) [attempt + 1 ..< attempt + 1 + n]"
      "\<forall>k < n. \<exists>e. fst (fn (after_calls fn k c0)) = Inl e \<and> is_transient e"
      "\<forall>e. r = Inl e \<longrightarrow> is_transient e \<longrightarrow> n = attempts - (attempt + 1)" by auto
    have calls: "after_calls fn (Suc k) c = after_calls fn k c0" for k by (simp add: after_calls_Suc call)
    have "\<exists>e. fst (fn (after_calls fn k c)) = Inl e \<and> is_transient e" if "k < Suc n" for k
      using n(4) that again(1,2) call by (cases k) (auto simp: calls)
    moreover have "[attempt ..< attempt + Suc n] = attempt # [attempt + 1 ..< attempt + 1 + n]"
      by (simp add: upt_conv_Cons del: upt_Suc)
    then have "waits = map (retry_delay base jitter) [attempt ..< attempt + Suc n]" using n(3) again(4) by (simp del: upt_Suc)
    ultimately show ?thesis
      using n(1,2,5) again(3) by (intro exI [of _ "Suc n"]) (simp add: calls del: upt_Suc, fastforce)
  qed
qed

text \<open>
  A call is retried at most \<open>attempts\<close> times and only while it fails transiently: the answer,
  a result or the exception, is that of the last call made; every call before it raised a
  transient failure; a transient failure is only passed on by the last attempt, a permanent one
  at once; and between two calls the caller waits, never longer than 8.8 seconds.
\<close>

theorem with_retries_bounded:
  assumes "with_retries attempts base jitter fn c = (r, c', waits)" "0 \<le> base"
    "\<And>n. 0 \<le> jitter n \<and> jitter n \<le> 1"
  shows "\<exists>n. int n < max 1 attempts \<and> fn (after_calls fn n c) = (r, c') \<and> length waits = n
    \<and> (\<forall>k < n. \<exists>e. fst (fn (after_calls fn k c)) = Inl e \<and> is_transient e)
    \<and> (\<forall>e. r = Inl e \<and> is_transient e \<longrightarrow> int n + 1 = max 1 attempts)
    \<and> (\<forall>w \<in> set waits. 0 \<le> w \<and> w \<le> 88 / 10)"
proof -
  let ?N = "nat (max 1 attempts)"
  from assms(1) have run: "retry_from 1 ?N fn base jitter c = (r, c', waits)" by (simp add: with_retries_def)
  have pos: "1 \<le> ?N" by simp
  from retry_from_trace [OF run pos] obtain n where n: "n \<le> ?N - 1" "fn (after_calls fn n c) = (r, c')"
    "waits = map (retry_delay base jitter) [1 ..< 1 + n]"
    "\<forall>k < n. \<exists>e. fst (fn (after_calls fn k c)) = Inl e \<and> is_transient e"
    "\<forall>e. r = Inl e \<longrightarrow> is_transient e \<longrightarrow> n = ?N - 1" by blast
  have "\<forall>w \<in> set waits. 0 \<le> w \<and> w \<le> 88 / 10"
    using retry_delay_bound [OF assms(2,3)] by (auto simp: n(3) MAX_DELAY_def)
  with n show ?thesis by (intro exI [of _ n]) auto
qed

lemma with_retries_bounded_witness:
  "\<exists>r c' waits. with_retries 3 DEFAULT_BASE_DELAY (\<lambda>_. 0)
      (\<lambda>c. (if c < (2::nat) then Inl \<lparr>ue_class = ''ServerError'', ue_message = ''503'', ue_network = False,
          ue_already_exists = False\<rparr> else Inr c, c + 1)) 0 = (r, c', waits) \<and> length waits \<le> 2"
proof -
  let ?fn = "\<lambda>c. (if c < (2::nat) then Inl \<lparr>ue_class = ''ServerError'', ue_message = ''503'', ue_network = False,
          ue_already_exists = False\<rparr> else Inr c, c + 1)"
  obtain r c' waits where run: "with_retries 3 DEFAULT_BASE_DELAY (\<lambda>_. 0) ?fn 0 = (r, c', waits)"
    by (cases "with_retries 3 DEFAULT_BASE_DELAY (\<lambda>_. 0) ?fn 0")
  have "0 \<le> DEFAULT_BASE_DELAY" by (simp add: DEFAULT_BASE_DELAY_def)
  from with_retries_bounded [OF run this] have "length waits \<le> 2" by auto
  with run show ?thesis by blast
qed

end
