(* ===== verification/Dispatch.thy ===== *)
theory Dispatch
  imports Jobs Retry "HOL-Library.Product_Lexorder"
begin

text \<open>
  The dispatcher that turns committed outbox rows into Cloud Tasks
  (\<open>src/backend/jobs/dispatcher.py\<close>). The Cloud Tasks client is a parameter: a function of its
  state and a request that creates the task or raises.
\<close>

section \<open>Settings\<close>

text \<open>
  The parts of a URL that \<open>urlsplit\<close> gives, for text without control characters and brackets: the scheme in
  lower case, the network location, and the rest split at the first \<open>#\<close> and \<open>?\<close>.
\<close>

record split_url =
  us_scheme :: string
  us_netloc :: string
  us_path :: string
  us_query :: string
  us_fragment :: string

definition scheme_text :: "string \<Rightarrow> bool" where
  "scheme_text s \<longleftrightarrow> s \<noteq> [] \<and> (is_lower_ascii (hd s) \<or> is_upper_ascii (hd s))
     \<and> list_all (\<lambda>c. is_lower_ascii c \<or> is_upper_ascii c \<or> is_digit c \<or> c \<in> set ''+-.'') s"

definition cut_at :: "char \<Rightarrow> string \<Rightarrow> string \<times> string" where
  "cut_at c s = (takeWhile (\<lambda>x. x \<noteq> c) s, drop 1 (dropWhile (\<lambda>x. x \<noteq> c) s))"

definition urlsplit :: "string \<Rightarrow> split_url" where
  "urlsplit url =
     (let (front, back) = cut_at CHR '':'' url;
          (scheme, rest) = (if CHR '':'' \<in> set url \<and> scheme_text front then (lower front, back) else ([], url));
          has_netloc = (take 2 rest = ''//'');
          netloc = (if has_netloc then takeWhile (\<lambda>c. c \<notin> set ''/?#'') (drop 2 rest) else []);
          tail = (if has_netloc then drop (length netloc + 2) rest else rest);
          (tail1, fragment) = cut_at CHR ''#'' tail;
          (path, query) = cut_at CHR ''?'' tail1
      in \<lparr>us_scheme = scheme, us_netloc = netloc, us_path = path, us_query = query, us_fragment = fragment\<rparr>)"

text \<open>\<open>username or password\<close>: some text of either before the last \<open>@\<close> of the network location.\<close>

definition has_credentials :: "string \<Rightarrow> bool" where
  "has_credentials netloc \<longleftrightarrow> CHR ''@'' \<in> set netloc
     \<and> rev (drop 1 (dropWhile (\<lambda>c. c \<noteq> CHR ''@'') (rev netloc))) \<notin> {[], '':''}"

definition RESOURCE_PART :: "string \<Rightarrow> bool" where
  "RESOURCE_PART s \<longleftrightarrow> 1 \<le> length s \<and> length s \<le> 100
     \<and> list_all (\<lambda>c. is_upper_ascii c \<or> is_lower_ascii c \<or> is_digit c \<or> c = CHR ''_'' \<or> c = CHR ''-'') s"

record dispatch_settings =
  ds_project :: string
  ds_location :: string
  ds_queue :: string
  ds_worker_url :: string
  ds_oidc_service_account :: string

definition DispatchSettings ::
  "string \<Rightarrow> string \<Rightarrow> string \<Rightarrow> string \<Rightarrow> string \<Rightarrow> dispatch_settings result" where
  "DispatchSettings project location queue url acct =
     (let parsed = urlsplit url in
      if \<not> list_all RESOURCE_PART [project, location, queue]
      then Inl (ValueError ''Cloud Tasks resource configuration is invalid'')
      else if us_scheme parsed \<noteq> ''https'' \<or> us_netloc parsed = [] \<or> has_credentials (us_netloc parsed)
        \<or> us_query parsed \<noteq> [] \<or> us_fragment parsed \<noteq> [] \<or> us_path parsed \<notin> {[], ''/''}
      then Inl (ValueError ''AI_WORKER_URL must be an HTTPS origin'')
      else if CHR ''@'' \<notin> set acct \<or> 254 < length acct
      then Inl (ValueError ''Cloud Tasks OIDC service account is invalid'')
      else Inr \<lparr>ds_project = project, ds_location = location, ds_queue = queue,
        ds_worker_url = url, ds_oidc_service_account = acct\<rparr>)"

definition settings_from_env :: "(string \<Rightarrow> string option) \<Rightarrow> dispatch_settings result" where
  "settings_from_env environ =
     (let value = \<lambda>name. strip (case environ name of None \<Rightarrow> [] | Some v \<Rightarrow> v);
          names = [''CLOUD_TASKS_PROJECT'', ''CLOUD_TASKS_LOCATION'', ''CLOUD_TASKS_QUEUE'',
            ''AI_WORKER_URL'', ''CLOUD_TASKS_OIDC_SERVICE_ACCOUNT'']
      in if list_ex (\<lambda>n. value n = []) names
         then Inl (RuntimeError ''Cloud Tasks dispatcher configuration is incomplete'')
         else DispatchSettings (value ''CLOUD_TASKS_PROJECT'') (value ''CLOUD_TASKS_LOCATION'')
           (value ''CLOUD_TASKS_QUEUE'') (value ''AI_WORKER_URL'') (value ''CLOUD_TASKS_OIDC_SERVICE_ACCOUNT''))"

definition settings_parent :: "dispatch_settings \<Rightarrow> string" where
  "settings_parent st = ''projects/'' @ ds_project st @ ''/locations/'' @ ds_location st @ ''/queues/'' @ ds_queue st"

definition settings_audience :: "dispatch_settings \<Rightarrow> string" where
  "settings_audience st = (let parsed = urlsplit (ds_worker_url st) in us_scheme parsed @ ''://'' @ us_netloc parsed)"

definition rstrip_slash :: "string \<Rightarrow> string" where
  "rstrip_slash s = rev (dropWhile (\<lambda>c. c = CHR ''/'') (rev s))"

definition task_request :: "dispatch_settings \<Rightarrow> uuid \<Rightarrow> json" where
  "task_request st jid = JObj
     [(''name'', JStr (settings_parent st @ ''/tasks/ai-job-'' @ uuid_str jid)),
      (''http_request'', JObj
        [(''http_method'', JInt 1),
         (''url'', JStr (rstrip_slash (ds_worker_url st) @ ''/internal/jobs/'' @ uuid_str jid @ ''/run'')),
         (''headers'', JObj [(''Content-Type'', JStr ''application/json'')]),
         (''body'', JStr (dumps True (JObj [(''job_id'', JStr (uuid_str jid))]))),
         (''oidc_token'', JObj
           [(''service_account_email'', JStr (ds_oidc_service_account st)),
            (''audience'', JStr (settings_audience st))])])]"

section \<open>The outbox\<close>

definition pending_rows :: "nat \<Rightarrow> time \<Rightarrow> 'o office_scheme \<Rightarrow> (uuid \<times> uuid) list" where
  "pending_rows limit now os =
     map (\<lambda>r. (ob_id r, ob_ai_job_id r))
       (take limit (sort_key (\<lambda>r. (ob_available_at r, ob_id r))
         (filter (\<lambda>r. ob_state r = Outbox_Pending \<and> ob_available_at r \<le> now) (task_outbox os))))"

definition change_row ::
  "uuid \<Rightarrow> (task_outbox_row \<Rightarrow> task_outbox_row) \<Rightarrow> 'o office_scheme \<Rightarrow> 'o office_scheme" where
  "change_row rid f os =
     (case find_row ob_id rid (task_outbox os) of None \<Rightarrow> os | Some row \<Rightarrow>
        if ob_state row \<noteq> Outbox_Pending then os
        else os\<lparr>task_outbox := update_rows (\<lambda>r. ob_id r = rid) f (task_outbox os)\<rparr>)"

definition dispatched_row :: "time \<Rightarrow> task_outbox_row \<Rightarrow> task_outbox_row" where
  "dispatched_row now row = row\<lparr>ob_state := Outbox_Dispatched, ob_attempts := ob_attempts row + 1,
     ob_dispatched_at := Some now, ob_last_error_code := None\<rparr>"

definition mark_dispatched :: "uuid \<Rightarrow> time \<Rightarrow> 'o office_scheme \<Rightarrow> 'o office_scheme" where
  "mark_dispatched rid now = change_row rid (dispatched_row now)"

definition backoff :: "nat \<Rightarrow> time" where
  "backoff n = seconds (min 300 (2 ^ min n 8))"

definition failed_row :: "string \<Rightarrow> bool \<Rightarrow> time \<Rightarrow> task_outbox_row \<Rightarrow> task_outbox_row" where
  "failed_row err retryable now row =
     (let row1 = row\<lparr>ob_attempts := ob_attempts row + 1, ob_last_error_code := Some err\<rparr>
      in if retryable
         then row1\<lparr>ob_available_at := now + backoff (ob_attempts row1)\<rparr>
         else row1\<lparr>ob_state := Outbox_Failed\<rparr>)"

definition mark_failure :: "uuid \<Rightarrow> string \<Rightarrow> bool \<Rightarrow> time \<Rightarrow> 'o office_scheme \<Rightarrow> 'o office_scheme" where
  "mark_failure rid err retryable now = change_row rid (failed_row err retryable now)"

section \<open>One run\<close>

record dispatch_summary =
  sm_dispatched :: nat
  sm_failed :: nat
  sm_pending :: nat

definition error_code :: "upstream_error \<Rightarrow> string \<times> bool" where
  "error_code e = (if is_transient e then (''task_service_unavailable'', True)
     else (''task_request_rejected'', False))"

definition dispatch_row ::
  "dispatch_settings \<Rightarrow> ('c \<Rightarrow> json \<Rightarrow> (upstream_error + unit) \<times> 'c) \<Rightarrow> (nat \<Rightarrow> real) \<Rightarrow> time
   \<Rightarrow> uuid \<times> uuid \<Rightarrow> dispatch_summary \<times> 'c \<times> 'o office_scheme \<Rightarrow> dispatch_summary \<times> 'c \<times> 'o office_scheme" where
  "dispatch_row st client jitter now = (\<lambda>(rid, jid) (sm, c, os).
     let request = JObj [(''parent'', JStr (settings_parent st)), (''task'', task_request st jid)]
     in case with_retries 3 (1 / 4) jitter (\<lambda>c. client c request) c of
          (Inr _, c', waits) \<Rightarrow> (sm\<lparr>sm_dispatched := sm_dispatched sm + 1\<rparr>, c', mark_dispatched rid now os)
        | (Inl e, c', waits) \<Rightarrow>
            if ue_already_exists e
            then (sm\<lparr>sm_dispatched := sm_dispatched sm + 1\<rparr>, c', mark_dispatched rid now os)
            else let (err, retryable) = error_code e in
              ((if retryable then sm\<lparr>sm_pending := sm_pending sm + 1\<rparr> else sm\<lparr>sm_failed := sm_failed sm + 1\<rparr>),
               c', mark_failure rid err retryable now os))"

definition dispatch_pending ::
  "dispatch_settings \<Rightarrow> ('c \<Rightarrow> json \<Rightarrow> (upstream_error + unit) \<times> 'c) \<Rightarrow> (nat \<Rightarrow> real) \<Rightarrow> int \<Rightarrow> time
   \<Rightarrow> 'c \<Rightarrow> 'o office_scheme \<Rightarrow> dispatch_summary result \<times> 'c \<times> 'o office_scheme" where
  "dispatch_pending st client jitter limit now c os =
     (if \<not> (1 \<le> limit \<and> limit \<le> 1000) then (Inl (ValueError ''limit must be between 1 and 1000''), c, os)
      else case fold (dispatch_row st client jitter now) (pending_rows (nat limit) now os)
             (\<lparr>sm_dispatched = 0, sm_failed = 0, sm_pending = 0\<rparr>, c, os) of
          (sm, c', os') \<Rightarrow> (Inr sm, c', os'))"

section \<open>Rows\<close>

text \<open>What one run makes of a row it has selected.\<close>

definition handled :: "time \<Rightarrow> task_outbox_row \<Rightarrow> task_outbox_row \<Rightarrow> bool" where
  "handled now row row' \<longleftrightarrow> row' = dispatched_row now row
     \<or> row' = failed_row ''task_service_unavailable'' True now row
     \<or> row' = failed_row ''task_request_rejected'' False now row"

lemma handled_keeps:
  "handled now row row' \<Longrightarrow> ob_id row' = ob_id row \<and> ob_ai_job_id row' = ob_ai_job_id row \<and> ob_attempts row' = ob_attempts row + 1"
  by (auto simp: handled_def dispatched_row_def failed_row_def Let_def)

lemma backoff_bound: "0 < backoff n \<and> backoff n \<le> seconds 256"
proof -
  have "(2::int) ^ min n 8 \<le> 2 ^ 8" by (rule power_increasing) simp_all
  then show ?thesis by (simp add: backoff_def seconds_def)
qed

lemma handled_pending:
  "handled now row row' \<Longrightarrow> ob_state row = Outbox_Pending \<Longrightarrow> ob_state row' = Outbox_Pending \<Longrightarrow>
   now < ob_available_at row' \<and> ob_available_at row' \<le> now + seconds 256"
  using backoff_bound by (auto simp: handled_def dispatched_row_def failed_row_def Let_def)

definition row_outcome :: "time \<Rightarrow> task_outbox_row \<Rightarrow> task_outbox_row \<Rightarrow> bool" where
  "row_outcome now row row' \<longleftrightarrow> ob_attempts row' = ob_attempts row + 1 \<and>
     (case ob_state row' of
        Outbox_Dispatched \<Rightarrow> ob_dispatched_at row' = Some now \<and> ob_last_error_code row' = None
      | Outbox_Pending \<Rightarrow> now < ob_available_at row' \<and> ob_available_at row' \<le> now + seconds 256
          \<and> ob_last_error_code row' = Some ''task_service_unavailable''
      | Outbox_Failed \<Rightarrow> ob_last_error_code row' = Some ''task_request_rejected'')"

lemma handled_outcome: "handled now row row' \<Longrightarrow> ob_state row = Outbox_Pending \<Longrightarrow> row_outcome now row row'"
  using handled_pending [of now row row']
  by (auto simp: row_outcome_def handled_def dispatched_row_def failed_row_def Let_def)

abbreviation outbox_ids :: "'o office_scheme \<Rightarrow> uuid list" where
  "outbox_ids os \<equiv> map ob_id (task_outbox os)"

text \<open>The summary after one more row in the state \<open>st\<close>.\<close>

fun counted :: "outbox_state \<Rightarrow> dispatch_summary \<Rightarrow> dispatch_summary" where
  "counted Outbox_Dispatched sm = sm\<lparr>sm_dispatched := sm_dispatched sm + 1\<rparr>"
| "counted Outbox_Failed sm = sm\<lparr>sm_failed := sm_failed sm + 1\<rparr>"
| "counted Outbox_Pending sm = sm\<lparr>sm_pending := sm_pending sm + 1\<rparr>"

lemma dispatch_row_effect:
  assumes "dispatch_row st client jitter now (rid, jid) (sm, c, os) = (sm', c', os')"
    "find_row ob_id rid (task_outbox os) = Some row" "ob_state row = Outbox_Pending"
  shows "\<exists>f. (\<forall>r. handled now r (f r)) \<and> sm' = counted (ob_state (f row)) sm
    \<and> os' = os\<lparr>task_outbox := update_rows (\<lambda>r. ob_id r = rid) f (task_outbox os)\<rparr>"
proof -
  have counts: "ob_state (dispatched_row now row) = Outbox_Dispatched"
    "ob_state (failed_row err b now row) = (if b then Outbox_Pending else Outbox_Failed)" for err b
    using assms(3) by (simp_all add: dispatched_row_def failed_row_def Let_def)
  let ?request = "JObj [(''parent'', JStr (settings_parent st)), (''task'', task_request st jid)]"
  obtain r waits where call: "with_retries 3 (1 / 4) jitter (\<lambda>c. client c ?request) c = (r, c', waits)"
    using assms(1) by (cases "with_retries 3 (1 / 4) jitter (\<lambda>c. client c ?request) c")
      (auto simp: dispatch_row_def Let_def split: sum.splits if_splits prod.splits)
  consider (sent) "sm' = sm\<lparr>sm_dispatched := sm_dispatched sm + 1\<rparr>" "os' = mark_dispatched rid now os"
    | (again) "sm' = sm\<lparr>sm_pending := sm_pending sm + 1\<rparr>"
        "os' = mark_failure rid ''task_service_unavailable'' True now os"
    | (failed) "sm' = sm\<lparr>sm_failed := sm_failed sm + 1\<rparr>"
        "os' = mark_failure rid ''task_request_rejected'' False now os"
    using assms(1) call
    by (auto simp: dispatch_row_def Let_def error_code_def split: sum.splits if_splits)
  then show ?thesis
  proof cases
    case sent
    then show ?thesis using assms(2,3) counts
      by (intro exI [of _ "dispatched_row now"]) (simp add: handled_def mark_dispatched_def change_row_def)
  next
    case again
    then show ?thesis using assms(2,3) counts
      by (intro exI [of _ "failed_row ''task_service_unavailable'' True now"])
         (simp add: handled_def mark_failure_def change_row_def)
  next
    case failed
    then show ?thesis using assms(2,3) counts
      by (intro exI [of _ "failed_row ''task_request_rejected'' False now"])
         (simp add: handled_def mark_failure_def change_row_def)
  qed
qed

definition row_state :: "uuid \<Rightarrow> 'o office_scheme \<Rightarrow> outbox_state option" where
  "row_state rid os = map_option ob_state (find_row ob_id rid (task_outbox os))"

abbreviation find_out :: "uuid \<Rightarrow> 'o office_scheme \<Rightarrow> task_outbox_row option" where
  "find_out rid os \<equiv> find_row ob_id rid (task_outbox os)"

definition tally :: "outbox_state \<Rightarrow> (uuid \<times> uuid) list \<Rightarrow> 'o office_scheme \<Rightarrow> nat" where
  "tally s sel os = length (filter (\<lambda>p. row_state (fst p) os = Some s) sel)"

lemma fold_rows:
  assumes "fold (dispatch_row st client jitter now) sel (sm, c, os) = (sm', c', os')" "distinct (map fst sel)"
    "\<And>rid. rid \<in> fst ` set sel \<Longrightarrow> \<exists>row. find_out rid os = Some row \<and> ob_state row = Outbox_Pending"
    "distinct (outbox_ids os)"
  shows "(\<exists>rows. os' = os\<lparr>task_outbox := rows\<rparr>) \<and> outbox_ids os' = outbox_ids os
    \<and> (\<forall>rid row. find_out rid os = Some row \<longrightarrow> (\<exists>row'. find_out rid os' = Some row'
          \<and> (if rid \<in> fst ` set sel then handled now row row' else row' = row)))
    \<and> sm_dispatched sm' = sm_dispatched sm + tally Outbox_Dispatched sel os'
    \<and> sm_failed sm' = sm_failed sm + tally Outbox_Failed sel os'
    \<and> sm_pending sm' = sm_pending sm + tally Outbox_Pending sel os'"
  using assms
proof (induction sel arbitrary: sm c os)
  case Nil
  then show ?case by (auto simp: tally_def intro!: exI [of _ "task_outbox os"])
next
  case (Cons p sel)
  obtain rid jid where p: "p = (rid, jid)" by (cases p)
  obtain row where row: "find_out rid os = Some row" "ob_state row = Outbox_Pending" using Cons.prems(3) [of rid] p by auto
  obtain sm1 c1 os1 where first: "dispatch_row st client jitter now (rid, jid) (sm, c, os) = (sm1, c1, os1)"
    by (cases "dispatch_row st client jitter now (rid, jid) (sm, c, os)")
  obtain f where f: "\<And>r. handled now r (f r)" "sm1 = counted (ob_state (f row)) sm"
    "os1 = os\<lparr>task_outbox := update_rows (\<lambda>r. ob_id r = rid) f (task_outbox os)\<rparr>"
    using dispatch_row_effect [OF first row] by blast
  have finds: "find_out i os1 = (if i = rid then Some (f row) else find_out i os)" for i
    using row(1) handled_keeps [OF f(1)]
    by (cases "find_out i os") (auto simp: f(3) find_update_rows dest: find_row_SomeD)
  have ids: "outbox_ids os1 = outbox_ids os"
    using handled_keeps [OF f(1)] by (simp add: f(3) map_update_rows)
  have rest: "fold (dispatch_row st client jitter now) sel (sm1, c1, os1) = (sm', c', os')"
    using Cons.prems(1) by (simp add: p first)
  have new: "rid \<notin> fst ` set sel" using Cons.prems(2) by (simp add: p)
  have "\<exists>row. find_out i os1 = Some row \<and> ob_state row = Outbox_Pending" if "i \<in> fst ` set sel" for i
    using Cons.prems(3) [of i] that new by (auto simp: finds p)
  with Cons.IH [OF rest] Cons.prems(2,4)
  have IH: "\<exists>rows. os' = os1\<lparr>task_outbox := rows\<rparr>" "outbox_ids os' = outbox_ids os1"
    "\<And>i row. find_out i os1 = Some row \<Longrightarrow> \<exists>row'. find_out i os' = Some row'
          \<and> (if i \<in> fst ` set sel then handled now row row' else row' = row)"
    "sm_dispatched sm' = sm_dispatched sm1 + tally Outbox_Dispatched sel os'"
    "sm_failed sm' = sm_failed sm1 + tally Outbox_Failed sel os'"
    "sm_pending sm' = sm_pending sm1 + tally Outbox_Pending sel os'"
    by (simp_all add: ids p)
  have state: "row_state rid os' = Some (ob_state (f row))"
    using IH(3) [of rid "f row"] new by (auto simp: finds row_state_def)
  have "\<exists>rows. os' = os\<lparr>task_outbox := rows\<rparr>" using IH(1) f(3) by auto
  moreover have "\<exists>row'. find_out i os' = Some row'
      \<and> (if i \<in> fst ` set (p # sel) then handled now r row' else row' = r)" if "find_out i os = Some r" for i r
    using IH(3) [of i] that new row(1) f(1) by (cases "i = rid") (auto simp: finds p)
  ultimately show ?case
    using IH(2,4-6) ids state
    by (cases "ob_state (f row)") (simp_all add: p f(2) tally_def)
qed

section \<open>The rows of one run\<close>

lemma pending_rows_selected:
  assumes "distinct (outbox_ids os)"
  shows "distinct (map fst (pending_rows n now os))"
    "rid \<in> fst ` set (pending_rows n now os) \<Longrightarrow>
       \<exists>row. find_out rid os = Some row \<and> ob_state row = Outbox_Pending \<and> ob_available_at row \<le> now"
proof -
  let ?sorted = "sort_key (\<lambda>r. (ob_available_at r, ob_id r))
      (filter (\<lambda>r. ob_state r = Outbox_Pending \<and> ob_available_at r \<le> now) (task_outbox os))"
  have "distinct (map ob_id (filter P (task_outbox os)))" for P using assms by (simp add: distinct_map_filter)
  then have "distinct (map ob_id ?sorted)"
    by (metis (no_types, lifting) distinct_map distinct_sort mset_sort set_mset_mset)
  then show "distinct (map fst (pending_rows n now os))"
    by (simp add: pending_rows_def comp_def take_map [symmetric])
  assume "rid \<in> fst ` set (pending_rows n now os)"
  then obtain row where "row \<in> set ?sorted" "ob_id row = rid"
    by (auto simp: pending_rows_def dest: in_set_takeD)
  then show "\<exists>row. find_out rid os = Some row \<and> ob_state row = Outbox_Pending \<and> ob_available_at row \<le> now"
    using find_row_distinct [OF assms, of row] by auto
qed

lemma tally_total:
  "(\<And>p. p \<in> set sel \<Longrightarrow> row_state (fst p) os \<noteq> None) \<Longrightarrow>
   tally Outbox_Dispatched sel os + tally Outbox_Failed sel os + tally Outbox_Pending sel os = length sel"
proof (induction sel)
  case (Cons p sel)
  then have "row_state (fst p) os \<noteq> None" by simp
  then obtain s where "row_state (fst p) os = Some s" by blast
  with Cons show ?case by (cases s) (simp_all add: tally_def)
qed (simp add: tally_def)

text \<open>
  One run gives every outbox row it has selected exactly one outcome, and touches nothing
  else: the row is dispatched, or stays pending with a recorded error and is due again within
  256 seconds but not at once, or has failed for good. The summary counts the rows by their
  outcome, and its three counts add up to the number of rows selected, whatever Cloud Tasks
  answers.
\<close>

theorem dispatch_outcomes:
  assumes "distinct (outbox_ids os)" "dispatch_pending st client jitter limit now c os = (Inr sm, c', os')"
  defines "sel \<equiv> pending_rows (nat limit) now os"
  shows "(\<forall>rid row. find_out rid os = Some row \<longrightarrow> (\<exists>row'. find_out rid os' = Some row'
        \<and> (if rid \<in> fst ` set sel then row_outcome now row row' else row' = row)))
    \<and> outbox_ids os' = outbox_ids os \<and> (\<exists>rows. os' = os\<lparr>task_outbox := rows\<rparr>)
    \<and> sm_dispatched sm = tally Outbox_Dispatched sel os' \<and> sm_failed sm = tally Outbox_Failed sel os'
    \<and> sm_pending sm = tally Outbox_Pending sel os'
    \<and> sm_dispatched sm + sm_failed sm + sm_pending sm = length sel"
proof -
  have run: "fold (dispatch_row st client jitter now) sel (\<lparr>sm_dispatched = 0, sm_failed = 0, sm_pending = 0\<rparr>, c, os) = (sm, c', os')"
    using assms(2) by (auto simp: dispatch_pending_def sel_def split: if_splits prod.splits)
  have selected: "\<exists>row. find_out rid os = Some row \<and> ob_state row = Outbox_Pending" if "rid \<in> fst ` set sel" for rid
    using pending_rows_selected(2) [OF assms(1)] that unfolding sel_def by blast
  have "distinct (map fst sel)" unfolding sel_def by (rule pending_rows_selected(1) [OF assms(1)])
  note effect = fold_rows [OF run this selected assms(1)]
  then have rows: "\<exists>row'. find_out rid os' = Some row' \<and> (if rid \<in> fst ` set sel then handled now row row' else row' = row)"
      if "find_out rid os = Some row" for rid row
    using that by blast
  from effect have rest: "outbox_ids os' = outbox_ids os" "\<exists>rows. os' = os\<lparr>task_outbox := rows\<rparr>"
      "sm_dispatched sm = tally Outbox_Dispatched sel os'" "sm_failed sm = tally Outbox_Failed sel os'"
      "sm_pending sm = tally Outbox_Pending sel os'"
    by simp_all
  have "row_state (fst p) os' \<noteq> None" if "p \<in> set sel" for p
    using selected [of "fst p"] rows that by (force simp: row_state_def)
  then have total: "sm_dispatched sm + sm_failed sm + sm_pending sm = length sel"
    unfolding rest(3-5) by (rule tally_total)
  have "\<exists>row'. find_out rid os' = Some row' \<and> (if rid \<in> fst ` set sel then row_outcome now row row' else row' = row)"
    if row: "find_out rid os = Some row" for rid row
  proof (cases "rid \<in> fst ` set sel")
    case True
    with selected [OF True] row have "ob_state row = Outbox_Pending" by simp
    with rows [OF row] True show ?thesis using handled_outcome by auto
  qed (use rows [OF row] in simp)
  then show ?thesis using rest total by blast
qed

section \<open>Draining the outbox\<close>

fun dispatch_runs ::
  "dispatch_settings \<Rightarrow> ('c \<Rightarrow> json \<Rightarrow> (upstream_error + unit) \<times> 'c) \<Rightarrow> (nat \<Rightarrow> real) \<Rightarrow> int \<Rightarrow> time list
   \<Rightarrow> 'c \<times> 'o office_scheme \<Rightarrow> 'c \<times> 'o office_scheme" where
  "dispatch_runs st client jitter limit [] (c, os) = (c, os)"
| "dispatch_runs st client jitter limit (now # later) (c, os) =
     dispatch_runs st client jitter limit later (snd (dispatch_pending st client jitter limit now c os))"

text \<open>A client that creates every task, or says that it exists.\<close>

definition accepts :: "('c \<Rightarrow> json \<Rightarrow> (upstream_error + unit) \<times> 'c) \<Rightarrow> bool" where
  "accepts client \<longleftrightarrow> (\<forall>c request. case fst (client c request) of Inl e \<Rightarrow> ue_already_exists e | Inr _ \<Rightarrow> True)"

lemma accepted_row:
  assumes "accepts client"
  shows "\<exists>c'. dispatch_row st client jitter now (rid, jid) (sm, c, os)
    = (sm\<lparr>sm_dispatched := sm_dispatched sm + 1\<rparr>, c', mark_dispatched rid now os)"
proof -
  let ?fn = "\<lambda>c. client c (JObj [(''parent'', JStr (settings_parent st)), (''task'', task_request st jid)])"
  obtain r c' waits where run: "with_retries 3 (1 / 4) jitter ?fn c = (r, c', waits)"
    by (cases "with_retries 3 (1 / 4) jitter ?fn c")
  then have "retry_from 1 3 ?fn (1 / 4) jitter c = (r, c', waits)" by (simp add: with_retries_def)
  from retry_from_trace [OF this] obtain n where n: "?fn (after_calls ?fn n c) = (r, c')" by auto
  have "case fst (?fn (after_calls ?fn n c)) of Inl e \<Rightarrow> ue_already_exists e | Inr _ \<Rightarrow> True"
    using assms unfolding accepts_def by blast
  then have "case r of Inl e \<Rightarrow> ue_already_exists e | Inr _ \<Rightarrow> True" by (simp only: n fst_conv)
  then show ?thesis using run by (cases r) (auto simp: dispatch_row_def Let_def)
qed

lemma accepted_rows:
  assumes "accepts client"
  shows "\<exists>sm' c'. fold (dispatch_row st client jitter now) sel (sm, c, os)
    = (sm', c', fold (\<lambda>p. mark_dispatched (fst p) now) sel os)"
proof (induction sel arbitrary: sm c os)
  case (Cons p sel)
  obtain rid jid where p: "p = (rid, jid)" by (cases p)
  obtain c1 where "dispatch_row st client jitter now (rid, jid) (sm, c, os)
    = (sm\<lparr>sm_dispatched := sm_dispatched sm + 1\<rparr>, c1, mark_dispatched rid now os)"
    using accepted_row [OF assms] by blast
  with Cons show ?case by (simp add: p)
qed simp

lemma find_marked:
  "find_out i (fold (\<lambda>p. mark_dispatched (fst p) now) sel os) =
     (case find_out i os of None \<Rightarrow> None | Some row \<Rightarrow>
        if i \<in> fst ` set sel \<and> ob_state row = Outbox_Pending then Some (dispatched_row now row) else Some row)"
proof (induction sel arbitrary: os)
  case Nil
  then show ?case by (simp split: option.split)
next
  case (Cons p sel)
  have "find_out i (mark_dispatched (fst p) now os) =
     (case find_out i os of None \<Rightarrow> None | Some row \<Rightarrow>
        if i = fst p \<and> ob_state row = Outbox_Pending then Some (dispatched_row now row) else Some row)"
    by (cases "i = fst p"; cases "find_out (fst p) os"; cases "find_out i os")
       (auto simp: mark_dispatched_def change_row_def find_update_rows dispatched_row_def dest: find_row_SomeD)
  then show ?case using Cons.IH [of "mark_dispatched (fst p) now os"]
    by (auto simp: dispatched_row_def split: option.splits)
qed

text \<open>The rows that are due, in the order of the selection.\<close>

definition due :: "time \<Rightarrow> 'o office_scheme \<Rightarrow> task_outbox_row list" where
  "due now os = sort_key (\<lambda>r. (ob_available_at r, ob_id r))
     (filter (\<lambda>r. ob_state r = Outbox_Pending \<and> ob_available_at r \<le> now) (task_outbox os))"

lemma filter_sorted_prefix:
  assumes "sorted (map f xs)" "\<And>x y. f x \<le> f y \<Longrightarrow> P y \<Longrightarrow> P x"
  shows "filter P xs = takeWhile P xs"
  using assms(1)
proof (induction xs)
  case (Cons x xs)
  show ?case
  proof (cases "P x")
    case False
    then have "\<forall>y \<in> set xs. \<not> P y" using Cons.prems assms(2) by fastforce
    with False show ?thesis by (simp add: filter_empty_conv)
  qed (use Cons in simp)
qed simp

lemma due_earlier: "now \<le> later \<Longrightarrow> due now os = takeWhile (\<lambda>r. ob_available_at r \<le> now) (due later os)"
proof -
  assume le: "now \<le> later"
  have "due now os = filter (\<lambda>r. ob_available_at r \<le> now) (due later os)"
    using le by (auto simp: due_def filter_sort intro!: arg_cong [where f = "sort_key _"] filter_cong)
  also have "\<dots> = takeWhile (\<lambda>r. ob_available_at r \<le> now) (due later os)"
    by (rule filter_sorted_prefix [where f = "\<lambda>r. (ob_available_at r, ob_id r)"])
       (auto simp: due_def less_eq_prod_def)
  finally show ?thesis .
qed

lemma takeWhile_take: "takeWhile P (take n xs) = take n (takeWhile P xs)"
  by (induction xs arbitrary: n) (auto simp: take_Cons split: nat.split)

lemma pending_rows_due: "pending_rows n now os = map (\<lambda>r. (ob_id r, ob_ai_job_id r)) (take n (due now os))"
  by (simp add: pending_rows_def due_def)

lemma first_due_selected:
  assumes "now \<le> later" "row \<in> set (take n (due now os))"
  shows "ob_id row \<in> fst ` set (pending_rows n later os)"
proof -
  have "take n (due now os) = takeWhile (\<lambda>r. ob_available_at r \<le> now) (take n (due later os))"
    using due_earlier [OF assms(1), of os] by (simp add: takeWhile_take)
  then have "row \<in> set (take n (due later os))" using assms(2) by (auto dest: set_takeWhileD)
  then show ?thesis by (force simp: pending_rows_due)
qed

lemma ids_marked [simp]: "outbox_ids (fold (\<lambda>p. mark_dispatched (fst p) now) sel os) = outbox_ids os"
proof (induction sel arbitrary: os)
  case (Cons p sel)
  have "outbox_ids (mark_dispatched (fst p) now os) = outbox_ids os"
    by (auto simp: mark_dispatched_def change_row_def dispatched_row_def map_update_rows split: option.split)
  with Cons show ?case by simp
qed simp

lemma due_member: "distinct (outbox_ids os) \<Longrightarrow> r \<in> set (due now os) \<longleftrightarrow>
    find_out (ob_id r) os = Some r \<and> ob_state r = Outbox_Pending \<and> ob_available_at r \<le> now"
  by (auto simp: due_def find_row_distinct dest: find_row_SomeD)

lemma due_ids: "distinct (outbox_ids os) \<Longrightarrow> distinct (map ob_id (due now os))"
proof -
  assume d: "distinct (outbox_ids os)"
  have "distinct (map ob_id (filter P (task_outbox os)))" for P using d by (simp add: distinct_map_filter)
  then show ?thesis by (metis (no_types, lifting) due_def distinct_map distinct_sort mset_sort set_mset_mset)
qed

text \<open>A run of an accepting client at a later instant takes the rows due now first.\<close>

lemma due_after_run:
  fixes n :: nat
  assumes d: "distinct (outbox_ids os)" and le: "now \<le> later"
  defines "os' \<equiv> fold (\<lambda>p. mark_dispatched (fst p) later) (pending_rows n later os) os"
  shows "length (due now os') \<le> length (due now os) - n"
proof -
  have d': "distinct (outbox_ids os')" using d by (simp add: os'_def)
  have "ob_id ` set (due now os') \<subseteq> ob_id ` set (drop n (due now os))"
  proof (rule subsetI, elim imageE)
    fix i r assume i: "i = ob_id r" and "r \<in> set (due now os')"
    then have r: "find_out (ob_id r) os' = Some r" "ob_state r = Outbox_Pending" "ob_available_at r \<le> now"
      using due_member [OF d'] by blast+
    then have old: "find_out (ob_id r) os = Some r" "ob_id r \<notin> fst ` set (pending_rows n later os)"
      unfolding os'_def find_marked by (auto simp: dispatched_row_def split: option.splits if_splits)
    then have "r \<in> set (due now os)" using due_member [OF d] r by blast
    moreover have "r \<notin> set (take n (due now os))" using first_due_selected [OF le] old(2) by blast
    ultimately have "r \<in> set (drop n (due now os))" by (metis Un_iff append_take_drop_id set_append)
    with i show "i \<in> ob_id ` set (drop n (due now os))" by blast
  qed
  then have "card (ob_id ` set (due now os')) \<le> card (ob_id ` set (drop n (due now os)))" by (intro card_mono) auto
  also have "\<dots> \<le> length (drop n (due now os))" using card_length [of "map ob_id (drop n (due now os))"] by simp
  finally have "card (ob_id ` set (due now os')) \<le> length (due now os) - n" by simp
  moreover have "card (ob_id ` set (due now os')) = length (due now os')"
    using distinct_card [OF due_ids [OF d', of now]] by simp
  ultimately show ?thesis by simp
qed

text \<open>
  C34. The outbox drains: while Cloud Tasks takes every task, new or already created, enough
  runs of the dispatcher, at any later instants, hand over every row that is due now. Runs
  with limit \<open>l\<close> are enough for \<open>n\<close> rows when there are at least \<open>n / l\<close> of them, because the rows
  that have been due longest go first, also when further rows become due in between.
\<close>

theorem outbox_drains:
  assumes "accepts client" "1 \<le> limit" "limit \<le> 1000" "distinct (outbox_ids os)"
    "\<forall>t \<in> set instants. now \<le> t" "length (due now os) \<le> length instants * nat limit"
    "find_out rid os = Some row" "ob_state row = Outbox_Pending" "ob_available_at row \<le> now"
  shows "row_state rid (snd (dispatch_runs st client jitter limit instants (c, os))) = Some Outbox_Dispatched"
proof -
  have "row_state rid (snd (dispatch_runs st client jitter limit instants (c, os))) = Some Outbox_Dispatched"
    if "distinct (outbox_ids os)" "\<forall>t \<in> set instants. now \<le> t" "length (due now os) \<le> length instants * nat limit"
      "find_out rid os = Some row" "ob_state row = Outbox_Dispatched \<or> ob_state row = Outbox_Pending \<and> ob_available_at row \<le> now"
    for instants c os row
    using that
  proof (induction instants arbitrary: c os row)
    case Nil
    then have "row \<notin> set (due now os)" by simp
    with Nil.prems(1,4,5) due_member [OF Nil.prems(1), of row now] have "ob_state row = Outbox_Dispatched"
      using find_row_SomeD [OF Nil.prems(4)] by auto
    with Nil.prems(4) show ?case by (simp add: row_state_def)
  next
    case (Cons t instants)
    let ?os = "fold (\<lambda>p. mark_dispatched (fst p) t) (pending_rows (nat limit) t os) os"
    obtain sm' c' where run: "fold (dispatch_row st client jitter t) (pending_rows (nat limit) t os)
        (\<lparr>sm_dispatched = 0, sm_failed = 0, sm_pending = 0\<rparr>, c, os) = (sm', c', ?os)"
      using accepted_rows [OF assms(1)] by blast
    then have step: "snd (dispatch_pending st client jitter limit t c os) = (c', ?os)"
      using assms(2,3) by (simp add: dispatch_pending_def)
    have "length (due now ?os) \<le> length (due now os) - nat limit"
      using due_after_run [OF Cons.prems(1), of now t "nat limit"] Cons.prems(2) by simp
    also have "\<dots> \<le> length instants * nat limit" using Cons.prems(3) by simp
    finally have less: "length (due now ?os) \<le> length instants * nat limit" .
    obtain row' where "find_out rid ?os = Some row'"
      "ob_state row' = Outbox_Dispatched \<or> ob_state row' = Outbox_Pending \<and> ob_available_at row' \<le> now"
      using Cons.prems(4,5)
      by (cases "rid \<in> fst ` set (pending_rows (nat limit) t os)") (auto simp: find_marked dispatched_row_def)
    then show ?case
      using Cons.IH [of ?os row' c'] Cons.prems(1,2) less by (simp add: step)
  qed
  then show ?thesis using assms(4-9) by blast
qed

section \<open>An example outbox\<close>

definition due_row :: "uuid \<Rightarrow> time \<Rightarrow> task_outbox_row" where
  "due_row i t = \<lparr>ob_id = i, ob_ai_job_id = i + 100, ob_state = Outbox_Pending, ob_attempts = 0,
     ob_available_at = t, ob_dispatched_at = None, ob_last_error_code = None, ob_created_at = t\<rparr>"

definition due_office :: office where
  "due_office = \<lparr>ident = empty_db, incidents = [], incident_revisions = [], reports = [], report_access = [],
     report_revisions = [], ai_jobs = [], task_outbox = [due_row 1 7, due_row 2 5, due_row 3 90]\<rparr>"

definition example_settings :: dispatch_settings where
  "example_settings = \<lparr>ds_project = ''prod'', ds_location = ''us-central1'', ds_queue = ''ai-jobs'',
     ds_worker_url = ''https://worker.example'', ds_oidc_service_account = ''tasks@prod''\<rparr>"

lemma example_settings_ok:
  "DispatchSettings ''prod'' ''us-central1'' ''ai-jobs'' ''https://worker.example'' ''tasks@prod'' = Inr example_settings"
  "settings_audience example_settings = ''https://worker.example''"
  by code_simp+

lemma due_office_ids: "distinct (outbox_ids due_office)"
  by (simp add: due_office_def due_row_def)

lemma outbox_drains_witness:
  "row_state 1 (snd (dispatch_runs example_settings (\<lambda>c request. (Inr (), c + 1)) (\<lambda>_. 0) 1 [10, 20] (0 :: nat, due_office)))
     = Some Outbox_Dispatched"
  by (rule outbox_drains [where now = 9 and row = "due_row 1 7"])
     (simp_all add: accepts_def due_office_ids due_def, simp_all add: due_office_def due_row_def)

lemma dispatch_outcomes_witness:
  "\<exists>sm c' os'. dispatch_pending example_settings (\<lambda>c request. (Inl \<lparr>ue_class = ''ServiceUnavailable'', ue_message = ''503'',
        ue_network = False, ue_already_exists = False\<rparr>, c + 1)) (\<lambda>_. 0) 100 9 (0 :: nat) due_office = (Inr sm, c', os')
     \<and> sm_dispatched sm + sm_failed sm + sm_pending sm = 2"
proof -
  let ?client = "\<lambda>c request. (Inl \<lparr>ue_class = ''ServiceUnavailable'', ue_message = ''503'',
        ue_network = False, ue_already_exists = False\<rparr>, c + (1::nat))"
  obtain sm c' os' where run: "dispatch_pending example_settings ?client (\<lambda>_. 0) 100 9 0 due_office = (Inr sm, c', os')"
    by (cases "dispatch_pending example_settings ?client (\<lambda>_. 0) 100 9 0 due_office")
       (auto simp: dispatch_pending_def split: prod.splits)
  have "length (pending_rows (nat 100) 9 due_office) = 2"
    by (simp add: pending_rows_def due_office_def due_row_def)
  with dispatch_outcomes [OF due_office_ids run] run show ?thesis by auto
qed

end
