(* ===== verification/Keyset.thy ===== *)
theory Keyset
  imports PyText "HOL-Library.Product_Lexorder"
begin

text \<open>
  Pages by key: a listing orders its rows by a key that is different for every row, a page is the
  first rows after the key of the cursor, and the cursor of the next page is the key of the last
  row, given only when a row is left over. The locale \<open>keyset\<close> states what the order owes a
  reader, and proves that following the cursors reads every row exactly once, in order.
\<close>

section \<open>One page\<close>

definition page_of :: "('r \<Rightarrow> bool) \<Rightarrow> nat \<Rightarrow> 'r list \<Rightarrow> 'r list \<times> 'r option" where
  "page_of p limit rows =
     (let found = take (limit + 1) (filter p rows); page = take limit found
      in (page, if limit < length found then Some (last page) else None))"

lemma page_of_all: "page_of p limit rows = page_of (\<lambda>_. True) limit (filter p rows)"
  by (simp add: page_of_def Let_def)

lemma page_of_rest:
  assumes "1 \<le> limit"
  shows "page_of (\<lambda>_. True) limit rows =
    (if length rows \<le> limit then (rows, None) else (take limit rows, Some (rows ! (limit - 1))))"
proof -
  have "last (take limit rows) = rows ! (limit - 1)" if "limit < length rows"
    using that assms by (subst last_conv_nth) (auto simp: min_def)
  then show ?thesis by (auto simp: page_of_def Let_def min_def)
qed

section \<open>Reading all pages\<close>

text \<open>
  A reader asks for the first page and follows the cursors; \<open>fuel\<close> bounds the number of pages,
  and running out of it is an error.
\<close>

fun read_pages :: "nat \<Rightarrow> ('c option \<Rightarrow> ('r list \<times> 'c option) result) \<Rightarrow> 'c option \<Rightarrow> 'r list result" where
  "read_pages 0 fetch cursor = Inl OutOfDraws"
| "read_pages (Suc fuel) fetch cursor =
     bind_result (fetch cursor) (\<lambda>(page, follow).
       case follow of
         None \<Rightarrow> Inr page
       | Some c \<Rightarrow> bind_result (read_pages fuel fetch (Some c)) (\<lambda>rest. Inr (page @ rest)))"

locale keyset =
  fixes after :: "'r \<Rightarrow> 'r \<Rightarrow> bool"
  assumes asym: "after r s \<Longrightarrow> \<not> after s r"
begin

lemma filter_after:
  assumes "sorted_wrt after (xs @ r # ys)"
  shows "filter (after r) (xs @ r # ys) = ys"
proof -
  have "\<not> after r x" if "x \<in> set xs" for x
    using assms that asym by (auto simp: sorted_wrt_append)
  moreover have "\<not> after r r" using asym by blast
  moreover have "after r y" if "y \<in> set ys" for y
    using assms that by (auto simp: sorted_wrt_append)
  ultimately show ?thesis by (simp add: filter_id_conv)
qed

lemma read_from:
  assumes "1 \<le> limit" "sorted_wrt after rows"
    and fetch: "\<And>r. r \<in> set rows \<Longrightarrow>
      fetch (Some (enc r)) = Inr (map_prod (map view) (map_option enc) (page_of (after r) limit rows))"
    and split: "rows = xs @ ys" "length ys < fuel"
    and cursor: "fetch cursor = Inr (map_prod (map view) (map_option enc) (page_of (\<lambda>_. True) limit ys))"
  shows "read_pages fuel fetch cursor = Inr (map view ys)"
  using split cursor
proof (induction fuel arbitrary: xs ys cursor)
  case (Suc fuel)
  show ?case
  proof (cases "length ys \<le> limit")
    case True
    with Suc.prems show ?thesis by (simp add: page_of_rest [OF assms(1)] del: bind_result_eq_Inr)
  next
    case False
    let ?r = "ys ! (limit - 1)"
    have ys: "ys = take (limit - 1) ys @ ?r # drop limit ys"
      using False assms(1) id_take_nth_drop [of "limit - 1" ys] by simp
    then have rows: "rows = (xs @ take (limit - 1) ys) @ ?r # drop limit ys" using Suc.prems(1) by simp
    then have r: "?r \<in> set rows" by (metis in_set_conv_decomp)
    have "filter (after ?r) rows = drop limit ys"
      using filter_after [of "xs @ take (limit - 1) ys" ?r "drop limit ys"] assms(2) rows by metis
    then have next_page: "fetch (Some (enc ?r)) =
        Inr (map_prod (map view) (map_option enc) (page_of (\<lambda>_. True) limit (drop limit ys)))"
      using fetch [OF r] page_of_all [of "after ?r" limit rows] by simp
    have len: "length (drop limit ys) < fuel" using Suc.prems(2) False assms(1) by simp
    have split: "rows = (xs @ take limit ys) @ drop limit ys" using Suc.prems(1) by simp
    have "read_pages fuel fetch (Some (enc ?r)) = Inr (map view (drop limit ys))"
      by (rule Suc.IH [OF split len next_page])
    with False Suc.prems(3) show ?thesis
      by (simp add: page_of_rest [OF assms(1)] take_map [symmetric] drop_map [symmetric] del: bind_result_eq_Inr)
  qed
qed simp

lemma read_all:
  assumes "1 \<le> limit" "sorted_wrt after rows" "length rows < fuel"
    and "fetch None = Inr (map_prod (map view) (map_option enc) (page_of (\<lambda>_. True) limit rows))"
    and "\<And>r. r \<in> set rows \<Longrightarrow>
      fetch (Some (enc r)) = Inr (map_prod (map view) (map_option enc) (page_of (after r) limit rows))"
  shows "read_pages fuel fetch None = Inr (map view rows)"
  by (rule read_from [where xs = "[]" and ys = rows, OF assms(1,2) assms(5)]) (use assms in simp_all)

end

section \<open>Ascending and descending keys\<close>

lemma sorted_wrt_key:
  assumes "distinct (map key rows)"
  shows "sorted_wrt (\<lambda>r s. key r < (key s :: 'k :: linorder)) (sort_key key rows)"
proof -
  have "sorted (map key (sort_key key rows))" by simp
  moreover have "distinct (map key (sort_key key rows))"
    using assms by (metis distinct_map distinct_sort set_sort)
  ultimately have "sorted_wrt (<) (map key (sort_key key rows))" by (simp add: strict_sorted_iff)
  then show ?thesis by (simp add: sorted_wrt_map)
qed

lemma sorted_wrt_key_rev:
  assumes "distinct (map key rows)"
  shows "sorted_wrt (\<lambda>r s. key s < (key r :: 'k :: linorder)) (rev (sort_key key rows))"
  using sorted_wrt_key [OF assms] by (simp add: sorted_wrt_rev)

lemma keyset_less: "keyset (\<lambda>r s. key r < (key s :: 'k :: linorder))"
  by unfold_locales auto

lemma keyset_greater: "keyset (\<lambda>r s. key s < (key r :: 'k :: linorder))"
  by unfold_locales auto

end
