(* ===== verification/Listings.thy ===== *)
theory Listings
  imports Keyset PyText IncidentRules
begin

text \<open>
  The listings of the service: rows in the order of a key, cut into pages after a cursor. The
  cursors of \<open>src/backend/identity/accounts.py\<close> (staff, accounts, sessions) and of
  \<open>src/backend/reports/persistence.py\<close> (revisions of incidents) are dictionaries of texts.

  The text of a time, and its parser, are those of Python's \<open>datetime\<close>; a time whose offset is
  written as \<open>Z\<close> is rewritten before it is parsed.
\<close>

section \<open>A page after a cursor\<close>

text \<open>The order of a listing, ascending or descending, and the condition on the cursor.\<close>

definition in_order :: "bool \<Rightarrow> ('r \<Rightarrow> 'k :: linorder) \<Rightarrow> 'r list \<Rightarrow> 'r list" where
  "in_order descending key rows = (if descending then rev (sort_key key rows) else sort_key key rows)"

definition past_cursor :: "bool \<Rightarrow> 'k :: linorder option \<Rightarrow> 'k \<Rightarrow> bool" where
  "past_cursor descending c k \<longleftrightarrow>
     (case c of None \<Rightarrow> True | Some bound \<Rightarrow> if descending then k < bound else bound < k)"

definition keyed_page ::
  "bool \<Rightarrow> ('r \<Rightarrow> 'k :: linorder) \<Rightarrow> ('r \<Rightarrow> 'c) \<Rightarrow> ('r \<Rightarrow> 'v) \<Rightarrow> nat \<Rightarrow> 'k option \<Rightarrow> 'r list \<Rightarrow> 'v list \<times> 'c option" where
  "keyed_page descending key enc view limit c rows =
     map_prod (map view) (map_option enc)
       (page_of (\<lambda>r. past_cursor descending c (key r)) limit (in_order descending key rows))"

definition follows :: "bool \<Rightarrow> ('r \<Rightarrow> 'k :: linorder) \<Rightarrow> 'r \<Rightarrow> 'r \<Rightarrow> bool" where
  "follows descending key r s \<longleftrightarrow> (if descending then key s < key r else key r < key s)"

interpretation listing: keyset "follows descending key" for descending :: bool and key :: "'r \<Rightarrow> 'k :: linorder"
  by unfold_locales (auto simp: follows_def split: if_splits)

lemma sorted_listing: "distinct (map key rows) \<Longrightarrow> sorted_wrt (follows descending key) (in_order descending key rows)"
  using sorted_wrt_key [of key rows] sorted_wrt_key_rev [of key rows]
  by (cases descending) (auto simp: in_order_def follows_def [abs_def])

lemma in_order_same: "set (in_order descending key rows) = set rows" "length (in_order descending key rows) = length rows"
  by (simp_all add: in_order_def)

lemma keyed_pages_complete:
  assumes "1 \<le> limit" "distinct (map key rows)" "length rows < fuel"
    and fetch: "\<And>c. fetch c = bind_result (read c) (\<lambda>k. Inr (keyed_page descending key enc view limit k rows))"
    and read: "read None = Inr None" "\<And>r. r \<in> set rows \<Longrightarrow> read (Some (enc r)) = Inr (Some (key r))"
  shows "read_pages fuel fetch None = Inr (map view (in_order descending key rows))"
proof (rule listing.read_all [OF assms(1) sorted_listing [OF assms(2)]])
  show "length (in_order descending key rows) < fuel" using assms(3) by (simp add: in_order_same)
  show "fetch None = Inr (map_prod (map view) (map_option enc) (page_of (\<lambda>_. True) limit (in_order descending key rows)))"
    by (simp add: fetch read(1) keyed_page_def past_cursor_def)
  show "fetch (Some (enc r)) = Inr (map_prod (map view) (map_option enc)
      (page_of (follows descending key r) limit (in_order descending key rows)))" if "r \<in> set (in_order descending key rows)" for r
    using read(2) [of r] that
    by (simp add: fetch in_order_same keyed_page_def past_cursor_def follows_def [abs_def] cong: if_cong)
qed

section \<open>Cursors of a time and an identifier\<close>

record iso_clock =
  isoformat :: "time \<Rightarrow> string"
  fromisoformat :: "string \<Rightarrow> time option"

definition replace_z :: "string \<Rightarrow> string" where
  "replace_z s = concat (map (\<lambda>c. if c = CHR ''Z'' then ''+00:00'' else [c]) s)"

definition iso_ok :: "iso_clock \<Rightarrow> bool" where
  "iso_ok K \<longleftrightarrow> (\<forall>t. fromisoformat K (replace_z (isoformat K t)) = Some t)"

type_synonym cursor = "(string \<times> string) list"

definition time_id_cursor :: "iso_clock \<Rightarrow> string \<Rightarrow> time \<times> uuid \<Rightarrow> cursor" where
  "time_id_cursor K field k = [(field, isoformat K (fst k)), (''id'', uuid_str (snd k))]"

text \<open>The values of a cursor, with the exception each missing or malformed one raises.\<close>

definition read_time_id :: "iso_clock \<Rightarrow> string \<Rightarrow> cursor \<Rightarrow> (time \<times> uuid) result" where
  "read_time_id K field cursor =
     (case map_of cursor field of
        None \<Rightarrow> Inl KeyError
      | Some s \<Rightarrow>
          (case fromisoformat K (replace_z s) of
             None \<Rightarrow> Inl (ValueError (''Invalid isoformat string: '' @ repr_str (replace_z s)))
           | Some t \<Rightarrow>
               (case map_of cursor ''id'' of
                  None \<Rightarrow> Inl KeyError
                | Some i \<Rightarrow>
                    (case parse_uuid i of
                       None \<Rightarrow> Inl (ValueError ''badly formed hexadecimal UUID string'')
                     | Some u \<Rightarrow> Inr (t, u)))))"

text \<open>\<open>if cursor\<close>: an absent and an empty dictionary are no cursor.\<close>

definition read_cursor :: "(cursor \<Rightarrow> 'k result) \<Rightarrow> cursor option \<Rightarrow> 'k option result" where
  "read_cursor read cursor =
     (case cursor of
        None \<Rightarrow> Inr None
      | Some c \<Rightarrow> if c = [] then Inr None else bind_result (read c) (\<lambda>k. Inr (Some k)))"

lemma read_cursor_None [simp]: "read_cursor read None = Inr None"
  by (simp add: read_cursor_def)

lemma time_id_read:
  assumes "iso_ok K" "field \<noteq> ''id''"
  shows "read_time_id K field (time_id_cursor K field k) = Inr k"
    and "read_cursor (read_time_id K field) (Some (time_id_cursor K field k)) = Inr (Some k)"
proof -
  show "read_time_id K field (time_id_cursor K field k) = Inr k"
    using assms by (simp add: read_time_id_def time_id_cursor_def iso_ok_def)
  then show "read_cursor (read_time_id K field) (Some (time_id_cursor K field k)) = Inr (Some k)"
    by (simp add: read_cursor_def time_id_cursor_def del: bind_result_eq_Inr)
qed

text \<open>A clock whose texts are numbers.\<close>

definition number_clock :: iso_clock where
  "number_clock = \<lparr>isoformat = int_str, fromisoformat = py_int\<rparr>"

lemma number_clock_ok: "iso_ok number_clock"
proof -
  have "c \<noteq> CHR ''Z''" if "c \<in> set (int_str t)" for c t
    using that by (auto simp: int_str_def is_digit_def in_range_def dest!: nat_str_digits split: if_splits)
  then have "replace_z (int_str t) = int_str t" for t
    unfolding replace_z_def by (induction "int_str t" rule: list.induct) (simp_all add: map_idI concat_map_singleton cong: map_cong)
  then show ?thesis by (simp add: iso_ok_def number_clock_def)
qed

section \<open>Staff, accounts and sessions\<close>

definition account_page_size :: "int \<Rightarrow> nat" where
  "account_page_size limit = nat (min (max limit 1) 100)"

definition list_by_creation ::
  "iso_clock \<Rightarrow> ('r \<Rightarrow> time) \<Rightarrow> ('r \<Rightarrow> uuid) \<Rightarrow> int \<Rightarrow> cursor option \<Rightarrow> 'r list \<Rightarrow> ('r list \<times> cursor option) result" where
  "list_by_creation K created i limit cursor rows =
     bind_result (read_cursor (read_time_id K ''created_at'') cursor) (\<lambda>c.
       Inr (keyed_page False (\<lambda>r. (created r, i r)) (\<lambda>r. time_id_cursor K ''created_at'' (created r, i r)) id
         (account_page_size limit) c rows))"

text \<open>
  The search text with its wildcards escaped, the backslash itself left as it is; \<open>ilike\<close> is the
  pattern match of the database.
\<close>

definition staff_pattern :: "string \<Rightarrow> string" where
  "staff_pattern query =
     ''%'' @ take 100 (concat (map (\<lambda>c. if c = CHR ''%'' \<or> c = CHR ''_'' then [CHR 0x5C, c] else [c]) (strip query))) @ ''%''"

definition staff_found :: "(string \<Rightarrow> string \<Rightarrow> bool) \<Rightarrow> string option \<Rightarrow> staff_member \<Rightarrow> bool" where
  "staff_found ilike query s \<longleftrightarrow>
     (case query of None \<Rightarrow> True
      | Some q \<Rightarrow> q = [] \<or> ilike (staff_pattern q) (st_employee_number s)
          \<or> ilike (staff_pattern q) (st_first_name s) \<or> ilike (staff_pattern q) (st_last_name s))"

definition list_staff ::
  "iso_clock \<Rightarrow> (string \<Rightarrow> string \<Rightarrow> bool) \<Rightarrow> string option \<Rightarrow> int \<Rightarrow> cursor option \<Rightarrow> db
   \<Rightarrow> (staff_member list \<times> cursor option) result" where
  "list_staff K ilike query limit cursor db =
     list_by_creation K st_created_at st_id limit cursor (filter (staff_found ilike query) (staff_members db))"

definition list_accounts ::
  "iso_clock \<Rightarrow> int \<Rightarrow> cursor option \<Rightarrow> db \<Rightarrow> (account list \<times> cursor option) result" where
  "list_accounts K limit cursor db = list_by_creation K ac_created_at ac_id limit cursor (accounts db)"

definition list_account_sessions ::
  "iso_clock \<Rightarrow> uuid \<Rightarrow> int \<Rightarrow> cursor option \<Rightarrow> db \<Rightarrow> (access_session list \<times> cursor option) result" where
  "list_account_sessions K aid limit cursor db =
     list_by_creation K se_created_at se_id limit cursor (filter (\<lambda>s. se_account_id s = aid) (sessions db))"

lemma listed_by_creation:
  assumes "iso_ok K" "distinct (map i rows)" "length rows < fuel"
  shows "read_pages fuel (\<lambda>cursor. list_by_creation K created i limit cursor rows) None
    = Inr (in_order False (\<lambda>r. (created r, i r)) rows)"
proof -
  have "read_pages fuel (\<lambda>cursor. list_by_creation K created i limit cursor rows) None
      = Inr (map id (in_order False (\<lambda>r. (created r, i r)) rows))"
  proof (rule keyed_pages_complete)
    show "distinct (map (\<lambda>r. (created r, i r)) rows)" using assms(2) by (auto simp: distinct_map inj_on_def)
    show "list_by_creation K created i limit c rows = bind_result (read_cursor (read_time_id K ''created_at'') c)
       (\<lambda>k. Inr (keyed_page False (\<lambda>r. (created r, i r)) (\<lambda>r. time_id_cursor K ''created_at'' (created r, i r)) id
         (account_page_size limit) k rows))" for c
      by (simp add: list_by_creation_def)
  qed (use assms in \<open>simp_all add: account_page_size_def time_id_read\<close>)
  then show ?thesis by simp
qed

section \<open>Revisions\<close>

text \<open>
  The cursor of a listing of revisions names the last row by its identifier and the text of its
  time, which must both be those of one row.
\<close>

definition revision_row_cursor :: "iso_clock \<Rightarrow> ('r \<Rightarrow> uuid) \<Rightarrow> ('r \<Rightarrow> time) \<Rightarrow> 'r \<Rightarrow> cursor" where
  "revision_row_cursor K i created r = time_id_cursor K ''created_at'' (created r, i r)"

definition read_revision_row ::
  "iso_clock \<Rightarrow> ('r \<Rightarrow> uuid) \<Rightarrow> ('r \<Rightarrow> time) \<Rightarrow> ('r \<Rightarrow> int) \<Rightarrow> 'r list \<Rightarrow> cursor \<Rightarrow> (int \<times> uuid) result" where
  "read_revision_row K i created number rows cursor =
     (case map_of cursor ''id'' of
        None \<Rightarrow> Inl KeyError
      | Some s \<Rightarrow>
          (case parse_uuid s of
             None \<Rightarrow> Inl (ValueError ''badly formed hexadecimal UUID string'')
           | Some u \<Rightarrow>
               (case find_row i u rows of
                  None \<Rightarrow> Inl (ValueError ''revision cursor is invalid'')
                | Some r \<Rightarrow>
                    (case map_of cursor ''created_at'' of
                       None \<Rightarrow> Inl KeyError
                     | Some t \<Rightarrow> if isoformat K (created r) \<noteq> t then Inl (ValueError ''revision cursor is invalid'')
                         else Inr (number r, i r)))))"

definition list_revision_rows ::
  "iso_clock \<Rightarrow> ('r \<Rightarrow> uuid) \<Rightarrow> ('r \<Rightarrow> time) \<Rightarrow> ('r \<Rightarrow> int) \<Rightarrow> nat \<Rightarrow> cursor option \<Rightarrow> 'r list
   \<Rightarrow> ('r list \<times> cursor option) result" where
  "list_revision_rows K i created number limit cursor rows =
     bind_result (read_cursor (read_revision_row K i created number rows) cursor) (\<lambda>c.
       Inr (keyed_page False (\<lambda>r. (number r, i r)) (revision_row_cursor K i created) id limit c rows))"

lemma listed_revision_rows:
  assumes "1 \<le> limit" "distinct (map i rows)" "length rows < fuel"
  shows "read_pages fuel (\<lambda>cursor. list_revision_rows K i created number limit cursor rows) None
    = Inr (in_order False (\<lambda>r. (number r, i r)) rows)"
proof -
  have "read_pages fuel (\<lambda>cursor. list_revision_rows K i created number limit cursor rows) None
      = Inr (map id (in_order False (\<lambda>r. (number r, i r)) rows))"
  proof (rule keyed_pages_complete)
    show "distinct (map (\<lambda>r. (number r, i r)) rows)" using assms(2) by (auto simp: distinct_map inj_on_def)
    show "list_revision_rows K i created number limit c rows = bind_result (read_cursor (read_revision_row K i created number rows) c)
       (\<lambda>k. Inr (keyed_page False (\<lambda>r. (number r, i r)) (revision_row_cursor K i created) id limit k rows))" for c
      by (simp add: list_revision_rows_def)
    show "read_cursor (read_revision_row K i created number rows) (Some (revision_row_cursor K i created r))
        = Inr (Some (number r, i r))" if "r \<in> set rows" for r
      using find_row_distinct [OF assms(2) that]
      by (simp add: read_cursor_def revision_row_cursor_def time_id_cursor_def read_revision_row_def del: bind_result_eq_Inr)
  qed (use assms in simp_all)
  then show ?thesis by simp
qed

definition list_incident_revisions ::
  "iso_clock \<Rightarrow> session_actor \<Rightarrow> uuid \<Rightarrow> nat \<Rightarrow> cursor option \<Rightarrow> 'w workspace_scheme
   \<Rightarrow> (incident_revision list \<times> cursor option) result" where
  "list_incident_revisions K who iid limit cursor ws =
     bind_result (get_incident who iid ws) (\<lambda>_.
       list_revision_rows K ir_id ir_created_at ir_revision_number limit cursor
         (filter (\<lambda>r. ir_incident_id r = iid) (incident_revisions ws)))"

end
