(* ===== verification/ReportRecords.thy ===== *)
theory ReportRecords
  imports Listings
begin

text \<open>
  Reports as the routes see them (\<open>src/backend/reports/persistence.py\<close>): reading a report through
  its live owner or preparer, the keyed writes of officers and of administrators over the revision
  operations of the theory \<open>Revisions\<close>, and the listings of reports and of their revisions.

  The revision operations read the clock themselves, so they get a call of their own.
\<close>

section \<open>Reading a report\<close>

record report_view =
  tv_report :: report
  tv_content :: dict
  tv_revision_number :: int
  tv_status :: string
  tv_updated_at :: time
  tv_editor_staff_member_id :: uuid
  tv_editor_display_name :: string
  tv_reporting_staff_member_id :: "uuid option"
  tv_reporting_officer_display_name :: "string option"
  tv_prepared_by_staff_member_id :: "uuid option"
  tv_preparer_display_name :: "string option"

definition report_access_live :: "session_actor \<Rightarrow> uuid \<Rightarrow> 'w workspace_scheme \<Rightarrow> bool" where
  "report_access_live who rid ws \<longleftrightarrow>
     list_ex (\<lambda>a. ra_report_id a = rid \<and> ra_staff_member_id a = staff_member_id who \<and> ra_revoked_at a = None)
       (report_access ws)"

definition lock_authorized_report :: "session_actor \<Rightarrow> uuid \<Rightarrow> 'w workspace_scheme \<Rightarrow> report result" where
  "lock_authorized_report who rid ws =
     (case find_report rid ws of
        None \<Rightarrow> Inl ReportNotFound
      | Some rp \<Rightarrow> if report_access_live who rid ws then Inr rp else Inl ReportNotFound)"

definition report_revision_view ::
  "report \<Rightarrow> report_revision \<Rightarrow> string option \<Rightarrow> int option \<Rightarrow> 'w workspace_scheme \<Rightarrow> report_view result" where
  "report_revision_view rp rv status current ws =
     (case find_staff (rv_editor_staff_member_id rv) (ident ws) of
        None \<Rightarrow> Inl (RuntimeError ''report revision editor is unavailable'')
      | Some editor \<Rightarrow>
          bind_result (validate_report_content (JObj (rv_snapshot rv))) (\<lambda>content.
            Inr \<lparr>tv_report = rp, tv_content = content,
              tv_revision_number = (case current of None \<Rightarrow> rv_revision_number rv | Some n \<Rightarrow> n),
              tv_status = or_default status (report_status_text (rp_status rp)),
              tv_updated_at = rv_created_at rv, tv_editor_staff_member_id = rv_editor_staff_member_id rv,
              tv_editor_display_name = display_name editor,
              tv_reporting_staff_member_id = None, tv_reporting_officer_display_name = None,
              tv_prepared_by_staff_member_id = None, tv_preparer_display_name = None\<rparr>))"

definition current_report_view :: "report \<Rightarrow> 'w workspace_scheme \<Rightarrow> report_view result" where
  "current_report_view rp ws =
     (case find_report_revision (rp_id rp) (rp_current_revision_number rp) ws of
        None \<Rightarrow> Inl ReportNotFound
      | Some rv \<Rightarrow> report_revision_view rp rv None None ws)"

definition get_report :: "session_actor \<Rightarrow> uuid \<Rightarrow> 'w workspace_scheme \<Rightarrow> report_view result" where
  "get_report who rid ws =
     (case find_report rid ws of
        None \<Rightarrow> Inl ReportNotFound
      | Some rp \<Rightarrow> if report_access_live who rid ws then current_report_view rp ws else Inl ReportNotFound)"

definition get_report_admin :: "uuid \<Rightarrow> 'w workspace_scheme \<Rightarrow> report_view result" where
  "get_report_admin rid ws =
     (case find_report rid ws of None \<Rightarrow> Inl ReportNotFound | Some rp \<Rightarrow> current_report_view rp ws)"

definition report_revision_row :: "uuid \<Rightarrow> int \<Rightarrow> 'w workspace_scheme \<Rightarrow> report_revision result" where
  "report_revision_row rid n ws =
     (case find_report_revision rid n ws of None \<Rightarrow> Inl ReportRevisionNotFound | Some rv \<Rightarrow> Inr rv)"

definition get_report_revision ::
  "session_actor \<Rightarrow> uuid \<Rightarrow> int \<Rightarrow> 'w workspace_scheme \<Rightarrow> report_revision result" where
  "get_report_revision who rid n ws = bind_result (get_report who rid ws) (\<lambda>_. report_revision_row rid n ws)"

definition get_report_revision_admin :: "uuid \<Rightarrow> int \<Rightarrow> 'w workspace_scheme \<Rightarrow> report_revision result" where
  "get_report_revision_admin rid n ws =
     (if find_report rid ws = None then Inl ReportNotFound else report_revision_row rid n ws)"

definition report_revision_content :: "report_revision \<Rightarrow> dict result" where
  "report_revision_content rv = validate_report_content (JObj (rv_snapshot rv))"

section \<open>References\<close>

text \<open>An operation number of zero counts as none.\<close>

definition report_reference :: "report_view \<Rightarrow> int option \<Rightarrow> dict" where
  "report_reference view operation =
     [(''report_id'', JStr (uuid_str (rp_id (tv_report view)))),
      (''revision_number'', JInt (case operation of
         None \<Rightarrow> tv_revision_number view | Some n \<Rightarrow> if n = 0 then tv_revision_number view else n)),
      (''current_revision_number'', JInt (tv_revision_number view)),
      (''status'', JStr (tv_status view))]"

definition report_view_from_reference ::
  "session_actor \<Rightarrow> dict \<Rightarrow> 'w workspace_scheme \<Rightarrow> (report_view \<times> int) result" where
  "report_view_from_reference who ref ws =
     (case (reference_uuid ''report_id'' ref, reference_int ''revision_number'' ref,
            reference_int ''current_revision_number'' ref, reference_str ''status'' ref) of
        (Some rid, Some n, Some current, Some status) \<Rightarrow>
          bind_result (get_report who rid ws) (\<lambda>authorized.
            case find_report_revision rid n ws of
              None \<Rightarrow> Inl invalid_reference
            | Some rv \<Rightarrow> bind_result (report_revision_view (tv_report authorized) rv (Some status) (Some current) ws)
                (\<lambda>view. Inr (view, n)))
      | _ \<Rightarrow> Inl invalid_reference)"

text \<open>For an administrator the reference keeps the names of the moment of the operation.\<close>

definition report_reference_admin :: "iso_clock \<Rightarrow> report_view \<Rightarrow> 'w workspace_scheme \<Rightarrow> dict result" where
  "report_reference_admin K view ws =
     (case (find_staff (rp_reporting_staff_member_id (tv_report view)) (ident ws),
            find_staff (rp_prepared_by_staff_member_id (tv_report view)) (ident ws)) of
        (Some owner, Some preparer) \<Rightarrow>
          Inr (report_reference view None @
            [(''reporting_staff_member_id'', JStr (uuid_str (st_id owner))),
             (''reporting_officer_display_name'', JStr (display_name owner)),
             (''prepared_by_staff_member_id'', JStr (uuid_str (st_id preparer))),
             (''preparer_display_name'', JStr (display_name preparer)),
             (''editor_staff_member_id'', JStr (uuid_str (tv_editor_staff_member_id view))),
             (''editor_display_name'', JStr (tv_editor_display_name view)),
             (''updated_at'', JStr (isoformat K (tv_updated_at view)))])
      | _ \<Rightarrow> Inl (RuntimeError ''report ownership snapshot is unavailable''))"

definition report_view_from_reference_admin ::
  "iso_clock \<Rightarrow> dict \<Rightarrow> 'w workspace_scheme \<Rightarrow> report_view result" where
  "report_view_from_reference_admin K ref ws =
     (case (reference_uuid ''report_id'' ref, reference_int ''revision_number'' ref,
            reference_int ''current_revision_number'' ref, reference_str ''status'' ref) of
        (Some rid, Some n, Some current, Some status) \<Rightarrow>
          (case (reference_uuid ''reporting_staff_member_id'' ref, reference_str ''reporting_officer_display_name'' ref,
                 reference_uuid ''prepared_by_staff_member_id'' ref, reference_str ''preparer_display_name'' ref) of
             (Some owner, Some owner_name, Some preparer, Some preparer_name) \<Rightarrow>
               (case (reference_uuid ''editor_staff_member_id'' ref, reference_str ''editor_display_name'' ref,
                      reference_str ''updated_at'' ref) of
                  (Some editor, Some editor_name, Some written) \<Rightarrow>
                    (case fromisoformat K (replace_z written) of
                       None \<Rightarrow> Inl invalid_reference
                     | Some updated \<Rightarrow>
                         if strip owner_name = [] \<or> strip preparer_name = [] \<or> strip editor_name = []
                         then Inl invalid_reference
                         else case (find_report rid ws, find_report_revision rid n ws) of
                           (Some rp, Some rv) \<Rightarrow>
                             bind_result (report_revision_view rp rv (Some status) (Some current) ws) (\<lambda>view.
                               if tv_editor_staff_member_id view \<noteq> editor then Inl invalid_reference
                               else Inr (view\<lparr>tv_updated_at := updated, tv_editor_display_name := editor_name,
                                 tv_reporting_staff_member_id := Some owner,
                                 tv_reporting_officer_display_name := Some owner_name,
                                 tv_prepared_by_staff_member_id := Some preparer,
                                 tv_preparer_display_name := Some preparer_name\<rparr>))
                         | _ \<Rightarrow> Inl invalid_reference)
                | _ \<Rightarrow> Inl invalid_reference)
           | _ \<Rightarrow> Inl invalid_reference)
      | _ \<Rightarrow> Inl invalid_reference)"

section \<open>Writes of an officer\<close>

definition save_report_fields :: "field list" where
  "save_report_fields =
     (''content'', None, \<lambda>v. bind_result (validate_report_content v) (\<lambda>p. Inr (JObj p))) # save_request_fields"

definition SaveReportRequest :: "json \<Rightarrow> dict result" where
  "SaveReportRequest v =
     (case v of
        JObj kvs \<Rightarrow> if set (obj_keys kvs) \<subseteq> set (map fst save_report_fields)
          then fill_fields save_report_fields kvs else Inl ValidationError
      | _ \<Rightarrow> Inl ValidationError)"

text \<open>The view of the revision an operation has written, and the reference that is kept of it.\<close>

definition written_report ::
  "uuid \<Rightarrow> report_revision result \<times> 'w workspace_scheme \<Rightarrow> (report_view \<times> int \<times> json) result \<times> 'w workspace_scheme" where
  "written_report rid run =
     and_then run (\<lambda>rv ws.
       (case find_report rid ws of
          None \<Rightarrow> Inl ReportNotFound
        | Some rp \<Rightarrow> bind_result (report_revision_view rp rv None None ws) (\<lambda>view.
            Inr (view, 200, JObj (report_reference view None))), ws))"

text \<open>\<open>except RevisionTargetMissing\<close> around a revision operation.\<close>

definition missing_as :: "exn \<Rightarrow> 'a result \<times> 's \<Rightarrow> 'a result \<times> 's" where
  "missing_as e run = (case run of (Inl RevisionTargetMissing, s) \<Rightarrow> (Inl e, s) | _ \<Rightarrow> run)"

definition locked_report_write ::
  "session_actor \<Rightarrow> uuid \<Rightarrow> ('w workspace_scheme \<Rightarrow> 'v result \<times> 'w workspace_scheme)
   \<Rightarrow> 'w workspace_scheme \<Rightarrow> 'v result \<times> 'w workspace_scheme" where
  "locked_report_write who rid write ws =
     (case lock_authorized_report who rid ws of Inl e \<Rightarrow> (Inl e, ws) | Inr _ \<Rightarrow> write ws)"

definition replayed_report :: "session_actor \<Rightarrow> dict \<Rightarrow> 'w workspace_scheme \<Rightarrow> report_view result" where
  "replayed_report who ref ws = bind_result (report_view_from_reference who ref ws) (\<lambda>(view, _). Inr view)"

definition save_report_record ::
  "crypto \<Rightarrow> provenance_env \<Rightarrow> edit_call \<Rightarrow> session_actor \<Rightarrow> record_call \<Rightarrow> uuid \<Rightarrow> json \<Rightarrow> string
   \<Rightarrow> 'w workspace_scheme \<Rightarrow> report_view result \<times> 'w workspace_scheme" where
  "save_report_record C E ed who rc rid request key ws =
     (case SaveReportRequest request of
        Inl e \<Rightarrow> (Inl e, ws)
      | Inr validated \<Rightarrow>
          locked_report_write who rid
            (keyed_record C rc who key ''report.save'' (JObj ((''report_id'', JStr (uuid_str rid)) # validated))
              (replayed_report who)
              (\<lambda>ws. written_report rid (save_report E ed who rid (at_key ''content'' validated)
                (int_of (obj_get ''base_revision_number'' validated)) (str_of (obj_get ''reason'' validated)) ws))) ws)"

definition save_report_status_record ::
  "crypto \<Rightarrow> edit_call \<Rightarrow> session_actor \<Rightarrow> record_call \<Rightarrow> uuid \<Rightarrow> string \<Rightarrow> int \<Rightarrow> string
   \<Rightarrow> 'w workspace_scheme \<Rightarrow> report_view result \<times> 'w workspace_scheme" where
  "save_report_status_record C ed who rc rid status base key =
     locked_report_write who rid
       (keyed_record C rc who key ''report.status''
         (JObj [(''report_id'', JStr (uuid_str rid)), (''status'', JStr status), (''base_revision_number'', JInt base)])
         (replayed_report who) (\<lambda>ws. written_report rid (save_report_status ed who rid status base ws)))"

definition restore_report_record ::
  "crypto \<Rightarrow> edit_call \<Rightarrow> session_actor \<Rightarrow> record_call \<Rightarrow> uuid \<Rightarrow> int \<Rightarrow> string
   \<Rightarrow> 'w workspace_scheme \<Rightarrow> report_view result \<times> 'w workspace_scheme" where
  "restore_report_record C ed who rc rid n key =
     locked_report_write who rid
       (keyed_record C rc who key ''report.restore''
         (JObj [(''report_id'', JStr (uuid_str rid)), (''revision_number'', JInt n)])
         (replayed_report who)
         (\<lambda>ws. written_report rid (missing_as ReportRevisionNotFound (restore_report ed who rid n ws))))"

text \<open>A recovery shows its own content under the number and the status of the current revision.\<close>

definition recovery_body ::
  "edit_call \<Rightarrow> session_actor \<Rightarrow> uuid \<Rightarrow> json \<Rightarrow> int \<Rightarrow> report_view \<Rightarrow> 'w workspace_scheme
   \<Rightarrow> ((report_view \<times> int) \<times> int \<times> json) result \<times> 'w workspace_scheme" where
  "recovery_body ed who rid content base current ws =
     and_then (missing_as ReportRevisionNotFound (create_recovery_revision ed who rid content base ws)) (\<lambda>rv ws1.
       (bind_result (report_revision_view (tv_report current) rv (Some (tv_status current))
           (Some (tv_revision_number current)) ws1) (\<lambda>view.
          Inr ((view, rv_revision_number rv), 201, JObj (report_reference view (Some (rv_revision_number rv))))), ws1))"

definition create_report_recovery_record ::
  "crypto \<Rightarrow> edit_call \<Rightarrow> session_actor \<Rightarrow> record_call \<Rightarrow> uuid \<Rightarrow> json \<Rightarrow> int \<Rightarrow> string
   \<Rightarrow> 'w workspace_scheme \<Rightarrow> (report_view \<times> int) result \<times> 'w workspace_scheme" where
  "create_report_recovery_record C ed who rc rid content base key =
     locked_report_write who rid (\<lambda>ws.
       case bind_result (get_report who rid ws) (\<lambda>current.
           bind_result (validate_report_content content) (\<lambda>validated. Inr (current, validated))) of
         Inl e \<Rightarrow> (Inl e, ws)
       | Inr (current, validated) \<Rightarrow>
           keyed_record C rc who key ''report.recovery''
             (JObj [(''report_id'', JStr (uuid_str rid)), (''content'', JObj validated), (''base_revision_number'', JInt base)])
             (report_view_from_reference who) (recovery_body ed who rid (JObj validated) base current) ws)"

section \<open>Writes of an administrator\<close>

definition written_report_admin ::
  "iso_clock \<Rightarrow> uuid \<Rightarrow> report_revision result \<times> 'w workspace_scheme
   \<Rightarrow> (report_view \<times> int \<times> json) result \<times> 'w workspace_scheme" where
  "written_report_admin K rid run =
     and_then run (\<lambda>rv ws.
       (case find_report rid ws of
          None \<Rightarrow> Inl ReportNotFound
        | Some rp \<Rightarrow> bind_result (report_revision_view rp rv None None ws) (\<lambda>view.
            bind_result (report_reference_admin K view ws) (\<lambda>ref. Inr (view, 200, JObj ref))), ws))"

definition save_report_admin_record ::
  "crypto \<Rightarrow> iso_clock \<Rightarrow> provenance_env \<Rightarrow> edit_call \<Rightarrow> session_actor \<Rightarrow> record_call \<Rightarrow> uuid \<Rightarrow> json \<Rightarrow> string
   \<Rightarrow> 'w workspace_scheme \<Rightarrow> report_view result \<times> 'w workspace_scheme" where
  "save_report_admin_record C K E ed who rc rid request key ws =
     (case SaveReportRequest request of
        Inl e \<Rightarrow> (Inl e, ws)
      | Inr validated \<Rightarrow>
          keyed_record C rc who key ''report.admin_edit'' (JObj ((''report_id'', JStr (uuid_str rid)) # validated))
            (report_view_from_reference_admin K)
            (\<lambda>ws. written_report_admin K rid (missing_as ReportNotFound
              (save_report E ed who rid (at_key ''content'' validated)
                (int_of (obj_get ''base_revision_number'' validated)) ''admin_edit'' ws))) ws)"

definition restore_report_admin_record ::
  "crypto \<Rightarrow> iso_clock \<Rightarrow> edit_call \<Rightarrow> session_actor \<Rightarrow> record_call \<Rightarrow> uuid \<Rightarrow> int \<Rightarrow> string
   \<Rightarrow> 'w workspace_scheme \<Rightarrow> report_view result \<times> 'w workspace_scheme" where
  "restore_report_admin_record C K ed who rc rid n key =
     keyed_record C rc who key ''report.admin_restore''
       (JObj [(''report_id'', JStr (uuid_str rid)), (''revision_number'', JInt n)])
       (report_view_from_reference_admin K)
       (\<lambda>ws. written_report_admin K rid (missing_as ReportRevisionNotFound (restore_report ed who rid n ws)))"

definition transfer_report_ownership_record ::
  "crypto \<Rightarrow> iso_clock \<Rightarrow> edit_call \<Rightarrow> session_actor \<Rightarrow> record_call \<Rightarrow> uuid \<Rightarrow> uuid \<Rightarrow> uuid option \<Rightarrow> string \<Rightarrow> string
   \<Rightarrow> 'w workspace_scheme \<Rightarrow> report_view result \<times> 'w workspace_scheme" where
  "transfer_report_ownership_record C K ed who rc rid owner preparer reason key =
     keyed_record C rc who key ''report.transfer''
       (JObj [(''report_id'', JStr (uuid_str rid)), (''new_owner_staff_id'', JStr (uuid_str owner)),
          (''new_preparer_staff_id'', case preparer of None \<Rightarrow> JNull | Some p \<Rightarrow> JStr (uuid_str p)),
          (''reason'', JStr reason)])
       (report_view_from_reference_admin K)
       (\<lambda>ws. written_report_admin K rid (missing_as ReportNotFound (transfer_report_ownership ed who rid owner preparer ws)))"

section \<open>Listings\<close>

record report_filter =
  rf_status :: "string option"
  rf_incident_date_from :: "string option"
  rf_incident_date_to :: "string option"
  rf_category :: "string option"
  rf_updated_at_from :: "time option"
  rf_updated_at_to :: "time option"

record report_summary =
  sm_report :: report
  sm_incident :: incident
  sm_reporting_officer_display_name :: string
  sm_preparer_display_name :: string
  sm_relationship :: string

text \<open>
  A comparison with a column that is null holds for no row. Dates are compared by their ISO text.
\<close>

definition column_text :: "string \<Rightarrow> incident \<Rightarrow> string option" where
  "column_text k inc = (case obj_get k (in_content inc) of Some (JStr s) \<Rightarrow> Some s | _ \<Rightarrow> None)"

definition column_test :: "('a \<Rightarrow> 'a \<Rightarrow> bool) \<Rightarrow> 'a option \<Rightarrow> 'a option \<Rightarrow> bool" where
  "column_test test wanted column \<longleftrightarrow>
     (case wanted of None \<Rightarrow> True | Some w \<Rightarrow> (case column of None \<Rightarrow> False | Some c \<Rightarrow> test c w))"

definition report_selected :: "report_filter \<Rightarrow> report \<Rightarrow> incident \<Rightarrow> bool" where
  "report_selected f rp inc \<longleftrightarrow>
     column_test (=) (rf_status f) (Some (report_status_text (rp_status rp)))
     \<and> column_test (\<ge>) (rf_incident_date_from f) (column_text ''incident_date'' inc)
     \<and> column_test (\<le>) (rf_incident_date_to f) (column_text ''incident_date'' inc)
     \<and> column_test (=) (rf_category f) (column_text ''category'' inc)
     \<and> column_test (\<ge>) (rf_updated_at_from f) (Some (rp_updated_at rp))
     \<and> column_test (\<le>) (rf_updated_at_to f) (Some (rp_updated_at rp))"

text \<open>The joins: one row for every live access row of the relationship, with its incident and staff.\<close>

definition joined_reports ::
  "session_actor \<Rightarrow> relationship \<Rightarrow> report_filter \<Rightarrow> string \<Rightarrow> 'w workspace_scheme \<Rightarrow> report_summary list" where
  "joined_reports who rel f name ws =
     concat (map (\<lambda>rp.
       case (find_incident (rp_incident_id rp) ws, find_staff (rp_reporting_staff_member_id rp) (ident ws),
             find_staff (rp_prepared_by_staff_member_id rp) (ident ws)) of
         (Some inc, Some owner, Some preparer) \<Rightarrow>
           if report_selected f rp inc
           then map (\<lambda>_. \<lparr>sm_report = rp, sm_incident = inc, sm_reporting_officer_display_name = display_name owner,
                sm_preparer_display_name = display_name preparer, sm_relationship = name\<rparr>)
              (filter (\<lambda>a. ra_report_id a = rp_id rp \<and> ra_staff_member_id a = staff_member_id who
                 \<and> ra_relationship a = rel \<and> ra_revoked_at a = None) (report_access ws))
           else []
       | _ \<Rightarrow> []) (reports ws))"

definition summary_key :: "report_summary \<Rightarrow> time \<times> uuid" where
  "summary_key s = (rp_updated_at (sm_report s), rp_id (sm_report s))"

definition list_reports ::
  "iso_clock \<Rightarrow> session_actor \<Rightarrow> string \<Rightarrow> report_filter \<Rightarrow> nat \<Rightarrow> cursor option \<Rightarrow> 'w workspace_scheme
   \<Rightarrow> (report_summary list \<times> cursor option) result" where
  "list_reports K who relationship f limit cursor ws =
     (if relationship \<notin> {''owned'', ''prepared''} then Inl (ValueError ''relationship is invalid'')
      else bind_result (read_cursor (read_time_id K ''created_at'') cursor) (\<lambda>c.
        Inr (keyed_page True summary_key (\<lambda>s. time_id_cursor K ''created_at'' (summary_key s)) id limit c
          (joined_reports who (if relationship = ''owned'' then Owner else Preparer) f relationship ws))))"

definition list_report_revisions ::
  "iso_clock \<Rightarrow> session_actor \<Rightarrow> uuid \<Rightarrow> nat \<Rightarrow> cursor option \<Rightarrow> 'w workspace_scheme
   \<Rightarrow> (report_revision list \<times> cursor option) result" where
  "list_report_revisions K who rid limit cursor ws =
     bind_result (get_report who rid ws) (\<lambda>_.
       list_revision_rows K rv_id rv_created_at rv_revision_number limit cursor
         (filter (\<lambda>r. rv_report_id r = rid) (report_revisions ws)))"

definition list_report_revisions_admin ::
  "iso_clock \<Rightarrow> uuid \<Rightarrow> nat \<Rightarrow> cursor option \<Rightarrow> 'w workspace_scheme
   \<Rightarrow> (report_revision list \<times> cursor option) result" where
  "list_report_revisions_admin K rid limit cursor ws =
     (if find_report rid ws = None then Inl ReportNotFound
      else list_revision_rows K rv_id rv_created_at rv_revision_number limit cursor
        (filter (\<lambda>r. rv_report_id r = rid) (report_revisions ws)))"

section \<open>The search of an administrator\<close>

record admin_report_filters =
  af_report_id :: "uuid option"
  af_incident_id :: "uuid option"
  af_reporting_staff_id :: "uuid option"
  af_preparer_staff_id :: "uuid option"
  af_incident_date_from :: "string option"
  af_incident_date_to :: "string option"
  af_created_at_from :: "time option"
  af_created_at_to :: "time option"
  af_inmate_first_name :: "string option"
  af_inmate_middle_name :: "string option"
  af_inmate_last_name :: "string option"
  af_inmate_adc_number :: "string option"
  af_category :: "string option"
  af_facility :: "string option"
  af_location :: "string option"
  af_shift :: "string option"
  af_status :: "string option"
  af_last_editor_staff_id :: "uuid option"
  af_modified_at_from :: "time option"
  af_modified_at_to :: "time option"

text \<open>The filters that were given, by the names of the fields.\<close>

definition provided_filters :: "admin_report_filters \<Rightarrow> string list" where
  "provided_filters f = sort (map fst (filter snd
     [(''report_id'', af_report_id f \<noteq> None), (''incident_id'', af_incident_id f \<noteq> None),
      (''reporting_staff_id'', af_reporting_staff_id f \<noteq> None), (''preparer_staff_id'', af_preparer_staff_id f \<noteq> None),
      (''incident_date_from'', af_incident_date_from f \<noteq> None), (''incident_date_to'', af_incident_date_to f \<noteq> None),
      (''created_at_from'', af_created_at_from f \<noteq> None), (''created_at_to'', af_created_at_to f \<noteq> None),
      (''inmate_first_name'', af_inmate_first_name f \<noteq> None), (''inmate_middle_name'', af_inmate_middle_name f \<noteq> None),
      (''inmate_last_name'', af_inmate_last_name f \<noteq> None), (''inmate_adc_number'', af_inmate_adc_number f \<noteq> None),
      (''category'', af_category f \<noteq> None), (''facility'', af_facility f \<noteq> None), (''location'', af_location f \<noteq> None),
      (''shift'', af_shift f \<noteq> None), (''status'', af_status f \<noteq> None),
      (''last_editor_staff_id'', af_last_editor_staff_id f \<noteq> None),
      (''modified_at_from'', af_modified_at_from f \<noteq> None), (''modified_at_to'', af_modified_at_to f \<noteq> None)]))"

definition inmate_person :: "admin_report_filters \<Rightarrow> (string \<times> string) list" where
  "inmate_person f = (''role'', ''inmate'') #
     concat (map (\<lambda>(k, v). case v of None \<Rightarrow> [] | Some t \<Rightarrow> [(k, t)])
       [(''first'', af_inmate_first_name f), (''middle'', af_inmate_middle_name f),
        (''last'', af_inmate_last_name f), (''adc_number'', af_inmate_adc_number f)])"

text \<open>The containment \<open>extracted_facts @> {"persons": [person]}\<close>: one person has all the attributes.\<close>

definition has_person :: "(string \<times> string) list \<Rightarrow> incident \<Rightarrow> bool" where
  "has_person person inc \<longleftrightarrow>
     (case at_key ''extracted_facts'' (in_content inc) of
        JObj facts \<Rightarrow>
          (case at_key ''persons'' facts of
             JArr persons \<Rightarrow> list_ex (\<lambda>p. case p of
                 JObj kvs \<Rightarrow> list_all (\<lambda>(k, t). obj_get k kvs = Some (JStr t)) person | _ \<Rightarrow> False) persons
           | _ \<Rightarrow> False)
      | _ \<Rightarrow> False)"

definition admin_selected :: "admin_report_filters \<Rightarrow> report \<Rightarrow> incident \<Rightarrow> report_revision \<Rightarrow> bool" where
  "admin_selected f rp inc rv \<longleftrightarrow>
     column_test (=) (af_report_id f) (Some (rp_id rp)) \<and> column_test (=) (af_incident_id f) (Some (rp_incident_id rp))
     \<and> column_test (=) (af_reporting_staff_id f) (Some (rp_reporting_staff_member_id rp))
     \<and> column_test (=) (af_preparer_staff_id f) (Some (rp_prepared_by_staff_member_id rp))
     \<and> column_test (\<ge>) (af_incident_date_from f) (column_text ''incident_date'' inc)
     \<and> column_test (\<le>) (af_incident_date_to f) (column_text ''incident_date'' inc)
     \<and> column_test (\<ge>) (af_created_at_from f) (Some (rp_created_at rp))
     \<and> column_test (\<le>) (af_created_at_to f) (Some (rp_created_at rp))
     \<and> column_test (=) (af_category f) (column_text ''category'' inc)
     \<and> column_test (=) (af_facility f) (column_text ''facility'' inc)
     \<and> column_test (=) (af_location f) (column_text ''location'' inc)
     \<and> column_test (=) (af_shift f) (column_text ''shift'' inc)
     \<and> column_test (=) (af_status f) (Some (report_status_text (rp_status rp)))
     \<and> column_test (=) (af_last_editor_staff_id f) (Some (rv_editor_staff_member_id rv))
     \<and> column_test (\<ge>) (af_modified_at_from f) (Some (rp_updated_at rp))
     \<and> column_test (\<le>) (af_modified_at_to f) (Some (rp_updated_at rp))
     \<and> (length (inmate_person f) \<le> 1 \<or> has_person (inmate_person f) inc)"

definition ADMIN_REPORT_SEARCH_SORTS :: "(string \<times> bool) list" where
  "ADMIN_REPORT_SEARCH_SORTS = [(''updated_at_desc'', True), (''updated_at_asc'', False),
     (''created_at_desc'', True), (''created_at_asc'', False)]"

definition found_reports ::
  "admin_report_filters \<Rightarrow> 'w workspace_scheme \<Rightarrow> (report \<times> incident \<times> report_revision) list" where
  "found_reports f ws =
     concat (map (\<lambda>rp.
       case (find_incident (rp_incident_id rp) ws, find_report_revision (rp_id rp) (rp_current_revision_number rp) ws) of
         (Some inc, Some rv) \<Rightarrow> if admin_selected f rp inc rv then [(rp, inc, rv)] else []
       | _ \<Rightarrow> []) (reports ws))"

definition search_key :: "string \<Rightarrow> report \<times> incident \<times> report_revision \<Rightarrow> time \<times> uuid" where
  "search_key order_name row =
     (if take 10 order_name = ''updated_at'' then rp_updated_at (fst row) else rp_created_at (fst row), rp_id (fst row))"

fun inmate_number :: "json \<Rightarrow> string list" where
  "inmate_number (JObj kvs) =
     (case (obj_get ''role'' kvs, obj_get ''adc_number'' kvs) of
        (Some (JStr role), Some (JStr adc)) \<Rightarrow> if role = ''inmate'' \<and> adc \<noteq> [] then [adc] else []
      | _ \<Rightarrow> [])"
| "inmate_number _ = []"

text \<open>The numbers in the order of their first occurrence.\<close>

definition inmate_adc_numbers :: "json \<Rightarrow> string list" where
  "inmate_adc_numbers facts =
     (case facts of
        JObj kvs \<Rightarrow> (case at_key ''persons'' kvs of
            JArr persons \<Rightarrow> rev (remdups (rev (concat (map inmate_number persons)))) | _ \<Rightarrow> [])
      | _ \<Rightarrow> [])"

record search_item =
  si_report :: report
  si_incident :: incident
  si_last_editor_staff_member_id :: uuid
  si_inmate_adc_numbers :: "string list"

definition search_item_of :: "report \<times> incident \<times> report_revision \<Rightarrow> search_item" where
  "search_item_of row = (case row of (rp, inc, rv) \<Rightarrow>
     \<lparr>si_report = rp, si_incident = inc, si_last_editor_staff_member_id = rv_editor_staff_member_id rv,
      si_inmate_adc_numbers = inmate_adc_numbers (at_key ''extracted_facts'' (in_content inc))\<rparr>)"

definition search_event :: "session_actor \<Rightarrow> record_call \<Rightarrow> dict \<Rightarrow> audit_event" where
  "search_event who rc kvs =
     (AuditEventInput (Some (account_id who)) (Some (staff_member_id who)) ''admin.report_search'' Success
       (rc_request_id rc) ''report'' None kvs)\<lparr>client_version := Some (rc_client_version rc)\<rparr>"

definition admin_search_reports ::
  "iso_clock \<Rightarrow> session_actor \<Rightarrow> record_call \<Rightarrow> admin_report_filters \<Rightarrow> nat \<Rightarrow> cursor option \<Rightarrow> string
   \<Rightarrow> 'w workspace_scheme \<Rightarrow> (search_item list \<times> cursor option) result \<times> 'w workspace_scheme" where
  "admin_search_reports K who rc f limit cursor order_name ws =
     (case map_of ADMIN_REPORT_SEARCH_SORTS order_name of
        None \<Rightarrow> (Inl (ValueError ''sort is invalid''), ws)
      | Some descending \<Rightarrow>
          (case read_cursor (read_time_id K ''created_at'') cursor of
             Inl e \<Rightarrow> (Inl e, ws)
           | Inr c \<Rightarrow>
               let (page, follow) = keyed_page descending (search_key order_name)
                     (\<lambda>row. time_id_cursor K ''created_at'' (search_key order_name row)) search_item_of limit c (found_reports f ws)
               in and_then (in_ident (append_audit (search_event who rc
                      [(''filters'', JArr (map JStr (provided_filters f))), (''result_count'', JInt (int (length page)))])) ws)
                    (\<lambda>_ ws1. (Inr (page, follow), ws1))))"

end
