(* ===== verification/ReportRecordRules.thy ===== *)
theory ReportRecordRules
  imports ReportRecords
begin

text \<open>
  What the report records guarantee: only the owner and the preparer of a report read and write
  it, a repeated save is answered with what it wrote, and the pages of a listing show every report
  of the reader once.
\<close>

section \<open>Access\<close>

lemma live_iff:
  "report_access_live who rid ws \<longleftrightarrow> staff_member_id who \<in> fst ` live_access rid (report_access ws)"
  by (auto simp: report_access_live_def list_ex_iff live_access_def image_iff)

lemma access_iff:
  assumes "access_wf ws" "find_report rid ws = Some rp"
  shows "report_access_live who rid ws \<longleftrightarrow>
    staff_member_id who \<in> {rp_reporting_staff_member_id rp, rp_prepared_by_staff_member_id rp}"
proof -
  have "rp \<in> set (reports ws)" "rp_id rp = rid" using find_row_SomeD [OF assms(2)] by auto
  then have "live_access rid (report_access ws)
      = entitled (rp_reporting_staff_member_id rp) (rp_prepared_by_staff_member_id rp)"
    using assms(1) by (auto simp: access_wf_def)
  then show ?thesis by (auto simp: live_iff entitled_def)
qed

text \<open>
  C24. A report is closed to everyone but its owner and its preparer, whatever their role: after
  any history of saves, restores and transfers, a member of staff who is neither gets the answer
  of a report that does not exist from every officer's operation, reading and writing, and the
  writes change nothing; who is one of the two can lock it for a write.
\<close>

theorem report_closed_to_others:
  assumes "access_wf ws" "report_step\<^sup>*\<^sup>* ws ws1" "find_report rid ws1 = Some rp"
  shows "if staff_member_id who \<in> {rp_reporting_staff_member_id rp, rp_prepared_by_staff_member_id rp}
    then lock_authorized_report who rid ws1 = Inr rp
    else get_report who rid ws1 = Inl ReportNotFound
      \<and> list_report_revisions K who rid limit cursor ws1 = Inl ReportNotFound
      \<and> get_report_revision who rid n ws1 = Inl ReportNotFound
      \<and> save_report_record C E ed who rc rid request key ws1
          = (Inl (case SaveReportRequest request of Inl e \<Rightarrow> e | Inr _ \<Rightarrow> ReportNotFound), ws1)
      \<and> save_report_status_record C ed who rc rid status base key ws1 = (Inl ReportNotFound, ws1)
      \<and> restore_report_record C ed who rc rid n key ws1 = (Inl ReportNotFound, ws1)
      \<and> create_report_recovery_record C ed who rc rid content base key ws1 = (Inl ReportNotFound, ws1)"
proof -
  have "access_wf ws1" using assms(2,1) by (induction rule: rtranclp_induct) (auto intro: access_wf_step)
  note live = access_iff [OF this assms(3), of who]
  show ?thesis
  proof (cases "staff_member_id who \<in> {rp_reporting_staff_member_id rp, rp_prepared_by_staff_member_id rp}")
    case True
    then show ?thesis using live assms(3) by (simp add: lock_authorized_report_def)
  next
    case False
    then have "lock_authorized_report who rid ws1 = Inl ReportNotFound" "get_report who rid ws1 = Inl ReportNotFound"
      using live assms(3) by (simp_all add: lock_authorized_report_def get_report_def)
    with False show ?thesis
      by (auto simp: list_report_revisions_def get_report_revision_def save_report_record_def save_report_status_record_def
          restore_report_record_def create_report_recovery_record_def locked_report_write_def split: sum.splits)
  qed
qed

section \<open>Repeating a save\<close>

lemma written_report_Inr:
  assumes "written_report rid run = (Inr (view, status, ref), ws')"
  obtains rv rp where "run = (Inr rv, ws')" "find_report rid ws' = Some rp"
    "report_revision_view rp rv None None ws' = Inr view" "ref = JObj (report_reference view None)"
  using assms by (auto simp: written_report_def and_then_eq_Inr split: option.splits intro!: that)

lemma save_report_records:
  "save_report E ed who rid content base reason ws = (Inr rv, ws') \<Longrightarrow>
   idempotency_records (ident ws') = idempotency_records (ident ws)"
  by (elim save_report_Inr) simp

interpretation report_saves: keyed_write "\<lambda>ws. written_report rid (save_report E ed who rid content base reason ws)"
  by unfold_locales (auto elim!: written_report_Inr dest: save_report_records)

lemma save_report_row:
  assumes "save_report E ed who rid content base reason ws = (Inr rv, ws')"
  shows "find_report_revision rid (rv_revision_number rv) ws' = Some rv \<and> rv_report_id rv = rid
    \<and> rv_editor_staff_member_id rv = staff_member_id who"
  using assms
proof (rule save_report_Inr, goal_cases)
  case (1 rp payload changed prov cols ev)
  have "rv_revision_number r < rv_revision_number rv" if "r \<in> set (report_revisions ws)" "rv_report_id r = rid" for r
    using that next_number_greater [of "rv_revision_number r" "numbers_of rid (report_revisions ws)"]
    by (simp add: 1(7) numbers_of_def)
  then have "find_row (\<lambda>r. (rv_report_id r, rv_revision_number r)) (rid, rv_revision_number rv) (report_revisions ws) = None"
    by (force simp: find_row_None_iff)
  then show ?case by (simp add: 1(8) find_row_append 1(7))
qed

lemma report_view_Inr:
  assumes "report_revision_view rp rv status current ws = Inr view"
  obtains editor content where "find_staff (rv_editor_staff_member_id rv) (ident ws) = Some editor"
    "validate_report_content (JObj (rv_snapshot rv)) = Inr content"
    "view = \<lparr>tv_report = rp, tv_content = content,
              tv_revision_number = (case current of None \<Rightarrow> rv_revision_number rv | Some n \<Rightarrow> n),
              tv_status = or_default status (report_status_text (rp_status rp)),
              tv_updated_at = rv_created_at rv, tv_editor_staff_member_id = rv_editor_staff_member_id rv,
              tv_editor_display_name = display_name editor,
              tv_reporting_staff_member_id = None, tv_reporting_officer_display_name = None,
              tv_prepared_by_staff_member_id = None, tv_preparer_display_name = None\<rparr>"
  using assms by (auto simp: report_revision_view_def split: option.splits intro!: that)

lemma get_report_found:
  "get_report who rid ws = Inr view \<Longrightarrow> find_report rid ws = Some (tv_report view) \<and> report_access_live who rid ws"
  by (auto simp: get_report_def current_report_view_def split: option.splits if_splits elim!: report_view_Inr)

text \<open>
  C25. A save of a report can be repeated safely. When a client that lost the answer repeats the
  request under the same key within a day, it gets what the save wrote - the same content, number,
  status and time - and nothing is written a second time, even if the report has been edited,
  restored or transferred since, as long as the client may still read it. The view names the row
  of the report as it is now.
\<close>

theorem report_save_repeated:
  assumes run: "save_report_record C E ed who rc rid request key ws = (Inr view, ws1)"
    and new: "find_record (account_id who, ''report.save'', key) (ident ws) = None" "records_wf (ident ws)"
      "rc_claim_id rc \<notin> id_id ` set (idempotency_records (ident ws))"
    and later: "report_revisions ws2 = report_revisions ws1 @ added"
      "find_record (account_id who, ''report.save'', key) (ident ws2) = find_record (account_id who, ''report.save'', key) (ident ws1)"
      "find_staff (staff_member_id who) (ident ws2) = find_staff (staff_member_id who) (ident ws)"
    and access: "get_report who rid ws2 = Inr present"
    and soon: "rc_now rc' < rc_now rc + hours 24"
  shows "save_report_record C E' ed' who rc' rid request key ws2 = (Inr (view\<lparr>tv_report := tv_report present\<rparr>), ws2)"
proof -
  from run obtain validated where v: "SaveReportRequest request = Inr validated"
    by (auto simp: save_report_record_def split: sum.splits)
  let ?canon = "JObj ((''report_id'', JStr (uuid_str rid)) # validated)"
  let ?op = "\<lambda>E ed ws. written_report rid (save_report E ed who rid (at_key ''content'' validated)
                (int_of (obj_get ''base_revision_number'' validated)) (str_of (obj_get ''reason'' validated)) ws)"
  from run v have "keyed_record C rc who key ''report.save'' ?canon (replayed_report who) (?op E ed) ws = (Inr view, ws1)"
    by (auto simp: save_report_record_def locked_report_write_def split: sum.splits)
  from report_saves.replay_answers [OF this new soon, of "replayed_report who" "?op E' ed'"]
  obtain kvs status wa wb where op: "?op E ed wa = (Inr (view, status, JObj kvs), wb)"
    and wa: "staff_members (ident wa) = staff_members (ident ws)"
    and ws1: "ws1 = wb\<lparr>ident := ident ws1\<rparr>"
    and again: "keyed_record C rc' who key ''report.save'' ?canon (replayed_report who) (?op E' ed') ws2
      = (replayed_report who kvs ws2, ws2)"
    using later(2) by blast
  from op obtain rv rp where w: "save_report E ed who rid (at_key ''content'' validated)
        (int_of (obj_get ''base_revision_number'' validated)) (str_of (obj_get ''reason'' validated)) wa = (Inr rv, wb)"
      "find_report rid wb = Some rp" "report_revision_view rp rv None None wb = Inr view" "kvs = report_reference view None"
    by (auto elim!: written_report_Inr)
  note row = save_report_row [OF w(1)]
  have "report_revisions ws1 = report_revisions wb" using ws1 by (metis workspace.select_convs(6) workspace.surjective workspace.update_convs(1))
  with row later(1) have kept: "find_report_revision rid (rv_revision_number rv) ws2 = Some rv"
    by (simp add: find_row_append)
  have found: "find_report rid ws2 = Some (tv_report present)" "report_access_live who rid ws2"
    using get_report_found [OF access] by auto
  have "rp_id rp = rid" using find_row_SomeD [OF w(2)] by simp
  from w(3) have "report_view_from_reference who kvs ws2
      = Inr (view\<lparr>tv_report := tv_report present\<rparr>, rv_revision_number rv)"
  proof (rule report_view_Inr, goal_cases)
    case (1 editor content)
    have "status_text \<noteq> []" if "status_text = report_status_text st" for status_text st
      using that by (cases st) simp_all
    then have names: "or_default (Some (report_status_text (rp_status rp))) t = report_status_text (rp_status rp)" for t
      by (auto simp: or_default_def)
    have staff: "find_staff (staff_member_id who) (ident ws2) = Some editor"
      using 1(1) row later(3) wa w(1) by (auto elim!: save_report_Inr)
    show ?case
      using 1 row \<open>rp_id rp = rid\<close> kept access staff names
      by (simp add: w(4) report_view_from_reference_def report_reference_def reference_uuid_def reference_int_def
          reference_str_def obj_get_def report_revision_view_def or_default_def del: bind_result_eq_Inr)
  qed
  with again found v show ?thesis
    by (simp add: save_report_record_def locked_report_write_def lock_authorized_report_def replayed_report_def
        del: bind_result_eq_Inr)
qed

section \<open>The listing of a reader\<close>

text \<open>The reports a member of staff owns, or has prepared for somebody else.\<close>

definition listed_for :: "session_actor \<Rightarrow> string \<Rightarrow> report \<Rightarrow> bool" where
  "listed_for who relationship rp \<longleftrightarrow>
     (if relationship = ''owned'' then rp_reporting_staff_member_id rp = staff_member_id who
      else rp_prepared_by_staff_member_id rp = staff_member_id who
        \<and> rp_reporting_staff_member_id rp \<noteq> staff_member_id who)"

definition shown_report :: "session_actor \<Rightarrow> string \<Rightarrow> report_filter \<Rightarrow> 'w workspace_scheme \<Rightarrow> report \<Rightarrow> bool" where
  "shown_report who relationship f ws rp \<longleftrightarrow>
     listed_for who relationship rp
     \<and> (\<exists>inc. find_incident (rp_incident_id rp) ws = Some inc \<and> report_selected f rp inc)
     \<and> find_staff (rp_reporting_staff_member_id rp) (ident ws) \<noteq> None
     \<and> find_staff (rp_prepared_by_staff_member_id rp) (ident ws) \<noteq> None"

lemma one_row:
  assumes "distinct (map key rows)" "\<And>x. p x \<Longrightarrow> key x = k"
  shows "length (filter p rows) = (if \<exists>x \<in> set rows. p x then 1 else 0)"
  using assms
proof (induction rows)
  case (Cons x rows)
  show ?case
  proof (cases "p x")
    case True
    then have "\<not> p y" if "y \<in> set rows" for y using Cons.prems that by force
    then have "filter p rows = []" by (simp add: filter_empty_conv)
    with True show ?thesis by simp
  qed (use Cons in auto)
qed simp

lemma joined_rows:
  assumes wf: "access_wf ws" and rel: "relationship \<in> {''owned'', ''prepared''}"
  shows "map sm_report (joined_reports who (if relationship = ''owned'' then Owner else Preparer) f relationship ws)
    = filter (shown_report who relationship f ws) (reports ws)"
proof -
  let ?rel = "if relationship = ''owned'' then Owner else Preparer"
  let ?p = "\<lambda>rp a. ra_report_id a = rp_id rp \<and> ra_staff_member_id a = staff_member_id who
    \<and> ra_relationship a = ?rel \<and> ra_revoked_at a = None"
  have rows: "length (filter (?p rp) (report_access ws)) = (if listed_for who relationship rp then 1 else 0)"
    if "rp \<in> set (reports ws)" for rp
  proof -
    have live: "live_access (rp_id rp) (report_access ws)
        = entitled (rp_reporting_staff_member_id rp) (rp_prepared_by_staff_member_id rp)"
      using wf that by (simp add: access_wf_def)
    have "((staff_member_id who, ?rel) \<in> live_access (rp_id rp) (report_access ws)) = listed_for who relationship rp"
      unfolding live entitled_def listed_for_def by (cases "relationship = ''owned''") auto
    moreover have "((staff_member_id who, ?rel) \<in> live_access (rp_id rp) (report_access ws)) = (\<exists>a \<in> set (report_access ws). ?p rp a)"
      by (auto simp: live_access_def image_iff)
    moreover have "distinct (map access_key (report_access ws))" using wf by (simp add: access_wf_def)
    ultimately show ?thesis
      using one_row [of access_key "report_access ws" "?p rp" "(rp_id rp, staff_member_id who)"] by simp
  qed
  have const: "map (\<lambda>_. c) xs = replicate (length xs) c" for c :: report and xs :: "report_access_row list"
    by (simp add: map_replicate_const)
  have "concat (map (map sm_report \<circ> (\<lambda>rp.
       case (find_incident (rp_incident_id rp) ws, find_staff (rp_reporting_staff_member_id rp) (ident ws),
             find_staff (rp_prepared_by_staff_member_id rp) (ident ws)) of
         (Some inc, Some owner, Some preparer) \<Rightarrow>
           if report_selected f rp inc
           then map (\<lambda>_. \<lparr>sm_report = rp, sm_incident = inc, sm_reporting_officer_display_name = display_name owner,
                sm_preparer_display_name = display_name preparer, sm_relationship = relationship\<rparr>)
              (filter (?p rp) (report_access ws))
           else []
       | _ \<Rightarrow> [])) rps) = filter (shown_report who relationship f ws) rps" if "set rps \<subseteq> set (reports ws)" for rps
    using that
  proof (induction rps)
    case (Cons rp rps)
    then have "rp \<in> set (reports ws)" by simp
    with Cons rows [of rp] show ?case
      by (auto simp: shown_report_def comp_def const split: option.splits if_splits)
  qed simp
  from this [of "reports ws"] show ?thesis by (simp add: joined_reports_def map_concat)
qed

text \<open>
  C26. A reader sees exactly his reports. Following the cursors of the listing from the first page,
  with any page size, gives every report that the reader owns (or has prepared for somebody else)
  and that the filter selects, each exactly once, the latest change first.
\<close>

theorem report_listing_complete:
  assumes "iso_ok K" "access_wf ws" "report_step\<^sup>*\<^sup>* ws ws1" "1 \<le> limit" "length (reports ws1) < fuel"
    and rel: "relationship \<in> {''owned'', ''prepared''}"
  shows "\<exists>rows. read_pages fuel (\<lambda>cursor. list_reports K who relationship f limit cursor ws1) None = Inr rows
    \<and> distinct (map sm_report rows)
    \<and> set (map sm_report rows) = {rp \<in> set (reports ws1). shown_report who relationship f ws1 rp}
    \<and> sorted_wrt (\<lambda>s t. summary_key t < summary_key s) rows"
proof -
  let ?rows = "joined_reports who (if relationship = ''owned'' then Owner else Preparer) f relationship ws1"
  have wf: "access_wf ws1" using assms(3,2) by (induction rule: rtranclp_induct) (auto intro: access_wf_step)
  note map = joined_rows [OF wf rel, of who f]
  have ids: "distinct (map rp_id (reports ws1))" using wf by (simp add: access_wf_def)
  then have "distinct (map rp_id (map sm_report ?rows))" unfolding map by (rule distinct_map_filter)
  then have keys: "distinct (map summary_key ?rows)"
    by (auto simp: distinct_map inj_on_def summary_key_def)
  have "length ?rows = length (filter (shown_report who relationship f ws1) (reports ws1))"
    using arg_cong [OF map, of length] by simp
  then have len: "length ?rows < fuel" by (simp add: le_less_trans [OF length_filter_le assms(5)])
  have "read_pages fuel (\<lambda>cursor. list_reports K who relationship f limit cursor ws1) None
      = Inr (map id (in_order True summary_key ?rows))"
  proof (rule keyed_pages_complete [OF assms(4) keys len])
    show "list_reports K who relationship f limit c ws1 = bind_result (read_cursor (read_time_id K ''created_at'') c)
       (\<lambda>k. Inr (keyed_page True summary_key (\<lambda>s. time_id_cursor K ''created_at'' (summary_key s)) id limit k ?rows))" for c
      using rel by (auto simp: list_reports_def)
  qed (use assms(1) time_id_read in simp_all)
  moreover have "sorted_wrt (\<lambda>s t. summary_key t < summary_key s) (in_order True summary_key ?rows)"
    using sorted_listing [OF keys, of True] by (simp add: follows_def [abs_def])
  moreover have "distinct (map sm_report ?rows)" unfolding map using ids by (simp add: distinct_map)
  then have "distinct (map sm_report (in_order True summary_key ?rows))" by (simp add: in_order_def distinct_map)
  moreover have "set (map sm_report (in_order True summary_key ?rows))
      = {rp \<in> set (reports ws1). shown_report who relationship f ws1 rp}"
    using arg_cong [OF map, of set] by (simp add: in_order_same)
  ultimately show ?thesis by auto
qed

section \<open>The example\<close>

definition stranger :: session_actor where
  "stranger = officer\<lparr>account_id := 8, staff_member_id := 7\<rparr>"

lemma report_closed_to_others_witness:
  "get_report stranger 10 example_workspace = Inl ReportNotFound
   \<and> save_report_status_record short_crypto example_call stranger example_rc 10 ''final'' 1 ''key-0001'' example_workspace
      = (Inl ReportNotFound, example_workspace)
   \<and> lock_authorized_report officer 10 example_workspace = Inr example_report"
proof -
  have "staff_member_id stranger \<notin> {rp_reporting_staff_member_id example_report, rp_prepared_by_staff_member_id example_report}"
    "staff_member_id officer \<in> {rp_reporting_staff_member_id example_report, rp_prepared_by_staff_member_id example_report}"
    by (simp_all add: stranger_def officer_def example_report_def)
  with report_closed_to_others [OF example_access_wf rtranclp.rtrancl_refl example_found, of stranger number_clock 5 None 1
      short_crypto example_env example_call example_rc "JObj []" "''key-0001''" "''final''" 1 "JObj []"]
    report_closed_to_others [OF example_access_wf rtranclp.rtrancl_refl example_found, of officer]
  show ?thesis by simp
qed

definition saved_reference :: dict where
  "saved_reference = [(''report_id'', JStr (uuid_str 10)), (''revision_number'', JInt 2),
     (''current_revision_number'', JInt 2), (''status'', JStr ''in_progress'')]"

lemma example_report_save:
  assumes ws: "ws = example_workspace\<lparr>ident := (ident example_workspace)\<lparr>idempotency_records := rec\<rparr>\<rparr>"
  obtains view ws2 where
    "written_report 10 (save_report example_env example_call officer 10 (JObj example_payload) 1 ''autosave'' ws)
       = (Inr (view, 200, JObj saved_reference), ws2)"
    "idempotency_records (ident ws2) = rec" "get_report officer 10 ws2 = Inr view"
proof -
  have wf: "history_wf ws" using example_history_wf by (simp add: ws history_wf_def)
  have found: "find_report 10 ws = Some example_report" using example_found by (simp add: ws)
  have call: "call_ok example_call officer 10 ws" using example_call_ok by (simp add: ws call_ok_def)
  have valid: "validate_report_content (JObj example_payload) = Inr example_payload"
    using report_content_stable [OF example_content_ok] .
  from save_report_ok [OF wf found call _ _ _ valid, of 1 "''autosave''" example_env]
  obtain rv ws2 where run: "save_report example_env example_call officer 10 (JObj example_payload) 1 ''autosave'' ws = (Inr rv, ws2)"
    by (auto simp: example_report_def REPORT_SAVE_REASONS_def)
  note row = save_report_row [OF run]
  from run show thesis
  proof (rule save_report_Inr, goal_cases)
    case (1 rp payload changed prov cols ev)
    let ?rp = "rp\<lparr>rp_current_content := payload, rp_current_revision_number := rv_revision_number rv, rp_updated_at := ed_now example_call\<rparr>"
    have rp: "rp = example_report" "rp_id rp = 10" using 1(1) found by (auto dest: find_row_SomeD)
    have number: "rv_revision_number rv = 2" "rv_snapshot rv = example_payload"
      using 1(4,7) valid by (simp_all add: numbers_of_def ws example_workspace_def example_revision_def next_revision_number_def)
    have now: "find_report 10 ws2 = Some ?rp" using 1(1) rp by (simp add: 1(8) find_update_rows)
    have staff: "find_staff 1 (ident ws2) = Some example_staff"
      by (simp add: 1(8) ws example_workspace_def example_staff_def)
    have live: "report_access_live officer 10 ws2"
      by (simp add: 1(8) ws example_workspace_def report_access_live_def officer_def)
    obtain view where view: "report_revision_view ?rp rv None None ws2 = Inr view"
      "tv_report view = ?rp" "tv_revision_number view = 2" "tv_status view = ''in_progress''"
      using staff row valid number rp
      by (simp add: report_revision_view_def officer_def or_default_def example_report_def del: bind_result_eq_Inr)
    show thesis
    proof (rule that)
      show "written_report 10 (save_report example_env example_call officer 10 (JObj example_payload) 1 ''autosave'' ws)
          = (Inr (view, 200, JObj saved_reference), ws2)"
        using view now rp by (simp add: run written_report_def report_reference_def saved_reference_def del: bind_result_eq_Inr)
      show "idempotency_records (ident ws2) = rec" using save_report_records [OF run] by (simp add: ws)
      show "get_report officer 10 ws2 = Inr view"
        using now live view row rp number by (simp add: get_report_def current_report_view_def)
    qed
  qed
qed

lemma saved_reference_ok: "safe_reference (JObj saved_reference)" "length (dumps True (JObj saved_reference)) \<le> 4096"
proof -
  show "safe_reference (JObj saved_reference)" by code_simp
  have "length (dumps True (JInt 2)) \<le> 10" using nat_str.simps [of 2] by (simp add: int_str_def)
  moreover have "length (dumps True (JStr ''in_progress'')) \<le> 100" using length_quote [of True "''in_progress''"] by simp
  ultimately show "length (dumps True (JObj saved_reference)) \<le> 4096"
    using uuid_dumps [of 10] dumps_short [of saved_reference] by (simp add: saved_reference_def del: dumps.simps)
qed

definition report_request :: json where
  "report_request = JObj [(''content'', JObj example_payload), (''base_revision_number'', JInt 1), (''reason'', JStr ''autosave'')]"

definition report_canonical :: dict where
  "report_canonical = [(''content'', JObj example_payload), (''base_revision_number'', JInt 1), (''reason'', JStr ''autosave'')]"

lemma report_request_valid: "SaveReportRequest report_request = Inr report_canonical"
  using report_content_stable [OF example_content_ok]
  by (simp add: SaveReportRequest_def report_request_def report_canonical_def save_report_fields_def save_request_fields_def
      obj_get_def obj_keys_def accept_def del: bind_result_eq_Inr)

lemma report_save_repeated_witness:
  "\<exists>view ws1. save_report_record short_crypto example_env example_call officer example_rc 10 report_request ''key-0001'' example_workspace
       = (Inr view, ws1)
     \<and> save_report_record short_crypto example_env example_call officer example_rc 10 report_request ''key-0001'' ws1 = (Inr view, ws1)"
proof -
  let ?canon = "JObj ((''report_id'', JStr (uuid_str 10)) # report_canonical)"
  let ?op = "\<lambda>ws. written_report 10 (save_report example_env example_call officer 10 (JObj example_payload) 1 ''autosave'' ws)"
  let ?rec = "[new_record (rc_claim_id example_rc) (account_id officer, ''report.save'', ''key-0001'')
    (request_digest short_crypto ?canon) (rc_now example_rc)]"
  have digest: "length (request_digest short_crypto ?canon) = 32" by (simp add: request_digest_def short_crypto_def)
  have key: "IDEMPOTENCY_KEY_PATTERN ''key-0001''" by code_simp
  have new: "idempotency_records (ident example_workspace) = []"
    by (simp add: example_workspace_def example_db_def empty_db_def)
  obtain view ws2 where op: "?op (example_workspace\<lparr>ident := (ident example_workspace)\<lparr>idempotency_records := ?rec\<rparr>\<rparr>)
      = (Inr (view, 200, JObj saved_reference), ws2)" "idempotency_records (ident ws2) = ?rec"
    and get: "get_report officer 10 ws2 = Inr view"
    by (rule example_report_save [OF refl])
  obtain ws3 where keyed: "keyed_record short_crypto example_rc officer ''key-0001'' ''report.save'' ?canon (replayed_report officer) ?op
      example_workspace = (Inr view, ws3)"
    and same: "ws3 = ws2\<lparr>ident := ident ws3\<rparr>" "staff_members (ident ws3) = staff_members (ident ws2)"
    using keyed_record_runs [where op = ?op and ws = example_workspace, OF key digest new refl op saved_reference_ok] by blast
  have live: "report_access_live officer 10 example_workspace"
    by (simp add: example_workspace_def report_access_live_def officer_def)
  have run: "save_report_record short_crypto example_env example_call officer example_rc 10 report_request ''key-0001'' example_workspace
      = (Inr view, ws3)"
    using keyed live example_found
    by (simp add: save_report_record_def report_request_valid locked_report_write_def lock_authorized_report_def
        report_canonical_def obj_get_def at_key_def str_of_def)
  have get3: "get_report officer 10 ws3 = Inr view"
  proof -
    have row_same: "report_revision_view rp rv None None (ws2\<lparr>ident := ident ws3\<rparr>) = report_revision_view rp rv None None ws2" for rp rv
      using same(2) by (simp add: report_revision_view_def)
    have view_same: "current_report_view rp (ws2\<lparr>ident := ident ws3\<rparr>) = current_report_view rp ws2" for rp
      by (simp add: current_report_view_def row_same split: option.split)
    have "get_report officer 10 (ws2\<lparr>ident := ident ws3\<rparr>) = get_report officer 10 ws2"
      by (simp add: get_report_def view_same report_access_live_def split: option.split)
    with get same(1) show ?thesis by simp
  qed
  have "find_staff (staff_member_id officer) (ident ws3) = find_staff (staff_member_id officer) (ident example_workspace)"
    using op(1) same(2) by (auto elim!: written_report_Inr save_report_Inr)
  then have "save_report_record short_crypto example_env example_call officer example_rc 10 report_request ''key-0001'' ws3
      = (Inr (view\<lparr>tv_report := tv_report view\<rparr>), ws3)"
    using new by (intro report_save_repeated [OF run _ _ _ _ refl _ get3, where added = "[]"])
      (simp_all add: records_wf_def hours_def minutes_def seconds_def)
  with run show ?thesis by auto
qed

definition every_report :: report_filter where
  "every_report = \<lparr>rf_status = None, rf_incident_date_from = None, rf_incident_date_to = None,
     rf_category = None, rf_updated_at_from = None, rf_updated_at_to = None\<rparr>"

lemma report_listing_complete_witness:
  "\<exists>rows. read_pages 2 (\<lambda>cursor. list_reports number_clock officer ''owned'' every_report 1 cursor
       (example_workspace\<lparr>incidents := [numbered_incident 0]\<rparr>)) None = Inr rows
     \<and> map sm_report rows = [example_report]"
proof -
  let ?ws = "example_workspace\<lparr>incidents := [numbered_incident 0]\<rparr>"
  have wf: "access_wf ?ws" using example_access_wf by (simp add: access_wf_def)
  have one: "reports ?ws = [example_report]" by (simp add: example_workspace_def)
  have shown: "shown_report officer ''owned'' every_report ?ws example_report"
    by (simp add: shown_report_def listed_for_def example_report_def officer_def report_selected_def column_test_def
        every_report_def example_workspace_def example_staff_def)
  obtain rows where rows: "read_pages 2 (\<lambda>cursor. list_reports number_clock officer ''owned'' every_report 1 cursor ?ws) None = Inr rows"
    "distinct (map sm_report rows)" "set (map sm_report rows) = {example_report}"
    using report_listing_complete [OF number_clock_ok wf rtranclp.rtrancl_refl, of 1 2 "''owned''" officer every_report] one shown
    by auto
  have "length (map sm_report rows) = 1" using distinct_card [OF rows(2)] rows(3) by simp
  with rows(3) have "map sm_report rows = [example_report]" by (auto simp: length_Suc_conv)
  with rows(1) show ?thesis by (intro exI [of _ rows] conjI)
qed

end
