(* ===== verification/CountSheets.thy ===== *)
theory CountSheets
  imports Contents PyText "HOL-Library.AList"
begin

text \<open>
  Count sheets (\<open>src/backend/paperwork/counts.py\<close>, \<open>count_sheet.py\<close>): a template names the rows of
  the form and the side each section belongs to, the officer enters numbers, and every total is
  computed. \<open>counts.py\<close> works from a template given as JSON; \<open>count_sheet.py\<close> has the layout of one
  form, also read from JSON, which is an argument here. The parser of clock times is pydantic's
  and a parameter.
\<close>

section \<open>Templates\<close>

datatype reconciliation_side = Side_Left | Side_Right | Side_Informational

definition reconciliation_side_of :: "string \<Rightarrow> reconciliation_side option" where
  "reconciliation_side_of s = (if s = ''left'' then Some Side_Left
     else if s = ''right'' then Some Side_Right
     else if s = ''informational'' then Some Side_Informational else None)"

definition MAX_COUNT_VALUE :: int where "MAX_COUNT_VALUE = 99999"

record count_row =
  row_id :: string
  row_label :: string
  row_help_text :: "string option"

record count_section =
  section_id :: string
  section_label :: string
  reconciliation_side :: reconciliation_side
  section_rows :: "count_row list"

record count_template =
  ct_schema_version :: int
  ct_template_code :: string
  ct_title :: string
  ct_sections :: "count_section list"

record count_calculation =
  cc_values :: "(string \<times> int option) list"
  cc_row_ids :: "string list"
  cc_section_totals :: "(string \<times> int) list"
  cc_left_total :: int
  cc_right_total :: int
  cc_difference :: int
  cc_balanced :: bool
  cc_missing_row_ids :: "string list"

definition identifier_text :: "json \<Rightarrow> string \<Rightarrow> string result" where
  "identifier_text value name =
     (case value of
        JStr s \<Rightarrow>
          let cleaned = strip s
          in if \<not> (1 \<le> length cleaned \<and> length cleaned \<le> 80) \<or> \<not> isalpha_char (cleaned ! 0)
                \<or> list_ex (\<lambda>c. \<not> (islower_char c \<or> isdigit_char c \<or> c = CHR ''_'')) cleaned
             then Inl (CountSheetValidationError (name @ '' is invalid.'')) else Inr cleaned
      | _ \<Rightarrow> Inl (CountSheetValidationError (name @ '' must be text.'')))"

definition label_text :: "json \<Rightarrow> string \<Rightarrow> nat \<Rightarrow> string result" where
  "label_text value name maximum =
     (case value of
        JStr s \<Rightarrow>
          let cleaned = squeeze s
          in if \<not> (1 \<le> length cleaned \<and> length cleaned \<le> maximum)
             then Inl (CountSheetValidationError (name @ '' is invalid.'')) else Inr cleaned
      | _ \<Rightarrow> Inl (CountSheetValidationError (name @ '' must be text.'')))"

text \<open>
  The rows of a section, with the row identifiers seen so far; a label is read after the
  identifier has been found new and the help text has been read.
\<close>

definition parse_row :: "json \<Rightarrow> string list \<Rightarrow> count_row result" where
  "parse_row v seen =
     (case v of
        JObj kvs \<Rightarrow>
          if \<not> has_keys [''row_id'', ''label'', ''help_text''] kvs
          then Inl (CountSheetValidationError ''Count-sheet row is invalid.'')
          else bind_result (identifier_text (at_key ''row_id'' kvs) ''Row ID'') (\<lambda>i.
            if i \<in> set seen then Inl (CountSheetValidationError ''Count-sheet row IDs must be unique.'')
            else bind_result (if at_key ''help_text'' kvs = JNull then Inr None
                else bind_result (label_text (at_key ''help_text'' kvs) ''Row help text'' 300) (\<lambda>h. Inr (Some h))) (\<lambda>h.
              bind_result (label_text (at_key ''label'' kvs) ''Row label'' 160) (\<lambda>l.
                Inr \<lparr>row_id = i, row_label = l, row_help_text = h\<rparr>)))
      | _ \<Rightarrow> Inl (CountSheetValidationError ''Count-sheet row is invalid.''))"

fun parse_rows :: "json list \<Rightarrow> string list \<Rightarrow> (count_row list \<times> string list) result" where
  "parse_rows [] seen = Inr ([], seen)"
| "parse_rows (v # vs) seen =
     bind_result (parse_row v seen) (\<lambda>r.
       bind_result (parse_rows vs (row_id r # seen)) (\<lambda>(rs, seen'). Inr (r # rs, seen')))"

text \<open>\<open>side not in side_counts\<close> raises for a value that cannot be hashed.\<close>

definition parse_side :: "json \<Rightarrow> reconciliation_side result" where
  "parse_side v =
     (case v of
        JArr _ \<Rightarrow> Inl TypeError
      | JObj _ \<Rightarrow> Inl TypeError
      | JStr s \<Rightarrow> (case reconciliation_side_of s of
          None \<Rightarrow> Inl (CountSheetValidationError ''Reconciliation side is invalid.'') | Some d \<Rightarrow> Inr d)
      | _ \<Rightarrow> Inl (CountSheetValidationError ''Reconciliation side is invalid.''))"

definition parse_section ::
  "json \<Rightarrow> string list \<Rightarrow> string list \<Rightarrow> (count_section \<times> string list) result" where
  "parse_section v sections_seen rows_seen =
     (case v of
        JObj kvs \<Rightarrow>
          if \<not> has_keys [''section_id'', ''label'', ''reconciliation_side'', ''rows''] kvs
          then Inl (CountSheetValidationError ''Count-sheet section is invalid.'')
          else bind_result (identifier_text (at_key ''section_id'' kvs) ''Section ID'') (\<lambda>i.
            if i \<in> set sections_seen
            then Inl (CountSheetValidationError ''Count-sheet section IDs must be unique.'')
            else bind_result (parse_side (at_key ''reconciliation_side'' kvs)) (\<lambda>side.
              case at_key ''rows'' kvs of
                JArr vs \<Rightarrow>
                  if \<not> (1 \<le> length vs \<and> length vs \<le> 100)
                  then Inl (CountSheetValidationError ''Count-sheet rows are invalid.'')
                  else bind_result (parse_rows vs rows_seen) (\<lambda>(rs, rows_seen').
                    bind_result (label_text (at_key ''label'' kvs) ''Section label'' 160) (\<lambda>l.
                      Inr (\<lparr>section_id = i, section_label = l, reconciliation_side = side, section_rows = rs\<rparr>,
                           rows_seen')))
              | _ \<Rightarrow> Inl (CountSheetValidationError ''Count-sheet rows are invalid.'')))
      | _ \<Rightarrow> Inl (CountSheetValidationError ''Count-sheet section is invalid.''))"

fun parse_sections :: "json list \<Rightarrow> string list \<Rightarrow> string list \<Rightarrow> count_section list result" where
  "parse_sections [] sections_seen rows_seen = Inr []"
| "parse_sections (v # vs) sections_seen rows_seen =
     bind_result (parse_section v sections_seen rows_seen) (\<lambda>(s, rows_seen').
       bind_result (parse_sections vs (section_id s # sections_seen) rows_seen') (\<lambda>ss. Inr (s # ss)))"

definition parse_count_sheet_template :: "json \<Rightarrow> count_template result" where
  "parse_count_sheet_template value =
     (case value of
        JObj kvs \<Rightarrow>
          if \<not> has_keys [''schema_version'', ''template_code'', ''title'', ''sections''] kvs
          then Inl (CountSheetValidationError ''Count-sheet template is invalid.'')
          else if \<not> py_eq (at_key ''schema_version'' kvs) (JInt 1)
          then Inl (CountSheetValidationError ''Count-sheet template version is unsupported.'')
          else (case at_key ''sections'' kvs of
            JArr vs \<Rightarrow>
              if \<not> (2 \<le> length vs \<and> length vs \<le> 20)
              then Inl (CountSheetValidationError ''Count-sheet sections are invalid.'')
              else bind_result (parse_sections vs [] []) (\<lambda>ss.
                if \<not> list_ex (\<lambda>s. reconciliation_side s = Side_Left) ss
                   \<or> \<not> list_ex (\<lambda>s. reconciliation_side s = Side_Right) ss
                then Inl (CountSheetValidationError ''Count-sheet reconciliation requires left and right sections.'')
                else bind_result (identifier_text (at_key ''template_code'' kvs) ''Template code'') (\<lambda>c.
                  bind_result (label_text (at_key ''title'' kvs) ''Template title'' 200) (\<lambda>t.
                    Inr \<lparr>ct_schema_version = 1, ct_template_code = c, ct_title = t, ct_sections = ss\<rparr>)))
          | _ \<Rightarrow> Inl (CountSheetValidationError ''Count-sheet sections are invalid.''))
      | _ \<Rightarrow> Inl (CountSheetValidationError ''Count-sheet template is invalid.''))"

section \<open>Entered values\<close>

definition count_of :: "json \<Rightarrow> string \<Rightarrow> int option result" where
  "count_of value rid =
     (if value = JNull \<or> value = JStr [] then Inr None
      else case value of
        JInt i \<Rightarrow> if 0 \<le> i \<and> i \<le> MAX_COUNT_VALUE then Inr (Some i)
          else Inl (CountSheetValidationError
            (''Count for '' @ rid @ '' must be a whole number from 0 through 99999.''))
      | _ \<Rightarrow> Inl (CountSheetValidationError
          (''Count for '' @ rid @ '' must be a whole number from 0 through 99999.'')))"

text \<open>
  A dictionary comprehension: the first occurrence of a key fixes its place, the last its value.
\<close>

fun normalize_counts ::
  "(string \<times> json) list \<Rightarrow> string list \<Rightarrow> (string \<times> int option) list \<Rightarrow> (string \<times> int option) list result" where
  "normalize_counts values [] kept = Inr kept"
| "normalize_counts values (i # ids) kept =
     bind_result (count_of (at_key i values) i) (\<lambda>n.
       normalize_counts values ids (AList.update i n kept))"

definition entered :: "(string \<times> int option) list \<Rightarrow> string \<Rightarrow> int option" where
  "entered kept i = (case map_of kept i of Some n \<Rightarrow> n | None \<Rightarrow> None)"

definition integer_or_zero :: "int option \<Rightarrow> int" where
  "integer_or_zero value = (case value of None \<Rightarrow> 0 | Some i \<Rightarrow> i)"

definition ordered_rows :: "count_template \<Rightarrow> string list" where
  "ordered_rows t = concat (map (\<lambda>s. map row_id (section_rows s)) (ct_sections t))"

definition section_totals_of ::
  "(string \<times> int option) list \<Rightarrow> count_section list \<Rightarrow> (string \<times> int) list" where
  "section_totals_of kept ss =
     fold (\<lambda>s. AList.update (section_id s)
       (sum_list (map (\<lambda>r. integer_or_zero (entered kept (row_id r))) (section_rows s)))) ss []"

definition side_total :: "(string \<times> int) list \<Rightarrow> reconciliation_side \<Rightarrow> count_section list \<Rightarrow> int" where
  "side_total totals side ss =
     sum_list (map (\<lambda>s. integer_or_zero (map_of totals (section_id s)))
       (filter (\<lambda>s. reconciliation_side s = side) ss))"

definition calculate_count_sheet :: "count_template \<Rightarrow> json \<Rightarrow> count_calculation result" where
  "calculate_count_sheet t values =
     (case values of
        JObj kvs \<Rightarrow>
          let ids = ordered_rows t;
              unknown = sort (filter (\<lambda>k. k \<notin> set ids) (obj_keys kvs))
          in if unknown \<noteq> []
             then Inl (CountSheetValidationError
               (''Count-sheet values contain an unknown row: '' @ hd unknown @ ''.''))
             else bind_result (normalize_counts kvs ids []) (\<lambda>kept.
               let totals = section_totals_of kept (ct_sections t);
                   left = side_total totals Side_Left (ct_sections t);
                   right = side_total totals Side_Right (ct_sections t);
                   missing = filter (\<lambda>i. entered kept i = None) ids
               in Inr \<lparr>cc_values = kept, cc_row_ids = ids, cc_section_totals = totals,
                    cc_left_total = left, cc_right_total = right, cc_difference = left - right,
                    cc_balanced = (left - right = 0 \<and> missing = []), cc_missing_row_ids = missing\<rparr>)
      | _ \<Rightarrow> Inl (CountSheetValidationError ''Count-sheet values must be an object.''))"

definition json_count :: "int option \<Rightarrow> json" where
  "json_count n = (case n of None \<Rightarrow> JNull | Some i \<Rightarrow> JInt i)"

definition count_sheet_content :: "count_template \<Rightarrow> json \<Rightarrow> json \<Rightarrow> (string \<times> json) list result" where
  "count_sheet_content t values remarks =
     (case remarks of
        JStr s \<Rightarrow>
          let cleaned = strip s
          in if length cleaned > 5000
             then Inl (CountSheetValidationError ''Count-sheet notes must be 5,000 characters or fewer.'')
             else bind_result (calculate_count_sheet t values) (\<lambda>c.
               Inr [(''schema_version'', JInt 1),
                    (''template_code'', JStr (ct_template_code t)),
                    (''values'', JObj (map (\<lambda>(k, n). (k, json_count n)) (cc_values c))),
                    (''section_totals'', JObj (map (\<lambda>(k, n). (k, JInt n)) (cc_section_totals c))),
                    (''left_total'', JInt (cc_left_total c)),
                    (''right_total'', JInt (cc_right_total c)),
                    (''difference'', JInt (cc_difference c)),
                    (''balanced'', JBool (cc_balanced c)),
                    (''missing_row_ids'', JArr (map JStr (cc_missing_row_ids c))),
                    (''notes'', JStr cleaned)])
      | _ \<Rightarrow> Inl (CountSheetValidationError ''Count-sheet notes must be text.''))"

section \<open>The layout of the count sheet\<close>

record sheet_structure =
  HOUSING_COLUMNS :: "string list"
  AREA_ROWS :: "string list"
  OPERATIONAL_FIELDS :: "string list"
  ATTACHMENT_REMINDERS :: "string list"
  COUNT_SHEET_TITLE :: string

definition load_structure :: "json \<Rightarrow> (string \<times> json) list result" where
  "load_structure value =
     (case value of
        JObj kvs \<Rightarrow>
          if \<not> has_keys [''schema_version'', ''title'', ''columns'', ''areas'', ''operational_fields'',
                 ''attachment_reminders''] kvs
          then Inl (RuntimeError ''count sheet structure is invalid'')
          else if \<not> py_eq (at_key ''schema_version'' kvs) (JInt 1)
          then Inl (RuntimeError ''count sheet structure version is unsupported'')
          else Inr kvs
      | _ \<Rightarrow> Inl (RuntimeError ''count sheet structure is invalid''))"

definition texts_at :: "string \<Rightarrow> (string \<times> json) list \<Rightarrow> string list result" where
  "texts_at k kvs = bind_result (py_items (at_key k kvs)) (\<lambda>vs. Inr (map py_str vs))"

text \<open>The module's constants and the check that follows them.\<close>

definition sheet_structure_of :: "json \<Rightarrow> sheet_structure result" where
  "sheet_structure_of value =
     bind_result (load_structure value) (\<lambda>kvs.
     bind_result (texts_at ''columns'' kvs) (\<lambda>columns.
     bind_result (texts_at ''areas'' kvs) (\<lambda>areas.
     bind_result (texts_at ''operational_fields'' kvs) (\<lambda>operational.
     bind_result (texts_at ''attachment_reminders'' kvs) (\<lambda>reminders.
       if \<not> distinct columns \<or> \<not> distinct areas \<or> \<not> distinct operational
          \<or> \<not> set reminders \<subseteq> set operational
       then Inl (RuntimeError ''count sheet structure contains duplicate or invalid entries'')
       else Inr \<lparr>HOUSING_COLUMNS = columns, AREA_ROWS = areas, OPERATIONAL_FIELDS = operational,
         ATTACHMENT_REMINDERS = reminders, COUNT_SHEET_TITLE = py_str (at_key ''title'' kvs)\<rparr>)))))"

section \<open>The record of one count\<close>

text \<open>
  A clock time: microseconds since midnight, the offset from UTC in microseconds if it has one,
  and its ISO text. Python refuses to order a time with an offset and one without.
\<close>

record clock =
  clock_micros :: int
  clock_offset :: "int option"
  clock_iso :: string

definition clock_less :: "clock \<Rightarrow> clock \<Rightarrow> bool result" where
  "clock_less a b =
     (case (clock_offset a, clock_offset b) of
        (None, None) \<Rightarrow> Inr (clock_micros a < clock_micros b)
      | (Some p, Some q) \<Rightarrow> Inr (clock_micros a - p < clock_micros b - q)
      | _ \<Rightarrow> Inl TypeError)"

type_synonym count_values = "(string \<times> int option) list"

record count_sheet_record =
  cs_count_started :: "clock option"
  cs_count_ended :: "clock option"
  cs_cells :: "(string \<times> count_values) list"
  cs_in_housing :: count_values
  cs_operational :: count_values

fun count_value :: "json \<Rightarrow> int option result" where
  "count_value JNull = Inr None"
| "count_value (JInt i) = (if 0 \<le> i then Inr (Some i) else Inl ValidationError)"
| "count_value _ = Inl ValidationError"

fun map_values :: "(json \<Rightarrow> 'a result) \<Rightarrow> (string \<times> json) list \<Rightarrow> (string \<times> 'a) list result" where
  "map_values f [] = Inr []"
| "map_values f ((k, v) # kvs) =
     bind_result (f v) (\<lambda>x. bind_result (map_values f kvs) (\<lambda>xs. Inr ((k, x) # xs)))"

definition dict_of :: "(json \<Rightarrow> 'a result) \<Rightarrow> json \<Rightarrow> (string \<times> 'a) list result" where
  "dict_of f v = (case v of JObj kvs \<Rightarrow> map_values f kvs | _ \<Rightarrow> Inl ValidationError)"

definition clock_value :: "(string \<Rightarrow> clock option) \<Rightarrow> json \<Rightarrow> clock option result" where
  "clock_value parse v =
     (case v of
        JNull \<Rightarrow> Inr None
      | JStr s \<Rightarrow> (case parse s of None \<Rightarrow> Inl ValidationError | Some t \<Rightarrow> Inr (Some t))
      | _ \<Rightarrow> Inl ValidationError)"

text \<open>A member that may be absent, with its default, and one that may not.\<close>

definition optional_at :: "string \<Rightarrow> 'a \<Rightarrow> (json \<Rightarrow> 'a result) \<Rightarrow> (string \<times> json) list \<Rightarrow> 'a result" where
  "optional_at k dflt f kvs = (case obj_get k kvs of None \<Rightarrow> Inr dflt | Some v \<Rightarrow> f v)"

definition required_at :: "string \<Rightarrow> (json \<Rightarrow> 'a result) \<Rightarrow> (string \<times> json) list \<Rightarrow> 'a result" where
  "required_at k f kvs = (case obj_get k kvs of None \<Rightarrow> Inl ValidationError | Some v \<Rightarrow> f v)"

definition validate_structure_and_times :: "sheet_structure \<Rightarrow> count_sheet_record \<Rightarrow> count_sheet_record result" where
  "validate_structure_and_times S m =
     (if \<not> has_keys (AREA_ROWS S) (cs_cells m)
         \<or> list_ex (\<lambda>(a, row). \<not> has_keys (HOUSING_COLUMNS S) row) (cs_cells m)
         \<or> \<not> has_keys (HOUSING_COLUMNS S) (cs_in_housing m)
         \<or> \<not> has_keys (OPERATIONAL_FIELDS S) (cs_operational m)
      then Inl ValidationError
      else case (cs_count_started m, cs_count_ended m) of
        (Some a, Some b) \<Rightarrow> bind_result (clock_less b a) (\<lambda>early. if early then Inl ValidationError else Inr m)
      | _ \<Rightarrow> Inr m)"

text \<open>What pydantic accepts for a clock time and for \<open>Literal[1]\<close>.\<close>

record sheet_input =
  parse_clock :: "string \<Rightarrow> clock option"
  is_one :: "json \<Rightarrow> bool"

text \<open>\<open>CountSheetRecordV1.model_validate_json\<close> of the text of a decoded value.\<close>

definition CountSheetRecordV1 ::
  "sheet_structure \<Rightarrow> sheet_input \<Rightarrow> json \<Rightarrow> count_sheet_record result" where
  "CountSheetRecordV1 S P v =
     (case v of
        JObj kvs \<Rightarrow>
          if has_nonfinite v then Inl (ValueError ''Out of range float values are not JSON compliant'')
          else if \<not> set (obj_keys kvs) \<subseteq> {''schema_version'', ''count_started'', ''count_ended'', ''cells'',
                  ''in_housing'', ''operational''}
          then Inl ValidationError
          else bind_result (optional_at ''schema_version'' () (\<lambda>x. require (is_one P x) ValidationError) kvs) (\<lambda>_.
            bind_result (optional_at ''count_started'' None (clock_value (parse_clock P)) kvs) (\<lambda>a.
            bind_result (optional_at ''count_ended'' None (clock_value (parse_clock P)) kvs) (\<lambda>b.
            bind_result (required_at ''cells'' (dict_of (dict_of count_value)) kvs) (\<lambda>cells.
            bind_result (required_at ''in_housing'' (dict_of count_value) kvs) (\<lambda>housing.
            bind_result (required_at ''operational'' (dict_of count_value) kvs) (\<lambda>operational.
              validate_structure_and_times S \<lparr>cs_count_started = a, cs_count_ended = b, cs_cells = cells,
                cs_in_housing = housing, cs_operational = operational\<rparr>))))))
      | _ \<Rightarrow> Inl ValidationError)"

text \<open>\<open>model_dump(mode="json")\<close>.\<close>

definition json_counts :: "count_values \<Rightarrow> json" where
  "json_counts kvs = JObj (map (\<lambda>(k, n). (k, json_count n)) kvs)"

definition json_clock :: "clock option \<Rightarrow> json" where
  "json_clock t = (case t of None \<Rightarrow> JNull | Some c \<Rightarrow> JStr (clock_iso c))"

definition dump_count_sheet :: "count_sheet_record \<Rightarrow> (string \<times> json) list" where
  "dump_count_sheet m =
     [(''schema_version'', JInt 1),
      (''count_started'', json_clock (cs_count_started m)),
      (''count_ended'', json_clock (cs_count_ended m)),
      (''cells'', JObj (map (\<lambda>(a, row). (a, json_counts row)) (cs_cells m))),
      (''in_housing'', json_counts (cs_in_housing m)),
      (''operational'', json_counts (cs_operational m))]"

section \<open>Totals\<close>

record count_sheet_validation =
  cv_row_totals :: "(string \<times> int) list"
  cv_out_of_housing :: "(string \<times> int) list"
  cv_unit_totals :: "(string \<times> int) list"
  cv_column_totals :: "(string \<times> int) list"
  cv_housing_total :: int
  cv_operational_total :: int
  cv_difference :: int
  cv_reconciled :: bool

definition cell :: "count_sheet_record \<Rightarrow> string \<Rightarrow> string \<Rightarrow> int" where
  "cell m area column =
     integer_or_zero (case map_of (cs_cells m) area of None \<Rightarrow> None | Some row \<Rightarrow> entered row column)"

definition calculate_count_totals :: "sheet_structure \<Rightarrow> count_sheet_record \<Rightarrow> count_sheet_validation" where
  "calculate_count_totals S m =
     (let row_totals = map (\<lambda>a. (a, sum_list (map (\<lambda>c. cell m a c) (HOUSING_COLUMNS S)))) (AREA_ROWS S);
          out_of_housing = map (\<lambda>c. (c, sum_list (map (\<lambda>a. cell m a c) (AREA_ROWS S)))) (HOUSING_COLUMNS S);
          unit_totals = map (\<lambda>(c, n). (c, n + integer_or_zero (entered (cs_in_housing m) c))) out_of_housing;
          housing = sum_list (map snd unit_totals);
          operational = sum_list (map (\<lambda>f. integer_or_zero (entered (cs_operational m) f)) (OPERATIONAL_FIELDS S))
      in \<lparr>cv_row_totals = row_totals, cv_out_of_housing = out_of_housing, cv_unit_totals = unit_totals,
          cv_column_totals = unit_totals, cv_housing_total = housing, cv_operational_total = operational,
          cv_difference = housing - operational, cv_reconciled = (housing - operational = 0)\<rparr>)"

definition validate_count_sheet ::
  "sheet_structure \<Rightarrow> sheet_input \<Rightarrow> json \<Rightarrow> count_sheet_validation result" where
  "validate_count_sheet S P v =
     bind_result (CountSheetRecordV1 S P v) (\<lambda>m. Inr (calculate_count_totals S m))"

section \<open>Templates as parsed\<close>

lemma case_json_Inr:
  "(case v of JArr vs \<Rightarrow> f vs | _ \<Rightarrow> Inl e) = Inr y \<longleftrightarrow> (\<exists>vs. v = JArr vs \<and> f vs = Inr y)"
  "(case v of JObj kvs \<Rightarrow> g kvs | _ \<Rightarrow> Inl e) = Inr y \<longleftrightarrow> (\<exists>kvs. v = JObj kvs \<and> g kvs = Inr y)"
  by (cases v; auto)+

lemma parse_rows_Inr:
  "parse_rows vs seen = Inr (rs, seen') \<Longrightarrow>
   length rs = length vs \<and> seen' = rev (map row_id rs) @ seen
   \<and> (distinct seen \<longrightarrow> distinct (map row_id rs @ seen))"
proof (induction vs seen arbitrary: rs seen' rule: parse_rows.induct)
  case (2 v vs seen)
  from 2(2) obtain r rs' where r: "parse_row v seen = Inr r" "rs = r # rs'"
      "parse_rows vs (row_id r # seen) = Inr (rs', seen')"
    by auto
  have "row_id r \<notin> set seen"
    using r(1) by (auto simp: parse_row_def split: json.splits if_split_asm)
  with 2(1) [OF r(3)] r show ?case by auto
qed simp

lemma parse_section_Inr:
  assumes "parse_section v ids seen = Inr (s, seen')"
  shows "section_id s \<notin> set ids \<and> seen' = rev (map row_id (section_rows s)) @ seen
    \<and> (distinct seen \<longrightarrow> distinct (map row_id (section_rows s) @ seen))
    \<and> section_rows s \<noteq> [] \<and> length (section_rows s) \<le> 100"
proof -
  from assms obtain vs rs where "length vs \<le> 100" "vs \<noteq> []" "parse_rows vs seen = Inr (rs, seen')"
      "section_rows s = rs" "section_id s \<notin> set ids"
    by (auto simp: parse_section_def case_json_Inr Suc_le_eq split: if_split_asm)
  with parse_rows_Inr [of vs seen rs seen'] show ?thesis by auto
qed

lemma parse_sections_Inr:
  "parse_sections vs ids seen = Inr ss \<Longrightarrow> distinct seen \<Longrightarrow> distinct ids \<Longrightarrow>
   length ss = length vs \<and> distinct (rev (map section_id ss) @ ids)
   \<and> distinct (concat (map (\<lambda>s. map row_id (section_rows s)) ss) @ seen)
   \<and> (\<forall>s \<in> set ss. section_rows s \<noteq> [] \<and> length (section_rows s) \<le> 100)"
proof (induction vs ids seen arbitrary: ss rule: parse_sections.induct)
  case (2 v vs ids seen)
  from 2(2) obtain s ss' seen' where s: "parse_section v ids seen = Inr (s, seen')" "ss = s # ss'"
      "parse_sections vs (section_id s # ids) seen' = Inr ss'"
    by auto
  note head = parse_section_Inr [OF s(1)]
  with 2(3,4) have d: "distinct seen'" "distinct (section_id s # ids)" by auto
  note tail = 2(1) [OF s(3) d]
  have "set seen' = row_id ` set (section_rows s) \<union> set seen" using head by auto
  with head tail d 2(3,4) show ?case by (simp add: s(2) Int_Un_distrib Int_Un_distrib2 Int_commute)
qed simp

definition template_ok :: "count_template \<Rightarrow> bool" where
  "template_ok t \<longleftrightarrow> distinct (map section_id (ct_sections t)) \<and> distinct (ordered_rows t)
     \<and> 2 \<le> length (ct_sections t) \<and> length (ct_sections t) \<le> 20
     \<and> (\<forall>s \<in> set (ct_sections t). section_rows s \<noteq> [] \<and> length (section_rows s) \<le> 100)
     \<and> (\<exists>s \<in> set (ct_sections t). reconciliation_side s = Side_Left)
     \<and> (\<exists>s \<in> set (ct_sections t). reconciliation_side s = Side_Right)"

lemma parsed_template_ok:
  assumes "parse_count_sheet_template v = Inr t"
  shows "template_ok t"
proof -
  from assms obtain vs ss where vs: "2 \<le> length vs" "length vs \<le> 20" "parse_sections vs [] [] = Inr ss"
      and t: "ct_sections t = ss" "list_ex (\<lambda>s. reconciliation_side s = Side_Left) ss"
        "list_ex (\<lambda>s. reconciliation_side s = Side_Right) ss"
    by (auto simp: parse_count_sheet_template_def case_json_Inr split: if_split_asm)
  from parse_sections_Inr [OF vs(3)] vs t show ?thesis
    by (auto simp: template_ok_def ordered_rows_def list_ex_iff)
qed

section \<open>The arithmetic of a template\<close>

definition number_at :: "string \<Rightarrow> (string \<times> json) list \<Rightarrow> int" where
  "number_at i kvs = (case at_key i kvs of JInt n \<Rightarrow> n | _ \<Rightarrow> 0)"

definition is_entered :: "string \<Rightarrow> (string \<times> json) list \<Rightarrow> bool" where
  "is_entered i kvs \<longleftrightarrow> (\<exists>n. at_key i kvs = JInt n)"

definition rows_on :: "reconciliation_side \<Rightarrow> count_template \<Rightarrow> string list" where
  "rows_on side t =
     concat (map (\<lambda>s. map row_id (section_rows s)) (filter (\<lambda>s. reconciliation_side s = side) (ct_sections t)))"

lemma count_of_Inr:
  assumes "count_of v i = Inr n"
  shows "integer_or_zero n = (case v of JInt k \<Rightarrow> k | _ \<Rightarrow> 0)" "(n = None) = (\<forall>k. v \<noteq> JInt k)"
    "0 \<le> integer_or_zero n" "integer_or_zero n \<le> MAX_COUNT_VALUE"
  using assms by (auto simp: count_of_def integer_or_zero_def MAX_COUNT_VALUE_def split: json.splits if_split_asm)

lemma normalize_counts_Inr:
  "normalize_counts kvs ids kept = Inr kept' \<Longrightarrow>
   (\<forall>i \<in> set ids. \<exists>n. count_of (at_key i kvs) i = Inr n \<and> map_of kept' i = Some n)
   \<and> (\<forall>i. i \<notin> set ids \<longrightarrow> map_of kept' i = map_of kept i)"
proof (induction kvs ids kept arbitrary: kept' rule: normalize_counts.induct)
  case (2 kvs i ids kept)
  from 2(2) obtain n where n: "count_of (at_key i kvs) i = Inr n"
      "normalize_counts kvs ids (AList.update i n kept) = Inr kept'"
    by auto
  from 2(1) [OF n(2)] n show ?case
    by (cases "i \<in> set ids") (auto simp: update_conv')
qed simp

lemma map_of_section_totals:
  "distinct (map section_id ss) \<Longrightarrow> s \<in> set ss \<Longrightarrow>
   map_of (fold (\<lambda>s. AList.update (section_id s) (f s)) ss acc) (section_id s) = Some (f s)"
proof (induction ss arbitrary: acc)
  case (Cons x ss)
  have other: "map_of (fold (\<lambda>s. AList.update (section_id s) (f s)) ss acc) k = map_of acc k"
    if "k \<notin> section_id ` set ss" for k acc
    using that by (induction ss arbitrary: acc) (auto simp: update_conv')
  show ?case
  proof (cases "s = x")
    case True
    with Cons.prems other [of "section_id x"] show ?thesis by (simp add: update_conv')
  next
    case False
    with Cons show ?thesis by auto
  qed
qed simp

lemma sum_list_concat_rows:
  "sum_list (map f (concat (map (\<lambda>s. map row_id (section_rows s)) ss)))
    = (sum_list (map (\<lambda>s. sum_list (map (\<lambda>r. f (row_id r)) (section_rows s))) ss) :: int)"
  by (induction ss) (auto simp: comp_def)

lemma calculate_Inr:
  assumes run: "calculate_count_sheet t (JObj kvs) = Inr c" and t: "template_ok t"
  shows "cc_left_total c = sum_list (map (\<lambda>i. number_at i kvs) (rows_on Side_Left t))"
    "cc_right_total c = sum_list (map (\<lambda>i. number_at i kvs) (rows_on Side_Right t))"
    "cc_missing_row_ids c = filter (\<lambda>i. \<not> is_entered i kvs) (ordered_rows t)"
    "cc_balanced c \<longleftrightarrow> cc_left_total c = cc_right_total c \<and> cc_missing_row_ids c = []"
    "cc_difference c = cc_left_total c - cc_right_total c"
    "set (obj_keys kvs) \<subseteq> set (ordered_rows t)"
    "\<forall>i \<in> set (ordered_rows t). 0 \<le> number_at i kvs \<and> number_at i kvs \<le> MAX_COUNT_VALUE"
proof -
  from run obtain kept where kept: "normalize_counts kvs (ordered_rows t) [] = Inr kept"
      and c: "c = (let totals = section_totals_of kept (ct_sections t);
          l = side_total totals Side_Left (ct_sections t); r = side_total totals Side_Right (ct_sections t);
          missing = filter (\<lambda>i. entered kept i = None) (ordered_rows t)
        in \<lparr>cc_values = kept, cc_row_ids = ordered_rows t, cc_section_totals = totals,
            cc_left_total = l, cc_right_total = r, cc_difference = l - r,
            cc_balanced = (l - r = 0 \<and> missing = []), cc_missing_row_ids = missing\<rparr>)"
      and known: "sort (filter (\<lambda>k. k \<notin> set (ordered_rows t)) (obj_keys kvs)) = []"
    by (auto simp: calculate_count_sheet_def Let_def split: if_split_asm)
  have row: "integer_or_zero (entered kept i) = number_at i kvs" "(entered kept i = None) = (\<not> is_entered i kvs)"
      "0 \<le> number_at i kvs \<and> number_at i kvs \<le> MAX_COUNT_VALUE"
    if "i \<in> set (ordered_rows t)" for i
  proof -
    from normalize_counts_Inr [OF kept] that obtain n where
      n: "count_of (at_key i kvs) i = Inr n" "map_of kept i = Some n" by blast
    then have "entered kept i = n" by (simp add: entered_def)
    with count_of_Inr [OF n(1)] show "integer_or_zero (entered kept i) = number_at i kvs"
      "(entered kept i = None) = (\<not> is_entered i kvs)"
      "0 \<le> number_at i kvs \<and> number_at i kvs \<le> MAX_COUNT_VALUE"
      by (auto simp: number_at_def is_entered_def)
  qed
  have total: "map_of (section_totals_of kept (ct_sections t)) (section_id s)
      = Some (sum_list (map (\<lambda>r. number_at (row_id r) kvs) (section_rows s)))" if "s \<in> set (ct_sections t)" for s
  proof -
    have "row_id r \<in> set (ordered_rows t)" if "r \<in> set (section_rows s)" for r
      using that \<open>s \<in> set (ct_sections t)\<close> by (auto simp: ordered_rows_def)
    then have "sum_list (map (\<lambda>r. integer_or_zero (entered kept (row_id r))) (section_rows s))
        = sum_list (map (\<lambda>r. number_at (row_id r) kvs) (section_rows s))"
      using row(1) by (intro arg_cong [of _ _ sum_list] map_cong) auto
    with t that show ?thesis unfolding section_totals_of_def
      by (subst map_of_section_totals) (simp_all add: template_ok_def)
  qed
  have side: "side_total (section_totals_of kept (ct_sections t)) side (ct_sections t)
      = sum_list (map (\<lambda>i. number_at i kvs) (rows_on side t))" for side
  proof -
    have "side_total (section_totals_of kept (ct_sections t)) side (ct_sections t)
        = sum_list (map (\<lambda>s. sum_list (map (\<lambda>r. number_at (row_id r) kvs) (section_rows s)))
            (filter (\<lambda>s. reconciliation_side s = side) (ct_sections t)))"
      unfolding side_total_def using total
      by (intro arg_cong [of _ _ sum_list] map_cong) (auto simp: integer_or_zero_def)
    also have "\<dots> = sum_list (map (\<lambda>i. number_at i kvs) (rows_on side t))"
      unfolding rows_on_def by (simp add: sum_list_concat_rows)
    finally show ?thesis .
  qed
  have missing: "filter (\<lambda>i. entered kept i = None) (ordered_rows t) = filter (\<lambda>i. \<not> is_entered i kvs) (ordered_rows t)"
    using row(2) by (intro filter_cong) auto
  show "cc_left_total c = sum_list (map (\<lambda>i. number_at i kvs) (rows_on Side_Left t))"
    "cc_right_total c = sum_list (map (\<lambda>i. number_at i kvs) (rows_on Side_Right t))"
    "cc_missing_row_ids c = filter (\<lambda>i. \<not> is_entered i kvs) (ordered_rows t)"
    "cc_balanced c \<longleftrightarrow> cc_left_total c = cc_right_total c \<and> cc_missing_row_ids c = []"
    "cc_difference c = cc_left_total c - cc_right_total c"
    by (simp_all add: c Let_def side missing)
  show "set (obj_keys kvs) \<subseteq> set (ordered_rows t)"
    using arg_cong [OF known, of set] by (auto simp: filter_empty_conv)
  show "\<forall>i \<in> set (ordered_rows t). 0 \<le> number_at i kvs \<and> number_at i kvs \<le> MAX_COUNT_VALUE"
    using row(3) by blast
qed


section \<open>The totals of one count\<close>

lemma sum_list_swap:
  "sum_list (map (\<lambda>x. sum_list (map (\<lambda>y. f x y) ys)) xs) = (sum_list (map (\<lambda>y. sum_list (map (\<lambda>x. f x y) xs)) ys) :: int)"
  by (induction xs) (simp_all add: sum_list_addf)

lemma map_values_Inr:
  "map_values f kvs = Inr xs \<Longrightarrow> map fst xs = map fst kvs \<and> (\<forall>(k, x) \<in> set xs. \<exists>v. f v = Inr x)"
  by (induction f kvs arbitrary: xs rule: map_values.induct) auto

definition counts_ok :: "count_values \<Rightarrow> bool" where
  "counts_ok kvs \<longleftrightarrow> (\<forall>(k, n) \<in> set kvs. 0 \<le> integer_or_zero n)"

definition count_sheet_ok :: "sheet_structure \<Rightarrow> count_sheet_record \<Rightarrow> bool" where
  "count_sheet_ok S m \<longleftrightarrow> has_keys (AREA_ROWS S) (cs_cells m)
     \<and> (\<forall>(a, row) \<in> set (cs_cells m). has_keys (HOUSING_COLUMNS S) row \<and> counts_ok row)
     \<and> has_keys (HOUSING_COLUMNS S) (cs_in_housing m) \<and> counts_ok (cs_in_housing m)
     \<and> has_keys (OPERATIONAL_FIELDS S) (cs_operational m) \<and> counts_ok (cs_operational m)"

lemma count_value_ok: "count_value v = Inr n \<Longrightarrow> 0 \<le> integer_or_zero n"
  by (cases v rule: count_value.cases) (auto simp: integer_or_zero_def split: if_split_asm)

lemma dict_of_Inr: "dict_of f v = Inr xs \<Longrightarrow> (k, x) \<in> set xs \<Longrightarrow> \<exists>w. f w = Inr x"
  by (auto simp: dict_of_def case_json_Inr dest!: map_values_Inr)

lemma dict_of_counts: "dict_of count_value v = Inr kvs \<Longrightarrow> counts_ok kvs"
  by (auto simp: counts_ok_def dest!: dict_of_Inr count_value_ok)

lemma dict_of_rows: "dict_of (dict_of count_value) v = Inr rows \<Longrightarrow> (a, row) \<in> set rows \<Longrightarrow> counts_ok row"
  by (auto dest!: dict_of_Inr dict_of_counts)

lemma required_at_Inr: "required_at k f kvs = Inr x \<longleftrightarrow> (\<exists>v. obj_get k kvs = Some v \<and> f v = Inr x)"
  by (auto simp: required_at_def split: option.split)

lemma validated_times:
  "validate_structure_and_times S m = Inr m' \<longleftrightarrow> m' = m \<and> has_keys (AREA_ROWS S) (cs_cells m)
     \<and> (\<forall>(a, row) \<in> set (cs_cells m). has_keys (HOUSING_COLUMNS S) row)
     \<and> has_keys (HOUSING_COLUMNS S) (cs_in_housing m) \<and> has_keys (OPERATIONAL_FIELDS S) (cs_operational m)
     \<and> (case (cs_count_started m, cs_count_ended m) of
          (Some a, Some b) \<Rightarrow> clock_less b a = Inr False | _ \<Rightarrow> True)"
  by (auto simp: validate_structure_and_times_def list_ex_iff split: option.split)

lemma CountSheetRecordV1_Inr:
  assumes "CountSheetRecordV1 S P v = Inr m"
  obtains kvs where "v = JObj kvs" "\<not> has_nonfinite v"
    "optional_at ''count_started'' None (clock_value (parse_clock P)) kvs = Inr (cs_count_started m)"
    "optional_at ''count_ended'' None (clock_value (parse_clock P)) kvs = Inr (cs_count_ended m)"
    "required_at ''cells'' (dict_of (dict_of count_value)) kvs = Inr (cs_cells m)"
    "required_at ''in_housing'' (dict_of count_value) kvs = Inr (cs_in_housing m)"
    "required_at ''operational'' (dict_of count_value) kvs = Inr (cs_operational m)"
    "validate_structure_and_times S m = Inr m"
proof -
  from assms obtain kvs a b cells housing operational where kvs: "v = JObj kvs" "\<not> has_nonfinite v"
    "optional_at ''count_started'' None (clock_value (parse_clock P)) kvs = Inr a"
    "optional_at ''count_ended'' None (clock_value (parse_clock P)) kvs = Inr b"
    "required_at ''cells'' (dict_of (dict_of count_value)) kvs = Inr cells"
    "required_at ''in_housing'' (dict_of count_value) kvs = Inr housing"
    "required_at ''operational'' (dict_of count_value) kvs = Inr operational"
    and m: "validate_structure_and_times S \<lparr>cs_count_started = a, cs_count_ended = b, cs_cells = cells,
       cs_in_housing = housing, cs_operational = operational\<rparr> = Inr m"
    unfolding CountSheetRecordV1_def by (cases v) (auto simp del: has_nonfinite.simps split: if_split_asm)
  from m have "m = \<lparr>cs_count_started = a, cs_count_ended = b, cs_cells = cells,
      cs_in_housing = housing, cs_operational = operational\<rparr>" by (simp add: validated_times)
  with kvs m show thesis by (intro that [of kvs]) simp_all
qed

lemma CountSheetRecordV1_ok:
  assumes "CountSheetRecordV1 S P v = Inr m"
  shows "count_sheet_ok S m"
  using assms
proof (rule CountSheetRecordV1_Inr)
  fix kvs
  assume run: "required_at ''cells'' (dict_of (dict_of count_value)) kvs = Inr (cs_cells m)"
    "required_at ''in_housing'' (dict_of count_value) kvs = Inr (cs_in_housing m)"
    "required_at ''operational'' (dict_of count_value) kvs = Inr (cs_operational m)"
    "validate_structure_and_times S m = Inr m"
  then have "\<forall>(a, row) \<in> set (cs_cells m). counts_ok row" by (auto simp: required_at_Inr dest: dict_of_rows)
  moreover have "counts_ok (cs_in_housing m)" "counts_ok (cs_operational m)"
    using run by (auto simp: required_at_Inr dest: dict_of_counts)
  ultimately show ?thesis using run(4) by (auto simp: count_sheet_ok_def validated_times)
qed

lemma entered_ok: "counts_ok kvs \<Longrightarrow> 0 \<le> integer_or_zero (entered kvs k)"
  by (cases "map_of kvs k") (auto simp: counts_ok_def entered_def dest!: map_of_SomeD, simp add: integer_or_zero_def)

lemma cell_ok: "count_sheet_ok S m \<Longrightarrow> 0 \<le> cell m a c"
  by (auto simp: count_sheet_ok_def cell_def split: option.split dest!: map_of_SomeD intro: entered_ok)
    (simp add: integer_or_zero_def)

lemma housing_total_eq:
  "cv_housing_total (calculate_count_totals S m) =
     sum_list (map (\<lambda>c. sum_list (map (\<lambda>a. cell m a c) (AREA_ROWS S))) (HOUSING_COLUMNS S))
     + sum_list (map (\<lambda>c. integer_or_zero (entered (cs_in_housing m) c)) (HOUSING_COLUMNS S))"
  by (simp add: calculate_count_totals_def Let_def comp_def case_prod_unfold sum_list_addf)


section \<open>A stored sheet is read back\<close>

lemma map_values_again:
  "\<forall>(k, x) \<in> set xs. f (g x) = Inr x \<Longrightarrow> map_values f (map (\<lambda>(k, x). (k, g x)) xs) = Inr xs"
  by (induction xs) auto

lemma count_value_again: "counts_ok kvs \<Longrightarrow> (k, n) \<in> set kvs \<Longrightarrow> count_value (json_count n) = Inr n"
  by (auto simp: counts_ok_def json_count_def integer_or_zero_def split: option.splits)

lemma counts_again: "counts_ok kvs \<Longrightarrow> dict_of count_value (json_counts kvs) = Inr kvs"
  unfolding dict_of_def json_counts_def by (auto intro!: map_values_again count_value_again)

lemma finite_counts: "\<not> has_nonfinite (json_counts kvs)"
  by (auto simp: json_counts_def json_count_def list_ex_iff split: option.splits)

definition sheet_input_ok :: "sheet_input \<Rightarrow> bool" where
  "sheet_input_ok P \<longleftrightarrow> is_one P (JInt 1)
     \<and> (\<forall>s t. parse_clock P s = Some t \<longrightarrow> parse_clock P (clock_iso t) = Some t)"

lemma clock_again:
  assumes "sheet_input_ok P" "optional_at k None (clock_value (parse_clock P)) kvs = Inr t"
  shows "clock_value (parse_clock P) (json_clock t) = Inr t"
proof -
  have "clock_value (parse_clock P) v = Inr t \<Longrightarrow> clock_value (parse_clock P) (json_clock t) = Inr t" for v
    using assms(1) by (cases v) (auto simp: clock_value_def json_clock_def sheet_input_ok_def split: option.splits)
  with assms(2) show ?thesis
    by (auto simp: optional_at_def split: option.splits) (simp add: clock_value_def json_clock_def)
qed

lemma count_sheet_stable:
  assumes clocks: "sheet_input_ok P" and run: "CountSheetRecordV1 S P v = Inr m"
  shows "CountSheetRecordV1 S P (JObj (dump_count_sheet m)) = Inr m"
proof -
  have ok: "count_sheet_ok S m" by (rule CountSheetRecordV1_ok [OF run])
  from run obtain kvs where kvs: "optional_at ''count_started'' None (clock_value (parse_clock P)) kvs = Inr (cs_count_started m)"
      "optional_at ''count_ended'' None (clock_value (parse_clock P)) kvs = Inr (cs_count_ended m)"
    and m: "validate_structure_and_times S m = Inr m"
    by (rule CountSheetRecordV1_Inr)
  let ?d = "dump_count_sheet m"
  have get: "obj_get ''schema_version'' ?d = Some (JInt 1)" "obj_get ''count_started'' ?d = Some (json_clock (cs_count_started m))"
    "obj_get ''count_ended'' ?d = Some (json_clock (cs_count_ended m))"
    "obj_get ''cells'' ?d = Some (JObj (map (\<lambda>(a, row). (a, json_counts row)) (cs_cells m)))"
    "obj_get ''in_housing'' ?d = Some (json_counts (cs_in_housing m))"
    "obj_get ''operational'' ?d = Some (json_counts (cs_operational m))"
    by (simp_all add: dump_count_sheet_def obj_get_def)
  have finite_clock: "\<not> has_nonfinite (json_clock t)" for t by (cases t) (simp_all add: json_clock_def)
  have "\<not> has_nonfinite (JObj (map (\<lambda>(a, row). (a, json_counts row)) (cs_cells m)))"
    by (auto simp: list_ex_iff finite_counts)
  then have finite: "\<not> has_nonfinite (JObj ?d)"
    by (simp add: dump_count_sheet_def finite_counts finite_clock)
  have cells: "dict_of (dict_of count_value) (JObj (map (\<lambda>(a, row). (a, json_counts row)) (cs_cells m))) = Inr (cs_cells m)"
    using ok by (auto simp: dict_of_def [of "dict_of count_value"] count_sheet_ok_def intro!: map_values_again counts_again)
  have keys: "set (obj_keys ?d) \<subseteq> {''schema_version'', ''count_started'', ''count_ended'', ''cells'', ''in_housing'', ''operational''}"
    by (simp add: dump_count_sheet_def)
  have "dict_of count_value (json_counts (cs_in_housing m)) = Inr (cs_in_housing m)"
    "dict_of count_value (json_counts (cs_operational m)) = Inr (cs_operational m)"
    using ok by (simp_all add: count_sheet_ok_def counts_again)
  moreover have same: "\<lparr>cs_count_started = cs_count_started m, cs_count_ended = cs_count_ended m,
      cs_cells = cs_cells m, cs_in_housing = cs_in_housing m, cs_operational = cs_operational m\<rparr> = m"
    by (cases m) simp
  moreover have "is_one P (JInt 1)" using clocks by (simp add: sheet_input_ok_def)
  ultimately show ?thesis using finite keys cells
    by (simp add: CountSheetRecordV1_def optional_at_def required_at_def get same clock_again [OF clocks kvs(1)]
        clock_again [OF clocks kvs(2)] m del: has_nonfinite.simps)
qed

section \<open>What the forms promise\<close>

text \<open>
  C35. A count is balanced exactly when every row of the template has been given a number and the
  numbers on the left of the reconciliation add up to those on the right; the two totals and
  their difference are these sums, and the rows reported missing are those without a number.
\<close>

theorem balance_exact:
  assumes "parse_count_sheet_template v = Inr t" "calculate_count_sheet t (JObj kvs) = Inr c"
  shows "cc_left_total c = sum_list (map (\<lambda>i. number_at i kvs) (rows_on Side_Left t))
    \<and> cc_right_total c = sum_list (map (\<lambda>i. number_at i kvs) (rows_on Side_Right t))
    \<and> (cc_balanced c \<longleftrightarrow> (\<forall>i \<in> set (ordered_rows t). is_entered i kvs)
        \<and> sum_list (map (\<lambda>i. number_at i kvs) (rows_on Side_Left t))
          = sum_list (map (\<lambda>i. number_at i kvs) (rows_on Side_Right t)))
    \<and> cc_difference c = sum_list (map (\<lambda>i. number_at i kvs) (rows_on Side_Left t))
        - sum_list (map (\<lambda>i. number_at i kvs) (rows_on Side_Right t))
    \<and> set (cc_missing_row_ids c) = {i \<in> set (ordered_rows t). \<not> is_entered i kvs}"
  using calculate_Inr(1-5) [OF assms(2) parsed_template_ok [OF assms(1)]]
  by (auto simp: filter_empty_conv)

definition example_template :: json where
  "example_template =
     (let section = \<lambda>i side r. JObj [(''section_id'', JStr i), (''label'', JStr ''A section''),
        (''reconciliation_side'', JStr side), (''rows'', JArr [JObj [(''row_id'', JStr r),
          (''label'', JStr ''A row''), (''help_text'', JNull)]])]
      in JObj [(''schema_version'', JInt 1), (''template_code'', JStr ''ncu''), (''title'', JStr ''Count''),
        (''sections'', JArr [section ''s1'' ''left'' ''r1'', section ''s2'' ''right'' ''r2''])])"

definition example_count :: "(string \<times> json) list" where
  "example_count = [(''r1'', JInt 7), (''r2'', JInt 7)]"

lemma balance_exact_witness:
  "case parse_count_sheet_template example_template of Inl e \<Rightarrow> False
   | Inr t \<Rightarrow> (case calculate_count_sheet t (JObj example_count) of Inl e \<Rightarrow> False | Inr c \<Rightarrow> cc_balanced c)"
proof -
  have run: "case parse_count_sheet_template example_template of Inl e \<Rightarrow> False
     | Inr t \<Rightarrow> ordered_rows t = [''r1'', ''r2''] \<and> rows_on Side_Left t = [''r1''] \<and> rows_on Side_Right t = [''r2'']
         \<and> is_ok (calculate_count_sheet t (JObj example_count))"
    by code_simp
  then obtain t where t: "parse_count_sheet_template example_template = Inr t"
      "ordered_rows t = [''r1'', ''r2'']" "rows_on Side_Left t = [''r1'']" "rows_on Side_Right t = [''r2'']"
      "is_ok (calculate_count_sheet t (JObj example_count))"
    by (auto split: sum.splits)
  then obtain c where c: "calculate_count_sheet t (JObj example_count) = Inr c"
    by (cases "calculate_count_sheet t (JObj example_count)") auto
  from balance_exact [OF t(1) c] have "cc_balanced c"
    by (simp add: t(2-4) is_entered_def number_at_def at_key_def obj_get_def example_count_def)
  with t(1) c show ?thesis by simp
qed

text \<open>
  The totals of a count sheet agree however they are added up: the totals by area and the
  totals by housing column have the same sum, the housing total is that sum and the numbers in
  housing, no total of an accepted sheet is negative, and the sheet is reconciled exactly when
  the housing total is the operational total.
\<close>

theorem count_totals_agree:
  assumes "CountSheetRecordV1 S P v = Inr m" "T = calculate_count_totals S m"
  shows "sum_list (map snd (cv_row_totals T)) = sum_list (map snd (cv_out_of_housing T))
    \<and> cv_housing_total T = sum_list (map snd (cv_row_totals T))
        + sum_list (map (\<lambda>c. integer_or_zero (entered (cs_in_housing m) c)) (HOUSING_COLUMNS S))
    \<and> 0 \<le> cv_housing_total T \<and> 0 \<le> cv_operational_total T
    \<and> (cv_reconciled T \<longleftrightarrow> cv_housing_total T = cv_operational_total T)"
proof -
  have ok: "count_sheet_ok S m" by (rule CountSheetRecordV1_ok [OF assms(1)])
  have rows: "sum_list (map snd (cv_row_totals T)) = sum_list (map (\<lambda>c. sum_list (map (\<lambda>a. cell m a c) (AREA_ROWS S))) (HOUSING_COLUMNS S))"
    using sum_list_swap [of "\<lambda>a c. cell m a c" "HOUSING_COLUMNS S" "AREA_ROWS S"]
    by (simp add: assms(2) calculate_count_totals_def Let_def comp_def)
  have nonneg: "0 \<le> sum_list (map f xs)" if "\<And>x. 0 \<le> (f x :: int)" for f and xs :: "string list"
    using that by (induction xs) auto
  have columns: "sum_list (map snd (cv_out_of_housing T)) = sum_list (map (\<lambda>c. sum_list (map (\<lambda>a. cell m a c) (AREA_ROWS S))) (HOUSING_COLUMNS S))"
    by (simp add: assms(2) calculate_count_totals_def Let_def comp_def)
  have "0 \<le> cv_operational_total T"
    using ok by (auto simp: assms(2) calculate_count_totals_def Let_def count_sheet_ok_def intro!: nonneg entered_ok)
  moreover have "0 \<le> sum_list (map (\<lambda>c. integer_or_zero (entered (cs_in_housing m) c)) (HOUSING_COLUMNS S))"
    "0 \<le> sum_list (map (\<lambda>c. sum_list (map (\<lambda>a. cell m a c) (AREA_ROWS S))) (HOUSING_COLUMNS S))"
    using ok by (auto simp: count_sheet_ok_def intro!: nonneg entered_ok cell_ok)
  moreover have "cv_reconciled T \<longleftrightarrow> cv_housing_total T = cv_operational_total T"
    by (simp add: assms(2) calculate_count_totals_def Let_def)
  ultimately show ?thesis using rows columns housing_total_eq [of S m] by (simp add: assms(2))
qed

definition example_structure :: sheet_structure where
  "example_structure = \<lparr>HOUSING_COLUMNS = [''1'', ''Iso''], AREA_ROWS = [''Chapel'', ''Gym''],
     OPERATIONAL_FIELDS = [''on_site''], ATTACHMENT_REMINDERS = [], COUNT_SHEET_TITLE = ''Count''\<rparr>"

definition example_input :: sheet_input where
  "example_input = \<lparr>parse_clock = (\<lambda>_. None), is_one = (\<lambda>v. v = JInt 1)\<rparr>"

definition example_sheet :: json where
  "example_sheet = JObj [(''cells'', JObj [(''Chapel'', JObj [(''1'', JInt 2), (''Iso'', JNull)]),
       (''Gym'', JObj [(''1'', JInt 3), (''Iso'', JInt 1)])]),
     (''in_housing'', JObj [(''1'', JInt 40), (''Iso'', JInt 4)]), (''operational'', JObj [(''on_site'', JInt 50)])]"

lemma count_totals_agree_witness:
  "case CountSheetRecordV1 example_structure example_input example_sheet of Inl e \<Rightarrow> False
   | Inr m \<Rightarrow> cv_reconciled (calculate_count_totals example_structure m)"
proof -
  define m where "m = \<lparr>cs_count_started = None, cs_count_ended = None,
    cs_cells = [(''Chapel'', [(''1'', Some 2), (''Iso'', None)]), (''Gym'', [(''1'', Some 3), (''Iso'', Some 1)])],
    cs_in_housing = [(''1'', Some 40), (''Iso'', Some 4)], cs_operational = [(''on_site'', Some 50)]\<rparr>"
  have "CountSheetRecordV1 example_structure example_input example_sheet = Inr m"
    by (simp add: CountSheetRecordV1_def example_input_def example_sheet_def example_structure_def optional_at_def required_at_def
        obj_get_def dict_of_def validated_times has_keys_def m_def del: bind_result_eq_Inr)
  moreover from count_totals_agree [OF this refl]
  have "cv_reconciled (calculate_count_totals example_structure m) \<longleftrightarrow>
      cv_housing_total (calculate_count_totals example_structure m) = cv_operational_total (calculate_count_totals example_structure m)"
    by blast
  then have "cv_reconciled (calculate_count_totals example_structure m)"
    by (simp add: calculate_count_totals_def m_def example_structure_def cell_def entered_def integer_or_zero_def Let_def)
  ultimately show ?thesis by simp
qed

end
