(* ===== verification/DailyForms.thy ===== *)
theory DailyForms
  imports Contents PyText "HOL-Library.AList"
begin

text \<open>
  The daily forms (\<open>src/backend/paperwork/daily.py\<close>): the closed models of the six payloads, the
  coverage warnings of an assignment roster, the roster copied to another day, and the uniform
  inspection derived from a roster.

  A model class is the table of its fields with their defaults and checks, as in \<open>Contents\<close>, and
  a validated model the dictionary that \<open>model_dump(mode="json")\<close> gives. These models are not
  strict: what pydantic makes of a value that is not yet a UUID, a date, a number or a Boolean is
  a parameter. The approved templates are data and arguments.
\<close>

named_theorems stable_intros \<open>checks whose result passes the check again\<close>

section \<open>Template data\<close>

type_synonym obj = "(string \<times> json) list"

record form_templates =
  ROSTER_ZONE_POSTS :: "(string \<times> string list) list"
  ROSTER_POST_METADATA :: "(string \<times> string \<times> string) list"
  PERIMETER_CHECK_CODES :: "string list"

definition py_str_at :: "string \<Rightarrow> json \<Rightarrow> string result" where
  "py_str_at k v = bind_result (subscript k v) (\<lambda>x. Inr (py_str x))"

definition items_of :: "string \<Rightarrow> json \<Rightarrow> json list result" where
  "items_of k v = bind_result (subscript k v) py_items"

definition zone_posts :: "json \<Rightarrow> (string \<times> string list) result" where
  "zone_posts zone =
     bind_result (py_str_at ''code'' zone) (\<lambda>c.
     bind_result (items_of ''posts'' zone) (\<lambda>posts.
     bind_result (map_result (py_str_at ''code'') posts) (\<lambda>codes. Inr (c, codes))))"

definition post_metadata :: "json \<Rightarrow> (string \<times> string \<times> string) result" where
  "post_metadata post =
     bind_result (py_str_at ''code'' post) (\<lambda>c.
     bind_result (py_str_at ''label'' post) (\<lambda>l.
     bind_result (py_str_at ''priority'' post) (\<lambda>p. Inr (c, l, p))))"

definition assigned_dict :: "('k \<times> 'v) list \<Rightarrow> ('k \<times> 'v) list" where
  "assigned_dict kvs = fold (\<lambda>(k, v). AList.update k v) kvs []"

definition form_templates_of :: "json \<Rightarrow> json \<Rightarrow> form_templates result" where
  "form_templates_of roster perimeter =
     bind_result (items_of ''zones'' roster) (\<lambda>zones.
     bind_result (map_result zone_posts zones) (\<lambda>zs.
     bind_result (items_of ''groups'' perimeter) (\<lambda>groups.
     bind_result (map_result (items_of ''items'') groups) (\<lambda>items.
     bind_result (map_result (py_str_at ''code'') (concat items)) (\<lambda>checks.
     bind_result (map_result (items_of ''posts'') zones) (\<lambda>posts.
     bind_result (map_result post_metadata (concat posts)) (\<lambda>ms.
       Inr \<lparr>ROSTER_ZONE_POSTS = assigned_dict zs, ROSTER_POST_METADATA = assigned_dict ms,
            PERIMETER_CHECK_CODES = checks\<rparr>)))))))"

definition ROSTER_ZONE_CODES :: "form_templates \<Rightarrow> string list" where
  "ROSTER_ZONE_CODES T = map fst (ROSTER_ZONE_POSTS T)"

definition SECURITY_EQUIPMENT_KEYS :: "string list" where
  "SECURITY_EQUIPMENT_KEYS = [''digital_camera'', ''video_camera_go_pro'', ''metal_detector_wands'']"

definition DETECTOR_CODES :: "string list" where
  "DETECTOR_CODES = map nat_str [1..<12]"

definition DETECTOR_POSITION_CODES :: "string list" where
  "DETECTOR_POSITION_CODES = map (\<lambda>n. ''position_'' @ nat_str n) [1..<8]"

definition RANDOM_SEARCH_SECTION_CODES :: "string list" where
  "RANDOM_SEARCH_SECTION_CODES = [''north_1'', ''north_2'', ''south_1'', ''south_2'']"

definition DETECTOR_SIGN_OUT_CODES :: "string list" where
  "DETECTOR_SIGN_OUT_CODES = map (\<lambda>n. CHR ''D'' # nat_str n) [1..<10]"

section \<open>Checks of fields\<close>

text \<open>
  What pydantic accepts for a UUID, a date, a time, an instant, a whole number and a Boolean, and
  what \<open>Literal[1]\<close> accepts; dates and times are given as the ISO text it writes.
\<close>

record coercions =
  co_uuid :: "json \<Rightarrow> uuid option"
  co_date :: "json \<Rightarrow> string option"
  co_time :: "json \<Rightarrow> string option"
  co_datetime :: "json \<Rightarrow> string option"
  co_int :: "json \<Rightarrow> int option"
  co_bool :: "json \<Rightarrow> bool option"
  literal_one :: "json \<Rightarrow> bool"

type_synonym check = "json \<Rightarrow> json result"

definition coerced :: "('a \<Rightarrow> json) \<Rightarrow> (json \<Rightarrow> 'a option) \<Rightarrow> check" where
  "coerced write read v = (case read v of None \<Rightarrow> Inl ValidationError | Some x \<Rightarrow> Inr (write x))"

definition uuid_field :: "coercions \<Rightarrow> check" where
  "uuid_field C = coerced (\<lambda>u. JStr (uuid_str u)) (co_uuid C)"

definition date_field :: "coercions \<Rightarrow> check" where
  "date_field C = coerced JStr (co_date C)"

definition time_field :: "coercions \<Rightarrow> check" where
  "time_field C = coerced JStr (co_time C)"

definition datetime_field :: "coercions \<Rightarrow> check" where
  "datetime_field C = coerced JStr (co_datetime C)"

definition bool_field :: "coercions \<Rightarrow> check" where
  "bool_field C = coerced JBool (co_bool C)"

definition positive_field :: "coercions \<Rightarrow> check" where
  "positive_field C = coerced JInt (\<lambda>v. case co_int C v of None \<Rightarrow> None | Some i \<Rightarrow> if 1 \<le> i then Some i else None)"

definition version_field :: "coercions \<Rightarrow> field" where
  "version_field C = (''schema_version'', Some (JInt 1), \<lambda>v. if literal_one C v then Inr (JInt 1) else Inl ValidationError)"

fun str_field :: "nat \<Rightarrow> nat \<Rightarrow> check" where
  "str_field lo hi (JStr s) = accept (lo \<le> length s \<and> length s \<le> hi) (JStr s)"
| "str_field lo hi _ = Inl ValidationError"

text \<open>A text whose white space is squeezed after its length has been checked.\<close>

fun squeezed_field :: "nat \<Rightarrow> nat \<Rightarrow> check" where
  "squeezed_field lo hi (JStr s) =
     (if lo \<le> length s \<and> length s \<le> hi \<and> squeeze s \<noteq> [] then Inr (JStr (squeeze s)) else Inl ValidationError)"
| "squeezed_field lo hi _ = Inl ValidationError"

fun choice_field :: "string list \<Rightarrow> check" where
  "choice_field ws (JStr s) = accept (s \<in> set ws) (JStr s)"
| "choice_field ws _ = Inl ValidationError"

definition optional :: "check \<Rightarrow> check" where
  "optional c v = (if v = JNull then Inr JNull else c v)"

definition array_field :: "(nat \<Rightarrow> bool) \<Rightarrow> check \<Rightarrow> check" where
  "array_field p c v =
     (case v of
        JArr vs \<Rightarrow> if p (length vs) then bind_result (map_result c vs) (\<lambda>ws. Inr (JArr ws)) else Inl ValidationError
      | _ \<Rightarrow> Inl ValidationError)"

definition dict_field :: "check \<Rightarrow> check" where
  "dict_field c v =
     (case v of
        JObj kvs \<Rightarrow> bind_result (map_result (\<lambda>(k, x). bind_result (c x) (\<lambda>y. Inr (k, y))) kvs) (\<lambda>ws. Inr (JObj ws))
      | _ \<Rightarrow> Inl ValidationError)"

text \<open>A model that forbids other members, with the validator that runs after the fields.\<close>

definition closed_model :: "field list \<Rightarrow> (obj \<Rightarrow> bool) \<Rightarrow> check" where
  "closed_model fs after v =
     (case v of
        JObj kvs \<Rightarrow>
          if \<not> set (obj_keys kvs) \<subseteq> set (map fst fs) then Inl ValidationError
          else bind_result (fill_fields fs kvs) (\<lambda>p. if after p then Inr (JObj p) else Inl ValidationError)
      | _ \<Rightarrow> Inl ValidationError)"

text \<open>Attributes of a validated model.\<close>

definition attr :: "string \<Rightarrow> json \<Rightarrow> json" where
  "attr k v = (case v of JObj kvs \<Rightarrow> at_key k kvs | _ \<Rightarrow> JNull)"

definition elems :: "json \<Rightarrow> json list" where
  "elems v = (case v of JArr vs \<Rightarrow> vs | _ \<Rightarrow> [])"

definition string_of :: "json \<Rightarrow> string" where
  "string_of v = (case v of JStr s \<Rightarrow> s | _ \<Rightarrow> [])"

abbreviation short_text :: check where "short_text \<equiv> str_field 0 160"
abbreviation required_short_text :: check where "required_short_text \<equiv> str_field 1 160"

section \<open>Staff and posts\<close>

definition StaffSelection :: "coercions \<Rightarrow> check" where
  "StaffSelection C = closed_model
     [(''staff_id'', None, uuid_field C),
      (''display_name_snapshot'', None, squeezed_field 1 160)] (\<lambda>_. True)"

definition base_fields :: "coercions \<Rightarrow> field list" where
  "base_fields C =
     [version_field C,
      (''work_date'', None, date_field C),
      (''shift'', None, squeezed_field 1 32)]"

definition ASSIGNMENT_STATES :: "string list" where
  "ASSIGNMENT_STATES = [''unassigned'', ''assigned'', ''no_officer_available'']"

definition inferred_state :: "obj \<Rightarrow> string \<Rightarrow> string \<Rightarrow> obj \<Rightarrow> obj" where
  "inferred_state original staff state kvs =
     (if obj_get state kvs = None
      then kvs @ [(state, JStr (if at_key staff original \<noteq> JNull then ''assigned'' else ''unassigned''))]
      else kvs)"

definition infer_legacy_assignment_states :: "json \<Rightarrow> json" where
  "infer_legacy_assignment_states v =
     (case v of
        JObj kvs \<Rightarrow> JObj (inferred_state kvs ''rotation_staff'' ''rotation_state''
          (inferred_state kvs ''initial_staff'' ''initial_state'' kvs))
      | _ \<Rightarrow> v)"

definition match_assignment_states_to_staff :: "obj \<Rightarrow> bool" where
  "match_assignment_states_to_staff p \<longleftrightarrow>
     (at_key ''initial_state'' p = JStr ''assigned'') = (at_key ''initial_staff'' p \<noteq> JNull)
     \<and> (at_key ''rotation_state'' p = JStr ''assigned'') = (at_key ''rotation_staff'' p \<noteq> JNull)"

definition post_fields :: "coercions \<Rightarrow> field list" where
  "post_fields C =
     [(''post_code'', None, str_field 1 80),
      (''initial_staff'', Some JNull, optional (StaffSelection C)),
      (''rotation_staff'', Some JNull, optional (StaffSelection C)),
      (''initial_state'', Some (JStr ''unassigned''), choice_field ASSIGNMENT_STATES),
      (''rotation_state'', Some (JStr ''unassigned''), choice_field ASSIGNMENT_STATES)]"

definition PostAssignment :: "coercions \<Rightarrow> check" where
  "PostAssignment C v =
     closed_model (post_fields C) match_assignment_states_to_staff (infer_legacy_assignment_states v)"

definition ZoneAssignment :: "coercions \<Rightarrow> check" where
  "ZoneAssignment C = closed_model
     [(''zone_code'', None, str_field 1 80),
      (''supervisor'', Some JNull, optional (StaffSelection C)),
      (''posts'', None, array_field (\<lambda>n. n \<le> 40) (PostAssignment C))] (\<lambda>_. True)"

definition LeaveEntry :: "coercions \<Rightarrow> check" where
  "LeaveEntry C = closed_model
     [(''staff'', None, StaffSelection C),
      (''leave_time'', Some (JStr []), short_text),
      (''leave_type'', Some (JStr []), short_text)] (\<lambda>_. True)"

definition ExtraAssignment :: "coercions \<Rightarrow> check" where
  "ExtraAssignment C = closed_model
     [(''label'', None, required_short_text),
      (''staff'', Some JNull, optional (StaffSelection C))] (\<lambda>_. True)"

section \<open>The six payloads\<close>

definition zone_matches :: "form_templates \<Rightarrow> json \<Rightarrow> bool" where
  "zone_matches T zone \<longleftrightarrow>
     (let codes = map (attr ''post_code'') (elems (attr ''posts'' zone));
          approved = (case map_of (ROSTER_ZONE_POSTS T) (string_of (attr ''zone_code'' zone)) of
            None \<Rightarrow> [] | Some cs \<Rightarrow> cs)
      in length codes = length approved \<and> set codes = JStr ` set approved)"

definition match_approved_roster_structure :: "form_templates \<Rightarrow> obj \<Rightarrow> bool" where
  "match_approved_roster_structure T p \<longleftrightarrow>
     (let zones = elems (at_key ''zones'' p)
      in map (attr ''zone_code'') zones = map JStr (ROSTER_ZONE_CODES T)
         \<and> list_all (zone_matches T) zones
         \<and> (case at_key ''equipment'' p of JObj kvs \<Rightarrow> has_keys SECURITY_EQUIPMENT_KEYS kvs | _ \<Rightarrow> False))"

definition roster_fields :: "coercions \<Rightarrow> field list" where
  "roster_fields C = base_fields C @
     [(''captain'', Some JNull, optional (StaffSelection C)),
      (''lieutenant'', Some JNull, optional (StaffSelection C)),
      (''duty_warden'', Some JNull, optional short_text),
      (''alternate_shift_supervisor'', Some JNull, optional (StaffSelection C)),
      (''leave_entries'', Some (JArr []), array_field (\<lambda>n. n \<le> 40) (LeaveEntry C)),
      (''extra_assignments'', Some (JArr []), array_field (\<lambda>n. n \<le> 40) (ExtraAssignment C)),
      (''zones'', None, array_field (\<lambda>_. True) (ZoneAssignment C)),
      (''briefing_minutes'', Some (JStr []), str_field 0 10000),
      (''roll_call_completed'', Some (JBool False), bool_field C),
      (''uniform_inspection_completed'', Some (JBool False), bool_field C),
      (''equipment'', None, dict_field (choice_field [''yes'', ''no'', ''not_checked''])),
      (''briefing_guests'', Some (JArr []), array_field (\<lambda>n. n \<le> 20) required_short_text),
      (''assigned_and_dismissed'', Some (JBool False), bool_field C),
      (''lieutenant_signature_name'', Some JNull, optional short_text)]"

definition AssignmentRosterV1 :: "form_templates \<Rightarrow> coercions \<Rightarrow> check" where
  "AssignmentRosterV1 T C = closed_model (roster_fields C) (match_approved_roster_structure T)"

definition INSPECTION_PARTS :: "string list" where
  "INSPECTION_PARTS = [''shirt'', ''pants'', ''shoes'', ''cap'', ''coat'', ''id'', ''hair'', ''nails'']"

definition require_comment_for_unsatisfactory_result :: "obj \<Rightarrow> bool" where
  "require_comment_for_unsatisfactory_result p \<longleftrightarrow>
     \<not> (list_ex (\<lambda>k. at_key k p = JStr ''U'') INSPECTION_PARTS \<and> strip (string_of (at_key ''comments'' p)) = [])"

definition UniformInspectionRow :: "coercions \<Rightarrow> check" where
  "UniformInspectionRow C = closed_model
     ((''staff'', None, StaffSelection C)
      # map (\<lambda>k. (k, Some JNull, optional (choice_field [''S'', ''N/I'', ''U'', ''NONE'']))) INSPECTION_PARTS
      @ [(''comments'', Some (JStr []), str_field 0 500)])
     require_comment_for_unsatisfactory_result"

definition row_staff_id :: "json \<Rightarrow> json" where
  "row_staff_id row = attr ''staff_id'' (attr ''staff'' row)"

definition reject_duplicate_staff :: "obj \<Rightarrow> bool" where
  "reject_duplicate_staff p \<longleftrightarrow>
     distinct (map row_staff_id (elems (at_key ''rows'' p)))
     \<and> (at_key ''roster_record_id'' p = JNull) = (at_key ''roster_revision_number'' p = JNull)"

definition UniformInspectionV1 :: "coercions \<Rightarrow> check" where
  "UniformInspectionV1 C = closed_model
     (base_fields C @
      [(''roster_record_id'', Some JNull, optional (uuid_field C)),
       (''roster_revision_number'', Some JNull, optional (positive_field C)),
       (''inspector'', Some JNull, optional (StaffSelection C)),
       (''rows'', Some (JArr []), array_field (\<lambda>n. n \<le> 250) (UniformInspectionRow C))])
     reject_duplicate_staff"

definition DetectorPositionTest :: check where
  "DetectorPositionTest = closed_model
     [(''position_code'', None, str_field 1 80),
      (''result'', Some JNull, optional (choice_field [''P'', ''F'']))] (\<lambda>_. True)"

definition codes_are :: "string \<Rightarrow> string list \<Rightarrow> json \<Rightarrow> bool" where
  "codes_are k codes v \<longleftrightarrow> map (attr k) (elems v) = map JStr codes"

definition validate_positions_and_failures :: "obj \<Rightarrow> bool" where
  "validate_positions_and_failures p \<longleftrightarrow>
     codes_are ''position_code'' DETECTOR_POSITION_CODES (at_key ''tests'' p)
     \<and> \<not> (list_ex (\<lambda>t. attr ''result'' t = JStr ''F'') (elems (at_key ''tests'' p))
          \<and> strip (string_of (at_key ''corrective_action'' p)) = [])"

definition DetectorTestRow :: check where
  "DetectorTestRow = closed_model
     [(''detector_code'', None, str_field 1 16),
      (''location'', Some (JStr []), short_text),
      (''equipment_identifier'', Some (JStr []), short_text),
      (''tests'', None, array_field (\<lambda>_. True) DetectorPositionTest),
      (''corrective_action'', Some (JStr []), str_field 0 2000)]
     validate_positions_and_failures"

definition MetalDetectorTestV1 :: "coercions \<Rightarrow> check" where
  "MetalDetectorTestV1 C = closed_model
     (base_fields C @
      [(''detectors'', None, array_field (\<lambda>_. True) DetectorTestRow),
       (''tested_by'', Some JNull, optional (StaffSelection C)),
       (''reviewed_by'', Some JNull, optional (StaffSelection C)),
       (''comments'', Some (JStr []), str_field 0 10000)])
     (\<lambda>p. codes_are ''detector_code'' DETECTOR_CODES (at_key ''detectors'' p))"

definition PerimeterCheckResult :: check where
  "PerimeterCheckResult = closed_model
     [(''check_code'', None, str_field 1 100),
      (''result'', Some JNull, optional (choice_field [''S'', ''U'']))] (\<lambda>_. True)"

definition PerimeterCheckV1 :: "form_templates \<Rightarrow> coercions \<Rightarrow> check" where
  "PerimeterCheckV1 T C = closed_model
     (base_fields C @
      [(''checks'', None, array_field (\<lambda>_. True) PerimeterCheckResult),
       (''perimeter_inspector'', Some JNull, optional (StaffSelection C)),
       (''perimeter_signature_name'', Some JNull, optional short_text),
       (''perimeter_inspected_at'', Some JNull, optional (datetime_field C)),
       (''senstar_inspector'', Some JNull, optional (StaffSelection C)),
       (''supervisor_signature_name'', Some JNull, optional short_text),
       (''supervisor_signed_at'', Some JNull, optional (datetime_field C))])
     (\<lambda>p. codes_are ''check_code'' (PERIMETER_CHECK_CODES T) (at_key ''checks'' p))"

definition RandomSearchBlock :: "coercions \<Rightarrow> check" where
  "RandomSearchBlock C = closed_model
     [(''officer'', Some JNull, optional (StaffSelection C)),
      (''search_date'', Some JNull, optional (date_field C)),
      (''search_time'', Some JNull, optional (time_field C)),
      (''individual_last_name'', Some (JStr []), short_text),
      (''individual_number'', Some (JStr []), str_field 0 64),
      (''barracks_rack'', Some (JStr []), short_text),
      (''contraband_disposition'', Some (JStr []), str_field 0 2000)] (\<lambda>_. True)"

definition RandomSearchSection :: "coercions \<Rightarrow> check" where
  "RandomSearchSection C = closed_model
     [(''section_code'', None, str_field 1 32),
      (''blocks'', None, array_field (\<lambda>n. n = 4) (RandomSearchBlock C))] (\<lambda>_. True)"

definition RandomSearchLogV1 :: "coercions \<Rightarrow> check" where
  "RandomSearchLogV1 C = closed_model
     (base_fields C @ [(''sections'', None, array_field (\<lambda>_. True) (RandomSearchSection C))])
     (\<lambda>p. codes_are ''section_code'' RANDOM_SEARCH_SECTION_CODES (at_key ''sections'' p))"

definition DetectorSignOutRow :: "coercions \<Rightarrow> check" where
  "DetectorSignOutRow C = closed_model
     [(''unit_code'', None, str_field 1 16),
      (''staff'', Some JNull, optional (StaffSelection C)),
      (''area_of_assignment'', Some (JStr []), short_text)] (\<lambda>_. True)"

definition DetectorSignOutV1 :: "coercions \<Rightarrow> check" where
  "DetectorSignOutV1 C = closed_model
     (base_fields C @
      [(''units'', None, array_field (\<lambda>_. True) (DetectorSignOutRow C)),
       (''shift_supervisor'', Some JNull, optional (StaffSelection C)),
       (''sign_out_date'', Some JNull, optional (date_field C))])
     (\<lambda>p. codes_are ''unit_code'' DETECTOR_SIGN_OUT_CODES (at_key ''units'' p))"

datatype daily_kind =
  Assignment_Roster | Uniform_Inspection | Metal_Detector_Test | Perimeter_Check | Random_Search_Log
  | Detector_Sign_Out

fun daily_kind_text :: "daily_kind \<Rightarrow> string" where
  "daily_kind_text Assignment_Roster = ''assignment_roster''"
| "daily_kind_text Uniform_Inspection = ''uniform_inspection''"
| "daily_kind_text Metal_Detector_Test = ''metal_detector_test''"
| "daily_kind_text Perimeter_Check = ''perimeter_check''"
| "daily_kind_text Random_Search_Log = ''random_search_log''"
| "daily_kind_text Detector_Sign_Out = ''detector_sign_out''"

fun DAILY_PAYLOAD_MODELS :: "form_templates \<Rightarrow> coercions \<Rightarrow> daily_kind \<Rightarrow> check" where
  "DAILY_PAYLOAD_MODELS T C Assignment_Roster = AssignmentRosterV1 T C"
| "DAILY_PAYLOAD_MODELS T C Uniform_Inspection = UniformInspectionV1 C"
| "DAILY_PAYLOAD_MODELS T C Metal_Detector_Test = MetalDetectorTestV1 C"
| "DAILY_PAYLOAD_MODELS T C Perimeter_Check = PerimeterCheckV1 T C"
| "DAILY_PAYLOAD_MODELS T C Random_Search_Log = RandomSearchLogV1 C"
| "DAILY_PAYLOAD_MODELS T C Detector_Sign_Out = DetectorSignOutV1 C"

definition DAILY_KINDS :: "daily_kind list" where
  "DAILY_KINDS = [Assignment_Roster, Uniform_Inspection, Metal_Detector_Test, Perimeter_Check,
     Random_Search_Log, Detector_Sign_Out]"

definition daily_kind_of :: "string \<Rightarrow> daily_kind option" where
  "daily_kind_of s = find_row daily_kind_text s DAILY_KINDS"

definition validate_daily_payload ::
  "form_templates \<Rightarrow> coercions \<Rightarrow> string \<Rightarrow> json \<Rightarrow> json result" where
  "validate_daily_payload T C kind payload =
     (case daily_kind_of kind of
        None \<Rightarrow> Inl (ValueError ''daily paperwork kind is invalid'')
      | Some k \<Rightarrow> DAILY_PAYLOAD_MODELS T C k payload)"

section \<open>Coverage of a roster\<close>

datatype coverage_code = P1_Unfilled | Duplicate_Initial_Assignment | Duplicate_Rotation_Assignment

record coverage_warning =
  cw_code :: coverage_code
  cw_message :: string
  cw_zone_code :: json
  cw_post_code :: "json option"
  cw_staff_id :: "json option"

text \<open>The posts of a validated roster with their zones, in the order of the form.\<close>

definition roster_posts :: "json \<Rightarrow> (json \<times> json) list" where
  "roster_posts m =
     concat (map (\<lambda>zone. map (\<lambda>post. (attr ''zone_code'' zone, post)) (elems (attr ''posts'' zone)))
       (elems (attr ''zones'' m)))"

definition metadata_of_post :: "form_templates \<Rightarrow> json \<Rightarrow> (string \<times> string) option" where
  "metadata_of_post T post = map_of (ROSTER_POST_METADATA T) (string_of (attr ''post_code'' post))"

definition is_p1 :: "form_templates \<Rightarrow> json \<Rightarrow> bool" where
  "is_p1 T post \<longleftrightarrow> (case metadata_of_post T post of None \<Rightarrow> False | Some (l, p) \<Rightarrow> p = ''P1'')"

definition unfilled_warnings :: "form_templates \<Rightarrow> json \<Rightarrow> coverage_warning list" where
  "unfilled_warnings T m =
     map (\<lambda>(zone, post). \<lparr>cw_code = P1_Unfilled,
         cw_message = fst (the (metadata_of_post T post)) @ '' requires an initial assignment.'',
         cw_zone_code = zone, cw_post_code = Some (attr ''post_code'' post), cw_staff_id = None\<rparr>)
       (filter (\<lambda>(zone, post). is_p1 T post \<and> attr ''initial_staff'' post = JNull) (roster_posts m))"

text \<open>\<open>assignments.setdefault(staff_id, []).append((zone, post))\<close>.\<close>

definition add_location :: "json \<Rightarrow> 'l \<Rightarrow> (json \<times> 'l list) list \<Rightarrow> (json \<times> 'l list) list" where
  "add_location i l acc = AList.update i ((case map_of acc i of None \<Rightarrow> [] | Some ls \<Rightarrow> ls) @ [l]) acc"

definition p1_assignments :: "form_templates \<Rightarrow> string \<Rightarrow> json \<Rightarrow> (json \<times> json \<times> json) list" where
  "p1_assignments T attribute m =
     map (\<lambda>(zone, post). (attr ''staff_id'' (attr attribute post), zone, attr ''post_code'' post))
       (filter (\<lambda>(zone, post). is_p1 T post \<and> attr attribute post \<noteq> JNull) (roster_posts m))"

definition locations_of :: "(json \<times> 'l) list \<Rightarrow> (json \<times> 'l list) list" where
  "locations_of ps = fold (\<lambda>(i, l). add_location i l) ps []"

definition duplicate_warnings ::
  "form_templates \<Rightarrow> string \<Rightarrow> coverage_code \<Rightarrow> string \<Rightarrow> json \<Rightarrow> coverage_warning list" where
  "duplicate_warnings T attribute kind label m =
     map (\<lambda>(i, ls). \<lparr>cw_code = kind,
         cw_message = ''One staff member has multiple simultaneous '' @ label @ '' P1 assignments.'',
         cw_zone_code = fst (hd ls), cw_post_code = None, cw_staff_id = Some i\<rparr>)
       (filter (\<lambda>(i, ls). 2 \<le> length ls) (locations_of (p1_assignments T attribute m)))"

definition coverage_warnings :: "form_templates \<Rightarrow> json \<Rightarrow> coverage_warning list" where
  "coverage_warnings T m =
     unfilled_warnings T m
     @ duplicate_warnings T ''initial_staff'' Duplicate_Initial_Assignment ''initial'' m
     @ duplicate_warnings T ''rotation_staff'' Duplicate_Rotation_Assignment ''rotation'' m"

text \<open>A roster that has been validated passes the validation unchanged.\<close>

definition calculate_roster_coverage ::
  "form_templates \<Rightarrow> coercions \<Rightarrow> json \<Rightarrow> coverage_warning list result" where
  "calculate_roster_coverage T C roster =
     bind_result (AssignmentRosterV1 T C roster) (\<lambda>m.
       if \<not> list_all (\<lambda>(zone, post). metadata_of_post T post \<noteq> None) (roster_posts m) then Inl KeyError
       else Inr (coverage_warnings T m))"

section \<open>A roster for another day, and its inspection\<close>

definition dict_update :: "obj \<Rightarrow> obj \<Rightarrow> obj" where
  "dict_update new kvs = fold (\<lambda>(k, v). AList.update k v) new kvs"

definition without_staff :: "json \<Rightarrow> json" where
  "without_staff a = JObj [(''label'', attr ''label'' a), (''staff'', JNull)]"

definition copied_fields :: "json \<Rightarrow> json \<Rightarrow> json \<Rightarrow> obj" where
  "copied_fields target_work_date shift m =
     [(''work_date'', target_work_date), (''shift'', shift), (''captain'', JNull), (''lieutenant'', JNull),
      (''duty_warden'', JNull), (''alternate_shift_supervisor'', JNull), (''leave_entries'', JArr []),
      (''briefing_minutes'', JStr []), (''roll_call_completed'', JBool False),
      (''uniform_inspection_completed'', JBool False),
      (''equipment'', JObj (map (\<lambda>k. (k, JStr ''not_checked'')) SECURITY_EQUIPMENT_KEYS)),
      (''briefing_guests'', JArr []), (''assigned_and_dismissed'', JBool False),
      (''lieutenant_signature_name'', JNull),
      (''extra_assignments'', JArr (map without_staff (elems (attr ''extra_assignments'' m))))]"

definition prepare_copied_roster_payload ::
  "form_templates \<Rightarrow> coercions \<Rightarrow> json \<Rightarrow> json \<Rightarrow> json \<Rightarrow> json result" where
  "prepare_copied_roster_payload T C source target_work_date shift =
     bind_result (AssignmentRosterV1 T C source) (\<lambda>m.
       case m of
         JObj kvs \<Rightarrow> AssignmentRosterV1 T C (JObj (dict_update (copied_fields target_work_date shift m) kvs))
       | _ \<Rightarrow> Inl ValidationError)"

text \<open>Staff in print order, each once.\<close>

definition add_staff :: "json \<Rightarrow> json list \<Rightarrow> json list" where
  "add_staff staff ordered =
     (if staff \<noteq> JNull \<and> attr ''staff_id'' staff \<notin> attr ''staff_id'' ` set ordered then ordered @ [staff] else ordered)"

definition print_order :: "json \<Rightarrow> json list" where
  "print_order m =
     concat (map (\<lambda>zone. attr ''supervisor'' zone
       # concat (map (\<lambda>post. [attr ''initial_staff'' post, attr ''rotation_staff'' post]) (elems (attr ''posts'' zone))))
       (elems (attr ''zones'' m)))"

definition ordered_staff :: "json \<Rightarrow> json list" where
  "ordered_staff m = fold add_staff (print_order m) []"

definition blank_row :: "json \<Rightarrow> json" where
  "blank_row staff = JObj ((''staff'', staff) # map (\<lambda>k. (k, JNull)) INSPECTION_PARTS @ [(''comments'', JStr [])])"

definition build_uniform_rows_from_roster ::
  "form_templates \<Rightarrow> coercions \<Rightarrow> json \<Rightarrow> uuid \<Rightarrow> int \<Rightarrow> json result" where
  "build_uniform_rows_from_roster T C roster record_id revision_number =
     bind_result (AssignmentRosterV1 T C roster) (\<lambda>m.
       UniformInspectionV1 C (JObj
         [(''schema_version'', JInt 1), (''work_date'', attr ''work_date'' m), (''shift'', attr ''shift'' m),
          (''roster_record_id'', JStr (uuid_str record_id)), (''roster_revision_number'', JInt revision_number),
          (''inspector'', JNull), (''rows'', JArr (map blank_row (ordered_staff m)))]))"

end
