(* ===== verification/Paperwork.thy ===== *)
theory Paperwork
  imports Listings CountSheets DailyForms
begin

text \<open>
  Revisioned paperwork (\<open>src/backend/paperwork/service.py\<close>, \<open>schemas.py\<close>, \<open>policy.py\<close>,
  \<open>actions.py\<close>, the rows of \<open>persistence/models/paperwork.py\<close>): records of the count sheet and the
  six daily forms, saved as numbered revisions by the officer who created them or an
  administrator, with their restore, their listing by pages, and the recording of output actions.

  The tables stand beside those of identity and reports. A date is kept as its ISO text, whose
  order is that of the dates.
\<close>

section \<open>Rows\<close>

datatype paperwork_kind = Count_Sheet | Daily daily_kind

fun kind_text :: "paperwork_kind \<Rightarrow> string" where
  "kind_text Count_Sheet = ''count_sheet''"
| "kind_text (Daily k) = daily_kind_text k"

definition paperwork_kind_of :: "string \<Rightarrow> paperwork_kind result" where
  "paperwork_kind_of s =
     (if s = ''count_sheet'' then Inr Count_Sheet
      else case daily_kind_of s of
        None \<Rightarrow> Inl (ValueError ''paperwork kind is invalid'') | Some k \<Rightarrow> Inr (Daily k))"

record paperwork_record =
  pr_id :: uuid
  pr_kind :: paperwork_kind
  pr_work_date :: string
  pr_shift :: "string option"
  pr_current_revision_number :: int
  pr_current_payload :: dict
  pr_created_by_account_id :: uuid
  pr_created_by_staff_member_id :: uuid
  pr_last_editor_account_id :: uuid
  pr_last_editor_staff_member_id :: uuid
  pr_created_at :: time
  pr_updated_at :: time

record paperwork_revision =
  pw_id :: uuid
  pw_record_id :: uuid
  pw_revision_number :: int
  pw_editor_account_id :: uuid
  pw_editor_staff_member_id :: uuid
  pw_snapshot :: dict
  pw_changed_fields :: "string list"
  pw_reason :: string
  pw_client_version :: string
  pw_request_id :: string
  pw_created_at :: time

record desk = workspace +
  paperwork_records :: "paperwork_record list"
  paperwork_revisions :: "paperwork_revision list"

abbreviation find_paperwork :: "uuid \<Rightarrow> 'w desk_scheme \<Rightarrow> paperwork_record option" where
  "find_paperwork i ds \<equiv> find_row pr_id i (paperwork_records ds)"

abbreviation find_paperwork_revision :: "uuid \<Rightarrow> int \<Rightarrow> 'w desk_scheme \<Rightarrow> paperwork_revision option" where
  "find_paperwork_revision i n ds \<equiv>
     find_row (\<lambda>r. (pw_record_id r, pw_revision_number r)) (i, n) (paperwork_revisions ds)"

text \<open>The partial unique index: one record of a daily form for a date and a shift.\<close>

definition same_slot :: "paperwork_record \<Rightarrow> paperwork_record \<Rightarrow> bool" where
  "same_slot r s \<longleftrightarrow> pr_kind r \<noteq> Count_Sheet \<and> pr_kind s = pr_kind r
     \<and> pr_work_date s = pr_work_date r \<and> pr_shift r \<noteq> None \<and> pr_shift s = pr_shift r"

definition slot_taken :: "paperwork_record \<Rightarrow> paperwork_record list \<Rightarrow> bool" where
  "slot_taken r rows \<longleftrightarrow> list_ex (\<lambda>s. pr_id s \<noteq> pr_id r \<and> same_slot r s) rows"

section \<open>Policy\<close>

definition can_read_paperwork :: "session_actor \<Rightarrow> paperwork_record \<Rightarrow> bool" where
  "can_read_paperwork who r \<longleftrightarrow>
     actor_role who = Admin \<or> pr_created_by_staff_member_id r = staff_member_id who"

definition can_edit_paperwork :: "session_actor \<Rightarrow> paperwork_record \<Rightarrow> bool" where
  "can_edit_paperwork who r \<longleftrightarrow> can_read_paperwork who r"

section \<open>Requests and snapshots\<close>

definition MAX_PAPERWORK_JSON_BYTES :: nat where "MAX_PAPERWORK_JSON_BYTES = 750000"
definition MAX_TOP_LEVEL_PAYLOAD_FIELDS :: nat where "MAX_TOP_LEVEL_PAYLOAD_FIELDS = 100"
definition MAX_SHIFT_CHARACTERS :: nat where "MAX_SHIFT_CHARACTERS = 32"

record save_paperwork_request =
  sp_work_date :: string
  sp_shift :: "string option"
  sp_payload :: dict
  sp_base_revision_number :: "int option"
  sp_reason :: string

text \<open>The form data, pydantic's conversions, and its parser of dates.\<close>

record paperwork_env =
  pe_forms :: form_templates
  pe_coercions :: coercions
  pe_sheet :: sheet_structure
  pe_sheet_input :: sheet_input
  pe_parse_date :: "string \<Rightarrow> string option"

text \<open>The limits on the fields, and \<open>bound_payload\<close>.\<close>

definition shift_ok :: "string option \<Rightarrow> bool" where
  "shift_ok s \<longleftrightarrow> (case s of None \<Rightarrow> True | Some t \<Rightarrow> length t \<le> MAX_SHIFT_CHARACTERS)"

definition bound_request :: "save_paperwork_request \<Rightarrow> save_paperwork_request result" where
  "bound_request r =
     (if \<not> shift_ok (sp_shift r) \<or> MAX_TOP_LEVEL_PAYLOAD_FIELDS < length (sp_payload r)
         \<or> (case sp_base_revision_number r of None \<Rightarrow> False | Some n \<Rightarrow> n < 1)
         \<or> sp_reason r \<notin> set [''autosave'', ''manual_save'', ''recovery'']
         \<or> has_nonfinite (JObj (sp_payload r))
         \<or> MAX_PAPERWORK_JSON_BYTES < utf8_length (dumps False (JObj (sp_payload r)))
      then Inl ValidationError else Inr r)"

fun normalize_shift :: "json \<Rightarrow> string option result" where
  "normalize_shift JNull = Inr None"
| "normalize_shift (JStr s) = Inr (if squeeze s = [] then None else Some (squeeze s))"
| "normalize_shift _ = Inl ValidationError"

definition str_result :: "json \<Rightarrow> string result" where
  "str_result v = (case v of JStr s \<Rightarrow> Inr s | _ \<Rightarrow> Inl ValidationError)"

definition date_result :: "paperwork_env \<Rightarrow> json \<Rightarrow> string result" where
  "date_result E v = (case v of
     JStr s \<Rightarrow> (case pe_parse_date E s of None \<Rightarrow> Inl ValidationError | Some d \<Rightarrow> Inr d) | _ \<Rightarrow> Inl ValidationError)"

definition dict_result :: "json \<Rightarrow> dict result" where
  "dict_result v = (case v of JObj kvs \<Rightarrow> Inr kvs | _ \<Rightarrow> Inl ValidationError)"

definition int_result :: "json \<Rightarrow> int option result" where
  "int_result v = (case v of JNull \<Rightarrow> Inr None | JInt i \<Rightarrow> Inr (Some i) | _ \<Rightarrow> Inl ValidationError)"

text \<open>\<open>SavePaperworkRequest.model_validate_json\<close> of the text of a decoded value.\<close>

definition SavePaperworkRequest :: "paperwork_env \<Rightarrow> json \<Rightarrow> save_paperwork_request result" where
  "SavePaperworkRequest E v =
     (case v of
        JObj kvs \<Rightarrow>
          if \<not> set (obj_keys kvs) \<subseteq> {''schema_version'', ''work_date'', ''shift'', ''payload'',
                 ''base_revision_number'', ''reason''} then Inl ValidationError
          else bind_result (optional_at ''schema_version'' () (\<lambda>x. require (is_one (pe_sheet_input E) x) ValidationError) kvs) (\<lambda>_.
            bind_result (required_at ''work_date'' (date_result E) kvs) (\<lambda>d.
            bind_result (optional_at ''shift'' None normalize_shift kvs) (\<lambda>s.
            bind_result (required_at ''payload'' dict_result kvs) (\<lambda>p.
            bind_result (optional_at ''base_revision_number'' None int_result kvs) (\<lambda>b.
            bind_result (optional_at ''reason'' ''manual_save'' str_result kvs) (\<lambda>r.
              bound_request \<lparr>sp_work_date = d, sp_shift = s, sp_payload = p,
                sp_base_revision_number = b, sp_reason = r\<rparr>))))))
      | _ \<Rightarrow> Inl ValidationError)"

definition json_text_option :: "string option \<Rightarrow> json" where
  "json_text_option s = (case s of None \<Rightarrow> JNull | Some t \<Rightarrow> JStr t)"

text \<open>\<open>validated.model_dump(mode="json")\<close>.\<close>

definition dump_request :: "save_paperwork_request \<Rightarrow> dict" where
  "dump_request r =
     [(''schema_version'', JInt 1), (''work_date'', JStr (sp_work_date r)),
      (''shift'', json_text_option (sp_shift r)), (''payload'', JObj (sp_payload r)),
      (''base_revision_number'', json_count (sp_base_revision_number r)),
      (''reason'', JStr (sp_reason r))]"

text \<open>\<open>PaperworkSnapshotV1(...).model_dump(mode="json")\<close>.\<close>

definition paperwork_snapshot :: "paperwork_kind \<Rightarrow> string \<Rightarrow> string option \<Rightarrow> dict \<Rightarrow> dict result" where
  "paperwork_snapshot k d s p =
     (if \<not> shift_ok s \<or> MAX_TOP_LEVEL_PAYLOAD_FIELDS < length p then Inl ValidationError
      else Inr [(''schema_version'', JInt 1), (''kind'', JStr (kind_text k)), (''work_date'', JStr d),
        (''shift'', json_text_option s), (''payload'', JObj p)])"

definition snapshot_for_request :: "paperwork_kind \<Rightarrow> save_paperwork_request \<Rightarrow> dict result" where
  "snapshot_for_request k r = paperwork_snapshot k (sp_work_date r) (sp_shift r) (sp_payload r)"

definition record_snapshot :: "paperwork_record \<Rightarrow> dict result" where
  "record_snapshot r = paperwork_snapshot (pr_kind r) (pr_work_date r) (pr_shift r) (pr_current_payload r)"

text \<open>\<open>PaperworkSnapshotV1.model_validate_json\<close> of a stored snapshot.\<close>

definition optional_str :: "json \<Rightarrow> string option result" where
  "optional_str v = (case v of JNull \<Rightarrow> Inr None | JStr s \<Rightarrow> Inr (Some s) | _ \<Rightarrow> Inl ValidationError)"

definition read_snapshot ::
  "paperwork_env \<Rightarrow> dict \<Rightarrow> (paperwork_kind \<times> string \<times> string option \<times> dict) result" where
  "read_snapshot E kvs =
     (if has_nonfinite (JObj kvs) \<or> \<not> set (obj_keys kvs) \<subseteq> {''schema_version'', ''kind'', ''work_date'', ''shift'', ''payload''}
      then Inl ValidationError
      else bind_result (optional_at ''schema_version'' () (\<lambda>x. require (is_one (pe_sheet_input E) x) ValidationError) kvs) (\<lambda>_.
        bind_result (required_at ''kind'' (\<lambda>v. bind_result (str_result v) (\<lambda>s. wrap_error (paperwork_kind_of s))) kvs) (\<lambda>k.
        bind_result (required_at ''work_date'' (date_result E) kvs) (\<lambda>d.
        bind_result (optional_at ''shift'' None optional_str kvs) (\<lambda>s.
        bind_result (required_at ''payload'' dict_result kvs) (\<lambda>p.
          if \<not> shift_ok s \<or> MAX_TOP_LEVEL_PAYLOAD_FIELDS < length p then Inl ValidationError
          else Inr (k, d, s, p)))))))"

text \<open>
  The paths that changed: a path into the payload names its section, unless the name could carry
  content, and a value is never part of a path.
\<close>

definition section_path :: "string \<Rightarrow> string" where
  "section_path section =
     (if section \<noteq> [] \<and> isalnum (filter (\<lambda>c. c \<noteq> CHR ''_'') section) then ''payload.'' @ section else ''payload'')"

definition changed_paths_at :: "dict \<Rightarrow> dict \<Rightarrow> string \<Rightarrow> string list" where
  "changed_paths_at previous current key =
     (if key = ''schema_version'' \<or> \<not> values_differ key previous current then []
      else case (key = ''payload'', at_key key previous, at_key key current) of
        (True, JObj before, JObj now) \<Rightarrow>
          map section_path (filter (\<lambda>s. values_differ s before now) (remdups (obj_keys before @ obj_keys now)))
      | _ \<Rightarrow> [key])"

definition changed_field_paths :: "dict \<Rightarrow> dict \<Rightarrow> string list" where
  "changed_field_paths previous current =
     sort (remdups (concat (map (changed_paths_at previous current) (remdups (obj_keys previous @ obj_keys current)))))"

definition validate_payload_for_kind :: "paperwork_env \<Rightarrow> paperwork_kind \<Rightarrow> dict \<Rightarrow> dict result" where
  "validate_payload_for_kind E k payload =
     (case k of
        Count_Sheet \<Rightarrow> bind_result (CountSheetRecordV1 (pe_sheet E) (pe_sheet_input E) (JObj payload)) (\<lambda>m.
          Inr (dump_count_sheet m))
      | Daily d \<Rightarrow> bind_result (validate_daily_payload (pe_forms E) (pe_coercions E) (daily_kind_text d) (JObj payload))
          dict_result)"

section \<open>Reading\<close>

record paperwork_view =
  vw_record_id :: uuid
  vw_kind :: paperwork_kind
  vw_work_date :: string
  vw_shift :: "string option"
  vw_current_revision_number :: int
  vw_payload :: dict
  vw_created_by_staff_member_id :: uuid
  vw_last_editor_staff_member_id :: uuid
  vw_created_at :: time
  vw_updated_at :: time

definition view_paperwork :: "paperwork_record \<Rightarrow> paperwork_view" where
  "view_paperwork r =
     \<lparr>vw_record_id = pr_id r, vw_kind = pr_kind r, vw_work_date = pr_work_date r, vw_shift = pr_shift r,
      vw_current_revision_number = pr_current_revision_number r, vw_payload = pr_current_payload r,
      vw_created_by_staff_member_id = pr_created_by_staff_member_id r,
      vw_last_editor_staff_member_id = pr_last_editor_staff_member_id r,
      vw_created_at = pr_created_at r, vw_updated_at = pr_updated_at r\<rparr>"

text \<open>The query by identifier and, when it is given, by kind.\<close>

definition select_paperwork ::
  "uuid \<Rightarrow> paperwork_kind option \<Rightarrow> 'w desk_scheme \<Rightarrow> paperwork_record option" where
  "select_paperwork i expected ds =
     (case find_paperwork i ds of
        None \<Rightarrow> None
      | Some r \<Rightarrow> if expected = None \<or> expected = Some (pr_kind r) then Some r else None)"

definition expected_kind_of :: "string option \<Rightarrow> paperwork_kind option result" where
  "expected_kind_of e = (case e of None \<Rightarrow> Inr None | Some s \<Rightarrow> bind_result (paperwork_kind_of s) (\<lambda>k. Inr (Some k)))"

definition locked_paperwork ::
  "session_actor \<Rightarrow> uuid \<Rightarrow> string option \<Rightarrow> 'w desk_scheme \<Rightarrow> paperwork_record result" where
  "locked_paperwork who i expected ds =
     bind_result (expected_kind_of expected) (\<lambda>e.
       case select_paperwork i e ds of
         None \<Rightarrow> Inl PaperworkNotFound
       | Some r \<Rightarrow> if can_edit_paperwork who r then Inr r else Inl PaperworkNotFound)"

definition get_paperwork_record ::
  "session_actor \<Rightarrow> uuid \<Rightarrow> string option \<Rightarrow> 'w desk_scheme \<Rightarrow> paperwork_view result" where
  "get_paperwork_record who i expected ds =
     bind_result (expected_kind_of expected) (\<lambda>e.
       case select_paperwork i e ds of
         None \<Rightarrow> Inl PaperworkNotFound
       | Some r \<Rightarrow> if can_read_paperwork who r then Inr (view_paperwork r) else Inl PaperworkNotFound)"

definition paperwork_reference :: "uuid \<Rightarrow> int \<Rightarrow> json" where
  "paperwork_reference i n = JObj [(''record_id'', JStr (uuid_str i)), (''revision_number'', JInt n)]"

abbreviation invalid_paperwork_reference :: exn where
  "invalid_paperwork_reference \<equiv> RuntimeError ''paperwork idempotency reference is invalid''"

definition paperwork_from_reference ::
  "session_actor \<Rightarrow> string option \<Rightarrow> dict \<Rightarrow> 'w desk_scheme \<Rightarrow> paperwork_view result" where
  "paperwork_from_reference who expected ref ds =
     (case (reference_uuid ''record_id'' ref, reference_int ''revision_number'' ref) of
        (Some i, Some n) \<Rightarrow>
          bind_result (get_paperwork_record who i expected ds) (\<lambda>view.
            if n < 1 \<or> vw_current_revision_number view < n then Inl invalid_paperwork_reference else Inr view)
      | _ \<Rightarrow> Inl invalid_paperwork_reference)"

section \<open>Writing\<close>

definition paperwork_event :: "session_actor \<Rightarrow> record_call \<Rightarrow> string \<Rightarrow> uuid \<Rightarrow> dict \<Rightarrow> audit_event" where
  "paperwork_event who rc act i kvs =
     (AuditEventInput (Some (account_id who)) (Some (staff_member_id who)) act Success (rc_request_id rc)
       ''paperwork_record'' (Some i) kvs)\<lparr>client_version := Some (rc_client_version rc)\<rparr>"

definition append_paperwork_audit ::
  "session_actor \<Rightarrow> record_call \<Rightarrow> string \<Rightarrow> uuid \<Rightarrow> dict \<Rightarrow> 'w desk_scheme \<Rightarrow> unit result \<times> 'w desk_scheme" where
  "append_paperwork_audit who rc act i kvs = in_ident (append_audit (paperwork_event who rc act i kvs))"

definition new_paperwork_revision ::
  "session_actor \<Rightarrow> record_call \<Rightarrow> uuid \<Rightarrow> int \<Rightarrow> dict \<Rightarrow> string list \<Rightarrow> string \<Rightarrow> paperwork_revision" where
  "new_paperwork_revision who rc i n snap paths reason =
     \<lparr>pw_id = rc_revision_id rc, pw_record_id = i, pw_revision_number = n,
      pw_editor_account_id = account_id who, pw_editor_staff_member_id = staff_member_id who,
      pw_snapshot = snap, pw_changed_fields = paths, pw_reason = reason,
      pw_client_version = rc_client_version rc, pw_request_id = rc_request_id rc,
      pw_created_at = rc_now rc\<rparr>"

text \<open>
  The end of every write: the rows are flushed, the event is logged, and the response refers to
  the record and its revision.
\<close>

definition finish_paperwork ::
  "session_actor \<Rightarrow> record_call \<Rightarrow> paperwork_record \<Rightarrow> bool \<Rightarrow> int \<Rightarrow> string \<Rightarrow> dict \<Rightarrow> 'w desk_scheme
   \<Rightarrow> (paperwork_view \<times> int \<times> json) result \<times> 'w desk_scheme" where
  "finish_paperwork who rc r taken status act extra ds =
     (if taken then (Inl (IntegrityError ''uq_paperwork_records_daily_date_shift''), ds)
      else and_then (append_paperwork_audit who rc act (pr_id r)
          ([(''record_id'', JStr (uuid_str (pr_id r))), (''kind'', JStr (kind_text (pr_kind r))),
            (''revision_number'', JInt (pr_current_revision_number r))] @ extra) ds)
        (\<lambda>_ ds2. (Inr (view_paperwork r, status,
           paperwork_reference (pr_id r) (pr_current_revision_number r)), ds2)))"

definition create_paperwork ::
  "session_actor \<Rightarrow> record_call \<Rightarrow> paperwork_kind \<Rightarrow> save_paperwork_request \<Rightarrow> dict \<Rightarrow> 'w desk_scheme
   \<Rightarrow> (paperwork_view \<times> int \<times> json) result \<times> 'w desk_scheme" where
  "create_paperwork who rc k req snap ds =
     (let r = \<lparr>pr_id = rc_row_id rc, pr_kind = k, pr_work_date = sp_work_date req, pr_shift = sp_shift req,
            pr_current_revision_number = 1, pr_current_payload = sp_payload req,
            pr_created_by_account_id = account_id who, pr_created_by_staff_member_id = staff_member_id who,
            pr_last_editor_account_id = account_id who, pr_last_editor_staff_member_id = staff_member_id who,
            pr_created_at = rc_now rc, pr_updated_at = rc_now rc\<rparr>;
          rv = new_paperwork_revision who rc (pr_id r) 1 snap (changed_field_paths [] snap) (sp_reason req)
      in finish_paperwork who rc r (slot_taken r (paperwork_records ds)) 201 ''paperwork.created'' []
           (ds\<lparr>paperwork_records := paperwork_records ds @ [r],
               paperwork_revisions := paperwork_revisions ds @ [rv]\<rparr>))"

text \<open>The next revision of an existing record: the content is applied to the row.\<close>

definition apply_paperwork ::
  "session_actor \<Rightarrow> record_call \<Rightarrow> paperwork_kind \<Rightarrow> string \<Rightarrow> string option \<Rightarrow> dict \<Rightarrow> paperwork_record
   \<Rightarrow> paperwork_record" where
  "apply_paperwork who rc k d s p r =
     r\<lparr>pr_kind := k, pr_work_date := d, pr_shift := s,
       pr_current_revision_number := pr_current_revision_number r + 1, pr_current_payload := p,
       pr_last_editor_account_id := account_id who, pr_last_editor_staff_member_id := staff_member_id who,
       pr_updated_at := rc_now rc\<rparr>"

definition put_paperwork ::
  "paperwork_record \<Rightarrow> paperwork_revision \<Rightarrow> 'w desk_scheme \<Rightarrow> 'w desk_scheme" where
  "put_paperwork r rv ds =
     ds\<lparr>paperwork_records := update_rows (\<lambda>x. pr_id x = pr_id r) (\<lambda>_. r) (paperwork_records ds),
        paperwork_revisions := paperwork_revisions ds @ [rv]\<rparr>"

definition update_paperwork ::
  "session_actor \<Rightarrow> record_call \<Rightarrow> paperwork_record \<Rightarrow> dict \<Rightarrow> save_paperwork_request \<Rightarrow> dict \<Rightarrow> 'w desk_scheme
   \<Rightarrow> (paperwork_view \<times> int \<times> json) result \<times> 'w desk_scheme" where
  "update_paperwork who rc r previous req snap ds =
     (let r' = apply_paperwork who rc (pr_kind r) (sp_work_date req) (sp_shift req) (sp_payload req) r;
          paths = changed_field_paths previous snap;
          rv = new_paperwork_revision who rc (pr_id r) (pr_current_revision_number r') snap paths (sp_reason req)
      in finish_paperwork who rc r' (slot_taken r' (paperwork_records ds)) 200 ''paperwork.saved''
           [(''changed_fields'', JArr (map JStr paths)), (''reason'', JStr (sp_reason req))]
           (put_paperwork r' rv ds))"

definition save_canonical :: "uuid option \<Rightarrow> paperwork_kind \<Rightarrow> save_paperwork_request \<Rightarrow> json" where
  "save_canonical i k req =
     JObj [(''record_id'', case i of None \<Rightarrow> JNull | Some u \<Rightarrow> JStr (uuid_str u)),
       (''kind'', JStr (kind_text k)), (''request'', JObj (dump_request req))]"

definition validated_save ::
  "paperwork_env \<Rightarrow> string \<Rightarrow> save_paperwork_request
   \<Rightarrow> (paperwork_kind \<times> save_paperwork_request \<times> dict) result" where
  "validated_save E kind req =
     bind_result (paperwork_kind_of kind) (\<lambda>k.
     bind_result (validate_payload_for_kind E k (sp_payload req)) (\<lambda>payload.
     bind_result (snapshot_for_request k (req\<lparr>sp_payload := payload\<rparr>)) (\<lambda>snap.
       Inr (k, req\<lparr>sp_payload := payload\<rparr>, snap))))"

definition save_paperwork_record ::
  "crypto \<Rightarrow> paperwork_env \<Rightarrow> session_actor \<Rightarrow> record_call \<Rightarrow> string \<Rightarrow> save_paperwork_request \<Rightarrow> string
   \<Rightarrow> uuid option \<Rightarrow> 'w desk_scheme \<Rightarrow> paperwork_view result \<times> 'w desk_scheme" where
  "save_paperwork_record C E who rc kind req key target ds =
     (case validated_save E kind req of
        Inl e \<Rightarrow> (Inl e, ds)
      | Inr (k, validated, snap) \<Rightarrow>
          (case (target, sp_base_revision_number validated) of
             (None, Some _) \<Rightarrow> (Inl (ValueError ''New paperwork must not include a base revision.''), ds)
           | (None, None) \<Rightarrow>
               keyed_record C rc who key ''paperwork.create'' (save_canonical None k validated)
                 (paperwork_from_reference who None) (create_paperwork who rc k validated snap) ds
           | (Some i, None) \<Rightarrow> (Inl (ValueError ''Existing paperwork requires a base revision.''), ds)
           | (Some i, Some base) \<Rightarrow>
               (case bind_result (locked_paperwork who i (Some (kind_text k)) ds) (\<lambda>r.
                    if pr_kind r \<noteq> k then Inl (ValueError ''paperwork kind does not match the record'')
                    else if pr_current_revision_number r \<noteq> base
                    then Inl (PaperworkRevisionConflict (pr_current_revision_number r))
                    else bind_result (record_snapshot r) (\<lambda>previous. Inr (r, previous))) of
                  Inl e \<Rightarrow> (Inl e, ds)
                | Inr (r, previous) \<Rightarrow>
                    keyed_record C rc who key ''paperwork.save'' (save_canonical (Some i) k validated)
                      (paperwork_from_reference who None) (update_paperwork who rc r previous validated snap) ds)))"

text \<open>A restore writes the content of an earlier revision as the next one.\<close>

definition restore_paperwork_body ::
  "paperwork_env \<Rightarrow> session_actor \<Rightarrow> record_call \<Rightarrow> paperwork_record \<Rightarrow> paperwork_revision \<Rightarrow> paperwork_kind option
   \<Rightarrow> 'w desk_scheme \<Rightarrow> (paperwork_view \<times> int \<times> json) result \<times> 'w desk_scheme" where
  "restore_paperwork_body E who rc r src expected ds =
     (case bind_result (read_snapshot E (pw_snapshot src)) (\<lambda>(k, d, s, p).
           if expected \<noteq> None \<and> expected \<noteq> Some k then Inl PaperworkNotFound
           else bind_result (paperwork_snapshot k d s p) (\<lambda>snap.
             bind_result (record_snapshot r) (\<lambda>previous. Inr (k, d, s, p, snap, previous)))) of
        Inl e \<Rightarrow> (Inl e, ds)
      | Inr (k, d, s, p, snap, previous) \<Rightarrow>
          let r' = apply_paperwork who rc k d s p r;
              rv = new_paperwork_revision who rc (pr_id r) (pr_current_revision_number r') snap
                (changed_field_paths previous snap) ''restored''
          in finish_paperwork who rc r' (slot_taken r' (paperwork_records ds)) 200 ''paperwork.restored''
               [(''source_revision_number'', JInt (pw_revision_number src))] (put_paperwork r' rv ds))"

definition restore_paperwork_record ::
  "crypto \<Rightarrow> paperwork_env \<Rightarrow> session_actor \<Rightarrow> record_call \<Rightarrow> uuid \<Rightarrow> int \<Rightarrow> string \<Rightarrow> string option
   \<Rightarrow> 'w desk_scheme \<Rightarrow> paperwork_view result \<times> 'w desk_scheme" where
  "restore_paperwork_record C E who rc i n key expected ds =
     (if n < 1 then (Inl (ValueError ''source revision is invalid''), ds)
      else case bind_result (locked_paperwork who i expected ds) (\<lambda>r.
           case find_paperwork_revision i n ds of
             None \<Rightarrow> Inl PaperworkRevisionNotFound
           | Some src \<Rightarrow> bind_result (expected_kind_of expected) (\<lambda>e. Inr (r, src, e))) of
        Inl e \<Rightarrow> (Inl e, ds)
      | Inr (r, src, e) \<Rightarrow>
          keyed_record C rc who key ''paperwork.restore''
            (JObj [(''record_id'', JStr (uuid_str i)), (''source_revision_number'', JInt n)])
            (paperwork_from_reference who expected) (restore_paperwork_body E who rc r src e) ds)"

section \<open>Copying the previous roster\<close>

text \<open>The earlier rosters of a shift, the latest first.\<close>

definition roster_sources ::
  "string \<Rightarrow> string \<Rightarrow> uuid option \<Rightarrow> 'w desk_scheme \<Rightarrow> paperwork_record list" where
  "roster_sources target shift source ds =
     in_order True (\<lambda>r. (pr_work_date r, pr_updated_at r, pr_id r))
       (filter (\<lambda>r. pr_kind r = Daily Assignment_Roster \<and> pr_work_date r < target \<and> pr_shift r = Some shift
            \<and> (source = None \<or> source = Some (pr_id r))) (paperwork_records ds))"

definition copy_previous_daily_record ::
  "crypto \<Rightarrow> paperwork_env \<Rightarrow> session_actor \<Rightarrow> record_call \<Rightarrow> string \<Rightarrow> string \<Rightarrow> string \<Rightarrow> string
   \<Rightarrow> uuid option \<Rightarrow> 'w desk_scheme \<Rightarrow> paperwork_view result \<times> 'w desk_scheme" where
  "copy_previous_daily_record C E who rc kind target shift key source ds =
     (case bind_result (paperwork_kind_of kind) (\<lambda>k.
         if k \<noteq> Daily Assignment_Roster
         then Inl (ValueError ''copy previous is supported only for assignment rosters'')
         else if actor_role who \<noteq> Admin then Inl PaperworkNotFound
         else if squeeze shift = [] \<or> MAX_SHIFT_CHARACTERS < length (squeeze shift) then Inl (ValueError ''shift is invalid'')
         else case find (\<lambda>r. pr_kind r = k \<and> pr_work_date r = target \<and> pr_shift r = Some (squeeze shift)) (paperwork_records ds) of
           Some existing \<Rightarrow> Inl (PaperworkAlreadyExists (pr_id existing))
         | None \<Rightarrow> (case roster_sources target (squeeze shift) source ds of
             [] \<Rightarrow> Inl PaperworkNotFound
           | r # _ \<Rightarrow>
               bind_result (prepare_copied_roster_payload (pe_forms E) (pe_coercions E) (JObj (pr_current_payload r))
                   (JStr target) (JStr (squeeze shift))) (\<lambda>copied.
               bind_result (dict_result copied) (\<lambda>payload.
                 bound_request \<lparr>sp_work_date = target, sp_shift = Some (squeeze shift), sp_payload = payload,
                   sp_base_revision_number = None, sp_reason = ''manual_save''\<rparr>)))) of
        Inl e \<Rightarrow> (Inl e, ds)
      | Inr request \<Rightarrow> save_paperwork_record C E who rc kind request key None ds)"

section \<open>Listing by pages\<close>

record paperwork_filter =
  pf_kind :: "string option"
  pf_exclude_kind :: "string option"
  pf_work_date :: "string option"
  pf_shift :: "string option"

definition filter_shift :: "string option \<Rightarrow> string option result" where
  "filter_shift s =
     (case s of None \<Rightarrow> Inr None
      | Some t \<Rightarrow> if squeeze t = [] \<or> MAX_SHIFT_CHARACTERS < length (squeeze t)
          then Inl (ValueError ''paperwork shift is invalid'') else Inr (Some (squeeze t)))"

definition listed_paperwork ::
  "session_actor \<Rightarrow> paperwork_kind option \<Rightarrow> paperwork_kind option \<Rightarrow> string option \<Rightarrow> string option
   \<Rightarrow> paperwork_record \<Rightarrow> bool" where
  "listed_paperwork who k x d s r \<longleftrightarrow>
     can_read_paperwork who r \<and> (k = None \<or> k = Some (pr_kind r)) \<and> (x = None \<or> x \<noteq> Some (pr_kind r))
     \<and> (d = None \<or> d = Some (pr_work_date r)) \<and> (s = None \<or> s = pr_shift r)"

definition paperwork_key :: "paperwork_record \<Rightarrow> time \<times> uuid" where
  "paperwork_key r = (pr_updated_at r, pr_id r)"

definition read_record_cursor :: "iso_clock \<Rightarrow> cursor option \<Rightarrow> (time \<times> uuid) option result" where
  "read_record_cursor K =
     read_cursor (\<lambda>c. case read_time_id K ''updated_at'' c of
        Inl _ \<Rightarrow> Inl (ValueError ''paperwork cursor is invalid'') | Inr k \<Rightarrow> Inr k)"

definition record_cursor :: "iso_clock \<Rightarrow> paperwork_record \<Rightarrow> cursor" where
  "record_cursor K r = time_id_cursor K ''updated_at'' (paperwork_key r)"

definition list_paperwork_records ::
  "iso_clock \<Rightarrow> session_actor \<Rightarrow> paperwork_filter \<Rightarrow> int \<Rightarrow> cursor option
   \<Rightarrow> 'w desk_scheme \<Rightarrow> (paperwork_view list \<times> cursor option) result" where
  "list_paperwork_records K who f limit cursor ds =
     (if limit < 1 \<or> 50 < limit then Inl (ValueError ''paperwork page size is invalid'')
      else bind_result (expected_kind_of (pf_kind f)) (\<lambda>k.
      bind_result (expected_kind_of (pf_exclude_kind f)) (\<lambda>x.
      bind_result (filter_shift (pf_shift f)) (\<lambda>s.
      bind_result (read_record_cursor K cursor) (\<lambda>c.
        Inr (keyed_page True paperwork_key (record_cursor K) view_paperwork (nat limit) c
          (filter (listed_paperwork who k x (pf_work_date f) s) (paperwork_records ds))))))))"

definition revision_key :: "paperwork_revision \<Rightarrow> int \<times> uuid" where
  "revision_key r = (pw_revision_number r, pw_id r)"

definition revision_cursor :: "paperwork_revision \<Rightarrow> cursor" where
  "revision_cursor r = [(''revision_number'', int_str (pw_revision_number r)), (''id'', uuid_str (pw_id r))]"

definition read_revision_cursor :: "cursor option \<Rightarrow> (int \<times> uuid) option result" where
  "read_revision_cursor =
     read_cursor (\<lambda>c. case (map_of c ''revision_number'', map_of c ''id'') of
       (Some s, Some i) \<Rightarrow>
         (case (py_int s, parse_uuid i) of
            (Some n, Some u) \<Rightarrow> Inr (n, u)
          | _ \<Rightarrow> Inl (ValueError ''paperwork revision cursor is invalid''))
     | _ \<Rightarrow> Inl (ValueError ''paperwork revision cursor is invalid''))"

definition list_paperwork_revisions ::
  "session_actor \<Rightarrow> uuid \<Rightarrow> int \<Rightarrow> cursor option \<Rightarrow> string option
   \<Rightarrow> 'w desk_scheme \<Rightarrow> (paperwork_revision list \<times> cursor option) result" where
  "list_paperwork_revisions who i limit cursor expected ds =
     bind_result (get_paperwork_record who i expected ds) (\<lambda>_.
       if limit < 1 \<or> 100 < limit then Inl (ValueError ''paperwork revision page size is invalid'')
       else bind_result (read_revision_cursor cursor) (\<lambda>c.
         Inr (keyed_page False revision_key revision_cursor id (nat limit) c
           (filter (\<lambda>r. pw_record_id r = i) (paperwork_revisions ds)))))"

definition get_paperwork_revision ::
  "session_actor \<Rightarrow> uuid \<Rightarrow> int \<Rightarrow> 'w desk_scheme \<Rightarrow> paperwork_revision result" where
  "get_paperwork_revision who i n ds =
     bind_result (get_paperwork_record who i None ds) (\<lambda>_.
       case find_paperwork_revision i n ds of None \<Rightarrow> Inl PaperworkRevisionNotFound | Some r \<Rightarrow> Inr r)"

section \<open>Output actions\<close>

definition PAPERWORK_ACTIONS :: "string list" where
  "PAPERWORK_ACTIONS = [''preview'', ''print'', ''download_pdf'']"

record paperwork_receipt =
  rp_record_id :: uuid
  rp_kind :: paperwork_kind
  rp_revision_number :: int
  rp_action :: string

text \<open>Here the enumeration itself reports an unknown kind.\<close>

definition action_kind_of :: "string option \<Rightarrow> paperwork_kind option result" where
  "action_kind_of e =
     (case e of None \<Rightarrow> Inr None
      | Some s \<Rightarrow> (case paperwork_kind_of s of
          Inl _ \<Rightarrow> Inl (ValueError (repr_str s @ '' is not a valid PaperworkKind'')) | Inr k \<Rightarrow> Inr (Some k)))"

definition action_record ::
  "session_actor \<Rightarrow> uuid \<Rightarrow> string option \<Rightarrow> 'w desk_scheme \<Rightarrow> paperwork_record result" where
  "action_record who i expected ds =
     bind_result (action_kind_of expected) (\<lambda>e.
       case select_paperwork i e ds of
         None \<Rightarrow> Inl PaperworkNotFound
       | Some r \<Rightarrow> if can_read_paperwork who r then Inr r else Inl PaperworkNotFound)"

definition action_reference :: "paperwork_record \<Rightarrow> dict" where
  "action_reference r =
     [(''record_id'', JStr (uuid_str (pr_id r))), (''kind'', JStr (kind_text (pr_kind r))),
      (''revision_number'', JInt (pr_current_revision_number r))]"

abbreviation invalid_action_reference :: exn where
  "invalid_action_reference \<equiv> RuntimeError ''paperwork action reference is invalid''"

definition receipt_from_reference ::
  "session_actor \<Rightarrow> string option \<Rightarrow> dict \<Rightarrow> 'w desk_scheme \<Rightarrow> paperwork_receipt result" where
  "receipt_from_reference who expected ref ds =
     (case (reference_uuid ''record_id'' ref, reference_str ''kind'' ref, reference_int ''revision_number'' ref,
            reference_str ''action'' ref) of
        (Some i, Some kind, Some n, Some act) \<Rightarrow>
          (case paperwork_kind_of kind of
             Inl _ \<Rightarrow> Inl invalid_action_reference
           | Inr k \<Rightarrow>
               bind_result (action_record who i expected ds) (\<lambda>r.
                 if obj_get ''recorded'' ref \<noteq> Some (JBool True) \<or> pr_kind r \<noteq> k \<or> n < 1
                   \<or> pr_current_revision_number r < n \<or> act \<notin> set PAPERWORK_ACTIONS
                 then Inl invalid_action_reference
                 else Inr \<lparr>rp_record_id = i, rp_kind = k, rp_revision_number = n, rp_action = act\<rparr>))
      | _ \<Rightarrow> Inl invalid_action_reference)"

definition record_action_body ::
  "session_actor \<Rightarrow> record_call \<Rightarrow> paperwork_record \<Rightarrow> string \<Rightarrow> 'w desk_scheme
   \<Rightarrow> (paperwork_receipt \<times> int \<times> json) result \<times> 'w desk_scheme" where
  "record_action_body who rc r act ds =
     and_then (append_paperwork_audit who rc ''paperwork.action_recorded'' (pr_id r)
         (action_reference r @ [(''paperwork_action'', JStr act)]) ds)
       (\<lambda>_ ds2. (Inr (\<lparr>rp_record_id = pr_id r, rp_kind = pr_kind r,
            rp_revision_number = pr_current_revision_number r, rp_action = act\<rparr>, 200,
          JObj ((''recorded'', JBool True) # action_reference r @ [(''action'', JStr act)])), ds2))"

definition record_paperwork_action ::
  "crypto \<Rightarrow> session_actor \<Rightarrow> record_call \<Rightarrow> uuid \<Rightarrow> string \<Rightarrow> string \<Rightarrow> string option
   \<Rightarrow> 'w desk_scheme \<Rightarrow> paperwork_receipt result \<times> 'w desk_scheme" where
  "record_paperwork_action C who rc i act key expected ds =
     (if act \<notin> set PAPERWORK_ACTIONS then (Inl (ValueError ''paperwork action is invalid''), ds)
      else case action_record who i expected ds of
        Inl e \<Rightarrow> (Inl e, ds)
      | Inr r \<Rightarrow>
          keyed_record C rc who key ''paperwork.output_action''
            (JObj (action_reference r @ [(''action'', JStr act)]))
            (receipt_from_reference who expected) (record_action_body who rc r act) ds)"

end
