(* ===== verification/DailyRules.thy ===== *)
theory DailyRules
  imports DailyForms
begin

text \<open>
  What the daily forms promise: a validated payload is a fixed point of its validation, and the
  coverage warnings of a roster are exact.
\<close>

section \<open>Validated payloads validate again\<close>

text \<open>What pydantic promises: a value it has written is read as the same value.\<close>

definition coercions_ok :: "coercions \<Rightarrow> bool" where
  "coercions_ok C \<longleftrightarrow> (\<forall>u. co_uuid C (JStr (uuid_str u)) = Some u)
     \<and> (\<forall>v s. co_date C v = Some s \<longrightarrow> co_date C (JStr s) = Some s)
     \<and> (\<forall>v s. co_time C v = Some s \<longrightarrow> co_time C (JStr s) = Some s)
     \<and> (\<forall>v s. co_datetime C v = Some s \<longrightarrow> co_datetime C (JStr s) = Some s)
     \<and> (\<forall>i. co_int C (JInt i) = Some i) \<and> (\<forall>b. co_bool C (JBool b) = Some b) \<and> literal_one C (JInt 1)"

lemma stable_coerced:
  "(\<And>v x. read v = Some x \<Longrightarrow> read (write x) = Some x) \<Longrightarrow> stable_check (coerced write read)"
  by (auto simp: stable_check_def coerced_def split: option.splits)

lemma stable_coercions [stable_intros]:
  assumes "coercions_ok C"
  shows "stable_check (uuid_field C)" "stable_check (date_field C)" "stable_check (time_field C)"
    "stable_check (datetime_field C)" "stable_check (bool_field C)" "stable_check (positive_field C)"
    "stable_check (snd (snd (version_field C)))"
  using assms
  by (auto simp: uuid_field_def date_field_def time_field_def datetime_field_def bool_field_def positive_field_def
      coercions_ok_def version_field_def stable_check_def[of "\<lambda>v. if literal_one C v then _ else _"]
      intro!: stable_coerced split: option.splits if_split_asm)

lemma stable_str [stable_intros]: "stable_check (str_field lo hi)"
  unfolding stable_check_def by (intro allI impI, case_tac v) auto

lemma stable_literal [stable_intros]: "stable_check (choice_field ws)"
  unfolding stable_check_def by (intro allI impI, case_tac v) auto

lemma squeeze_idem: "squeeze (squeeze s) = squeeze s"
proof -
  have "split (squeeze s) = split s" unfolding squeeze_def
    by (rule split_join) (auto simp: split_def dest: split_words_words)
  then show ?thesis by (simp add: squeeze_def)
qed

lemma length_join_words: "length (join '' '' ws) + 1 \<le> sum_list (map (\<lambda>w. length w + 1) ws) + (if ws = [] then 1 else 0)"
  by (induction "'' ''::string" ws rule: join.induct) auto

lemma length_split_words:
  "sum_list (map (\<lambda>u. length u + 1) (split_words s w)) \<le> length s + length w + (if w = [] \<and> s = [] then 0 else 1)"
  by (induction s w rule: split_words.induct) (auto split: if_splits)

lemma length_squeeze: "length (squeeze s) \<le> length s"
  using length_join_words [of "split s"] length_split_words [of s "[]"]
  by (cases "split s = []") (auto simp: squeeze_def split_def split: if_split_asm)

lemma stable_squeezed [stable_intros]: "stable_check (squeezed_field (Suc 0) hi)"
  unfolding stable_check_def
proof (intro allI impI)
  fix v w
  assume "squeezed_field (Suc 0) hi v = Inr w"
  then obtain s where "v = JStr s" "length s \<le> hi" "squeeze s \<noteq> []" "w = JStr (squeeze s)"
    by (cases v) (auto split: if_split_asm)
  then show "squeezed_field (Suc 0) hi w = Inr w"
    using length_squeeze [of s] squeeze_idem [of s] by (simp add: Suc_le_eq)
qed

lemma stable_optional [stable_intros]: "stable_check c \<Longrightarrow> stable_check (optional c)"
  by (auto simp: stable_check_def optional_def split: if_split_asm)

lemma map_result_again:
  "stable_check c \<Longrightarrow> map_result c vs = Inr ws \<Longrightarrow> map_result c ws = Inr ws \<and> length ws = length vs"
  by (induction vs arbitrary: ws) (auto simp: stable_check_def)

lemma stable_array [stable_intros]: "stable_check c \<Longrightarrow> stable_check (array_field p c)"
  unfolding stable_check_def [of "array_field p c"]
proof (intro allI impI)
  fix v w
  assume c: "stable_check c" and run: "array_field p c v = Inr w"
  then obtain vs ws where "v = JArr vs" "p (length vs)" "map_result c vs = Inr ws" "w = JArr ws"
    by (cases v) (auto simp: array_field_def split: if_split_asm)
  with map_result_again [OF c] show "array_field p c w = Inr w" by (auto simp: array_field_def)
qed

lemma stable_dict [stable_intros]: "stable_check c \<Longrightarrow> stable_check (dict_field c)"
  unfolding stable_check_def [of "dict_field c"]
proof (intro allI impI)
  fix v w
  assume c: "stable_check c" and run: "dict_field c v = Inr w"
  then obtain kvs ws where kvs: "v = JObj kvs" "w = JObj ws"
      "map_result (\<lambda>(k, x). bind_result (c x) (\<lambda>y. Inr (k, y))) kvs = Inr ws"
    by (cases v) (auto simp: dict_field_def)
  have "map_result (\<lambda>(k, x). bind_result (c x) (\<lambda>y. Inr (k, y))) kvs = Inr ws \<Longrightarrow>
      map_result (\<lambda>(k, x). bind_result (c x) (\<lambda>y. Inr (k, y))) ws = Inr ws" for kvs ws
    using c by (induction kvs arbitrary: ws) (auto simp: stable_check_def)
  with kvs show "dict_field c w = Inr w" by (auto simp: dict_field_def)
qed

lemma closed_model_Inr:
  "closed_model fs after v = Inr w \<longleftrightarrow>
     (\<exists>kvs p. v = JObj kvs \<and> set (obj_keys kvs) \<subseteq> set (map fst fs) \<and> fill_fields fs kvs = Inr p \<and> after p \<and> w = JObj p)"
  by (cases v) (auto simp: closed_model_def)

lemma stable_closed [stable_intros]: "stable_fields fs \<Longrightarrow> stable_check (closed_model fs after)"
  unfolding stable_check_def
proof (intro allI impI)
  fix v w
  assume fs: "stable_fields fs" and "closed_model fs after v = Inr w"
  then obtain kvs p where p: "fill_fields fs kvs = Inr p" "after p" "w = JObj p"
    by (auto simp: closed_model_Inr)
  moreover have "set (obj_keys p) \<subseteq> set (map fst fs)"
    using fill_fields_keys [OF p(1)] by (simp add: obj_keys_def)
  ultimately show "closed_model fs after w = Inr w"
    using fill_fields_stable [OF fs p(1)] by (auto simp: closed_model_Inr)
qed

lemma stable_fields_Cons:
  "stable_fields ((k, d, c) # fs) \<longleftrightarrow> k \<notin> fst ` set fs \<and> stable_check c
     \<and> (case d of None \<Rightarrow> True | Some x \<Rightarrow> c x = Inr x) \<and> stable_fields fs"
  "stable_fields []"
  by (auto simp: stable_fields_def)

lemma default_checks [simp]:
  "optional c JNull = Inr JNull" "p 0 \<Longrightarrow> array_field p c (JArr []) = Inr (JArr [])"
  "str_field 0 hi (JStr []) = Inr (JStr [])" "coercions_ok C \<Longrightarrow> bool_field C (JBool b) = Inr (JBool b)"
  by (simp_all add: optional_def array_field_def accept_def bool_field_def coerced_def coercions_ok_def)

lemma version_field_stable: "coercions_ok C \<Longrightarrow>
  version_field C = (k, d, c) \<Longrightarrow> k = ''schema_version'' \<and> stable_check c \<and> d = Some (JInt 1) \<and> c (JInt 1) = Inr (JInt 1)"
  using stable_coercions(7) [of C] by (auto simp: version_field_def coercions_ok_def)

lemma base_fields_stable:
  assumes "coercions_ok C" "stable_fields fs" "''schema_version'' \<notin> fst ` set fs" "''work_date'' \<notin> fst ` set fs"
    "''shift'' \<notin> fst ` set fs"
  shows "stable_fields (base_fields C @ fs)"
  using assms stable_coercions(7) [OF assms(1)]
  by (auto simp: base_fields_def stable_fields_Cons version_field_def coercions_ok_def intro!: stable_intros)

lemma StaffSelection_stable [stable_intros]: "coercions_ok C \<Longrightarrow> stable_check (StaffSelection C)"
  unfolding StaffSelection_def by (intro stable_closed) (auto simp: stable_fields_Cons intro!: stable_intros)

lemma infer_validated:
  assumes "fill_fields (post_fields C) kvs = Inr p"
  shows "infer_legacy_assignment_states (JObj p) = JObj p"
proof -
  have keys: "map fst p = map fst (post_fields C)" by (rule fill_fields_keys [OF assms])
  then have "obj_get ''initial_state'' p \<noteq> None" "obj_get ''rotation_state'' p \<noteq> None"
    by (simp_all add: obj_get_def map_of_eq_None_iff post_fields_def flip: set_map)
  then show ?thesis by (auto simp: infer_legacy_assignment_states_def inferred_state_def)
qed

lemma PostAssignment_stable [stable_intros]:
  assumes "coercions_ok C"
  shows "stable_check (PostAssignment C)"
  unfolding stable_check_def
proof (intro allI impI)
  fix v w
  assume run: "PostAssignment C v = Inr w"
  have "stable_fields (post_fields C)"
    unfolding post_fields_def using assms
    by (auto simp: stable_fields_Cons ASSIGNMENT_STATES_def accept_def intro!: stable_intros)
  then have "closed_model (post_fields C) match_assignment_states_to_staff w = Inr w"
    using run stable_closed unfolding PostAssignment_def stable_check_def by blast
  moreover have "infer_legacy_assignment_states w = w"
    using run infer_validated by (auto simp: PostAssignment_def closed_model_Inr)
  ultimately show "PostAssignment C w = Inr w" by (simp add: PostAssignment_def)
qed

lemma ZoneAssignment_stable [stable_intros]: "coercions_ok C \<Longrightarrow> stable_check (ZoneAssignment C)"
  unfolding ZoneAssignment_def by (intro stable_closed) (auto simp: stable_fields_Cons intro!: stable_intros)

lemma LeaveEntry_stable [stable_intros]: "coercions_ok C \<Longrightarrow> stable_check (LeaveEntry C)"
  unfolding LeaveEntry_def by (intro stable_closed) (auto simp: stable_fields_Cons intro!: stable_intros)

lemma ExtraAssignment_stable [stable_intros]: "coercions_ok C \<Longrightarrow> stable_check (ExtraAssignment C)"
  unfolding ExtraAssignment_def by (intro stable_closed) (auto simp: stable_fields_Cons intro!: stable_intros)

lemma roster_fields_stable: "coercions_ok C \<Longrightarrow> stable_fields (roster_fields C)"
  unfolding roster_fields_def by (intro base_fields_stable) (auto simp: stable_fields_Cons intro!: stable_intros)

lemma AssignmentRosterV1_stable: "coercions_ok C \<Longrightarrow> stable_check (AssignmentRosterV1 T C)"
  unfolding AssignmentRosterV1_def by (intro stable_closed roster_fields_stable)


lemma UniformInspectionRow_stable [stable_intros]: "coercions_ok C \<Longrightarrow> stable_check (UniformInspectionRow C)"
  unfolding UniformInspectionRow_def INSPECTION_PARTS_def list.map append.simps by (intro stable_closed) (auto simp: stable_fields_Cons intro!: stable_intros)

lemma detector_rows_stable [stable_intros]:
  "stable_check DetectorPositionTest" "stable_check DetectorTestRow" "stable_check PerimeterCheckResult"
proof -
  show "stable_check DetectorPositionTest" "stable_check PerimeterCheckResult"
    unfolding DetectorPositionTest_def PerimeterCheckResult_def
    by (intro stable_closed; auto simp: stable_fields_Cons intro!: stable_intros)+
  then show "stable_check DetectorTestRow"
    unfolding DetectorTestRow_def by (intro stable_closed) (auto simp: stable_fields_Cons intro!: stable_intros)
qed

lemma RandomSearchBlock_stable [stable_intros]: "coercions_ok C \<Longrightarrow> stable_check (RandomSearchBlock C)"
  unfolding RandomSearchBlock_def by (intro stable_closed) (auto simp: stable_fields_Cons intro!: stable_intros)

lemma RandomSearchSection_stable [stable_intros]: "coercions_ok C \<Longrightarrow> stable_check (RandomSearchSection C)"
  unfolding RandomSearchSection_def by (intro stable_closed) (auto simp: stable_fields_Cons intro!: stable_intros)

lemma DetectorSignOutRow_stable [stable_intros]: "coercions_ok C \<Longrightarrow> stable_check (DetectorSignOutRow C)"
  unfolding DetectorSignOutRow_def by (intro stable_closed) (auto simp: stable_fields_Cons intro!: stable_intros)

lemma payloads_stable:
  assumes "coercions_ok C"
  shows "stable_check (UniformInspectionV1 C)" "stable_check (MetalDetectorTestV1 C)"
    "stable_check (PerimeterCheckV1 T C)" "stable_check (RandomSearchLogV1 C)" "stable_check (DetectorSignOutV1 C)"
  unfolding UniformInspectionV1_def MetalDetectorTestV1_def PerimeterCheckV1_def RandomSearchLogV1_def DetectorSignOutV1_def
  using assms
  by (intro stable_closed base_fields_stable; auto simp: stable_fields_Cons intro!: stable_intros)+

lemma daily_payload_stable:
  assumes "coercions_ok C" "validate_daily_payload T C kind v = Inr w"
  shows "validate_daily_payload T C kind w = Inr w"
proof -
  have "stable_check (DAILY_PAYLOAD_MODELS T C k)" for k
    using AssignmentRosterV1_stable [OF assms(1)] payloads_stable [OF assms(1)] by (cases k) simp_all
  with assms(2) show ?thesis
    by (auto simp: validate_daily_payload_def stable_check_def split: option.split_asm)
qed

section \<open>Grouping\<close>

lemma map_of_add_location:
  "map_of (add_location i l acc) k =
     (if k = i then Some ((case map_of acc i of None \<Rightarrow> [] | Some ls \<Rightarrow> ls) @ [l]) else map_of acc k)"
  by (simp add: add_location_def update_conv')

lemma map_of_locations_fold:
  "map_of (fold (\<lambda>(i, l). add_location i l) ps acc) k =
     (let old = (case map_of acc k of None \<Rightarrow> [] | Some ls \<Rightarrow> ls); ls = old @ map snd (filter (\<lambda>p. fst p = k) ps)
      in if map_of acc k = None \<and> ls = [] then None else Some ls)"
proof (induction ps arbitrary: acc)
  case (Cons p ps)
  obtain i l where p: "p = (i, l)" by (cases p)
  show ?case
    by (cases "i = k") (simp_all add: Cons p map_of_add_location Let_def split: option.split)
qed (simp add: Let_def split: option.split)

lemma distinct_locations_fold:
  "distinct (map fst acc) \<Longrightarrow> distinct (map fst (fold (\<lambda>(i, l). add_location i l) ps acc))"
  by (induction ps arbitrary: acc) (auto simp: add_location_def distinct_update)

lemma locations_of_iff:
  "(i, ls) \<in> set (locations_of ps) \<longleftrightarrow> ls \<noteq> [] \<and> ls = map snd (filter (\<lambda>p. fst p = i) ps)"
proof -
  have "(i, ls) \<in> set (locations_of ps) \<longleftrightarrow> map_of (locations_of ps) i = Some ls"
    using distinct_locations_fold [of "[]" ps] by (auto simp: locations_of_def dest: map_of_is_SomeI map_of_SomeD)
  also have "\<dots> \<longleftrightarrow> ls \<noteq> [] \<and> ls = map snd (filter (\<lambda>p. fst p = i) ps)"
    unfolding locations_of_def by (auto simp: map_of_locations_fold Let_def)
  finally show ?thesis .
qed

section \<open>Coverage\<close>

definition times_assigned :: "form_templates \<Rightarrow> string \<Rightarrow> json \<Rightarrow> json \<Rightarrow> nat" where
  "times_assigned T attribute m i = length (filter (\<lambda>p. fst p = i) (p1_assignments T attribute m))"

text \<open>
  The statement of the coverage, on the roster itself: a first-priority post is one whose code the
  form lists with the priority P1, and the places of an officer in a column are the positions
  (zone and post) of the first-priority posts that name the officer there.
\<close>

definition first_priority :: "form_templates \<Rightarrow> json \<Rightarrow> bool" where
  "first_priority T post \<longleftrightarrow>
     (\<exists>label. map_of (ROSTER_POST_METADATA T) (string_of (attr ''post_code'' post)) = Some (label, ''P1''))"

definition assigned_places :: "form_templates \<Rightarrow> string \<Rightarrow> json \<Rightarrow> json \<Rightarrow> (nat \<times> nat) set" where
  "assigned_places T attribute m i =
     {(j, k). let zones = elems (attr ''zones'' m); posts = elems (attr ''posts'' (zones ! j)) in
        j < length zones \<and> k < length posts \<and> first_priority T (posts ! k)
        \<and> attr attribute (posts ! k) \<noteq> JNull \<and> attr ''staff_id'' (attr attribute (posts ! k)) = i}"

lemma is_p1_first_priority: "is_p1 T post = first_priority T post"
  by (auto simp: is_p1_def metadata_of_post_def first_priority_def split: option.splits)

lemma length_filter_concat:
  "length (filter P (concat xss)) = card {(j, k). j < length xss \<and> k < length (xss ! j) \<and> P (xss ! j ! k)}"
proof -
  have "length (filter P (concat xss)) = (\<Sum>j = 0..<length xss. card {k. k < length (xss ! j) \<and> P (xss ! j ! k)})"
    by (simp add: filter_concat length_concat sum_list_sum_nth length_filter_conv_card)
  also have "\<dots> = card (SIGMA j:{0..<length xss}. {k. k < length (xss ! j) \<and> P (xss ! j ! k)})"
    by simp
  also have "(SIGMA j:{0..<length xss}. {k. k < length (xss ! j) \<and> P (xss ! j ! k)})
      = {(j, k). j < length xss \<and> k < length (xss ! j) \<and> P (xss ! j ! k)}" by auto
  finally show ?thesis .
qed

lemma finite_places: "finite {(j, k). j < length xss \<and> k < length (xss ! j) \<and> P (xss ! j ! k)}"
proof (rule finite_subset)
  show "{(j, k). j < length xss \<and> k < length (xss ! j) \<and> P (xss ! j ! k)}
      \<subseteq> (SIGMA j:{..<length xss}. {..<length (xss ! j)})" by auto
qed simp

lemma twice_places:
  "2 \<le> times_assigned T attribute m i \<longleftrightarrow>
     (\<exists>p \<in> assigned_places T attribute m i. \<exists>q \<in> assigned_places T attribute m i. p \<noteq> q)"
proof -
  let ?P = "\<lambda>(zone, post). first_priority T post \<and> attr attribute post \<noteq> JNull
    \<and> attr ''staff_id'' (attr attribute post) = i"
  let ?xss = "map (\<lambda>zone. map (\<lambda>post. (attr ''zone_code'' zone, post)) (elems (attr ''posts'' zone)))
       (elems (attr ''zones'' m))"
  let ?S = "{(j, k). j < length ?xss \<and> k < length (?xss ! j) \<and> ?P (?xss ! j ! k)}"
  have "filter (\<lambda>p. fst p = i) (p1_assignments T attribute m)
      = map (\<lambda>(zone, post). (attr ''staff_id'' (attr attribute post), zone, attr ''post_code'' post))
          (filter ?P (roster_posts m))"
    by (auto simp: p1_assignments_def is_p1_first_priority filter_map comp_def
        intro!: arg_cong [where f = "map _"] filter_cong)
  then have "times_assigned T attribute m i = card ?S"
    by (simp only: times_assigned_def length_map roster_posts_def length_filter_concat)
  moreover have "?S = assigned_places T attribute m i"
    by (auto simp: assigned_places_def Let_def)
  ultimately have "times_assigned T attribute m i = card (assigned_places T attribute m i)"
    "finite (assigned_places T attribute m i)"
    using finite_places [of ?xss ?P] by (simp_all only:)
  moreover have "2 \<le> n \<longleftrightarrow> \<not> n \<le> Suc 0" for n :: nat by auto
  ultimately show ?thesis
    using card_le_Suc0_iff_eq [of "assigned_places T attribute m i"] by metis
qed

lemma duplicate_warnings_iff:
  "(\<exists>w \<in> set (duplicate_warnings T attribute kind label m). cw_staff_id w = Some i)
     \<longleftrightarrow> 2 \<le> times_assigned T attribute m i"
proof
  assume "\<exists>w \<in> set (duplicate_warnings T attribute kind label m). cw_staff_id w = Some i"
  then obtain ls where "(i, ls) \<in> set (locations_of (p1_assignments T attribute m))" "2 \<le> length ls"
    by (auto simp: duplicate_warnings_def)
  then show "2 \<le> times_assigned T attribute m i" by (simp add: locations_of_iff times_assigned_def)
next
  let ?ps = "p1_assignments T attribute m"
  let ?ls = "map snd (filter (\<lambda>p. fst p = i) ?ps)"
  assume twice: "2 \<le> times_assigned T attribute m i"
  then have "?ls \<noteq> []" by (auto simp: times_assigned_def)
  then have "(i, ?ls) \<in> set (locations_of ?ps)" by (simp only: locations_of_iff simp_thms)
  moreover have "2 \<le> length ?ls" using twice by (simp add: times_assigned_def)
  ultimately show "\<exists>w \<in> set (duplicate_warnings T attribute kind label m). cw_staff_id w = Some i"
    by (auto simp: duplicate_warnings_def intro!: bexI [of _ "(i, ?ls)"])
qed

lemma duplicate_warnings_code:
  "w \<in> set (duplicate_warnings T attribute kind label m) \<Longrightarrow> cw_code w = kind \<and> (\<exists>i. cw_staff_id w = Some i)"
  by (auto simp: duplicate_warnings_def)

lemma unfilled_warnings_code: "w \<in> set (unfilled_warnings T m) \<Longrightarrow> cw_code w = P1_Unfilled"
  by (auto simp: unfilled_warnings_def)

lemma unfilled_warnings_iff:
  "(\<exists>w \<in> set (unfilled_warnings T m). cw_zone_code w = z \<and> cw_post_code w = Some c) \<longleftrightarrow>
     (\<exists>zone \<in> set (elems (attr ''zones'' m)). \<exists>post \<in> set (elems (attr ''posts'' zone)).
        attr ''zone_code'' zone = z \<and> attr ''post_code'' post = c \<and> first_priority T post
        \<and> attr ''initial_staff'' post = JNull)"
  by (force simp: unfilled_warnings_def roster_posts_def is_p1_first_priority)

lemma warnings_of_code:
  "w \<in> set (coverage_warnings T m) \<and> cw_code w = P1_Unfilled \<longleftrightarrow> w \<in> set (unfilled_warnings T m)"
  "w \<in> set (coverage_warnings T m) \<and> cw_code w = Duplicate_Initial_Assignment \<longleftrightarrow>
     w \<in> set (duplicate_warnings T ''initial_staff'' Duplicate_Initial_Assignment ''initial'' m)"
  "w \<in> set (coverage_warnings T m) \<and> cw_code w = Duplicate_Rotation_Assignment \<longleftrightarrow>
     w \<in> set (duplicate_warnings T ''rotation_staff'' Duplicate_Rotation_Assignment ''rotation'' m)"
  by (auto simp: coverage_warnings_def dest: duplicate_warnings_code unfilled_warnings_code)

text \<open>The metadata come from the posts the zones list, so every approved post has them.\<close>

lemma assigned_dict_keys: "fst ` set (assigned_dict kvs) = fst ` set (kvs :: ('a \<times> 'b) list)"
proof -
  have upd: "fst ` set (AList.update a b acc) = insert a (fst ` set acc)" for a and b :: 'b and acc
    by (induction acc) auto
  have "fst ` set (fold (\<lambda>(k, v). AList.update k v) kvs acc) = fst ` set acc \<union> fst ` set kvs" for acc
  proof (induction kvs arbitrary: acc)
    case (Cons x kvs)
    then show ?case by (cases x) (simp add: upd)
  qed simp
  then show ?thesis by (simp add: assigned_dict_def)
qed

lemma assigned_dict_values: "(k, v) \<in> set (assigned_dict kvs) \<Longrightarrow> (k, v) \<in> set kvs"
proof -
  have "(k, v) \<in> set (fold (\<lambda>(k, v). AList.update k v) kvs acc) \<Longrightarrow> (k, v) \<in> set acc \<union> set kvs" for acc
  proof (induction kvs arbitrary: acc)
    case (Cons x kvs)
    have "set (AList.update a b acc) \<subseteq> insert (a, b) (set acc)" for a b
      by (induction acc) auto
    with Cons show ?case by (cases x) fastforce
  qed simp
  from this [of "[]"] show "(k, v) \<in> set (assigned_dict kvs) \<Longrightarrow> (k, v) \<in> set kvs" by (simp add: assigned_dict_def)
qed

definition metadata_complete :: "form_templates \<Rightarrow> bool" where
  "metadata_complete T \<longleftrightarrow>
     (\<forall>(z, cs) \<in> set (ROSTER_ZONE_POSTS T). \<forall>c \<in> set cs. map_of (ROSTER_POST_METADATA T) c \<noteq> None)"

lemma form_templates_complete:
  assumes "form_templates_of roster perimeter = Inr T"
  shows "metadata_complete T"
proof -
  from assms obtain zones zs posts ms where z: "map_result zone_posts zones = Inr zs"
      "map_result (items_of ''posts'') zones = Inr posts" "map_result post_metadata (concat posts) = Inr ms"
      "ROSTER_ZONE_POSTS T = assigned_dict zs" "ROSTER_POST_METADATA T = assigned_dict ms"
    by (auto simp: form_templates_of_def)
  have "c \<in> fst ` set ms" if "(k, cs) \<in> set zs" "c \<in> set cs" for k cs c
  proof -
    from map_result_member(1) [OF z(1) that(1)] obtain zone where
      zone: "zone \<in> set zones" "zone_posts zone = Inr (k, cs)" by blast
    then obtain ps where ps: "items_of ''posts'' zone = Inr ps" "map_result (py_str_at ''code'') ps = Inr cs"
      by (auto simp: zone_posts_def)
    from map_result_member(2) [OF z(2) zone(1)] ps(1) have "ps \<in> set posts" by auto
    moreover from map_result_member(1) [OF ps(2) that(2)] obtain post where
      "post \<in> set ps" "py_str_at ''code'' post = Inr c" by blast
    ultimately have "post \<in> set (concat posts)" "py_str_at ''code'' post = Inr c" by auto
    with map_result_member(2) [OF z(3)] obtain x where "x \<in> set ms" "post_metadata post = Inr x" by blast
    with \<open>py_str_at ''code'' post = Inr c\<close> show ?thesis by (force simp: post_metadata_def)
  qed
  then show ?thesis
    using assigned_dict_keys [of ms] assigned_dict_values [of _ _ zs]
    by (fastforce simp: metadata_complete_def z(4,5) map_of_eq_None_iff)
qed


lemma closed_attr:
  assumes fs: "stable_fields fs" and run: "closed_model fs after v = Inr w" and field: "(k, d, c) \<in> set fs"
  shows "c (attr k w) = Inr (attr k w)"
proof -
  from run obtain kvs p where p: "fill_fields fs kvs = Inr p" "w = JObj p" by (auto simp: closed_model_Inr)
  have "list_all2 (\<lambda>(k, d, c) (k', v). k' = k \<and> c v = Inr v) fs p"
    using fs by (intro fill_fields_passed [OF p(1)]) (auto simp: stable_fields_def)
  with field obtain v where v: "(k, v) \<in> set p" "c v = Inr v"
    by (fastforce simp: list_all2_conv_all_nth in_set_conv_nth)
  moreover have "distinct (map fst p)"
    using fs fill_fields_keys [OF p(1)] by (simp add: stable_fields_def)
  ultimately show ?thesis by (simp add: attr_def p(2) at_key_def obj_get_def)
qed

lemma roster_Inr:
  assumes "AssignmentRosterV1 T C v = Inr m"
  obtains p where "m = JObj p" "map fst p = map fst (roster_fields C)" "match_approved_roster_structure T p"
    "\<forall>(k, d, c) \<in> set (roster_fields C). coercions_ok C \<longrightarrow> c (at_key k p) = Inr (at_key k p)"
proof -
  from assms have run: "closed_model (roster_fields C) (match_approved_roster_structure T) v = Inr m"
    by (simp add: AssignmentRosterV1_def)
  then obtain kvs p where p: "fill_fields (roster_fields C) kvs = Inr p" "match_approved_roster_structure T p" "m = JObj p"
    by (auto simp: closed_model_Inr)
  have "c (at_key k p) = Inr (at_key k p)" if "(k, d, c) \<in> set (roster_fields C)" "coercions_ok C" for k d c
    using closed_attr [OF roster_fields_stable [OF that(2)] run that(1)] by (simp add: attr_def p(3))
  with p fill_fields_keys [OF p(1)] show thesis by (intro that [of p]) auto
qed

lemma zone_codes_known:
  assumes m: "match_approved_roster_structure T p" and zone: "zone \<in> set (elems (at_key ''zones'' p))"
  obtains z cs where "attr ''zone_code'' zone = JStr z" "(z, cs) \<in> set (ROSTER_ZONE_POSTS T)"
    "set (map (attr ''post_code'') (elems (attr ''posts'' zone))) = JStr ` set cs"
    "length (elems (attr ''posts'' zone)) = length cs"
proof -
  from m have codes: "map (attr ''zone_code'') (elems (at_key ''zones'' p)) = map JStr (ROSTER_ZONE_CODES T)"
    and ok: "zone_matches T zone" using zone
    by (auto simp: match_approved_roster_structure_def Let_def list_all_iff)
  have "attr ''zone_code'' zone \<in> set (map JStr (ROSTER_ZONE_CODES T))"
    unfolding codes [symmetric] using zone by simp
  then obtain z where z: "attr ''zone_code'' zone = JStr z" "z \<in> fst ` set (ROSTER_ZONE_POSTS T)"
    by (auto simp: ROSTER_ZONE_CODES_def)
  then obtain cs where cs: "map_of (ROSTER_ZONE_POSTS T) z = Some cs"
    by (metis map_of_eq_None_iff not_Some_eq)
  with ok z(1) show thesis
    by (intro that [of z cs]) (auto simp: zone_matches_def Let_def string_of_def dest: map_of_SomeD)
qed

lemma posts_have_metadata:
  assumes "AssignmentRosterV1 T C v = Inr m" "metadata_complete T"
  shows "list_all (\<lambda>(zone, post). metadata_of_post T post \<noteq> None) (roster_posts m)"
proof -
  from assms(1) obtain p where p: "m = JObj p" "match_approved_roster_structure T p" by (rule roster_Inr)
  have "metadata_of_post T post \<noteq> None"
    if zone: "zone \<in> set (elems (at_key ''zones'' p))" and post: "post \<in> set (elems (attr ''posts'' zone))" for zone post
  proof -
    from zone_codes_known [OF p(2) zone] obtain z cs where z: "(z, cs) \<in> set (ROSTER_ZONE_POSTS T)"
      "set (map (attr ''post_code'') (elems (attr ''posts'' zone))) = JStr ` set cs" by metis
    from post have "attr ''post_code'' post \<in> set (map (attr ''post_code'') (elems (attr ''posts'' zone)))" by simp
    then obtain c where "attr ''post_code'' post = JStr c" "c \<in> set cs" unfolding z(2) by auto
    with assms(2) z(1) show ?thesis by (auto simp: metadata_complete_def metadata_of_post_def string_of_def)
  qed
  then show ?thesis by (auto simp: list_all_iff roster_posts_def p(1) attr_def [of "''zones''"])
qed

text \<open>
  C36. The coverage of an approved roster is computed without an error, and its warnings are exact:
  a post is reported as unfilled exactly when the form lists its code with priority P1 and it has
  no initial officer, and an officer is reported twice assigned, in the initial or in the
  rotation column, exactly when two different posts of priority P1 name the officer in that
  column.
\<close>

theorem coverage_exact:
  assumes "form_templates_of roster perimeter = Inr T" "AssignmentRosterV1 T C v = Inr m"
  shows "\<exists>ws. calculate_roster_coverage T C v = Inr ws
    \<and> ((\<exists>w \<in> set ws. cw_code w = P1_Unfilled \<and> cw_zone_code w = z \<and> cw_post_code w = Some c) \<longleftrightarrow>
        (\<exists>zone \<in> set (elems (attr ''zones'' m)). \<exists>post \<in> set (elems (attr ''posts'' zone)).
           attr ''zone_code'' zone = z \<and> attr ''post_code'' post = c \<and> first_priority T post
           \<and> attr ''initial_staff'' post = JNull))
    \<and> ((\<exists>w \<in> set ws. cw_code w = Duplicate_Initial_Assignment \<and> cw_staff_id w = Some i) \<longleftrightarrow>
        (\<exists>p \<in> assigned_places T ''initial_staff'' m i. \<exists>q \<in> assigned_places T ''initial_staff'' m i. p \<noteq> q))
    \<and> ((\<exists>w \<in> set ws. cw_code w = Duplicate_Rotation_Assignment \<and> cw_staff_id w = Some i) \<longleftrightarrow>
        (\<exists>p \<in> assigned_places T ''rotation_staff'' m i. \<exists>q \<in> assigned_places T ''rotation_staff'' m i. p \<noteq> q))"
proof -
  have "list_all (\<lambda>(zone, post). metadata_of_post T post \<noteq> None) (roster_posts m)"
    using posts_have_metadata [OF assms(2) form_templates_complete [OF assms(1)]] .
  then have "calculate_roster_coverage T C v = Inr (coverage_warnings T m)"
    by (simp add: calculate_roster_coverage_def assms(2) del: bind_result_eq_Inr)
  moreover have "(\<exists>w \<in> set (coverage_warnings T m). cw_code w = P1_Unfilled \<and> cw_zone_code w = z \<and> cw_post_code w = Some c)
      \<longleftrightarrow> (\<exists>w \<in> set (unfilled_warnings T m). cw_zone_code w = z \<and> cw_post_code w = Some c)"
    using warnings_of_code(1) [of _ T m] by blast
  moreover have "(\<exists>w \<in> set (coverage_warnings T m). cw_code w = Duplicate_Initial_Assignment \<and> cw_staff_id w = Some i)
      \<longleftrightarrow> (\<exists>w \<in> set (duplicate_warnings T ''initial_staff'' Duplicate_Initial_Assignment ''initial'' m). cw_staff_id w = Some i)"
    using warnings_of_code(2) [of _ T m] by blast
  moreover have "(\<exists>w \<in> set (coverage_warnings T m). cw_code w = Duplicate_Rotation_Assignment \<and> cw_staff_id w = Some i)
      \<longleftrightarrow> (\<exists>w \<in> set (duplicate_warnings T ''rotation_staff'' Duplicate_Rotation_Assignment ''rotation'' m). cw_staff_id w = Some i)"
    using warnings_of_code(3) [of _ T m] by blast
  ultimately show ?thesis
    by (intro exI [of _ "coverage_warnings T m"]) (simp only: unfilled_warnings_iff duplicate_warnings_iff twice_places simp_thms)
qed

end
