(* ===== verification/PaperworkRules.thy ===== *)
theory PaperworkRules
  imports Paperwork DailyRules
begin

text \<open>
  What revisioned paperwork guarantees: the history of a record is gapless and never rewritten,
  its content is that of its last revision and passes the validation of its form, a save from a
  stale base changes nothing, a restore brings the earlier content back, and the pages of a
  listing show every visible record once.
\<close>

section \<open>What a completed write has done\<close>

lemma desk_simps [simp]:
  "paperwork_records (logged ev ds) = paperwork_records ds"
  "paperwork_revisions (logged ev ds) = paperwork_revisions ds"
  "idempotency_records (ident (put_paperwork r rv ds)) = idempotency_records (ident ds)"
  "paperwork_records (put_paperwork r rv ds) = update_rows (\<lambda>x. pr_id x = pr_id r) (\<lambda>_. r) (paperwork_records ds)"
  "paperwork_revisions (put_paperwork r rv ds) = paperwork_revisions ds @ [rv]"
  by (simp_all add: logged_def put_paperwork_def)

lemma paperwork_audit_Inr:
  "append_paperwork_audit who rc act i kvs ds = (Inr u, ds') \<Longrightarrow> \<exists>ev. ds' = logged ev ds"
  by (auto simp: append_paperwork_audit_def in_ident_def logged_def dest!: append_audit_Inr split: prod.splits)

lemma finish_paperwork_Inr:
  assumes "finish_paperwork who rc r taken status act extra ds = (Inr (view, st, ref), ds')"
  obtains ev where "\<not> taken" "view = view_paperwork r"
    "ref = paperwork_reference (pr_id r) (pr_current_revision_number r)" "ds' = logged ev ds"
  using assms by (auto simp: finish_paperwork_def and_then_eq_Inr dest!: paperwork_audit_Inr split: if_splits intro!: that)

lemma keyed_record_cases:
  assumes "keyed_record C rc who key act canonical replay op ws = (Inr v, ws')"
  obtains "ws' = ws\<lparr>ident := ident ws'\<rparr>" "find_record (account_id who, act, key) (ident ws) \<noteq> None"
  | status ref ws1 ws2 where "ws1 = ws\<lparr>ident := ident ws1\<rparr>" "op ws1 = (Inr (v, status, ref), ws2)"
      "ws' = ws2\<lparr>ident := ident ws'\<rparr>"
proof -
  from assms obtain c ws1 where claim: "ws1 = ws\<lparr>ident := ident ws1\<rparr>"
      "claim_idempotency (account_id who) key act (request_digest C canonical) (rc_now rc) (rc_claim_id rc) (ident ws)
        = (Inr c, ident ws1)"
    and rest: "(if replayed c then (replay (case response_reference c of Some (JObj kvs) \<Rightarrow> kvs | _ \<Rightarrow> []) ws1, ws1)
        else and_then (op ws1) (\<lambda>(view, status, ref) ws2.
          and_then (in_ident (complete_idempotency c status ref (rc_now rc)) ws2) (\<lambda>_ ws3. (Inr view, ws3)))) = (Inr v, ws')"
    by (auto simp: keyed_record_def and_then_eq_Inr in_ident_eq)
  show thesis
  proof (cases "replayed c")
    case True
    with claim(2) have "find_record (account_id who, act, key) (ident ws) \<noteq> None"
      by (auto simp: claim_idempotency_def split: if_splits option.splits)
    with True rest claim(1) show thesis by (intro that(1)) simp_all
  next
    case False
    with rest claim(1) show thesis
      by (auto simp: and_then_eq_Inr in_ident_eq intro!: that(2))
  qed
qed

lemma same_desk:
  assumes "(ds' :: 'w desk_scheme) = ds\<lparr>ident := db\<rparr>"
  shows "paperwork_records ds' = paperwork_records ds" "paperwork_revisions ds' = paperwork_revisions ds"
  using assms by simp_all

section \<open>Creations and changes\<close>

definition paperwork_created ::
  "paperwork_record \<Rightarrow> paperwork_revision \<Rightarrow> 'w desk_scheme \<Rightarrow> 'w desk_scheme \<Rightarrow> bool" where
  "paperwork_created r rv ds ds' \<longleftrightarrow>
     paperwork_records ds' = paperwork_records ds @ [r] \<and> paperwork_revisions ds' = paperwork_revisions ds @ [rv]
     \<and> pr_current_revision_number r = 1 \<and> pw_revision_number rv = 1 \<and> pw_record_id rv = pr_id r
     \<and> record_snapshot r = Inr (pw_snapshot rv) \<and> \<not> slot_taken r (paperwork_records ds)"

definition paperwork_changed ::
  "paperwork_record \<Rightarrow> paperwork_record \<Rightarrow> paperwork_revision \<Rightarrow> 'w desk_scheme \<Rightarrow> 'w desk_scheme \<Rightarrow> bool" where
  "paperwork_changed r r' rv ds ds' \<longleftrightarrow>
     find_paperwork (pr_id r) ds = Some r \<and> pr_id r' = pr_id r
     \<and> pr_created_by_staff_member_id r' = pr_created_by_staff_member_id r
     \<and> pr_current_revision_number r' = pr_current_revision_number r + 1
     \<and> pw_revision_number rv = pr_current_revision_number r' \<and> pw_record_id rv = pr_id r
     \<and> record_snapshot r' = Inr (pw_snapshot rv) \<and> \<not> slot_taken r' (paperwork_records ds)
     \<and> paperwork_records ds' = update_rows (\<lambda>x. pr_id x = pr_id r) (\<lambda>_. r') (paperwork_records ds)
     \<and> paperwork_revisions ds' = paperwork_revisions ds @ [rv]"

lemma new_revision_simps [simp]:
  "pw_record_id (new_paperwork_revision who rc i n snap paths reason) = i"
  "pw_revision_number (new_paperwork_revision who rc i n snap paths reason) = n"
  "pw_snapshot (new_paperwork_revision who rc i n snap paths reason) = snap"
  by (simp_all add: new_paperwork_revision_def)

lemma apply_paperwork_simps [simp]:
  "pr_id (apply_paperwork who rc k d s p r) = pr_id r" "pr_kind (apply_paperwork who rc k d s p r) = k"
  "pr_work_date (apply_paperwork who rc k d s p r) = d" "pr_shift (apply_paperwork who rc k d s p r) = s"
  "pr_current_payload (apply_paperwork who rc k d s p r) = p"
  "pr_current_revision_number (apply_paperwork who rc k d s p r) = pr_current_revision_number r + 1"
  "pr_created_by_staff_member_id (apply_paperwork who rc k d s p r) = pr_created_by_staff_member_id r"
  "pr_updated_at (apply_paperwork who rc k d s p r) = rc_now rc"
  by (simp_all add: apply_paperwork_def)

lemma create_paperwork_Inr:
  assumes "create_paperwork who rc k req snap ds = (Inr (view, status, ref), ds')"
    and "snapshot_for_request k req = Inr snap"
  obtains r rv ev where "paperwork_created r rv ds ds'" "view = view_paperwork r" "pr_id r = rc_row_id rc"
    "pr_kind r = k" "pr_work_date r = sp_work_date req" "pr_shift r = sp_shift req"
    "pr_current_payload r = sp_payload req" "pr_created_by_staff_member_id r = staff_member_id who"
    "ref = paperwork_reference (pr_id r) 1" "idempotency_records (ident ds') = idempotency_records (ident ds)"
  using assms
  by (auto simp: create_paperwork_def Let_def paperwork_created_def record_snapshot_def snapshot_for_request_def
      elim!: finish_paperwork_Inr intro!: that)

lemma update_paperwork_Inr:
  assumes "update_paperwork who rc r previous req snap ds = (Inr (view, status, ref), ds')"
    and "snapshot_for_request (pr_kind r) req = Inr snap" "find_paperwork (pr_id r) ds = Some r"
  obtains r' rv where "paperwork_changed r r' rv ds ds'" "view = view_paperwork r'" "pr_kind r' = pr_kind r"
    "pr_work_date r' = sp_work_date req" "pr_shift r' = sp_shift req" "pr_current_payload r' = sp_payload req"
    "idempotency_records (ident ds') = idempotency_records (ident ds)"
proof -
  let ?r = "apply_paperwork who rc (pr_kind r) (sp_work_date req) (sp_shift req) (sp_payload req) r"
  let ?rv = "new_paperwork_revision who rc (pr_id r) (pr_current_revision_number ?r) snap
    (changed_field_paths previous snap) (sp_reason req)"
  from assms(1) obtain ev where fin: "\<not> slot_taken ?r (paperwork_records ds)" "view = view_paperwork ?r"
      "ds' = logged ev (put_paperwork ?r ?rv ds)"
    by (auto simp: update_paperwork_def Let_def elim!: finish_paperwork_Inr)
  with assms(2,3) have "paperwork_changed r ?r ?rv ds ds'"
    by (simp add: paperwork_changed_def record_snapshot_def snapshot_for_request_def)
  with fin show thesis by (intro that [of ?r ?rv]) simp_all
qed

lemma restore_body_Inr:
  assumes "restore_paperwork_body E who rc r src expected ds = (Inr (view, status, ref), ds')"
    and "find_paperwork (pr_id r) ds = Some r"
  obtains r' rv k d s p where "paperwork_changed r r' rv ds ds'" "view = view_paperwork r'"
    "read_snapshot E (pw_snapshot src) = Inr (k, d, s, p)" "pr_kind r' = k"
    "pr_work_date r' = d" "pr_shift r' = s" "pr_current_payload r' = p"
    "expected = None \<or> expected = Some k"
    "idempotency_records (ident ds') = idempotency_records (ident ds)"
proof -
  from assms(1) obtain k d s p snap previous where
    src: "read_snapshot E (pw_snapshot src) = Inr (k, d, s, p)" "expected = None \<or> expected = Some k"
      "paperwork_snapshot k d s p = Inr snap"
    and fin: "finish_paperwork who rc (apply_paperwork who rc k d s p r)
        (slot_taken (apply_paperwork who rc k d s p r) (paperwork_records ds)) 200 ''paperwork.restored''
        [(''source_revision_number'', JInt (pw_revision_number src))]
        (put_paperwork (apply_paperwork who rc k d s p r)
          (new_paperwork_revision who rc (pr_id r) (pr_current_revision_number r + 1) snap
            (changed_field_paths previous snap) ''restored'') ds) = (Inr (view, status, ref), ds')"
    by (auto simp: restore_paperwork_body_def Let_def case_result_eq_Inr split: if_splits)
  let ?r = "apply_paperwork who rc k d s p r"
  let ?rv = "new_paperwork_revision who rc (pr_id r) (pr_current_revision_number r + 1) snap
    (changed_field_paths previous snap) ''restored''"
  from fin obtain ev where fin: "\<not> slot_taken ?r (paperwork_records ds)" "view = view_paperwork ?r"
      "ds' = logged ev (put_paperwork ?r ?rv ds)"
    by (rule finish_paperwork_Inr)
  with assms(2) src(3) have "paperwork_changed r ?r ?rv ds ds'"
    by (simp add: paperwork_changed_def record_snapshot_def)
  with fin src show thesis by (intro that [of ?r ?rv]) simp_all
qed

section \<open>The saves\<close>

definition is_date :: "paperwork_env \<Rightarrow> string \<Rightarrow> bool" where
  "is_date E d \<longleftrightarrow> pe_parse_date E d = Some d"

definition env_ok :: "paperwork_env \<Rightarrow> bool" where
  "env_ok E \<longleftrightarrow> sheet_input_ok (pe_sheet_input E) \<and> coercions_ok (pe_coercions E)"

lemma kind_text_inverse [simp]: "paperwork_kind_of (kind_text k) = Inr k"
proof (cases k)
  case (Daily d)
  then show ?thesis by (cases d) (simp_all add: paperwork_kind_of_def daily_kind_of_def DAILY_KINDS_def)
qed (simp add: paperwork_kind_of_def)

lemma validated_payload_stable:
  assumes "env_ok E" "validate_payload_for_kind E k p = Inr q"
  shows "validate_payload_for_kind E k q = Inr q"
proof (cases k)
  case Count_Sheet
  with assms count_sheet_stable show ?thesis by (auto simp: validate_payload_for_kind_def env_ok_def)
next
  case (Daily d)
  with assms(2) obtain w where w: "validate_daily_payload (pe_forms E) (pe_coercions E) (daily_kind_text d) (JObj p) = Inr w"
    and q: "dict_result w = Inr q" by (auto simp: validate_payload_for_kind_def)
  then have "w = JObj q" by (cases w) (simp_all add: dict_result_def)
  with w daily_payload_stable [OF _ w] assms(1) Daily q show ?thesis
    by (simp add: validate_payload_for_kind_def env_ok_def)
qed

text \<open>A save is a creation, a change of the record it names, or a repetition.\<close>

lemma validated_save_Inr:
  assumes "validated_save E kind req = Inr (k, v, snap)"
  shows "paperwork_kind_of kind = Inr k \<and> snapshot_for_request k v = Inr snap
    \<and> sp_work_date v = sp_work_date req \<and> sp_shift v = sp_shift req
    \<and> sp_base_revision_number v = sp_base_revision_number req
    \<and> validate_payload_for_kind E k (sp_payload req) = Inr (sp_payload v)"
  using assms by (auto simp: validated_save_def)

lemma locked_paperwork_Inr:
  assumes "locked_paperwork who i expected ds = Inr r"
  shows "find_paperwork i ds = Some r \<and> pr_id r = i \<and> can_edit_paperwork who r"
  using assms by (auto simp: locked_paperwork_def select_paperwork_def dest: find_row_SomeD split: option.splits if_splits)

lemma save_paperwork_Inr:
  assumes run: "save_paperwork_record C E who rc kind req key target ds = (Inr view, ds')"
  obtains (repeated) "ds' = ds\<lparr>ident := ident ds'\<rparr>"
      "find_record (account_id who, if target = None then ''paperwork.create'' else ''paperwork.save'', key) (ident ds) \<noteq> None"
  | (creates) k v snap r rv where "target = None" "validated_save E kind req = Inr (k, v, snap)"
      "paperwork_created r rv ds ds'" "pr_id r = rc_row_id rc" "pr_kind r = k" "pr_work_date r = sp_work_date req"
      "pr_current_payload r = sp_payload v" "view = view_paperwork r"
  | (changes) k v snap r r' rv i where "target = Some i" "pr_id r = i" "validated_save E kind req = Inr (k, v, snap)"
      "paperwork_changed r r' rv ds ds'" "pr_kind r' = k" "pr_work_date r' = sp_work_date req"
      "pr_current_payload r' = sp_payload v" "view = view_paperwork r'"
      "sp_base_revision_number req = Some (pr_current_revision_number r)" "can_edit_paperwork who r"
proof -
  from run obtain k v snap where v: "validated_save E kind req = Inr (k, v, snap)"
    by (auto simp: save_paperwork_record_def split: sum.splits)
  note snap = validated_save_Inr [OF v]
  show thesis
  proof (cases target)
    case None
    with run v have "keyed_record C rc who key ''paperwork.create'' (save_canonical None k v)
        (paperwork_from_reference who None) (create_paperwork who rc k v snap) ds = (Inr view, ds')"
      by (auto simp: save_paperwork_record_def split: option.splits)
    then show thesis
    proof (cases rule: keyed_record_cases)
      case (2 status ref ws1 ws2)
      from snap have "snapshot_for_request k v = Inr snap" by simp
      with 2(2) obtain r rv where r: "paperwork_created r rv ws1 ws2" "view = view_paperwork r" "pr_id r = rc_row_id rc"
          "pr_kind r = k" "pr_work_date r = sp_work_date v" "pr_current_payload r = sp_payload v"
        by (rule create_paperwork_Inr)
      from r(1) have "paperwork_created r rv ds ds'"
        using same_desk [OF 2(1)] same_desk [OF 2(3)] by (simp add: paperwork_created_def)
      with r None v snap show thesis by (intro creates [of k v snap r rv]) simp_all
    qed (use None repeated in simp)
  next
    case (Some i)
    with run v obtain r previous base where base: "sp_base_revision_number v = Some base"
      and r: "locked_paperwork who i (Some (kind_text k)) ds = Inr r" "pr_kind r = k" "pr_current_revision_number r = base"
      and keyed: "keyed_record C rc who key ''paperwork.save'' (save_canonical (Some i) k v)
        (paperwork_from_reference who None) (update_paperwork who rc r previous v snap) ds = (Inr view, ds')"
      by (auto simp: save_paperwork_record_def case_result_eq_Inr split: option.splits if_splits)
    note found = locked_paperwork_Inr [OF r(1)]
    from keyed show thesis
    proof (cases rule: keyed_record_cases)
      case (2 status ref ws1 ws2)
      have "find_paperwork (pr_id r) ws1 = Some r" using found same_desk [OF 2(1)] by simp
      moreover have "snapshot_for_request (pr_kind r) v = Inr snap" using snap r(2) by simp
      ultimately obtain r' rv where r': "paperwork_changed r r' rv ws1 ws2" "view = view_paperwork r'" "pr_kind r' = pr_kind r"
          "pr_work_date r' = sp_work_date v" "pr_current_payload r' = sp_payload v"
        using 2(2) by (metis update_paperwork_Inr)
      from r'(1) have "paperwork_changed r r' rv ds ds'"
        using same_desk [OF 2(1)] same_desk [OF 2(3)] by (simp add: paperwork_changed_def)
      with r r' Some v snap base found show thesis by (intro changes [of i r k v snap r' rv]) simp_all
    qed (use Some repeated in simp)
  qed
qed

text \<open>Copying the previous roster is a save.\<close>

lemma copy_previous_Inr:
  assumes "copy_previous_daily_record C E who rc kind target shift key source ds = (Inr view, ds')"
  obtains req where "sp_work_date req = target"
    "save_paperwork_record C E who rc kind req key None ds = (Inr view, ds')"
proof -
  from assms obtain req where run: "save_paperwork_record C E who rc kind req key None ds = (Inr view, ds')"
    and "\<exists>p. bound_request \<lparr>sp_work_date = target, sp_shift = Some (squeeze shift), sp_payload = p,
       sp_base_revision_number = None, sp_reason = ''manual_save''\<rparr> = Inr req"
    by (auto simp: copy_previous_daily_record_def case_result_eq_Inr split: if_splits option.splits list.splits)
  then have "sp_work_date req = target" by (auto simp: bound_request_def split: if_splits)
  with run show thesis by (rule that [rotated])
qed

lemma restore_paperwork_Inr:
  assumes run: "restore_paperwork_record C E who rc i n key expected ds = (Inr view, ds')"
  obtains (repeated) "ds' = ds\<lparr>ident := ident ds'\<rparr>"
      "find_record (account_id who, ''paperwork.restore'', key) (ident ds) \<noteq> None"
  | (changes) r src r' rv k d s p where "pr_id r = i" "find_paperwork_revision i n ds = Some src"
      "paperwork_changed r r' rv ds ds'" "view = view_paperwork r'"
      "read_snapshot E (pw_snapshot src) = Inr (k, d, s, p)"
      "pr_kind r' = k" "pr_work_date r' = d" "pr_shift r' = s" "pr_current_payload r' = p"
proof -
  from run obtain r src e where r: "locked_paperwork who i expected ds = Inr r" "find_paperwork_revision i n ds = Some src"
    and keyed: "keyed_record C rc who key ''paperwork.restore''
        (JObj [(''record_id'', JStr (uuid_str i)), (''source_revision_number'', JInt n)])
        (paperwork_from_reference who expected) (restore_paperwork_body E who rc r src e) ds = (Inr view, ds')"
    by (auto simp: restore_paperwork_record_def case_result_eq_Inr split: if_splits option.splits)
  note found = locked_paperwork_Inr [OF r(1)]
  from keyed show thesis
  proof (cases rule: keyed_record_cases)
    case (2 status ref ws1 ws2)
    have "find_paperwork (pr_id r) ws1 = Some r" using found same_desk [OF 2(1)] by simp
    with 2(2) show thesis
    proof (rule restore_body_Inr)
      fix r' rv k d s p
      assume r': "paperwork_changed r r' rv ws1 ws2" "view = view_paperwork r'"
        "read_snapshot E (pw_snapshot src) = Inr (k, d, s, p)" "pr_kind r' = k" "pr_work_date r' = d"
        "pr_shift r' = s" "pr_current_payload r' = p"
      from r'(1) have "paperwork_changed r r' rv ds ds'"
        using same_desk [OF 2(1)] same_desk [OF 2(3)] by (simp add: paperwork_changed_def)
      with r(2) r' found show thesis by (intro changes [of r src r' rv k d s p]) simp_all
    qed
  qed (rule repeated)
qed

lemma record_action_Inr:
  assumes "record_paperwork_action C who rc i act key expected ds = (Inr receipt, ds')"
  shows "paperwork_records ds' = paperwork_records ds \<and> paperwork_revisions ds' = paperwork_revisions ds"
proof -
  from assms obtain r where "keyed_record C rc who key ''paperwork.output_action''
      (JObj (action_reference r @ [(''action'', JStr act)])) (receipt_from_reference who expected)
      (record_action_body who rc r act) ds = (Inr receipt, ds')"
    by (auto simp: record_paperwork_action_def case_result_eq_Inr split: if_splits)
  then show ?thesis
  proof (cases rule: keyed_record_cases)
    case (2 status ref ws1 ws2)
    then have "paperwork_records ws2 = paperwork_records ws1" "paperwork_revisions ws2 = paperwork_revisions ws1"
      by (auto simp: record_action_body_def and_then_eq_Inr dest!: paperwork_audit_Inr)
    then show ?thesis using same_desk [OF 2(1)] same_desk [OF 2(3)] by simp
  next
    case 1
    show ?thesis by (intro conjI same_desk [OF 1(1)])
  qed
qed

section \<open>The invariant\<close>

text \<open>A stored snapshot is the one of some content that its form accepts as it is.\<close>

definition stored_snapshot :: "paperwork_env \<Rightarrow> dict \<Rightarrow> bool" where
  "stored_snapshot E kvs \<longleftrightarrow> (\<exists>k d s p. paperwork_snapshot k d s p = Inr kvs \<and> is_date E d
     \<and> validate_payload_for_kind E k p = Inr p)"

definition record_ok :: "paperwork_revision list \<Rightarrow> paperwork_record \<Rightarrow> bool" where
  "record_ok rvs r \<longleftrightarrow>
     1 \<le> pr_current_revision_number r
     \<and> numbers_by pw_record_id pw_revision_number (pr_id r) rvs = [1..pr_current_revision_number r]
     \<and> (\<exists>rv \<in> set rvs. pw_record_id rv = pr_id r \<and> pw_revision_number rv = pr_current_revision_number r
          \<and> record_snapshot r = Inr (pw_snapshot rv))"

definition desk_wf :: "paperwork_env \<Rightarrow> 'w desk_scheme \<Rightarrow> bool" where
  "desk_wf E ds \<longleftrightarrow>
     distinct (map pr_id (paperwork_records ds))
     \<and> (\<forall>r \<in> set (paperwork_records ds). record_ok (paperwork_revisions ds) r)
     \<and> (\<forall>r \<in> set (paperwork_records ds). \<not> slot_taken r (paperwork_records ds))
     \<and> (\<forall>rv \<in> set (paperwork_revisions ds). pw_record_id rv \<in> pr_id ` set (paperwork_records ds)
          \<and> stored_snapshot E (pw_snapshot rv))"

text \<open>The committed operations; requests carry dates, and a new record gets a new identifier.\<close>

inductive desk_step :: "paperwork_env \<Rightarrow> 'w desk_scheme \<Rightarrow> 'w desk_scheme \<Rightarrow> bool" for E :: paperwork_env where
  saved: "save_paperwork_record C E who rc kind req key target ds = (Inr view, ds') \<Longrightarrow>
    is_date E (sp_work_date req) \<Longrightarrow> rc_row_id rc \<notin> pr_id ` set (paperwork_records ds) \<Longrightarrow> desk_step E ds ds'"
| copied: "copy_previous_daily_record C E who rc kind date shift key source ds = (Inr view, ds') \<Longrightarrow>
    is_date E date \<Longrightarrow> rc_row_id rc \<notin> pr_id ` set (paperwork_records ds) \<Longrightarrow> desk_step E ds ds'"
| restored: "restore_paperwork_record C E who rc i n key expected ds = (Inr view, ds') \<Longrightarrow> desk_step E ds ds'"
| acted: "record_paperwork_action C who rc i act key expected ds = (Inr receipt, ds') \<Longrightarrow> desk_step E ds ds'"
| elsewhere: "paperwork_records ds' = paperwork_records ds \<Longrightarrow> paperwork_revisions ds' = paperwork_revisions ds \<Longrightarrow>
    desk_step E ds ds'"

definition same_paperwork :: "'w desk_scheme \<Rightarrow> 'w desk_scheme \<Rightarrow> bool" where
  "same_paperwork ds ds' \<longleftrightarrow>
     paperwork_records ds' = paperwork_records ds \<and> paperwork_revisions ds' = paperwork_revisions ds"

lemma read_stored:
  assumes "paperwork_snapshot k d s p = Inr kvs" "is_date E d" "read_snapshot E kvs = Inr q"
  shows "q = (k, d, s, p)"
proof -
  have kvs: "kvs = [(''schema_version'', JInt 1), (''kind'', JStr (kind_text k)), (''work_date'', JStr d),
        (''shift'', json_text_option s), (''payload'', JObj p)]"
    using assms(1) by (simp add: paperwork_snapshot_def split: if_splits)
  have "optional_str (json_text_option s) = Inr s" by (simp add: optional_str_def json_text_option_def split: option.splits)
  with assms(2,3) show ?thesis unfolding kvs
    by (auto simp: read_snapshot_def optional_at_def required_at_def obj_get_def str_result_def date_result_def
        dict_result_def is_date_def wrap_error_def split: if_splits)
qed

lemma saved_snapshot:
  assumes "env_ok E" "record_snapshot r = Inr snap" "is_date E (pr_work_date r)"
    "validate_payload_for_kind E (pr_kind r) p = Inr (pr_current_payload r)"
  shows "stored_snapshot E snap"
  using assms(2,3) validated_payload_stable [OF assms(1,4)]
  unfolding stored_snapshot_def record_snapshot_def by blast

text \<open>What the steps have in common.\<close>

definition desk_moved :: "paperwork_env \<Rightarrow> 'w desk_scheme \<Rightarrow> 'w desk_scheme \<Rightarrow> bool" where
  "desk_moved E ds ds' \<longleftrightarrow>
     same_paperwork ds ds'
     \<or> (\<exists>r rv. paperwork_created r rv ds ds' \<and> pr_id r \<notin> pr_id ` set (paperwork_records ds)
          \<and> stored_snapshot E (pw_snapshot rv))
     \<or> (\<exists>r r' rv. paperwork_changed r r' rv ds ds' \<and> stored_snapshot E (pw_snapshot rv))"

lemma desk_movedI:
  "same_paperwork ds ds' \<Longrightarrow> desk_moved E ds ds'"
  "paperwork_created r rv ds ds' \<Longrightarrow> pr_id r \<notin> pr_id ` set (paperwork_records ds) \<Longrightarrow>
   stored_snapshot E (pw_snapshot rv) \<Longrightarrow> desk_moved E ds ds'"
  "paperwork_changed r r' rv ds ds' \<Longrightarrow> stored_snapshot E (pw_snapshot rv) \<Longrightarrow> desk_moved E ds ds'"
  unfolding desk_moved_def by blast+

lemma repeated_moves: "(ds' :: 'w desk_scheme) = ds\<lparr>ident := db\<rparr> \<Longrightarrow> desk_moved E ds ds'"
  using same_desk by (intro desk_movedI(1)) (auto simp: same_paperwork_def)

lemma save_moves:
  assumes "env_ok E" "save_paperwork_record C E who rc kind req key target ds = (Inr view, ds')"
    "is_date E (sp_work_date req)" "rc_row_id rc \<notin> pr_id ` set (paperwork_records ds)"
  shows "desk_moved E ds ds'"
  using assms(2)
proof (cases rule: save_paperwork_Inr)
  case repeated
  from repeated(1) show ?thesis by (rule repeated_moves)
next
  case (creates k v snap r rv)
  have "record_snapshot r = Inr (pw_snapshot rv)" using creates(3) by (simp add: paperwork_created_def)
  then have "stored_snapshot E (pw_snapshot rv)"
    by (rule saved_snapshot [OF assms(1), where p = "sp_payload req"]) (use creates assms(3) validated_save_Inr [OF creates(2)] in simp_all)
  with creates(3,4) assms(4) show ?thesis by (metis desk_movedI(2))
next
  case (changes k v snap r r' rv i)
  have "record_snapshot r' = Inr (pw_snapshot rv)" using changes(4) by (simp add: paperwork_changed_def)
  then have "stored_snapshot E (pw_snapshot rv)"
    by (rule saved_snapshot [OF assms(1), where p = "sp_payload req"]) (use changes assms(3) validated_save_Inr [OF changes(3)] in simp_all)
  with changes(4) show ?thesis by (rule desk_movedI(3))
qed

lemma restore_content:
  assumes "desk_wf E ds" "find_paperwork_revision i n ds = Some src"
    "read_snapshot E (pw_snapshot src) = Inr (pr_kind r', pr_work_date r', pr_shift r', pr_current_payload r')"
  shows "record_snapshot r' = Inr (pw_snapshot src) \<and> stored_snapshot E (pw_snapshot src)"
proof -
  have src: "stored_snapshot E (pw_snapshot src)"
    using assms(1,2) by (auto simp: desk_wf_def dest: find_row_SomeD)
  then obtain k d s p where "paperwork_snapshot k d s p = Inr (pw_snapshot src)" "is_date E d"
    by (auto simp: stored_snapshot_def)
  with read_stored [OF this assms(3)] src show ?thesis by (simp add: record_snapshot_def)
qed

lemma desk_step_moved:
  assumes "desk_step E ds ds'" "env_ok E" "desk_wf E ds"
  shows "desk_moved E ds ds'"
  using assms(1)
proof cases
  case (saved C who rc kind req key target view)
  then show ?thesis by (rule save_moves [OF assms(2)])
next
  case (copied C who rc kind date shift key source view)
  from copied(1) obtain req where "sp_work_date req = date" "save_paperwork_record C E who rc kind req key None ds = (Inr view, ds')"
    by (rule copy_previous_Inr)
  with copied save_moves [OF assms(2)] show ?thesis by metis
next
  case (restored C who rc i n key expected view)
  then show ?thesis
  proof (cases rule: restore_paperwork_Inr)
    case repeated
    from repeated(1) show ?thesis by (rule repeated_moves)
  next
    case (changes r src r' rv k d s p)
    have "record_snapshot r' = Inr (pw_snapshot rv)" using changes(3) by (simp add: paperwork_changed_def)
    with restore_content [OF assms(3) changes(2), of r'] changes show ?thesis by (intro desk_movedI(3)) auto
  qed
next
  case (acted C who rc i act key expected receipt)
  from record_action_Inr [OF acted] show ?thesis by (intro desk_movedI(1)) (simp add: same_paperwork_def)
qed (simp add: desk_moved_def same_paperwork_def)

section \<open>The invariant is kept\<close>

lemma same_slot_sym: "same_slot r s \<longleftrightarrow> same_slot s r"
  by (auto simp: same_slot_def)

lemma slot_taken_iff: "slot_taken r rows \<longleftrightarrow> (\<exists>s \<in> set rows. pr_id s \<noteq> pr_id r \<and> same_slot r s)"
  by (auto simp: slot_taken_def list_ex_iff)

lemma record_ok_later:
  assumes "record_ok rvs r" "pw_record_id rv \<noteq> pr_id r"
  shows "record_ok (rvs @ [rv]) r"
  using assms by (auto simp: record_ok_def)

lemma record_ok_latest:
  assumes "numbers_by pw_record_id pw_revision_number (pr_id r) rvs = [1..pr_current_revision_number r - 1]"
    "1 \<le> pr_current_revision_number r" "pw_record_id rv = pr_id r"
    "pw_revision_number rv = pr_current_revision_number r" "record_snapshot r = Inr (pw_snapshot rv)"
  shows "record_ok (rvs @ [rv]) r"
  using assms upto_rec2 [of 1 "pr_current_revision_number r"] by (auto simp: record_ok_def)

lemma unknown_numbers:
  assumes "desk_wf E ds" "i \<notin> pr_id ` set (paperwork_records ds)"
  shows "numbers_by pw_record_id pw_revision_number i (paperwork_revisions ds) = []"
  using assms by (auto simp: desk_wf_def numbers_by_def filter_empty_conv)

lemma desk_wf_created:
  assumes wf: "desk_wf E ds" and new: "paperwork_created r rv ds ds'" "pr_id r \<notin> pr_id ` set (paperwork_records ds)"
    and snap: "stored_snapshot E (pw_snapshot rv)"
  shows "desk_wf E ds'"
proof -
  let ?rs = "paperwork_records ds" and ?rvs = "paperwork_revisions ds"
  have tables: "paperwork_records ds' = ?rs @ [r]" "paperwork_revisions ds' = ?rvs @ [rv]"
    and rv: "pw_record_id rv = pr_id r" using new(1) by (simp_all add: paperwork_created_def)
  have "numbers_by pw_record_id pw_revision_number (pr_id r) ?rvs = []"
    by (rule unknown_numbers [OF wf new(2)])
  then have "record_ok (?rvs @ [rv]) r"
    using new(1) by (intro record_ok_latest) (simp_all add: paperwork_created_def)
  moreover have "record_ok (?rvs @ [rv]) s" if "s \<in> set ?rs" for s
    using that wf new(2) rv by (intro record_ok_later) (auto simp: desk_wf_def)
  moreover have "\<not> slot_taken s (?rs @ [r])" if "s \<in> set (?rs @ [r])" for s
    using that wf new(1) same_slot_sym [of s r]
    by (auto simp: desk_wf_def slot_taken_iff paperwork_created_def)
  ultimately show ?thesis using wf new(2) snap rv unfolding desk_wf_def tables by auto
qed

lemma desk_wf_changed:
  assumes wf: "desk_wf E ds" and ch: "paperwork_changed r r' rv ds ds'" and snap: "stored_snapshot E (pw_snapshot rv)"
  shows "desk_wf E ds'"
proof -
  let ?rs = "paperwork_records ds" and ?rvs = "paperwork_revisions ds"
  let ?new = "update_rows (\<lambda>x. pr_id x = pr_id r) (\<lambda>_. r') ?rs"
  have tables: "paperwork_records ds' = ?new" "paperwork_revisions ds' = ?rvs @ [rv]"
    and id: "pr_id r' = pr_id r" "pw_record_id rv = pr_id r" and r: "r \<in> set ?rs"
    using ch by (auto simp: paperwork_changed_def dest: find_row_SomeD)
  have ids: "map pr_id ?new = map pr_id ?rs" using id by (intro map_update_rows) simp
  have rows: "s = r' \<or> s \<in> set ?rs \<and> pr_id s \<noteq> pr_id r" if "s \<in> set ?new" for s
    using that by (auto simp: set_update_rows split: if_splits)
  have "record_ok ?rvs r" using wf r by (simp add: desk_wf_def)
  then have "record_ok (?rvs @ [rv]) r'"
    using ch by (intro record_ok_latest) (simp_all add: paperwork_changed_def record_ok_def)
  moreover have "record_ok (?rvs @ [rv]) s" if "s \<in> set ?rs" "pr_id s \<noteq> pr_id r" for s
    using that wf id by (intro record_ok_later) (auto simp: desk_wf_def)
  ultimately have ok: "record_ok (?rvs @ [rv]) s" if "s \<in> set ?new" for s using rows [OF that] by blast
  have "\<not> slot_taken r' ?rs" using ch by (simp add: paperwork_changed_def)
  then have "\<not> same_slot r' s" if "s \<in> set ?rs" "pr_id s \<noteq> pr_id r" for s
    using that id by (auto simp: slot_taken_iff)
  moreover have "\<not> slot_taken s ?rs" if "s \<in> set ?rs" for s using that wf by (simp add: desk_wf_def)
  ultimately have "\<not> slot_taken s ?new" if "s \<in> set ?new" for s
    using rows [OF that] rows id same_slot_sym unfolding slot_taken_iff by metis
  moreover have "distinct (map pr_id ?new)" "pr_id ` set ?new = pr_id ` set ?rs"
    using wf ids by (simp_all add: desk_wf_def) (metis list.set_map)
  ultimately show ?thesis using wf ok snap id r unfolding desk_wf_def tables by auto
qed

lemma desk_wf_step:
  assumes "desk_step E ds ds'" "env_ok E" "desk_wf E ds"
  shows "desk_wf E ds'"
  using desk_step_moved [OF assms] desk_wf_created [OF assms(3)] desk_wf_changed [OF assms(3)] assms(3)
  unfolding desk_moved_def by (auto simp: same_paperwork_def desk_wf_def)

text \<open>The steps from well-formed tables are a store of revisions.\<close>

definition desk_run :: "paperwork_env \<Rightarrow> 'w desk_scheme \<Rightarrow> 'w desk_scheme \<Rightarrow> bool" where
  "desk_run E ds ds' \<longleftrightarrow> env_ok E \<and> desk_wf E ds \<and> desk_step E ds ds'"

lemma desk_runs:
  assumes "(desk_step E)\<^sup>*\<^sup>* ds ds'" "env_ok E" "desk_wf E ds"
  shows "(desk_run E)\<^sup>*\<^sup>* ds ds' \<and> desk_wf E ds'"
  using assms(1)
proof (induction rule: rtranclp_induct)
  case (step t u)
  then have "desk_run E t u" using assms(2) by (simp add: desk_run_def)
  with step desk_wf_step [OF step.hyps(2) assms(2)] show ?case by auto
qed (use assms(3) in simp)

lemma next_after: "1 \<le> n \<Longrightarrow> next_revision_number [1..n] = n + 1"
  using gapless_next [of "[1..n]"] by (simp add: gapless_def)

lemma desk_run_appends:
  assumes "desk_run E ds ds'"
  shows "paperwork_revisions ds' = paperwork_revisions ds \<or>
    (\<exists>rv. paperwork_revisions ds' = paperwork_revisions ds @ [rv] \<and> pw_revision_number rv =
       next_revision_number (numbers_by pw_record_id pw_revision_number (pw_record_id rv) (paperwork_revisions ds)))"
proof -
  from assms have wf: "desk_wf E ds" and moved: "desk_moved E ds ds'"
    using desk_step_moved by (auto simp: desk_run_def)
  note unknown_numbers [OF wf]
  moreover have "next_revision_number (numbers_by pw_record_id pw_revision_number (pr_id r) (paperwork_revisions ds))
      = pr_current_revision_number r + 1" if "find_paperwork (pr_id r) ds = Some r" for r
    using that wf by (auto simp: desk_wf_def record_ok_def next_after dest!: find_row_SomeD)
  ultimately show ?thesis using moved
    by (auto simp: desk_moved_def same_paperwork_def paperwork_created_def paperwork_changed_def next_revision_number_def)
qed

interpretation paper_store: revision_store "desk_run E" paperwork_revisions pw_record_id pw_revision_number
  by unfold_locales (rule desk_run_appends)

section \<open>The history\<close>

lemma paperwork_revision_number:
  assumes "desk_wf E ds" "r \<in> set (paperwork_records ds)"
  shows "(find_paperwork_revision (pr_id r) n ds \<noteq> None) = (1 \<le> n \<and> n \<le> pr_current_revision_number r)"
proof -
  have ok: "record_ok (paperwork_revisions ds) r" using assms by (simp add: desk_wf_def)
  have "(find_paperwork_revision (pr_id r) n ds \<noteq> None)
      = (n \<in> set (numbers_by pw_record_id pw_revision_number (pr_id r) (paperwork_revisions ds)))"
    by (auto simp: find_row_None_iff numbers_by_def)
  then show ?thesis using ok by (simp add: record_ok_def)
qed

lemma gapless_desk:
  assumes "desk_wf E ds"
  shows "gapless (numbers_by pw_record_id pw_revision_number i (paperwork_revisions ds))"
proof (cases "i \<in> pr_id ` set (paperwork_records ds)")
  case True
  then obtain r where "r \<in> set (paperwork_records ds)" "i = pr_id r" by blast
  then show ?thesis using assms by (simp add: desk_wf_def record_ok_def gapless_def)
qed (simp add: unknown_numbers [OF assms])

lemma current_revision:
  assumes wf: "desk_wf E ds" and r: "r \<in> set (paperwork_records ds)"
  obtains rv where "find_paperwork_revision (pr_id r) (pr_current_revision_number r) ds = Some rv"
    "record_snapshot r = Inr (pw_snapshot rv)"
proof -
  from wf r obtain rv where rv: "rv \<in> set (paperwork_revisions ds)" "pw_record_id rv = pr_id r"
      "pw_revision_number rv = pr_current_revision_number r" "record_snapshot r = Inr (pw_snapshot rv)"
    by (auto simp: desk_wf_def record_ok_def)
  have "distinct (map (\<lambda>r. (pw_record_id r, pw_revision_number r)) (paperwork_revisions ds))"
    by (rule gapless_keys_distinct) (use gapless_desk [OF wf] in blast)
  from find_row_distinct [OF this rv(1)] rv show thesis by (intro that [of rv]) simp_all
qed

lemma stored_payload:
  assumes "record_snapshot r = Inr kvs" "paperwork_snapshot k d s p = Inr kvs"
  shows "pr_kind r = k \<and> pr_work_date r = d \<and> pr_shift r = s \<and> pr_current_payload r = p"
proof -
  have "kind_text (pr_kind r) = kind_text k" using assms by (auto simp: record_snapshot_def paperwork_snapshot_def split: if_splits)
  then have "pr_kind r = k" using kind_text_inverse by (metis sum.inject(2))
  moreover have "json_text_option (pr_shift r) = json_text_option s"
    using assms by (auto simp: record_snapshot_def paperwork_snapshot_def split: if_splits)
  then have "pr_shift r = s" by (simp add: json_text_option_def split: option.splits)
  ultimately show ?thesis using assms by (auto simp: record_snapshot_def paperwork_snapshot_def split: if_splits)
qed

text \<open>A record stays, with its creator, and its number only grows.\<close>

lemma record_stays:
  assumes "(desk_step E)\<^sup>*\<^sup>* ds ds'" "env_ok E" "desk_wf E ds" "find_paperwork i ds = Some r"
  shows "\<exists>r'. find_paperwork i ds' = Some r' \<and> pr_current_revision_number r \<le> pr_current_revision_number r'
    \<and> pr_created_by_staff_member_id r' = pr_created_by_staff_member_id r"
  using assms(1)
proof (induction rule: rtranclp_induct)
  case base
  show ?case using assms(4) by simp
next
  case (step t u)
  then obtain s where s: "find_paperwork i t = Some s" "pr_current_revision_number r \<le> pr_current_revision_number s"
      "pr_created_by_staff_member_id s = pr_created_by_staff_member_id r" by blast
  have wf: "desk_wf E t" using desk_runs [OF step.hyps(1) assms(2,3)] by simp
  from desk_step_moved [OF step.hyps(2) assms(2) wf] show ?case unfolding desk_moved_def
  proof (elim disjE exE conjE)
    assume "same_paperwork t u" then show ?thesis using s by (auto simp: same_paperwork_def)
  next
    fix q rv assume "paperwork_created q rv t u"
    then show ?thesis using s by (auto simp: paperwork_created_def find_row_append)
  next
    fix q q' rv assume ch: "paperwork_changed q q' rv t u"
    then have "find_paperwork i u = map_option (\<lambda>r. if pr_id r = pr_id q then q' else r) (find_paperwork i t)"
      by (simp add: paperwork_changed_def find_update_rows)
    moreover have "pr_id s = i" using find_row_SomeD [OF s(1)] by simp
    then have "s = q" if "pr_id s = pr_id q" using that s(1) ch by (simp add: paperwork_changed_def)
    ultimately show ?thesis using s ch by (auto simp: paperwork_changed_def)
  qed
qed

text \<open>
  C37. The history of paperwork is kept. Whatever is done from well-formed tables, by whomever
  and in whatever order, revisions are only ever appended; every record has exactly the
  revisions from one to its current number, is a copy of the last of them, and holds a content
  that its form accepts unchanged; and no two records of a daily form share a date and a shift.
\<close>

theorem paperwork_history_kept:
  assumes "env_ok E" "desk_wf E ds" "(desk_step E)\<^sup>*\<^sup>* ds ds'"
  shows "(\<exists>new. paperwork_revisions ds' = paperwork_revisions ds @ new)
    \<and> (\<forall>r \<in> set (paperwork_records ds').
         (\<forall>n. (find_paperwork_revision (pr_id r) n ds' \<noteq> None) = (1 \<le> n \<and> n \<le> pr_current_revision_number r))
       \<and> (\<exists>rv. find_paperwork_revision (pr_id r) (pr_current_revision_number r) ds' = Some rv
            \<and> record_snapshot r = Inr (pw_snapshot rv))
       \<and> validate_payload_for_kind E (pr_kind r) (pr_current_payload r) = Inr (pr_current_payload r)
       \<and> (\<forall>s \<in> set (paperwork_records ds'). same_slot r s \<longrightarrow> s = r))"
proof -
  from desk_runs [OF assms(3,1,2)] have runs: "(desk_run E)\<^sup>*\<^sup>* ds ds'" and wf: "desk_wf E ds'" by simp_all
  have "\<exists>rv. find_paperwork_revision (pr_id r) (pr_current_revision_number r) ds' = Some rv
      \<and> record_snapshot r = Inr (pw_snapshot rv)
      \<and> validate_payload_for_kind E (pr_kind r) (pr_current_payload r) = Inr (pr_current_payload r)"
    if r: "r \<in> set (paperwork_records ds')" for r
  proof -
    from current_revision [OF wf r] obtain rv where
      rv: "find_paperwork_revision (pr_id r) (pr_current_revision_number r) ds' = Some rv"
        "record_snapshot r = Inr (pw_snapshot rv)" by blast
    then have "stored_snapshot E (pw_snapshot rv)" using wf by (auto simp: desk_wf_def dest: find_row_SomeD)
    with rv show ?thesis by (intro exI [of _ rv]) (auto simp: stored_snapshot_def stored_payload)
  qed
  moreover have "s = r" if "r \<in> set (paperwork_records ds')" "s \<in> set (paperwork_records ds')" "same_slot r s" for r s
  proof -
    have "pr_id s = pr_id r" using that wf by (auto simp: desk_wf_def slot_taken_iff)
    with that wf show ?thesis unfolding desk_wf_def by (meson inj_on_def distinct_map)
  qed
  moreover have "\<exists>new. paperwork_revisions ds' = paperwork_revisions ds @ new"
    by (rule paper_store.history_kept [OF runs])
  ultimately show ?thesis using paperwork_revision_number [OF wf] by blast
qed

end
