(* ===== verification/RosterRules.thy ===== *)
theory RosterRules
  imports DailyRules
begin

text \<open>
  Forms made from a roster: the copy for another day keeps the assignments and clears the day,
  and the uniform inspection lists the staff of the roster once each in print order. A small
  approved roster shows that the assumptions of these properties can hold.
\<close>

section \<open>The roster of another day\<close>

lemma at_key_update: "at_key k (AList.update k' v kvs) = (if k = k' then v else at_key k kvs)"
  by (simp add: at_key_def obj_get_def update_conv')

lemma keys_update: "k \<in> fst ` set kvs \<Longrightarrow> map fst (AList.update k v kvs) = map fst kvs"
  by (induction kvs) auto

lemma keys_dict_update: "fst ` set new \<subseteq> fst ` set kvs \<Longrightarrow> map fst (dict_update new kvs) = map fst kvs"
proof (induction new arbitrary: kvs)
  case (Cons x new)
  obtain k v where x: "x = (k, v)" by (cases x)
  have "map fst (AList.update k v kvs) = map fst kvs" using Cons.prems by (intro keys_update) (auto simp: x)
  moreover from this have "fst ` set (AList.update k v kvs) = fst ` set kvs" by (metis list.set_map)
  ultimately show ?case using Cons by (simp add: dict_update_def x)
qed (simp add: dict_update_def)

lemma at_key_dict_update:
  "distinct (map fst new) \<Longrightarrow> at_key k (dict_update new kvs) = (case map_of new k of None \<Rightarrow> at_key k kvs | Some v \<Rightarrow> v)"
proof (induction new arbitrary: kvs)
  case (Cons x new)
  obtain k' v where x: "x = (k', v)" by (cases x)
  have none: "map_of new k' = None" using Cons.prems by (auto simp: x map_of_eq_None_iff)
  show ?case using Cons none
    by (cases "k = k'") (auto simp: dict_update_def x at_key_update split: option.split)
qed (simp add: dict_update_def)

text \<open>Checks of fields whose members are all present keep the fields as the checks give them.\<close>

lemma fill_fields_present:
  "\<forall>(k, d, c) \<in> set fs. k \<in> fst ` set kvs \<and> c (at_key k kvs) = Inr (g k) \<Longrightarrow>
   fill_fields fs kvs = Inr (map (\<lambda>(k, d, c). (k, g k)) fs)"
proof (induction fs kvs rule: fill_fields.induct)
  case (2 k d c fs kvs)
  then have "k \<in> fst ` set kvs" by simp
  then obtain v where "obj_get k kvs = Some v" by (auto simp: obj_get_def) (metis map_of_eq_None_iff not_Some_eq image_eqI fst_conv)
  with 2 show ?case by (simp add: at_key_def del: bind_result_eq_Inr)
qed simp

lemma at_key_table: "at_key k (map (\<lambda>(k, d, c). (k, g k)) fs) = (if k \<in> fst ` set fs then g k else JNull)"
  by (induction fs) (auto simp: at_key_def obj_get_def)

definition CLEARED :: "string list" where
  "CLEARED = [''captain'', ''lieutenant'', ''duty_warden'', ''alternate_shift_supervisor'', ''lieutenant_signature_name'']"

definition UNCHECKED :: "string list" where
  "UNCHECKED = [''roll_call_completed'', ''uniform_inspection_completed'', ''assigned_and_dismissed'']"

lemma str_field_Inr: "str_field lo hi v = Inr w \<Longrightarrow> w = v \<and> str_field lo hi w = Inr w"
  by (cases v) auto

lemma extra_without_staff:
  assumes "ExtraAssignment C a = Inr b"
  shows "ExtraAssignment C (without_staff b) = Inr (without_staff b)"
proof -
  from assms obtain x y z where b: "b = JObj [(''label'', x), (''staff'', z)]" and x: "required_short_text y = Inr x"
    by (auto simp: ExtraAssignment_def closed_model_Inr split: option.split_asm)
  from str_field_Inr [OF x] show ?thesis
    by (auto simp: ExtraAssignment_def closed_model_Inr without_staff_def attr_def at_key_def obj_get_def b)
qed

lemma map_result_fixed: "(\<And>x. x \<in> set xs \<Longrightarrow> f x = Inr x) \<Longrightarrow> map_result f xs = Inr xs"
  by (induction xs) auto

lemma extras_without_staff:
  assumes "array_field (\<lambda>n. n \<le> 40) (ExtraAssignment C) v = Inr v" and "coercions_ok C"
  shows "array_field (\<lambda>n. n \<le> 40) (ExtraAssignment C) (JArr (map without_staff (elems v)))
    = Inr (JArr (map without_staff (elems v)))"
proof -
  from assms(1) obtain vs where v: "v = JArr vs" "length vs \<le> 40" "map_result (ExtraAssignment C) vs = Inr vs"
    by (cases v) (auto simp: array_field_def split: if_split_asm)
  have "\<exists>a. ExtraAssignment C a = Inr b" if "b \<in> set vs" for b
    using map_result_member(1) [OF v(3) that] by blast
  then have "map_result (ExtraAssignment C) (map without_staff vs) = Inr (map without_staff vs)"
    by (intro map_result_fixed) (auto dest: extra_without_staff)
  with v show ?thesis by (simp add: array_field_def elems_def del: bind_result_eq_Inr)
qed

text \<open>
  The roster copied to another day is again an approved roster: it keeps every zone with its
  supervisor and its posts with their officers, carries the new day and shift and the labels of
  the extra assignments, and is cleared of everything that belongs to the day it was copied from.
\<close>

theorem roster_copied:
  assumes C: "coercions_ok C" and src: "AssignmentRosterV1 T C source = Inr m"
    and day: "co_date C target = Some d" and s: "length s \<le> 32" "squeeze s \<noteq> []"
  shows "\<exists>p. prepare_copied_roster_payload T C source target (JStr s) = Inr p
    \<and> attr ''zones'' p = attr ''zones'' m
    \<and> attr ''work_date'' p = JStr d \<and> attr ''shift'' p = JStr (squeeze s)
    \<and> attr ''extra_assignments'' p = JArr (map without_staff (elems (attr ''extra_assignments'' m)))
    \<and> (\<forall>k \<in> set CLEARED. attr k p = JNull) \<and> (\<forall>k \<in> set UNCHECKED. attr k p = JBool False)
    \<and> attr ''leave_entries'' p = JArr [] \<and> attr ''briefing_guests'' p = JArr [] \<and> attr ''briefing_minutes'' p = JStr []
    \<and> attr ''equipment'' p = JObj (map (\<lambda>k. (k, JStr ''not_checked'')) SECURITY_EQUIPMENT_KEYS)"
proof -
  from src obtain q where q: "m = JObj q" "map fst q = map fst (roster_fields C)" "match_approved_roster_structure T q"
      "\<forall>(k, d, c) \<in> set (roster_fields C). coercions_ok C \<longrightarrow> c (at_key k q) = Inr (at_key k q)"
    by (rule roster_Inr)
  let ?new = "copied_fields target (JStr s) m"
  define K where "K = dict_update ?new q"
  let ?g = "\<lambda>k. if k = ''work_date'' then JStr d else if k = ''shift'' then JStr (squeeze s) else at_key k K"
  have new: "distinct (map fst ?new)" "set (map fst ?new) \<subseteq> set (map fst (roster_fields C))"
    by (simp_all add: copied_fields_def roster_fields_def base_fields_def version_field_def)
  then have keys: "map fst K = map fst (roster_fields C)"
    using keys_dict_update [of ?new q] q(2) unfolding K_def by (metis list.set_map)
  have at: "at_key k K = (case map_of ?new k of None \<Rightarrow> at_key k q | Some v \<Rightarrow> v)" for k
    unfolding K_def by (rule at_key_dict_update [OF new(1)])
  note look = at [unfolded copied_fields_def]
  have version: "snd (snd (version_field C)) (JInt 1) = Inr (JInt 1)" using C by (simp add: version_field_def coercions_ok_def)
  have kept: "array_field (\<lambda>_. True) (ZoneAssignment C) (at_key ''zones'' q) = Inr (at_key ''zones'' q)"
    "snd (snd (version_field C)) (at_key ''schema_version'' q) = Inr (at_key ''schema_version'' q)"
    "array_field (\<lambda>n. n \<le> 40) (ExtraAssignment C) (at_key ''extra_assignments'' q) = Inr (at_key ''extra_assignments'' q)"
    using bspec [OF q(4), of "(''zones'', None, array_field (\<lambda>_. True) (ZoneAssignment C))"]
      bspec [OF q(4), of "version_field C"]
      bspec [OF q(4), of "(''extra_assignments'', Some (JArr []), array_field (\<lambda>n. n \<le> 40) (ExtraAssignment C))"] C
    by (simp_all add: roster_fields_def base_fields_def version_field_def)
  have equipment: "dict_field (choice_field [''yes'', ''no'', ''not_checked''])
      (JObj (map (\<lambda>k. (k, JStr ''not_checked'')) SECURITY_EQUIPMENT_KEYS))
    = Inr (JObj (map (\<lambda>k. (k, JStr ''not_checked'')) SECURITY_EQUIPMENT_KEYS))"
    by (simp add: dict_field_def SECURITY_EQUIPMENT_KEYS_def accept_def del: bind_result_eq_Inr)
  have "Suc 0 \<le> length s" using s(2) length_squeeze [of s] by (cases "squeeze s") auto
  then have checks: "\<forall>(k, d', c) \<in> set (roster_fields C). c (at_key k K) = Inr (?g k)"
    using kept(2) C s day equipment extras_without_staff [OF kept(3) C] kept(1)
    by (simp add: roster_fields_def base_fields_def version_field_def look date_field_def coerced_def
        q(1) attr_def [of "''extra_assignments''"] del: bind_result_eq_Inr)
  define p where "p = map (\<lambda>(k, d, c). (k, ?g k)) (roster_fields C)"
  have fill: "fill_fields (roster_fields C) K = Inr p"
    unfolding p_def
  proof (rule fill_fields_present, rule ballI)
    fix x
    assume x: "x \<in> set (roster_fields C)"
    have "fst ` set K = fst ` set (roster_fields C)" using keys by (metis list.set_map)
    with x have "fst x \<in> fst ` set K" by simp
    with bspec [OF checks x] show "case x of (k, d', c) \<Rightarrow> k \<in> fst ` set K \<and> c (at_key k K) = Inr (?g k)"
      by (cases x) (simp only: prod.case fst_conv simp_thms)
  qed
  have atp: "at_key k p = (if k \<in> fst ` set (roster_fields C) then ?g k else JNull)" for k
    unfolding p_def by (rule at_key_table)
  have names: "fst ` set (roster_fields C) = set (map fst (roster_fields C))" by simp
  note fields = names roster_fields_def base_fields_def version_field_def
  have "match_approved_roster_structure T p"
    using q(3) by (simp add: match_approved_roster_structure_def Let_def atp look fields has_keys_def comp_def)
  then have "closed_model (roster_fields C) (match_approved_roster_structure T) (JObj K) = Inr (JObj p)"
    using fill keys unfolding closed_model_Inr obj_keys_def by (metis order_refl)
  moreover have "prepare_copied_roster_payload T C source target (JStr s) = AssignmentRosterV1 T C (JObj K)"
    by (simp add: prepare_copied_roster_payload_def src K_def del: bind_result_eq_Inr) (simp add: q(1))
  ultimately have "prepare_copied_roster_payload T C source target (JStr s) = Inr (JObj p)"
    by (simp add: AssignmentRosterV1_def)
  moreover have "at_key k p = (if k = ''work_date'' then JStr d else if k = ''shift'' then JStr (squeeze s) else at_key k K)"
    if "k \<in> set (map fst (roster_fields C))" for k using that by (simp add: atp)
  ultimately show ?thesis
    by (intro exI [of _ "JObj p"]) (simp add: attr_def [of _ "JObj _"] q(1) atp look fields CLEARED_def UNCHECKED_def)
qed

section \<open>The inspection of a roster's staff\<close>

lemma array_elem:
  assumes "stable_check c" "array_field p c w = Inr w" "x \<in> set (elems w)"
  shows "c x = Inr x"
proof -
  from assms(2) obtain vs where vs: "w = JArr vs" "map_result c vs = Inr vs"
    by (cases w) (auto simp: array_field_def split: if_split_asm)
  with assms(3) have "x \<in> set vs" by (simp add: elems_def)
  from map_result_member(1) [OF vs(2) this] assms(1) show ?thesis by (auto simp: stable_check_def)
qed

definition zone_fields :: "coercions \<Rightarrow> field list" where
  "zone_fields C =
     [(''zone_code'', None, str_field 1 80),
      (''supervisor'', Some JNull, optional (StaffSelection C)),
      (''posts'', None, array_field (\<lambda>n. n \<le> 40) (PostAssignment C))]"

lemma ZoneAssignment_fields: "ZoneAssignment C = closed_model (zone_fields C) (\<lambda>_. True)"
  by (simp add: ZoneAssignment_def zone_fields_def)

lemma zone_fields_stable: "coercions_ok C \<Longrightarrow> stable_fields (zone_fields C)"
  unfolding zone_fields_def by (auto simp: stable_fields_Cons intro!: stable_intros)

lemma post_fields_stable: "coercions_ok C \<Longrightarrow> stable_fields (post_fields C)"
  unfolding post_fields_def by (auto simp: stable_fields_Cons ASSIGNMENT_STATES_def accept_def intro!: stable_intros)

lemma print_order_staff:
  assumes C: "coercions_ok C" and m: "AssignmentRosterV1 T C v = Inr m" and s: "s \<in> set (print_order m)"
  shows "optional (StaffSelection C) s = Inr s"
proof -
  have "array_field (\<lambda>_. True) (ZoneAssignment C) (attr ''zones'' m) = Inr (attr ''zones'' m)"
    using m by (intro closed_attr [OF roster_fields_stable [OF C]]) (auto simp: AssignmentRosterV1_def roster_fields_def)
  then have zones: "ZoneAssignment C zone = Inr zone" if "zone \<in> set (elems (attr ''zones'' m))" for zone
    using array_elem [OF ZoneAssignment_stable [OF C]] that by blast
  then have zone: "closed_model (zone_fields C) (\<lambda>_. True) zone = Inr zone"
    if "zone \<in> set (elems (attr ''zones'' m))" for zone using that by (simp add: ZoneAssignment_fields)
  note attr_of = closed_attr [OF zone_fields_stable [OF C] zone]
  from s obtain zone where z: "zone \<in> set (elems (attr ''zones'' m))"
    "s = attr ''supervisor'' zone \<or> (\<exists>post \<in> set (elems (attr ''posts'' zone)). s \<in> {attr ''initial_staff'' post, attr ''rotation_staff'' post})"
    by (auto simp: print_order_def)
  have "optional (StaffSelection C) (attr ''supervisor'' zone) = Inr (attr ''supervisor'' zone)"
    by (rule attr_of [OF z(1)]) (simp add: zone_fields_def)
  moreover have "optional (StaffSelection C) (attr k post) = Inr (attr k post)"
    if post: "post \<in> set (elems (attr ''posts'' zone))" and k: "k \<in> {''initial_staff'', ''rotation_staff''}" for post k
  proof -
    have "array_field (\<lambda>n. n \<le> 40) (PostAssignment C) (attr ''posts'' zone) = Inr (attr ''posts'' zone)"
      by (rule attr_of [OF z(1)]) (simp add: zone_fields_def)
    from array_elem [OF PostAssignment_stable [OF C] this post]
    have "closed_model (post_fields C) match_assignment_states_to_staff (infer_legacy_assignment_states post) = Inr post"
      by (simp add: PostAssignment_def)
    moreover have "(k, Some JNull, optional (StaffSelection C)) \<in> set (post_fields C)"
      using k by (auto simp: post_fields_def)
    ultimately show ?thesis by (rule closed_attr [OF post_fields_stable [OF C]])
  qed
  ultimately show ?thesis using z(2) by blast
qed

lemma add_staff_step:
  "set (add_staff x acc) \<subseteq> set acc \<union> {s \<in> {x}. s \<noteq> JNull}"
  "attr ''staff_id'' ` set (add_staff x acc) = attr ''staff_id'' ` (set acc \<union> {s \<in> {x}. s \<noteq> JNull})"
  "distinct (map (attr ''staff_id'') acc) \<Longrightarrow> distinct (map (attr ''staff_id'') (add_staff x acc))"
  by (auto simp: add_staff_def image_Un)

lemma fold_add_staff:
  "set (fold add_staff xs acc) \<subseteq> set acc \<union> {s \<in> set xs. s \<noteq> JNull}"
  "attr ''staff_id'' ` set (fold add_staff xs acc) = attr ''staff_id'' ` (set acc \<union> {s \<in> set xs. s \<noteq> JNull})"
  "distinct (map (attr ''staff_id'') acc) \<Longrightarrow> distinct (map (attr ''staff_id'') (fold add_staff xs acc))"
proof (induction xs arbitrary: acc)
  case (Cons x xs)
  have split: "{s \<in> set (x # xs). s \<noteq> JNull} = {s \<in> {x}. s \<noteq> JNull} \<union> {s \<in> set xs. s \<noteq> JNull}" by auto
  {
    case 1
    show ?case using Cons(1) [of "add_staff x acc"] add_staff_step(1) [of x acc] by (simp only: split fold_simps) blast
  next
    case 2
    show ?case by (simp only: split fold_simps Cons(2) add_staff_step(2) image_Un Un_assoc)
  next
    case 3
    then show ?case by (simp add: Cons(3) add_staff_step(3))
  }
qed simp_all

text \<open>
  The uniform inspection made from a roster lists every officer the roster names in a zone or
  at a post exactly once, in print order and with nothing filled in, and records the roster and
  its revision; only a roster with more than 250 officers is refused.
\<close>

theorem inspection_lists_staff:
  assumes C: "coercions_ok C" and m: "AssignmentRosterV1 T C roster = Inr m" and n: "1 \<le> n"
  shows "distinct (map (attr ''staff_id'') (ordered_staff m))
    \<and> attr ''staff_id'' ` set (ordered_staff m) = attr ''staff_id'' ` {s \<in> set (print_order m). s \<noteq> JNull}
    \<and> (if length (ordered_staff m) \<le> 250
       then \<exists>p. build_uniform_rows_from_roster T C roster i n = Inr p
          \<and> attr ''rows'' p = JArr (map blank_row (ordered_staff m))
          \<and> attr ''roster_record_id'' p = JStr (uuid_str i) \<and> attr ''roster_revision_number'' p = JInt n
          \<and> attr ''work_date'' p = attr ''work_date'' m \<and> attr ''shift'' p = attr ''shift'' m
       else build_uniform_rows_from_roster T C roster i n = Inl ValidationError)"
proof -
  let ?staff = "ordered_staff m"
  have ids: "distinct (map (attr ''staff_id'') ?staff)"
    "attr ''staff_id'' ` set ?staff = attr ''staff_id'' ` {s \<in> set (print_order m). s \<noteq> JNull}"
    using fold_add_staff(2,3) [where xs = "print_order m" and acc = "[]"] by (simp_all add: ordered_staff_def)
  have staff: "StaffSelection C s = Inr s" if "s \<in> set ?staff" for s
  proof -
    from that fold_add_staff(1) [of "print_order m" "[]"] have s: "s \<in> set (print_order m)" "s \<noteq> JNull"
      by (auto simp: ordered_staff_def)
    from print_order_staff [OF C m s(1)] s(2) show ?thesis by (simp add: optional_def)
  qed
  have "UniformInspectionRow C (blank_row s) = Inr (blank_row s)" if "s \<in> set ?staff" for s
    using staff [OF that]
    by (simp add: UniformInspectionRow_def closed_model_Inr blank_row_def INSPECTION_PARTS_def obj_get_def
        require_comment_for_unsatisfactory_result_def at_key_def)
  then have rows: "map_result (UniformInspectionRow C) (map blank_row ?staff) = Inr (map blank_row ?staff)"
    by (intro map_result_fixed) auto
  have day: "date_field C (attr ''work_date'' m) = Inr (attr ''work_date'' m)"
    "squeezed_field 1 32 (attr ''shift'' m) = Inr (attr ''shift'' m)"
  proof -
    have run: "closed_model (roster_fields C) (match_approved_roster_structure T) roster = Inr m"
      using m by (simp add: AssignmentRosterV1_def)
    have fields: "(''work_date'', None, date_field C) \<in> set (roster_fields C)"
      "(''shift'', None, squeezed_field 1 32) \<in> set (roster_fields C)"
      by (simp_all add: roster_fields_def base_fields_def)
    show "date_field C (attr ''work_date'' m) = Inr (attr ''work_date'' m)"
      by (rule closed_attr [OF roster_fields_stable [OF C] run fields(1)])
    show "squeezed_field 1 32 (attr ''shift'' m) = Inr (attr ''shift'' m)"
      by (rule closed_attr [OF roster_fields_stable [OF C] run fields(2)])
  qed
  have unique: "distinct (map row_staff_id (map blank_row ?staff))"
    using ids(1) by (simp add: comp_def row_staff_id_def blank_row_def attr_def [of "''staff''"] at_key_def obj_get_def)
  have build: "build_uniform_rows_from_roster T C roster i n = UniformInspectionV1 C (JObj
       [(''schema_version'', JInt 1), (''work_date'', attr ''work_date'' m), (''shift'', attr ''shift'' m),
        (''roster_record_id'', JStr (uuid_str i)), (''roster_revision_number'', JInt n),
        (''inspector'', JNull), (''rows'', JArr (map blank_row ?staff))])"
    by (simp add: build_uniform_rows_from_roster_def m del: bind_result_eq_Inr)
  let ?row = "array_field (\<lambda>n. n \<le> 250) (UniformInspectionRow C) (JArr (map blank_row ?staff))"
  have array: "?row = (if length ?staff \<le> 250 then Inr (JArr (map blank_row ?staff)) else Inl ValidationError)"
    by (simp add: array_field_def rows del: bind_result_eq_Inr)
  have uuid: "uuid_field C (JStr (uuid_str i)) = Inr (JStr (uuid_str i))" "positive_field C (JInt n) = Inr (JInt n)"
    "literal_one C (JInt 1)"
    using C n by (simp_all add: uuid_field_def positive_field_def coerced_def coercions_ok_def)
  show ?thesis
    using ids array day uuid unique
    by (simp add: build UniformInspectionV1_def closed_model_def base_fields_def version_field_def obj_get_def
        optional_def reject_duplicate_staff_def at_key_def elems_def attr_def [of _ "JObj _"] del: bind_result_eq_Inr)
qed

section \<open>An approved roster\<close>

definition plain_coercions :: coercions where
  "plain_coercions = \<lparr>co_uuid = (\<lambda>v. uuid_of_str (string_of v)),
     co_date = (\<lambda>v. if length (string_of v) = 10 then Some (string_of v) else None),
     co_time = (\<lambda>v. if length (string_of v) = 8 then Some (string_of v) else None),
     co_datetime = (\<lambda>v. if length (string_of v) = 20 then Some (string_of v) else None),
     co_int = (\<lambda>v. case v of JInt i \<Rightarrow> Some i | _ \<Rightarrow> None),
     co_bool = (\<lambda>v. case v of JBool b \<Rightarrow> Some b | _ \<Rightarrow> None), literal_one = (\<lambda>v. v = JInt 1)\<rparr>"

lemma plain_reads:
  "co_date plain_coercions (JStr s) = (if length s = 10 then Some s else None)"
  "co_bool plain_coercions (JBool b) = Some b"
  by (simp_all add: plain_coercions_def string_of_def)

lemma plain_coercions_ok: "coercions_ok plain_coercions"
  by (auto simp: coercions_ok_def plain_coercions_def string_of_def split: if_splits)

definition example_definition :: json where
  "example_definition = JObj [(''zones'', JArr [JObj [(''code'', JStr ''z1''), (''posts'', JArr
     [JObj [(''code'', JStr ''p1''), (''label'', JStr ''Gate''), (''priority'', JStr ''P1'')],
      JObj [(''code'', JStr ''p2''), (''label'', JStr ''Tower''), (''priority'', JStr ''P1'')]])]])]"

definition example_perimeter :: json where
  "example_perimeter = JObj [(''groups'', JArr [JObj [(''items'', JArr [JObj [(''code'', JStr ''fence'')]])]])]"

definition example_forms :: form_templates where
  "example_forms = \<lparr>ROSTER_ZONE_POSTS = [(''z1'', [''p1'', ''p2''])],
     ROSTER_POST_METADATA = [(''p1'', ''Gate'', ''P1''), (''p2'', ''Tower'', ''P1'')],
     PERIMETER_CHECK_CODES = [''fence'']\<rparr>"

lemma example_forms_parsed: "form_templates_of example_definition example_perimeter = Inr example_forms"
  by (simp add: form_templates_of_def example_definition_def example_perimeter_def example_forms_def items_of_def
      subscript_def obj_get_def zone_posts_def post_metadata_def py_str_at_def py_str_def assigned_dict_def)

definition example_officer :: json where
  "example_officer = JObj [(''staff_id'', JStr (uuid_str 7)), (''display_name_snapshot'', JStr ''Lee'')]"

definition example_post :: "string \<Rightarrow> json" where
  "example_post c = JObj [(''post_code'', JStr c), (''initial_staff'', example_officer), (''rotation_staff'', JNull),
     (''initial_state'', JStr ''assigned''), (''rotation_state'', JStr ''unassigned'')]"

definition example_zone :: json where
  "example_zone = JObj [(''zone_code'', JStr ''z1''), (''supervisor'', JNull),
     (''posts'', JArr [example_post ''p1'', example_post ''p2''])]"

definition example_roster :: json where
  "example_roster = JObj [(''work_date'', JStr ''2026-01-02''), (''shift'', JStr ''Day''), (''zones'', JArr [example_zone]),
     (''equipment'', JObj [(''digital_camera'', JStr ''yes''), (''video_camera_go_pro'', JStr ''no''),
        (''metal_detector_wands'', JStr ''no'')]), (''roll_call_completed'', JBool True)]"

definition validated_roster :: json where
  "validated_roster = JObj [(''schema_version'', JInt 1), (''work_date'', JStr ''2026-01-02''), (''shift'', JStr ''Day''),
     (''captain'', JNull), (''lieutenant'', JNull), (''duty_warden'', JNull), (''alternate_shift_supervisor'', JNull),
     (''leave_entries'', JArr []), (''extra_assignments'', JArr []), (''zones'', JArr [example_zone]),
     (''briefing_minutes'', JStr []), (''roll_call_completed'', JBool True),
     (''uniform_inspection_completed'', JBool False),
     (''equipment'', JObj [(''digital_camera'', JStr ''yes''), (''video_camera_go_pro'', JStr ''no''),
        (''metal_detector_wands'', JStr ''no'')]),
     (''briefing_guests'', JArr []), (''assigned_and_dismissed'', JBool False), (''lieutenant_signature_name'', JNull)]"

lemma word_chars: "squeeze ''Day'' = ''Day''" "squeeze ''Lee'' = ''Lee''"
  by (simp_all add: squeeze_def split_def is_space_def)

lemma example_zone_ok: "ZoneAssignment plain_coercions example_zone = Inr example_zone"
proof -
  have "StaffSelection plain_coercions example_officer = Inr example_officer"
    by (simp add: StaffSelection_def closed_model_def example_officer_def obj_get_def uuid_field_def coerced_def
        plain_coercions_def string_of_def uuid_round_trip word_chars del: uuid_of_str_Some bind_result_eq_Inr)
  moreover have "example_officer \<noteq> JNull" by (simp add: example_officer_def)
  ultimately have "PostAssignment plain_coercions (example_post c) = Inr (example_post c)"
    if "c \<noteq> []" "length c \<le> 80" for c
    using that by (simp add: PostAssignment_def infer_legacy_assignment_states_def inferred_state_def example_post_def
        obj_get_def closed_model_def post_fields_def optional_def accept_def ASSIGNMENT_STATES_def
        match_assignment_states_to_staff_def at_key_def Suc_le_eq del: bind_result_eq_Inr)
  then show ?thesis
    by (simp add: ZoneAssignment_def closed_model_def example_zone_def obj_get_def array_field_def accept_def
        del: bind_result_eq_Inr)
qed

lemma example_roster_valid: "AssignmentRosterV1 example_forms plain_coercions example_roster = Inr validated_roster"
proof -
  have zone: "array_field (\<lambda>_. True) (ZoneAssignment plain_coercions) (JArr [example_zone]) = Inr (JArr [example_zone])"
    by (simp add: array_field_def example_zone_ok del: bind_result_eq_Inr)
  have matches: "zone_matches example_forms example_zone"
    by (auto simp: zone_matches_def example_forms_def example_zone_def example_post_def attr_def at_key_def obj_get_def
        string_of_def elems_def)
  have code: "attr ''zone_code'' example_zone = JStr ''z1''"
    by (simp add: example_zone_def attr_def at_key_def obj_get_def)
  have codes: "ROSTER_ZONE_CODES example_forms = [''z1'']" by (simp add: ROSTER_ZONE_CODES_def example_forms_def)
  show ?thesis
    by (simp add: AssignmentRosterV1_def closed_model_def roster_fields_def base_fields_def version_field_def
        example_roster_def validated_roster_def obj_get_def zone date_field_def bool_field_def coerced_def
        plain_reads word_chars dict_field_def accept_def matches code codes
        match_approved_roster_structure_def at_key_def elems_def has_keys_def Let_def
        SECURITY_EQUIPMENT_KEYS_def del: bind_result_eq_Inr)
qed

lemma coverage_exact_witness:
  "\<exists>ws. calculate_roster_coverage example_forms plain_coercions example_roster = Inr ws
     \<and> (\<exists>w \<in> set ws. cw_code w = Duplicate_Initial_Assignment \<and> cw_staff_id w = Some (JStr (uuid_str 7)))"
proof -
  have "times_assigned example_forms ''initial_staff'' validated_roster (JStr (uuid_str 7)) = 2"
    by (simp add: times_assigned_def p1_assignments_def roster_posts_def validated_roster_def example_zone_def
        example_post_def example_officer_def is_p1_def metadata_of_post_def example_forms_def attr_def at_key_def
        obj_get_def elems_def string_of_def)
  then have "\<exists>p \<in> assigned_places example_forms ''initial_staff'' validated_roster (JStr (uuid_str 7)).
      \<exists>q \<in> assigned_places example_forms ''initial_staff'' validated_roster (JStr (uuid_str 7)). p \<noteq> q"
    by (simp add: flip: twice_places)
  then show ?thesis
    using coverage_exact [OF example_forms_parsed example_roster_valid, where i = "JStr (uuid_str 7)"] by metis
qed

lemma roster_copied_witness:
  "is_ok (prepare_copied_roster_payload example_forms plain_coercions example_roster (JStr ''2026-01-03'') (JStr ''Day''))"
proof -
  have "co_date plain_coercions (JStr ''2026-01-03'') = Some ''2026-01-03''" by (simp add: plain_coercions_def string_of_def)
  from roster_copied [OF plain_coercions_ok example_roster_valid this, of "''Day''"] show ?thesis
    by (auto simp: word_chars)
qed

lemma inspection_lists_staff_witness:
  "is_ok (build_uniform_rows_from_roster example_forms plain_coercions example_roster 9 3)"
proof -
  have "ordered_staff validated_roster = [example_officer]"
    by (simp add: ordered_staff_def print_order_def validated_roster_def example_zone_def example_post_def attr_def
        at_key_def obj_get_def elems_def add_staff_def example_officer_def)
  with inspection_lists_staff [OF plain_coercions_ok example_roster_valid, of 3 9] show ?thesis by auto
qed

end
