(* ===== verification/PaperworkProperties.thy ===== *)
theory PaperworkProperties
  imports PaperworkRules RosterRules
begin

text \<open>
  Paperwork over time: what a restore brings back, why no save is lost, and what the pages of a
  listing add up to; and the theorems on paperwork applied to an inspection sheet.
\<close>

section \<open>Restoring\<close>

text \<open>
  C38. A restore brings back exactly what was recorded. However much has been written to a record
  since a revision, restoring that revision leaves the record with the form, the date, the shift
  and the content of its snapshot, and files them as the next revision; what was written in
  between stays in the history.
\<close>

theorem paperwork_restore_brings_back:
  assumes wf: "env_ok E" "desk_wf E ds" and src: "find_paperwork_revision i n ds = Some src"
    and steps: "(desk_step E)\<^sup>*\<^sup>* ds ds1"
    and run: "restore_paperwork_record C E who rc i n key expected ds1 = (Inr view, ds2)"
    and new: "find_record (account_id who, ''paperwork.restore'', key) (ident ds1) = None"
  shows "\<exists>r r' rv. find_paperwork i ds1 = Some r \<and> find_paperwork i ds2 = Some r' \<and> view = view_paperwork r'
    \<and> pr_current_revision_number r' = pr_current_revision_number r + 1
    \<and> record_snapshot r' = Inr (pw_snapshot src) \<and> pw_snapshot rv = pw_snapshot src
    \<and> paperwork_revisions ds2 = paperwork_revisions ds1 @ [rv]"
proof -
  from desk_runs [OF steps wf] have runs: "(desk_run E)\<^sup>*\<^sup>* ds ds1" and wf1: "desk_wf E ds1" by simp_all
  have found: "find_paperwork_revision i n ds1 = Some src" by (rule paper_store.find_kept [OF runs src])
  from run show ?thesis
  proof (cases rule: restore_paperwork_Inr)
    case (changes r src' r' rv k d s p)
    have src': "src' = src" using changes(2) found by simp
    have snap: "record_snapshot r' = Inr (pw_snapshot rv)" using changes(3) by (simp add: paperwork_changed_def)
    have "record_snapshot r' = Inr (pw_snapshot src)"
      using restore_content [OF wf1 found, of r'] changes src' by simp
    moreover have "find_paperwork i ds2 = Some r'"
      using changes(1,3) by (auto simp: paperwork_changed_def find_update_rows)
    ultimately show ?thesis using changes snap by (auto simp: paperwork_changed_def)
  qed (use new in simp)
qed

section \<open>Stale saves\<close>

text \<open>
  C39. No save of paperwork is lost. Once a save that started from a revision has gone through,
  every later save of that record that starts from the same revision is refused and changes
  nothing, whoever makes it and whatever has happened in between; when the content is valid and
  the actor may edit the record, the refusal is the conflict that names the current revision. The
  refusal meets the very same request under the same key too: a client that repeats a save
  because the answer was lost is told that somebody else changed the record.
\<close>

theorem paperwork_no_lost_update:
  assumes wf: "env_ok E" "desk_wf E ds"
    and first: "save_paperwork_record C E who rc kind req key (Some i) ds = (Inr view, ds1)"
      "sp_base_revision_number req = Some base" "is_date E (sp_work_date req)"
      "rc_row_id rc \<notin> pr_id ` set (paperwork_records ds)"
      "find_record (account_id who, ''paperwork.save'', key) (ident ds) = None"
    and steps: "(desk_step E)\<^sup>*\<^sup>* ds1 ds2"
    and later: "sp_base_revision_number req' = Some base"
  shows "\<exists>e. save_paperwork_record C' E who' rc' kind' req' key' (Some i) ds2 = (Inl e, ds2)
    \<and> (\<forall>k v snap r. validated_save E kind' req' = Inr (k, v, snap) \<longrightarrow>
         locked_paperwork who' i (Some (kind_text k)) ds2 = Inr r \<longrightarrow> pr_kind r = k \<longrightarrow>
         e = PaperworkRevisionConflict (pr_current_revision_number r) \<and> base < pr_current_revision_number r)"
proof -
  from first(1) obtain r' where r: "find_paperwork i ds1 = Some r'" "pr_current_revision_number r' = base + 1"
  proof (cases rule: save_paperwork_Inr)
    case (changes k v snap r r' rv j)
    have "find_paperwork i ds1 = Some r'"
      using changes(1,2,4) by (auto simp: paperwork_changed_def find_update_rows)
    with changes first(2) show thesis by (intro that [of r']) (simp_all add: paperwork_changed_def)
  qed (use first(5) in simp_all)
  have "desk_step E ds ds1" using first by (intro desk_step.saved)
  then have "desk_wf E ds1" by (rule desk_wf_step [OF _ wf])
  from record_stays [OF steps wf(1) this r(1)] obtain r2 where
    r2: "find_paperwork i ds2 = Some r2" "base < pr_current_revision_number r2" using r(2) by auto
  have locked: "r3 = r2" if "locked_paperwork who' i e ds2 = Inr r3" for e r3
    using locked_paperwork_Inr [OF that] r2(1) by simp
  show ?thesis
  proof (cases "validated_save E kind' req'")
    case (Inl e)
    then show ?thesis by (simp add: save_paperwork_record_def)
  next
    case (Inr kvs)
    obtain k v snap where v: "kvs = (k, v, snap)" by (cases kvs)
    have base: "sp_base_revision_number v = Some base"
      using validated_save_Inr [OF Inr [unfolded v]] later by simp
    show ?thesis
    proof (cases "locked_paperwork who' i (Some (kind_text k)) ds2")
      case (Inl e)
      with Inr v base show ?thesis by (simp add: save_paperwork_record_def)
    next
      case (Inr r3)
      with \<open>validated_save E kind' req' = Inr kvs\<close> v base locked [OF Inr] r2(2) show ?thesis
        by (auto simp: save_paperwork_record_def)
    qed
  qed
qed

section \<open>Pages\<close>

text \<open>The order of a listing, newest first, and that of the revisions of a record.\<close>

lemma first_page_cursors: "read_record_cursor K None = Inr None" "read_revision_cursor None = Inr None"
  by (simp_all add: read_record_cursor_def read_revision_cursor_def)

lemma record_cursor_read:
  assumes "iso_ok K"
  shows "read_record_cursor K (Some (record_cursor K r)) = Inr (Some (paperwork_key r))"
proof -
  have "record_cursor K r \<noteq> []" by (simp add: record_cursor_def time_id_cursor_def)
  then show ?thesis
    using time_id_read(1) [OF assms, of "''updated_at''" "paperwork_key r"]
    by (simp add: read_record_cursor_def read_cursor_def record_cursor_def del: bind_result_eq_Inr)
qed

lemma revision_cursor_read: "read_revision_cursor (Some (revision_cursor r)) = Inr (Some (revision_key r))"
  by (simp add: read_revision_cursor_def read_cursor_def revision_cursor_def revision_key_def del: bind_result_eq_Inr)

text \<open>
  C40. The pages of a listing add up to the listing: a reader who follows the cursors from the
  first page, with any page size the service allows, gets exactly the records that the filter
  selects and that the reader may see, each once, the latest first; so nothing is skipped and
  nothing is shown twice.
\<close>

theorem paperwork_pages_complete:
  assumes "iso_ok K" "distinct (map pr_id (paperwork_records ds))" "1 \<le> limit" "limit \<le> 50"
    and filters: "expected_kind_of (pf_kind f) = Inr k" "expected_kind_of (pf_exclude_kind f) = Inr x"
      "filter_shift (pf_shift f) = Inr s"
    and fuel: "length (paperwork_records ds) < fuel"
  shows "read_pages fuel (\<lambda>cursor. list_paperwork_records K who f limit cursor ds) None =
    Inr (map view_paperwork (in_order True paperwork_key
      (filter (listed_paperwork who k x (pf_work_date f) s) (paperwork_records ds))))"
proof (rule keyed_pages_complete [where read = "read_record_cursor K" and limit = "nat limit" and enc = "record_cursor K"])
  show "distinct (map paperwork_key (filter (listed_paperwork who k x (pf_work_date f) s) (paperwork_records ds)))"
    using assms(2) by (auto simp: distinct_map inj_on_def paperwork_key_def)
  show "length (filter (listed_paperwork who k x (pf_work_date f) s) (paperwork_records ds)) < fuel"
    by (rule le_less_trans [OF length_filter_le fuel])
qed (use assms(1,3,4) filters in \<open>simp_all add: list_paperwork_records_def record_cursor_read
  first_page_cursors del: bind_result_eq_Inr\<close>)

lemma revision_pages_complete:
  assumes "get_paperwork_record who i expected ds = Inr view" "1 \<le> limit" "limit \<le> 100"
    and unique: "distinct (map revision_key (filter (\<lambda>r. pw_record_id r = i) (paperwork_revisions ds)))"
    and fuel: "length (paperwork_revisions ds) < fuel"
  shows "read_pages fuel (\<lambda>cursor. list_paperwork_revisions who i limit cursor expected ds) None =
    Inr (in_order False revision_key (filter (\<lambda>r. pw_record_id r = i) (paperwork_revisions ds)))"
proof -
  let ?rows = "filter (\<lambda>r. pw_record_id r = i) (paperwork_revisions ds)"
  have "read_pages fuel (\<lambda>cursor. list_paperwork_revisions who i limit cursor expected ds) None
      = Inr (map id (in_order False revision_key ?rows))"
  proof (rule keyed_pages_complete [OF _ unique, where read = read_revision_cursor and limit = "nat limit" and enc = revision_cursor])
    show "length ?rows < fuel" by (rule le_less_trans [OF length_filter_le fuel])
  qed (use assms(1-3) in \<open>simp_all add: list_paperwork_revisions_def revision_cursor_read
    first_page_cursors del: bind_result_eq_Inr\<close>)
  then show ?thesis by simp
qed

section \<open>An inspection sheet\<close>

definition inspection_payload :: dict where
  "inspection_payload =
     [(''schema_version'', JInt 1), (''work_date'', JStr ''2026-01-02''), (''shift'', JStr ''Day''),
      (''roster_record_id'', JNull), (''roster_revision_number'', JNull), (''inspector'', JNull), (''rows'', JArr [])]"

definition paper_env :: paperwork_env where
  "paper_env = \<lparr>pe_forms = example_forms, pe_coercions = plain_coercions, pe_sheet = example_structure,
     pe_sheet_input = example_input, pe_parse_date = (\<lambda>s. if length s = 10 then Some s else None)\<rparr>"

lemma paper_env_ok: "env_ok paper_env"
  by (simp add: env_ok_def paper_env_def plain_coercions_ok sheet_input_ok_def example_input_def)

definition inspection_request :: "int option \<Rightarrow> save_paperwork_request" where
  "inspection_request base = \<lparr>sp_work_date = ''2026-01-02'', sp_shift = Some ''Day'', sp_payload = inspection_payload,
     sp_base_revision_number = base, sp_reason = ''manual_save''\<rparr>"

definition inspection_snapshot :: dict where
  "inspection_snapshot = [(''schema_version'', JInt 1), (''kind'', JStr ''uniform_inspection''),
     (''work_date'', JStr ''2026-01-02''), (''shift'', JStr ''Day''), (''payload'', JObj inspection_payload)]"

lemma inspection_valid:
  "validate_payload_for_kind paper_env (Daily Uniform_Inspection) inspection_payload = Inr inspection_payload"
  by (simp add: validate_payload_for_kind_def validate_daily_payload_def daily_kind_of_def DAILY_KINDS_def paper_env_def
      UniformInspectionV1_def closed_model_def base_fields_def version_field_def inspection_payload_def obj_get_def
      date_field_def coerced_def plain_reads word_chars optional_def array_field_def reject_duplicate_staff_def
      at_key_def elems_def dict_result_def plain_coercions_def string_of_def del: bind_result_eq_Inr)

lemma inspection_saved:
  "validated_save paper_env ''uniform_inspection'' (inspection_request b)
     = Inr (Daily Uniform_Inspection, inspection_request b, inspection_snapshot)"
proof -
  have "paperwork_kind_of ''uniform_inspection'' = Inr (Daily Uniform_Inspection)"
    using kind_text_inverse [of "Daily Uniform_Inspection"] by simp
  then show ?thesis
    using inspection_valid
    by (simp add: validated_save_def inspection_request_def snapshot_for_request_def paperwork_snapshot_def shift_ok_def
        MAX_SHIFT_CHARACTERS_def MAX_TOP_LEVEL_PAYLOAD_FIELDS_def inspection_snapshot_def json_text_option_def
        inspection_payload_def del: bind_result_eq_Inr)
qed

definition inspection_record :: paperwork_record where
  "inspection_record = \<lparr>pr_id = 40, pr_kind = Daily Uniform_Inspection, pr_work_date = ''2026-01-02'',
     pr_shift = Some ''Day'', pr_current_revision_number = 1, pr_current_payload = inspection_payload,
     pr_created_by_account_id = 2, pr_created_by_staff_member_id = 1, pr_last_editor_account_id = 2,
     pr_last_editor_staff_member_id = 1, pr_created_at = 50, pr_updated_at = 50\<rparr>"

definition inspection_revision :: paperwork_revision where
  "inspection_revision = \<lparr>pw_id = 41, pw_record_id = 40, pw_revision_number = 1, pw_editor_account_id = 2,
     pw_editor_staff_member_id = 1, pw_snapshot = inspection_snapshot, pw_changed_fields = [],
     pw_reason = ''manual_save'', pw_client_version = ''1.2.0'', pw_request_id = ''r0'', pw_created_at = 50\<rparr>"

definition example_desk :: desk where
  "example_desk = workspace.extend example_workspace
     \<lparr>paperwork_records = [inspection_record], paperwork_revisions = [inspection_revision]\<rparr>"

lemma example_desk_simps [simp]:
  "paperwork_records example_desk = [inspection_record]" "paperwork_revisions example_desk = [inspection_revision]"
  "ident example_desk = ident example_workspace"
  by (simp_all add: example_desk_def workspace.extend_def)

lemma inspection_simps [simp]:
  "pr_id inspection_record = 40" "pr_kind inspection_record = Daily Uniform_Inspection"
  "pr_current_revision_number inspection_record = 1" "pw_record_id inspection_revision = 40"
  "pw_revision_number inspection_revision = 1" "pw_snapshot inspection_revision = inspection_snapshot"
  "pr_created_by_staff_member_id inspection_record = 1" "pr_work_date inspection_record = ''2026-01-02''"
  "pr_shift inspection_record = Some ''Day''" "pr_current_payload inspection_record = inspection_payload"
  by (simp_all add: inspection_record_def inspection_revision_def)

lemma inspection_snapshot_of:
  "paperwork_snapshot (Daily Uniform_Inspection) ''2026-01-02'' (Some ''Day'') inspection_payload = Inr inspection_snapshot"
  "record_snapshot inspection_record = Inr inspection_snapshot"
  by (simp_all add: record_snapshot_def paperwork_snapshot_def shift_ok_def MAX_SHIFT_CHARACTERS_def
      MAX_TOP_LEVEL_PAYLOAD_FIELDS_def inspection_snapshot_def json_text_option_def inspection_payload_def)

lemma example_desk_wf: "desk_wf paper_env example_desk"
proof -
  have "stored_snapshot paper_env inspection_snapshot"
    unfolding stored_snapshot_def using inspection_snapshot_of(1) inspection_valid
    by (intro exI conjI) (auto simp: is_date_def paper_env_def)
  then show ?thesis
    by (simp add: desk_wf_def record_ok_def slot_taken_def numbers_by_def inspection_snapshot_of)
qed

lemma paperwork_audit_ok:
  assumes "event_ok act kvs" "act \<noteq> ''system.initial_admin_bootstrapped''" "length (rc_client_version rc) \<le> 64"
  shows "append_paperwork_audit who rc act i kvs ds = (Inr (), logged (paperwork_event who rc act i kvs) ds)"
  using assms
  by (simp add: append_paperwork_audit_def paperwork_event_def in_ident_def append_audit_def AuditEventInput_def event_ok_def
      validate_actor_attribution_def Let_def hash_length_ok_def logged_def)

lemma paperwork_events:
  assumes "1 \<le> n" "n \<le> 1000"
  shows "event_ok ''paperwork.saved'' [(''record_id'', JStr (uuid_str u)), (''kind'', JStr ''uniform_inspection''),
     (''revision_number'', JInt n), (''changed_fields'', JArr []), (''reason'', JStr ''manual_save'')]"
    and "event_ok ''paperwork.restored'' [(''record_id'', JStr (uuid_str u)), (''kind'', JStr ''uniform_inspection''),
     (''revision_number'', JInt n), (''source_revision_number'', JInt 1)]"
proof -
  have act: "map_of AUDIT_ACTION_FIELDS ''paperwork.saved'' = Some [''record_id'', ''kind'', ''revision_number'', ''changed_fields'', ''reason'']"
    "map_of AUDIT_ACTION_FIELDS ''paperwork.restored'' = Some [''record_id'', ''kind'', ''revision_number'', ''source_revision_number'']"
    by code_simp+
  have kinds: "takes_uuid ''paperwork.saved'' ''record_id''" "takes_uuid ''paperwork.restored'' ''record_id''"
    "takes_number ''paperwork.saved'' ''revision_number''" "takes_number ''paperwork.restored'' ''revision_number''"
    "takes_number ''paperwork.restored'' ''source_revision_number''"
    by code_simp+
  have codes: "detail_ok ''paperwork.saved'' (''changed_fields'', JArr [])" "detail_ok ''paperwork.saved'' (''reason'', JStr ''manual_save'')"
    "detail_ok ''paperwork.saved'' (''kind'', JStr ''uniform_inspection'')" "detail_ok ''paperwork.restored'' (''kind'', JStr ''uniform_inspection'')"
    by code_simp+
  show "event_ok ''paperwork.saved'' [(''record_id'', JStr (uuid_str u)), (''kind'', JStr ''uniform_inspection''),
     (''revision_number'', JInt n), (''changed_fields'', JArr []), (''reason'', JStr ''manual_save'')]"
    using assms by (intro event_okI [OF act(1)]) (simp_all add: kinds codes detail_ok_uuid detail_ok_number MAX_AUDIT_NUMBER_def)
  show "event_ok ''paperwork.restored'' [(''record_id'', JStr (uuid_str u)), (''kind'', JStr ''uniform_inspection''),
     (''revision_number'', JInt n), (''source_revision_number'', JInt 1)]"
    using assms by (intro event_okI [OF act(2)]) (simp_all add: kinds codes detail_ok_uuid detail_ok_number MAX_AUDIT_NUMBER_def)
qed

lemma paperwork_ref_ok:
  "safe_reference (paperwork_reference 40 2)" "length (dumps True (paperwork_reference 40 2)) \<le> 4096"
proof -
  show "safe_reference (paperwork_reference 40 2)" by code_simp
  have "length (dumps True (JInt 2)) \<le> 10" using nat_str.simps [of 2] by (simp add: int_str_def)
  then show "length (dumps True (paperwork_reference 40 2)) \<le> 4096"
    using uuid_dumps [of 40] dumps_short [of "[(''record_id'', JStr (uuid_str 40)), (''revision_number'', JInt 2)]"]
    by (simp add: paperwork_reference_def del: dumps.simps)
qed

lemma unchanged_snapshot: "changed_field_paths inspection_snapshot inspection_snapshot = []"
proof -
  have "changed_paths_at inspection_snapshot inspection_snapshot k = []" for k
    by (auto simp: changed_paths_at_def values_differ_def obj_get_def inspection_snapshot_def inspection_payload_def
        as_int_def split: option.splits if_splits)
  then have "concat (map (changed_paths_at inspection_snapshot inspection_snapshot) ks) = []" for ks
    by (induction ks) simp_all
  then show ?thesis by (simp only: changed_field_paths_def) simp
qed

lemma inspection_update:
  assumes "paperwork_records ds = [inspection_record]"
  shows "\<exists>view ds'. update_paperwork officer example_rc inspection_record inspection_snapshot (inspection_request (Some 1))
      inspection_snapshot ds = (Inr (view, 200, paperwork_reference 40 2), ds')
    \<and> idempotency_records (ident ds') = idempotency_records (ident ds)"
    and "\<exists>view ds'. restore_paperwork_body paper_env officer example_rc inspection_record inspection_revision None ds
      = (Inr (view, 200, paperwork_reference 40 2), ds')
    \<and> idempotency_records (ident ds') = idempotency_records (ident ds)"
proof -
  have cv: "length (rc_client_version example_rc) \<le> 64" by simp
  note audit = paperwork_audit_ok [OF paperwork_events(1) _ cv] paperwork_audit_ok [OF paperwork_events(2) _ cv]
  have free: "\<not> slot_taken (apply_paperwork officer example_rc k d s p inspection_record) [inspection_record]" for k d s p
    by (simp add: slot_taken_def)
  show "\<exists>view ds'. update_paperwork officer example_rc inspection_record inspection_snapshot (inspection_request (Some 1))
      inspection_snapshot ds = (Inr (view, 200, paperwork_reference 40 2), ds')
    \<and> idempotency_records (ident ds') = idempotency_records (ident ds)"
    by (simp add: update_paperwork_def Let_def finish_paperwork_def assms free unchanged_snapshot audit
        inspection_request_def del: slot_taken_def)
  have "read_snapshot paper_env inspection_snapshot = Inr (Daily Uniform_Inspection, ''2026-01-02'', Some ''Day'', inspection_payload)"
    by (simp add: read_snapshot_def inspection_snapshot_def optional_at_def required_at_def obj_get_def paper_env_def
        example_input_def str_result_def wrap_error_def paperwork_kind_of_def daily_kind_of_def DAILY_KINDS_def
        date_result_def optional_str_def dict_result_def shift_ok_def MAX_SHIFT_CHARACTERS_def
        MAX_TOP_LEVEL_PAYLOAD_FIELDS_def inspection_payload_def del: bind_result_eq_Inr)
  then show "\<exists>view ds'. restore_paperwork_body paper_env officer example_rc inspection_record inspection_revision None ds
      = (Inr (view, 200, paperwork_reference 40 2), ds')
    \<and> idempotency_records (ident ds') = idempotency_records (ident ds)"
    by (simp add: restore_paperwork_body_def Let_def finish_paperwork_def assms free unchanged_snapshot audit
        inspection_snapshot_of del: bind_result_eq_Inr)
qed

lemma example_key: "IDEMPOTENCY_KEY_PATTERN ''key-0001''" "length (request_digest short_crypto j) = 32"
  "idempotency_records (ident example_workspace) = []"
proof -
  show "IDEMPOTENCY_KEY_PATTERN ''key-0001''" by code_simp
qed (simp_all add: request_digest_def short_crypto_def example_workspace_def example_db_def empty_db_def)

lemma example_locked:
  "locked_paperwork officer 40 (Some ''uniform_inspection'') example_desk = Inr inspection_record"
  "locked_paperwork officer 40 None example_desk = Inr inspection_record"
  using kind_text_inverse [of "Daily Uniform_Inspection"]
  by (simp_all add: locked_paperwork_def expected_kind_of_def select_paperwork_def can_edit_paperwork_def
      can_read_paperwork_def officer_def del: bind_result_eq_Inr)

lemma example_writes:
  obtains view ds1 view' ds2 where
    "save_paperwork_record short_crypto paper_env officer example_rc ''uniform_inspection'' (inspection_request (Some 1))
       ''key-0001'' (Some 40) example_desk = (Inr view, ds1)"
    "restore_paperwork_record short_crypto paper_env officer example_rc 40 1 ''key-0001'' None example_desk = (Inr view', ds2)"
proof -
  let ?canon = "save_canonical (Some 40) (Daily Uniform_Inspection) (inspection_request (Some 1))"
  let ?canon' = "JObj [(''record_id'', JStr (uuid_str 40)), (''source_revision_number'', JInt 1)]"
  let ?rec = "\<lambda>act c. [new_record (rc_claim_id example_rc) (account_id officer, act, ''key-0001'') (request_digest short_crypto c) (rc_now example_rc)]"
  let ?ds = "\<lambda>act c. example_desk\<lparr>ident := (ident example_desk)\<lparr>idempotency_records := ?rec act c\<rparr>\<rparr>"
  have ref: "paperwork_reference 40 2 = JObj [(''record_id'', JStr (uuid_str 40)), (''revision_number'', JInt 2)]"
    by (simp add: paperwork_reference_def)
  from inspection_update(1) [of "?ds ''paperwork.save'' ?canon"] obtain v ws where
    up: "update_paperwork officer example_rc inspection_record inspection_snapshot (inspection_request (Some 1))
      inspection_snapshot (?ds ''paperwork.save'' ?canon) = (Inr (v, 200, paperwork_reference 40 2), ws)"
      "idempotency_records (ident ws) = ?rec ''paperwork.save'' ?canon" by auto
  from inspection_update(2) [of "?ds ''paperwork.restore'' ?canon'"] obtain v' ws' where
    re: "restore_paperwork_body paper_env officer example_rc inspection_record inspection_revision None
      (?ds ''paperwork.restore'' ?canon') = (Inr (v', 200, paperwork_reference 40 2), ws')"
      "idempotency_records (ident ws') = ?rec ''paperwork.restore'' ?canon'" by auto
  have new: "idempotency_records (ident example_desk) = []" using example_key(3) by simp
  obtain ds1 where "keyed_record short_crypto example_rc officer ''key-0001'' ''paperwork.save'' ?canon
      (paperwork_from_reference officer None) (update_paperwork officer example_rc inspection_record inspection_snapshot
        (inspection_request (Some 1)) inspection_snapshot) example_desk = (Inr v, ds1)"
    using keyed_record_runs [where op = "update_paperwork officer example_rc inspection_record inspection_snapshot
        (inspection_request (Some 1)) inspection_snapshot" and ws = example_desk, OF example_key(1,2) new refl
        up [unfolded ref] paperwork_ref_ok [unfolded ref]] by blast
  moreover obtain ds2 where "keyed_record short_crypto example_rc officer ''key-0001'' ''paperwork.restore'' ?canon'
      (paperwork_from_reference officer None)
      (restore_paperwork_body paper_env officer example_rc inspection_record inspection_revision None) example_desk = (Inr v', ds2)"
    using keyed_record_runs [where op = "restore_paperwork_body paper_env officer example_rc inspection_record
        inspection_revision None" and ws = example_desk, OF example_key(1,2) new refl
        re [unfolded ref] paperwork_ref_ok [unfolded ref]] by blast
  moreover have "sp_base_revision_number (inspection_request (Some 1)) = Some 1" by (simp add: inspection_request_def)
  ultimately show thesis
    using inspection_saved [of "Some 1"] example_locked inspection_snapshot_of(2)
    by (intro that [of v ds1 v' ds2])
      (simp_all add: save_paperwork_record_def restore_paperwork_record_def expected_kind_of_def del: bind_result_eq_Inr)
qed

lemma example_fresh: "find_record (account_id officer, act, ''key-0001'') (ident example_desk) = None"
  using example_key(3) by simp

lemma example_date: "is_date paper_env (sp_work_date (inspection_request b))"
  by (simp add: is_date_def paper_env_def inspection_request_def)

lemma paperwork_history_kept_witness:
  "\<exists>view ds1. save_paperwork_record short_crypto paper_env officer example_rc ''uniform_inspection'' (inspection_request (Some 1))
       ''key-0001'' (Some 40) example_desk = (Inr view, ds1)
     \<and> (\<exists>new. paperwork_revisions ds1 = inspection_revision # new)"
proof -
  obtain view ds1 view' ds2 where run: "save_paperwork_record short_crypto paper_env officer example_rc ''uniform_inspection''
      (inspection_request (Some 1)) ''key-0001'' (Some 40) example_desk = (Inr view, ds1)"
    by (rule example_writes)
  have "desk_step paper_env example_desk ds1" by (rule desk_step.saved [OF run example_date]) simp
  with paperwork_history_kept [OF paper_env_ok example_desk_wf, of ds1] run show ?thesis by auto
qed

lemma paperwork_restore_brings_back_witness:
  "\<exists>view ds2 r'. restore_paperwork_record short_crypto paper_env officer example_rc 40 1 ''key-0001'' None example_desk
       = (Inr view, ds2)
     \<and> find_paperwork 40 ds2 = Some r' \<and> record_snapshot r' = Inr inspection_snapshot"
proof -
  obtain view ds1 view' ds2 where run: "restore_paperwork_record short_crypto paper_env officer example_rc 40 1 ''key-0001'' None
      example_desk = (Inr view', ds2)"
    by (rule example_writes)
  have "find_paperwork_revision 40 1 example_desk = Some inspection_revision" by simp
  from paperwork_restore_brings_back [OF paper_env_ok example_desk_wf this rtranclp.rtrancl_refl run example_fresh] run
  show ?thesis by auto
qed

lemma paperwork_no_lost_update_witness:
  "\<exists>view ds1 e. save_paperwork_record short_crypto paper_env officer example_rc ''uniform_inspection'' (inspection_request (Some 1))
       ''key-0001'' (Some 40) example_desk = (Inr view, ds1)
     \<and> save_paperwork_record short_crypto paper_env officer example_rc ''uniform_inspection'' (inspection_request (Some 1))
       ''key-0001'' (Some 40) ds1 = (Inl e, ds1)"
proof -
  obtain view ds1 view' ds2 where run: "save_paperwork_record short_crypto paper_env officer example_rc ''uniform_inspection''
      (inspection_request (Some 1)) ''key-0001'' (Some 40) example_desk = (Inr view, ds1)"
    by (rule example_writes)
  have base: "sp_base_revision_number (inspection_request (Some 1)) = Some 1" by (simp add: inspection_request_def)
  have new: "rc_row_id example_rc \<notin> pr_id ` set (paperwork_records example_desk)" by simp
  from paperwork_no_lost_update [OF paper_env_ok example_desk_wf run base example_date new example_fresh
      rtranclp.rtrancl_refl base, of short_crypto officer example_rc "''uniform_inspection''" "''key-0001''"] run
  show ?thesis by blast
qed

lemma paperwork_pages_complete_witness:
  "read_pages 2 (\<lambda>cursor. list_paperwork_records number_clock officer
      \<lparr>pf_kind = None, pf_exclude_kind = Some ''count_sheet'', pf_work_date = None, pf_shift = Some ''Day ''\<rparr> 1 cursor example_desk) None
    = Inr [view_paperwork inspection_record]"
proof -
  let ?f = "\<lparr>pf_kind = None, pf_exclude_kind = Some ''count_sheet'', pf_work_date = None, pf_shift = Some ''Day ''\<rparr>"
  have squeeze: "squeeze ''Day '' = ''Day''" by code_simp
  have "listed_paperwork officer None (Some Count_Sheet) None (Some ''Day'') inspection_record"
    by (simp add: listed_paperwork_def can_read_paperwork_def officer_def)
  with paperwork_pages_complete [OF number_clock_ok, of example_desk 1 ?f None "Some Count_Sheet" "Some ''Day''" 2 officer]
  show ?thesis
    by (simp add: expected_kind_of_def paperwork_kind_of_def filter_shift_def squeeze MAX_SHIFT_CHARACTERS_def
        in_order_def)
qed

end
