(* ===== verification/Spec2Isabelle.thy ===== *)
theory Spec2Isabelle
  imports SessionInvariant AuthRoutes JobExamples Dispatch ReportRecordRules PaperworkProperties
begin

text \<open>
  Verification of the backend of the prison-policy assistant (\<open>src/backend\<close>): a Flask service in
  which officers write incident reports with the help of a language model. This development
  models its stateful core: who may sign in and act, what is stored of incidents and reports and
  who may read it, how the jobs that call the language model run, and the daily paperwork of a
  shift.

  The parts and how they interact. Every request runs in one database transaction
  (\<open>persistence/database.py\<close>, \<open>session_scope\<close>), which is kept when the operation returns and
  rolled back when an exception leaves it. The identity package authenticates: accounts with
  PINs and lockouts, access sessions with rotating tokens, browser sessions, the elevation of
  administrators, and an append-only audit log that every write goes through. The report
  package stores incidents and reports as append-only revisions, each save naming the revision
  it started from; repeated requests are recognised by idempotency keys. A job is submitted
  with an outbox row in the same transaction; the dispatcher turns outbox rows into Cloud
  Tasks; each delivery of a task claims the job under a lease, calls the engine and writes the
  result through the same save operations. Paperwork (count sheets and six daily forms) is
  validated against closed models and stored as numbered revisions of its own, with its own
  permissions, listings and output actions.

  State and errors. A database is a record with one list of rows per table: \<open>db\<close> (identity,
  sessions, audit, idempotency), \<open>workspace\<close> (adds incidents, reports, their revisions and
  access rows), \<open>office\<close> (adds jobs and the outbox), \<open>desk\<close> (adds paperwork); rows are records
  with the columns of \<open>persistence/models\<close>. An operation is a function from its arguments and the state to
  \<open>exn + value\<close> and the new state; every \<open>raise\<close> of the source is an \<open>Inl\<close> branch. Random draws,
  new identifiers, the clock, the hash functions, the language model and the Cloud Tasks client
  are arguments. Row locks are not modelled: an operation on locked rows is one step, and
  other requests act between the transactions, in the step relations \<open>account_step\<close>,
  \<open>session_step\<close>, \<open>report_step\<close>, \<open>office_step\<close> and \<open>desk_step\<close>.

  Theories and sources, in the order of their use:
  \<^item> \<open>Prelude\<close>, \<open>Text\<close>, \<open>PyText\<close>: results, tables, Python's text and JSON routines, UUIDs (128-bit words).
  \<^item> \<open>Persistence\<close> (\<open>persistence/\<close>): the rows and the transaction scope.
  \<^item> \<open>AuditLog\<close>, \<open>AuditEvents\<close> (\<open>identity/audit.py\<close>): the closed table of actions, the validator,
    and the lemmas that the events the operations write are accepted.
  \<^item> \<open>Pins\<close> (\<open>identity/pins.py\<close>, \<open>tokens.py\<close>, \<open>normalization.py\<close>), \<open>RateLimits\<close>
    (\<open>identity/rate_limits.py\<close>).
  \<^item> \<open>Accounts\<close>, \<open>LoginRules\<close>, \<open>AccountRules\<close> (\<open>identity/accounts.py\<close>): the login decision, the
    lockout, the Admin operations; the bound on guessing, the integrity of the tables, the
    last active administrator.
  \<^item> \<open>Sessions\<close>, \<open>SessionRules\<close>, \<open>SessionInvariant\<close> (\<open>identity/sessions.py\<close>): token pairs,
    renewal and its reuse detection, revocation, PIN changes.
  \<^item> \<open>Elevation\<close>, \<open>Handoffs\<close>, \<open>BrowserSessions\<close> (\<open>identity/elevation.py\<close>, \<open>browser_admin.py\<close>,
    \<open>browser_handoffs.py\<close>, \<open>browser_sessions.py\<close>): step-up tokens and Review Lab links are two
    instances of the interface \<open>one_time\<close>, whose credentials are redeemed at most once.
  \<^item> \<open>Idempotency\<close>, \<open>Mutations\<close> (\<open>identity/idempotency.py\<close>, \<open>webapp/api_v1/auth.py\<close>): the keys as a
    refinement of a finite map; interface \<open>keyed_operation\<close>.
  \<^item> \<open>AuthRoutes\<close> (\<open>webapp/api_v1/auth.py\<close>, \<open>webapp/web_api\<close>): the routes with the
    transactions they run in.
  \<^item> \<open>Contents\<close> (\<open>webapp/api_v1/schemas/reporting.py\<close>): the closed content documents.
  \<^item> \<open>Revisions\<close>, \<open>RevisionRules\<close>, \<open>ReportInvariant\<close>, \<open>ReportProperties\<close>
    (\<open>reports/persistence.py\<close>, \<open>reports/provenance.py\<close>): saves, restores, transfers and
    their history; interface \<open>revision_store\<close>.
  \<^item> \<open>IncidentRecords\<close>, \<open>IncidentRules\<close> (\<open>reports/persistence.py\<close>): the keyed incident writes;
    interface \<open>keyed_write\<close>.
  \<^item> \<open>Keyset\<close>, \<open>Listings\<close> (\<open>identity/accounts.py\<close>, \<open>reports/persistence.py\<close>): pages by key;
    interface \<open>keyset\<close>, whose readers see every row once; cursors of a time and an identifier.
  \<^item> \<open>ReportRecords\<close>, \<open>ReportRecordRules\<close> (\<open>reports/persistence.py\<close>): reports as the routes see
    them: live access, the keyed writes of officers and administrators as instances of
    \<open>keyed_write\<close>, the listings of reports, the search of an administrator.
  \<^item> \<open>Jobs\<close> (\<open>jobs/service.py\<close>, \<open>jobs/outbox.py\<close>), \<open>Worker\<close> (\<open>worker/routes.py\<close>), \<open>JobRules\<close>,
    \<open>WorkerRules\<close>, \<open>WorkerErrors\<close>: what each transaction does to a row, as moves of a state
    machine, and which exceptions it can raise; \<open>JobProperties\<close>, \<open>DeliveryRules\<close>,
    \<open>JobExamples\<close>: the life of a job.
  \<^item> \<open>Retry\<close>, \<open>Dispatch\<close> (\<open>pipeline/retry.py\<close>, \<open>jobs/dispatcher.py\<close>): bounded retries and the
    outbox.
  \<^item> \<open>CountSheets\<close> (\<open>paperwork/counts.py\<close>, \<open>count_sheet.py\<close>): the balance of a count and the
    totals of a count sheet.
  \<^item> \<open>DailyForms\<close>, \<open>DailyRules\<close>, \<open>RosterRules\<close> (\<open>paperwork/daily.py\<close>): the payloads of the daily
    forms as tables of fields, the coverage of a roster, the copied roster, the inspection made
    from a roster. A validated payload passes its validation again.
  \<^item> \<open>Paperwork\<close>, \<open>PaperworkRules\<close>, \<open>PaperworkProperties\<close> (\<open>paperwork/service.py\<close>,
    \<open>schemas.py\<close>, \<open>policy.py\<close>, \<open>actions.py\<close>): the records, their history as a second instance
    of \<open>revision_store\<close>, restores, stale saves, and the listings by pages.

  What the groups of lemmas show. An elimination rule \<open>f_Inr\<close> says what a successful run of \<open>f\<close>
  has written; the invariants (\<open>identity_wf\<close>, \<open>session_wf\<close>, \<open>history_wf\<close>, \<open>access_wf\<close>,
  \<open>office_wf\<close>, \<open>desk_wf\<close>) are proved over these rules for every step; the properties follow from both.

  Loops and bounds. The rejection loop of temporary PINs runs on the draws it is given and is
  shown to return after 82 different candidates; the retry loop terminates by the measure of
  the attempts that are left; recursion on JSON is structural. Reading all pages of a listing
  takes fuel, one unit per page, and more fuel than there are rows is shown to be enough. No
  fuel is used elsewhere.
  Integers are unbounded as in Python; identifiers are 128-bit words.

  Parameters. pydantic's lax conversions of numbers, identifiers, dates and times, the JSON of
  the paper forms, the pattern match of the database, and the text of a \<open>datetime\<close> with its
  parser are arguments; what is relied on
  is named (\<open>coercions_ok\<close>, \<open>sheet_input_ok\<close>, \<open>iso_ok\<close>): a converted value converts to itself, and
  the text of a time is read back as that time.

  Not modelled. HTML templates, Flask's routing and cookies, the language model and the search
  service, prompts, document generation (docx and PDF), the schema migrations and the
  command-line entry points: they are input and output around the operations above. Nor are
  the roster import, packets and the text pipeline. Strings are read as code points below 256.
\<close>

end
